(* ===== verification/Prelude.thy ===== *)
theory Prelude
  imports Main Complex_Main "HOL-Library.Sublist"
begin

text \<open>
  The prelude of the development: the JavaScript library functions the console uses
  (strings, numbers, arrays, JSON values), the result type of fallible code, and the
  generic lemmas the components share.

  Strings are HOL strings that hold the UTF-8 bytes of the text. Every character below 128 is one
  JavaScript code unit; the few typographic characters the console prints (dash, middle dot,
  ellipsis, arrow) are the named constants below. Where the code compares the length of a text that a
  user types, \<open>js_length\<close> counts its UTF-16 code units, as JavaScript does; identifiers are shortened by
  characters, which is the same for those of the service. Case conversion and white space are those of
  the ASCII range, which is where the code uses them.
\<close>

section \<open>Collections of rewrite rules\<close>

named_theorems js_simps \<open>definitions of the JavaScript library functions\<close>
named_theorems session_simps \<open>field effects of the session operations\<close>
named_theorems client_simps \<open>field effects of the client operations\<close>
named_theorems nav_simps \<open>the static navigation tables\<close>

section \<open>Results\<close>

text \<open>A computation that may throw: \<open>Inl\<close> carries what was thrown.\<close>

type_synonym ('e, 'a) result = "'e + 'a"

fun is_ok :: "'e + 'a \<Rightarrow> bool" where
  "is_ok (Inl _) = False"
| "is_ok (Inr _) = True"

section \<open>Optional values\<close>

text \<open>\<open>!!s\<close> for an optional string: the empty string is falsy too.\<close>

fun truthy :: "string option \<Rightarrow> bool" where
  "truthy None = False"
| "truthy (Some s) = (s \<noteq> [])"

text \<open>\<open>a ?? b\<close>.\<close>

fun or_else :: "'a option \<Rightarrow> 'a \<Rightarrow> 'a" where
  "or_else (Some x) d = x"
| "or_else None d = d"

lemma truthy_iff: "truthy x \<longleftrightarrow> (\<exists>s. x = Some s \<and> s \<noteq> [])"
  by (cases x) auto

section \<open>Typographic constants\<close>

definition em_dash :: string where
  "em_dash = [CHR 0xE2, CHR 0x80, CHR 0x94]"

definition en_dash :: string where
  "en_dash = [CHR 0xE2, CHR 0x80, CHR 0x93]"

text \<open>The code units of a text: one for each character, two for one that takes four bytes. \<open>slice(0, n)\<close> keeps
  the whole characters within \<open>n\<close> units; half of a pair of units has no bytes, and is left out.\<close>

definition js_units :: "char \<Rightarrow> nat" where
  "js_units c = (let b = of_char c :: nat in if b < 128 then 1 else if b < 192 then 0 else if b < 240 then 1 else 2)"

fun js_length :: "string \<Rightarrow> nat" where
  "js_length [] = 0"
| "js_length (c # cs) = js_units c + js_length cs"

fun js_take :: "nat \<Rightarrow> string \<Rightarrow> string" where
  "js_take n [] = []"
| "js_take n (c # cs) = (if js_units c \<le> n then c # js_take (n - js_units c) cs else [])"

lemma js_take_length: "js_length (js_take n s) \<le> n"
proof (induction s arbitrary: n)
  case (Cons c s)
  from Cons [of "n - js_units c"] show ?case by (cases "js_units c \<le> n") simp_all
qed simp

lemma js_take_all: "js_length s \<le> n \<Longrightarrow> js_take n s = s"
  by (induction s arbitrary: n) auto

lemma js_length_ascii: "list_all (\<lambda>c. of_char c < (128 :: nat)) s \<Longrightarrow> js_length s = length s"
  by (induction s) (simp_all add: js_units_def)

definition mid_dot :: string where
  "mid_dot = [CHR 0xC2, CHR 0xB7]"

definition ellipsis :: string where
  "ellipsis = [CHR 0xE2, CHR 0x80, CHR 0xA6]"

section \<open>Strings\<close>

definition js_space :: "char \<Rightarrow> bool" where
  "js_space c = (c \<in> {CHR 0x09, CHR 0x0A, CHR 0x0B, CHR 0x0C, CHR 0x0D, CHR '' ''})"

definition js_trim :: "string \<Rightarrow> string" where
  "js_trim s = rev (dropWhile js_space (rev (dropWhile js_space s)))"

definition is_lower :: "char \<Rightarrow> bool" where
  "is_lower c = (97 \<le> (of_char c :: nat) \<and> (of_char c :: nat) \<le> 122)"

definition is_upper :: "char \<Rightarrow> bool" where
  "is_upper c = (65 \<le> (of_char c :: nat) \<and> (of_char c :: nat) \<le> 90)"

definition is_digit :: "char \<Rightarrow> bool" where
  "is_digit c = (48 \<le> (of_char c :: nat) \<and> (of_char c :: nat) \<le> 57)"

definition upper_char :: "char \<Rightarrow> char" where
  "upper_char c = (if is_lower c then char_of ((of_char c :: nat) - 32) else c)"

definition lower_char :: "char \<Rightarrow> char" where
  "lower_char c = (if is_upper c then char_of ((of_char c :: nat) + 32) else c)"

definition to_upper :: "string \<Rightarrow> string" where
  "to_upper s = map upper_char s"

definition to_lower :: "string \<Rightarrow> string" where
  "to_lower s = map lower_char s"

text \<open>\<open>s.startsWith(p)\<close>, \<open>s.endsWith(p)\<close> and \<open>s.includes(q)\<close>.\<close>

definition starts_with :: "string \<Rightarrow> string \<Rightarrow> bool" where
  "starts_with s p = (take (length p) s = p)"

definition ends_with :: "string \<Rightarrow> string \<Rightarrow> bool" where
  "ends_with s p = starts_with (rev s) (rev p)"

fun js_includes :: "string \<Rightarrow> string \<Rightarrow> bool" where
  "js_includes [] q = (q = [])"
| "js_includes (c # cs) q = (starts_with (c # cs) q \<or> js_includes cs q)"

text \<open>\<open>s.split(c)\<close> for a one-character separator, and \<open>xs.join(sep)\<close>.\<close>

fun js_split :: "char \<Rightarrow> string \<Rightarrow> string list" where
  "js_split d [] = [[]]"
| "js_split d (c # cs) =
     (if c = d then [] # js_split d cs
      else (case js_split d cs of [] \<Rightarrow> [[c]] | w # ws \<Rightarrow> (c # w) # ws))"

fun js_join :: "string \<Rightarrow> string list \<Rightarrow> string" where
  "js_join sep [] = []"
| "js_join sep [x] = x"
| "js_join sep (x # y # zs) = x @ sep @ js_join sep (y # zs)"

text \<open>\<open>s[0].toUpperCase() + s.slice(1)\<close>; the empty string stays empty.\<close>

fun capitalize :: "string \<Rightarrow> string" where
  "capitalize [] = []"
| "capitalize (c # cs) = upper_char c # cs"

lemma starts_with_prefix: "starts_with s p \<longleftrightarrow> prefix p s"
  by (auto simp: starts_with_def prefix_def) (metis append_take_drop_id)

lemma js_includes_sublist: "js_includes s q \<longleftrightarrow> sublist q s"
proof (induction s)
  case Nil
  then show ?case by simp
next
  case (Cons c cs)
  then show ?case by (simp add: sublist_Cons_right starts_with_prefix)
qed

lemma js_includes_Nil [simp]: "js_includes s []"
  by (simp add: js_includes_sublist)

lemma starts_with_append [simp]: "starts_with (p @ s) p"
  by (simp add: starts_with_def)

lemma starts_with_iff: "starts_with s p \<longleftrightarrow> (\<exists>r. s = p @ r)"
  by (auto simp: starts_with_prefix prefix_def)

lemma js_split_not_Nil [simp]: "js_split d s \<noteq> []"
  by (cases s) (auto split: list.splits)

lemma js_join_split: "js_join [d] (js_split d s) = s"
proof (induction s)
  case Nil
  then show ?case by simp
next
  case (Cons c cs)
  obtain w ws where w: "js_split d cs = w # ws"
    by (cases "js_split d cs") auto
  have 1: "js_join [d] ((c # w) # ws) = c # js_join [d] (w # ws)"
    by (cases ws) simp_all
  have 2: "js_join [d] (w # ws) = cs"
    using Cons.IH by (simp only: w)
  show ?case by (simp add: w 1 2)
qed

lemma js_split_no_sep: "w \<in> set (js_split d s) \<Longrightarrow> d \<notin> set w"
proof (induction s arbitrary: w)
  case (Cons c cs)
  then show ?case by (cases "js_split d cs") (auto split: if_splits)
qed simp

section \<open>Decimal printing\<close>

definition digit_char :: "nat \<Rightarrow> char" where
  "digit_char d = char_of (48 + d)"

fun show_nat :: "nat \<Rightarrow> string" where
  "show_nat n = (if n < 10 then [digit_char n] else show_nat (n div 10) @ [digit_char (n mod 10)])"

declare show_nat.simps [simp del]

definition show_int :: "int \<Rightarrow> string" where
  "show_int i = (if i < 0 then ''-'' @ show_nat (nat (- i)) else show_nat (nat i))"

lemma show_nat_not_Nil [simp]: "show_nat n \<noteq> []"
  by (subst show_nat.simps) simp

lemma digit_char_is_digit: "d < 10 \<Longrightarrow> is_digit (digit_char d)"
  by (simp add: is_digit_def digit_char_def)

lemma show_nat_digits: "c \<in> set (show_nat n) \<Longrightarrow> is_digit c"
proof (induction n rule: show_nat.induct)
  case (1 n)
  then show ?case
    by (subst (asm) (2) show_nat.simps) (auto split: if_splits intro: digit_char_is_digit)
qed

text \<open>Reading the digits back gives the number: printing loses nothing.\<close>

definition digit_val :: "char \<Rightarrow> nat" where
  "digit_val c = of_char c - 48"

definition read_nat :: "string \<Rightarrow> nat" where
  "read_nat s = foldl (\<lambda>a c. 10 * a + digit_val c) 0 s"

lemma digit_val_char [simp]: "d < 10 \<Longrightarrow> digit_val (digit_char d) = d"
  by (simp add: digit_val_def digit_char_def)

lemma read_show_nat: "read_nat (show_nat n) = n"
proof (induction n rule: show_nat.induct)
  case (1 n)
  show ?case
  proof (cases "n < 10")
    case True
    then show ?thesis by (subst show_nat.simps) (simp add: read_nat_def)
  next
    case False
    with 1 have "read_nat (show_nat (n div 10)) = n div 10" by simp
    with False show ?thesis by (subst show_nat.simps) (simp add: read_nat_def)
  qed
qed

lemma show_nat_inj: "show_nat m = show_nat n \<longleftrightarrow> m = n"
  by (metis read_show_nat)

section \<open>Numbers\<close>

text \<open>
  \<open>Math.round\<close>: to the nearest integer, ties towards plus infinity. Numbers that the code
  divides are exact rationals in the model.
\<close>

definition js_round :: "rat \<Rightarrow> int" where
  "js_round x = \<lfloor>x + 1 / 2\<rfloor>"

lemma js_round_of_int [simp]: "js_round (of_int i) = i"
proof -
  have "\<lfloor>(of_int i :: rat) + 1 / 2\<rfloor> = i" by (rule floor_unique) simp_all
  then show ?thesis by (simp add: js_round_def)
qed

lemma js_round_mono: "x \<le> y \<Longrightarrow> js_round x \<le> js_round y"
  by (simp add: js_round_def floor_mono)

lemma js_round_bounds: "of_int (js_round x) - 1 / 2 \<le> x \<and> x < of_int (js_round x) + 1 / 2"
proof -
  have "of_int \<lfloor>x + 1 / 2\<rfloor> \<le> x + 1 / 2" by simp
  moreover have "x + 1 / 2 < of_int \<lfloor>x + 1 / 2\<rfloor> + 1" by linarith
  ultimately show ?thesis unfolding js_round_def by linarith
qed

section \<open>JSON values\<close>

text \<open>What \<open>JSON.parse\<close> can return; \<open>undefined\<close> (a missing member) is \<open>None\<close>.\<close>

datatype json =
    JNull
  | JBool bool
  | JNum rat
  | JStr string
  | JArr "json list"
  | JObj "(string \<times> json) list"

text \<open>\<open>value?.key\<close> on a parsed value: only objects have the members the code reads.\<close>

fun json_get :: "json \<Rightarrow> string \<Rightarrow> json option" where
  "json_get (JObj kvs) k = map_of (rev kvs) k"
| "json_get _ k = None"

fun json_string :: "json option \<Rightarrow> string option" where
  "json_string (Some (JStr s)) = Some s"
| "json_string _ = None"

section \<open>Association lists as JavaScript Maps\<close>

text \<open>\<open>Map.set\<close> on a Map kept in insertion order, and \<open>Map.delete\<close>.\<close>

fun al_set :: "'k \<Rightarrow> 'v \<Rightarrow> ('k \<times> 'v) list \<Rightarrow> ('k \<times> 'v) list" where
  "al_set k v [] = [(k, v)]"
| "al_set k v ((k', v') # m) = (if k' = k then (k, v) # m else (k', v') # al_set k v m)"

definition al_delete :: "'k \<Rightarrow> ('k \<times> 'v) list \<Rightarrow> ('k \<times> 'v) list" where
  "al_delete k m = filter (\<lambda>p. fst p \<noteq> k) m"

lemma map_of_al_set [simp]: "map_of (al_set k v m) = (map_of m)(k \<mapsto> v)"
  by (induction m) (auto simp: fun_eq_iff)

lemma map_of_al_delete [simp]: "map_of (al_delete k m) = (map_of m)(k := None)"
proof (induction m)
  case (Cons p m)
  then show ?case by (cases p) (auto simp: al_delete_def fun_eq_iff)
qed (simp add: al_delete_def)

lemma keys_al_set: "fst ` set (al_set k v m) = insert k (fst ` set m)"
proof (induction m)
  case (Cons p m)
  then show ?case by (cases p) (simp add: insert_commute)
qed simp

lemma set_al_delete [simp]: "set (al_delete k m) = {p \<in> set m. fst p \<noteq> k}"
  by (auto simp: al_delete_def)

lemma map_of_foldl_set:
  "map_of (foldl (\<lambda>m (k, v). al_set k v m) m xs) = map_of m ++ map_of (rev xs)"
  by (induction xs arbitrary: m) (auto simp: fun_eq_iff map_add_def split: option.split)

lemma distinct_al_set: "distinct (map fst m) \<Longrightarrow> distinct (map fst (al_set k v m))"
proof (induction m)
  case (Cons p m)
  moreover obtain a b where "p = (a, b)" by (cases p)
  moreover have "set (map fst (al_set k v m)) = insert k (set (map fst m))"
    using keys_al_set [of k v m] by simp
  ultimately show ?case by auto
qed simp

lemma distinct_al_delete: "distinct (map fst m) \<Longrightarrow> distinct (map fst (al_delete k m))"
  by (auto simp: al_delete_def distinct_map_filter)

lemma filter_key_distinct: "distinct (map fst m) \<Longrightarrow> length (filter (\<lambda>e. fst e = k) m) \<le> 1"
proof (induction m)
  case (Cons p m)
  then have "filter (\<lambda>e. fst e = fst p) m = []" by (auto simp: filter_empty_conv image_iff)
  with Cons show ?case by (cases "fst p = k") simp_all
qed simp

section \<open>Lists\<close>

text \<open>\<open>xs.findIndex(p)\<close>, minus one when no element satisfies \<open>p\<close>.\<close>

fun find_index_from :: "int \<Rightarrow> ('a \<Rightarrow> bool) \<Rightarrow> 'a list \<Rightarrow> int" where
  "find_index_from i p [] = - 1"
| "find_index_from i p (x # xs) = (if p x then i else find_index_from (i + 1) p xs)"

definition find_index :: "('a \<Rightarrow> bool) \<Rightarrow> 'a list \<Rightarrow> int" where
  "find_index p xs = find_index_from 0 p xs"

text \<open>\<open>xs.slice(-n)\<close> for \<open>n > 0\<close>: the last \<open>n\<close> elements.\<close>

definition take_last :: "nat \<Rightarrow> 'a list \<Rightarrow> 'a list" where
  "take_last n xs = drop (length xs - n) xs"

lemma length_take_last [simp]: "length (take_last n xs) = min n (length xs)"
  by (simp add: take_last_def)

lemma take_last_snoc: "0 < n \<Longrightarrow> take_last n (xs @ [x]) = take_last (n - 1) xs @ [x]"
  by (cases n) (simp_all add: take_last_def)

end
