(* ===== verification/WireAuth.thy ===== *)
theory WireAuth
  imports Prelude
begin

text \<open>
  The wire types of the GraphRec API (\<open>web/src/api/types.ts\<close>), first part: errors,
  tenants and authentication. The file is modelled by three theories, \<open>WireAuth\<close>,
  \<open>WireTypes\<close> and \<open>WireOps\<close>: one record per interface,
  one datatype per string union, in the order of the file, and the error class with its
  constructor. An optional or nullable member is an \<open>option\<close>. A string union that the file
  leaves open (\<open>| string\<close>) is a string. Timestamps are strings, as on the wire; counts are
  integers, other numbers rationals. \<open>Record<string, T>\<close> is an association list, because
  the order of its entries reaches the screen. Field names carry a prefix per record, since
  Isabelle's field selectors share one name space.
\<close>

section \<open>Errors\<close>

record FieldError =
  fe_field :: string
  fe_message :: string

record ErrorDetails =
  ed_fields :: "FieldError list option"
  ed_other :: "(string \<times> json) list"

record ErrorInfo =
  ei_code :: "string option"
  ei_message :: "string option"
  ei_correlation_id :: "string option"
  ei_retryable :: "bool option"
  ei_retry_after_seconds :: "int option"
  ei_details :: "ErrorDetails option"

record ErrorBody =
  eb_error :: "ErrorInfo option"

record GraphRecApiError =
  err_message :: string
  err_status :: int
  err_code :: string
  err_correlationId :: "string option"
  err_retryAfterSeconds :: "int option"
  err_fields :: "FieldError list"
  err_details :: ErrorDetails

definition no_details :: ErrorDetails where
  "no_details = \<lparr>ed_fields = None, ed_other = []\<rparr>"

text \<open>\<open>body?.error?.member\<close>.\<close>

definition error_info :: "ErrorBody option \<Rightarrow> ErrorInfo option" where
  "error_info body = Option.bind body eb_error"

definition new_GraphRecApiError ::
    "int \<Rightarrow> ErrorBody option \<Rightarrow> string option \<Rightarrow> GraphRecApiError" where
  "new_GraphRecApiError status body fallbackCorrelationId =
     (let info = error_info body in
      \<lparr>err_message = (case Option.bind info ei_message of
           Some m \<Rightarrow> m
         | None \<Rightarrow> ''GraphRec could not process this request''),
       err_status = status,
       err_code = (case Option.bind info ei_code of
           Some c \<Rightarrow> c
         | None \<Rightarrow> if status = 0 then ''network_error'' else ''unknown_error''),
       err_correlationId = (case Option.bind info ei_correlation_id of
           Some c \<Rightarrow> Some c
         | None \<Rightarrow> fallbackCorrelationId),
       err_retryAfterSeconds = Option.bind info ei_retry_after_seconds,
       err_fields = (case Option.bind (Option.bind info ei_details) ed_fields of
           Some fs \<Rightarrow> fs
         | None \<Rightarrow> []),
       err_details = (case Option.bind info ei_details of
           Some d \<Rightarrow> d
         | None \<Rightarrow> no_details)\<rparr>)"

record LimitConflict =
  lc_limit_name :: string
  lc_limit :: int
  lc_used :: int
  lc_over_by :: int
  lc_tenant_id :: "string option"
  lc_tenant_name :: "string option"

section \<open>Tenants and authentication\<close>

record TenantRegistrationInput =
  tri_name :: string
  tri_admin_email :: string

record TenantRegistrationResult =
  trr_id :: string
  trr_name :: string
  trr_status :: string
  trr_created_at :: string
  trr_administrator_email :: string
  trr_next_step :: string
  trr_setup_token :: "string option"
  trr_setup_token_expires_at :: "string option"

record LoginInput =
  li_email :: string
  li_password :: string

record SetupPasswordInput =
  spi_setup_token :: string
  spi_password :: string
  spi_email :: "string option"

record RecoverPasswordInput =
  rpi_recovery_token :: string
  rpi_password :: string
  rpi_email :: "string option"

datatype TenantUserRole = tenant_administrator | tenant_developer

record TenantUserResource =
  tu_id :: string
  tu_email :: string
  tu_display_name :: string
  tu_role :: TenantUserRole
  tu_status :: string
  tu_created_at :: string
  tu_last_authenticated_at :: "string option"

record TenantUserInvitation = TenantUserResource +
  tui_setup_token :: string
  tui_setup_token_expires_at :: string

text \<open>The roles a platform operator can hold (also the union of \<open>auth/session.ts\<close>).\<close>

datatype OperatorRole =
    role_platform | role_plan_management | role_monitoring | role_audit | role_operator_admin

fun operator_role_name :: "OperatorRole \<Rightarrow> string" where
  "operator_role_name role_platform = ''platform''"
| "operator_role_name role_plan_management = ''plan_management''"
| "operator_role_name role_monitoring = ''monitoring''"
| "operator_role_name role_audit = ''audit''"
| "operator_role_name role_operator_admin = ''operator_admin''"

record AuthTokenPair =
  tp_access_token :: string
  tp_expires_in :: int
  tp_refresh_token :: string
  tp_user_role :: TenantUserRole
  tp_scopes :: "string list"
  tp_email :: "string option"
  tp_tenant_name :: "string option"

end
