(* ===== verification/Session.thy ===== *)
theory Session
  imports WireAuth
begin

text \<open>
  The session store of the console (\<open>web/src/auth/session.ts\<close>): two realms, one store. A
  session is kept in a module variable (the cache) and in \<open>window.sessionStorage\<close>; the
  cache is \<open>undefined\<close> until the first read. The state also holds the clock, the flag of an
  explicit sign-out, the number of \<open>SESSION_EVENT\<close>s dispatched, and whether the storage
  works (a browser may refuse it, and then every access throws).
\<close>

section \<open>State\<close>

text \<open>
  A session is built from the answer of the service without a check, so it can lack a token or an expiry: an
  access token of \<open>None\<close> is \<open>undefined\<close>, an expiry of \<open>None\<close> is NaN. A role that is missing counts as a developer's, as
  every comparison of the code has it; scopes that are missing count as none (asking for one of them throws,
  and the page that asks is not shown).
\<close>

record TenantSession =
  tn_email :: string
  tn_role :: TenantUserRole
  tn_scopes :: "string list"
  tn_accessToken :: "string option"
  tn_tenantName :: "string option"
  tn_refreshToken :: "string option"
  tn_expiresAt :: "int option"
  tn_signedInAt :: int

datatype Credential = cred_operator | cred_bootstrap_token

record PlatformSession =
  pn_token :: string
  pn_signedInAt :: int
  pn_credential :: "Credential option"
  pn_email :: "string option"
  pn_displayName :: "string option"
  pn_roles :: "OperatorRole list option"
  pn_expiresAt :: "int option"

definition TENANT_KEY :: string where
  "TENANT_KEY = ''graphrec.session.tenant''"

definition PLATFORM_KEY :: string where
  "PLATFORM_KEY = ''graphrec.session.platform''"

text \<open>The text of a storage entry, by what \<open>JSON.parse\<close> makes of it.\<close>

datatype stored =
    StTenant TenantSession
  | StPlatform PlatformSession
  | StText string

text \<open>\<open>undefined\<close>, or the session or null that was read or set.\<close>

datatype 's cache = Unread | Cached "'s option"

record browser =
  storage :: "string \<rightharpoonup> stored"
  storage_works :: bool
  tenantCache :: "TenantSession cache"
  platformCache :: "PlatformSession cache"
  signedOutExplicitly :: bool
  session_events :: nat
  now :: int

section \<open>Reading and writing the storage\<close>

text \<open>\<open>read<T>\<close>: null when there is no entry, when it is not JSON, or when storage throws.\<close>

definition read_tenant :: "string \<Rightarrow> 'a browser_scheme \<Rightarrow> TenantSession option" where
  "read_tenant key b =
     (if \<not> storage_works b then None
      else case storage b key of Some (StTenant s) \<Rightarrow> Some s | _ \<Rightarrow> None)"

definition read_platform :: "string \<Rightarrow> 'a browser_scheme \<Rightarrow> PlatformSession option" where
  "read_platform key b =
     (if \<not> storage_works b then None
      else case storage b key of Some (StPlatform s) \<Rightarrow> Some s | _ \<Rightarrow> None)"

definition write_entry :: "string \<Rightarrow> stored option \<Rightarrow> 'a browser_scheme \<Rightarrow> 'a browser_scheme" where
  "write_entry key value b =
     (let b1 = (if storage_works b then b\<lparr>storage := (storage b)(key := value)\<rparr> else b)
      in b1\<lparr>session_events := Suc (session_events b1)\<rparr>)"

section \<open>The tenant realm\<close>

definition tenant_lapsed :: "int \<Rightarrow> TenantSession \<Rightarrow> bool" where
  "tenant_lapsed t s =
     ((case tn_expiresAt s of None \<Rightarrow> False | Some e \<Rightarrow> e \<le> t) \<and> \<not> truthy (tn_refreshToken s))"

definition getTenantSession ::
    "'a browser_scheme \<Rightarrow> TenantSession option \<times> 'a browser_scheme" where
  "getTenantSession b =
     (let c = (case tenantCache b of Unread \<Rightarrow> read_tenant TENANT_KEY b | Cached c \<Rightarrow> c);
          b1 = b\<lparr>tenantCache := Cached c\<rparr>
      in case c of
           None \<Rightarrow> (None, b1)
         | Some s \<Rightarrow>
             if tenant_lapsed (now b) s
             then (None, write_entry TENANT_KEY None (b1\<lparr>tenantCache := Cached None\<rparr>))
             else (Some s, b1))"

text \<open>The part of \<open>setTenantSession\<close> that stores the session it has built. \<open>JSON.stringify\<close> writes NaN as null, which compares
  as zero when it is read again.\<close>

definition as_written :: "TenantSession \<Rightarrow> TenantSession" where
  "as_written s = s\<lparr>tn_expiresAt := Some (or_else (tn_expiresAt s) 0)\<rparr>"

definition store_tenant :: "TenantSession \<Rightarrow> 'a browser_scheme \<Rightarrow> 'a browser_scheme" where
  "store_tenant s b = write_entry TENANT_KEY (Some (StTenant (as_written s))) (b\<lparr>tenantCache := Cached (Some s)\<rparr>)"

definition tenant_session_of :: "string \<Rightarrow> AuthTokenPair \<Rightarrow> int \<Rightarrow> int \<Rightarrow> TenantSession" where
  "tenant_session_of email pair signedInAt t =
     \<lparr>tn_email = email, tn_role = tp_user_role pair, tn_scopes = tp_scopes pair,
      tn_accessToken = Some (tp_access_token pair), tn_tenantName = tp_tenant_name pair,
      tn_refreshToken = Some (tp_refresh_token pair),
      tn_expiresAt = Some (t + tp_expires_in pair * 1000), tn_signedInAt = signedInAt\<rparr>"

definition setTenantSession ::
    "string \<Rightarrow> AuthTokenPair \<Rightarrow> int option \<Rightarrow> 'a browser_scheme \<Rightarrow> TenantSession \<times> 'a browser_scheme" where
  "setTenantSession email pair signedInAt b =
     (let s = tenant_session_of email pair (or_else signedInAt (now b)) (now b)
      in (s, store_tenant s b))"

definition clearTenantSession :: "'a browser_scheme \<Rightarrow> 'a browser_scheme" where
  "clearTenantSession b = write_entry TENANT_KEY None (b\<lparr>tenantCache := Cached None\<rparr>)"

definition markExplicitSignOut :: "'a browser_scheme \<Rightarrow> 'a browser_scheme" where
  "markExplicitSignOut b = b\<lparr>signedOutExplicitly := True\<rparr>"

definition consumeExplicitSignOut :: "'a browser_scheme \<Rightarrow> bool \<times> 'a browser_scheme" where
  "consumeExplicitSignOut b = (signedOutExplicitly b, b\<lparr>signedOutExplicitly := False\<rparr>)"

section \<open>The platform realm\<close>

text \<open>An operator token expires; the bootstrap token, with no expiry, does not.\<close>

definition platform_lapsed :: "int \<Rightarrow> PlatformSession \<Rightarrow> bool" where
  "platform_lapsed t s =
     (case pn_expiresAt s of None \<Rightarrow> False | Some e \<Rightarrow> e \<noteq> 0 \<and> e \<le> t)"

definition getPlatformSession ::
    "'a browser_scheme \<Rightarrow> PlatformSession option \<times> 'a browser_scheme" where
  "getPlatformSession b =
     (let c = (case platformCache b of Unread \<Rightarrow> read_platform PLATFORM_KEY b | Cached c \<Rightarrow> c);
          b1 = b\<lparr>platformCache := Cached c\<rparr>
      in case c of
           None \<Rightarrow> (None, b1)
         | Some s \<Rightarrow>
             if platform_lapsed (now b) s
             then (None, write_entry PLATFORM_KEY None (b1\<lparr>platformCache := Cached None\<rparr>))
             else (Some s, b1))"

definition store_platform :: "PlatformSession \<Rightarrow> 'a browser_scheme \<Rightarrow> 'a browser_scheme" where
  "store_platform s b =
     write_entry PLATFORM_KEY (Some (StPlatform s)) (b\<lparr>platformCache := Cached (Some s)\<rparr>)"

text \<open>The \<open>details\<close> argument carries every optional member at once.\<close>

definition setPlatformSession ::
    "string \<Rightarrow> Credential option \<Rightarrow> string option \<Rightarrow> string option \<Rightarrow> OperatorRole list option
     \<Rightarrow> int option \<Rightarrow> 'a browser_scheme \<Rightarrow> PlatformSession \<times> 'a browser_scheme" where
  "setPlatformSession token credential email displayName roles expiresAt b =
     (let s = \<lparr>pn_token = token, pn_signedInAt = now b, pn_credential = credential,
               pn_email = email, pn_displayName = displayName, pn_roles = roles,
               pn_expiresAt = expiresAt\<rparr>
      in (s, store_platform s b))"

definition clearPlatformSession :: "'a browser_scheme \<Rightarrow> 'a browser_scheme" where
  "clearPlatformSession b = write_entry PLATFORM_KEY None (b\<lparr>platformCache := Cached None\<rparr>)"

section \<open>Roles and scopes\<close>

definition hasOperatorRole :: "PlatformSession option \<Rightarrow> OperatorRole list \<Rightarrow> bool" where
  "hasOperatorRole session roles =
     (case session of
        None \<Rightarrow> False
      | Some s \<Rightarrow> (case pn_roles s of
            None \<Rightarrow> True
          | Some held \<Rightarrow> list_ex (\<lambda>role. role \<in> set held) roles))"

definition hasScope :: "TenantSession option \<Rightarrow> string \<Rightarrow> bool" where
  "hasScope session scope =
     (case session of None \<Rightarrow> False | Some s \<Rightarrow> scope \<in> set (tn_scopes s))"

fun roleLabel :: "TenantUserRole \<Rightarrow> string" where
  "roleLabel tenant_administrator = ''tenant administrator''"
| "roleLabel tenant_developer = ''tenant developer''"

section \<open>Effects of the operations\<close>

lemma write_entry_fields [session_simps]:
  "tenantCache (write_entry k v b) = tenantCache b"
  "platformCache (write_entry k v b) = platformCache b"
  "signedOutExplicitly (write_entry k v b) = signedOutExplicitly b"
  "storage_works (write_entry k v b) = storage_works b"
  "now (write_entry k v b) = now b"
  "browser.more (write_entry k v b) = browser.more b"
  "session_events (write_entry k v b) = Suc (session_events b)"
  "storage (write_entry k v b) = (if storage_works b then (storage b)(k := v) else storage b)"
  by (simp_all add: write_entry_def)

lemma keys_differ [simp]: "TENANT_KEY \<noteq> PLATFORM_KEY" "PLATFORM_KEY \<noteq> TENANT_KEY"
  by (simp_all add: TENANT_KEY_def PLATFORM_KEY_def)

text \<open>A reload of the page forgets the module variables; the storage stays.\<close>

definition reload :: "'a browser_scheme \<Rightarrow> 'a browser_scheme" where
  "reload b = b\<lparr>tenantCache := Unread, platformCache := Unread, signedOutExplicitly := False\<rparr>"

section \<open>The contract of a realm's session store\<close>

text \<open>
  Both realms offer the same interface: read the current session, store one, clear it. The
  laws say what a client of the store may rely on; \<open>expired\<close> is the realm's own test of a
  session against the clock of the state, and a session that is \<open>durable\<close> is read again as it was written.
\<close>

locale realm_store =
  fixes get :: "'b \<Rightarrow> 's option \<times> 'b"
    and put :: "'s \<Rightarrow> 'b \<Rightarrow> 'b"
    and clear :: "'b \<Rightarrow> 'b"
    and restart :: "'b \<Rightarrow> 'b"
    and expired :: "'b \<Rightarrow> 's \<Rightarrow> bool"
    and persistent :: "'b \<Rightarrow> bool"
    and durable :: "'s \<Rightarrow> bool"
  assumes get_put: "fst (get (put s b)) = (if expired b s then None else Some s)"
    and get_clear: "fst (get (clear b)) = None"
    and get_get: "fst (get (snd (get b))) = fst (get b)"
    and get_expired: "fst (get b) = Some s \<Longrightarrow> \<not> expired b s"
    and get_restart_put: "persistent b \<Longrightarrow> durable s \<Longrightarrow> fst (get (restart (put s b))) = fst (get (put s b))"
    and get_restart_clear: "persistent b \<Longrightarrow> fst (get (restart (clear b))) = None"
    and expired_put: "expired (put s b) s' = expired b s'"
    and expired_get: "expired (snd (get b)) s' = expired b s'"
    and persistent_get: "persistent (snd (get b)) = persistent b"
begin

lemma read_twice: "fst (get (snd (get (put s b)))) = (if expired b s then None else Some s)"
  by (simp add: get_get get_put)

lemma survives_reload:
  "persistent b \<Longrightarrow> durable s \<Longrightarrow> \<not> expired b s \<Longrightarrow> fst (get (restart (put s b))) = Some s"
  by (simp add: get_restart_put get_put)

lemma read_after_lapse: "expired b s \<Longrightarrow> fst (get (put s b)) = None"
  by (simp add: get_put)

lemma cleared_stays_cleared:
  "persistent b \<Longrightarrow> fst (get (restart (clear b))) = None \<and> fst (get (clear b)) = None"
  by (simp add: get_restart_clear get_clear)

end

lemma getTenantSession_cases:
  "fst (getTenantSession b) =
     (case (case tenantCache b of Unread \<Rightarrow> read_tenant TENANT_KEY b | Cached c \<Rightarrow> c) of
        None \<Rightarrow> None
      | Some s \<Rightarrow> if tenant_lapsed (now b) s then None else Some s)"
  by (simp add: getTenantSession_def Let_def split: option.split)

lemma getTenantSession_fields [session_simps]:
  "storage_works (snd (getTenantSession b)) = storage_works b"
  "now (snd (getTenantSession b)) = now b"
  "platformCache (snd (getTenantSession b)) = platformCache b"
  "signedOutExplicitly (snd (getTenantSession b)) = signedOutExplicitly b"
  "browser.more (snd (getTenantSession b)) = browser.more b"
  "tenantCache (snd (getTenantSession b)) = Cached (fst (getTenantSession b))"
  by (simp_all add: getTenantSession_def Let_def write_entry_fields split: option.split)

lemma getPlatformSession_cases:
  "fst (getPlatformSession b) =
     (case (case platformCache b of Unread \<Rightarrow> read_platform PLATFORM_KEY b | Cached c \<Rightarrow> c) of
        None \<Rightarrow> None
      | Some s \<Rightarrow> if platform_lapsed (now b) s then None else Some s)"
  by (simp add: getPlatformSession_def Let_def split: option.split)

lemma getPlatformSession_fields [session_simps]:
  "storage_works (snd (getPlatformSession b)) = storage_works b"
  "now (snd (getPlatformSession b)) = now b"
  "tenantCache (snd (getPlatformSession b)) = tenantCache b"
  "signedOutExplicitly (snd (getPlatformSession b)) = signedOutExplicitly b"
  "browser.more (snd (getPlatformSession b)) = browser.more b"
  "platformCache (snd (getPlatformSession b)) = Cached (fst (getPlatformSession b))"
  by (simp_all add: getPlatformSession_def Let_def write_entry_fields split: option.split)

lemma tenant_get_not_lapsed: "fst (getTenantSession b) = Some s \<Longrightarrow> \<not> tenant_lapsed (now b) s"
  by (auto simp: getTenantSession_cases split: option.splits if_splits)

lemma platform_get_not_lapsed:
  "fst (getPlatformSession b) = Some s \<Longrightarrow> \<not> platform_lapsed (now b) s"
  by (auto simp: getPlatformSession_cases split: option.splits if_splits)

lemma as_written_durable: "tn_expiresAt s \<noteq> None \<Longrightarrow> as_written s = s"
  by (cases s) (auto simp: as_written_def)

text \<open>The laws hold for the code of both realms.\<close>

interpretation tenant_store: realm_store getTenantSession store_tenant clearTenantSession reload
    "\<lambda>b. tenant_lapsed (now b)" storage_works "\<lambda>s. tn_expiresAt s \<noteq> None"
proof
  show "fst (getTenantSession (snd (getTenantSession b))) = fst (getTenantSession b)"
    for b :: "'a browser_scheme"
    using tenant_get_not_lapsed [of b]
    by (subst getTenantSession_cases) (auto simp: getTenantSession_fields split: option.split)
qed (auto simp: getTenantSession_cases store_tenant_def clearTenantSession_def reload_def as_written_durable
      read_tenant_def session_simps split: option.splits if_splits)

interpretation platform_store: realm_store getPlatformSession store_platform
    clearPlatformSession reload "\<lambda>b. platform_lapsed (now b)" storage_works "\<lambda>_. True"
proof
  show "fst (getPlatformSession (snd (getPlatformSession b))) = fst (getPlatformSession b)"
    for b :: "'a browser_scheme"
    using platform_get_not_lapsed [of b]
    by (subst getPlatformSession_cases) (auto simp: getPlatformSession_fields split: option.split)
qed (auto simp: getPlatformSession_cases store_platform_def clearPlatformSession_def reload_def
      read_platform_def session_simps split: option.splits if_splits)

end
