(* ===== verification/HttpClient.thy ===== *)
theory HttpClient
  imports Session
begin

text \<open>
  The HTTP client of the console (\<open>web/src/api/client.ts\<close>). JavaScript runs one piece of an
  \<open>async\<close> function at a time, from one \<open>await\<close> to the next, so the client is a state (the
  module variables of the client and of the session store, the promises in flight and the calls
  suspended on them) and handlers that run to the next suspension: a call of \<open>request\<close>, and the
  arrival of the answer to one \<open>fetch\<close>. An answer resumes every call that waits for the promise,
  in the order the calls began, before another answer is taken, as the browser drains its
  microtasks before the next network task.

  A promise of \<open>performRequest\<close> is a number. A failed computation is an \<open>Inl\<close>.
\<close>

section \<open>Requests and answers\<close>

datatype Realm = public_realm | tenant_realm | platform_realm

datatype Method = GET | POST | PUT | PATCH | DELETE

record RequestOptions =
  ro_method :: "Method option"
  ro_json :: "json option"
  ro_form :: "string option"
  ro_headers :: "(string \<times> string) list option"
  ro_realm :: "Realm option"

definition no_options :: RequestOptions where
  "no_options = \<lparr>ro_method = None, ro_json = None, ro_form = None, ro_headers = None,
                 ro_realm = None\<rparr>"

definition method_of :: "RequestOptions \<Rightarrow> Method" where
  "method_of options = or_else (ro_method options) GET"

definition realm_of :: "RequestOptions \<Rightarrow> Realm" where
  "realm_of options = or_else (ro_realm options) tenant_realm"

text \<open>What \<open>JSON.parse\<close> makes of a response body, by the shapes the client tells apart.\<close>

datatype payload =
    PNull
  | PError ErrorBody
  | PPair AuthTokenPair
  | PValue json

datatype body_text = EmptyText | NotJson | JsonText payload

datatype Reply =
    NetworkFailure
  | BodyFailure
  | Response int "string option" body_text

text \<open>What is thrown: an API error, or any other exception.\<close>

datatype exn = ApiError GraphRecApiError | OtherError string

definition api_error :: "int \<Rightarrow> string \<Rightarrow> string \<Rightarrow> string option \<Rightarrow> exn" where
  "api_error status code message correlationId =
     ApiError (new_GraphRecApiError status
       (Some \<lparr>eb_error = Some \<lparr>ei_code = Some code, ei_message = Some message,
          ei_correlation_id = None, ei_retryable = None, ei_retry_after_seconds = None,
          ei_details = None\<rparr>\<rparr>) correlationId)"

definition no_session_error :: exn where
  "no_session_error = api_error 401 ''no_session'' ''Sign in to continue'' None"

definition network_error :: exn where
  "network_error = api_error 0 ''network_error'' ''GraphRec could not be reached'' None"

definition session_changed_error :: exn where
  "session_changed_error = api_error 409 ''session_changed''
     ''The signed-in account changed while this request was pending. Reload to check its outcome.'' None"

definition invalid_response_error :: "int \<Rightarrow> string option \<Rightarrow> exn" where
  "invalid_response_error status correlationId = api_error status ''invalid_response''
     ''The API returned an unreadable response. Try again.'' correlationId"

section \<open>The call of fetch\<close>

text \<open>\<open>BASE_URL\<close>: the build-time setting without one trailing slash.\<close>

definition base_url :: "string option \<Rightarrow> string" where
  "base_url setting =
     (let s = or_else setting [] in if ends_with s ''/'' then butlast s else s)"

definition apiUrl :: "string \<Rightarrow> string \<Rightarrow> string" where
  "apiUrl base path = (if starts_with path ''/'' then base @ path else path)"

datatype Body = NoBody | JsonBody json | FormBody string

record HttpCall =
  hc_url :: string
  hc_method :: Method
  hc_headers :: "(string \<times> string) list"
  hc_body :: Body

text \<open>\<open>{ Accept, ...options.headers }\<close>, then the assignments that follow it.\<close>

definition request_headers :: "RequestOptions \<Rightarrow> string option \<Rightarrow> (string \<times> string) list" where
  "request_headers options auth =
     (let h = foldl (\<lambda>m (k, v). al_set k v m) [(''Accept'', ''application/json'')]
                (or_else (ro_headers options) []);
          h = (if truthy auth then al_set ''Authorization'' (the auth) h else h)
      in if ro_json options \<noteq> None then al_set ''Content-Type'' ''application/json'' h else h)"

definition request_body :: "RequestOptions \<Rightarrow> Body" where
  "request_body options =
     (case ro_json options of
        Some j \<Rightarrow> JsonBody j
      | None \<Rightarrow> (case ro_form options of Some f \<Rightarrow> FormBody f | None \<Rightarrow> NoBody))"

definition http_call :: "string \<Rightarrow> string \<Rightarrow> RequestOptions \<Rightarrow> string option \<Rightarrow> HttpCall" where
  "http_call base path options auth =
     \<lparr>hc_url = apiUrl base path, hc_method = method_of options,
      hc_headers = request_headers options auth, hc_body = request_body options\<rparr>"

section \<open>State\<close>

text \<open>\<open>JSON.stringify([realm, identity, path, options.headers])\<close>.\<close>

type_synonym ReadKey = "Realm \<times> string option \<times> string \<times> (string \<times> string) list option"

text \<open>Who waits for a fetch: the reads that share it, one write, or the token refresh.\<close>

datatype Flight_kind =
    ReadFlight ReadKey
  | WriteFlight nat
  | RefreshFlight TenantSession

record Flight =
  fl_path :: string
  fl_realm :: Realm
  fl_auth :: "string option"
  fl_kind :: Flight_kind

text \<open>
  The \<open>await\<close> a call of \<open>request\<close> stands at: the refresh before it is sent, its first
  dispatch, the refresh after \<open>token_expired\<close>, its second dispatch.
\<close>

datatype Phase = PreRefresh nat | First nat | RetryRefresh nat | Second nat

fun phase_pid :: "Phase \<Rightarrow> nat" where
  "phase_pid (PreRefresh p) = p"
| "phase_pid (First p) = p"
| "phase_pid (RetryRefresh p) = p"
| "phase_pid (Second p) = p"

fun awaits_refresh :: "Phase \<Rightarrow> bool" where
  "awaits_refresh (PreRefresh _) = True"
| "awaits_refresh (RetryRefresh _) = True"
| "awaits_refresh _ = False"

record Call =
  cl_path :: string
  cl_options :: RequestOptions
  cl_sentWith :: "string option"
  cl_phase :: Phase

text \<open>
  The variable \<open>refreshing\<close>: null, the promise of the refresh in flight, or a promise that was
  already rejected when it was assigned.
\<close>

datatype Refreshing = Idle | Refreshing nat | Stuck exn

record client = browser +
  base :: string
  pendingReads :: "(ReadKey \<times> nat) list"
  refreshing :: Refreshing
  inflight :: "(nat \<times> Flight) list"
  calls :: "(nat \<times> Call) list"
  settled :: "(nat \<times> (exn + payload)) list"
  next_pid :: nat
  next_cid :: nat
  resource_changed :: "string list"
  sent :: "HttpCall list"

text \<open>
  A page is loaded: the module variables are new, the storage is whatever an earlier page of the
  tab left there.
\<close>

definition page_load :: "string \<Rightarrow> (string \<rightharpoonup> stored) \<Rightarrow> bool \<Rightarrow> int \<Rightarrow> client" where
  "page_load url st works t =
     \<lparr>storage = st, storage_works = works, tenantCache = Unread, platformCache = Unread,
      signedOutExplicitly = False, session_events = 0, now = t, base = url, pendingReads = [],
      refreshing = Idle, inflight = [], calls = [], settled = [], next_pid = 0, next_cid = 0,
      resource_changed = [], sent = []\<rparr>"

section \<open>Sending\<close>

definition bearer :: "string \<Rightarrow> string" where
  "bearer token = ''Bearer '' @ token"

text \<open>The template text of the session's token; a missing session or token prints \<open>undefined\<close>.\<close>

definition tenant_bearer :: "TenantSession option \<Rightarrow> string" where
  "tenant_bearer s = bearer (or_else (Option.bind s tn_accessToken) ''undefined'')"

definition platform_bearer :: "PlatformSession option \<Rightarrow> string" where
  "platform_bearer s = bearer (case s of Some x \<Rightarrow> pn_token x | None \<Rightarrow> ''undefined'')"

fun authorization :: "Realm \<Rightarrow> client \<Rightarrow> (exn + string option) \<times> client" where
  "authorization tenant_realm w =
     (case getTenantSession w of
        (None, w1) \<Rightarrow> (Inl no_session_error, w1)
      | (Some s, w1) \<Rightarrow> (Inr (Some (tenant_bearer (Some s))), w1))"
| "authorization platform_realm w =
     (case getPlatformSession w of
        (None, w1) \<Rightarrow> (Inl no_session_error, w1)
      | (Some s, w1) \<Rightarrow> (Inr (Some (bearer (pn_token s))), w1))"
| "authorization public_realm w = (Inr None, w)"

text \<open>\<open>performRequest\<close> up to the \<open>await\<close> of \<open>fetch\<close>.\<close>

definition performRequest_send ::
    "string \<Rightarrow> RequestOptions \<Rightarrow> string option \<Rightarrow> Flight_kind \<Rightarrow> client \<Rightarrow> nat \<times> client" where
  "performRequest_send path options auth kind w =
     (next_pid w,
      w\<lparr>inflight := (next_pid w, \<lparr>fl_path = path, fl_realm = realm_of options,
            fl_auth = auth, fl_kind = kind\<rparr>) # inflight w,
        next_pid := Suc (next_pid w),
        sent := sent w @ [http_call (base w) path options auth]\<rparr>)"

text \<open>\<open>dispatch\<close> up to its \<open>await\<close>: the promise it waits for.\<close>

definition dispatch ::
    "nat \<Rightarrow> string \<Rightarrow> RequestOptions \<Rightarrow> Realm \<Rightarrow> client \<Rightarrow> (exn + nat) \<times> client" where
  "dispatch cid path options realm w =
     (case authorization realm w of
        (Inl e, w1) \<Rightarrow> (Inl e, w1)
      | (Inr identity, w1) \<Rightarrow>
          (let key = (realm, identity, path, ro_headers options)
           in if method_of options = GET
              then (case map_of (pendingReads w1) key of
                      Some p \<Rightarrow> (Inr p, w1)
                    | None \<Rightarrow>
                        (case performRequest_send path options identity (ReadFlight key) w1 of
                           (p, w2) \<Rightarrow> (Inr p, w2\<lparr>pendingReads := al_set key p (pendingReads w2)\<rparr>)))
              else (case performRequest_send path options identity (WriteFlight cid) w1 of
                      (p, w2) \<Rightarrow> (Inr p, w2))))"

section \<open>Refreshing\<close>

definition REFRESH_MARGIN_MS :: int where
  "REFRESH_MARGIN_MS = 30000"

definition needsRefresh :: "client \<Rightarrow> bool \<times> client" where
  "needsRefresh w =
     (case getTenantSession w of
        (None, w1) \<Rightarrow> (False, w1)
      | (Some s, w1) \<Rightarrow>
          (truthy (tn_refreshToken s) \<and>
             (case tn_expiresAt s of None \<Rightarrow> False | Some e \<Rightarrow> e - REFRESH_MARGIN_MS \<le> now w1), w1))"

definition refresh_options :: "string \<Rightarrow> RequestOptions" where
  "refresh_options token =
     \<lparr>ro_method = Some POST, ro_json = Some (JObj [(''refresh_token'', JStr token)]),
      ro_form = None, ro_headers = None, ro_realm = Some public_realm\<rparr>"

text \<open>
  \<open>refreshTenantSession\<close> up to its \<open>await\<close>. Without a refresh token the body throws before it
  suspends: its \<open>finally\<close> resets \<open>refreshing\<close> first, and only then is the rejected promise
  assigned to it.
\<close>

definition refreshTenantSession :: "client \<Rightarrow> (exn + nat) \<times> client" where
  "refreshTenantSession w =
     (case refreshing w of
        Refreshing p \<Rightarrow> (Inr p, w)
      | Stuck e \<Rightarrow> (Inl e, w)
      | Idle \<Rightarrow>
          (case getTenantSession w of
             (session, w1) \<Rightarrow>
               (case session of
                  Some s \<Rightarrow>
                    if truthy (tn_refreshToken s)
                    then (case performRequest_send ''/v1/auth/refresh''
                                 (refresh_options (the (tn_refreshToken s))) None
                                 (RefreshFlight s) w1 of
                            (p, w2) \<Rightarrow> (Inr p, w2\<lparr>refreshing := Refreshing p\<rparr>))
                    else (Inl no_session_error,
                          clearTenantSession w1\<lparr>refreshing := Stuck no_session_error\<rparr>)
                | None \<Rightarrow> (Inl no_session_error,
                          clearTenantSession w1\<lparr>refreshing := Stuck no_session_error\<rparr>))))"

section \<open>A call of request\<close>

definition settle :: "nat \<Rightarrow> exn + payload \<Rightarrow> client \<Rightarrow> client" where
  "settle cid r w =
     w\<lparr>calls := al_delete cid (calls w), settled := settled w @ [(cid, r)]\<rparr>"

definition suspend :: "nat \<Rightarrow> Call \<Rightarrow> client \<Rightarrow> client" where
  "suspend cid c w = w\<lparr>calls := al_set cid c (calls w)\<rparr>"

definition token_expired :: "exn \<Rightarrow> bool" where
  "token_expired e = (case e of ApiError a \<Rightarrow> err_code a = ''token_expired'' | OtherError _ \<Rightarrow> False)"

text \<open>The \<open>catch\<close> of \<open>request\<close>.\<close>

definition request_catch :: "nat \<Rightarrow> Call \<Rightarrow> exn \<Rightarrow> client \<Rightarrow> client" where
  "request_catch cid c e w =
     (case getTenantSession w of
        (current, w1) \<Rightarrow>
          if realm_of (cl_options c) = tenant_realm \<and> token_expired e
             \<and> truthy (Option.bind current tn_refreshToken)
             \<and> Option.bind current tn_accessToken = cl_sentWith c
          then (case refreshTenantSession w1 of
                  (Inl e', w2) \<Rightarrow> settle cid (Inl e') w2
                | (Inr p, w2) \<Rightarrow> suspend cid (c\<lparr>cl_phase := RetryRefresh p\<rparr>) w2)
          else settle cid (Inl e) w1)"

text \<open>\<open>request\<close> from the reading of \<open>sentWith\<close> to the \<open>await\<close> of its first dispatch.\<close>

definition request_first :: "nat \<Rightarrow> string \<Rightarrow> RequestOptions \<Rightarrow> client \<Rightarrow> client" where
  "request_first cid path options w =
     (case (if realm_of options = tenant_realm
            then (case getTenantSession w of (s, w1) \<Rightarrow> (Option.bind s tn_accessToken, w1))
            else (None, w)) of
        (sentWith, w1) \<Rightarrow>
          (let call = (\<lambda>p. \<lparr>cl_path = path, cl_options = options, cl_sentWith = sentWith,
                            cl_phase = First p\<rparr>)
           in case dispatch cid path options (realm_of options) w1 of
                (Inl e, w2) \<Rightarrow> request_catch cid (call 0) e w2
              | (Inr p, w2) \<Rightarrow> suspend cid (call p) w2))"

definition request :: "string \<Rightarrow> RequestOptions \<Rightarrow> client \<Rightarrow> client" where
  "request path options w =
     (let cid = next_cid w; w0 = w\<lparr>next_cid := Suc cid\<rparr>
      in case (if realm_of options = tenant_realm then needsRefresh w0 else (False, w0)) of
           (True, w1) \<Rightarrow>
             (case refreshTenantSession w1 of
                (Inl e, w2) \<Rightarrow> settle cid (Inl e) w2
              | (Inr p, w2) \<Rightarrow>
                  suspend cid \<lparr>cl_path = path, cl_options = options, cl_sentWith = None,
                               cl_phase = PreRefresh p\<rparr> w2)
         | (False, w1) \<Rightarrow> request_first cid path options w1)"

section \<open>Receiving\<close>

definition http_ok :: "int \<Rightarrow> bool" where
  "http_ok status = (200 \<le> status \<and> status \<le> 299)"

text \<open>\<open>parsed\<close>: null for an empty or unreadable text.\<close>

fun parsed :: "body_text \<Rightarrow> payload" where
  "parsed EmptyText = PNull"
| "parsed NotJson = PNull"
| "parsed (JsonText p) = (if p = PValue JNull then PNull else p)"

fun as_error_body :: "payload \<Rightarrow> ErrorBody option" where
  "as_error_body (PError b) = Some b"
| "as_error_body PNull = None"
| "as_error_body _ = Some \<lparr>eb_error = None\<rparr>"

text \<open>The block \<open>if (!response.ok)\<close>.\<close>

definition receive_error ::
    "Realm \<Rightarrow> string option \<Rightarrow> int \<Rightarrow> GraphRecApiError \<Rightarrow> client \<Rightarrow> client" where
  "receive_error realm auth status err w =
     (let (refreshable, w1) =
            (if err_code err = ''token_expired''
             then (case getTenantSession w of (s, w1) \<Rightarrow> (truthy (Option.bind s tn_refreshToken), w1))
             else (False, w));
          w2 = (if status = 401 \<and> realm = tenant_realm \<and> \<not> refreshable
                then (case getTenantSession w1 of (s, w') \<Rightarrow>
                        if auth = Some (tenant_bearer s) then clearTenantSession w' else w')
                else w1)
      in if status = 401 \<and> realm = platform_realm
         then (case getPlatformSession w2 of (s, w') \<Rightarrow>
                 if auth = Some (platform_bearer s) then clearPlatformSession w' else w')
         else w2)"

text \<open>\<open>currentAuth\<close>.\<close>

fun current_auth :: "Realm \<Rightarrow> client \<Rightarrow> string option \<times> client" where
  "current_auth tenant_realm w =
     (case getTenantSession w of (s, w1) \<Rightarrow> (Some (tenant_bearer s), w1))"
| "current_auth platform_realm w =
     (case getPlatformSession w of (s, w1) \<Rightarrow> (Some (platform_bearer s), w1))"
| "current_auth public_realm w = (None, w)"

text \<open>\<open>performRequest\<close> from the answer on.\<close>

fun performRequest_receive :: "Realm \<Rightarrow> string option \<Rightarrow> Reply \<Rightarrow> client \<Rightarrow> (exn + payload) \<times> client" where
  "performRequest_receive realm auth NetworkFailure w = (Inl network_error, w)"
| "performRequest_receive realm auth BodyFailure w = (Inl (OtherError ''body''), w)"
| "performRequest_receive realm auth (Response status correlationId text) w =
     (if \<not> http_ok status
      then (let err = new_GraphRecApiError status (as_error_body (parsed text)) correlationId
            in (Inl (ApiError err), receive_error realm auth status err w))
      else (case current_auth realm w of
              (current, w1) \<Rightarrow>
                if auth \<noteq> current then (Inl session_changed_error, w1)
                else if parsed text = PNull \<and> status \<noteq> 204
                then (Inl (invalid_response_error status correlationId), w1)
                else (Inr (parsed text), w1)))"

text \<open>
  The session made of a value that is no token pair: the members it happens to have, and \<open>undefined\<close> for the others
  (a member of another type than the declared one is not represented, and counts as missing; \<open>expires_in\<close> is
  multiplied, so null and the booleans count as numbers there).
\<close>

fun value_json :: "payload \<Rightarrow> json" where
  "value_json (PValue j) = j"
| "value_json _ = JObj []"

definition json_member :: "json \<Rightarrow> string \<Rightarrow> json option" where
  "json_member j k = (case j of JObj kvs \<Rightarrow> map_of (rev kvs) k | _ \<Rightarrow> None)"

definition text_member :: "json \<Rightarrow> string \<Rightarrow> string option" where
  "text_member j k = (case json_member j k of Some (JStr s) \<Rightarrow> Some s | _ \<Rightarrow> None)"

definition texts_member :: "json \<Rightarrow> string \<Rightarrow> string list" where
  "texts_member j k =
     (case json_member j k of
        Some (JArr vs) \<Rightarrow> List.map_filter (\<lambda>v. case v of JStr s \<Rightarrow> Some s | _ \<Rightarrow> None) vs
      | _ \<Rightarrow> [])"

definition session_of_value :: "TenantSession \<Rightarrow> json \<Rightarrow> int \<Rightarrow> TenantSession" where
  "session_of_value session j t =
     \<lparr>tn_email = or_else (text_member j ''email'') (tn_email session),
      tn_role = (if text_member j ''user_role'' = Some ''tenant_administrator'' then tenant_administrator
                 else tenant_developer),
      tn_scopes = texts_member j ''scopes'', tn_accessToken = text_member j ''access_token'',
      tn_tenantName = text_member j ''tenant_name'', tn_refreshToken = text_member j ''refresh_token'',
      tn_expiresAt = (case json_member j ''expires_in'' of
                        Some (JNum x) \<Rightarrow> Some (t + \<lceil>x * 1000\<rceil>)
                      | Some (JBool b) \<Rightarrow> Some (if b then t + 1000 else t)
                      | Some JNull \<Rightarrow> Some t
                      | _ \<Rightarrow> None),
      tn_signedInAt = tn_signedInAt session\<rparr>"

text \<open>
  \<open>refreshTenantSession\<close> from the answer on. Only null makes the access to its members throw; any other value is
  stored as a session.
\<close>

definition refresh_finish :: "TenantSession \<Rightarrow> exn + payload \<Rightarrow> client \<Rightarrow> (exn + unit) \<times> client" where
  "refresh_finish session r w =
     (case r of
        Inr (PPair pair) \<Rightarrow>
          (Inr (), (snd (setTenantSession (or_else (tp_email pair) (tn_email session)) pair
                          (Some (tn_signedInAt session)) w))\<lparr>refreshing := Idle\<rparr>)
      | Inr PNull \<Rightarrow> (Inl (OtherError ''TypeError''), (clearTenantSession w)\<lparr>refreshing := Idle\<rparr>)
      | Inr p \<Rightarrow> (Inr (), (store_tenant (session_of_value session (value_json p) (now w)) w)\<lparr>refreshing := Idle\<rparr>)
      | Inl e \<Rightarrow>
          (Inl e,
           (case e of
              ApiError a \<Rightarrow> if err_status a = 401 then clearTenantSession w else w
            | OtherError _ \<Rightarrow> clearTenantSession w)\<lparr>refreshing := Idle\<rparr>))"

text \<open>A call resumes: after a refresh, or after its dispatch.\<close>

definition resume_refresh :: "exn + unit \<Rightarrow> nat \<Rightarrow> client \<Rightarrow> client" where
  "resume_refresh r cid w =
     (case map_of (calls w) cid of
        None \<Rightarrow> w
      | Some c \<Rightarrow>
          (case r of
             Inl e \<Rightarrow> settle cid (Inl e) w
           | Inr _ \<Rightarrow>
               (case cl_phase c of
                  PreRefresh _ \<Rightarrow> request_first cid (cl_path c) (cl_options c) w
                | _ \<Rightarrow>
                    (case dispatch cid (cl_path c) (cl_options c) (realm_of (cl_options c)) w of
                       (Inl e, w1) \<Rightarrow> settle cid (Inl e) w1
                     | (Inr p, w1) \<Rightarrow> suspend cid (c\<lparr>cl_phase := Second p\<rparr>) w1))))"

definition resume_dispatch :: "exn + payload \<Rightarrow> nat \<Rightarrow> client \<Rightarrow> client" where
  "resume_dispatch r cid w =
     (case map_of (calls w) cid of
        None \<Rightarrow> w
      | Some c \<Rightarrow>
          (case r of
             Inr v \<Rightarrow> settle cid (Inr v) w
           | Inl e \<Rightarrow>
               (case cl_phase c of
                  First _ \<Rightarrow> request_catch cid c e w
                | _ \<Rightarrow> settle cid (Inl e) w)))"

definition waiting :: "nat \<Rightarrow> client \<Rightarrow> nat list" where
  "waiting p w = map fst (filter (\<lambda>(cid, c). phase_pid (cl_phase c) = p) (calls w))"

text \<open>The answer to the fetch of promise \<open>p\<close> arrives.\<close>

definition deliver :: "nat \<Rightarrow> Reply \<Rightarrow> client \<Rightarrow> client" where
  "deliver p reply w =
     (case map_of (inflight w) p of
        None \<Rightarrow> w
      | Some fl \<Rightarrow>
          (let w0 = w\<lparr>inflight := al_delete p (inflight w)\<rparr>
           in case performRequest_receive (fl_realm fl) (fl_auth fl) reply w0 of
                (r, w1) \<Rightarrow>
                  (case fl_kind fl of
                     RefreshFlight session \<Rightarrow>
                       (case refresh_finish session r w1 of
                          (r', w2) \<Rightarrow> fold (resume_refresh r') (waiting p w) w2)
                   | ReadFlight key \<Rightarrow>
                       (let w2 = (if map_of (pendingReads w1) key = Some p
                                  then w1\<lparr>pendingReads := al_delete key (pendingReads w1)\<rparr>
                                  else w1)
                        in fold (resume_dispatch r) (waiting p w) w2)
                   | WriteFlight _ \<Rightarrow>
                       (let w2 = (if is_ok r
                                  then w1\<lparr>pendingReads := [],
                                          resource_changed := resource_changed w1 @ [fl_path fl]\<rparr>
                                  else w1)
                        in fold (resume_dispatch r) (waiting p w) w2))))"

section \<open>Messages\<close>

definition isApiError :: "exn \<Rightarrow> bool" where
  "isApiError e = (case e of ApiError _ \<Rightarrow> True | OtherError _ \<Rightarrow> False)"

definition retry_seconds :: "GraphRecApiError \<Rightarrow> string" where
  "retry_seconds err =
     (case err_retryAfterSeconds err of Some n \<Rightarrow> show_int n | None \<Rightarrow> ''a few'')"

definition field_messages :: "FieldError list \<Rightarrow> string" where
  "field_messages fs = js_join ''; '' (map (\<lambda>f. fe_field f @ '': '' @ fe_message f) fs)"

definition describeError :: "exn \<Rightarrow> string" where
  "describeError e =
     (case e of
        OtherError _ \<Rightarrow> ''Something went wrong. Try again shortly.''
      | ApiError err \<Rightarrow>
          if err_code err = ''network_error''
          then ''GraphRec could not be reached. Check that the API is running.''
          else if err_code err = ''rate_limit_exceeded''
          then ''Too many requests. Try again in '' @ retry_seconds err @ '' seconds.''
          else if err_code err = ''training_cooldown''
          then ''Training is cooling down. Try again in '' @ retry_seconds err @ '' seconds.''
          else if err_code err = ''insufficient_scope''
          then ''Your credential does not grant this operation.''
          else if err_code err = ''token_expired''
          then ''Your session expired. Sign in again.''
          else if err_code err = ''internal_error''
          then ''Something went wrong on our side''
               @ (if truthy (err_correlationId err)
                  then '' (reference '' @ the (err_correlationId err) @ '')'' else [])
               @ ''. Try again shortly.''
          else if err_code err = ''validation_failed'' \<and> err_fields err \<noteq> []
          then field_messages (err_fields err)
          else err_message err)"

end
