(* ===== verification/ClientRuns.thy ===== *)
theory ClientRuns
  imports HttpClient
begin

text \<open>
  Runs of the HTTP client: the steps the page and the network can make, the invariant of the
  client's tables, and its preservation by every handler. The invariant says that the fetches in
  flight are numbered apart, that \<open>refreshing\<close> names the one refresh in flight, that
  \<open>pendingReads\<close> names reads in flight under their own key, that every suspended call waits for
  a promise that is in flight and serves it, and that every call ever made is either suspended or
  settled once. \<open>W\<close> is the set of calls being resumed, whose promise has just been answered, and
  \<open>N\<close> the call that is being made.
\<close>

section \<open>The invariant\<close>

definition is_refresh :: "Flight \<Rightarrow> bool" where
  "is_refresh fl = (case fl_kind fl of RefreshFlight _ \<Rightarrow> True | _ \<Rightarrow> False)"

definition serves :: "Flight \<Rightarrow> nat \<Rightarrow> string \<Rightarrow> RequestOptions \<Rightarrow> bool" where
  "serves fl cid path options =
     (fl_realm fl = realm_of options \<and> fl_path fl = path \<and>
      (case fl_kind fl of
         ReadFlight k \<Rightarrow> method_of options = GET
       | WriteFlight cid' \<Rightarrow> cid' = cid \<and> method_of options \<noteq> GET
       | RefreshFlight _ \<Rightarrow> False))"

definition call_ok :: "(nat \<times> Flight) list \<Rightarrow> nat \<Rightarrow> Call \<Rightarrow> bool" where
  "call_ok fls cid c =
     (\<exists>fl. map_of fls (phase_pid (cl_phase c)) = Some fl \<and>
           (if awaits_refresh (cl_phase c) then is_refresh fl
            else serves fl cid (cl_path c) (cl_options c)))"

definition flight_ok :: "Flight \<Rightarrow> bool" where
  "flight_ok fl =
     (case fl_kind fl of
        ReadFlight (r, i, path, h) \<Rightarrow> r = fl_realm fl \<and> i = fl_auth fl \<and> path = fl_path fl
      | RefreshFlight _ \<Rightarrow> fl_realm fl = public_realm \<and> fl_auth fl = None
      | WriteFlight _ \<Rightarrow> True)"

definition flights_ok :: "(nat \<times> Flight) list \<Rightarrow> nat \<Rightarrow> bool" where
  "flights_ok fls n =
     (distinct (map fst fls) \<and> (\<forall>(p, fl) \<in> set fls. p < n \<and> flight_ok fl))"

fun refresh_ok :: "Refreshing \<Rightarrow> (nat \<times> Flight) list \<Rightarrow> bool" where
  "refresh_ok Idle fls = (\<forall>(q, fl) \<in> set fls. \<not> is_refresh fl)"
| "refresh_ok (Refreshing p) fls =
     (p \<in> fst ` set fls \<and> (\<forall>(q, fl) \<in> set fls. is_refresh fl \<longleftrightarrow> q = p))"
| "refresh_ok (Stuck _) fls = False"

definition reads_ok :: "(ReadKey \<times> nat) list \<Rightarrow> (nat \<times> Flight) list \<Rightarrow> bool" where
  "reads_ok reads fls =
     (\<forall>k p. map_of reads k = Some p \<longrightarrow>
        (\<exists>fl. map_of fls p = Some fl \<and> fl_kind fl = ReadFlight k))"

definition calls_ok :: "nat set \<Rightarrow> (nat \<times> Flight) list \<Rightarrow> (nat \<times> Call) list \<Rightarrow> bool" where
  "calls_ok W fls cs = (\<forall>cid c. map_of cs cid = Some c \<longrightarrow> cid \<in> W \<or> call_ok fls cid c)"

definition cids_ok ::
    "nat set \<Rightarrow> (nat \<times> Call) list \<Rightarrow> (nat \<times> (exn + payload)) list \<Rightarrow> nat \<Rightarrow> bool" where
  "cids_ok N cs rs n =
     (distinct (map fst cs) \<and> distinct (map fst rs) \<and>
      fst ` set cs \<inter> fst ` set rs = {} \<and>
      fst ` set cs \<union> fst ` set rs = {..<n} - N \<and> N \<subseteq> {..<n})"

definition client_inv :: "nat set \<Rightarrow> nat set \<Rightarrow> client \<Rightarrow> bool" where
  "client_inv W N w =
     (flights_ok (inflight w) (next_pid w) \<and> refresh_ok (refreshing w) (inflight w) \<and>
      reads_ok (pendingReads w) (inflight w) \<and> calls_ok W (inflight w) (calls w) \<and>
      cids_ok N (calls w) (settled w) (next_cid w))"

lemma client_invD:
  assumes "client_inv W N w"
  shows "flights_ok (inflight w) (next_pid w)" "refresh_ok (refreshing w) (inflight w)"
    "reads_ok (pendingReads w) (inflight w)" "calls_ok W (inflight w) (calls w)"
    "cids_ok N (calls w) (settled w) (next_cid w)"
  using assms by (simp_all add: client_inv_def)

text \<open>
  The session operations work on the browser part of the state; the client part is the record's
  extension, which they leave alone.
\<close>

lemma more_client:
  fixes w w' :: client
  assumes "browser.more w' = browser.more w"
  shows "base w' = base w" "pendingReads w' = pendingReads w" "refreshing w' = refreshing w"
    "inflight w' = inflight w" "calls w' = calls w" "settled w' = settled w"
    "next_pid w' = next_pid w" "next_cid w' = next_cid w"
    "resource_changed w' = resource_changed w" "sent w' = sent w"
  using assms by (cases w; cases w'; simp)+

lemma more_inv:
  assumes "browser.more w' = browser.more w"
  shows "client_inv W N w' = client_inv W N w"
  by (simp add: client_inv_def more_client [OF assms])

lemma store_clear_more [session_simps]:
  "browser.more (store_tenant s b) = browser.more b"
  "browser.more (clearTenantSession b) = browser.more b"
  "browser.more (clearPlatformSession b) = browser.more b"
  "browser.more (store_platform p b) = browser.more b"
  "browser.more (snd (setTenantSession email pair t b)) = browser.more b"
  "browser.more (snd (setPlatformSession token cr em dn ro ex b)) = browser.more b"
  by (simp_all add: store_tenant_def clearTenantSession_def clearPlatformSession_def
      store_platform_def setTenantSession_def setPlatformSession_def write_entry_fields Let_def)

lemmas getTenantSession_client = more_client [OF getTenantSession_fields(5)]
lemmas getPlatformSession_client = more_client [OF getPlatformSession_fields(5)]

declare getTenantSession_client [simp] getPlatformSession_client [simp]
declare getTenantSession_fields(5) [simp] getPlatformSession_fields(5) [simp]
  store_clear_more [simp]

lemma getTenantSession_more:
  "getTenantSession w = (s, w') \<Longrightarrow> browser.more w' = browser.more w"
  using getTenantSession_fields(5) [of w] by simp

lemma getPlatformSession_more:
  "getPlatformSession w = (s, w') \<Longrightarrow> browser.more w' = browser.more w"
  using getPlatformSession_fields(5) [of w] by simp

section \<open>Receiving leaves the client's tables alone\<close>

lemma authorization_more: "authorization r w = (x, w') \<Longrightarrow> browser.more w' = browser.more w"
  by (cases r) (auto split: prod.splits option.splits
      dest: getTenantSession_more getPlatformSession_more)

lemma current_auth_more: "current_auth r w = (x, w') \<Longrightarrow> browser.more w' = browser.more w"
  by (cases r) (auto split: prod.splits dest: getTenantSession_more getPlatformSession_more)

lemma needsRefresh_more: "needsRefresh w = (x, w') \<Longrightarrow> browser.more w' = browser.more w"
  by (auto simp: needsRefresh_def split: prod.splits option.splits dest: getTenantSession_more)

lemma receive_error_more: "browser.more (receive_error r auth st err w) = browser.more w"
  by (auto simp: receive_error_def Let_def split: prod.splits
      dest!: getTenantSession_more getPlatformSession_more)

lemma receive_more:
  "performRequest_receive r auth reply w = (x, w') \<Longrightarrow> browser.more w' = browser.more w"
  by (cases reply) (auto simp: Let_def receive_error_more split: if_splits prod.splits
      dest: current_auth_more)

section \<open>Handlers keep the invariant\<close>

lemma settle_inv:
  assumes "client_inv W N w" "cid \<in> fst ` set (calls w) \<or> cid \<in> N"
  shows "client_inv (W - {cid}) (N - {cid}) (settle cid r w)"
proof -
  have k: "fst ` set (al_delete cid (calls w)) = fst ` set (calls w) - {cid}"
    by (auto simp: image_iff)
  have "calls_ok (W - {cid}) (inflight w) (al_delete cid (calls w))"
    using client_invD(4) [OF assms(1)] by (auto simp: calls_ok_def)
  moreover have
    "cids_ok (N - {cid}) (al_delete cid (calls w)) (settled w @ [(cid, r)]) (next_cid w)"
    using client_invD(5) [OF assms(1)] assms(2) unfolding cids_ok_def k
    by (auto simp: distinct_al_delete)
  ultimately show ?thesis
    using assms(1) by (simp add: client_inv_def settle_def)
qed

lemma suspend_inv:
  assumes "client_inv W N w" "cid \<in> fst ` set (calls w) \<or> cid \<in> N"
    and "call_ok (inflight w) cid c"
  shows "client_inv (W - {cid}) (N - {cid}) (suspend cid c w)"
proof -
  have "calls_ok (W - {cid}) (inflight w) (al_set cid c (calls w))"
    using client_invD(4) [OF assms(1)] assms(3) by (auto simp: calls_ok_def)
  moreover have "cids_ok (N - {cid}) (al_set cid c (calls w)) (settled w) (next_cid w)"
    using client_invD(5) [OF assms(1)] assms(2) unfolding cids_ok_def keys_al_set
    by (auto simp: distinct_al_set)
  ultimately show ?thesis
    using assms(1) by (simp add: client_inv_def suspend_def)
qed

text \<open>A new fetch: every promise already in flight stays, and the new one is fresh.\<close>

lemma send_eq:
  assumes "performRequest_send path options auth kind w = (p, w')"
  shows "p = next_pid w" "calls w' = calls w" "pendingReads w' = pendingReads w"
    "refreshing w' = refreshing w" "settled w' = settled w" "next_cid w' = next_cid w"
    "inflight w' = (p, \<lparr>fl_path = path, fl_realm = realm_of options, fl_auth = auth,
                        fl_kind = kind\<rparr>) # inflight w"
    "next_pid w' = Suc (next_pid w)"
  using assms by (auto simp: performRequest_send_def)

lemma fresh_pid: "flights_ok fls n \<Longrightarrow> n \<notin> fst ` set fls"
  by (auto simp: flights_ok_def)

lemma fresh_keeps:
  assumes "flights_ok fls n" "map_of fls q = Some fl"
  shows "map_of ((n, fl') # fls) q = Some fl"
  using assms fresh_pid [OF assms(1)] by (auto dest: map_of_SomeD intro: rev_image_eqI)

lemma call_ok_cons:
  assumes "flights_ok fls n" "call_ok fls cid c"
  shows "call_ok ((n, fl') # fls) cid c"
  using assms(2) fresh_keeps [OF assms(1)] unfolding call_ok_def by blast

lemma reads_ok_cons:
  assumes "flights_ok fls n" "reads_ok reads fls"
  shows "reads_ok reads ((n, fl') # fls)"
  using assms(2) fresh_keeps [OF assms(1)] unfolding reads_ok_def by blast

lemma calls_ok_cons:
  assumes "flights_ok fls n" "calls_ok W fls cs"
  shows "calls_ok W ((n, fl') # fls) cs"
  using assms(2) call_ok_cons [OF assms(1)] unfolding calls_ok_def by blast

lemma flights_ok_cons:
  assumes "flights_ok fls n" "flight_ok fl"
  shows "flights_ok ((n, fl) # fls) (Suc n)"
  using assms fresh_pid [OF assms(1)] by (auto simp: flights_ok_def)

lemma refresh_ok_cons:
  assumes "refresh_ok r fls" "\<not> is_refresh fl" "n \<notin> fst ` set fls"
  shows "refresh_ok r ((n, fl) # fls)"
  using assms by (cases r) auto

lemma refresh_ok_start:
  assumes "refresh_ok Idle fls" "is_refresh fl" "n \<notin> fst ` set fls"
  shows "refresh_ok (Refreshing n) ((n, fl) # fls)"
  using assms by (auto simp: image_iff)

lemma send_inv:
  assumes inv: "client_inv W N w"
    and snd: "performRequest_send path options auth kind w = (p, w')"
    and plain: "case kind of ReadFlight k \<Rightarrow>
        k = (realm_of options, auth, path, ro_headers options) | WriteFlight _ \<Rightarrow> True
      | RefreshFlight _ \<Rightarrow> False"
  shows "client_inv W N w'"
proof -
  note d = client_invD [OF inv]
  have "\<not> is_refresh \<lparr>fl_path = path, fl_realm = realm_of options, fl_auth = auth, fl_kind = kind\<rparr>"
    "flight_ok \<lparr>fl_path = path, fl_realm = realm_of options, fl_auth = auth, fl_kind = kind\<rparr>"
    using plain by (auto simp: flight_ok_def is_refresh_def split: Flight_kind.splits)
  then show ?thesis
    using d send_eq(1) [OF snd]
    by (simp add: client_inv_def send_eq [OF snd] 
        add: flights_ok_cons refresh_ok_cons fresh_pid reads_ok_cons calls_ok_cons)
qed

lemma send_refresh_inv:
  assumes inv: "client_inv W N w" and idle: "refreshing w = Idle"
    and snd: "performRequest_send path options auth (RefreshFlight s) w = (p, w')"
    and public: "realm_of options = public_realm" "auth = None"
  shows "client_inv W N (w'\<lparr>refreshing := Refreshing p\<rparr>)"
proof -
  note d = client_invD [OF inv]
  let ?fl = "\<lparr>fl_path = path, fl_realm = realm_of options, fl_auth = auth,
               fl_kind = RefreshFlight s\<rparr>"
  have "is_refresh ?fl" "flight_ok ?fl"
    using public by (simp_all add: flight_ok_def is_refresh_def)
  moreover have "refresh_ok Idle (inflight w)" using d(2) idle by simp
  ultimately show ?thesis
    using d refresh_ok_start [OF _ \<open>is_refresh ?fl\<close> fresh_pid [OF d(1)]]
    by (simp add: client_inv_def send_eq [OF snd] del: refresh_ok.simps
        add: flights_ok_cons reads_ok_cons calls_ok_cons)
qed

section \<open>Dispatch, refresh and the calls of request\<close>

lemma dispatch_GET_inv:
  assumes inv: "client_inv W N w" and get: "method_of options = GET"
    and new: "map_of (pendingReads w) key = None"
    and key: "key = (realm_of options, identity, path, ro_headers options)"
    and snd: "performRequest_send path options identity (ReadFlight key) w = (p, w')"
  shows "client_inv W N (w'\<lparr>pendingReads := al_set key p (pendingReads w')\<rparr>)"
proof -
  have "client_inv W N w'" using send_inv [OF inv snd] key by simp
  moreover have "reads_ok (al_set key p (pendingReads w)) (inflight w')"
    using client_invD(3) [OF \<open>client_inv W N w'\<close>] send_eq(3,7) [OF snd]
    by (auto simp: reads_ok_def)
  ultimately show ?thesis by (simp add: client_inv_def send_eq(3) [OF snd])
qed

text \<open>
  A dispatch keeps the tables, leaves the suspended calls alone, and the promise it returns is a
  fetch in flight for this path and realm, sent with the identity of the current session.
\<close>

lemma dispatch_inv:
  assumes inv: "client_inv W N w" and d: "dispatch cid path options (realm_of options) w = (x, w')"
  shows "client_inv W N w' \<and> calls w' = calls w \<and>
    (\<forall>p. x = Inr p \<longrightarrow> (\<exists>fl. map_of (inflight w') p = Some fl \<and> serves fl cid path options \<and>
       Inr (fl_auth fl) = fst (authorization (realm_of options) w)))"
proof -
  obtain a w1 where a: "authorization (realm_of options) w = (a, w1)" by fastforce
  note m = authorization_more [OF a]
  have inv1: "client_inv W N w1" using inv more_inv [OF m] by simp
  show ?thesis
  proof (cases a)
    case (Inl e)
    with d a inv1 more_client(5) [OF m] show ?thesis by (auto simp: dispatch_def)
  next
    case (Inr identity)
    let ?key = "(realm_of options, identity, path, ro_headers options)"
    note rd = client_invD(3) [OF inv1] and fo = client_invD(1) [OF inv1]
    consider (hit) q where "method_of options = GET" "map_of (pendingReads w1) ?key = Some q"
      | (miss) "method_of options = GET" "map_of (pendingReads w1) ?key = None"
      | (change) "method_of options \<noteq> GET"
      by (cases "map_of (pendingReads w1) ?key") auto
    then show ?thesis
    proof cases
      case hit
      then obtain fl where fl: "map_of (inflight w1) q = Some fl" "fl_kind fl = ReadFlight ?key"
        using rd unfolding reads_ok_def by blast
      then have "flight_ok fl" using fo by (auto simp: flights_ok_def dest: map_of_SomeD)
      then have "serves fl cid path options \<and> fl_auth fl = identity"
        using fl(2) hit(1) by (simp add: flight_ok_def serves_def)
      moreover have "x = Inr q" "w' = w1" using d a Inr hit by (auto simp: dispatch_def Let_def)
      ultimately show ?thesis
        using fl(1) inv1 a Inr more_client(5) [OF m] by auto
    next
      case miss
      obtain p w2 where s: "performRequest_send path options identity (ReadFlight ?key) w1 = (p, w2)"
        by fastforce
      have "x = Inr p" "w' = w2\<lparr>pendingReads := al_set ?key p (pendingReads w2)\<rparr>"
        using d a Inr miss s by (auto simp: dispatch_def Let_def)
      with miss a Inr show ?thesis
        using dispatch_GET_inv [OF inv1 miss refl s] send_eq [OF s]
        by (simp add: serves_def more_client [OF m])
    next
      case change
      obtain p w2 where s: "performRequest_send path options identity (WriteFlight cid) w1 = (p, w2)"
        by fastforce
      have "x = Inr p" "w' = w2" using d a Inr change s by (auto simp: dispatch_def Let_def)
      with change a Inr show ?thesis
        using send_inv [OF inv1 s] send_eq [OF s] by (simp add: serves_def more_client [OF m])
    qed
  qed
qed

lemma refresh_inv:
  assumes inv: "client_inv W N w" and s: "fst (getTenantSession w) = Some s"
    and t: "truthy (tn_refreshToken s)" and r: "refreshTenantSession w = (x, w')"
  shows "client_inv W N w' \<and> calls w' = calls w \<and>
    (\<exists>p fl. x = Inr p \<and> map_of (inflight w') p = Some fl \<and> is_refresh fl)"
proof (cases "refreshing w")
  case Idle
  obtain w1 where g: "getTenantSession w = (Some s, w1)" using s by (metis prod.collapse)
  note m = getTenantSession_more [OF g]
  obtain p w2 where snd: "performRequest_send ''/v1/auth/refresh''
      (refresh_options (the (tn_refreshToken s))) None (RefreshFlight s) w1 = (p, w2)" by fastforce
  have "client_inv W N w1" using inv more_inv [OF m] by simp
  from send_refresh_inv [OF this _ snd] Idle
  have "client_inv W N (w2\<lparr>refreshing := Refreshing p\<rparr>)"
    by (simp add: more_client [OF m] refresh_options_def realm_of_def)
  with r g t snd Idle show ?thesis
    by (auto simp: refreshTenantSession_def is_refresh_def send_eq [OF snd] more_client [OF m])
next
  case (Refreshing p)
  then have "p \<in> fst ` set (inflight w)" "\<forall>(q, fl) \<in> set (inflight w). is_refresh fl \<longleftrightarrow> q = p"
    using client_invD(2) [OF inv] by simp_all
  then obtain fl where "map_of (inflight w) p = Some fl" "is_refresh fl"
    by (metis (mono_tags, lifting) case_prodD map_of_SomeD map_of_eq_None_iff not_None_eq)
  with r inv Refreshing show ?thesis by (auto simp: refreshTenantSession_def)
next
  case (Stuck e)
  with client_invD(2) [OF inv] show ?thesis by simp
qed

lemma get_again:
  assumes "getTenantSession w = (s, w1)"
  shows "fst (getTenantSession w1) = s"
  using tenant_store.get_get [of w] assms by simp

lemma request_catch_inv:
  assumes inv: "client_inv W N w" and cid: "cid \<in> fst ` set (calls w) \<or> cid \<in> N"
  shows "client_inv (W - {cid}) (N - {cid}) (request_catch cid c e w)"
proof -
  obtain current w1 where g: "getTenantSession w = (current, w1)" by fastforce
  note m = getTenantSession_more [OF g]
  have inv1: "client_inv W N w1" and cid1: "cid \<in> fst ` set (calls w1) \<or> cid \<in> N"
    using inv more_inv [OF m] cid by (simp_all add: more_client [OF m])
  show ?thesis
  proof (cases "realm_of (cl_options c) = tenant_realm \<and> token_expired e
             \<and> truthy (Option.bind current tn_refreshToken)
             \<and> Option.bind current tn_accessToken = cl_sentWith c")
    case True
    then obtain s where s: "current = Some s" "truthy (tn_refreshToken s)"
      by (cases current) auto
    obtain x w2 where r: "refreshTenantSession w1 = (x, w2)" by fastforce
    from refresh_inv [OF inv1 _ s(2) r] get_again [OF g] s(1)
    obtain p fl where p: "x = Inr p" "client_inv W N w2" "calls w2 = calls w1"
        "map_of (inflight w2) p = Some fl" "is_refresh fl" by auto
    have "call_ok (inflight w2) cid (c\<lparr>cl_phase := RetryRefresh p\<rparr>)"
      using p by (simp add: call_ok_def)
    from suspend_inv [OF p(2) _ this] cid1 p True g r show ?thesis
      by (simp add: request_catch_def)
  next
    case False
    have "request_catch cid c e w = settle cid (Inl e) w1"
      by (simp only: request_catch_def g prod.case False if_False)
    with settle_inv [OF inv1 cid1] show ?thesis by simp
  qed
qed

lemma request_first_inv:
  assumes inv: "client_inv W N w" and cid: "cid \<in> fst ` set (calls w) \<or> cid \<in> N"
  shows "client_inv (W - {cid}) (N - {cid}) (request_first cid path options w)"
proof -
  obtain sw w1 where g: "(if realm_of options = tenant_realm
      then (case getTenantSession w of (s, w1) \<Rightarrow> (Option.bind s tn_accessToken, w1))
      else (None, w)) = (sw, w1)" by fastforce
  have m: "browser.more w1 = browser.more w"
    using g by (auto split: if_splits prod.splits dest: getTenantSession_more)
  have inv1: "client_inv W N w1" and cid1: "cid \<in> fst ` set (calls w1) \<or> cid \<in> N"
    using inv more_inv [OF m] cid by (simp_all add: more_client [OF m])
  obtain x w2 where d: "dispatch cid path options (realm_of options) w1 = (x, w2)" by fastforce
  note di = dispatch_inv [OF inv1 d]
  have cid2: "cid \<in> fst ` set (calls w2) \<or> cid \<in> N" using di cid1 by simp
  show ?thesis
  proof (cases x)
    case (Inl e)
    have "client_inv W N w2" using di by simp
    from request_catch_inv [OF this cid2] Inl d show ?thesis
      by (simp add: request_first_def g Let_def)
  next
    case (Inr p)
    let ?c = "\<lparr>cl_path = path, cl_options = options, cl_sentWith = sw, cl_phase = First p\<rparr>"
    have "call_ok (inflight w2) cid ?c" using di Inr by (auto simp: call_ok_def)
    from suspend_inv [OF _ cid2 this] di Inr d show ?thesis
      by (simp add: request_first_def g Let_def)
  qed
qed

text \<open>A new call of \<open>request\<close> takes a fresh number.\<close>

lemma new_cid_inv:
  "client_inv {} {} w \<Longrightarrow> client_inv {} {next_cid w} (w\<lparr>next_cid := Suc (next_cid w)\<rparr>)"
  unfolding client_inv_def by (auto simp: cids_ok_def less_Suc_eq)

lemma request_inv:
  assumes inv: "client_inv {} {} w"
  shows "client_inv {} {} (request path options w)"
proof -
  let ?cid = "next_cid w" and ?w = "w\<lparr>next_cid := Suc (next_cid w)\<rparr>"
  note inv0 = new_cid_inv [OF inv]
  obtain b w1 where n: "(if realm_of options = tenant_realm then needsRefresh ?w else (False, ?w))
      = (b, w1)" by fastforce
  have m: "browser.more w1 = browser.more ?w"
    using n by (auto split: if_splits dest: needsRefresh_more)
  have inv1: "client_inv {} {?cid} w1" using inv0 more_inv [OF m] by simp
  show ?thesis
  proof (cases b)
    case False
    with request_first_inv [OF inv1, of ?cid path options] n show ?thesis
      by (simp add: request_def Let_def)
  next
    case True
    then have nr: "needsRefresh ?w = (True, w1)" using n by (auto split: if_splits)
    then obtain s where s: "getTenantSession ?w = (Some s, w1)" "truthy (tn_refreshToken s)"
      by (auto simp: needsRefresh_def split: prod.splits option.splits)
    obtain x w2 where r: "refreshTenantSession w1 = (x, w2)" by fastforce
    from refresh_inv [OF inv1 _ s(2) r] get_again [OF s(1)]
    obtain p fl where p: "x = Inr p" "client_inv {} {?cid} w2"
        "map_of (inflight w2) p = Some fl" "is_refresh fl" by auto
    let ?c = "\<lparr>cl_path = path, cl_options = options, cl_sentWith = None,
               cl_phase = PreRefresh p\<rparr>"
    have "call_ok (inflight w2) ?cid ?c" using p by (simp add: call_ok_def)
    from suspend_inv [OF p(2) _ this] n True r p(1) show ?thesis
      by (simp add: request_def Let_def)
  qed
qed

section \<open>Resuming the calls that wait\<close>

lemma map_of_key: "map_of m k = Some v \<Longrightarrow> k \<in> fst ` set m"
  by (metis domI dom_map_of_conv_image_fst)

lemma gone_inv: "client_inv W {} w \<Longrightarrow> map_of (calls w) cid = None \<Longrightarrow> client_inv (W - {cid}) {} w"
  by (auto simp: client_inv_def calls_ok_def)

lemma resume_dispatch_inv:
  assumes inv: "client_inv W {} w"
  shows "client_inv (W - {cid}) {} (resume_dispatch r cid w)"
proof (cases "map_of (calls w) cid")
  case None
  with gone_inv [OF inv None] show ?thesis by (simp add: resume_dispatch_def)
next
  case (Some c)
  note k = map_of_key [OF Some]
  show ?thesis
    using Some settle_inv [OF inv, of cid] request_catch_inv [OF inv, of cid c] k
    by (auto simp: resume_dispatch_def split: sum.split Phase.split)
qed

lemma resume_refresh_inv:
  assumes inv: "client_inv W {} w"
  shows "client_inv (W - {cid}) {} (resume_refresh r cid w)"
proof (cases "map_of (calls w) cid")
  case None
  with gone_inv [OF inv None] show ?thesis by (simp add: resume_refresh_def)
next
  case (Some c)
  have k: "cid \<in> fst ` set (calls w) \<or> cid \<in> {}" using map_of_key [OF Some] by simp
  obtain x w1 where d: "dispatch cid (cl_path c) (cl_options c) (realm_of (cl_options c)) w = (x, w1)"
    by fastforce
  note di = dispatch_inv [OF inv d]
  have second: "client_inv (W - {cid}) {} (case x of Inl e \<Rightarrow> settle cid (Inl e) w1
      | Inr p \<Rightarrow> suspend cid (c\<lparr>cl_phase := Second p\<rparr>) w1)"
  proof (cases x)
    case (Inl e)
    from settle_inv [of W "{}" w1 cid] di k Inl show ?thesis by simp
  next
    case (Inr p)
    have "call_ok (inflight w1) cid (c\<lparr>cl_phase := Second p\<rparr>)"
      using di Inr by (auto simp: call_ok_def)
    from suspend_inv [of W "{}" w1 cid, OF _ _ this] di k Inr show ?thesis by simp
  qed
  show ?thesis
  proof (cases r)
    case (Inl e)
    with Some settle_inv [OF inv k] show ?thesis by (simp add: resume_refresh_def)
  next
    case (Inr u)
    show ?thesis
    proof (cases "cl_phase c")
      case (PreRefresh q)
      with Some Inr request_first_inv [OF inv k] show ?thesis by (simp add: resume_refresh_def)
    qed (use Some Inr second d in \<open>simp_all add: resume_refresh_def\<close>)
  qed
qed

lemma fold_resume_inv:
  assumes "\<And>W w cid. client_inv W {} w \<Longrightarrow> client_inv (W - {cid}) {} (f cid w)"
  shows "client_inv W {} w \<Longrightarrow> client_inv (W - set cids) {} (fold f cids w)"
proof (induction cids arbitrary: W w)
  case (Cons cid cids)
  have "W - set (cid # cids) = W - {cid} - set cids" by auto
  with Cons.IH [OF assms [OF Cons.prems]] show ?case by simp
qed simp

lemma waiting_set: "cid \<in> set (waiting p w) \<longleftrightarrow> (\<exists>c. (cid, c) \<in> set (calls w) \<and> phase_pid (cl_phase c) = p)"
  by (auto simp: waiting_def image_iff)

section \<open>An answer arrives\<close>

text \<open>Taking an answered promise out of the table; its waiters are now being resumed.\<close>

lemma flights_ok_delete: "flights_ok fls n \<Longrightarrow> flights_ok (al_delete p fls) n"
  by (auto simp: flights_ok_def distinct_al_delete)

lemma calls_ok_delete:
  assumes "calls_ok {} (inflight w) (calls w)"
  shows "calls_ok (set (waiting p w)) (al_delete p (inflight w)) (calls w)"
  unfolding calls_ok_def
proof (intro allI impI)
  fix cid c assume c: "map_of (calls w) cid = Some c"
  with assms have "call_ok (inflight w) cid c" by (auto simp: calls_ok_def)
  then show "cid \<in> set (waiting p w) \<or> call_ok (al_delete p (inflight w)) cid c"
    using map_of_SomeD [OF c] by (auto simp: waiting_set call_ok_def)
qed

lemma refresh_ok_delete_other:
  assumes "refresh_ok r fls" "(p, fl) \<in> set fls" "distinct (map fst fls)" "\<not> is_refresh fl"
  shows "refresh_ok r (al_delete p fls)"
  using assms by (cases r) (auto simp: image_iff)

lemma refresh_ok_delete_refresh:
  assumes "refresh_ok r fls" "(p, fl) \<in> set fls" "is_refresh fl"
  shows "refresh_ok Idle (al_delete p fls)"
proof (cases r)
  case (Refreshing a)
  then have all: "\<forall>(q, fl) \<in> set fls. is_refresh fl \<longleftrightarrow> q = a" using assms(1) by simp
  with assms(2,3) have "a = p" by auto
  with all show ?thesis by auto
qed (use assms in auto)

lemma reads_ok_delete:
  assumes "reads_ok reads fls" "\<And>k. map_of reads k \<noteq> Some p"
  shows "reads_ok reads (al_delete p fls)"
  using assms unfolding reads_ok_def by (metis fun_upd_other map_of_al_delete)

lemma pending_kind:
  assumes "reads_ok reads fls" "map_of fls p = Some fl" "map_of reads k = Some p"
  shows "fl_kind fl = ReadFlight k"
  using assms unfolding reads_ok_def by fastforce

lemma client_inv_intro:
  assumes "flights_ok (inflight w) (next_pid w)" "refresh_ok (refreshing w) (inflight w)"
    "reads_ok (pendingReads w) (inflight w)" "calls_ok W (inflight w) (calls w)"
    "cids_ok N (calls w) (settled w) (next_cid w)"
  shows "client_inv W N w"
  using assms by (simp add: client_inv_def)

lemma refresh_finish_more:
  assumes "refresh_finish s r w = (x, w')"
  obtains w0 where "w' = w0\<lparr>refreshing := Idle\<rparr>" "browser.more w0 = browser.more w"
  using assms
  by (auto simp: refresh_finish_def split: sum.splits payload.splits exn.splits if_splits)

lemma deliver_inv:
  assumes inv: "client_inv {} {} w"
  shows "client_inv {} {} (deliver p reply w)"
proof (cases "map_of (inflight w) p")
  case None
  with inv show ?thesis by (simp add: deliver_def)
next
  case (Some fl)
  note d = client_invD [OF inv] and mem = map_of_SomeD [OF Some]
  let ?w0 = "w\<lparr>inflight := al_delete p (inflight w)\<rparr>"
  obtain r w1 where rec: "performRequest_receive (fl_realm fl) (fl_auth fl) reply ?w0 = (r, w1)"
    by fastforce
  note eq = more_client [OF receive_more [OF rec]]
  note tables = flights_ok_delete [OF d(1)] calls_ok_delete [OF d(4), of p] d(5)
  have dist: "distinct (map fst (inflight w))" using d(1) by (simp add: flights_ok_def)
  show ?thesis
  proof (cases "fl_kind fl")
    case (RefreshFlight session)
    obtain r' w2 where fin: "refresh_finish session r w1 = (r', w2)" by fastforce
    then obtain w0 where w2: "w2 = w0\<lparr>refreshing := Idle\<rparr>"
      and m: "browser.more w0 = browser.more w1" by (rule refresh_finish_more)
    have "refresh_ok Idle (al_delete p (inflight w))"
      using refresh_ok_delete_refresh [OF d(2) mem] RefreshFlight by (simp add: is_refresh_def)
    moreover have "reads_ok (pendingReads w) (al_delete p (inflight w))"
      using reads_ok_delete [OF d(3)] pending_kind [OF d(3) Some] RefreshFlight by fastforce
    ultimately have "client_inv (set (waiting p w)) {} w2"
      using tables by (intro client_inv_intro) (simp_all add: w2 more_client [OF m] eq)
    from fold_resume_inv [OF resume_refresh_inv this, where cids = "waiting p w"]
    show ?thesis by (simp add: deliver_def Some rec RefreshFlight fin)
  next
    case (ReadFlight key)
    let ?w2 = "if map_of (pendingReads w1) key = Some p
               then w1\<lparr>pendingReads := al_delete key (pendingReads w1)\<rparr> else w1"
    have "reads_ok (pendingReads ?w2) (al_delete p (inflight w))"
    proof (rule reads_ok_delete)
      show "reads_ok (pendingReads ?w2) (inflight w)"
        using d(3) by (auto simp: reads_ok_def eq)
      show "map_of (pendingReads ?w2) k \<noteq> Some p" for k
        using pending_kind [OF d(3) Some, of k] ReadFlight by (auto simp: eq)
    qed
    moreover have "refresh_ok (refreshing w) (al_delete p (inflight w))"
      using refresh_ok_delete_other [OF d(2) mem dist] ReadFlight by (simp add: is_refresh_def)
    moreover have "inflight ?w2 = al_delete p (inflight w)" "refreshing ?w2 = refreshing w"
      "calls ?w2 = calls w" "settled ?w2 = settled w" "next_pid ?w2 = next_pid w"
      "next_cid ?w2 = next_cid w" by (simp_all add: eq)
    ultimately have "client_inv (set (waiting p w)) {} ?w2"
      using tables by (intro client_inv_intro) (simp_all del: if_split)
    from fold_resume_inv [OF resume_dispatch_inv this, where cids = "waiting p w"]
    show ?thesis by (simp add: deliver_def Some rec ReadFlight)
  next
    case (WriteFlight cid)
    let ?w2 = "if is_ok r then w1\<lparr>pendingReads := [],
                 resource_changed := resource_changed w1 @ [fl_path fl]\<rparr> else w1"
    have "reads_ok (pendingReads ?w2) (al_delete p (inflight w))"
      using reads_ok_delete [OF d(3)] pending_kind [OF d(3) Some] WriteFlight
      by (fastforce simp: eq reads_ok_def)
    moreover have "refresh_ok (refreshing w) (al_delete p (inflight w))"
      using refresh_ok_delete_other [OF d(2) mem dist] WriteFlight by (simp add: is_refresh_def)
    moreover have "inflight ?w2 = al_delete p (inflight w)" "refreshing ?w2 = refreshing w"
      "calls ?w2 = calls w" "settled ?w2 = settled w" "next_pid ?w2 = next_pid w"
      "next_cid ?w2 = next_cid w" by (simp_all add: eq)
    ultimately have "client_inv (set (waiting p w)) {} ?w2"
      using tables by (intro client_inv_intro) (simp_all del: if_split)
    from fold_resume_inv [OF resume_dispatch_inv this, where cids = "waiting p w"]
    show ?thesis by (simp add: deliver_def Some rec WriteFlight)
  qed
qed

section \<open>Steps and reachable states\<close>

text \<open>
  What can happen to a page: the code calls \<open>request\<close>, an answer arrives, time passes, someone
  signs in or out of a realm, a component reads a session.
\<close>

inductive client_step :: "client \<Rightarrow> client \<Rightarrow> bool" where
  call: "client_step w (request path options w)"
| answer: "p \<in> fst ` set (inflight w) \<Longrightarrow> client_step w (deliver p reply w)"
| time: "0 \<le> d \<Longrightarrow> client_step w (w\<lparr>now := now w + d\<rparr>)"
| sign_in: "client_step w (snd (setTenantSession email pair None w))"
| sign_out: "client_step w (clearTenantSession (markExplicitSignOut w))"
| operator_in: "client_step w (snd (setPlatformSession token cr em dn ro ex w))"
| operator_out: "client_step w (clearPlatformSession w)"
| read_tenant: "client_step w (snd (getTenantSession w))"
| read_platform: "client_step w (snd (getPlatformSession w))"

inductive client_reachable :: "client \<Rightarrow> bool" where
  start: "client_reachable (page_load url st works t)"
| step: "client_reachable w \<Longrightarrow> client_step w w' \<Longrightarrow> client_reachable w'"

lemma page_load_inv: "client_inv {} {} (page_load url st works t)"
  by (simp add: client_inv_def page_load_def flights_ok_def reads_ok_def calls_ok_def cids_ok_def)

lemma client_step_inv:
  assumes "client_step w w'" "client_inv {} {} w"
  shows "client_inv {} {} w'"
  using assms
proof cases
  case call
  with assms(2) show ?thesis by (simp add: request_inv)
next
  case answer
  with assms(2) show ?thesis by (simp add: deliver_inv)
next
  case sign_out
  have "browser.more (markExplicitSignOut w) = browser.more w" by (simp add: markExplicitSignOut_def)
  with sign_out assms(2) more_inv [of "clearTenantSession (markExplicitSignOut w)" w] show ?thesis by simp
qed (use assms(2) more_inv [of w' w] in simp_all)

lemma reachable_inv: "client_reachable w \<Longrightarrow> client_inv {} {} w"
  by (induction rule: client_reachable.induct) (auto intro: page_load_inv client_step_inv)

end
