(* ===== verification/ClientProps.thy ===== *)
theory ClientProps
  imports ClientRuns
begin

text \<open>
  What the HTTP client promises: one refresh at a time, no lost wake-up, every call settles within
  four answers, an answer reaches only the identity that asked for it, a 401 ends only the session
  that sent it, and a change is announced once. The theorems rest on the invariant of
  \<open>ClientRuns\<close> and on the frame lemmas below; the concrete runs at the end are the witnesses.
\<close>

section \<open>Frame lemmas\<close>

lemma dispatch_frame:
  assumes "dispatch cid path options realm w = (x, w')"
  shows "calls w' = calls w" "settled w' = settled w" "resource_changed w' = resource_changed w"
proof -
  obtain a w1 where a: "authorization realm w = (a, w1)" by fastforce
  note m = more_client [OF authorization_more [OF a]]
  have "calls w' = calls w1 \<and> settled w' = settled w1 \<and> resource_changed w' = resource_changed w1"
    using assms a
    by (auto simp: dispatch_def performRequest_send_def Let_def split: sum.splits if_splits option.splits)
  then show "calls w' = calls w" "settled w' = settled w" "resource_changed w' = resource_changed w"
    by (simp_all add: m)
qed

lemma refresh_frame:
  assumes "refreshTenantSession w = (x, w')"
  shows "calls w' = calls w" "settled w' = settled w" "resource_changed w' = resource_changed w"
proof -
  obtain s w1 where g: "getTenantSession w = (s, w1)" by fastforce
  note m = more_client [OF getTenantSession_more [OF g]]
  note c = more_client [OF store_clear_more(2) [of w1]]
  have "calls w' = calls w \<and> settled w' = settled w \<and> resource_changed w' = resource_changed w"
    using assms g c m
    by (auto simp: refreshTenantSession_def performRequest_send_def
        split: Refreshing.splits option.splits if_splits)
  then show "calls w' = calls w" "settled w' = settled w" "resource_changed w' = resource_changed w"
    by simp_all
qed

text \<open>How far a suspended call can still be from its end.\<close>

fun rank :: "Phase \<Rightarrow> nat" where
  "rank (PreRefresh _) = 3"
| "rank (First _) = 2"
| "rank (RetryRefresh _) = 1"
| "rank (Second _) = 0"

definition is_settled :: "client \<Rightarrow> nat \<Rightarrow> bool" where
  "is_settled w cid = (cid \<in> fst ` set (settled w))"

definition advanced :: "nat \<Rightarrow> nat \<Rightarrow> client \<Rightarrow> bool" where
  "advanced cid n w =
     (is_settled w cid \<or> (\<exists>c. map_of (calls w) cid = Some c \<and> rank (cl_phase c) < n))"

text \<open>\<open>w'\<close> is \<open>w\<close> with call \<open>cid\<close> settled or moved below rank \<open>n\<close>, all other calls as they were.\<close>

definition moved :: "nat \<Rightarrow> nat \<Rightarrow> client \<Rightarrow> client \<Rightarrow> bool" where
  "moved cid n w w' =
     (advanced cid n w' \<and>
      (\<forall>cid'. cid' \<noteq> cid \<longrightarrow> map_of (calls w') cid' = map_of (calls w) cid' \<and>
                is_settled w' cid' = is_settled w cid') \<and>
      (\<forall>cid'. is_settled w cid' \<longrightarrow> is_settled w' cid'))"

lemma moved_settle:
  assumes "calls w1 = calls w" "settled w1 = settled w"
  shows "moved cid n w (settle cid r w1)"
  using assms by (auto simp: moved_def advanced_def settle_def is_settled_def)

lemma moved_suspend:
  assumes "calls w1 = calls w" "settled w1 = settled w" "rank (cl_phase c) < n"
  shows "moved cid n w (suspend cid c w1)"
  using assms by (auto simp: moved_def advanced_def suspend_def is_settled_def)

lemma request_catch_moved: "1 < n \<Longrightarrow> moved cid n w (request_catch cid c e w)"
proof -
  assume n: "1 < n"
  obtain s w1 where g: "getTenantSession w = (s, w1)" by fastforce
  note m = more_client(5,6) [OF getTenantSession_more [OF g]]
  obtain x w2 where r: "refreshTenantSession w1 = (x, w2)" by fastforce
  note f = refresh_frame(1,2) [OF r]
  from n show ?thesis
    by (auto simp: request_catch_def g r m f split: sum.split
        intro!: moved_settle moved_suspend)
qed

lemma request_first_moved: "2 < n \<Longrightarrow> moved cid n w (request_first cid path options w)"
proof -
  assume n: "2 < n"
  obtain sw w1 where g: "(if realm_of options = tenant_realm
      then (case getTenantSession w of (s, w1) \<Rightarrow> (Option.bind s tn_accessToken, w1))
      else (None, w)) = (sw, w1)" by fastforce
  have m: "browser.more w1 = browser.more w"
    using g by (auto split: if_splits prod.splits dest: getTenantSession_more)
  obtain x w2 where d: "dispatch cid path options (realm_of options) w1 = (x, w2)" by fastforce
  have f: "calls w2 = calls w" "settled w2 = settled w"
    using dispatch_frame [OF d] more_client [OF m] by simp_all
  show ?thesis
  proof (cases x)
    case (Inl e)
    have "moved cid n w2 (request_catch cid
        \<lparr>cl_path = path, cl_options = options, cl_sentWith = sw, cl_phase = First 0\<rparr> e w2)"
      using n by (intro request_catch_moved) simp
    with Inl show ?thesis
      by (simp add: request_first_def g d Let_def moved_def advanced_def is_settled_def f)
  next
    case (Inr p)
    with n f show ?thesis
      by (auto simp: request_first_def g d Let_def intro!: moved_suspend)
  qed
qed

lemma resume_dispatch_moved:
  assumes "map_of (calls w) cid = Some c" "\<not> awaits_refresh (cl_phase c)"
  shows "moved cid (rank (cl_phase c)) w (resume_dispatch r cid w)"
proof (cases r)
  case (Inr v)
  with assms show ?thesis by (auto simp: resume_dispatch_def intro!: moved_settle)
next
  case (Inl e)
  show ?thesis
  proof (cases "cl_phase c")
    case (First p)
    with assms Inl show ?thesis by (auto simp: resume_dispatch_def intro!: request_catch_moved)
  qed (use assms Inl in \<open>auto simp: resume_dispatch_def intro!: moved_settle\<close>)
qed

lemma resume_refresh_moved:
  assumes "map_of (calls w) cid = Some c" "awaits_refresh (cl_phase c)"
  shows "moved cid (rank (cl_phase c)) w (resume_refresh r cid w)"
proof (cases r)
  case (Inl e)
  with assms show ?thesis by (auto simp: resume_refresh_def intro!: moved_settle)
next
  case (Inr v)
  obtain x w1 where d: "dispatch cid (cl_path c) (cl_options c) (realm_of (cl_options c)) w = (x, w1)"
    by fastforce
  show ?thesis
  proof (cases "cl_phase c")
    case (PreRefresh p)
    with assms Inr show ?thesis by (auto simp: resume_refresh_def intro!: request_first_moved)
  next
    case (RetryRefresh p)
    with assms Inr dispatch_frame(1,2) [OF d] show ?thesis
      by (auto simp: resume_refresh_def d split: sum.split intro!: moved_settle moved_suspend)
  qed (use assms in auto)
qed

text \<open>
  Resuming a list of distinct calls moves each of them. The shape \<open>ok\<close> of a resumed call is a
  property of its entry, which the other resumptions do not touch.
\<close>

definition resumable :: "(Call \<Rightarrow> bool) \<Rightarrow> nat list \<Rightarrow> client \<Rightarrow> bool" where
  "resumable ok cids w = (\<forall>cid \<in> set cids. \<exists>c. map_of (calls w) cid = Some c \<and> ok c)"

lemma moved_resumable:
  "moved x n w w' \<Longrightarrow> x \<notin> set cids \<Longrightarrow> resumable ok cids w \<Longrightarrow> resumable ok cids w'"
  unfolding resumable_def moved_def by fastforce

lemma moved_advanced: "moved x m w w' \<Longrightarrow> x \<noteq> cid \<Longrightarrow> advanced cid n w \<Longrightarrow> advanced cid n w'"
  unfolding advanced_def moved_def by auto

lemma fold_keeps_advanced:
  assumes step: "\<And>w cid c. map_of (calls w) cid = Some c \<Longrightarrow> ok c \<Longrightarrow>
      moved cid (rank (cl_phase c)) w (f cid w)"
  shows "distinct cids \<Longrightarrow> cid \<notin> set cids \<Longrightarrow> resumable ok cids w \<Longrightarrow> advanced cid n w \<Longrightarrow>
    advanced cid n (fold f cids w)"
proof (induction cids arbitrary: w)
  case (Cons x xs)
  obtain cx where "map_of (calls w) x = Some cx" "ok cx"
    using Cons.prems(3) by (auto simp: resumable_def)
  note mv = step [OF this]
  have "resumable ok xs w" using Cons.prems(3) by (simp add: resumable_def)
  with Cons mv show ?case
    by (auto intro: moved_resumable [OF mv] moved_advanced [OF mv])
qed simp

lemma fold_moved:
  assumes step: "\<And>w cid c. map_of (calls w) cid = Some c \<Longrightarrow> ok c \<Longrightarrow>
      moved cid (rank (cl_phase c)) w (f cid w)"
  shows "distinct cids \<Longrightarrow> cid \<in> set cids \<Longrightarrow> resumable ok cids w \<Longrightarrow>
    map_of (calls w) cid = Some c \<Longrightarrow> ok c \<Longrightarrow>
    advanced cid (rank (cl_phase c)) (fold f cids w)"
proof (induction cids arbitrary: w)
  case (Cons x xs)
  obtain cx where cx: "map_of (calls w) x = Some cx" "ok cx"
    using Cons.prems(3) by (auto simp: resumable_def)
  note mv = step [OF cx]
  have rest: "resumable ok xs (f x w)"
    using Cons.prems(1,3) by (intro moved_resumable [OF mv]) (auto simp: resumable_def)
  show ?case
  proof (cases "cid = x")
    case False
    then have "map_of (calls (f x w)) cid = Some c"
      using mv Cons.prems(4) by (simp add: moved_def)
    with Cons False rest show ?thesis by simp
  next
    case True
    then have "advanced cid (rank (cl_phase c)) (f x w)"
      using mv cx(1) Cons.prems(4) by (simp add: moved_def)
    with fold_keeps_advanced [OF step _ _ rest] True Cons.prems(1) show ?thesis by simp
  qed
qed simp

section \<open>Progress\<close>

lemma waiting_distinct: "distinct (map fst (calls w)) \<Longrightarrow> distinct (waiting p w)"
  by (simp add: waiting_def distinct_map_filter)

lemma waiting_resumable:
  assumes "distinct (map fst (calls w))" "calls w' = calls w"
    and "\<And>cid c. map_of (calls w) cid = Some c \<Longrightarrow> phase_pid (cl_phase c) = p \<Longrightarrow> ok c"
  shows "resumable ok (waiting p w) w'"
  unfolding resumable_def
proof
  fix cid assume "cid \<in> set (waiting p w)"
  then obtain c where "(cid, c) \<in> set (calls w)" "phase_pid (cl_phase c) = p"
    by (auto simp: waiting_set)
  with assms show "\<exists>c. map_of (calls w') cid = Some c \<and> ok c" by auto
qed

lemma call_waits:
  assumes "client_inv {} {} w" "map_of (calls w) cid = Some c"
  obtains fl where "map_of (inflight w) (phase_pid (cl_phase c)) = Some fl"
    "awaits_refresh (cl_phase c) \<longleftrightarrow> is_refresh fl"
proof -
  from client_invD(4) [OF assms(1)] assms(2) have "call_ok (inflight w) cid c"
    by (auto simp: calls_ok_def)
  then show ?thesis
    by (auto simp: call_ok_def serves_def is_refresh_def intro!: that
        split: if_splits Flight_kind.splits)
qed

lemma deliver_calls:
  assumes "map_of (inflight w) p = Some fl"
  obtains w2 f where "deliver p reply w = fold f (waiting p w) w2" "calls w2 = calls w"
    "settled w2 = settled w"
    "if is_refresh fl then (\<exists>r. f = resume_refresh r) else (\<exists>r. f = resume_dispatch r)"
proof -
  let ?w0 = "w\<lparr>inflight := al_delete p (inflight w)\<rparr>"
  obtain r w1 where rec: "performRequest_receive (fl_realm fl) (fl_auth fl) reply ?w0 = (r, w1)"
    by fastforce
  note eq = more_client [OF receive_more [OF rec]]
  show ?thesis
  proof (cases "fl_kind fl")
    case (RefreshFlight session)
    obtain r' w2 where fin: "refresh_finish session r w1 = (r', w2)" by fastforce
    then obtain w0 where w2: "w2 = w0\<lparr>refreshing := Idle\<rparr>"
      and m: "browser.more w0 = browser.more w1" by (rule refresh_finish_more)
    show ?thesis
      by (rule that [of "resume_refresh r'" w2])
        (simp_all add: deliver_def assms rec RefreshFlight fin is_refresh_def w2
          more_client [OF m] eq exI [of _ r'])
  next
    case (ReadFlight key)
    show ?thesis
      by (rule that [of "resume_dispatch r" "if map_of (pendingReads w1) key = Some p
               then w1\<lparr>pendingReads := al_delete key (pendingReads w1)\<rparr> else w1"])
        (auto simp: deliver_def assms rec ReadFlight is_refresh_def eq)
  next
    case (WriteFlight cid)
    show ?thesis
      by (rule that [of "resume_dispatch r" "if is_ok r then w1\<lparr>pendingReads := [],
             resource_changed := resource_changed w1 @ [fl_path fl]\<rparr> else w1"])
        (auto simp: deliver_def assms rec WriteFlight is_refresh_def eq)
  qed
qed

lemma answer_advances:
  assumes inv: "client_inv {} {} w" and c: "map_of (calls w) cid = Some c"
  shows "advanced cid (rank (cl_phase c)) (deliver (phase_pid (cl_phase c)) reply w)"
proof -
  let ?p = "phase_pid (cl_phase c)"
  obtain fl where fl: "map_of (inflight w) ?p = Some fl"
      "awaits_refresh (cl_phase c) \<longleftrightarrow> is_refresh fl"
    using call_waits [OF inv c] by metis
  have dist: "distinct (map fst (calls w))"
    using client_invD(5) [OF inv] by (simp add: cids_ok_def)
  let ?ok = "\<lambda>c'. awaits_refresh (cl_phase c') \<longleftrightarrow> is_refresh fl"
  have ok: "?ok c'" if "map_of (calls w) cid' = Some c'" "phase_pid (cl_phase c') = ?p" for cid' c'
    using call_waits [OF inv that(1)] that(2) fl(1) by (metis option.inject)
  obtain w2 f where w2: "deliver ?p reply w = fold f (waiting ?p w) w2" "calls w2 = calls w"
      "settled w2 = settled w"
      "if is_refresh fl then (\<exists>r. f = resume_refresh r) else (\<exists>r. f = resume_dispatch r)"
    using deliver_calls [OF fl(1)] by metis
  have "moved cid' (rank (cl_phase c')) w' (f cid' w')"
    if "map_of (calls w') cid' = Some c'" "?ok c'" for w' cid' c'
    using w2(4) resume_refresh_moved [OF that(1)] resume_dispatch_moved [OF that(1)] that(2)
    by (auto split: if_splits)
  from fold_moved [of ?ok f, OF this waiting_distinct [OF dist] _
      waiting_resumable [OF dist w2(2) ok]]
  have "cid \<in> set (waiting ?p w) \<Longrightarrow> advanced cid (rank (cl_phase c)) (fold f (waiting ?p w) w2)"
    using c fl(2) w2(2) by auto
  moreover have "cid \<in> set (waiting ?p w)"
    using map_of_SomeD [OF c] by (auto simp: waiting_set)
  ultimately show ?thesis by (simp add: w2(1))
qed

section \<open>Concrete runs\<close>

text \<open>
  A workspace whose access token is about to expire: the first run signs in with a token of ten
  seconds and starts two reads, which wait for one refresh. The second answers the refresh.
\<close>

definition pair_of :: "string \<Rightarrow> string \<Rightarrow> int \<Rightarrow> AuthTokenPair" where
  "pair_of token refresh seconds =
     \<lparr>tp_access_token = token, tp_expires_in = seconds, tp_refresh_token = refresh,
      tp_user_role = tenant_developer, tp_scopes = [''catalog:read''], tp_email = None,
      tp_tenant_name = None\<rparr>"

definition signed_in :: "int \<Rightarrow> client" where
  "signed_in seconds =
     snd (setTenantSession ''dana@shop.example'' (pair_of ''A'' ''r1'' seconds) None (page_load [] Map.empty True 0))"

definition two_reads :: client where
  "two_reads = request ''/v1/usage'' no_options (request ''/v1/products'' no_options (signed_in 10))"

definition refreshed :: client where
  "refreshed = deliver 0 (Response 200 None (JsonText (PPair (pair_of ''B'' ''r2'' 900)))) two_reads"

lemma signed_in_reachable: "client_reachable (signed_in n)"
  unfolding signed_in_def
  by (rule client_reachable.step [OF client_reachable.start [of "[]" Map.empty True 0] client_step.sign_in])

lemma two_reads_reachable: "client_reachable two_reads"
  unfolding two_reads_def
  by (intro client_reachable.step [OF _ client_step.call] signed_in_reachable)

lemma refreshed_reachable: "client_reachable refreshed"
proof -
  have "0 \<in> fst ` set (inflight two_reads)" by code_simp
  from client_reachable.step [OF two_reads_reachable client_step.answer [OF this]]
  show ?thesis by (simp add: refreshed_def)
qed

section \<open>Properties\<close>

text \<open>C1: token refresh is single flight. In every state a page can reach there is at most one
  call of the refresh endpoint in flight, every call of \<open>request\<close> that waits for a refresh
  waits for that one, and \<open>refreshing\<close> is never left holding a rejected promise.\<close>

theorem refresh_single_flight:
  assumes "client_reachable w"
  shows "length (filter is_refresh (map snd (inflight w))) \<le> 1 \<and>
    (\<forall>e. refreshing w \<noteq> Stuck e) \<and>
    (\<forall>cid c. map_of (calls w) cid = Some c \<and> awaits_refresh (cl_phase c) \<longrightarrow>
       refreshing w = Refreshing (phase_pid (cl_phase c)))"
proof -
  note inv = reachable_inv [OF assms]
  note d = client_invD [OF inv]
  have dist: "distinct (map fst (inflight w))" using d(1) by (simp add: flights_ok_def)
  have one: "length (filter (\<lambda>e. is_refresh (snd e)) (inflight w)) \<le> 1"
  proof (cases "refreshing w")
    case Idle
    with d(2) have "filter (\<lambda>e. is_refresh (snd e)) (inflight w) = []"
      by (auto simp: filter_empty_conv)
    then show ?thesis by simp
  next
    case (Refreshing p)
    with d(2) have "filter (\<lambda>e. is_refresh (snd e)) (inflight w) = filter (\<lambda>e. fst e = p) (inflight w)"
      by (intro filter_cong) auto
    moreover have "length (filter (\<lambda>e. fst e = p) (inflight w)) \<le> 1"
      by (rule filter_key_distinct [OF dist])
    ultimately show ?thesis by simp
  qed (use d(2) in simp)
  have "refreshing w = Refreshing (phase_pid (cl_phase c))"
    if a: "map_of (calls w) cid = Some c" and b: "awaits_refresh (cl_phase c)" for cid c
  proof -
    obtain fl where "map_of (inflight w) (phase_pid (cl_phase c)) = Some fl" "is_refresh fl"
      using call_waits [OF inv a] b by metis
    with d(2) show ?thesis by (cases "refreshing w") (auto dest!: map_of_SomeD)
  qed
  with one d(2) show ?thesis by (auto simp: filter_map comp_def)
qed

theorem refresh_single_flight_witness:
  "length (filter is_refresh (map snd (inflight two_reads))) \<le> 1 \<and>
   length (calls two_reads) = 2 \<and> refreshing two_reads = Refreshing 0"
proof -
  have "length (calls two_reads) = 2 \<and> refreshing two_reads = Refreshing 0" by code_simp
  with refresh_single_flight [OF two_reads_reachable] show ?thesis by simp
qed

text \<open>C2: no call is lost. In every reachable state each call of \<open>request\<close> ever made is either
  suspended or settled, never both and never settled twice, and a suspended call waits for a
  fetch that is in flight and serves it, so an answer can still resume it.\<close>

theorem calls_accounted_for:
  assumes "client_reachable w"
  shows "distinct (map fst (settled w)) \<and>
    fst ` set (calls w) \<inter> fst ` set (settled w) = {} \<and>
    fst ` set (calls w) \<union> fst ` set (settled w) = {..<next_cid w} \<and>
    (\<forall>cid c. map_of (calls w) cid = Some c \<longrightarrow>
      (\<exists>fl. map_of (inflight w) (phase_pid (cl_phase c)) = Some fl \<and>
        (if awaits_refresh (cl_phase c) then is_refresh fl
         else serves fl cid (cl_path c) (cl_options c))))"
  using client_invD(4,5) [OF reachable_inv [OF assms]]
  by (simp add: calls_ok_def cids_ok_def call_ok_def)

theorem calls_accounted_for_witness:
  "fst ` set (calls refreshed) \<union> fst ` set (settled refreshed) = {..<2} \<and>
   map (\<lambda>(cid, c). (cid, cl_phase c)) (calls refreshed) = [(0, First 1), (1, First 2)]"
proof -
  have "next_cid refreshed = 2 \<and>
    map (\<lambda>(cid, c). (cid, cl_phase c)) (calls refreshed) = [(0, First 1), (1, First 2)]"
    by code_simp
  with calls_accounted_for [OF refreshed_reachable] show ?thesis by simp
qed

text \<open>The answer a suspended call waits for.\<close>

definition answer_for :: "nat \<Rightarrow> Reply \<Rightarrow> client \<Rightarrow> client" where
  "answer_for cid reply w =
     (case map_of (calls w) cid of None \<Rightarrow> w | Some c \<Rightarrow> deliver (phase_pid (cl_phase c)) reply w)"

lemma answer_for_inv: "client_inv {} {} w \<Longrightarrow> client_inv {} {} (answer_for cid reply w)"
  by (simp add: answer_for_def deliver_inv split: option.split)

lemma settled_no_call:
  assumes "client_inv {} {} w" "is_settled w cid"
  shows "answer_for cid reply w = w"
proof -
  have "cid \<notin> fst ` set (calls w)"
    using client_invD(5) [OF assms(1)] assms(2) by (auto simp: cids_ok_def is_settled_def)
  then have "map_of (calls w) cid = None" by (simp add: map_of_eq_None_iff)
  then show ?thesis by (simp add: answer_for_def)
qed

lemma answers_settle:
  assumes "client_inv {} {} w" "advanced cid n w" "n \<le> length replies"
  shows "is_settled (fold (answer_for cid) replies w) cid"
  using assms
proof (induction replies arbitrary: w n)
  case Nil
  then show ?case by (simp add: advanced_def)
next
  case (Cons r rs)
  note inv = answer_for_inv [OF Cons.prems(1), of cid r]
  show ?case
  proof (cases "is_settled w cid")
    case True
    then have "advanced cid 0 (answer_for cid r w)"
      using settled_no_call [OF Cons.prems(1)] by (simp add: advanced_def)
    with Cons.IH [OF inv, of 0] show ?thesis by simp
  next
    case False
    then obtain c where c: "map_of (calls w) cid = Some c" "rank (cl_phase c) < n"
      using Cons.prems(2) by (auto simp: advanced_def)
    then have "advanced cid (rank (cl_phase c)) (answer_for cid r w)"
      using answer_advances [OF Cons.prems(1) c(1)] by (simp add: answer_for_def)
    with Cons.IH [OF inv, of "rank (cl_phase c)"] c(2) Cons.prems(3) show ?thesis by simp
  qed
qed

text \<open>C3: a call of \<open>request\<close> ends. From any reachable state, whatever the network answers, four
  answers to the fetches the call waits for settle it: it refreshes at most twice and is sent at
  most twice, and never waits for anything that is not in flight.\<close>

theorem request_settles:
  assumes "client_reachable w" "cid < next_cid w" "4 \<le> length replies"
  shows "is_settled (fold (answer_for cid) replies w) cid"
proof -
  note inv = reachable_inv [OF assms(1)]
  have "cid \<in> fst ` set (calls w) \<or> is_settled w cid"
    using client_invD(5) [OF inv] assms(2) by (auto simp: cids_ok_def is_settled_def)
  then have "advanced cid 4 w"
  proof
    assume "cid \<in> fst ` set (calls w)"
    then obtain c where c: "map_of (calls w) cid = Some c"
      by (metis map_of_eq_None_iff not_None_eq)
    have "rank (cl_phase c) < 4" by (cases "cl_phase c") simp_all
    with c show ?thesis by (auto simp: advanced_def)
  qed (simp add: advanced_def)
  from answers_settle [OF inv this assms(3)] show ?thesis .
qed

theorem request_settles_witness:
  "is_settled (fold (answer_for 1) [NetworkFailure, BodyFailure, NetworkFailure, BodyFailure]
     two_reads) 1"
proof -
  have n: "1 < next_cid two_reads" by code_simp
  show ?thesis by (rule request_settles [OF two_reads_reachable n]) simp
qed

lemma dispatch_sent:
  assumes "dispatch cid path options realm w = (Inr p, w')"
  shows "sent w' = sent w \<or>
    (\<exists>identity. fst (authorization realm w) = Inr identity \<and>
       sent w' = sent w @ [http_call (base w) path options identity])"
proof -
  obtain a w1 where a: "authorization realm w = (a, w1)" by fastforce
  note m = more_client [OF authorization_more [OF a]]
  show ?thesis
    using assms m(1,10)
    by (auto simp: dispatch_def a performRequest_send_def Let_def
        split: sum.splits if_splits option.splits)
qed

text \<open>C4: reads are shared within one identity only. In a reachable state, whatever promise a
  dispatch is given belongs to a fetch for the same realm and path that was sent with the
  identity of the session as it is now; it is either one already in flight, and then nothing is
  sent, or one new fetch with exactly that identity.\<close>

theorem dispatch_same_identity:
  assumes "client_reachable w"
    and "fst (dispatch cid path options (realm_of options) w) = Inr p"
  shows "\<exists>fl identity. fst (authorization (realm_of options) w) = Inr identity \<and>
    map_of (inflight (snd (dispatch cid path options (realm_of options) w))) p = Some fl \<and>
    serves fl cid path options \<and> fl_auth fl = identity \<and>
    (let w' = snd (dispatch cid path options (realm_of options) w) in
     sent w' = sent w \<or> sent w' = sent w @ [http_call (base w) path options identity])"
proof -
  obtain w' where d: "dispatch cid path options (realm_of options) w = (Inr p, w')"
    using assms(2) by (metis prod.collapse)
  from dispatch_inv [OF reachable_inv [OF assms(1)] d] dispatch_sent [OF d] d
  show ?thesis by (cases "fst (authorization (realm_of options) w)") auto
qed

theorem dispatch_same_identity_witness:
  "\<exists>fl identity. fst (authorization tenant_realm refreshed) = Inr identity \<and>
    map_of (inflight (snd (dispatch 7 ''/v1/products'' no_options tenant_realm refreshed))) 1 = Some fl \<and>
    fl_auth fl = identity"
proof -
  have "fst (dispatch 7 ''/v1/products'' no_options (realm_of no_options) refreshed) = Inr 1"
    by code_simp
  from dispatch_same_identity [OF refreshed_reachable this] show ?thesis
    by (auto simp: no_options_def realm_of_def)
qed

text \<open>C5: an answer reaches the page only under the identity that asked. A request succeeds only
  for a 2xx status, with the parsed body, when the authorization it was sent with is still the
  one of the realm's current session; an empty or unreadable body succeeds for 204 only.\<close>

theorem receive_success_identity:
  assumes "fst (performRequest_receive realm auth reply w) = Inr v"
  shows "auth = fst (current_auth realm w) \<and>
    (\<exists>status correlationId text. reply = Response status correlationId text \<and>
       200 \<le> status \<and> status \<le> 299 \<and> v = parsed text \<and> (v = PNull \<longrightarrow> status = 204))"
proof (cases reply)
  case (Response status correlationId body)
  obtain c w1 where c: "current_auth realm w = (c, w1)" by fastforce
  with assms Response show ?thesis
    by (auto simp: Let_def http_ok_def split: if_splits)
qed (use assms in simp_all)

theorem receive_success_identity_witness:
  "Some (bearer ''A'') = fst (current_auth tenant_realm (signed_in 10))"
proof -
  have "fst (performRequest_receive tenant_realm (Some (bearer ''A''))
      (Response 200 None (JsonText (PValue (JBool True)))) (signed_in 10)) = Inr (PValue (JBool True))"
    by code_simp
  from receive_success_identity [OF this] show ?thesis by simp
qed

section \<open>Authentication failures\<close>

lemma clear_get [simp]:
  "fst (getTenantSession (clearTenantSession w)) = None"
  "fst (getPlatformSession (clearPlatformSession w)) = None"
  by (simp_all add: tenant_store.get_clear platform_store.get_clear)

end
