(* ===== verification/ClientAuth.thy ===== *)
theory ClientAuth
  imports ClientProps
begin

text \<open>
  What the client does to the sessions: which answers end a session, what a token refresh leaves
  behind, and what the page is told after a change. The first section shows that the two realms'
  stores do not disturb each other; the runs of the last section are the cases where a refresh
  crosses another event.
\<close>

section \<open>The realms are separate\<close>

lemma tenant_keeps_platform_storage [session_simps]:
  "storage (snd (getTenantSession b)) PLATFORM_KEY = storage b PLATFORM_KEY"
  "storage (snd (getPlatformSession b)) TENANT_KEY = storage b TENANT_KEY"
  by (simp_all add: getTenantSession_def getPlatformSession_def Let_def write_entry_fields
      split: option.split)

lemma read_across [session_simps]:
  "read_platform PLATFORM_KEY (snd (getTenantSession b)) = read_platform PLATFORM_KEY b"
  "read_tenant TENANT_KEY (snd (getPlatformSession b)) = read_tenant TENANT_KEY b"
  by (simp_all add: read_platform_def read_tenant_def session_simps)

lemma read_write [session_simps]:
  "read_platform PLATFORM_KEY (write_entry TENANT_KEY v b) = read_platform PLATFORM_KEY b"
  "read_tenant TENANT_KEY (write_entry PLATFORM_KEY v b) = read_tenant TENANT_KEY b"
  "read_platform PLATFORM_KEY (b\<lparr>tenantCache := tc\<rparr>) = read_platform PLATFORM_KEY b"
  "read_tenant TENANT_KEY (b\<lparr>platformCache := pc\<rparr>) = read_tenant TENANT_KEY b"
  by (simp_all add: read_platform_def read_tenant_def session_simps)

lemma get_across [simp]:
  "fst (getPlatformSession (snd (getTenantSession b))) = fst (getPlatformSession b)"
  "fst (getTenantSession (snd (getPlatformSession b))) = fst (getTenantSession b)"
  by (simp_all add: getPlatformSession_cases getTenantSession_cases session_simps
      split: cache.split option.split)

lemma get_across_clear [simp]:
  "fst (getPlatformSession (clearTenantSession b)) = fst (getPlatformSession b)"
  "fst (getTenantSession (clearPlatformSession b)) = fst (getTenantSession b)"
  "fst (getPlatformSession (store_tenant s b)) = fst (getPlatformSession b)"
  by (simp_all add: getPlatformSession_cases getTenantSession_cases session_simps
      clearTenantSession_def clearPlatformSession_def store_tenant_def
      split: cache.split option.split)

lemma get_get_fst [simp]:
  "fst (getTenantSession (snd (getTenantSession b))) = fst (getTenantSession b)"
  "fst (getPlatformSession (snd (getPlatformSession b))) = fst (getPlatformSession b)"
  by (simp_all add: tenant_store.get_get platform_store.get_get)

lemma get_same_browser:
  fixes w w' :: client
  assumes "browser.truncate w' = browser.truncate w"
  shows "fst (getTenantSession w') = fst (getTenantSession w)"
    "fst (getPlatformSession w') = fst (getPlatformSession w)"
proof -
  have "storage w' = storage w" "storage_works w' = storage_works w"
    "tenantCache w' = tenantCache w" "platformCache w' = platformCache w" "now w' = now w"
    using assms by (simp_all add: browser.truncate_def)
  then show "fst (getTenantSession w') = fst (getTenantSession w)"
    "fst (getPlatformSession w') = fst (getPlatformSession w)"
    by (simp_all add: getTenantSession_cases getPlatformSession_cases read_tenant_def
        read_platform_def split: cache.split option.split)
qed

lemma get_refreshing [simp]:
  fixes w :: client
  shows "fst (getTenantSession (w\<lparr>refreshing := r\<rparr>)) = fst (getTenantSession w)"
    "fst (getPlatformSession (w\<lparr>refreshing := r\<rparr>)) = fst (getPlatformSession w)"
  by (rule get_same_browser, simp add: browser.truncate_def)+

lemma current_auth_get [simp]:
  "fst (getTenantSession (snd (current_auth r w))) = fst (getTenantSession w)"
  "fst (getPlatformSession (snd (current_auth r w))) = fst (getPlatformSession w)"
  by (cases r; simp add: split_beta)+

section \<open>Authentication failures\<close>

text \<open>Whether an answer ends the session of a realm.\<close>

definition refusal :: "Reply \<Rightarrow> GraphRecApiError option" where
  "refusal reply =
     (case reply of
        Response status correlationId body \<Rightarrow>
          if status = 401
          then Some (new_GraphRecApiError status (as_error_body (parsed body)) correlationId)
          else None
      | _ \<Rightarrow> None)"

definition ends_tenant :: "Realm \<Rightarrow> string option \<Rightarrow> Reply \<Rightarrow> TenantSession option \<Rightarrow> bool" where
  "ends_tenant realm auth reply s =
     (case refusal reply of
        None \<Rightarrow> False
      | Some err \<Rightarrow> realm = tenant_realm \<and> auth = Some (tenant_bearer s) \<and>
          \<not> (err_code err = ''token_expired'' \<and> truthy (Option.bind s tn_refreshToken)))"

definition ends_platform :: "Realm \<Rightarrow> string option \<Rightarrow> Reply \<Rightarrow> PlatformSession option \<Rightarrow> bool" where
  "ends_platform realm auth reply s =
     (refusal reply \<noteq> None \<and> realm = platform_realm \<and> auth = Some (platform_bearer s))"

lemma receive_error_sessions:
  "fst (getTenantSession (receive_error realm auth status err w)) =
     (if status = 401 \<and> realm = tenant_realm \<and> auth = Some (tenant_bearer (fst (getTenantSession w))) \<and>
         \<not> (err_code err = ''token_expired'' \<and>
              truthy (Option.bind (fst (getTenantSession w)) tn_refreshToken))
      then None else fst (getTenantSession w))"
  "fst (getPlatformSession (receive_error realm auth status err w)) =
     (if status = 401 \<and> realm = platform_realm \<and>
         auth = Some (platform_bearer (fst (getPlatformSession w)))
      then None else fst (getPlatformSession w))"
  by (cases realm; cases "status = 401"; cases "err_code err = ''token_expired''";
      simp add: receive_error_def split_beta Let_def)+

text \<open>C6: an authentication failure ends only the session that caused it. Whatever the network
  answers, receiving it changes what the page sees of a realm's session in one case: a 401 to a
  request of that realm, sent with the token that is still the current one, and, for a workspace,
  not an expired token that a refresh token can renew. A newer sign-in, the other realm and
  every other status keep their session.\<close>

theorem receive_ends_own_session:
  "(let w' = snd (performRequest_receive realm auth reply w);
        s = fst (getTenantSession w); p = fst (getPlatformSession w)
    in fst (getTenantSession w') = (if ends_tenant realm auth reply s then None else s) \<and>
       fst (getPlatformSession w') = (if ends_platform realm auth reply p then None else p))"
proof (cases reply)
  case (Response status correlationId body)
  have code: "ends_tenant realm auth (Response status correlationId body) s \<longleftrightarrow>
      status = 401 \<and> realm = tenant_realm \<and> auth = Some (tenant_bearer s) \<and>
      \<not> (err_code (new_GraphRecApiError status (as_error_body (parsed body)) correlationId) =
           ''token_expired'' \<and> truthy (Option.bind s tn_refreshToken))"
    "ends_platform realm auth (Response status correlationId body) p \<longleftrightarrow>
      status = 401 \<and> realm = platform_realm \<and> auth = Some (platform_bearer p)" for s p
    by (simp_all add: ends_tenant_def ends_platform_def refusal_def)
  show ?thesis
  proof (cases "http_ok status")
    case False
    then have "snd (performRequest_receive realm auth (Response status correlationId body) w) =
        receive_error realm auth status
          (new_GraphRecApiError status (as_error_body (parsed body)) correlationId) w"
      by (simp add: Let_def)
    then show ?thesis unfolding Response Let_def code by (simp only: receive_error_sessions)
  next
    case True
    then have no: "status \<noteq> 401" by (simp add: http_ok_def)
    have "snd (performRequest_receive realm auth (Response status correlationId body) w) =
        snd (current_auth realm w)"
      using True by (simp add: split_beta)
    then show ?thesis unfolding Response Let_def code by (simp add: no)
  qed
qed (simp_all add: Let_def ends_tenant_def ends_platform_def refusal_def)

section \<open>Refresh outcomes\<close>

text \<open>The session after the answer to the refresh call, as the page sees it.\<close>

definition after_refresh :: "TenantSession \<Rightarrow> Reply \<Rightarrow> client \<Rightarrow> TenantSession option" where
  "after_refresh session reply w =
     (case performRequest_receive public_realm None reply w of
        (r, w1) \<Rightarrow> fst (getTenantSession (snd (refresh_finish session r w1))))"

definition renewed :: "TenantSession \<Rightarrow> AuthTokenPair \<Rightarrow> int \<Rightarrow> TenantSession" where
  "renewed session pair t =
     session\<lparr>tn_email := or_else (tp_email pair) (tn_email session),
       tn_role := tp_user_role pair, tn_scopes := tp_scopes pair,
       tn_accessToken := Some (tp_access_token pair), tn_tenantName := tp_tenant_name pair,
       tn_refreshToken := Some (tp_refresh_token pair),
       tn_expiresAt := Some (t + tp_expires_in pair * 1000)\<rparr>"

lemma public_receive_now:
  "now (snd (performRequest_receive public_realm a reply w)) = now w"
  by (cases reply) (simp_all add: Let_def receive_error_def split_beta session_simps)

text \<open>A value in which a reader of a token pair finds none of the members a session lives on, as \<open>{}\<close>, \<open>[]\<close> or a number.\<close>

definition without_members :: "json \<Rightarrow> bool" where
  "without_members j =
     (j \<noteq> JNull \<and> list_all (\<lambda>k. json_member j k = None) [''access_token'', ''refresh_token'', ''expires_in''])"

lemma outcome_of_value:
  assumes "http_ok status" "j \<noteq> JNull"
  shows "after_refresh session (Response status correlationId (JsonText (PValue j))) w =
    (if tenant_lapsed (now w) (session_of_value session j (now w)) then None
     else Some (session_of_value session j (now w)))"
  using assms by (simp add: after_refresh_def refresh_finish_def Let_def tenant_store.get_put)

lemma refresh_cases:
  "after_refresh session reply w =
     (case reply of
        NetworkFailure \<Rightarrow> fst (getTenantSession w)
      | BodyFailure \<Rightarrow> None
      | Response status correlationId body \<Rightarrow>
          if \<not> http_ok status
          then (if status = 401 then None else fst (getTenantSession w))
          else (case parsed body of
                  PPair pair \<Rightarrow>
                    if tp_refresh_token pair = [] \<and> tp_expires_in pair \<le> 0 then None
                    else Some (renewed session pair (now w))
                | PNull \<Rightarrow> if status = 204 then None else fst (getTenantSession w)
                | p \<Rightarrow>
                    (let s = session_of_value session (value_json p) (now w)
                     in if tenant_lapsed (now w) s then None else Some s)))"
proof (cases reply)
  case NetworkFailure
  then show ?thesis
    by (simp add: after_refresh_def refresh_finish_def network_error_def api_error_def
        new_GraphRecApiError_def Let_def)
next
  case BodyFailure
  then show ?thesis by (simp add: after_refresh_def refresh_finish_def)
next
  case (Response status correlationId body)
  show ?thesis
  proof (cases "http_ok status")
    case False
    with Response show ?thesis
      by (simp add: after_refresh_def refresh_finish_def new_GraphRecApiError_def Let_def
          receive_error_sessions)
  next
    case True
    note receive = after_refresh_def refresh_finish_def Let_def tenant_store.get_put
      invalid_response_error_def api_error_def new_GraphRecApiError_def
    show ?thesis
    proof (cases "parsed body")
      case PNull
      with True Response show ?thesis by (simp add: receive http_ok_def)
    next
      case (PPair pair)
      with True Response show ?thesis
        by (simp add: receive setTenantSession_def tenant_lapsed_def tenant_session_of_def renewed_def)
    qed (use True Response in \<open>simp_all add: receive\<close>)
  qed
qed

text \<open>C7: what a refresh leaves. A token pair renews the session: new token, role, scopes and
  expiry, the sign-in time kept, and the address kept when the pair names none. A refused refresh
  token (401), a 2xx body that is lost on its way, and the empty 204 sign out; a 2xx body that is empty or no JSON,
  an API that cannot be reached and every other error status leave the session as it is. Any other 2xx
  value is taken for a pair without a check: one without the members of a pair (\<open>{}\<close>, \<open>[]\<close>, a number) leaves a
  session without a token and without an expiry, which signs its requests \<open>Bearer undefined\<close> and never lapses
  on this page.\<close>

theorem refresh_outcome:
  "after_refresh session reply w =
     (case reply of
        NetworkFailure \<Rightarrow> fst (getTenantSession w)
      | BodyFailure \<Rightarrow> None
      | Response status correlationId body \<Rightarrow>
          if \<not> http_ok status
          then (if status = 401 then None else fst (getTenantSession w))
          else (case parsed body of
                  PPair pair \<Rightarrow>
                    if tp_refresh_token pair = [] \<and> tp_expires_in pair \<le> 0 then None
                    else Some (renewed session pair (now w))
                | PNull \<Rightarrow> if status = 204 then None else fst (getTenantSession w)
                | p \<Rightarrow>
                    (let s = session_of_value session (value_json p) (now w)
                     in if tenant_lapsed (now w) s then None else Some s))) \<and>
   (http_ok status' \<and> without_members j \<longrightarrow>
      (\<exists>s. after_refresh session (Response status' correlationId' (JsonText (PValue j))) w = Some s \<and>
         tn_accessToken s = None \<and> tn_refreshToken s = None \<and> tenant_bearer (Some s) = ''Bearer undefined'' \<and>
         (\<forall>t. \<not> tenant_lapsed t s)))"
proof (intro conjI impI)
  show "after_refresh session reply w =
     (case reply of
        NetworkFailure \<Rightarrow> fst (getTenantSession w)
      | BodyFailure \<Rightarrow> None
      | Response status correlationId body \<Rightarrow>
          if \<not> http_ok status
          then (if status = 401 then None else fst (getTenantSession w))
          else (case parsed body of
                  PPair pair \<Rightarrow>
                    if tp_refresh_token pair = [] \<and> tp_expires_in pair \<le> 0 then None
                    else Some (renewed session pair (now w))
                | PNull \<Rightarrow> if status = 204 then None else fst (getTenantSession w)
                | p \<Rightarrow>
                    (let s = session_of_value session (value_json p) (now w)
                     in if tenant_lapsed (now w) s then None else Some s)))"
    by (rule refresh_cases)
next
  assume h: "http_ok status' \<and> without_members j"
  let ?s = "session_of_value session j (now w)"
  from h have "tn_accessToken ?s = None" "tn_refreshToken ?s = None" "tn_expiresAt ?s = None"
    by (simp_all add: without_members_def session_of_value_def text_member_def)
  moreover from this have "\<not> tenant_lapsed t ?s" for t by (simp add: tenant_lapsed_def)
  moreover from h have "j \<noteq> JNull" by (simp add: without_members_def)
  ultimately show "\<exists>s. after_refresh session (Response status' correlationId' (JsonText (PValue j))) w = Some s \<and>
         tn_accessToken s = None \<and> tn_refreshToken s = None \<and> tenant_bearer (Some s) = ''Bearer undefined'' \<and>
         (\<forall>t. \<not> tenant_lapsed t s)"
    using h by (simp add: outcome_of_value tenant_bearer_def bearer_def)
qed

theorem refresh_outcome_witness:
  "map_option tenant_bearer (map_option Some (after_refresh (the (fst (getTenantSession (signed_in 900))))
     (Response 200 None (JsonText (PValue (JObj [])))) (signed_in 900))) = Some ''Bearer undefined''"
proof -
  have "http_ok 200 \<and> without_members (JObj [])" by code_simp
  from conjunct2 [OF refresh_outcome, rule_format, OF this] show ?thesis by fastforce
qed

section \<open>Announcing a change\<close>

text \<open>Resuming calls announces nothing: only the answer to a change does.\<close>

lemma settle_suspend_announce [client_simps]:
  "resource_changed (settle cid r w) = resource_changed w"
  "resource_changed (suspend cid c w) = resource_changed w"
  "pendingReads (settle cid r w) = pendingReads w"
  by (simp_all add: settle_def suspend_def)

lemma request_catch_announce [client_simps]:
  "resource_changed (request_catch cid c e w) = resource_changed w"
proof -
  obtain s w1 where g: "getTenantSession w = (s, w1)" by fastforce
  obtain x w2 where r: "refreshTenantSession w1 = (x, w2)" by fastforce
  show ?thesis
    using refresh_frame(3) [OF r] more_client(9) [OF getTenantSession_more [OF g]]
    by (simp add: request_catch_def g r client_simps split: sum.split)
qed

lemma request_first_announce [client_simps]:
  "resource_changed (request_first cid path options w) = resource_changed w"
proof -
  obtain sw w1 where g: "(if realm_of options = tenant_realm
      then (case getTenantSession w of (s, w1) \<Rightarrow> (Option.bind s tn_accessToken, w1))
      else (None, w)) = (sw, w1)" by fastforce
  have m: "browser.more w1 = browser.more w"
    using g by (auto split: if_splits prod.splits dest: getTenantSession_more)
  obtain x w2 where d: "dispatch cid path options (realm_of options) w1 = (x, w2)" by fastforce
  show ?thesis
    using dispatch_frame(3) [OF d] more_client(9) [OF m]
    by (simp add: request_first_def g d Let_def client_simps split: sum.split)
qed

lemma resume_announce [client_simps]:
  "resource_changed (resume_dispatch r cid w) = resource_changed w"
  "resource_changed (resume_refresh r' cid w) = resource_changed w"
proof -
  show "resource_changed (resume_dispatch r cid w) = resource_changed w"
    by (simp add: resume_dispatch_def client_simps split: option.split sum.split Phase.split)
  show "resource_changed (resume_refresh r' cid w) = resource_changed w"
  proof (cases "map_of (calls w) cid")
    case (Some c)
    obtain x w1 where d: "dispatch cid (cl_path c) (cl_options c) (realm_of (cl_options c)) w = (x, w1)"
      by fastforce
    from Some show ?thesis
      using dispatch_frame(3) [OF d]
      by (simp add: resume_refresh_def d client_simps split: sum.split Phase.split)
  qed (simp add: resume_refresh_def)
qed

lemma resume_ok_reads [client_simps]:
  "pendingReads (resume_dispatch (Inr v) cid w) = pendingReads w"
  by (simp add: resume_dispatch_def client_simps split: option.split)

lemma fold_frame: "(\<And>x w. g (f x w) = g w) \<Longrightarrow> g (fold f xs w) = g w"
  by (induction xs arbitrary: w) simp_all

definition is_write :: "Flight \<Rightarrow> bool" where
  "is_write fl = (case fl_kind fl of WriteFlight _ \<Rightarrow> True | _ \<Rightarrow> False)"

text \<open>C8: a change is announced exactly once. An answer announces a changed resource if and
  only if it is the successful answer to a call that was not a read; then it announces the path of
  that call once, and forgets every pending read, so no later read is served by an answer that
  was asked for before the change.\<close>

theorem change_announced_once:
  assumes "map_of (inflight w) p = Some fl"
    and "r = fst (performRequest_receive (fl_realm fl) (fl_auth fl) reply
               (w\<lparr>inflight := al_delete p (inflight w)\<rparr>))"
  shows "resource_changed (deliver p reply w) =
      resource_changed w @ (if is_write fl \<and> is_ok r then [fl_path fl] else []) \<and>
    (is_write fl \<and> is_ok r \<longrightarrow> pendingReads (deliver p reply w) = [])"
proof -
  obtain r' w1 where rec: "performRequest_receive (fl_realm fl) (fl_auth fl) reply
      (w\<lparr>inflight := al_delete p (inflight w)\<rparr>) = (r', w1)" by fastforce
  then have r: "r' = r" using assms(2) by simp
  note eq = more_client [OF receive_more [OF rec]]
  note fr = fold_frame [where g = resource_changed, OF resume_announce(1)]
    fold_frame [where g = resource_changed, OF resume_announce(2)]
  show ?thesis
  proof (cases "fl_kind fl")
    case (RefreshFlight session)
    obtain r'' w2 where fin: "refresh_finish session r' w1 = (r'', w2)" by fastforce
    then obtain w0 where "w2 = w0\<lparr>refreshing := Idle\<rparr>" "browser.more w0 = browser.more w1"
      by (rule refresh_finish_more)
    then have "resource_changed w2 = resource_changed w1" using more_client(9) [of w0 w1] by simp
    with RefreshFlight assms(1) rec fin eq show ?thesis
      by (simp add: deliver_def is_write_def fr)
  next
    case (ReadFlight key)
    with assms(1) rec eq show ?thesis by (simp add: deliver_def is_write_def fr)
  next
    case (WriteFlight cid)
    show ?thesis
    proof (cases r)
      case (Inl e)
      with WriteFlight assms(1) rec eq r show ?thesis by (simp add: deliver_def is_write_def fr)
    next
      case (Inr v)
      have "pendingReads (fold (resume_dispatch (Inr v)) cids w') = pendingReads w'" for cids w'
        by (rule fold_frame) (rule resume_ok_reads)
      with Inr WriteFlight assms(1) rec eq r show ?thesis by (simp add: deliver_def is_write_def fr)
    qed
  qed
qed

text \<open>A run with a change: a workspace deletes a product while it reads the list.\<close>

definition delete_options :: RequestOptions where
  "delete_options = no_options\<lparr>ro_method := Some DELETE\<rparr>"

definition deleting :: client where
  "deleting = request ''/v1/products/p1'' delete_options
     (request ''/v1/products'' no_options (signed_in 900))"

theorem change_announced_once_witness:
  "resource_changed (deliver 1 (Response 204 None EmptyText) deleting) = [''/v1/products/p1''] \<and>
   pendingReads deleting \<noteq> [] \<and>
   pendingReads (deliver 1 (Response 204 None EmptyText) deleting) = []"
proof -
  let ?fl = "\<lparr>fl_path = ''/v1/products/p1'', fl_realm = tenant_realm,
               fl_auth = Some (bearer ''A''), fl_kind = WriteFlight 1\<rparr>"
  have fl: "map_of (inflight deleting) 1 = Some ?fl" by code_simp
  have r: "Inr PNull = fst (performRequest_receive (fl_realm ?fl) (fl_auth ?fl)
      (Response 204 None EmptyText) (deleting\<lparr>inflight := al_delete 1 (inflight deleting)\<rparr>))"
    by code_simp
  have "resource_changed deleting = [] \<and> pendingReads deleting \<noteq> []" by code_simp
  with change_announced_once [OF fl r] show ?thesis by (simp add: is_write_def)
qed

section \<open>A refresh that crosses another event\<close>

text \<open>Resuming the calls that waited for a refresh changes no session and no fetch in flight.\<close>

lemma get_frame [simp]:
  fixes w :: client
  shows "fst (getTenantSession (settle cid r w)) = fst (getTenantSession w)"
    "fst (getTenantSession (suspend cid c w)) = fst (getTenantSession w)"
    "fst (getTenantSession (w\<lparr>pendingReads := reads\<rparr>)) = fst (getTenantSession w)"
    "fst (getTenantSession (w\<lparr>inflight := fls\<rparr>)) = fst (getTenantSession w)"
    "fst (getTenantSession (snd (performRequest_send path options auth kind w))) = fst (getTenantSession w)"
  by (rule get_same_browser,
      simp add: browser.truncate_def settle_def suspend_def performRequest_send_def)+

lemma get_pairs:
  "getTenantSession w = (s, w') \<Longrightarrow> fst (getTenantSession w') = s"
  "getPlatformSession w = (p, w') \<Longrightarrow> fst (getTenantSession w') = fst (getTenantSession w)"
  by (metis fst_conv snd_conv get_get_fst(1), metis snd_conv get_across(2))

lemma get_authorization: "authorization realm w = (x, w') \<Longrightarrow> fst (getTenantSession w') = fst (getTenantSession w)"
  by (cases realm) (auto split: prod.splits option.splits dest: get_pairs)

lemma authorization_fails: "authorization realm w = (Inl e, w') \<Longrightarrow> e = no_session_error"
  by (cases realm) (auto split: prod.splits option.splits)

lemma get_dispatch:
  assumes "dispatch cid path options realm w = (x, w')"
  shows "fst (getTenantSession w') = fst (getTenantSession w)" "x = Inl e \<Longrightarrow> e = no_session_error"
proof -
  obtain a w1 where a: "authorization realm w = (a, w1)" by fastforce
  note g = get_authorization [OF a]
  have "fst (getTenantSession w') = fst (getTenantSession w1)"
    using assms a get_frame(5) [of _ _ _ _ w1]
    by (auto simp: dispatch_def Let_def split: sum.splits if_splits option.splits prod.splits) (metis get_frame(3,5) snd_conv)+
  with g show "fst (getTenantSession w') = fst (getTenantSession w)" by simp
  show "e = no_session_error" if "x = Inl e"
    using assms a that authorization_fails
    by (auto simp: dispatch_def Let_def split: sum.splits if_splits option.splits prod.splits)
qed

lemma keeps_token:
  "\<not> token_expired no_session_error" "\<not> token_expired session_changed_error"
  by code_simp+

lemma request_catch_plain:
  "\<not> token_expired e \<Longrightarrow> request_catch cid c e w = settle cid (Inl e) (snd (getTenantSession w))"
  by (simp add: request_catch_def split_beta)

lemma get_request_first: "fst (getTenantSession (request_first cid path options w)) = fst (getTenantSession w)"
proof -
  obtain sw w1 where g: "(if realm_of options = tenant_realm
      then (case getTenantSession w of (s, w1) \<Rightarrow> (Option.bind s tn_accessToken, w1))
      else (None, w)) = (sw, w1)" by fastforce
  then have w1: "fst (getTenantSession w1) = fst (getTenantSession w)"
    by (auto split: if_splits prod.splits dest: get_pairs(1))
  obtain x w2 where d: "dispatch cid path options (realm_of options) w1 = (x, w2)" by fastforce
  show ?thesis
    using get_dispatch [OF d] w1 keeps_token(1)
    by (cases x) (simp_all add: request_first_def g d Let_def request_catch_plain)
qed

lemma get_resume: "fst (getTenantSession (resume_refresh r cid w)) = fst (getTenantSession w)"
proof (cases "map_of (calls w) cid")
  case None
  then show ?thesis by (simp add: resume_refresh_def)
next
  case (Some c)
  obtain x w1 where d: "dispatch cid (cl_path c) (cl_options c) (realm_of (cl_options c)) w = (x, w1)" by fastforce
  show ?thesis
    using Some get_dispatch(1) [OF d]
    by (simp add: resume_refresh_def d get_request_first split: sum.split Phase.split)
qed

text \<open>A flight of a refresh is answered by storing the outcome of that refresh.\<close>

lemma refresh_flight:
  assumes "client_reachable w" "map_of (inflight w) p = Some fl" "fl_kind fl = RefreshFlight session"
  shows "fl_realm fl = public_realm" "fl_auth fl = None"
proof -
  have "flight_ok fl"
    using client_invD(1) [OF reachable_inv [OF assms(1)]] assms(2) by (auto simp: flights_ok_def dest: map_of_SomeD)
  with assms(3) show "fl_realm fl = public_realm" "fl_auth fl = None" by (simp_all add: flight_ok_def)
qed

lemma deliver_refresh_fold:
  assumes "client_reachable w" "map_of (inflight w) p = Some fl" "fl_kind fl = RefreshFlight session"
    and "performRequest_receive public_realm None reply (w\<lparr>inflight := al_delete p (inflight w)\<rparr>) = (r, w1)"
    and "refresh_finish session r w1 = (r', w2)"
  shows "deliver p reply w = fold (resume_refresh r') (waiting p w) w2"
  using assms(2-5) refresh_flight [OF assms(1-3)] by (simp add: deliver_def)

lemma deliver_refresh:
  assumes "client_reachable w" "map_of (inflight w) p = Some fl" "fl_kind fl = RefreshFlight session"
  shows "fst (getTenantSession (deliver p reply w)) = after_refresh session reply w"
proof -
  let ?w0 = "w\<lparr>inflight := al_delete p (inflight w)\<rparr>"
  obtain r w1 where rec: "performRequest_receive public_realm None reply ?w0 = (r, w1)" by fastforce
  obtain r' w2 where fin: "refresh_finish session r w1 = (r', w2)" by fastforce
  have "fst (getTenantSession (deliver p reply w)) = fst (getTenantSession (fold (resume_refresh r') (waiting p w) w2))"
    by (simp only: deliver_refresh_fold [OF assms rec fin])
  also have "\<dots> = fst (getTenantSession w2)" by (rule fold_frame) (rule get_resume)
  also have "\<dots> = after_refresh session reply ?w0" by (simp add: after_refresh_def rec fin)
  also have "\<dots> = after_refresh session reply w"
  proof -
    have "now ?w0 = now w" by simp
    then show ?thesis unfolding refresh_cases get_frame(4) by (simp only:)
  qed
  finally show ?thesis .
qed

text \<open>The other flights and the calls that wait for them are left alone.\<close>

definition flight_kept :: "nat \<Rightarrow> client \<Rightarrow> client \<Rightarrow> bool" where
  "flight_kept p w w' \<longleftrightarrow> map_of (inflight w') p = map_of (inflight w) p \<and> next_pid w \<le> next_pid w'"

lemma kept_trans: "flight_kept p w w1 \<Longrightarrow> flight_kept p w1 w2 \<Longrightarrow> flight_kept p w w2"
  by (simp add: flight_kept_def)

lemma kept_more: "browser.more w' = browser.more w \<Longrightarrow> flight_kept p w w'"
  using more_client(4,7) [of w' w] by (simp add: flight_kept_def)

lemma kept_frame:
  "flight_kept p w (settle cid r w') = flight_kept p w w'"
  "flight_kept p w (suspend cid c w') = flight_kept p w w'"
  "flight_kept p w (w'\<lparr>pendingReads := reads\<rparr>) = flight_kept p w w'"
  by (simp_all add: flight_kept_def settle_def suspend_def)

lemma kept_send: "p < next_pid w \<Longrightarrow> flight_kept p w (snd (performRequest_send path options auth kind w))"
  by (simp add: flight_kept_def performRequest_send_def)

lemma kept_dispatch:
  assumes "p < next_pid w" "dispatch cid path options realm w = (x, w')"
  shows "flight_kept p w w'"
proof -
  obtain a w1 where a: "authorization realm w = (a, w1)" by fastforce
  note m = authorization_more [OF a]
  have k1: "flight_kept p w w1" by (rule kept_more [OF m])
  have "p < next_pid w1" using assms(1) by (simp add: more_client [OF m])
  note s = kept_send [OF this]
  have "flight_kept p w1 w'"
    using assms(2) a kept_more [of w1 w1 p]
    by (auto simp: dispatch_def Let_def kept_frame split: sum.splits if_splits option.splits prod.splits)
      (metis s snd_conv)+
  with k1 show ?thesis by (rule kept_trans)
qed

lemma kept_request_first:
  assumes "p < next_pid w"
  shows "flight_kept p w (request_first cid path options w)"
proof -
  obtain sw w1 where g: "(if realm_of options = tenant_realm
      then (case getTenantSession w of (s, w1) \<Rightarrow> (Option.bind s tn_accessToken, w1))
      else (None, w)) = (sw, w1)" by fastforce
  then have m: "browser.more w1 = browser.more w" by (auto split: if_splits prod.splits dest: getTenantSession_more)
  obtain x w2 where d: "dispatch cid path options (realm_of options) w1 = (x, w2)" by fastforce
  have "p < next_pid w1" using assms by (simp add: more_client [OF m])
  from kept_trans [OF kept_more [OF m] kept_dispatch [OF this d]] have k: "flight_kept p w w2" .
  show ?thesis
  proof (cases x)
    case (Inl e)
    then have "\<not> token_expired e" using get_dispatch(2) [OF d] keeps_token(1) by simp
    moreover have "flight_kept p w (snd (getTenantSession w2))"
      by (rule kept_trans [OF k]) (rule kept_more, rule getTenantSession_fields(5))
    ultimately show ?thesis using Inl by (simp add: request_first_def g d Let_def request_catch_plain kept_frame)
  next
    case (Inr q)
    with k show ?thesis by (simp add: request_first_def g d Let_def kept_frame)
  qed
qed

lemma kept_resume:
  assumes "p < next_pid w"
  shows "flight_kept p w (resume_refresh r cid w)"
proof (cases "map_of (calls w) cid")
  case None
  then show ?thesis by (simp add: resume_refresh_def flight_kept_def)
next
  case (Some c)
  obtain x w1 where d: "dispatch cid (cl_path c) (cl_options c) (realm_of (cl_options c)) w = (x, w1)" by fastforce
  show ?thesis
    using Some kept_dispatch [OF assms d] kept_request_first [OF assms] kept_more [of w w p]
    by (simp add: resume_refresh_def d kept_frame split: sum.split Phase.split)
qed

lemma kept_fold: "p < next_pid w \<Longrightarrow> flight_kept p w (fold (resume_refresh r) cids w)"
proof (induction cids arbitrary: w)
  case Nil
  then show ?case by (simp add: flight_kept_def)
next
  case (Cons x cids)
  note k = kept_resume [OF Cons.prems, of r x]
  then have "p < next_pid (resume_refresh r x w)" using Cons.prems by (simp add: flight_kept_def)
  from kept_trans [OF k Cons.IH [OF this]] show ?case by simp
qed

text \<open>The calls that do not wait are left alone as well, and a failure that is no expired token settles those that do.\<close>

lemma fold_other_calls:
  assumes step: "\<And>w cid c. map_of (calls w) cid = Some c \<Longrightarrow> ok c \<Longrightarrow>
      moved cid (rank (cl_phase c)) w (f cid w)"
  shows "distinct cids \<Longrightarrow> cid \<notin> set cids \<Longrightarrow> resumable ok cids w \<Longrightarrow>
    map_of (calls (fold f cids w)) cid = map_of (calls w) cid"
proof (induction cids arbitrary: w)
  case (Cons x xs)
  obtain cx where "map_of (calls w) x = Some cx" "ok cx" using Cons.prems(3) by (auto simp: resumable_def)
  note mv = step [OF this]
  have "resumable ok xs (f x w)"
    using Cons.prems(1,3) by (intro moved_resumable [OF mv]) (auto simp: resumable_def)
  moreover have "map_of (calls (f x w)) cid = map_of (calls w) cid"
    using mv Cons.prems(2) by (auto simp: moved_def)
  ultimately show ?case using Cons by simp
qed simp

lemma resume_failed:
  assumes "\<not> token_expired e" "map_of (calls w) cid = Some c" "\<not> awaits_refresh (cl_phase c)"
  obtains w1 where "resume_dispatch (Inl e) cid w = settle cid (Inl e) w1" "calls w1 = calls w" "settled w1 = settled w"
proof (cases "cl_phase c")
  case (First p)
  then show ?thesis
    using assms by (intro that [of "snd (getTenantSession w)"]) (simp_all add: resume_dispatch_def request_catch_plain)
next
  case (Second p)
  then show ?thesis using assms by (intro that [of w]) (simp_all add: resume_dispatch_def)
qed (use assms in simp_all)

lemma failed_calls:
  assumes e: "\<not> token_expired e"
  shows "resumable (\<lambda>c. \<not> awaits_refresh (cl_phase c)) cids w \<Longrightarrow> distinct cids \<Longrightarrow>
    settled (fold (resume_dispatch (Inl e)) cids w) = settled w @ map (\<lambda>cid. (cid, Inl e)) cids"
proof (induction cids arbitrary: w)
  case (Cons x xs)
  obtain cx where cx: "map_of (calls w) x = Some cx" "\<not> awaits_refresh (cl_phase cx)"
    using Cons.prems(1) by (auto simp: resumable_def)
  from resume_failed [OF e this] obtain w1 where w1:
    "resume_dispatch (Inl e) x w = settle x (Inl e) w1" "calls w1 = calls w" "settled w1 = settled w" by metis
  have "resumable (\<lambda>c. \<not> awaits_refresh (cl_phase c)) xs (resume_dispatch (Inl e) x w)"
    using Cons.prems by (intro moved_resumable [OF resume_dispatch_moved [OF cx]]) (auto simp: resumable_def)
  from Cons.IH [OF this] Cons.prems(2) show ?case by (simp add: w1 settle_def)
qed simp

text \<open>An answer to a read whose identity is no longer the current one.\<close>

lemma stale_read:
  assumes reach: "client_reachable w" and fl: "map_of (inflight w) p = Some fl" "fl_kind fl = ReadFlight key"
    and stale: "fl_realm fl = tenant_realm" "fl_auth fl \<noteq> Some (tenant_bearer (fst (getTenantSession w)))"
    and fine: "http_ok status"
  shows "settled (deliver p (Response status correlationId body) w) =
    settled w @ map (\<lambda>cid. (cid, Inl session_changed_error)) (waiting p w)"
proof -
  let ?w0 = "w\<lparr>inflight := al_delete p (inflight w)\<rparr>"
  have get: "fst (getTenantSession ?w0) = fst (getTenantSession w)" by simp
  obtain w1 where rec: "performRequest_receive tenant_realm (fl_auth fl) (Response status correlationId body) ?w0 =
      (Inl session_changed_error, w1)"
    using fine stale(2) get by (auto simp: split_beta)
  let ?w2 = "if map_of (pendingReads w1) key = Some p then w1\<lparr>pendingReads := al_delete key (pendingReads w1)\<rparr> else w1"
  have eq: "calls ?w2 = calls w" "settled ?w2 = settled w" using more_client [OF receive_more [OF rec]] by simp_all
  note inv = reachable_inv [OF reach]
  have dist: "distinct (map fst (calls w))" using client_invD(5) [OF inv] by (simp add: cids_ok_def)
  have "\<not> awaits_refresh (cl_phase c)" if "map_of (calls w) cid = Some c" "phase_pid (cl_phase c) = p" for cid c
    using call_waits [OF inv that(1)] that(2) fl by (auto simp: is_refresh_def)
  then have res: "resumable (\<lambda>c. \<not> awaits_refresh (cl_phase c)) (waiting p w) ?w2"
    by (intro waiting_resumable [OF dist eq(1)]) blast
  have "deliver p (Response status correlationId body) w = fold (resume_dispatch (Inl session_changed_error)) (waiting p w) ?w2"
    using fl stale(1) rec by (simp add: deliver_def)
  with failed_calls [OF keeps_token(2) res waiting_distinct [OF dist]] eq(2) show ?thesis by simp
qed

text \<open>C9: a token renewal fails the reads of the same account that are in flight. In any reachable run, let a read of
  the workspace be in flight that was sent with the current token, and the refresh of that very session. When the
  refresh is answered with a pair whose token is another, the session is renewed: the same sign-in, with the same
  address unless the pair names one. The 2xx answer that the read then gets settles every call that waits for it with
  \<open>session_changed\<close>, the error that tells the user that the signed-in account changed.\<close>

theorem renewal_fails_pending_read:
  assumes reach: "client_reachable w" and current: "fst (getTenantSession w) = Some session"
    and read: "map_of (inflight w) p = Some fl" "fl_kind fl = ReadFlight key" "fl_realm fl = tenant_realm"
      "fl_auth fl = Some (tenant_bearer (Some session))"
    and refresh: "map_of (inflight w) q = Some rf" "fl_kind rf = RefreshFlight session"
    and pair: "tp_refresh_token pair \<noteq> [] \<or> 0 < tp_expires_in pair"
      "bearer (tp_access_token pair) \<noteq> tenant_bearer (Some session)"
    and fine: "http_ok status" "http_ok status'"
    and call: "map_of (calls w) cid = Some c" "phase_pid (cl_phase c) = p"
  shows "let w1 = deliver q (Response status correlationId (JsonText (PPair pair))) w;
             w2 = deliver p (Response status' correlationId' body) w1
         in client_reachable w2 \<and> fst (getTenantSession w1) = Some (renewed session pair (now w)) \<and>
            tn_signedInAt (renewed session pair (now w)) = tn_signedInAt session \<and>
            (tp_email pair = None \<longrightarrow> tn_email (renewed session pair (now w)) = tn_email session) \<and>
            (cid, Inl session_changed_error) \<in> set (settled w2)"
proof -
  let ?a1 = "Response status correlationId (JsonText (PPair pair))"
  let ?w1 = "deliver q ?a1 w"
  note inv = reachable_inv [OF reach]
  have dist: "distinct (map fst (calls w))" using client_invD(5) [OF inv] by (simp add: cids_ok_def)
  have pq: "p \<noteq> q" using read(1,2) refresh by auto
  have in_flight: "p \<in> fst ` set (inflight w)" "q \<in> fst ` set (inflight w)"
    using map_of_key [OF read(1)] map_of_key [OF refresh(1)] by simp_all
  have reach1: "client_reachable ?w1" by (rule client_reachable.step [OF reach client_step.answer [OF in_flight(2)]])
  have renewal: "fst (getTenantSession ?w1) = Some (renewed session pair (now w))"
    unfolding deliver_refresh [OF reach refresh] refresh_cases using pair(1) fine(1) by auto
  let ?w0 = "w\<lparr>inflight := al_delete q (inflight w)\<rparr>"
  obtain r v where rec: "performRequest_receive public_realm None ?a1 ?w0 = (r, v)" by fastforce
  obtain r' w2 where fin: "refresh_finish session r v = (r', w2)" by fastforce
  have del: "?w1 = fold (resume_refresh r') (waiting q w) w2"
    by (rule deliver_refresh_fold [OF reach refresh rec fin])
  from fin obtain w' where w2: "w2 = w'\<lparr>refreshing := Idle\<rparr>" "browser.more w' = browser.more v" by (rule refresh_finish_more)
  note eq = more_client [OF w2(2)] more_client [OF receive_more [OF rec]]
  have w2_eq: "calls w2 = calls w" "inflight w2 = al_delete q (inflight w)" "next_pid w2 = next_pid w"
    using eq by (simp_all add: w2(1))
  have "p < next_pid w" using client_invD(1) [OF inv] map_of_SomeD [OF read(1)] by (auto simp: flights_ok_def)
  then have "flight_kept p w2 ?w1" unfolding del by (intro kept_fold) (simp add: w2_eq)
  then have fl1: "map_of (inflight ?w1) p = Some fl" using read(1) pq by (simp add: flight_kept_def w2_eq)
  have "awaits_refresh (cl_phase c')" if "map_of (calls w) cid' = Some c'" "phase_pid (cl_phase c') = q" for cid' c'
    using call_waits [OF inv that(1)] that(2) refresh by (auto simp: is_refresh_def)
  then have res: "resumable (\<lambda>c. awaits_refresh (cl_phase c)) (waiting q w) w2"
    by (intro waiting_resumable [OF dist w2_eq(1)]) blast
  have "cid \<notin> set (waiting q w)"
    using call pq dist map_of_SomeD [OF call(1)] by (auto simp: waiting_set dest!: map_of_is_SomeI [OF dist])
  from fold_other_calls [of "\<lambda>c. awaits_refresh (cl_phase c)" "resume_refresh r'", OF resume_refresh_moved
      waiting_distinct [OF dist] this res]
  have "map_of (calls ?w1) cid = Some c" unfolding del using call(1) w2_eq(1) by simp
  then have waits: "cid \<in> set (waiting p ?w1)" using call(2) by (auto simp: waiting_set dest: map_of_SomeD)
  have "fl_auth fl \<noteq> Some (tenant_bearer (fst (getTenantSession ?w1)))"
    using pair(2) read(4) by (simp add: renewal renewed_def tenant_bearer_def)
  from stale_read [OF reach1 fl1 read(2,3) this fine(2)] waits
  have settled: "(cid, Inl session_changed_error) \<in> set (settled (deliver p (Response status' correlationId' body) ?w1))" by simp
  have "client_reachable (deliver p (Response status' correlationId' body) ?w1)"
    by (rule client_reachable.step [OF reach1 client_step.answer]) (rule map_of_key [OF fl1])
  with renewal settled show ?thesis unfolding Let_def by (simp add: renewed_def)
qed

text \<open>A run: the list of products is read with token A, time passes, and a second read makes the client renew the token.\<close>

definition crossing :: client where
  "crossing =
     (let w = request ''/v1/products'' no_options (signed_in 60)
      in request ''/v1/usage'' no_options (w\<lparr>now := now w + 40000\<rparr>))"

lemma crossing_reachable: "client_reachable crossing"
proof -
  let ?w1 = "request ''/v1/products'' no_options (signed_in 60)"
  note step = client_reachable.step
  have "client_reachable ?w1" by (rule step [OF signed_in_reachable client_step.call])
  from step [OF this client_step.time [of 40000]] have "client_reachable (?w1\<lparr>now := now ?w1 + 40000\<rparr>)" by simp
  from step [OF this client_step.call] show ?thesis unfolding crossing_def Let_def .
qed

theorem renewal_fails_pending_read_witness:
  "(0, Inl session_changed_error) \<in> set (settled
     (deliver 0 (Response 200 None (JsonText (PValue (JArr []))))
       (deliver 1 (Response 200 None (JsonText (PPair (pair_of ''B'' ''r2'' 900)))) crossing)))"
proof -
  let ?s = "the (fst (getTenantSession crossing))"
  let ?fl = "the (map_of (inflight crossing) 0)" and ?rf = "the (map_of (inflight crossing) 1)"
  let ?c = "the (map_of (calls crossing) 0)"
  have s: "fst (getTenantSession crossing) = Some ?s" by code_simp
  have fl: "map_of (inflight crossing) 0 = Some ?fl"
    "fl_kind ?fl = ReadFlight (tenant_realm, Some (bearer ''A''), ''/v1/products'', None)" "fl_realm ?fl = tenant_realm"
    "fl_auth ?fl = Some (tenant_bearer (Some ?s))"
    by code_simp+
  have rf: "map_of (inflight crossing) 1 = Some ?rf" "fl_kind ?rf = RefreshFlight ?s" by code_simp+
  have pair: "tp_refresh_token (pair_of ''B'' ''r2'' 900) \<noteq> [] \<or> 0 < tp_expires_in (pair_of ''B'' ''r2'' 900)"
    "bearer (tp_access_token (pair_of ''B'' ''r2'' 900)) \<noteq> tenant_bearer (Some ?s)"
    by code_simp+
  have c: "map_of (calls crossing) 0 = Some ?c" "phase_pid (cl_phase ?c) = 0" by code_simp+
  have fine: "http_ok 200" by code_simp
  from renewal_fails_pending_read [OF crossing_reachable s fl rf pair fine fine c, of None None "JsonText (PValue (JArr []))"]
  show ?thesis unfolding Let_def by blast
qed

text \<open>C10: the answer to a refresh is taken whoever is signed in by then. In any reachable run with a refresh in flight, a
  pair makes the session of the user whose token was being refreshed the current one, and a 401 ends the current
  session, whichever it is. So a user who signs out meanwhile is signed in again, and where another user
  has signed in meanwhile, the first user's session takes the place of that user's, or nobody's does. (The
  comment in \<open>request\<close> says that a newer sign-in is left alone; it is compared before the refresh only.)\<close>

theorem refresh_overrides_newer_session:
  assumes reach: "client_reachable w"
    and refresh: "map_of (inflight w) p = Some fl" "fl_kind fl = RefreshFlight session"
    and pair: "tp_refresh_token pair \<noteq> [] \<or> 0 < tp_expires_in pair"
    and newer: "tp_refresh_token other \<noteq> [] \<or> 0 < tp_expires_in other"
    and fine: "http_ok status"
  shows "let left = clearTenantSession (markExplicitSignOut w);
             over = snd (setTenantSession email other None left);
             answer = Response status correlationId (JsonText (PPair pair));
             refusal = Response 401 correlationId' body
         in fst (getTenantSession left) = None \<and>
            map_option tn_email (fst (getTenantSession over)) = Some email \<and>
            (\<forall>w' \<in> {w, left, over}. client_reachable w' \<and>
               fst (getTenantSession (deliver p answer w')) = Some (renewed session pair (now w)) \<and>
               fst (getTenantSession (deliver p refusal w')) = None)"
proof -
  let ?left = "clearTenantSession (markExplicitSignOut w)"
  let ?over = "snd (setTenantSession email other None ?left)"
  have left: "client_reachable ?left" by (rule client_reachable.step [OF reach client_step.sign_out])
  have over: "client_reachable ?over" by (rule client_reachable.step [OF left client_step.sign_in])
  have "browser.more (markExplicitSignOut w) = browser.more w" by (simp add: markExplicitSignOut_def)
  then have m: "browser.more ?left = browser.more w" "browser.more ?over = browser.more w" by simp_all
  have time: "now ?left = now w" "now ?over = now w"
    by (simp_all add: clearTenantSession_def markExplicitSignOut_def setTenantSession_def store_tenant_def Let_def session_simps)
  have flights: "map_of (inflight w') p = Some fl" if "w' \<in> {w, ?left, ?over}" for w'
    using that refresh(1) more_client(4) [OF m(1)] more_client(4) [OF m(2)] by auto
  have each: "client_reachable w' \<and>
      fst (getTenantSession (deliver p (Response status correlationId (JsonText (PPair pair))) w')) = Some (renewed session pair (now w)) \<and>
      fst (getTenantSession (deliver p (Response 401 correlationId' body) w')) = None" if w': "w' \<in> {w, ?left, ?over}" for w'
  proof -
    have r: "client_reachable w'" using w' reach left over by auto
    have t: "now w' = now w" using w' time by auto
    note d = deliver_refresh [OF r flights [OF w'] refresh(2)]
    have "\<not> http_ok 401" by code_simp
    then show ?thesis unfolding d refresh_cases using r t pair fine by auto
  qed
  have nobody: "fst (getTenantSession ?left) = None" by (rule tenant_store.get_clear)
  have newcomer: "map_option tn_email (fst (getTenantSession ?over)) = Some email"
    using newer by (auto simp: setTenantSession_def Let_def tenant_store.get_put tenant_lapsed_def tenant_session_of_def)
  show ?thesis unfolding Let_def by (rule conjI [OF nobody conjI [OF newcomer ballI]]) (rule each)
qed

text \<open>Dana's refresh is in flight; Dana leaves and Lee signs in.\<close>

theorem refresh_overrides_newer_session_witness:
  "map_option tn_email (fst (getTenantSession (deliver 0 (Response 200 None (JsonText (PPair (pair_of ''B'' ''r2'' 900))))
     (snd (setTenantSession ''lee@shop.example'' (pair_of ''L'' ''l1'' 900) None
       (clearTenantSession (markExplicitSignOut two_reads))))))) = Some ''dana@shop.example''"
proof -
  let ?fl = "the (map_of (inflight two_reads) 0)" and ?s = "the (fst (getTenantSession two_reads))"
  have fl: "map_of (inflight two_reads) 0 = Some ?fl" "fl_kind ?fl = RefreshFlight ?s" by code_simp+
  have pair: "tp_refresh_token (pair_of ''B'' ''r2'' 900) \<noteq> [] \<or> 0 < tp_expires_in (pair_of ''B'' ''r2'' 900)"
    "tp_refresh_token (pair_of ''L'' ''l1'' 900) \<noteq> [] \<or> 0 < tp_expires_in (pair_of ''L'' ''l1'' 900)" by code_simp+
  have fine: "http_ok 200" by code_simp
  have email: "tn_email (renewed ?s (pair_of ''B'' ''r2'' 900) (now two_reads)) = ''dana@shop.example''" by code_simp
  from refresh_overrides_newer_session [OF two_reads_reachable fl pair fine, of "''lee@shop.example''" None None NotJson] email
  show ?thesis unfolding Let_def by simp
qed

section \<open>What is sent and what is shown\<close>

text \<open>The headers of a call. The identity the client chose is the \<open>Authorization\<close> header
  whatever the caller's own headers say, a JSON body is sent as \<open>application/json\<close>, and any other
  header is the caller's last value for it, \<open>Accept\<close> being \<open>application/json\<close> by default.\<close>

lemma request_headers_spec:
  "map_of (request_headers options auth) name =
     (if name = ''Content-Type'' \<and> ro_json options \<noteq> None then Some ''application/json''
      else if name = ''Authorization'' \<and> truthy auth then auth
      else case map_of (rev (or_else (ro_headers options) [])) name of
             Some v \<Rightarrow> Some v
           | None \<Rightarrow> if name = ''Accept'' then Some ''application/json'' else None)"
  by (cases auth) (auto simp: request_headers_def Let_def map_of_foldl_set map_add_def
      split: option.split)

definition spoken_codes :: "string list" where
  "spoken_codes = [''network_error'', ''rate_limit_exceeded'', ''training_cooldown'',
     ''insufficient_scope'', ''token_expired'', ''internal_error'']"

text \<open>A message never discloses internals. What the page shows for an exception that is not
  an API error is one fixed sentence; for the six codes with a sentence of their own the message text of the server
  never reaches the page.\<close>

lemma describe_nondisclosure:
  "describeError (OtherError a) = describeError (OtherError b) \<and>
   (err_code err \<in> set spoken_codes \<longrightarrow>
      describeError (ApiError (err\<lparr>err_message := m, err_details := d, err_fields := f,
                                   err_status := s\<rparr>)) = describeError (ApiError err))"
  by (auto simp: describeError_def spoken_codes_def retry_seconds_def)

theorem describe_nondisclosure_witness:
  "describeError (ApiError ((new_GraphRecApiError 500 (Some \<lparr>eb_error = Some \<lparr>ei_code =
      Some ''internal_error'', ei_message = None, ei_correlation_id = None, ei_retryable = None,
      ei_retry_after_seconds = None, ei_details = None\<rparr>\<rparr>) (Some ''c9''))
      \<lparr>err_message := ''stack trace'', err_details := no_details, err_fields := [],
       err_status := 500\<rparr>)) =
    ''Something went wrong on our side (reference c9). Try again shortly.''"
proof -
  let ?e = "new_GraphRecApiError 500 (Some \<lparr>eb_error = Some \<lparr>ei_code =
      Some ''internal_error'', ei_message = None, ei_correlation_id = None, ei_retryable = None,
      ei_retry_after_seconds = None, ei_details = None\<rparr>\<rparr>) (Some ''c9'')"
  have c: "err_code ?e \<in> set spoken_codes" by code_simp
  have "describeError (ApiError ?e) =
      ''Something went wrong on our side (reference c9). Try again shortly.''" by code_simp
  with describe_nondisclosure [of "[]" "[]" ?e] c show ?thesis by simp
qed

end
