(* ===== verification/WireTypes.thy ===== *)
theory WireTypes
  imports WireAuth
begin

text \<open>
  The wire types of the GraphRec API (\<open>web/src/api/types.ts\<close>), second part: API keys,
  subscription, plan requests, usage, catalog and events, with the conventions of
  \<open>WireAuth\<close>.
\<close>

section \<open>API keys\<close>

datatype ApiKeyScope =
    billing_read | usage_read | catalog_read | catalog_write | events_read | events_write
  | training_read | training_write | models_read | models_write | models_deploy
  | recommendations_read | deployments_read | metrics_read

fun scope_name :: "ApiKeyScope \<Rightarrow> string" where
  "scope_name billing_read = ''billing:read''"
| "scope_name usage_read = ''usage:read''"
| "scope_name catalog_read = ''catalog:read''"
| "scope_name catalog_write = ''catalog:write''"
| "scope_name events_read = ''events:read''"
| "scope_name events_write = ''events:write''"
| "scope_name training_read = ''training:read''"
| "scope_name training_write = ''training:write''"
| "scope_name models_read = ''models:read''"
| "scope_name models_write = ''models:write''"
| "scope_name models_deploy = ''models:deploy''"
| "scope_name recommendations_read = ''recommendations:read''"
| "scope_name deployments_read = ''deployments:read''"
| "scope_name metrics_read = ''metrics:read''"

datatype ApiKeyStatus = key_active | key_expired | key_revoked

record ApiKeyResource =
  ak_id :: string
  ak_name :: string
  ak_prefix :: string
  ak_scopes :: "ApiKeyScope list"
  ak_status :: ApiKeyStatus
  ak_expires_at :: "string option"
  ak_created_at :: string
  ak_last_used_at :: "string option"
  ak_revoked_at :: "string option"
  ak_grace_expires_at :: "string option"

record ApiKeySecretResource = ApiKeyResource +
  aks_secret :: string

record ApiKeyCreateInput =
  akc_name :: string
  akc_scopes :: "ApiKeyScope list"
  akc_expires_at :: "string option"

record ApiKeyRotateInput =
  akr_grace_period_seconds :: int
  akr_reason :: string

section \<open>Subscription, plan requests and usage\<close>

datatype PlanCode = plan_free | plan_basic | plan_pro

fun plan_code_name :: "PlanCode \<Rightarrow> string" where
  "plan_code_name plan_free = ''free''"
| "plan_code_name plan_basic = ''basic''"
| "plan_code_name plan_pro = ''pro''"

record SubscriptionResult =
  sub_plan_code :: PlanCode
  sub_status :: string
  sub_period_start :: string
  sub_period_end :: string
  sub_limits :: "(string \<times> int) list"
  sub_project_defaults :: bool

datatype PlanRequestStatus = pr_pending | pr_approved | pr_rejected | pr_cancelled

fun plan_request_status_name :: "PlanRequestStatus \<Rightarrow> string" where
  "plan_request_status_name pr_pending = ''pending''"
| "plan_request_status_name pr_approved = ''approved''"
| "plan_request_status_name pr_rejected = ''rejected''"
| "plan_request_status_name pr_cancelled = ''cancelled''"

record PlanChangeRequest =
  pcr_id :: string
  pcr_status :: PlanRequestStatus
  pcr_current_plan_code :: string
  pcr_current_plan_name :: string
  pcr_requested_plan_code :: string
  pcr_requested_plan_name :: string
  pcr_message :: "string option"
  pcr_decision_reason :: "string option"
  pcr_created_at :: string
  pcr_decided_at :: "string option"

record PlanChangeRequestList =
  pcl_items :: "PlanChangeRequest list"
  pcl_pending :: "PlanChangeRequest option"

record PlanChangeRequestCreate =
  pcc_plan_code :: PlanCode
  pcc_message :: "string option"

record PlatformPlanRequest = PlanChangeRequest +
  ppr_tenant_id :: string
  ppr_tenant_slug :: string
  ppr_tenant_name :: string
  ppr_requested_plan_id :: string
  ppr_active_plan_code :: "string option"
  ppr_requested_by :: "string option"
  ppr_decided_by :: "string option"
  ppr_decided_by_email :: "string option"

record PlatformPlanRequestList =
  ppl_items :: "PlatformPlanRequest list"
  ppl_pending_count :: int

record PlanRequestDecisionResult =
  prd_request :: PlatformPlanRequest
  prd_warnings :: "(string \<times> json) list list option"

datatype UsageType =
    accepted_events | recommendation_requests | training_jobs | training_cpu_seconds
  | stored_products | artifact_storage_bytes | active_model_versions | inference_replicas
  | replica_runtime_minutes

datatype UsageUnit = unit_count | unit_seconds | unit_bytes | unit_minutes

datatype UsageScope = scope_period | scope_current

record UsageDimension =
  ud_type :: UsageType
  ud_used :: int
  ud_limit :: "int option"
  ud_remaining :: "int option"
  ud_unit :: UsageUnit
  ud_measured :: "bool option"
  ud_scope :: "UsageScope option"

record UsageSummaryResult =
  us_period_start :: string
  us_period_end :: string
  us_reset_at :: string
  us_dimensions :: "UsageDimension list"
  us_last_reconciled_at :: string
  us_project_defaults :: bool
  us_current_period :: "bool option"

section \<open>Catalog\<close>

text \<open>\<open>number | string\<close>.\<close>

datatype NumOrStr = Num rat | Str string

record ProductUpsert =
  pu_external_id :: string
  pu_title :: string
  pu_description :: "string option"
  pu_price :: "NumOrStr option"
  pu_category :: "string option"
  pu_is_active :: "bool option"
  pu_availability_status :: "string option"
  pu_metadata :: "(string \<times> json) list option"

record ProductBulkFailure =
  pbf_external_id :: string
  pbf_reason :: string

record ProductOutcome =
  po_external_id :: string
  po_status :: string
  po_reason :: "string option"

record ProductBulkUpsertResponse =
  pbu_sync_id :: "string option"
  pbu_status :: "string option"
  pbu_request_id :: "string option"
  pbu_accepted_count :: int
  pbu_created_count :: int
  pbu_updated_count :: int
  pbu_skipped_count :: int
  pbu_rejected_count :: int
  pbu_failures :: "ProductBulkFailure list"
  pbu_outcomes :: "ProductOutcome list option"

record CatalogSyncResource = ProductBulkUpsertResponse +
  cs_created_at :: string

record ProductResource =
  pr_id :: string
  pr_external_id :: string
  pr_title :: string
  pr_description :: "string option"
  pr_price :: NumOrStr
  pr_category :: "string option"
  pr_is_active :: bool
  pr_availability_status :: string
  pr_metadata :: "(string \<times> json) list"
  pr_created_at :: string
  pr_updated_at :: string

record ProductListResponse =
  pl_items :: "ProductResource list"
  pl_total :: int

section \<open>Events\<close>

record EventSubmit =
  es_event_id :: string
  es_event_type :: string
  es_user_id :: "string option"
  es_external_product_id :: "string option"
  es_context :: "(string \<times> json) list option"
  es_occurred_at :: "string option"

record EventSubmitResponse =
  esr_event_id :: string
  esr_accepted :: bool
  esr_duplicate :: bool
  esr_received_at :: string

record EventRecord =
  er_event_id :: string
  er_event_type :: string
  er_user_id :: "string option"
  er_external_product_id :: "string option"
  er_context :: "(string \<times> json) list"
  er_occurred_at :: string
  er_created_at :: string

record EventOutcome =
  eo_event_id :: string
  eo_status :: string
  eo_reason :: "string option"

record EventBatchResponse =
  ebr_id :: string
  ebr_status :: string
  ebr_request_id :: "string option"
  ebr_accepted_count :: int
  ebr_duplicate_count :: int
  ebr_rejected_count :: int
  ebr_outcomes :: "EventOutcome list option"
  ebr_created_at :: string

end
