(* ===== verification/WireOps.thy ===== *)
theory WireOps
  imports WireTypes
begin

text \<open>
  The wire types of the GraphRec API (\<open>web/src/api/types.ts\<close>), third part: datasets,
  models, training, serving, the platform realm, policies, trends, capacity and
  recommendations, with the conventions of \<open>WireAuth\<close>.
\<close>

section \<open>Datasets\<close>

record DatasetSnapshotResource =
  ds_id :: string
  ds_tenant_id :: string
  ds_training_job_id :: "string option"
  ds_cutoff_at :: string
  ds_event_count :: int
  ds_product_count :: int
  ds_user_count :: int
  ds_artifact_uri :: string
  ds_checksum :: string
  ds_created_at :: string

record DatasetUploadResponse =
  du_accepted_events :: int
  du_accepted_products :: int
  du_dataset_snapshot :: DatasetSnapshotResource

section \<open>Models and training\<close>

record ModelVersionResource =
  mv_id :: string
  mv_version_tag :: string
  mv_model_type :: string
  mv_status :: string
  mv_metrics :: "(string \<times> json) list"
  mv_artifact_uri :: "string option"
  mv_qdrant_collection :: "string option"
  mv_created_at :: string
  mv_activated_at :: "string option"

record TrainingJobCreate =
  tjc_request_id :: "string option"
  tjc_model_type :: "string option"
  tjc_dataset_snapshot_id :: "string option"
  tjc_configuration :: "(string \<times> json) list option"

record TrainingJobResource =
  tj_progress :: rat
  tj_stage :: string
  tj_cancel_requested :: bool
  tj_id :: string
  tj_model_type :: string
  tj_status :: string
  tj_configuration :: "(string \<times> json) list"
  tj_dataset_snapshot_id :: "string option"
  tj_model_version_id :: "string option"
  tj_qdrant_collection :: "string option"
  tj_failure_reason :: "string option"
  tj_created_at :: string
  tj_completed_at :: "string option"

section \<open>Serving\<close>

record RateLimiterStatus =
  rl_backend :: string
  rl_status :: string
  rl_fail_open_total :: int
  rl_last_error_at :: "string option"

record DeploymentStatus =
  dep_id :: "string option"
  dep_desired_model_version_id :: "string option"
  dep_status :: string
  dep_active_model_version_id :: "string option"
  dep_desired_capacity :: "int option"
  dep_ready_capacity :: "int option"
  dep_last_transition_at :: "string option"
  dep_failure_reason :: "string option"
  dep_rate_limiter :: "RateLimiterStatus option"

record QualitySummary =
  qs_model_version_id :: string
  qs_version_tag :: string
  qs_recorded_at :: string
  qs_metrics :: "(string \<times> json) list"

record MetricsSummary =
  ms_window_start :: string
  ms_window_end :: string
  ms_request_count :: int
  ms_request_rate :: rat
  ms_error_rate :: "rat option"
  ms_fallback_rate :: "rat option"
  ms_p95_latency_ms :: "rat option"
  ms_active_model_version_id :: "string option"
  ms_quality :: "QualitySummary option"

section \<open>Platform\<close>

datatype PlatformTenantStatus = pt_active | pt_suspended | pt_deleting | pt_deleted

fun tenant_status_name :: "PlatformTenantStatus \<Rightarrow> string" where
  "tenant_status_name pt_active = ''active''"
| "tenant_status_name pt_suspended = ''suspended''"
| "tenant_status_name pt_deleting = ''deleting''"
| "tenant_status_name pt_deleted = ''deleted''"

record PlatformTenant =
  pt_id :: string
  pt_slug :: string
  pt_name :: string
  pt_status :: string
  pt_created_at :: string

record PlatformPlan =
  pp_warnings :: "LimitConflict list option"
  pp_id :: string
  pp_code :: string
  pp_name :: string
  pp_limits :: "(string \<times> int) list"
  pp_is_active :: bool

record PlatformQuotaOverride =
  pq_warnings :: "LimitConflict list option"
  pq_limits :: "(string \<times> json) list"
  pq_overrides :: "(string \<times> json) list"

record PlatformFailure =
  pf_id :: string
  pf_tenant_id :: "string option"
  pf_event_type :: string
  pf_severity :: string
  pf_sanitized_detail :: "(string \<times> json) list"
  pf_occurred_at :: string

record PlatformAudit =
  pa_id :: string
  pa_tenant_id :: string
  pa_actor_type :: string
  pa_actor_reference :: "string option"
  pa_action_type :: string
  pa_resource_type :: string
  pa_resource_reference :: "string option"
  pa_outcome :: string
  pa_correlation_reference :: "string option"
  pa_reason :: "string option"
  pa_occurred_at :: string

record DeploymentTotals =
  dt_available_tenants :: int
  dt_degraded_tenants :: int
  dt_desired_capacity :: int
  dt_ready_capacity :: int

record PlatformStatus =
  ps_status :: string
  ps_api_cluster :: string
  ps_database :: string
  ps_worker_pool :: string
  ps_rate_limiter :: "RateLimiterStatus option"
  ps_deployments :: "DeploymentTotals option"
  ps_timestamp :: string

section \<open>Policies\<close>

record RetrainingPolicyInput =
  rp_schedule_enabled :: bool
  rp_interval_minutes :: int
  rp_event_trigger_enabled :: bool
  rp_event_threshold :: int
  rp_epochs :: int

record RetrainingPolicy = RetrainingPolicyInput +
  rp_tenant_id :: string
  rp_configured :: bool
  rp_next_run_at :: "string option"
  rp_new_events_since_last_training :: int
  rp_last_training_requested_at :: "string option"
  rp_training_in_progress :: bool
  rp_minimum_interval_minutes :: int
  rp_last_evaluated_at :: "string option"
  rp_last_trigger :: "string option"
  rp_last_outcome :: "string option"
  rp_last_outcome_detail :: "string option"
  rp_last_outcome_at :: "string option"
  rp_last_job_id :: "string option"
  rp_updated_at :: "string option"

record RecommendationPolicyInput =
  rcp_diversity_enabled :: bool
  rcp_max_per_category :: int
  rcp_freshness_enabled :: bool
  rcp_freshness_weight :: rat
  rcp_freshness_half_life_days :: int

record RecommendationPolicy = RecommendationPolicyInput +
  rcp_tenant_id :: string
  rcp_configured :: bool
  rcp_version :: int
  rcp_updated_at :: "string option"

section \<open>Usage trends and serving capacity\<close>

datatype TrendGranularity = trend_hour | trend_day | trend_week

fun granularity_name :: "TrendGranularity \<Rightarrow> string" where
  "granularity_name trend_hour = ''hour''"
| "granularity_name trend_day = ''day''"
| "granularity_name trend_week = ''week''"

record TrendBucket =
  tb_start :: string
  tb_values :: "(string \<times> rat) list"

record UsageTrend =
  ut_tenant_id :: string
  ut_start :: string
  ut_end :: string
  ut_granularity :: TrendGranularity
  ut_usage_types :: "string list"
  ut_buckets :: "TrendBucket list"
  ut_totals :: "(string \<times> rat) list"

record CapacityEvent =
  ce_id :: string
  ce_model_version_id :: "string option"
  ce_from_capacity :: int
  ce_to_capacity :: int
  ce_reason :: string
  ce_measured_rpm :: rat
  ce_peak_rpm :: rat
  ce_max_capacity :: int
  ce_occurred_at :: string

record ScalingStatus =
  ss_managed :: bool
  ss_desired_capacity :: int
  ss_ready_capacity :: int
  ss_min_capacity :: int
  ss_max_capacity :: int
  ss_serving_slots :: "int option"
  ss_target_rpm_per_replica :: rat
  ss_scale_down_stabilization_seconds :: int
  ss_measured_rpm :: rat
  ss_peak_rpm :: rat
  ss_last_scaled_at :: "string option"
  ss_events :: "CapacityEvent list"
  ss_limitation :: string

section \<open>Recommendations, tenant status, operators\<close>

record RecommendedItem =
  ri_external_product_id :: string
  ri_position :: int

record RecommendationResult =
  rr_request_id :: string
  rr_items :: "RecommendedItem list"
  rr_model_version_id :: "string option"
  rr_active_model_version_id :: "string option"
  rr_strategy :: string
  rr_fallback_used :: bool
  rr_fallback_tier :: string
  rr_applied_rules :: "string list"
  rr_rules_version :: "int option"

datatype TenantStatusCode = ts_active | ts_suspended | ts_deleting | ts_deleted | ts_pending

record TenantStatus =
  ts_tenant_id :: string
  ts_name :: string
  ts_status :: TenantStatusCode
  ts_message :: string
  ts_restricted_session :: bool
  ts_created_at :: string

record OperatorSession =
  os_access_token :: string
  os_expires_in :: int
  os_operator_id :: string
  os_email :: string
  os_display_name :: string
  os_roles :: "OperatorRole list"

datatype OperatorStatus = op_active | op_disabled

record PlatformOperator =
  op_id :: string
  op_email :: string
  op_display_name :: string
  op_roles :: "OperatorRole list"
  op_status :: OperatorStatus
  op_created_at :: string
  op_last_login_at :: "string option"

datatype MeKind = me_operator | me_bootstrap_token

record PlatformMe =
  me_operator_id :: "string option"
  me_email :: "string option"
  me_roles :: "OperatorRole list"
  me_kind :: MeKind

datatype ProductEnvironment = env_development | env_production

record ProductMeta =
  pm_product :: string
  pm_version :: string
  pm_environment :: ProductEnvironment
  pm_development_placeholders :: bool

record PublicPlan =
  pub_code :: string
  pub_name :: string
  pub_limits :: "(string \<times> int) list"

record TenantAuditItem =
  ta_id :: string
  ta_occurred_at :: string
  ta_action_type :: string
  ta_resource_type :: string
  ta_resource_reference :: "string option"
  ta_outcome :: string
  ta_actor_type :: string
  ta_actor_reference :: "string option"
  ta_reason :: "string option"
  ta_correlation_id :: "string option"

record UsageRow =
  ur_type :: string
  ur_used :: int
  ur_limit :: "int option"
  ur_measured :: bool

record PlatformTenantUsage =
  ptu_tenant_id :: string
  ptu_name :: string
  ptu_status :: string
  ptu_plan_code :: "string option"
  ptu_period_start :: "string option"
  ptu_dimensions :: "UsageRow list"
  ptu_unavailable :: bool

end
