(* ===== verification/UrlCoding.thy ===== *)
theory UrlCoding
  imports Prelude
begin

text \<open>
  The two percent encodings of the web platform that the console builds its URLs with:
  \<open>encodeURIComponent\<close> for a path segment or one query value, and the
  \<open>application/x-www-form-urlencoded\<close> serialisation of \<open>URLSearchParams\<close>. A string is its UTF-8
  bytes. Both lose nothing, and neither emits a character that would end a path segment or a
  query parameter; the lemmas are shared by the locale \<open>percent_code\<close>, whose law says which
  bytes a coding leaves alone.
\<close>

definition hex_digit :: "nat \<Rightarrow> char" where
  "hex_digit n = (if n < 10 then char_of (48 + n) else char_of (55 + n))"

definition hex_val :: "char \<Rightarrow> nat" where
  "hex_val c = (if is_digit c then of_char c - 48 else of_char c - 55)"

definition percent_byte :: "char \<Rightarrow> string" where
  "percent_byte c = [CHR ''%'', hex_digit (of_char c div 16), hex_digit (of_char c mod 16)]"

definition is_alnum :: "char \<Rightarrow> bool" where
  "is_alnum c = (is_digit c \<or> is_upper c \<or> is_lower c)"

definition uri_unreserved :: "char \<Rightarrow> bool" where
  "uri_unreserved c = (is_alnum c \<or> c \<in> set ''-_.!~*'' \<or> c \<in> {CHR 0x27, CHR ''('', CHR '')''})"

definition form_unreserved :: "char \<Rightarrow> bool" where
  "form_unreserved c = (is_alnum c \<or> c \<in> set ''*-._'')"

definition encodeURIComponent :: "string \<Rightarrow> string" where
  "encodeURIComponent s = concat (map (\<lambda>c. if uri_unreserved c then [c] else percent_byte c) s)"

definition form_byte :: "char \<Rightarrow> string" where
  "form_byte c = (if c = CHR '' '' then ''+'' else if form_unreserved c then [c] else percent_byte c)"

definition form_encode :: "string \<Rightarrow> string" where
  "form_encode s = concat (map form_byte s)"

text \<open>Reading an encoded text back, as the server does; \<open>form\<close> tells the form coding.\<close>

fun percent_decode :: "bool \<Rightarrow> string \<Rightarrow> string" where
  "percent_decode form [] = []"
| "percent_decode form [c] = [if form \<and> c = CHR ''+'' then CHR '' '' else c]"
| "percent_decode form [c, d] =
     (if form \<and> c = CHR ''+'' then CHR '' '' else c) # percent_decode form [d]"
| "percent_decode form (c # a # b # r) =
     (if c = CHR ''%'' then char_of (16 * hex_val a + hex_val b) # percent_decode form r
      else (if form \<and> c = CHR ''+'' then CHR '' '' else c) # percent_decode form (a # b # r))"

lemma hex_digit_alnum: "n < 16 \<Longrightarrow> is_alnum (hex_digit n)"
  by (simp add: hex_digit_def is_alnum_def is_digit_def is_upper_def)

lemma hex_val_digit [simp]: "n < 16 \<Longrightarrow> hex_val (hex_digit n) = n"
  by (simp add: hex_digit_def hex_val_def is_digit_def)

lemma of_char_byte: "(of_char c :: nat) < 256"
  using nat_of_char_less_256 [of c] by simp

lemma byte_nibbles [simp]:
  "(of_char c :: nat) div 16 < 16" "(of_char c :: nat) mod 16 < 16"
  "char_of (16 * (of_char c div 16) + of_char c mod (16 :: nat)) = c"
  using of_char_byte [of c] by (simp_all add: less_mult_imp_div_less)

lemma decode_percent_byte: "percent_decode form (percent_byte c @ r) = c # percent_decode form r"
  by (simp add: percent_byte_def)

lemma decode_plain:
  "c \<noteq> CHR ''%'' \<Longrightarrow> \<not> (form \<and> c = CHR ''+'') \<Longrightarrow>
   percent_decode form (c # r) = c # percent_decode form r"
  by (cases r; cases "tl r") auto

lemma decode_space: "percent_decode True (CHR ''+'' # r) = CHR '' '' # percent_decode True r"
  by (cases r; cases "tl r") auto

text \<open>A coding that writes each byte as itself, as a plus sign or as a percent escape.\<close>

locale percent_code =
  fixes form :: bool and code :: "char \<Rightarrow> string" and kept :: "char \<Rightarrow> bool"
  assumes code_cases: "code c = [c] \<and> kept c \<or> code c = percent_byte c \<or>
      form \<and> c = CHR '' '' \<and> code c = ''+''"
    and kept_plain: "kept c \<Longrightarrow> c \<noteq> CHR ''%'' \<and> c \<noteq> CHR ''+''"
    and alnum_kept: "is_alnum c \<Longrightarrow> kept c"
begin

lemma decode_code: "percent_decode form (code c @ r) = c # percent_decode form r"
  using code_cases [of c] kept_plain [of c] decode_percent_byte decode_plain [of c] decode_space
  by auto

lemma decode_concat: "percent_decode form (concat (map code s)) = s"
  by (induction s) (simp_all add: decode_code)

lemma code_chars: "d \<in> set (code c) \<Longrightarrow> kept d \<or> d = CHR ''%'' \<or> d = CHR ''+''"
  using code_cases [of c] alnum_kept hex_digit_alnum by (auto simp: percent_byte_def)

lemma concat_chars: "d \<in> set (concat (map code s)) \<Longrightarrow> kept d \<or> d = CHR ''%'' \<or> d = CHR ''+''"
  using code_chars by auto

lemma concat_inj: "concat (map code s) = concat (map code t) \<Longrightarrow> s = t"
  by (metis decode_concat)

end

lemma alnum_not_special:
  "is_alnum c \<Longrightarrow> c \<noteq> CHR ''%'' \<and> c \<noteq> CHR ''+''"
  by (auto simp: is_alnum_def is_digit_def is_upper_def is_lower_def)

interpretation uri: percent_code False "\<lambda>c. if uri_unreserved c then [c] else percent_byte c"
    uri_unreserved
  by unfold_locales (auto simp: uri_unreserved_def dest: alnum_not_special)

interpretation formdata: percent_code True form_byte form_unreserved
  by unfold_locales (auto simp: form_byte_def form_unreserved_def dest: alnum_not_special)

lemma decode_encodeURIComponent: "percent_decode False (encodeURIComponent s) = s"
  using uri.decode_concat by (simp add: encodeURIComponent_def)

lemma decode_form_encode: "percent_decode True (form_encode s) = s"
  using formdata.decode_concat by (simp add: form_encode_def)

interpretation uri_form: percent_code True "\<lambda>c. if uri_unreserved c then [c] else percent_byte c" uri_unreserved
  by unfold_locales (auto simp: uri_unreserved_def dest: alnum_not_special)

lemma form_decode_encodeURIComponent: "percent_decode True (encodeURIComponent s) = s"
  using uri_form.decode_concat by (simp add: encodeURIComponent_def)

text \<open>The characters that structure a path or a query never occur in an encoded part.\<close>

definition url_delimiters :: string where
  "url_delimiters = ''/?#:&=''"

lemma alnum_not_delimiter: "is_alnum c \<Longrightarrow> c \<notin> set url_delimiters"
  by (auto simp: url_delimiters_def is_alnum_def is_digit_def is_upper_def is_lower_def)

lemma encodeURIComponent_clean: "c \<in> set (encodeURIComponent s) \<Longrightarrow> c \<notin> set url_delimiters"
  using uri.concat_chars [of c s] alnum_not_delimiter [of c]
  unfolding encodeURIComponent_def
  by (auto simp: uri_unreserved_def url_delimiters_def)

lemma form_encode_clean: "c \<in> set (form_encode s) \<Longrightarrow> c \<notin> set url_delimiters"
  using formdata.concat_chars [of c s] alnum_not_delimiter [of c]
  unfolding form_encode_def
  by (auto simp: form_unreserved_def url_delimiters_def)

section \<open>URLSearchParams\<close>

text \<open>A parameter list in insertion order, and \<open>toString\<close>.\<close>

type_synonym search_params = "(string \<times> string) list"

definition form_pair :: "string \<times> string \<Rightarrow> string" where
  "form_pair p = form_encode (fst p) @ ''='' @ form_encode (snd p)"

definition params_toString :: "search_params \<Rightarrow> string" where
  "params_toString q = js_join ''&'' (map form_pair q)"

text \<open>What a server reads from a query text.\<close>

definition parse_pair :: "string \<Rightarrow> string \<times> string" where
  "parse_pair w =
     (case js_split CHR ''='' w of
        [] \<Rightarrow> ([], [])
      | k # vs \<Rightarrow> (percent_decode True k, percent_decode True (js_join ''='' vs)))"

definition parse_query :: "string \<Rightarrow> search_params" where
  "parse_query s = (if s = [] then [] else map parse_pair (js_split CHR ''&'' s))"

lemma js_split_absent: "d \<notin> set w \<Longrightarrow> js_split d w = [w]"
  by (induction w) auto

lemma js_split_append: "d \<notin> set w \<Longrightarrow> js_split d (w @ d # r) = w # js_split d r"
  by (induction w) auto

lemma js_split_join:
  "ws \<noteq> [] \<Longrightarrow> (\<And>w. w \<in> set ws \<Longrightarrow> d \<notin> set w) \<Longrightarrow> js_split d (js_join [d] ws) = ws"
proof (induction "[d]" ws rule: js_join.induct)
  case (2 x)
  then show ?case by (simp add: js_split_absent)
next
  case (3 x y zs)
  then show ?case by (simp add: js_split_append)
qed simp

lemma form_pair_no_amp: "CHR ''&'' \<notin> set (form_pair p)"
  using form_encode_clean [of "CHR ''&''"] by (auto simp: form_pair_def url_delimiters_def)

lemma parse_form_pair: "parse_pair (form_pair p) = p"
proof -
  have no: "CHR ''='' \<notin> set (form_encode s)" for s
    using form_encode_clean [of "CHR ''=''" s] by (auto simp: url_delimiters_def)
  show ?thesis
    using js_split_append [OF no, of "fst p" "form_encode (snd p)"] js_split_absent [OF no, of "snd p"]
    by (simp add: parse_pair_def form_pair_def decode_form_encode)
qed

lemma js_join_Nil_iff: "js_join sep ws = [] \<Longrightarrow> (\<And>w. w \<in> set ws \<Longrightarrow> w \<noteq> []) \<Longrightarrow> ws = []"
  by (cases ws; cases "tl ws") auto

lemma parse_toString: "parse_query (params_toString q) = q"
proof (cases "q = []")
  case False
  have "params_toString q \<noteq> []"
    using js_join_Nil_iff [of "''&''" "map form_pair q"] False
    by (auto simp: params_toString_def form_pair_def)
  moreover have "js_split CHR ''&'' (params_toString q) = map form_pair q"
    unfolding params_toString_def using False form_pair_no_amp by (intro js_split_join) auto
  ultimately show ?thesis by (simp add: parse_query_def comp_def parse_form_pair)
qed (simp add: params_toString_def parse_query_def)

text \<open>A query of one pair whose value is written with \<open>encodeURIComponent\<close>.\<close>

lemma parse_one:
  assumes "CHR ''='' \<notin> set k" "CHR ''&'' \<notin> set k" "k \<noteq> []"
  shows "parse_query (k @ ''='' @ encodeURIComponent v) = [(percent_decode True k, v)]"
proof -
  have clean: "c \<notin> set (encodeURIComponent v)" if "c \<in> set url_delimiters" for c
    using encodeURIComponent_clean that by blast
  have "js_split CHR ''&'' (k @ ''='' @ encodeURIComponent v) = [k @ ''='' @ encodeURIComponent v]"
    using clean [of "CHR ''&''"] assms by (intro js_split_absent) (auto simp: url_delimiters_def)
  moreover have "js_split CHR ''='' (k @ ''='' @ encodeURIComponent v) = [k, encodeURIComponent v]"
    using js_split_append [of "CHR ''=''" k] assms(1) js_split_absent [of "CHR ''=''" "encodeURIComponent v"]
      clean [of "CHR ''=''"]
    by (simp add: url_delimiters_def)
  ultimately show ?thesis using assms by (simp add: parse_query_def parse_pair_def form_decode_encodeURIComponent)
qed

end
