(* ===== verification/ApiEndpoints.thy ===== *)
theory ApiEndpoints
  imports ClientAuth WireOps UrlCoding
begin

text \<open>
  The endpoint table of the console (\<open>web/src/api/index.ts\<close>): one definition per member of the
  exported objects, \<open>apiKeys.rotate\<close> being \<open>apiKeys_rotate\<close>. A member builds a path and options and
  hands them to \<open>request\<close> of \<open>HttpClient\<close>, so its model is that pair. An input that a
  member only passes on as the JSON body is a JSON value; a body that the code builds is built here,
  an optional member that is undefined being absent from it. A filter is the list of its members with
  the printed value, none for an undefined one.
\<close>

type_synonym ApiCall = "string \<times> RequestOptions"

definition call_api :: "ApiCall \<Rightarrow> client \<Rightarrow> client" where
  "call_api c w = request (fst c) (snd c) w"

abbreviation enc :: "string \<Rightarrow> string" where
  "enc \<equiv> encodeURIComponent"

section \<open>Helpers\<close>

definition trimmed_reason :: "string option \<Rightarrow> string option" where
  "trimmed_reason reason =
     (case reason of None \<Rightarrow> None | Some r \<Rightarrow> if js_trim r = [] then None else Some (js_trim r))"

definition reasonBody :: "string option \<Rightarrow> (string \<times> json) list" where
  "reasonBody reason =
     (case trimmed_reason reason of None \<Rightarrow> [] | Some r \<Rightarrow> [(''reason'', JStr r)])"

definition withReason :: "string option \<Rightarrow> json option" where
  "withReason reason =
     (case trimmed_reason reason of None \<Rightarrow> None | Some r \<Rightarrow> Some (JObj [(''reason'', JStr r)]))"

definition platformRealm :: RequestOptions where
  "platformRealm = no_options\<lparr>ro_realm := Some platform_realm\<rparr>"

definition request_id_member :: "string option \<Rightarrow> (string \<times> json) list" where
  "request_id_member requestId =
     (if truthy requestId then [(''request_id'', JStr (the requestId))] else [])"

definition token_header :: "string option \<Rightarrow> (string \<times> string) list option" where
  "token_header token =
     (if truthy token then Some [(''Authorization'', bearer (the token))] else None)"

text \<open>\<open>query.set\<close> when a value is given, and a query text behind its question mark.\<close>

definition set_given :: "string \<Rightarrow> string option \<Rightarrow> search_params \<Rightarrow> search_params" where
  "set_given k v q = (case v of None \<Rightarrow> q | Some x \<Rightarrow> al_set k x q)"

definition nonempty :: "string option \<Rightarrow> string option" where
  "nonempty s = (if truthy s then s else None)"

definition joined :: "string list option \<Rightarrow> string option" where
  "joined xs = (case xs of None \<Rightarrow> None | Some l \<Rightarrow> if l = [] then None else Some (js_join '','' l))"

definition trends_query ::
    "TrendGranularity \<Rightarrow> string option \<Rightarrow> string option \<Rightarrow> string list option \<Rightarrow> search_params" where
  "trends_query granularity start finish types =
     set_given ''types'' (joined types) (set_given ''end'' (nonempty finish)
       (set_given ''start'' (nonempty start) [(''granularity'', granularity_name granularity)]))"

definition products_query :: "int option \<Rightarrow> int option \<Rightarrow> string list option \<Rightarrow> search_params" where
  "products_query limit offset ids =
     set_given ''ids'' (joined ids) (set_given ''offset'' (map_option show_int offset)
       (set_given ''limit'' (map_option show_int limit) []))"

definition present_filters :: "(string \<times> string option) list \<Rightarrow> search_params" where
  "present_filters filters = map (\<lambda>(k, v). (k, the v)) (filter (\<lambda>(k, v). truthy v) filters)"

definition with_query :: "string \<Rightarrow> string" where
  "with_query qs = (if qs = [] then [] else ''?'' @ qs)"

datatype Decision = approve | reject

fun decision_name :: "Decision \<Rightarrow> string" where
  "decision_name approve = ''approve''"
| "decision_name reject = ''reject''"

section \<open>Product and tenant\<close>

definition tenantStatus_get :: "ApiCall" where
  "tenantStatus_get = (''/v1/tenant/status'', no_options)"

definition meta_get :: "ApiCall" where
  "meta_get = (''/v1/meta'', no_options\<lparr>ro_realm := Some public_realm\<rparr>)"

definition meta_plans :: "ApiCall" where
  "meta_plans = (''/v1/plans'', no_options\<lparr>ro_realm := Some public_realm\<rparr>)"

definition tenantUsers_list :: "ApiCall" where
  "tenantUsers_list = (''/v1/tenant/users'', no_options)"

definition tenantUsers_invite :: "json \<Rightarrow> ApiCall" where
  "tenantUsers_invite input =
     (''/v1/tenant/users'',
      no_options\<lparr>ro_method := Some POST, ro_json := Some input\<rparr>)"

definition tenantUsers_revokeInvitation :: "string \<Rightarrow> ApiCall" where
  "tenantUsers_revokeInvitation ident =
     (''/v1/tenant/users/'' @ enc ident @ ''/invitation'',
      no_options\<lparr>ro_method := Some DELETE\<rparr>)"

definition tenantUsers_update :: "string \<Rightarrow> json \<Rightarrow> ApiCall" where
  "tenantUsers_update ident change =
     (''/v1/tenant/users/'' @ enc ident,
      no_options\<lparr>ro_method := Some PATCH, ro_json := Some change\<rparr>)"

definition tenantUsers_resendInvitation :: "string \<Rightarrow> ApiCall" where
  "tenantUsers_resendInvitation ident =
     (''/v1/tenant/users/'' @ enc ident @ ''/invitation:resend'',
      no_options\<lparr>ro_method := Some POST\<rparr>)"

section \<open>Sign-in\<close>

definition auth_login :: "json \<Rightarrow> ApiCall" where
  "auth_login input =
     (''/v1/auth/login'',
      no_options\<lparr>ro_method := Some POST, ro_json := Some input, ro_realm := Some public_realm\<rparr>)"

definition auth_setupPassword :: "json \<Rightarrow> ApiCall" where
  "auth_setupPassword input =
     (''/v1/auth/setup-password'',
      no_options\<lparr>ro_method := Some POST, ro_json := Some input, ro_realm := Some public_realm\<rparr>)"

definition auth_recoverPassword :: "json \<Rightarrow> ApiCall" where
  "auth_recoverPassword input =
     (''/v1/auth/recover-password'',
      no_options\<lparr>ro_method := Some POST, ro_json := Some input, ro_realm := Some public_realm\<rparr>)"

definition auth_registerTenant :: "json \<Rightarrow> string \<Rightarrow> ApiCall" where
  "auth_registerTenant input idempotencyKey =
     (''/v1/tenants'',
      no_options\<lparr>ro_method := Some POST, ro_json := Some input,
         ro_headers := Some [(''Idempotency-Key'', idempotencyKey)],
         ro_realm := Some public_realm\<rparr>)"

section \<open>API keys\<close>

definition apiKeys_list :: "ApiCall" where
  "apiKeys_list = (''/v1/api-keys'', no_options)"

definition apiKeys_get :: "string \<Rightarrow> ApiCall" where
  "apiKeys_get ident = (''/v1/api-keys/'' @ enc ident, no_options)"

definition apiKeys_create :: "json \<Rightarrow> ApiCall" where
  "apiKeys_create input =
     (''/v1/api-keys'',
      no_options\<lparr>ro_method := Some POST, ro_json := Some input\<rparr>)"

definition apiKeys_rotate :: "string \<Rightarrow> json \<Rightarrow> ApiCall" where
  "apiKeys_rotate ident input =
     (''/v1/api-keys/'' @ enc ident @ ''/rotate'',
      no_options\<lparr>ro_method := Some POST, ro_json := Some input\<rparr>)"

definition apiKeys_revoke :: "string \<Rightarrow> ApiCall" where
  "apiKeys_revoke ident =
     (''/v1/api-keys/'' @ enc ident,
      no_options\<lparr>ro_method := Some DELETE\<rparr>)"

section \<open>Billing\<close>

definition billing_subscription :: "ApiCall" where
  "billing_subscription = (''/v1/subscription'', no_options)"

definition billing_planRequests :: "ApiCall" where
  "billing_planRequests = (''/v1/subscription/requests'', no_options)"

definition billing_requestPlan :: "json \<Rightarrow> ApiCall" where
  "billing_requestPlan input =
     (''/v1/subscription/requests'',
      no_options\<lparr>ro_method := Some POST, ro_json := Some input\<rparr>)"

definition billing_cancelPlanRequest :: "string \<Rightarrow> ApiCall" where
  "billing_cancelPlanRequest ident =
     (''/v1/subscription/requests/'' @ enc ident @ '':cancel'',
      no_options\<lparr>ro_method := Some POST\<rparr>)"

definition billing_usage :: "string option \<Rightarrow> ApiCall" where
  "billing_usage period =
     (''/v1/usage'' @ (if truthy period then ''?period='' @ enc (the period) else []),
      no_options)"

definition billing_trends ::
    "TrendGranularity \<Rightarrow> string option \<Rightarrow> string option \<Rightarrow> string list option \<Rightarrow> ApiCall" where
  "billing_trends granularity start finish types =
     (''/v1/usage/trends?'' @ params_toString (trends_query granularity start finish types),
      no_options)"

section \<open>Policies and recommendations\<close>

definition retraining_get :: "ApiCall" where
  "retraining_get = (''/v1/retraining-policy'', no_options)"

definition retraining_put :: "json \<Rightarrow> ApiCall" where
  "retraining_put input =
     (''/v1/retraining-policy'',
      no_options\<lparr>ro_method := Some PUT, ro_json := Some input\<rparr>)"

definition recommendations_get :: "json \<Rightarrow> ApiCall" where
  "recommendations_get input =
     (''/v1/recommendations'',
      no_options\<lparr>ro_method := Some POST, ro_json := Some input\<rparr>)"

definition recommendationRules_get :: "ApiCall" where
  "recommendationRules_get = (''/v1/recommendation-policy'', no_options)"

definition recommendationRules_put :: "json \<Rightarrow> ApiCall" where
  "recommendationRules_put input =
     (''/v1/recommendation-policy'',
      no_options\<lparr>ro_method := Some PUT, ro_json := Some input\<rparr>)"

section \<open>Catalog\<close>

definition products_list ::
    "int option \<Rightarrow> int option \<Rightarrow> string list option \<Rightarrow> ApiCall" where
  "products_list limit offset ids =
     (''/v1/products'' @ with_query (params_toString (products_query limit offset ids)),
      no_options)"

definition products_get :: "string \<Rightarrow> ApiCall" where
  "products_get externalId = (''/v1/products/'' @ enc externalId, no_options)"

definition products_put :: "string \<Rightarrow> json \<Rightarrow> ApiCall" where
  "products_put externalId input =
     (''/v1/products/'' @ enc externalId,
      no_options\<lparr>ro_method := Some PUT, ro_json := Some input\<rparr>)"

definition products_disable :: "string \<Rightarrow> ApiCall" where
  "products_disable externalId =
     (''/v1/products/'' @ enc externalId @ '':disable'',
      no_options\<lparr>ro_method := Some POST\<rparr>)"

definition products_bulkUpsert ::
    "json list \<Rightarrow> string option \<Rightarrow> ApiCall" where
  "products_bulkUpsert items requestId =
     (''/v1/products:bulk-upsert'',
      no_options\<lparr>ro_method := Some POST, ro_json := Some (JObj ((''products'', JArr items)
         # request_id_member requestId))\<rparr>)"

definition products_listSyncs :: "ApiCall" where
  "products_listSyncs = (''/v1/catalog-syncs'', no_options)"

definition products_getSync :: "string \<Rightarrow> ApiCall" where
  "products_getSync ident = (''/v1/catalog-syncs/'' @ enc ident, no_options)"

section \<open>Events\<close>

definition events_submit :: "json \<Rightarrow> ApiCall" where
  "events_submit input =
     (''/v1/events'',
      no_options\<lparr>ro_method := Some POST, ro_json := Some input\<rparr>)"

definition events_submitBatch :: "json list \<Rightarrow> string option \<Rightarrow> ApiCall" where
  "events_submitBatch items requestId =
     (''/v1/events/batches'',
      no_options\<lparr>ro_method := Some POST, ro_json := Some (JObj ((''events'', JArr items)
         # request_id_member requestId))\<rparr>)"

definition events_list :: "(string \<times> string option) list \<Rightarrow> ApiCall" where
  "events_list filters =
     (''/v1/events'' @ with_query (params_toString (present_filters filters)),
      no_options)"

definition events_listBatches :: "ApiCall" where
  "events_listBatches = (''/v1/events/batches'', no_options)"

definition events_getBatch :: "string \<Rightarrow> ApiCall" where
  "events_getBatch ident = (''/v1/events/batches/'' @ enc ident, no_options)"

section \<open>Datasets, models and training\<close>

definition datasets_upload :: "string \<Rightarrow> ApiCall" where
  "datasets_upload file =
     (''/v1/datasets/upload'',
      no_options\<lparr>ro_method := Some POST, ro_form := Some file\<rparr>)"

definition datasets_listSnapshots :: "ApiCall" where
  "datasets_listSnapshots = (''/v1/datasets/snapshots'', no_options)"

definition datasets_getSnapshot :: "string \<Rightarrow> ApiCall" where
  "datasets_getSnapshot ident = (''/v1/datasets/snapshots/'' @ enc ident, no_options)"

definition datasets_createSnapshot :: "json \<Rightarrow> ApiCall" where
  "datasets_createSnapshot input =
     (''/v1/datasets/snapshots'',
      no_options\<lparr>ro_method := Some POST, ro_json := Some input\<rparr>)"

definition models_list :: "ApiCall" where
  "models_list = (''/v1/model-versions'', no_options)"

definition models_get :: "string \<Rightarrow> ApiCall" where
  "models_get ident = (''/v1/model-versions/'' @ enc ident, no_options)"

definition models_activate :: "string \<Rightarrow> string option \<Rightarrow> ApiCall" where
  "models_activate ident reason =
     (''/v1/model-versions/'' @ enc ident @ '':activate'',
      no_options\<lparr>ro_method := Some POST, ro_json := withReason reason\<rparr>)"

definition models_archive :: "string \<Rightarrow> string option \<Rightarrow> ApiCall" where
  "models_archive ident reason =
     (''/v1/model-versions/'' @ enc ident @ '':archive'',
      no_options\<lparr>ro_method := Some POST, ro_json := withReason reason\<rparr>)"

definition models_rollback :: "string \<Rightarrow> string option \<Rightarrow> ApiCall" where
  "models_rollback ident reason =
     (''/v1/model-versions/'' @ enc ident @ '':rollback'',
      no_options\<lparr>ro_method := Some POST, ro_json := withReason reason\<rparr>)"

definition training_cancel :: "string \<Rightarrow> string option \<Rightarrow> ApiCall" where
  "training_cancel ident reason =
     (''/v1/training-jobs/'' @ enc ident @ '':cancel'',
      no_options\<lparr>ro_method := Some POST, ro_json := withReason reason\<rparr>)"

definition training_get :: "string \<Rightarrow> ApiCall" where
  "training_get ident = (''/v1/training-jobs/'' @ enc ident, no_options)"

definition training_list :: "ApiCall" where
  "training_list = (''/v1/training-jobs'', no_options)"

definition training_create :: "json \<Rightarrow> ApiCall" where
  "training_create input =
     (''/v1/training-jobs'',
      no_options\<lparr>ro_method := Some POST, ro_json := Some input\<rparr>)"

section \<open>Serving\<close>

definition serving_deployment :: "ApiCall" where
  "serving_deployment = (''/v1/deployment'', no_options)"

definition serving_scaling :: "ApiCall" where
  "serving_scaling = (''/v1/deployment/scaling'', no_options)"

definition serving_metrics :: "int option \<Rightarrow> ApiCall" where
  "serving_metrics windowMinutes =
     (''/v1/metrics/summary'' @ (case windowMinutes of None \<Rightarrow> []
         | Some n \<Rightarrow> ''?window_minutes='' @ show_int n),
      no_options)"

section \<open>The platform realm\<close>

definition platform_getTenantQuota :: "string \<Rightarrow> ApiCall" where
  "platform_getTenantQuota ident = (''/v1/platform/tenants/'' @ enc ident @ ''/quotas'', platformRealm)"

definition platform_getTenantUsage :: "string \<Rightarrow> ApiCall" where
  "platform_getTenantUsage ident = (''/v1/platform/tenants/'' @ enc ident @ ''/usage'', platformRealm)"

definition platform_issueRecovery ::
    "string \<Rightarrow> string \<Rightarrow> string option \<Rightarrow> ApiCall" where
  "platform_issueRecovery ident email reason =
     (''/v1/platform/tenants/'' @ enc ident @ ''/recovery'',
      platformRealm\<lparr>ro_method := Some POST, ro_json := Some (JObj ((''email'', JStr email)
         # reasonBody reason))\<rparr>)"

definition platform_assignTenantPlan ::
    "string \<Rightarrow> string \<Rightarrow> bool \<Rightarrow> string option \<Rightarrow> ApiCall" where
  "platform_assignTenantPlan ident planId acknowledge reason =
     (''/v1/platform/tenants/'' @ enc ident @ ''/plan'',
      platformRealm\<lparr>ro_method := Some POST, ro_json := Some (JObj ([(''plan_id'', JStr planId),
         (''acknowledge_below_usage'', JBool acknowledge)] @ reasonBody reason))\<rparr>)"

definition platform_status :: "string option \<Rightarrow> ApiCall" where
  "platform_status token =
     (''/v1/platform/status'',
      no_options\<lparr>ro_realm := Some (if truthy token then public_realm else platform_realm),
         ro_headers := token_header token\<rparr>)"

definition platform_listTenants :: "ApiCall" where
  "platform_listTenants = (''/v1/platform/tenants'', platformRealm)"

definition platform_getTenant :: "string \<Rightarrow> ApiCall" where
  "platform_getTenant ident = (''/v1/platform/tenants/'' @ enc ident, platformRealm)"

definition platform_setTenantStatus ::
    "string \<Rightarrow> PlatformTenantStatus \<Rightarrow> string \<Rightarrow> ApiCall" where
  "platform_setTenantStatus ident status reason =
     (''/v1/platform/tenants/'' @ enc ident @ ''/status'',
      platformRealm\<lparr>ro_method := Some POST, ro_json :=
         Some (JObj [(''status'', JStr (tenant_status_name status)),
         (''reason'', JStr (js_trim reason))])\<rparr>)"

definition platform_setQuotaOverrides ::
    "string \<Rightarrow> (string \<times> json) list \<Rightarrow> bool \<Rightarrow> string option \<Rightarrow> ApiCall" where
  "platform_setQuotaOverrides ident overrides acknowledge reason =
     (''/v1/platform/tenants/'' @ enc ident @ ''/quotas'',
      platformRealm\<lparr>ro_method := Some POST, ro_json :=
         Some (JObj ([(''overrides'', JObj overrides),
         (''acknowledge_below_usage'', JBool acknowledge)] @ reasonBody reason))\<rparr>)"

definition platform_listPlans :: "ApiCall" where
  "platform_listPlans = (''/v1/platform/plans'', platformRealm)"

definition platform_listPlanRequests :: "PlanRequestStatus option \<Rightarrow> ApiCall" where
  "platform_listPlanRequests status =
     (''/v1/platform/plan-requests'' @ (case status of None \<Rightarrow> [] | Some s \<Rightarrow> ''?status=''
         @ plan_request_status_name s),
      platformRealm)"

definition platform_decidePlanRequest ::
    "string \<Rightarrow> Decision \<Rightarrow> string \<Rightarrow> bool \<Rightarrow> ApiCall" where
  "platform_decidePlanRequest ident decision reason acknowledge =
     (''/v1/platform/plan-requests/'' @ enc ident @ '':'' @ decision_name decision,
      platformRealm\<lparr>ro_method := Some POST, ro_json :=
         Some (JObj ((''reason'', JStr (js_trim reason)) #
         (if acknowledge then [(''acknowledge_below_usage'', JBool True)] else [])))\<rparr>)"

definition platform_updatePlan ::
    "string \<Rightarrow> (string \<times> json) list \<Rightarrow> bool \<Rightarrow> string option \<Rightarrow> ApiCall" where
  "platform_updatePlan ident v acknowledge reason =
     (''/v1/platform/plans/'' @ enc ident,
      platformRealm\<lparr>ro_method := Some PUT, ro_json := Some (JObj (v
         @ [(''acknowledge_below_usage'', JBool acknowledge)] @ reasonBody reason))\<rparr>)"

definition platform_login :: "string \<Rightarrow> string \<Rightarrow> ApiCall" where
  "platform_login email password =
     (''/v1/platform/auth/login'',
      no_options\<lparr>ro_method := Some POST, ro_json := Some (JObj [(''email'', JStr email),
         (''password'', JStr password)]), ro_realm := Some public_realm\<rparr>)"

definition platform_me :: "string option \<Rightarrow> ApiCall" where
  "platform_me token =
     (''/v1/platform/me'',
      no_options\<lparr>ro_realm := Some (if truthy token then public_realm else platform_realm),
         ro_headers := token_header token\<rparr>)"

definition platform_listOperators :: "ApiCall" where
  "platform_listOperators = (''/v1/platform/operators'', platformRealm)"

definition platform_createOperator :: "json \<Rightarrow> ApiCall" where
  "platform_createOperator input =
     (''/v1/platform/operators'',
      platformRealm\<lparr>ro_method := Some POST, ro_json := Some input\<rparr>)"

definition platform_updateOperator :: "string \<Rightarrow> json \<Rightarrow> ApiCall" where
  "platform_updateOperator ident change =
     (''/v1/platform/operators/'' @ enc ident,
      platformRealm\<lparr>ro_method := Some PATCH, ro_json := Some change\<rparr>)"

definition platform_listFailures :: "ApiCall" where
  "platform_listFailures = (''/v1/platform/failures'', platformRealm)"

definition platform_listUsage :: "ApiCall" where
  "platform_listUsage = (''/v1/platform/usage'', platformRealm)"

definition platform_listAudit :: "(string \<times> string option) list \<Rightarrow> ApiCall" where
  "platform_listAudit filters =
     (''/v1/platform/audit'' @ with_query (params_toString (present_filters filters)),
      platformRealm)"

section \<open>Audit\<close>

definition tenantAudit_list :: "(string \<times> string option) list \<Rightarrow> ApiCall" where
  "tenantAudit_list filters =
     (''/v1/audit'' @ with_query (params_toString (present_filters filters)),
      no_options)"

section \<open>Paths\<close>

text \<open>The path of every endpoint that names a resource, as a function of the identifier.\<close>

definition resource_paths ::
    "json \<Rightarrow> string option \<Rightarrow> string \<Rightarrow> string \<Rightarrow> string \<Rightarrow> bool \<Rightarrow> PlatformTenantStatus \<Rightarrow>
     (string \<times> json) list \<Rightarrow> Decision \<Rightarrow> (string \<Rightarrow> string) list" where
  "resource_paths input reason note email planId acknowledge status overrides decision =
     [\<lambda>i. fst (tenantUsers_revokeInvitation i),
      \<lambda>i. fst (tenantUsers_update i input),
      \<lambda>i. fst (tenantUsers_resendInvitation i),
      \<lambda>i. fst (apiKeys_get i),
      \<lambda>i. fst (apiKeys_rotate i input),
      \<lambda>i. fst (apiKeys_revoke i),
      \<lambda>i. fst (billing_cancelPlanRequest i),
      \<lambda>i. fst (products_get i),
      \<lambda>i. fst (products_put i input),
      \<lambda>i. fst (products_disable i),
      \<lambda>i. fst (products_getSync i),
      \<lambda>i. fst (events_getBatch i),
      \<lambda>i. fst (datasets_getSnapshot i),
      \<lambda>i. fst (models_get i),
      \<lambda>i. fst (models_activate i reason),
      \<lambda>i. fst (models_archive i reason),
      \<lambda>i. fst (models_rollback i reason),
      \<lambda>i. fst (training_cancel i reason),
      \<lambda>i. fst (training_get i),
      \<lambda>i. fst (platform_getTenantQuota i),
      \<lambda>i. fst (platform_getTenantUsage i),
      \<lambda>i. fst (platform_issueRecovery i email reason),
      \<lambda>i. fst (platform_assignTenantPlan i planId acknowledge reason),
      \<lambda>i. fst (platform_getTenant i),
      \<lambda>i. fst (platform_setTenantStatus i status note),
      \<lambda>i. fst (platform_setQuotaOverrides i overrides acknowledge reason),
      \<lambda>i. fst (platform_decidePlanRequest i decision note acknowledge),
      \<lambda>i. fst (platform_updatePlan i overrides acknowledge reason),
      \<lambda>i. fst (platform_updateOperator i input)]"

text \<open>An identifier fills one place of the path: no other identifier gives the same path, and it
  cannot add a segment, an action, a query or a fragment.\<close>

definition confined :: "(string \<Rightarrow> string) \<Rightarrow> bool" where
  "confined f =
     (\<exists>before after. (\<forall>i. f i = before @ encodeURIComponent i @ after) \<and>
        (\<forall>c i. c \<in> set (encodeURIComponent i) \<longrightarrow> c \<notin> set url_delimiters) \<and>
        (\<forall>i. percent_decode False (encodeURIComponent i) = i))"

lemma confinedI: "(\<And>i. f i = before @ encodeURIComponent i @ after) \<Longrightarrow> confined f"
  unfolding confined_def using encodeURIComponent_clean decode_encodeURIComponent by blast

lemma confined_end: "confined (\<lambda>i. before @ encodeURIComponent i)"
  by (rule confinedI [where after = "[]"]) simp

lemma confined_mid: "confined (\<lambda>i. before @ encodeURIComponent i @ after)"
  by (rule confinedI) simp

lemma confined_Cons: "confined f \<Longrightarrow> confined (\<lambda>i. c # f i)"
  unfolding confined_def by (metis append_Cons)

lemma confined_inj: "confined f \<Longrightarrow> f i = f j \<Longrightarrow> i = j"
  unfolding confined_def by (metis same_append_eq append_same_eq)

lemmas resource_path_defs =
  tenantUsers_revokeInvitation_def tenantUsers_update_def tenantUsers_resendInvitation_def
  apiKeys_get_def apiKeys_rotate_def apiKeys_revoke_def billing_cancelPlanRequest_def
  products_get_def products_put_def products_disable_def products_getSync_def
  events_getBatch_def datasets_getSnapshot_def models_get_def models_activate_def
  models_archive_def models_rollback_def training_cancel_def training_get_def
  platform_getTenantQuota_def platform_getTenantUsage_def platform_issueRecovery_def
  platform_assignTenantPlan_def platform_getTenant_def platform_setTenantStatus_def
  platform_setQuotaOverrides_def platform_decidePlanRequest_def platform_updatePlan_def
  platform_updateOperator_def

lemma resource_paths_confined:
  "list_all confined
     (resource_paths input reason note email planId acknowledge status overrides decision)"
  by (simp only: resource_paths_def resource_path_defs fst_conv list.pred_inject
      confined_end confined_mid simp_thms)

text \<open>C16: an identifier stays in its place. For each of the 29 endpoints that name a resource,
  whatever the identifier (it may come from the address bar), the path differs for different
  identifiers, and the part that depends on it contains none of the characters that delimit a
  segment, an action, a query or a parameter.\<close>

theorem identifier_confined:
  "list_all (\<lambda>f. inj f \<and> (\<exists>before after. \<forall>i. \<exists>m. f i = before @ m @ after \<and>
        set m \<inter> set url_delimiters = {} \<and> percent_decode False m = i))
     (resource_paths input reason note email planId acknowledge status overrides decision)"
proof -
  have "inj f \<and> (\<exists>before after. \<forall>i. \<exists>m. f i = before @ m @ after \<and>
      set m \<inter> set url_delimiters = {} \<and> percent_decode False m = i)" if "confined f" for f
    using confined_inj [OF that] that unfolding confined_def inj_def by (metis disjoint_iff)
  with resource_paths_confined show ?thesis by (rule list.pred_mono_strong)
qed

section \<open>Queries\<close>

text \<open>The query of a path as the server reads it.\<close>

definition query_of :: "string \<Rightarrow> search_params" where
  "query_of path = parse_query (tl (dropWhile (\<lambda>c. c \<noteq> CHR ''?'') path))"

lemma query_of_with:
  assumes "CHR ''?'' \<notin> set path"
  shows "query_of (path @ with_query (params_toString q)) = q"
proof (cases "params_toString q = []")
  case True
  moreover have "dropWhile (\<lambda>c. c \<noteq> CHR ''?'') path = []" using assms by (auto simp: dropWhile_eq_Nil_conv)
  ultimately show ?thesis
    using parse_toString [of q]
    by (simp add: query_of_def with_query_def parse_query_def del: dropWhile_eq_Nil_conv)
next
  case False
  with assms show ?thesis
    by (simp add: query_of_def with_query_def dropWhile_append parse_toString)
qed

lemma query_of_question:
  "CHR ''?'' \<notin> set path \<Longrightarrow> query_of (path @ CHR ''?'' # params_toString q) = q"
  by (simp add: query_of_def dropWhile_append parse_toString)

lemma query_of_period:
  "query_of (''/v1/usage'' @ ''?period='' @ enc p) = [(''period'', p)]"
proof -
  have "percent_decode True ''period'' = ''period''" by code_simp
  then show ?thesis using parse_one [of "''period''" p] by (simp add: query_of_def)
qed

lemma query_of_status:
  "query_of (''/v1/platform/plan-requests?status='' @ plan_request_status_name s) =
     [(''status'', plan_request_status_name s)]"
proof -
  have "query_of ''/v1/platform/plan-requests?status=pending'' = [(''status'', ''pending'')]"
    "query_of ''/v1/platform/plan-requests?status=approved'' = [(''status'', ''approved'')]"
    "query_of ''/v1/platform/plan-requests?status=rejected'' = [(''status'', ''rejected'')]"
    "query_of ''/v1/platform/plan-requests?status=cancelled'' = [(''status'', ''cancelled'')]"
    by code_simp+
  then show ?thesis by (cases s) simp_all
qed

text \<open>The entries of an object that have a value, in the order of the object.\<close>

fun given_entries :: "(string \<times> string option) list \<Rightarrow> search_params" where
  "given_entries [] = []"
| "given_entries ((k, None) # r) = given_entries r"
| "given_entries ((k, Some []) # r) = given_entries r"
| "given_entries ((k, Some (c # v)) # r) = (k, c # v) # given_entries r"

lemma given_nonempty: "v \<noteq> [] \<Longrightarrow> given_entries ((k, Some v) # r) = (k, v) # given_entries r"
  by (cases v) simp_all

lemma present_given: "present_filters filters = given_entries filters"
  by (induction filters rule: given_entries.induct) (simp_all add: present_filters_def)

text \<open>C17: what is asked is what the server reads. The query of every call that filters (products, events, both
  audit trails, requests for a plan, usage and its trends), read back as a form-encoded query, is exactly
  the filters that were given with a value, unchanged whatever characters they contain, in the order the
  code sets them; an empty text counts as no value, and so does an empty list.\<close>

theorem query_roundtrip:
  "query_of (fst (tenantAudit_list filters)) = given_entries filters \<and>
   query_of (fst (platform_listAudit filters)) = given_entries filters \<and>
   query_of (fst (events_list filters)) = given_entries filters \<and>
   query_of (fst (platform_listPlanRequests status)) =
     (case status of None \<Rightarrow> [] | Some s \<Rightarrow> [(''status'', plan_request_status_name s)]) \<and>
   query_of (fst (billing_usage period)) = given_entries [(''period'', period)] \<and>
   query_of (fst (products_list limit offset ids)) =
     (case limit of None \<Rightarrow> [] | Some n \<Rightarrow> [(''limit'', show_int n)]) @
     (case offset of None \<Rightarrow> [] | Some n \<Rightarrow> [(''offset'', show_int n)]) @
     (case ids of Some (i # is) \<Rightarrow> [(''ids'', js_join '','' (i # is))] | _ \<Rightarrow> []) \<and>
   query_of (fst (billing_trends g start finish types)) =
     (''granularity'', granularity_name g) # given_entries [(''start'', start), (''end'', finish)] @
     (case types of Some (t # ts) \<Rightarrow> [(''types'', js_join '','' (t # ts))] | _ \<Rightarrow> [])"
proof -
  have f: "query_of (fst (tenantAudit_list filters)) = given_entries filters"
    "query_of (fst (platform_listAudit filters)) = given_entries filters"
    "query_of (fst (events_list filters)) = given_entries filters"
    unfolding tenantAudit_list_def platform_listAudit_def events_list_def fst_conv present_given [symmetric]
    by (rule query_of_with, simp)+
  have r: "query_of (fst (platform_listPlanRequests status)) =
      (case status of None \<Rightarrow> [] | Some s \<Rightarrow> [(''status'', plan_request_status_name s)])"
    using query_of_status by (cases status) (simp_all add: platform_listPlanRequests_def query_of_def parse_query_def)
  have u: "query_of (fst (billing_usage period)) = given_entries [(''period'', period)]"
  proof (cases "truthy period")
    case True
    then obtain c v where "period = Some (c # v)" by (cases period; cases "the period") auto
    then show ?thesis using query_of_period [of "c # v"] by (simp add: billing_usage_def)
  next
    case False
    then have "period = None \<or> period = Some []" by (cases period) auto
    with False show ?thesis by (auto simp: billing_usage_def query_of_def parse_query_def)
  qed
  have p: "query_of (fst (products_list limit offset ids)) = products_query limit offset ids"
    unfolding products_list_def fst_conv by (rule query_of_with) simp
  have "query_of (fst (billing_trends g start finish types)) = trends_query g start finish types"
    using query_of_question [of "''/v1/usage/trends''"] by (simp add: billing_trends_def)
  moreover have "trends_query g start finish types =
     (''granularity'', granularity_name g) # given_entries [(''start'', start), (''end'', finish)] @
     (case types of Some (t # ts) \<Rightarrow> [(''types'', js_join '','' (t # ts))] | _ \<Rightarrow> [])"
    by (auto simp: trends_query_def set_given_def nonempty_def joined_def given_nonempty split: option.split list.split)
  moreover have "products_query limit offset ids =
     (case limit of None \<Rightarrow> [] | Some n \<Rightarrow> [(''limit'', show_int n)]) @
     (case offset of None \<Rightarrow> [] | Some n \<Rightarrow> [(''offset'', show_int n)]) @
     (case ids of Some (i # is) \<Rightarrow> [(''ids'', js_join '','' (i # is))] | _ \<Rightarrow> [])"
    by (auto simp: products_query_def set_given_def joined_def split: option.split list.split)
  ultimately show ?thesis using f r u p by simp
qed

section \<open>Realms\<close>

definition platform_calls ::
    "string \<Rightarrow> json \<Rightarrow> string option \<Rightarrow> string \<Rightarrow> string \<Rightarrow> string \<Rightarrow> bool \<Rightarrow> PlatformTenantStatus \<Rightarrow>
     (string \<times> json) list \<Rightarrow> Decision \<Rightarrow> PlanRequestStatus option \<Rightarrow>
     (string \<times> string option) list \<Rightarrow> ApiCall list" where
  "platform_calls i input reason note email planId acknowledge status overrides decision prs filters =
     [platform_getTenantQuota i,
      platform_getTenantUsage i,
      platform_issueRecovery i email reason,
      platform_assignTenantPlan i planId acknowledge reason,
      platform_listTenants,
      platform_getTenant i,
      platform_setTenantStatus i status note,
      platform_setQuotaOverrides i overrides acknowledge reason,
      platform_listPlans,
      platform_listPlanRequests prs,
      platform_decidePlanRequest i decision note acknowledge,
      platform_updatePlan i overrides acknowledge reason,
      platform_listOperators,
      platform_createOperator input,
      platform_updateOperator i input,
      platform_listFailures,
      platform_listUsage,
      platform_listAudit filters,
      platform_status None,
      platform_me None]"

lemmas platform_call_defs =
  platform_getTenantQuota_def platform_getTenantUsage_def platform_issueRecovery_def
  platform_assignTenantPlan_def platform_listTenants_def platform_getTenant_def
  platform_setTenantStatus_def platform_setQuotaOverrides_def platform_listPlans_def
  platform_listPlanRequests_def platform_decidePlanRequest_def platform_updatePlan_def
  platform_listOperators_def platform_createOperator_def platform_updateOperator_def
  platform_listFailures_def platform_listUsage_def platform_listAudit_def platform_status_def
  platform_me_def

text \<open>Operator credentials and workspace credentials do not mix. Every call of the platform
  object that uses the stored operator session is sent in the platform realm; the check of a token
  that is being entered is sent in the public realm with exactly that token, so it is never sent with
  a stored session and no answer to it ends one.\<close>

lemma platform_realms:
  "list_all (\<lambda>c. realm_of (snd c) = platform_realm)
     (platform_calls i input reason note email planId acknowledge status overrides decision prs
        filters) \<and>
   list_all (\<lambda>c. authorization (realm_of (snd c)) w = (Inr None, w) \<and>
       map_of (request_headers (snd c) None) ''Authorization'' = Some (bearer (t # token)) \<and>
       (let w' = snd (performRequest_receive (realm_of (snd c)) None reply w) in
        fst (getTenantSession w') = fst (getTenantSession w) \<and>
        fst (getPlatformSession w') = fst (getPlatformSession w)))
     [platform_me (Some (t # token)), platform_status (Some (t # token))]"
proof -
  have "fst (getTenantSession (snd (performRequest_receive public_realm None reply w))) =
      fst (getTenantSession w)"
    "fst (getPlatformSession (snd (performRequest_receive public_realm None reply w))) =
      fst (getPlatformSession w)"
    by (cases reply; simp add: Let_def receive_error_sessions)+
  then show ?thesis
    by (simp add: Let_def platform_calls_def platform_call_defs platformRealm_def realm_of_def
        no_options_def token_header_def request_headers_def)
qed

end
