(* ===== verification/Scopes.thy ===== *)
theory Scopes
  imports WireTypes
begin

text \<open>The scopes an API key can carry (\<open>web/src/lib/scopes.ts\<close>), their wording, and what a role may
  delegate.\<close>

definition API_KEY_SCOPES :: "(ApiKeyScope \<times> string \<times> string) list" where
  "API_KEY_SCOPES =
     [(catalog_read, ''Catalog read'', ''Catalog''),
      (catalog_write, ''Catalog write & synchronization'', ''Catalog''),
      (events_read, ''Submission result read'', ''Events''),
      (events_write, ''Event submission (single and batch) and feedback'', ''Events''),
      (recommendations_read, ''Recommendation requests'', ''Serving''),
      (training_read, ''Training and snapshot read'', ''Training''),
      (training_write, ''Training request'', ''Training''),
      (models_read, ''Model version read'', ''Models''),
      (models_write, ''Model version registration and archive'', ''Models''),
      (models_deploy, ''Model activation and roll back'', ''Models''),
      (deployments_read, ''Deployment status read'', ''Serving''),
      (metrics_read, ''Metrics summary read'', ''Serving''),
      (billing_read, ''Subscription read'', ''Account''),
      (usage_read, ''Usage read'', ''Account'')]"

definition DEVELOPER_DELEGATED :: "ApiKeyScope list" where
  "DEVELOPER_DELEGATED =
     [catalog_read, catalog_write, events_read, events_write, recommendations_read]"

definition delegatableScopes :: "TenantUserRole \<Rightarrow> ApiKeyScope list" where
  "delegatableScopes role =
     (if role = tenant_administrator then map fst API_KEY_SCOPES else DEVELOPER_DELEGATED)"

definition scopeLabel :: "string \<Rightarrow> string" where
  "scopeLabel scope =
     (case List.find (\<lambda>(s, label, g). scope_name s = scope) API_KEY_SCOPES of
        Some (s, label, g) \<Rightarrow> label | None \<Rightarrow> scope)"

definition SCOPE_SHORT :: "(string \<times> string) list" where
  "SCOPE_SHORT =
     [(''users:write'', ''user invitations''), (''catalog:read'', ''catalog read''),
      (''catalog:write'', ''catalog write''), (''events:read'', ''result read''),
      (''events:write'', ''event submission''), (''recommendations:read'', ''recommendations''),
      (''training:read'', ''training read''), (''training:write'', ''training request''),
      (''models:read'', ''models read''), (''models:write'', ''models write''),
      (''models:deploy'', ''activation''), (''deployments:read'', ''deployment read''),
      (''metrics:read'', ''metrics read''), (''billing:read'', ''subscription''),
      (''usage:read'', ''usage'')]"

lemma scope_name_inj: "scope_name a = scope_name b \<longleftrightarrow> a = b"
  by (cases a; cases b) simp_all

lemma scopes_complete: "map fst API_KEY_SCOPES = [catalog_read, catalog_write, events_read,
    events_write, recommendations_read, training_read, training_write, models_read, models_write,
    models_deploy, deployments_read, metrics_read, billing_read, usage_read]"
  by (simp add: API_KEY_SCOPES_def)

lemma scope_listed: "s \<in> set (map fst API_KEY_SCOPES)"
  by (cases s) (simp_all add: scopes_complete)

lemma scopeLabel_listed:
  "(s, label, g) \<in> set API_KEY_SCOPES \<Longrightarrow> scopeLabel (scope_name s) = label"
  by (cases s) (simp_all add: API_KEY_SCOPES_def scopeLabel_def)

text \<open>A key never carries more than its creator may delegate. The scope list names each of the
  scopes of the API exactly once, an administrator may delegate all of them, a developer a strict
  subset without any training, model, deployment, billing or usage scope, each scope has its own
  label and a short name, and an unknown scope is shown as it is.\<close>

lemma delegation_sound:
  "distinct (map fst API_KEY_SCOPES) \<and>
   set (delegatableScopes tenant_administrator) = UNIV \<and>
   set (delegatableScopes tenant_developer) \<subset> set (delegatableScopes tenant_administrator) \<and>
   set (delegatableScopes tenant_developer) \<inter>
     {training_read, training_write, models_read, models_write, models_deploy, deployments_read,
      metrics_read, billing_read, usage_read} = {} \<and>
   inj (\<lambda>s. scopeLabel (scope_name s)) \<and>
   map_of SCOPE_SHORT (scope_name s) \<noteq> None \<and>
   scopeLabel ''no:such'' = ''no:such''"
proof -
  have a: "set (delegatableScopes tenant_administrator) = UNIV"
    using scope_listed by (auto simp: delegatableScopes_def)
  have d: "set (delegatableScopes tenant_developer) =
      {catalog_read, catalog_write, events_read, events_write, recommendations_read}"
    by (simp add: delegatableScopes_def DEVELOPER_DELEGATED_def)
  have scope_back: "map_of (map (\<lambda>(s, label, g). (label, s)) API_KEY_SCOPES) (scopeLabel (scope_name s)) = Some s" for s
    by (cases s) (simp_all add: scopeLabel_def API_KEY_SCOPES_def)
  have "inj (\<lambda>s. scopeLabel (scope_name s))"
    by (rule injI) (metis scope_back option.inject)
  moreover have "map_of SCOPE_SHORT (scope_name s) \<noteq> None"
    by (cases s) (simp_all add: SCOPE_SHORT_def)
  moreover have "scopeLabel ''no:such'' = ''no:such''"
    by (simp add: scopeLabel_def API_KEY_SCOPES_def)
  moreover have "distinct (map fst API_KEY_SCOPES)" by (simp add: scopes_complete)
  ultimately show ?thesis using a d by auto
qed

end
