(* ===== verification/JsNumber.thy ===== *)
theory JsNumber
  imports Prelude "HOL-Library.Multiset"
begin

text \<open>
  Numbers as JavaScript reads and prints them: \<open>Number(text)\<close>, \<open>toFixed\<close>, the grouping of
  \<open>toLocaleString("en-US")\<close>, and \<open>Array.prototype.sort\<close> with a numeric comparator. Finite
  numbers are exact rationals. The default locale and the time zone belong to the browser: where
  the code formats with them, the formatter is an argument of the definition.
\<close>

section \<open>Values of Number\<close>

datatype number = NaN | Infinite bool | Fin rat

fun is_finite :: "number \<Rightarrow> bool" where
  "is_finite (Fin _) = True"
| "is_finite _ = False"

fun fin_val :: "number \<Rightarrow> rat" where
  "fin_val (Fin x) = x"
| "fin_val _ = 0"

section \<open>Number(text)\<close>

definition digits_val :: "nat \<Rightarrow> (char \<Rightarrow> nat) \<Rightarrow> string \<Rightarrow> nat" where
  "digits_val b val ds = foldl (\<lambda>a c. b * a + val c) 0 ds"

definition all_digits :: "string \<Rightarrow> bool" where
  "all_digits s = list_all is_digit s"

text \<open>A signed run of digits, the exponent of a decimal literal.\<close>

definition exponent :: "string \<Rightarrow> int option" where
  "exponent s =
     (let (neg, ds) = (case s of c # r \<Rightarrow> if c = CHR ''-'' then (True, r)
                          else if c = CHR ''+'' then (False, r) else (False, s) | [] \<Rightarrow> (False, []))
      in if ds \<noteq> [] \<and> all_digits ds
         then Some (if neg then - int (read_nat ds) else int (read_nat ds)) else None)"

definition pow10 :: "int \<Rightarrow> rat" where
  "pow10 e = (if 0 \<le> e then 10 ^ nat e else 1 / 10 ^ nat (- e))"

text \<open>\<open>12.5\<close>, \<open>12.\<close>, \<open>.5\<close>: digits with at most one point, at least one digit.\<close>

definition mantissa :: "string \<Rightarrow> rat option" where
  "mantissa s =
     (let i = takeWhile is_digit s; r = dropWhile is_digit s;
          f = (case r of c # f \<Rightarrow> if c = CHR ''.'' then Some f else None | [] \<Rightarrow> Some [])
      in case f of
           None \<Rightarrow> None
         | Some f \<Rightarrow>
             if all_digits f \<and> i @ f \<noteq> []
             then Some (of_nat (read_nat (i @ f)) / 10 ^ length f) else None)"

definition is_exp_mark :: "char \<Rightarrow> bool" where
  "is_exp_mark c = (c = CHR ''e'' \<or> c = CHR ''E'')"

definition unsigned_literal :: "string \<Rightarrow> rat option" where
  "unsigned_literal s =
     (let m = takeWhile (\<lambda>c. \<not> is_exp_mark c) s; r = dropWhile (\<lambda>c. \<not> is_exp_mark c) s
      in case mantissa m of
           None \<Rightarrow> None
         | Some x \<Rightarrow>
             (case r of
                [] \<Rightarrow> Some x
              | _ # e \<Rightarrow> map_option (\<lambda>n. x * pow10 n) (exponent e)))"

definition radix_val :: "char \<Rightarrow> nat" where
  "radix_val c = (if is_digit c then of_char c - 48 else of_char (lower_char c) - 87)"

definition radix_digit :: "nat \<Rightarrow> char \<Rightarrow> bool" where
  "radix_digit b c = ((is_digit c \<or> is_lower (lower_char c)) \<and> radix_val c < b)"

definition radix_of :: "char \<Rightarrow> nat option" where
  "radix_of c = map_of [(CHR ''x'', 16), (CHR ''o'', 8), (CHR ''b'', 2)] (lower_char c)"

definition radix_literal :: "string \<Rightarrow> rat option" where
  "radix_literal s =
     (case s of
        z # p # ds \<Rightarrow>
          (case radix_of p of
             Some b \<Rightarrow>
               if z = CHR ''0'' \<and> ds \<noteq> [] \<and> list_all (radix_digit b) ds
               then Some (of_nat (digits_val b radix_val ds)) else None
           | None \<Rightarrow> None)
      | _ \<Rightarrow> None)"

definition signed_part :: "string \<Rightarrow> bool \<times> string" where
  "signed_part s =
     (case s of c # r \<Rightarrow> if c = CHR ''-'' then (True, r)
        else if c = CHR ''+'' then (False, r) else (False, s) | [] \<Rightarrow> (False, []))"

definition js_Number :: "string \<Rightarrow> number" where
  "js_Number text0 =
     (let s = js_trim text0; (neg, u) = signed_part s
      in if s = [] then Fin 0
         else if u = ''Infinity'' then Infinite neg
         else (case radix_literal s of
                 Some x \<Rightarrow> Fin x
               | None \<Rightarrow> (case unsigned_literal u of
                             Some x \<Rightarrow> Fin (if neg then - x else x)
                           | None \<Rightarrow> NaN)))"

text \<open>Printed natural numbers are read back.\<close>

lemma all_digits_show: "all_digits (show_nat n)"
  using show_nat_digits by (auto simp: all_digits_def list_all_iff)

lemma digit_not_mark: "is_digit c \<Longrightarrow> \<not> is_exp_mark c"
  by (auto simp: is_exp_mark_def is_digit_def)

lemma digit_not_space: "is_digit c \<Longrightarrow> \<not> js_space c"
  by (auto simp: js_space_def is_digit_def)

lemma mantissa_digits:
  "all_digits ds \<Longrightarrow> ds \<noteq> [] \<Longrightarrow> mantissa ds = Some (of_nat (read_nat ds))"
  by (simp add: mantissa_def all_digits_def list_all_iff takeWhile_eq_all_conv [THEN iffD2]
      dropWhile_eq_Nil_conv [THEN iffD2])

lemma unsigned_literal_digits:
  assumes "all_digits ds" "ds \<noteq> []"
  shows "unsigned_literal ds = Some (of_nat (read_nat ds))"
proof -
  have no: "\<forall>c \<in> set ds. \<not> is_exp_mark c"
    using assms(1) digit_not_mark by (auto simp: all_digits_def list_all_iff)
  have tw: "takeWhile (\<lambda>c. \<not> is_exp_mark c) ds = ds"
    by (rule takeWhile_eq_all_conv [THEN iffD2]) (rule no)
  have dw: "dropWhile (\<lambda>c. \<not> is_exp_mark c) ds = []"
    by (rule dropWhile_eq_Nil_conv [THEN iffD2]) (rule no)
  show ?thesis
    unfolding unsigned_literal_def Let_def tw dw mantissa_digits [OF assms] by simp
qed

lemma radix_literal_digits: "all_digits ds \<Longrightarrow> radix_literal ds = None"
proof -
  assume a: "all_digits ds"
  have "radix_of p = None" if "is_digit p" for p
  proof -
    have "lower_char p = p" using that by (simp add: lower_char_def is_digit_def is_upper_def)
    then show ?thesis using that by (auto simp: radix_of_def is_digit_def)
  qed
  with a show ?thesis
    by (auto simp: radix_literal_def all_digits_def split: list.split)
qed

lemma dropWhile_none: "\<forall>c \<in> set s. \<not> P c \<Longrightarrow> dropWhile P s = s"
  by (cases s) auto

lemma js_trim_id: "\<forall>c \<in> set s. \<not> js_space c \<Longrightarrow> js_trim s = s"
  by (simp add: js_trim_def dropWhile_none)

lemma js_Number_show: "js_Number (show_nat n) = Fin (of_nat n)"
proof -
  let ?s = "show_nat n"
  note d = all_digits_show [of n]
  have t: "js_trim ?s = ?s" by (rule js_trim_id) (auto dest: show_nat_digits digit_not_space)
  obtain c r where c: "?s = c # r" by (cases ?s) auto
  have "is_digit c" using show_nat_digits [of c n] c by simp
  then have "signed_part ?s = (False, ?s)" "?s \<noteq> ''Infinity''"
    using c by (auto simp: signed_part_def is_digit_def)
  then show ?thesis
    using d unsigned_literal_digits [OF d] radix_literal_digits [OF d]
    by (simp add: js_Number_def t read_show_nat)
qed

section \<open>toFixed\<close>

text \<open>The closest multiple of the last digit's unit, of two the larger, on the absolute value.\<close>

definition pad_left :: "nat \<Rightarrow> string \<Rightarrow> string" where
  "pad_left n s = replicate (n - length s) CHR ''0'' @ s"

definition fixed_digits :: "nat \<Rightarrow> rat \<Rightarrow> nat" where
  "fixed_digits d x = nat \<lfloor>\<bar>x\<bar> * 10 ^ d + 1 / 2\<rfloor>"

definition to_fixed :: "nat \<Rightarrow> rat \<Rightarrow> string" where
  "to_fixed d x =
     (let n = fixed_digits d x;
          body = (if d = 0 then show_nat n
                  else (let s = pad_left (Suc d) (show_nat n)
                        in take (length s - d) s @ ''.'' @ drop (length s - d) s))
      in if x < 0 then ''-'' @ body else body)"

lemma fixed_digits_close: "\<bar>of_nat (fixed_digits d x) - \<bar>x\<bar> * 10 ^ d\<bar> \<le> 1 / 2"
proof -
  have "0 \<le> \<lfloor>\<bar>x\<bar> * 10 ^ d + 1 / 2\<rfloor>" by (simp add: le_floor_iff)
  then have "(of_nat (fixed_digits d x) :: rat) = of_int \<lfloor>\<bar>x\<bar> * 10 ^ d + 1 / 2\<rfloor>"
    by (simp add: fixed_digits_def)
  then show ?thesis by linarith
qed

section \<open>Grouping\<close>

text \<open>Commas between groups of three digits, counted from the right.\<close>

fun group_rev :: "string \<Rightarrow> string" where
  "group_rev (a # b # c # d # r) = a # b # c # CHR '','' # group_rev (d # r)"
| "group_rev s = s"

definition group_digits :: "string \<Rightarrow> string" where
  "group_digits s = rev (group_rev (rev s))"

definition locale_int :: "int \<Rightarrow> string" where
  "locale_int i = (if i < 0 then ''-'' else []) @ group_digits (show_nat (nat \<bar>i\<bar>))"

lemma group_rev_digits: "CHR '','' \<notin> set s \<Longrightarrow> filter (\<lambda>c. c \<noteq> CHR '','') (group_rev s) = s"
  by (induction s rule: group_rev.induct) auto

lemma group_digits_id: "CHR '','' \<notin> set s \<Longrightarrow> filter (\<lambda>c. c \<noteq> CHR '','') (group_digits s) = s"
  using group_rev_digits [of "rev s"] by (simp add: group_digits_def flip: rev_filter)

lemma group_show: "filter (\<lambda>c. c \<noteq> CHR '','') (group_digits (show_nat n)) = show_nat n"
  by (rule group_digits_id) (auto dest: show_nat_digits simp: is_digit_def)

section \<open>Sorting with a comparator\<close>

text \<open>
  \<open>xs.sort(cmp)\<close> is stable; a comparator that answers NaN says equal. For the comparators that
  subtract keys the result is the stable sort by key.
\<close>

fun js_insert :: "('a \<Rightarrow> 'a \<Rightarrow> rat) \<Rightarrow> 'a \<Rightarrow> 'a list \<Rightarrow> 'a list" where
  "js_insert cmp x [] = [x]"
| "js_insert cmp x (y # ys) = (if cmp x y \<le> 0 then x # y # ys else y # js_insert cmp x ys)"

definition js_sort :: "('a \<Rightarrow> 'a \<Rightarrow> rat) \<Rightarrow> 'a list \<Rightarrow> 'a list" where
  "js_sort cmp xs = foldr (js_insert cmp) xs []"

lemma js_insert_key:
  "js_insert (\<lambda>a b. key a - key b) x ys = insort_key key x ys"
  by (induction ys) auto

lemma js_sort_key: "js_sort (\<lambda>a b. key a - key b) xs = sort_key key xs"
  by (induction xs) (simp_all add: js_sort_def js_insert_key sort_key_def)

lemma mset_js_insert: "mset (js_insert cmp x ys) = add_mset x (mset ys)"
  by (induction ys) auto

lemma mset_js_sort: "mset (js_sort cmp xs) = mset xs"
  by (induction xs) (simp_all add: js_sort_def mset_js_insert)

lemma set_js_sort [simp]: "set (js_sort cmp xs) = set xs"
  by (metis mset_js_sort set_mset_mset)

lemma length_js_sort [simp]: "length (js_sort cmp xs) = length xs"
  by (metis mset_js_sort size_mset)

end
