(* ===== verification/Format.thy ===== *)
theory Format
  imports JsNumber WireTypes
begin

text \<open>
  What the console prints (\<open>web/src/lib/format.ts\<close>): numbers, sizes, times, identifiers, metric
  maps. The default locale and the time zone are the browser's: \<open>parse\<close> is its
  \<open>Date.parse\<close> (none for NaN) and the \<open>Intl\<close> formatters are arguments. The random idempotency
  key is not modelled.
\<close>

definition DASH :: string where
  "DASH = em_dash"

text \<open>\<open>string | number | null | undefined\<close>.\<close>

datatype stamp = Absent | Text string | Time int

definition blank :: "stamp \<Rightarrow> bool" where
  "blank v = (v = Absent \<or> v = Text [])"

text \<open>\<open>new Date(value).getTime()\<close>: a number outside the range of dates is NaN.\<close>

fun time_of :: "(string \<Rightarrow> int option) \<Rightarrow> stamp \<Rightarrow> int option" where
  "time_of parse Absent = None"
| "time_of parse (Text s) = parse s"
| "time_of parse (Time t) = (if \<bar>t\<bar> \<le> 8640000000000000 then Some t else None)"

fun stamp_String :: "stamp \<Rightarrow> string" where
  "stamp_String Absent = ''undefined''"
| "stamp_String (Text s) = s"
| "stamp_String (Time t) = show_int t"

section \<open>Dates\<close>

definition fmt_with :: "(int \<Rightarrow> string) \<Rightarrow> (string \<Rightarrow> int option) \<Rightarrow> stamp \<Rightarrow> string" where
  "fmt_with print parse v =
     (if blank v then DASH
      else case time_of parse v of None \<Rightarrow> stamp_String v | Some t \<Rightarrow> print t)"

text \<open>\<open>parts\<close> is \<open>dateTime.formatToParts\<close>.\<close>

definition part :: "(string \<times> string) list \<Rightarrow> string \<Rightarrow> string" where
  "part parts t = or_else (map_of parts t) []"

definition fmtDateTime ::
    "(int \<Rightarrow> (string \<times> string) list) \<Rightarrow> (string \<Rightarrow> int option) \<Rightarrow> stamp \<Rightarrow> string" where
  "fmtDateTime parts parse v =
     fmt_with (\<lambda>t. let p = part (parts t) in
         p ''month'' @ '' '' @ p ''day'' @ '', '' @ p ''year'' @ '' at '' @ p ''hour'' @ '':''
         @ p ''minute'' @ '' '' @ p ''dayPeriod'') parse v"

definition fmtDateTimeFull :: "(int \<Rightarrow> string) \<Rightarrow> (string \<Rightarrow> int option) \<Rightarrow> stamp \<Rightarrow> string" where
  "fmtDateTimeFull full parse v = fmt_with full parse v"

definition fmtDate :: "(int \<Rightarrow> string) \<Rightarrow> (string \<Rightarrow> int option) \<Rightarrow> stamp \<Rightarrow> string" where
  "fmtDate dateOnly parse v = fmt_with dateOnly parse v"

definition round_div :: "int \<Rightarrow> int \<Rightarrow> int" where
  "round_div a b = js_round (of_int a / of_int b)"

definition fmtRelative ::
    "(int \<Rightarrow> string) \<Rightarrow> (string \<Rightarrow> int option) \<Rightarrow> stamp \<Rightarrow> int \<Rightarrow> string" where
  "fmtRelative dateOnly parse v now0 =
     (if blank v then DASH
      else case time_of parse v of
             None \<Rightarrow> stamp_String v
           | Some t \<Rightarrow>
               (let s = round_div (now0 - t) 1000 in
                if s < 45 then ''just now''
                else let m = round_div s 60 in
                if m < 60 then show_int m @ '' min ago''
                else let h = round_div m 60 in
                if h < 24 then show_int h @ '' h ago''
                else let days = round_div h 24 in
                if days < 30 then show_int days @ '' day'' @ (if days = 1 then [] else ''s'') @ '' ago''
                else fmtDate dateOnly parse (Time t)))"

definition relativeSeconds :: "int \<Rightarrow> int \<Rightarrow> string" where
  "relativeSeconds from0 to0 =
     (let s = max 0 (round_div (to0 - from0) 1000) in
      if s < 60 then show_int s @ ''s ago''
      else let m = round_div s 60 in
      if m < 60 then show_int m @ '' min ago''
      else show_int (round_div m 60) @ '' h ago'')"

section \<open>Numbers\<close>

text \<open>\<open>number | string | null | undefined\<close>.\<close>

datatype num_arg = NoNum | AsNum number | AsText string

text \<open>\<open>nf\<close> is \<open>Intl.NumberFormat().format\<close>, \<open>str\<close> the text of a number that is not finite.\<close>

definition fmtNumber :: "(rat \<Rightarrow> string) \<Rightarrow> (number \<Rightarrow> string) \<Rightarrow> num_arg \<Rightarrow> string" where
  "fmtNumber nf str v =
     (case v of
        NoNum \<Rightarrow> DASH
      | AsText s \<Rightarrow> if s = [] then DASH else (case js_Number s of Fin x \<Rightarrow> nf x | _ \<Rightarrow> s)
      | AsNum n \<Rightarrow> (case n of Fin x \<Rightarrow> nf x | _ \<Rightarrow> str n))"

definition byte_units :: "string list" where
  "byte_units = [''B'', ''KB'', ''MB'', ''GB'', ''TB'']"

function bytes_loop :: "rat \<Rightarrow> nat \<Rightarrow> rat \<times> nat" where
  "bytes_loop v i = (if v \<ge> 1024 \<and> i < length byte_units - 1 then bytes_loop (v / 1024) (i + 1) else (v, i))"
  by auto
termination by (relation "measure (\<lambda>(v, i). length byte_units - i)") auto

declare bytes_loop.simps [simp del]

definition fmtBytes :: "number \<Rightarrow> string" where
  "fmtBytes n =
     (case n of
        Fin x \<Rightarrow>
          (case bytes_loop x 0 of
             (v, i) \<Rightarrow> (if v \<ge> 10 \<or> i = 0 then show_int (js_round v) else to_fixed 1 v)
                       @ '' '' @ byte_units ! i)
      | _ \<Rightarrow> DASH)"

definition fmtQuantity :: "(rat \<Rightarrow> string) \<Rightarrow> (number \<Rightarrow> string) \<Rightarrow> number \<Rightarrow> UsageUnit \<Rightarrow> string" where
  "fmtQuantity nf str v unit0 =
     (if unit0 = unit_bytes then fmtBytes v
      else if unit0 = unit_seconds then fmtNumber nf str (AsNum v) @ '' s''
      else if unit0 = unit_minutes then fmtNumber nf str (AsNum v) @ '' min''
      else fmtNumber nf str (AsNum v))"

definition fmtPercent :: "rat \<Rightarrow> nat \<Rightarrow> string" where
  "fmtPercent fraction digits = to_fixed digits (fraction * 100) @ ''%''"

definition fmtPrice :: "NumOrStr \<Rightarrow> string" where
  "fmtPrice v =
     (case v of
        Num x \<Rightarrow> to_fixed 2 x
      | Str s \<Rightarrow> (case js_Number s of Fin x \<Rightarrow> to_fixed 2 x | _ \<Rightarrow> s))"

section \<open>Identifiers\<close>

text \<open>\<open>replace(/[_-]+/g, " ")\<close>: each run of underscores and hyphens becomes one space.\<close>

definition is_joint :: "char \<Rightarrow> bool" where
  "is_joint c = (c = CHR ''_'' \<or> c = CHR ''-'')"

fun space_joints :: "string \<Rightarrow> string" where
  "space_joints [] = []"
| "space_joints [c] = [if is_joint c then CHR '' '' else c]"
| "space_joints (c # d # r) =
     (if is_joint c then (if is_joint d then space_joints (d # r) else CHR '' '' # space_joints (d # r))
      else c # space_joints (d # r))"

definition humanize :: "string \<Rightarrow> string" where
  "humanize key = capitalize (js_trim (space_joints key))"

definition shortId :: "string \<Rightarrow> nat \<Rightarrow> string" where
  "shortId i len = (if length i > len then take len i @ ellipsis else i)"

section \<open>Metric maps\<close>

text \<open>A leaf: an array is joined to a text, any other value is kept.\<close>

datatype metric_leaf = Joined "json list" | Leaf json

fun walk_metric :: "string \<Rightarrow> json \<Rightarrow> (string \<times> metric_leaf) list" where
  "walk_metric prefix0 (JObj kvs) =
     concat (map (\<lambda>(k, v). walk_metric (if prefix0 = [] then k else prefix0 @ ''.'' @ k) v) kvs)"
| "walk_metric prefix0 (JArr xs) = [(prefix0, Joined xs)]"
| "walk_metric prefix0 v = [(prefix0, Leaf v)]"

text \<open>\<open>/(^|\.)(hit|ndcg)@\d+$/i\<close>: no dot can follow, so it is a test of the last part.\<close>

definition ranking_part :: "string \<Rightarrow> bool" where
  "ranking_part w =
     (let name = takeWhile (\<lambda>c. c \<noteq> CHR ''@'') w; r = dropWhile (\<lambda>c. c \<noteq> CHR ''@'') w
      in to_lower name \<in> {''hit'', ''ndcg''} \<and> r \<noteq> [] \<and> tl r \<noteq> [] \<and> all_digits (tl r))"

definition metric_rank :: "string \<Rightarrow> nat" where
  "metric_rank key = (if ranking_part (last (js_split CHR ''.'' key)) then 0 else 1)"

definition flattenMetrics :: "json option \<Rightarrow> (string \<times> metric_leaf) list" where
  "flattenMetrics metrics =
     js_sort (\<lambda>a b. of_nat (metric_rank (fst a)) - of_nat (metric_rank (fst b)))
       (walk_metric [] (case metrics of None \<Rightarrow> JObj [] | Some JNull \<Rightarrow> JObj [] | Some v \<Rightarrow> v))"

section \<open>Properties\<close>

lemma bytes_loop_scale:
  "bytes_loop v i = (m, j) \<Longrightarrow> i \<le> 4 \<Longrightarrow> i \<le> j \<and> j \<le> 4 \<and> m * 1024 ^ (j - i) = v"
proof (induction v i arbitrary: m j rule: bytes_loop.induct)
  case (1 v i)
  show ?case
  proof (cases "v \<ge> 1024 \<and> i < length byte_units - 1")
    case True
    then have "bytes_loop (v / 1024) (i + 1) = (m, j)" "i + 1 \<le> 4"
      using "1.prems" by (simp_all add: bytes_loop.simps [of v i] byte_units_def)
    then have ih: "i + 1 \<le> j \<and> j \<le> 4 \<and> m * 1024 ^ (j - (i + 1)) = v / 1024"
      using "1.IH" True by blast
    then have "j - i = Suc (j - (i + 1))" by auto
    with ih show ?thesis by simp
  next
    case False
    then show ?thesis using "1.prems" by (auto simp: bytes_loop.simps [of v i])
  qed
qed

lemma bytes_loop_end: "bytes_loop v i = (m, j) \<Longrightarrow> j < 4 \<Longrightarrow> m < 1024"
proof (induction v i arbitrary: m j rule: bytes_loop.induct)
  case (1 v i)
  then show ?case
    by (cases "v \<ge> 1024 \<and> i < length byte_units - 1")
      (auto simp: bytes_loop.simps [of v i] byte_units_def)
qed

lemma bytes_loop_big: "bytes_loop v i = (m, j) \<Longrightarrow> i < j \<Longrightarrow> 1 \<le> m"
proof (induction v i arbitrary: m j rule: bytes_loop.induct)
  case (1 v i)
  show ?case
  proof (cases "v \<ge> 1024 \<and> i < length byte_units - 1")
    case True
    then have b: "bytes_loop (v / 1024) (i + 1) = (m, j)"
      using "1.prems" by (simp add: bytes_loop.simps [of v i])
    show ?thesis
    proof (cases "i + 1 < j")
      case False
      moreover have "i + 1 \<le> j \<and> m * 1024 ^ (j - (i + 1)) = v / 1024"
        using bytes_loop_scale [OF b] True by (simp add: byte_units_def)
      ultimately have "m = v / 1024" by simp
      with True show ?thesis by simp
    qed (use "1.IH" True b in blast)
  qed (use "1.prems" in \<open>auto simp: bytes_loop.simps [of v i]\<close>)
qed

text \<open>The size that is printed is the size. The unit loop ends with one of the five units and a
  number that, scaled back by 1024 for every unit, is exactly the bytes given; below a terabyte the
  number is less than 1024, and a unit above bytes is taken only for a number of at least one. (The
  number is rounded after the unit is chosen: one byte less than a megabyte prints as 1024 KB.)\<close>

lemma fmtBytes_scale:
  "(\<exists>v i. bytes_loop x 0 = (v, i) \<and> v * 1024 ^ i = x \<and> i < length byte_units \<and>
      (byte_units ! i = ''TB'' \<or> v < 1024) \<and> (i = 0 \<or> 1 \<le> v) \<and>
      fmtBytes (Fin x) = (if v \<ge> 10 \<or> i = 0 then show_int (js_round v) else to_fixed 1 v)
                         @ '' '' @ byte_units ! i) \<and>
   fmtBytes (Fin 1048575) = ''1024 KB''"
proof -
  obtain v i where b: "bytes_loop x 0 = (v, i)" by fastforce
  have "byte_units ! 4 = ''TB''" by (simp add: byte_units_def)
  with bytes_loop_scale [OF b] bytes_loop_end [OF b] bytes_loop_big [OF b] b
  have "v * 1024 ^ i = x \<and> i < length byte_units \<and> (byte_units ! i = ''TB'' \<or> v < 1024) \<and> (i = 0 \<or> 1 \<le> v)"
    by (cases "i = 4") (auto simp: byte_units_def)
  moreover have "bytes_loop 1048575 0 = (1048575 / 1024, 1)"
    by (simp add: bytes_loop.simps byte_units_def)
  moreover have "show_int 1024 = ''1024''" by code_simp
  moreover have "byte_units ! 1 = ''KB''" by (simp add: byte_units_def)
  moreover have "js_round (1048575 / 1024) = 1024" by (simp add: js_round_def floor_unique)
  ultimately show ?thesis using b by (auto simp: fmtBytes_def)
qed

lemma round_div_ge: "0 < b \<Longrightarrow> (2 * k - 1) * b \<le> 2 * a \<Longrightarrow> k \<le> round_div a b"
proof -
  assume b: "0 < b" and h: "(2 * k - 1) * b \<le> 2 * a"
  have "of_int ((2 * k - 1) * b) \<le> (of_int (2 * a) :: rat)" using h by (simp only: of_int_le_iff)
  then have "of_int k \<le> (of_int a / of_int b :: rat) + 1 / 2"
    using b by (simp add: field_simps)
  then show ?thesis by (simp add: round_div_def js_round_def le_floor_iff)
qed

text \<open>A relative time is never of a wrong magnitude. A past moment that is neither just now nor
  a month old is printed with 1 to 59 minutes, 1 to 23 hours or 1 to 29 days, the word for one day
  being singular; a moment in the future is just now.\<close>

lemma fmtRelative_ranges:
  assumes "time_of parse v = Some t" "\<not> blank v"
  shows "(now0 \<le> t \<longrightarrow> fmtRelative dateOnly parse v now0 = ''just now'') \<and>
    (fmtRelative dateOnly parse v now0 \<in>
       {''just now'', fmtDate dateOnly parse (Time t)} \<union>
       {show_int m @ '' min ago'' | m. 1 \<le> m \<and> m < 60} \<union>
       {show_int h @ '' h ago'' | h. 1 \<le> h \<and> h < 24} \<union>
       {''1 day ago''} \<union> {show_int d @ '' days ago'' | d. 2 \<le> d \<and> d < 30})"
proof -
  define s where "s = round_div (now0 - t) 1000"
  define m where "m = round_div s 60"
  define h where "h = round_div m 60"
  define d where "d = round_div h 24"
  have "1 \<le> m" if "45 \<le> s" using that round_div_ge [of 60 1 s] by (simp add: m_def)
  moreover have "1 \<le> h" if "60 \<le> m" using that round_div_ge [of 60 1 m] by (simp add: h_def)
  moreover have "1 \<le> d" if "24 \<le> h" using that round_div_ge [of 24 1 h] by (simp add: d_def)
  moreover have "s \<le> 0" if "now0 \<le> t"
  proof -
    have "js_round (of_int (now0 - t) / of_int 1000) \<le> js_round (of_int 0)"
      using that by (intro js_round_mono) (simp add: divide_nonpos_pos)
    also have "\<dots> = 0" by (rule js_round_of_int)
    finally show ?thesis by (simp add: s_def round_div_def)
  qed
  moreover have "show_int 1 = ''1''" by code_simp
  ultimately show ?thesis
    using assms by (auto simp: fmtRelative_def Let_def s_def [symmetric] m_def [symmetric]
        h_def [symmetric] d_def [symmetric])
qed

theorem fmtRelative_ranges_witness:
  "fmtRelative (\<lambda>_. ''Jan 1'') (\<lambda>_. None) (Time 5000) 0 = ''just now''"
  using fmtRelative_ranges [of "\<lambda>_. None" "Time 5000" 5000 0 "\<lambda>_. ''Jan 1''"]
  by (simp add: blank_def)

text \<open>No metric is lost or repeated. The flattened list is a rearrangement of the leaves of the
  map, the ranking measures (Hit@k, NDCG@k, in any case and under any prefix) come first, and
  within either group the order is that of the map.\<close>

lemma flattenMetrics_stable:
  "(let leaves = walk_metric [] m; ranking = (\<lambda>e. metric_rank (fst e) = 0) in
    mset (flattenMetrics (Some m)) = mset (if m = JNull then [] else leaves) \<and>
    flattenMetrics (Some m) =
      (if m = JNull then [] else filter ranking leaves @ filter (\<lambda>e. \<not> ranking e) leaves))"
proof -
  let ?r = "\<lambda>e :: string \<times> metric_leaf. of_nat (metric_rank (fst e)) :: rat"
  have pos: "0 < metric_rank k \<longleftrightarrow> metric_rank k = Suc 0" for k
    by (simp add: metric_rank_def)
  have two: "metric_rank k = 0 \<or> metric_rank k = 1" for k by (simp add: metric_rank_def)
  have "sort_key ?r xs = filter (\<lambda>e. metric_rank (fst e) = 0) xs @ filter (\<lambda>e. metric_rank (fst e) \<noteq> 0) xs"
    for xs
  proof (induction xs)
    case (Cons x xs)
    have a: "insort_key ?r x (ys @ zs) = x # ys @ zs" if "metric_rank (fst x) = 0" for ys zs
      using that two by (cases "ys @ zs") auto
    have b: "insort_key ?r x (ys @ zs) = ys @ x # zs"
      if "metric_rank (fst x) = 1" "\<forall>e \<in> set ys. metric_rank (fst e) = 0" "\<forall>e \<in> set zs. metric_rank (fst e) = 1"
      for ys zs
      using that by (induction ys) (cases zs; simp)+
    show ?case
      using Cons.IH pos by (cases "metric_rank (fst x) = 0") (auto simp: a intro!: b)
  qed simp
  then show ?thesis
    by (cases m) (simp_all add: flattenMetrics_def js_sort_key Let_def mset_js_sort)
qed

section \<open>Idempotency keys\<close>

definition DIGITS36 :: string where
  "DIGITS36 = ''0123456789abcdefghijklmnopqrstuvwxyz''"

fun base36 :: "nat \<Rightarrow> string" where
  "base36 n = (if n < 36 then [DIGITS36 ! n] else base36 (n div 36) @ [DIGITS36 ! (n mod 36)])"

declare base36.simps [simp del]

text \<open>With the identifier of the browser, if it makes any, the time, and \<open>Math.random().toString(36)\<close>.\<close>

definition newIdempotencyKey :: "string option \<Rightarrow> nat \<Rightarrow> string \<Rightarrow> string" where
  "newIdempotencyKey randomUUID now0 random36 =
     (case randomUUID of Some uuid \<Rightarrow> uuid | None \<Rightarrow> base36 now0 @ ''-'' @ drop 2 random36)"

lemma digits36: "length DIGITS36 = 36" "distinct DIGITS36" "CHR ''-'' \<notin> set DIGITS36"
  by (simp_all add: DIGITS36_def)

lemma base36_set: "set (base36 n) \<subseteq> set DIGITS36"
proof (induction n rule: base36.induct)
  case (1 n)
  then show ?case using digits36(1) by (subst base36.simps) (auto intro: nth_mem)
qed

lemma base36_not_Nil [simp]: "base36 n \<noteq> []" "[] \<noteq> base36 n"
  by (subst base36.simps, simp)+

lemma digit36_inj: "i < 36 \<Longrightarrow> j < 36 \<Longrightarrow> DIGITS36 ! i = DIGITS36 ! j \<Longrightarrow> i = j"
  using digits36 by (simp add: nth_eq_iff_index_eq)

lemma base36_inj: "base36 m = base36 n \<Longrightarrow> m = n"
proof (induction m arbitrary: n rule: base36.induct)
  case (1 m)
  show ?case
  proof (cases "m < 36 \<or> n < 36")
    case True
    with "1.prems" show ?thesis
      by (subst (asm) base36.simps, subst (asm) (2) base36.simps) (auto split: if_splits intro: digit36_inj)
  next
    case False
    have "base36 m = base36 (m div 36) @ [DIGITS36 ! (m mod 36)]" "base36 n = base36 (n div 36) @ [DIGITS36 ! (n mod 36)]"
      using False by (subst base36.simps, simp)+
    with "1.prems" have "base36 (m div 36) = base36 (n div 36)" "DIGITS36 ! (m mod 36) = DIGITS36 ! (n mod 36)" by simp_all
    then have "m div 36 = n div 36" "m mod 36 = n mod 36" using "1.IH" False digit36_inj by simp_all
    then show ?thesis by (metis div_mult_mod_eq)
  qed
qed

text \<open>The fallback never gives one key at two different times.\<close>

lemma fallback_keys_differ:
  assumes "newIdempotencyKey None t r = newIdempotencyKey None t' r'"
  shows "t = t'"
proof (rule base36_inj)
  have "takeWhile (\<lambda>c. c \<noteq> CHR ''-'') (newIdempotencyKey None n r) = base36 n" for n r
    using base36_set [of n] digits36(3) by (auto simp: newIdempotencyKey_def takeWhile_append)
  then show "base36 t = base36 t'" using assms by metis
qed

end
