(* ===== verification/Quota.thy ===== *)
theory Quota
  imports JsNumber
begin

text \<open>
  Status colours (\<open>web/src/lib/status.ts\<close>) and quota states (\<open>web/src/lib/quota.ts\<close>). The quota
  states are ordered by severity, an instance of \<open>linorder\<close>, so that monotonicity can be
  stated with the library's order. \<open>locale\<close> is the browser's \<open>toLocaleString()\<close>.
\<close>

section \<open>Tones\<close>

datatype Tone = ok | warn | danger | info | neu

definition GROUPS :: "(string \<times> (string \<times> Tone) list) list" where
  "GROUPS =
     [(''job'', [(''queued'', info), (''running'', info), (''cancelled'', neu), (''succeeded'', ok),
        (''failed'', danger)]),
      (''model'', [(''eligible'', neu), (''active'', ok), (''retired'', neu), (''archived'', neu)]),
      (''deploy'', [(''stopped'', neu), (''available'', ok)]),
      (''tenant'', [(''deleted'', neu), (''pending'', info), (''suspended'', warn),
        (''deleting'', warn), (''active'', ok)]),
      (''key'', [(''active'', ok), (''expired'', warn), (''revoked'', danger)]),
      (''batch'', [(''completed'', ok)]),
      (''outcome'', [(''success'', ok), (''succeeded'', ok), (''denied'', warn),
        (''failure'', danger), (''failed'', danger)]),
      (''sev'', [(''info'', info), (''low'', info), (''warning'', warn), (''medium'', warn),
        (''error'', danger), (''high'', danger), (''critical'', danger)]),
      (''platform'', [(''healthy'', ok), (''ok'', ok), (''disabled'', neu), (''degraded'', warn),
        (''online'', ok), (''connected'', ok), (''unavailable'', danger), (''not_deployed'', neu)])]"

text \<open>The names that every JavaScript object inherits (\<open>constructor\<close> and the like) are not among the
  values the API emits and are left out.\<close>

definition toneFor :: "string \<Rightarrow> string \<Rightarrow> Tone" where
  "toneFor grp v =
     (case map_of GROUPS grp of
        None \<Rightarrow> neu
      | Some g \<Rightarrow> (case map_of g v of None \<Rightarrow> neu | Some t \<Rightarrow> t))"

definition JOB_STATES :: "string list" where
  "JOB_STATES = [''queued'', ''running'', ''succeeded'', ''failed'', ''cancelled'']"

section \<open>Quota states\<close>

datatype QuotaStatus = informational | healthy | approaching | exhausted

fun severity :: "QuotaStatus \<Rightarrow> nat" where
  "severity informational = 0"
| "severity healthy = 1"
| "severity approaching = 2"
| "severity exhausted = 3"

lemma severity_inj: "severity a = severity b \<Longrightarrow> a = b"
  by (cases a; cases b) simp_all

instantiation QuotaStatus :: linorder
begin

definition less_eq_QuotaStatus :: "QuotaStatus \<Rightarrow> QuotaStatus \<Rightarrow> bool" where
  "less_eq_QuotaStatus a b = (severity a \<le> severity b)"

definition less_QuotaStatus :: "QuotaStatus \<Rightarrow> QuotaStatus \<Rightarrow> bool" where
  "less_QuotaStatus a b = (severity a < severity b)"

instance
  by standard (auto simp: less_eq_QuotaStatus_def less_QuotaStatus_def intro: severity_inj)

end

record QuotaState =
  q_status :: QuotaStatus
  q_label :: string
  q_tone :: Tone
  q_remaining :: "int option"
  q_ratio :: "rat option"

definition quotaState :: "int \<Rightarrow> int option \<Rightarrow> QuotaState" where
  "quotaState used limit0 =
     (case limit0 of
        None \<Rightarrow> \<lparr>q_status = informational, q_label = ''Informational'', q_tone = info,
                 q_remaining = None, q_ratio = None\<rparr>
      | Some limit \<Rightarrow>
          (let remaining = max 0 (limit - used);
               ratio = (if limit > 0 then of_int used / of_int limit else 1)
           in if used \<ge> limit
              then \<lparr>q_status = exhausted, q_label = ''Exhausted'', q_tone = danger,
                    q_remaining = Some remaining, q_ratio = Some ratio\<rparr>
              else if ratio \<ge> 4 / 5
              then \<lparr>q_status = approaching, q_label = ''Approaching limit'', q_tone = warn,
                    q_remaining = Some remaining, q_ratio = Some ratio\<rparr>
              else \<lparr>q_status = healthy, q_label = ''Within limit'', q_tone = ok,
                    q_remaining = Some remaining, q_ratio = Some ratio\<rparr>))"

definition NOUN :: "(string \<times> string \<times> string) list" where
  "NOUN =
     [(''stored_products'', ''Product storage'',
        ''Your catalog has reached its product limit, so new products cannot be added.''),
      (''accepted_events'', ''Interaction event'',
        ''New interaction events will be rejected until the period resets.''),
      (''recommendation_requests'', ''Recommendation request'',
        ''Recommendation requests may be rejected until the period resets.''),
      (''training_jobs'', ''Training job'',
        ''New training jobs cannot start until the period resets.''),
      (''training_cpu_seconds'', ''Training compute'',
        ''Training compute for this period is used up.''),
      (''artifact_storage_bytes'', ''Model storage'',
        ''Archive old model versions to free space.''),
      (''active_model_versions'', ''Model version'',
        ''Archive unused versions before training new ones.''),
      (''inference_replicas'', ''Serving replica'',
        ''Serving capacity cannot be increased further on this plan.''),
      (''replica_runtime_minutes'', ''Serving runtime'',
        ''Serving runtime for this period is used up.'')]"

definition replace_char :: "char \<Rightarrow> char \<Rightarrow> string \<Rightarrow> string" where
  "replace_char a b s = map (\<lambda>c. if c = a then b else c) s"

definition quota_noun :: "string \<Rightarrow> string \<times> string" where
  "quota_noun type0 = or_else (map_of NOUN type0) (replace_char CHR ''_'' CHR '' '' type0, [])"

text \<open>The title and the body; a missing percentage prints \<open>null\<close>.\<close>

definition quotaMessage ::
    "(int \<Rightarrow> string) \<Rightarrow> string \<Rightarrow> int \<Rightarrow> int option \<Rightarrow> string \<times> string" where
  "quotaMessage loc type0 used limit0 =
     (let q = quotaState used limit0; (noun, consequence) = quota_noun type0;
          pct = map_option (\<lambda>r. js_round (r * 100)) (q_ratio q)
      in if (case limit0 of None \<Rightarrow> False | Some limit \<Rightarrow> used > limit)
         then (noun @ '' limit exceeded'',
               js_trim (consequence @ '' '' @ loc used @ '' used against a limit of ''
                 @ loc (the limit0) @ '' ('' @ loc (used - the limit0) @ '' over).''))
         else if q_status q = exhausted
         then (noun @ '' limit reached'',
               js_trim (consequence @ '' '' @ loc used @ '' of '' @ loc (or_else limit0 0) @ '' used.''))
         else (noun @ '' limit almost reached'',
               (case pct of None \<Rightarrow> ''null'' | Some p \<Rightarrow> show_int p) @ ''% used ('' @ loc used
                 @ '' of '' @ loc (or_else limit0 0) @ '').''))"

section \<open>Properties\<close>

lemma quotaState_simps:
  "quotaState used None = \<lparr>q_status = informational, q_label = ''Informational'', q_tone = info,
     q_remaining = None, q_ratio = None\<rparr>"
  "q_remaining (quotaState used (Some limit)) = Some (max 0 (limit - used))"
  "q_ratio (quotaState used (Some limit)) =
     Some (if limit > 0 then of_int used / of_int limit else 1)"
  by (simp_all add: quotaState_def Let_def)

lemma quota_exhausted_iff: "q_status (quotaState used (Some limit)) = exhausted \<longleftrightarrow> limit \<le> used"
  by (simp add: quotaState_def Let_def)

lemma quota_approaching_iff:
  "q_status (quotaState used (Some limit)) = approaching \<longleftrightarrow>
     used < limit \<and> (4 * limit \<le> 5 * used \<or> limit \<le> 0)"
proof -
  have "(4 / 5 \<le> (of_int used / of_int limit :: rat)) = (4 * limit \<le> 5 * used)" if "limit > 0"
  proof -
    have "(4 / 5 \<le> (of_int used / of_int limit :: rat)) =
        ((of_int (4 * limit) :: rat) \<le> of_int (5 * used))"
      using that by (simp add: field_simps)
    then show ?thesis by (simp only: of_int_le_iff)
  qed
  then show ?thesis by (auto simp: quotaState_def Let_def)
qed

lemma quota_limited_cases:
  "q_status (quotaState used (Some limit)) \<in> {healthy, approaching, exhausted}"
  by (simp add: quotaState_def Let_def)

text \<open>What a quota state means. With a limit it is exhausted exactly when the use has reached
  the limit, approaching from four fifths of it on (integer arithmetic, no rounding), the remaining
  amount is the part of the limit that is not used and never negative, and more use never
  gives a milder state; without a limit the state is informational and no number is shown.\<close>

lemma quotaState_spec:
  "q_status (quotaState used (Some limit)) =
     (if limit \<le> used then exhausted
      else if 4 * limit \<le> 5 * used \<or> limit \<le> 0 then approaching else healthy) \<and>
   (\<exists>r \<ge> 0. q_remaining (quotaState used (Some limit)) = Some r \<and>
      (r = 0 \<longleftrightarrow> q_status (quotaState used (Some limit)) = exhausted) \<and>
      (r > 0 \<longrightarrow> used + r = limit)) \<and>
   q_status (quotaState used limit0) \<le> q_status (quotaState (used + int extra) limit0) \<and>
   q_status (quotaState used None) = informational \<and> q_ratio (quotaState used None) = None"
proof -
  have st: "q_status (quotaState u (Some l)) =
     (if l \<le> u then exhausted else if 4 * l \<le> 5 * u \<or> l \<le> 0 then approaching else healthy)" for u l
    using quota_exhausted_iff [of u l] quota_approaching_iff [of u l] quota_limited_cases [of u l]
    by auto
  have "q_status (quotaState used limit0) \<le> q_status (quotaState (used + int extra) limit0)"
    by (cases limit0) (simp_all add: quotaState_simps(1) st less_eq_QuotaStatus_def)
  then show ?thesis
    by (auto simp: st quotaState_simps less_eq_QuotaStatus_def)
qed

theorem quotaState_spec_witness:
  "map (\<lambda>u. q_status (quotaState u (Some 1000))) [799, 800, 999, 1000] =
     [healthy, approaching, approaching, exhausted]"
  using quotaState_spec [of 799 1000 None 0] quotaState_spec [of 800 1000 None 0]
    quotaState_spec [of 999 1000 None 0] quotaState_spec [of 1000 1000 None 0] by simp

end
