(* ===== verification/Labels.thy ===== *)
theory Labels
  imports Format WireOps Quota
begin

text \<open>
  The wording of the console (\<open>web/src/lib/labels.ts\<close>): labels of models, jobs, metrics, keys and
  statuses. \<open>parse\<close> is the browser's \<open>Date.parse\<close>, none for NaN. The collator of
  \<open>naturalCompare\<close> is the browser's and is not modelled.
\<close>

section \<open>Models and jobs\<close>

definition modelTypeLabel :: "string option \<Rightarrow> string" where
  "modelTypeLabel type0 =
     (if \<not> truthy type0 then ''Model''
      else let t = the type0 in
        if list_all is_lower t \<and> 2 \<le> length t \<and> length t \<le> 5 then to_upper t else humanize t)"

text \<open>The comparator subtracts two dates; with a NaN it answers NaN, which says equal.\<close>

definition by_created :: "(string \<Rightarrow> int option) \<Rightarrow> ('a \<Rightarrow> string) \<Rightarrow> 'a \<Rightarrow> 'a \<Rightarrow> rat" where
  "by_created parse created a b =
     (case (parse (created a), parse (created b)) of
        (Some x, Some y) \<Rightarrow> of_int (x - y) | _ \<Rightarrow> 0)"

definition ordinal ::
    "(string \<Rightarrow> int option) \<Rightarrow> ('a \<Rightarrow> string) \<Rightarrow> ('a \<Rightarrow> string) \<Rightarrow> string \<Rightarrow> 'a list \<Rightarrow> int" where
  "ordinal parse created ident i all0 =
     find_index (\<lambda>v. ident v = i) (js_sort (by_created parse created) all0) + 1"

definition modelLabel ::
    "(string \<Rightarrow> int option) \<Rightarrow> ModelVersionResource \<Rightarrow> ModelVersionResource list \<Rightarrow> string" where
  "modelLabel parse model all0 =
     (let n = ordinal parse mv_created_at mv_id (mv_id model) all0
      in modelTypeLabel (Some (mv_model_type model)) @ '' model''
         @ (if n \<noteq> 0 then '' '' @ mid_dot @ '' v'' @ show_int n else []))"

definition jobLabel ::
    "(string \<Rightarrow> int option) \<Rightarrow> TrainingJobResource \<Rightarrow> TrainingJobResource list \<Rightarrow> string" where
  "jobLabel parse job all0 =
     (let n = ordinal parse tj_created_at tj_id (tj_id job) all0
      in if n \<noteq> 0 then ''Training run #'' @ show_int n else ''Training run'')"

section \<open>Metrics and keys\<close>

definition metricLabel :: "string \<Rightarrow> string" where
  "metricLabel key =
     (let parts = js_split CHR ''.'' key; scope = js_join '' '' (butlast parts)
      in if scope \<noteq> [] then last parts @ '' ('' @ replace_char CHR ''_'' CHR '' '' scope @ '')''
         else last parts)"

text \<open>\<open>/^[\d.,]+%?$/\<close>.\<close>

definition is_number_text :: "string \<Rightarrow> bool" where
  "is_number_text v =
     (let w = (if v \<noteq> [] \<and> last v = CHR ''%'' then butlast v else v)
      in w \<noteq> [] \<and> list_all (\<lambda>c. is_digit c \<or> c = CHR ''.'' \<or> c = CHR '','') w)"

definition isCodeLike :: "json \<Rightarrow> bool" where
  "isCodeLike v0 =
     (case v0 of
        JStr s \<Rightarrow>
          (let v = js_trim s in v \<noteq> [] \<and> \<not> list_ex js_space v \<and> \<not> is_number_text v)
      | _ \<Rightarrow> False)"

definition KEY_LABELS :: "(string \<times> string) list" where
  "KEY_LABELS =
     [(''items'', ''Items''), (''users'', ''Users''), (''layers'', ''Layers''),
      (''artifact'', ''Checkpoint''), (''interactions'', ''Interactions''),
      (''embedding_dim'', ''Embedding size''), (''indexed_items'', ''Indexed items''),
      (''engine_version'', ''Engine version''), (''checkpoint_epoch'', ''Checkpoint epoch''),
      (''data_fingerprint'', ''Data fingerprint''), (''selection_ndcg10'', ''Selection NDCG@10''),
      (''checkpoint_sha256'', ''Checkpoint hash''), (''event_user_coverage'', ''User coverage''),
      (''catalog_item_coverage'', ''Catalog coverage''),
      (''evaluated_examples'', ''Evaluated examples''), (''mode'', ''Mode''),
      (''pretrained_artifact'', ''Checkpoint''), (''epochs'', ''Epochs''),
      (''training_jobs'', ''Training jobs''), (''accepted_events'', ''Accepted events''),
      (''stored_products'', ''Stored products''),
      (''recommendation_requests'', ''Recommendation requests''),
      (''active_model_versions'', ''Active model versions''),
      (''artifact_storage_bytes'', ''Model storage''), (''training_cpu_seconds'', ''Training compute''),
      (''inference_replicas'', ''Serving replicas''), (''replica_runtime_minutes'', ''Serving runtime''),
      (''queued_messages'', ''Queued messages''), (''requests_per_minute'', ''Requests per minute''),
      (''concurrent_training_jobs'', ''Concurrent training jobs''),
      (''maximum_inference_replicas'', ''Maximum serving replicas''),
      (''maximum_training_duration_minutes'', ''Maximum training duration (min)''),
      (''concurrent_recommendation_requests'', ''Concurrent recommendation requests'')]"

definition hasKeyLabel :: "string \<Rightarrow> bool" where
  "hasKeyLabel key = (map_of KEY_LABELS key \<noteq> None)"

text \<open>\<open>/@\d+$/\<close>.\<close>

definition ends_at_number :: "string \<Rightarrow> bool" where
  "ends_at_number s =
     (let ds = takeWhile is_digit (rev s); r = dropWhile is_digit (rev s)
      in ds \<noteq> [] \<and> r \<noteq> [] \<and> hd r = CHR ''@'')"

definition humanizeKey :: "string \<Rightarrow> string" where
  "humanizeKey key =
     (let w = last (js_split CHR ''.'' key)
      in if truthy (map_of KEY_LABELS w) then the (map_of KEY_LABELS w)
         else if ends_at_number w then w
         else capitalize (js_trim (space_joints w)))"

definition INTEGER_KEYS :: "string list" where
  "INTEGER_KEYS =
     [''items'', ''users'', ''layers'', ''interactions'', ''embedding_dim'', ''indexed_items'',
      ''checkpoint_epoch'', ''evaluated_examples'']"

definition is_integer_key :: "string \<Rightarrow> bool" where
  "is_integer_key key = (last (js_split CHR ''.'' key) \<in> set INTEGER_KEYS)"

text \<open>\<open>str\<close> is \<open>String\<close> on the values that are not numbers; null and undefined print a dash.\<close>

definition formatMetricValue :: "(json \<Rightarrow> string) \<Rightarrow> string \<Rightarrow> json option \<Rightarrow> string" where
  "formatMetricValue str key v =
     (case v of
        Some (JNum x) \<Rightarrow>
          if is_integer_key key \<or> of_int \<lfloor>x\<rfloor> = x \<and> \<bar>x\<bar> \<ge> 2 then locale_int (js_round x)
          else if ends_with key ''coverage''
          then to_fixed (if x = 1 then 0 else 1) (x * 100) @ ''%''
          else to_fixed 4 x
      | None \<Rightarrow> em_dash
      | Some JNull \<Rightarrow> em_dash
      | Some j \<Rightarrow> str j)"

definition sampled_size :: "string \<Rightarrow> nat option" where
  "sampled_size mode =
     (if starts_with mode ''sampled_'' \<and> drop 8 mode \<noteq> [] \<and> all_digits (drop 8 mode)
      then Some (read_nat (drop 8 mode)) else None)"

definition evaluationModeLabel :: "json option \<Rightarrow> string" where
  "evaluationModeLabel mode =
     (case mode of
        Some (JStr m) \<Rightarrow>
          (case sampled_size m of
             Some n \<Rightarrow> ''Sampled: each test user'' @ [CHR 0x27] @ ''s true next item ranked against ''
                       @ show_int (int n - 1) @ '' random items''
           | None \<Rightarrow> if m = ''full'' then ''Full catalog ranking'' else humanizeKey m)
      | _ \<Rightarrow> ''Not recorded'')"

section \<open>Days\<close>

definition daysSince :: "(string \<Rightarrow> int option) \<Rightarrow> stamp \<Rightarrow> int \<Rightarrow> int option" where
  "daysSince parse v now0 =
     (case time_of parse v of None \<Rightarrow> None | Some t \<Rightarrow> Some (round_div (now0 - t) 86400000))"

definition daysAgoLabel :: "(string \<Rightarrow> int option) \<Rightarrow> stamp \<Rightarrow> int \<Rightarrow> string" where
  "daysAgoLabel parse v now0 =
     (case daysSince parse v now0 of
        None \<Rightarrow> em_dash
      | Some d \<Rightarrow> if d \<le> 0 then ''today'' else if d = 1 then ''yesterday''
                 else show_int d @ '' days ago'')"

section \<open>Statuses and usage\<close>

definition STATUS_HELP :: "(string \<times> (string \<times> string) list) list" where
  "STATUS_HELP =
     [(''model'',
        [(''eligible'', ''Available: trained and evaluated, never served. Activate it to serve.''),
         (''active'', ''Serving: this version answers every recommendation request.''),
         (''retired'', ''Available: served before. Roll back to serve it again.''),
         (''archived'', ''Kept for audit only. Can'' @ [CHR 0x27] @ ''t serve or be rolled back to.'')]),
      (''job'',
        [(''queued'', ''Waiting for a worker.''), (''running'', ''In progress.''),
         (''succeeded'', ''Finished and registered a model version.''),
         (''failed'', ''Stopped before producing a version.''),
         (''cancelled'', ''Cancelled before finishing.''),
         (''cancelling'', ''Cancellation requested.'')]),
      (''deploy'',
        [(''available'', ''A model is loaded and can answer requests.''),
         (''stopped'', ''No model is serving.'')]),
      (''key'',
        [(''active'', ''Can authenticate requests.''), (''expired'', ''Past its expiry date; refused.''),
         (''revoked'', ''Revoked; refused.'')])]"

definition USAGE_LABELS :: "(string \<times> string) list" where
  "USAGE_LABELS =
     [(''accepted_events'', ''Accepted events''),
      (''recommendation_requests'', ''Recommendation requests''),
      (''training_jobs'', ''Training jobs''), (''training_cpu_seconds'', ''Training CPU seconds''),
      (''stored_products'', ''Stored products''), (''artifact_storage_bytes'', ''Artifact storage''),
      (''active_model_versions'', ''Active model versions''),
      (''inference_replicas'', ''Inference replicas''), (''replica_runtime_minutes'', ''Replica runtime'')]"

text \<open>\<open>replace(/ bytes$/, "")\<close>.\<close>

definition drop_suffix :: "string \<Rightarrow> string \<Rightarrow> string" where
  "drop_suffix suf s = (if ends_with s suf then take (length s - length suf) s else s)"

definition usageLabel :: "string \<Rightarrow> string" where
  "usageLabel type0 = or_else (map_of USAGE_LABELS type0) (drop_suffix '' bytes'' (humanize type0))"

section \<open>Ordinals\<close>

lemma find_index_from_hit:
  "x \<in> set xs \<Longrightarrow> p x \<Longrightarrow> 0 \<le> i \<Longrightarrow>
   \<exists>n. n < length xs \<and> find_index_from i p xs = i + int n \<and> p (xs ! n)"
proof (induction xs arbitrary: i)
  case (Cons y ys)
  show ?case
  proof (cases "p y")
    case False
    with Cons.prems have "x \<in> set ys" by auto
    from Cons.IH [OF this Cons.prems(2), of "i + 1"] Cons.prems(3)
    obtain n where "n < length ys" "find_index_from (i + 1) p ys = i + 1 + int n" "p (ys ! n)" by auto
    with False show ?thesis by (intro exI [of _ "Suc n"]) simp
  qed (intro exI [of _ 0], simp)
qed simp

lemma find_index_from_miss: "\<forall>x \<in> set xs. \<not> p x \<Longrightarrow> find_index_from i p xs = - 1"
  by (induction xs arbitrary: i) auto

lemma ordinal_inj:
  assumes "v \<in> set all0" "w \<in> set all0"
    and "ordinal parse created ident (ident v) all0 = ordinal parse created ident (ident w) all0"
  shows "ident v = ident w"
proof -
  let ?xs = "js_sort (by_created parse created) all0"
  obtain m where m: "find_index (\<lambda>x. ident x = ident v) ?xs = int m" "ident (?xs ! m) = ident v"
    using find_index_from_hit [of v ?xs "\<lambda>x. ident x = ident v" 0] assms(1)
    by (auto simp: find_index_def)
  obtain n where n: "find_index (\<lambda>x. ident x = ident w) ?xs = int n" "ident (?xs ! n) = ident w"
    using find_index_from_hit [of w ?xs "\<lambda>x. ident x = ident w" 0] assms(2)
    by (auto simp: find_index_def)
  from m n assms(3) show ?thesis by (simp add: ordinal_def)
qed

lemma ordinal_pos:
  "v \<in> set all0 \<Longrightarrow> 1 \<le> ordinal parse created ident (ident v) all0"
  using find_index_from_hit [of v "js_sort (by_created parse created) all0" "\<lambda>x. ident x = ident v" 0]
  by (auto simp: ordinal_def find_index_def)

lemma show_int_pos_inj: "1 \<le> m \<Longrightarrow> 1 \<le> n \<Longrightarrow> show_int m = show_int n \<Longrightarrow> m = n"
  by (simp add: show_int_def show_nat_inj)

text \<open>A label names one run. Among the jobs listed, two jobs with the same label are the same
  job, whatever the clock values; so are two model versions of one type. A job that is not in the
  list is shown without a number.\<close>

lemma labels_identify:
  assumes "a \<in> set jobs" "b \<in> set jobs" "x \<in> set models" "y \<in> set models"
  shows "(jobLabel parse a jobs = jobLabel parse b jobs \<longrightarrow> tj_id a = tj_id b) \<and>
    (mv_model_type x = mv_model_type y \<and> modelLabel parse x models = modelLabel parse y models \<longrightarrow>
       mv_id x = mv_id y) \<and>
    (tj_id c \<notin> tj_id ` set jobs \<longrightarrow> jobLabel parse c jobs = ''Training run'')"
proof -
  have "tj_id a = tj_id b" if "jobLabel parse a jobs = jobLabel parse b jobs"
  proof (rule ordinal_inj [OF assms(1,2)])
    show "ordinal parse tj_created_at tj_id (tj_id a) jobs = ordinal parse tj_created_at tj_id (tj_id b) jobs"
      using that ordinal_pos [OF assms(1), of parse tj_created_at tj_id]
        ordinal_pos [OF assms(2), of parse tj_created_at tj_id]
      by (intro show_int_pos_inj) (simp_all add: jobLabel_def Let_def)
  qed
  moreover have "mv_id x = mv_id y"
    if "mv_model_type x = mv_model_type y" "modelLabel parse x models = modelLabel parse y models"
  proof (rule ordinal_inj [OF assms(3,4)])
    show "ordinal parse mv_created_at mv_id (mv_id x) models = ordinal parse mv_created_at mv_id (mv_id y) models"
      using that ordinal_pos [OF assms(3), of parse mv_created_at mv_id]
        ordinal_pos [OF assms(4), of parse mv_created_at mv_id]
      by (intro show_int_pos_inj) (simp_all add: modelLabel_def Let_def)
  qed
  moreover have "jobLabel parse c jobs = ''Training run''" if "tj_id c \<notin> tj_id ` set jobs"
  proof -
    have "\<forall>x \<in> set (js_sort (by_created parse tj_created_at) jobs). tj_id x \<noteq> tj_id c"
      using that by (metis imageI set_js_sort)
    from find_index_from_miss [OF this, of 0] show ?thesis
      by (simp add: jobLabel_def ordinal_def find_index_def)
  qed
  ultimately show ?thesis by simp
qed

definition sample_job :: "string \<Rightarrow> string \<Rightarrow> TrainingJobResource" where
  "sample_job i created =
     \<lparr>tj_progress = 0, tj_stage = [], tj_cancel_requested = False, tj_id = i, tj_model_type = ''dgsr'',
      tj_status = ''queued'', tj_configuration = [], tj_dataset_snapshot_id = None,
      tj_model_version_id = None, tj_qdrant_collection = None, tj_failure_reason = None,
      tj_created_at = created, tj_completed_at = None\<rparr>"

definition sample_model :: "string \<Rightarrow> ModelVersionResource" where
  "sample_model i =
     \<lparr>mv_id = i, mv_version_tag = [], mv_model_type = ''dgsr'', mv_status = ''active'', mv_metrics = [],
      mv_artifact_uri = None, mv_qdrant_collection = None, mv_created_at = ''1'', mv_activated_at = None\<rparr>"

theorem labels_identify_witness:
  "jobLabel (\<lambda>s. Some (int (read_nat s))) (sample_job ''z'' ''9'') [sample_job ''a'' ''2'', sample_job ''b'' ''1'']
     = ''Training run''"
  using labels_identify [of "sample_job ''a'' ''2''" "[sample_job ''a'' ''2'', sample_job ''b'' ''1'']"
      "sample_job ''b'' ''1''" "sample_model ''m''" "[sample_model ''m'']" "sample_model ''m''"
      "\<lambda>s. Some (int (read_nat s))" "sample_job ''z'' ''9''"]
  by (simp add: sample_job_def)

end
