(* ===== verification/Plans.thy ===== *)
theory Plans
  imports Labels
begin

text \<open>
  The plans of the public site (\<open>web/src/marketing/plans.ts\<close>, \<open>useLivePlans.ts\<close>, \<open>copy.ts\<close>): the
  seeded limits, the operator's live limits merged into them, and how a limit is printed.
\<close>

definition LIMIT_KEYS :: "string list" where
  "LIMIT_KEYS =
     [''accepted_events'', ''recommendation_requests'', ''requests_per_minute'',
      ''concurrent_recommendation_requests'', ''stored_products'', ''training_jobs'',
      ''concurrent_training_jobs'', ''maximum_training_duration_minutes'',
      ''active_model_versions'', ''maximum_inference_replicas'', ''artifact_storage_bytes'']"

definition MONTHLY_LIMITS :: "string list" where
  "MONTHLY_LIMITS = [''accepted_events'', ''recommendation_requests'', ''training_jobs'']"

record MarketingPlan =
  mp_code :: string
  mp_name :: string
  mp_tagline :: string
  mp_limits :: "(string \<times> int) list"

definition GIB :: int where
  "GIB = 1024 ^ 3"

definition PLANS :: "MarketingPlan list" where
  "PLANS =
     [\<lparr>mp_code = ''free'', mp_name = ''Free'', mp_tagline = ''For evaluating GraphRec on a real catalog.'',
       mp_limits =
         [(''accepted_events'', 50000), (''recommendation_requests'', 20000),
          (''requests_per_minute'', 120), (''concurrent_recommendation_requests'', 8),
          (''stored_products'', 5000), (''training_jobs'', 1), (''concurrent_training_jobs'', 1),
          (''maximum_training_duration_minutes'', 30), (''active_model_versions'', 2),
          (''maximum_inference_replicas'', 1), (''artifact_storage_bytes'', 1 * GIB)]\<rparr>,
      \<lparr>mp_code = ''basic'', mp_name = ''Basic'', mp_tagline = ''For a live shop that retrains every week.'',
       mp_limits =
         [(''accepted_events'', 500000), (''recommendation_requests'', 250000),
          (''requests_per_minute'', 300), (''concurrent_recommendation_requests'', 12),
          (''stored_products'', 50000), (''training_jobs'', 4), (''concurrent_training_jobs'', 1),
          (''maximum_training_duration_minutes'', 60), (''active_model_versions'', 5),
          (''maximum_inference_replicas'', 2), (''artifact_storage_bytes'', 5 * GIB)]\<rparr>,
      \<lparr>mp_code = ''pro'', mp_name = ''Pro'', mp_tagline = ''For large catalogs and frequent retraining.'',
       mp_limits =
         [(''accepted_events'', 2000000), (''recommendation_requests'', 1000000),
          (''requests_per_minute'', 1000), (''concurrent_recommendation_requests'', 30),
          (''stored_products'', 500000), (''training_jobs'', 12), (''concurrent_training_jobs'', 1),
          (''maximum_training_duration_minutes'', 180), (''active_model_versions'', 10),
          (''maximum_inference_replicas'', 3), (''artifact_storage_bytes'', 20 * GIB)]\<rparr>]"

definition HEADLINE_LIMITS :: "string list" where
  "HEADLINE_LIMITS = [''accepted_events'', ''recommendation_requests'', ''stored_products'']"

definition limitLabel :: "string \<Rightarrow> string" where
  "limitLabel key = humanizeKey key"

text \<open>\<open>nf\<close> is the number format of the browser's locale.\<close>

definition formatLimit :: "(rat \<Rightarrow> string) \<Rightarrow> string \<Rightarrow> int \<Rightarrow> string" where
  "formatLimit nf key v =
     (if key = ''artifact_storage_bytes'' then fmtBytes (Fin (of_int v)) else nf (of_int v))"

text \<open>\<open>{ ...a, ...b }\<close>.\<close>

definition spread :: "(string \<times> 'v) list \<Rightarrow> (string \<times> 'v) list \<Rightarrow> (string \<times> 'v) list" where
  "spread a b = foldl (\<lambda>m (k, v). al_set k v m) a b"

text \<open>A live plan is its code, name and limits; of two with one code the last counts.\<close>

type_synonym LivePlan = "string \<times> string \<times> (string \<times> int) list"

definition mergeLivePlans :: "LivePlan list option \<Rightarrow> MarketingPlan list \<times> bool" where
  "mergeLivePlans live =
     (case live of
        None \<Rightarrow> (PLANS, False)
      | Some ps \<Rightarrow>
          (let byCode = map_of (rev ps) in
           (map (\<lambda>plan. case the (byCode (mp_code plan)) of
                    (name, limits) \<Rightarrow> plan\<lparr>mp_name := name, mp_limits := spread (mp_limits plan) limits\<rparr>)
              (filter (\<lambda>plan. byCode (mp_code plan) \<noteq> None) PLANS), True)))"

text \<open>\<open>useLivePlans\<close>: the state before and after the answer, none for a failed read; a component that
  has been unmounted keeps what it had.\<close>

definition useLivePlans_init :: "MarketingPlan list \<times> bool" where
  "useLivePlans_init = mergeLivePlans None"

definition useLivePlans_answer ::
    "bool \<Rightarrow> LivePlan list option \<Rightarrow> MarketingPlan list \<times> bool \<Rightarrow> MarketingPlan list \<times> bool" where
  "useLivePlans_answer active result st =
     (case result of Some items \<Rightarrow> if active then mergeLivePlans (Some items) else st | None \<Rightarrow> st)"

section \<open>Copy\<close>

definition BRAND_name :: string where
  "BRAND_name = ''GraphRec''"

definition BRAND_tagline :: string where
  "BRAND_tagline = ''Recommendations that follow every interaction.''"

definition HOME_TITLE :: string where
  "HOME_TITLE = BRAND_name @ '': '' @ drop_suffix ''.'' BRAND_tagline"

section \<open>Properties\<close>

lemma map_of_spread: "map_of (spread a b) = map_of a ++ map_of (rev b)"
  by (simp add: spread_def map_of_foldl_set)

lemma keys_al_set_order: "map fst (al_set k v m) = (if k \<in> fst ` set m then map fst m else map fst m @ [k])"
  by (induction m) force+

lemma spread_Cons: "spread a ((k, v) # b) = spread (al_set k v a) b"
  by (simp add: spread_def)

lemma keys_spread: "\<exists>new. map fst (spread a b) = map fst a @ new \<and> set new \<subseteq> fst ` set b"
proof (induction b arbitrary: a)
  case (Cons p b)
  obtain k v where p: "p = (k, v)" by fastforce
  from Cons [of "al_set k v a"] obtain new where
    n: "map fst (spread (al_set k v a) b) = map fst (al_set k v a) @ new" "set new \<subseteq> fst ` set b" by blast
  have "map fst (spread a (p # b)) = map fst a @ (if k \<in> fst ` set a then [] else [k]) @ new"
    by (simp add: p spread_Cons n(1) keys_al_set_order)
  moreover have "set ((if k \<in> fst ` set a then [] else [k]) @ new) \<subseteq> fst ` set (p # b)"
    using n(2) by (auto simp: p)
  ultimately show ?case by blast
qed (simp add: spread_def)

lemma plans_limits: "list_all (\<lambda>p. map fst (mp_limits p) = LIMIT_KEYS) PLANS"
  by (simp add: PLANS_def LIMIT_KEYS_def)

text \<open>The pricing page shows what is in force. Before the live read, and after a failed one, the
  plans are the seeded ones and are flagged as not live. With live plans the page shows exactly the
  seeded plans the operator still lists, in the same order, with the live name, each live limit, the
  seeded limit for a key the answer does not name, and a value for every limit row in the order of the
  rows.\<close>

lemma live_plans_merge:
  assumes "mergeLivePlans (Some ps) = (plans, live)"
  shows "live \<and> mergeLivePlans None = (PLANS, False) \<and>
    useLivePlans_answer True None useLivePlans_init = (PLANS, False) \<and>
    map mp_code plans = filter (\<lambda>c. c \<in> fst ` set ps) [''free'', ''basic'', ''pro''] \<and>
    list_all (\<lambda>plan. take (length LIMIT_KEYS) (map fst (mp_limits plan)) = LIMIT_KEYS \<and>
      (\<exists>seed name limits. seed \<in> set PLANS \<and> mp_code seed = mp_code plan \<and>
         map_of (rev ps) (mp_code plan) = Some (name, limits) \<and> mp_name plan = name \<and>
         (\<forall>k. map_of (mp_limits plan) k =
                (case map_of (rev limits) k of Some v \<Rightarrow> Some v | None \<Rightarrow> map_of (mp_limits seed) k)))) plans"
proof -
  let ?b = "map_of (rev ps)"
  let ?f = "\<lambda>plan. case the (?b (mp_code plan)) of
      (name, limits) \<Rightarrow> plan\<lparr>mp_name := name, mp_limits := spread (mp_limits plan) limits\<rparr>"
  have p: "plans = map ?f (filter (\<lambda>plan. ?b (mp_code plan) \<noteq> None) PLANS)" "live"
    using assms by (simp_all add: mergeLivePlans_def Let_def)
  have dom: "?b c \<noteq> None \<longleftrightarrow> c \<in> fst ` set ps" for c
    by (simp add: map_of_eq_None_iff)
  have "map mp_code (map ?f (filter (\<lambda>plan. ?b (mp_code plan) \<noteq> None) xs)) =
      filter (\<lambda>c. ?b c \<noteq> None) (map mp_code xs)" for xs
    by (induction xs) (auto split: prod.split)
  then have "map mp_code plans = filter (\<lambda>c. ?b c \<noteq> None) (map mp_code PLANS)"
    unfolding p(1) .
  then have codes: "map mp_code plans = filter (\<lambda>c. c \<in> fst ` set ps) [''free'', ''basic'', ''pro'']"
    by (simp only: dom) (simp add: PLANS_def)
  have "take (length LIMIT_KEYS) (map fst (mp_limits plan)) = LIMIT_KEYS \<and>
      (\<exists>seed name limits. seed \<in> set PLANS \<and> mp_code seed = mp_code plan \<and>
         ?b (mp_code plan) = Some (name, limits) \<and> mp_name plan = name \<and>
         (\<forall>k. map_of (mp_limits plan) k =
                (case map_of (rev limits) k of Some v \<Rightarrow> Some v | None \<Rightarrow> map_of (mp_limits seed) k)))"
    if "plan \<in> set plans" for plan
  proof -
    from that obtain seed where s: "seed \<in> set PLANS" "?b (mp_code seed) \<noteq> None" "plan = ?f seed"
      by (auto simp: p(1))
    then obtain name limits where n: "?b (mp_code seed) = Some (name, limits)" by fastforce
    have plan: "plan = seed\<lparr>mp_name := name, mp_limits := spread (mp_limits seed) limits\<rparr>"
      using s(3) n by simp
    have "map fst (mp_limits seed) = LIMIT_KEYS"
      using plans_limits s(1) by (simp add: list_all_iff)
    with keys_spread [of "mp_limits seed" limits]
    have "take (length LIMIT_KEYS) (map fst (mp_limits plan)) = LIMIT_KEYS" by (auto simp: plan)
    with s(1) n show ?thesis by (auto simp: plan map_of_spread map_add_def)
  qed
  with codes p(2) show ?thesis
    by (simp add: list_all_iff mergeLivePlans_def useLivePlans_answer_def useLivePlans_init_def)
qed

theorem live_plans_merge_witness:
  "map mp_code (fst (mergeLivePlans (Some [(''pro'', ''Pro'', [(''training_jobs'', 20)]), (''gold'', ''Gold'', [])])))
     = [''pro'']"
proof -
  obtain plans live where
    m: "mergeLivePlans (Some [(''pro'', ''Pro'', [(''training_jobs'', 20)]), (''gold'', ''Gold'', [])]) = (plans, live)"
    by fastforce
  from live_plans_merge [OF m] m show ?thesis by simp
qed

end
