(* ===== verification/Resource.thy ===== *)
theory Resource
  imports Session
begin

text \<open>
  Loading data into a component (\<open>web/src/hooks/useResource.ts\<close>). The state holds the refs and
  the React state of one mounted component; identities are numbers, a new one for every change of the
  tokens or the parameters (\<open>useMemo\<close> makes a new object). A callback closes over the identity it
  was made with. \<open>pending\<close> are the loads under way, each with the ticket it took from
  \<open>generation\<close>. The locale \<open>latest_wins\<close> is the contract of such a ticket counter; the other
  programs of the repository that race requests provide it too.
\<close>

section \<open>The contract of a ticket counter\<close>

locale latest_wins =
  fixes gen :: "'st \<Rightarrow> nat"
    and start :: "'st \<Rightarrow> 'st"
    and finish :: "nat \<Rightarrow> 'r \<Rightarrow> 'st \<Rightarrow> 'st"
    and shown :: "'st \<Rightarrow> 'v"
  assumes start_gen: "gen (start s) = Suc (gen s)"
    and finish_gen: "gen (finish n r s) = gen s"
    and finish_stale: "n \<noteq> gen s \<Longrightarrow> shown (finish n r s) = shown s"
begin

text \<open>Answers to older requests, in any order and number, do not change what is shown.\<close>

lemma stale_answers: "\<forall>(n, r) \<in> set as. n < gen s \<Longrightarrow>
  shown (fold (\<lambda>(n, r). finish n r) as s) = shown s \<and> gen (fold (\<lambda>(n, r). finish n r) as s) = gen s"
proof (induction as arbitrary: s)
  case (Cons a as)
  obtain n r where a: "a = (n, r)" by fastforce
  have "shown (finish n r s) = shown s" using Cons.prems a by (intro finish_stale) auto
  with Cons.IH [of "finish n r s"] Cons.prems a show ?case by (simp add: finish_gen)
qed simp

text \<open>Of two requests, the answer to the first changes nothing once the second has started, whether it
  comes before or after the answer to the second.\<close>

lemma older_ignored:
  "shown (finish (Suc (gen s)) r (start (start s))) = shown (start (start s))"
  "shown (finish (Suc (gen s)) r (finish (Suc (Suc (gen s))) r' (start (start s)))) =
     shown (finish (Suc (Suc (gen s))) r' (start (start s)))"
  by (simp_all add: finish_stale finish_gen start_gen)

end

section \<open>The state of a resource\<close>

record 'a resource_state =
  st_identity :: nat
  st_data :: "'a option"
  st_error :: "string option"
  st_loading :: bool
  st_loadedAt :: "int option"

record 'a resource =
  cur_identity :: nat
  generation :: nat
  mounted :: bool
  state :: "'a resource_state"
  pending :: "(nat \<times> nat) list"

definition blank_state :: "nat \<Rightarrow> 'a resource_state" where
  "blank_state i =
     \<lparr>st_identity = i, st_data = None, st_error = None, st_loading = True, st_loadedAt = None\<rparr>"

definition first_render :: "'a resource" where
  "first_render = \<lparr>cur_identity = 0, generation = 0, mounted = False, state = blank_state 0, pending = []\<rparr>"

text \<open>\<open>run\<close> up to its \<open>await\<close>, as made for identity \<open>i\<close>.\<close>

definition run :: "nat \<Rightarrow> 'a resource \<Rightarrow> 'a resource" where
  "run i w =
     (if \<not> mounted w \<or> cur_identity w \<noteq> i then w
      else let mine = Suc (generation w) in
        w\<lparr>generation := mine,
          state := (if st_identity (state w) = i then (state w)\<lparr>st_loading := True\<rparr> else blank_state i),
          pending := (mine, i) # pending w\<rparr>)"

text \<open>The loader of a ticket returns or throws.\<close>

definition loaded :: "nat \<times> nat \<Rightarrow> int \<Rightarrow> string + 'a \<Rightarrow> 'a resource \<Rightarrow> 'a resource" where
  "loaded t now0 r w =
     (let w0 = w\<lparr>pending := remove1 t (pending w)\<rparr>
      in if mounted w \<and> fst t = generation w \<and> cur_identity w = snd t
         then (case r of
                 Inr d \<Rightarrow> w0\<lparr>state := \<lparr>st_identity = snd t, st_data = Some d, st_error = None,
                                     st_loading = False, st_loadedAt = Some now0\<rparr>\<rparr>
               | Inl e \<Rightarrow> w0\<lparr>state := (state w)\<lparr>st_error := Some e, st_loading := False\<rparr>\<rparr>)
         else w0)"

definition setData :: "nat \<Rightarrow> int \<Rightarrow> ('a option \<Rightarrow> 'a option) \<Rightarrow> 'a resource \<Rightarrow> 'a resource" where
  "setData i now0 f w =
     (if \<not> mounted w \<or> cur_identity w \<noteq> i then w
      else w\<lparr>generation := Suc (generation w),
             state := \<lparr>st_identity = i,
               st_data = f (if st_identity (state w) = i then st_data (state w) else None),
               st_error = None, st_loading = False, st_loadedAt = Some now0\<rparr>\<rparr>)"

text \<open>The effect and its cleanup; a change event; a tick of the poll timer.\<close>

definition effect :: "nat \<Rightarrow> 'a resource \<Rightarrow> 'a resource" where
  "effect i w = run i (w\<lparr>mounted := True\<rparr>)"

definition cleanup :: "'a resource \<Rightarrow> 'a resource" where
  "cleanup w = w\<lparr>mounted := False, generation := Suc (generation w)\<rparr>"

definition watches :: "string list \<Rightarrow> string" where
  "watches watch = js_join ''|'' watch"

definition changed :: "string \<Rightarrow> string \<Rightarrow> nat \<Rightarrow> 'a resource \<Rightarrow> 'a resource" where
  "changed ws path i w =
     (if ws \<noteq> [] \<and> list_ex (\<lambda>fragment. js_includes path fragment) (js_split CHR ''|'' ws)
      then run i w else w)"

definition poll :: "bool \<Rightarrow> nat \<Rightarrow> 'a resource \<Rightarrow> 'a resource" where
  "poll hidden i w = (if hidden then w else run i w)"

text \<open>What the hook returns at identity \<open>i\<close>.\<close>

definition view :: "nat \<Rightarrow> 'a resource \<Rightarrow> 'a resource_state" where
  "view i w = (if st_identity (state w) = i then state w else blank_state i)"

section \<open>Runs\<close>

text \<open>
  \<open>good i d\<close> says that \<open>d\<close> belongs to identity \<open>i\<close>: a load started for \<open>i\<close> returns such a value, and
  an update keeps it. A render with changed dependencies takes a fresh identity.
\<close>

inductive resource_step :: "(nat \<Rightarrow> 'a \<Rightarrow> bool) \<Rightarrow> 'a resource \<Rightarrow> 'a resource \<Rightarrow> bool"
  for good where
  render: "resource_step good w (w\<lparr>cur_identity := Suc (cur_identity w)\<rparr>)"
| effects: "\<not> mounted w \<Longrightarrow> resource_step good w (effect (cur_identity w) w)"
| cleanups: "resource_step good w (cleanup w)"
| reload: "i \<le> cur_identity w \<Longrightarrow> resource_step good w (run i w)"
| change: "i \<le> cur_identity w \<Longrightarrow> resource_step good w (changed ws path i w)"
| tick: "i \<le> cur_identity w \<Longrightarrow> resource_step good w (poll hidden i w)"
| answer: "t \<in> set (pending w) \<Longrightarrow> \<forall>d. r = Inr d \<longrightarrow> good (snd t) d \<Longrightarrow>
    resource_step good w (loaded t now0 r w)"
| update: "i \<le> cur_identity w \<Longrightarrow> \<forall>x d. (\<forall>y. x = Some y \<longrightarrow> good i y) \<and> f x = Some d \<longrightarrow> good i d \<Longrightarrow>
    resource_step good w (setData i now0 f w)"

inductive resource_reachable :: "(nat \<Rightarrow> 'a \<Rightarrow> bool) \<Rightarrow> 'a resource \<Rightarrow> bool" for good where
  start: "resource_reachable good first_render"
| step: "resource_reachable good w \<Longrightarrow> resource_step good w w' \<Longrightarrow> resource_reachable good w'"

definition pending_ok :: "nat \<Rightarrow> nat \<Rightarrow> nat \<Rightarrow> (nat \<times> nat) list \<Rightarrow> bool" where
  "pending_ok g c s ps =
     ((\<forall>n i. (n, i) \<in> set ps \<longrightarrow> n \<le> g \<and> i \<le> c \<and> (n = g \<longrightarrow> s = i)) \<and> distinct (map fst ps))"

definition data_ok :: "(nat \<Rightarrow> 'a \<Rightarrow> bool) \<Rightarrow> nat \<Rightarrow> 'a resource_state \<Rightarrow> bool" where
  "data_ok good c st =
     ((\<forall>d. st_data st = Some d \<longrightarrow> good (st_identity st) d) \<and> st_identity st \<le> c)"

definition spinner_ok :: "nat \<Rightarrow> nat \<Rightarrow> bool \<Rightarrow> (nat \<times> nat) list \<Rightarrow> 'a resource_state \<Rightarrow> bool" where
  "spinner_ok g c m ps st = (m \<and> st_loading st \<and> st_identity st = c \<longrightarrow> (g, c) \<in> set ps)"

definition resource_inv :: "(nat \<Rightarrow> 'a \<Rightarrow> bool) \<Rightarrow> 'a resource \<Rightarrow> bool" where
  "resource_inv good w =
     (data_ok good (cur_identity w) (state w) \<and>
      pending_ok (generation w) (cur_identity w) (st_identity (state w)) (pending w) \<and>
      spinner_ok (generation w) (cur_identity w) (mounted w) (pending w) (state w))"

lemma pending_new: "pending_ok g c s ps \<Longrightarrow> s' \<le> c \<Longrightarrow> pending_ok (Suc g) c s' ((Suc g, s') # ps)"
  by (fastforce simp: pending_ok_def)

lemma pending_later: "pending_ok g c s ps \<Longrightarrow> c \<le> c' \<Longrightarrow> pending_ok (Suc g) c' s' ps"
  by (fastforce simp: pending_ok_def)

lemma pending_render: "pending_ok g c s ps \<Longrightarrow> c \<le> c' \<Longrightarrow> pending_ok g c' s ps"
  by (fastforce simp: pending_ok_def)

lemma pending_remove: "pending_ok g c s ps \<Longrightarrow> pending_ok g c s (remove1 t ps)"
  unfolding pending_ok_def
  by (metis distinct_map distinct_remove1 inj_on_subset notin_set_remove1 subsetI)

lemma spinner_remove:
  assumes "spinner_ok g c m ps st" "t \<noteq> (g, c)"
  shows "spinner_ok g c m (remove1 t ps) st"
  using assms by (auto simp: spinner_ok_def)

lemma run_inv:
  assumes inv: "resource_inv good w"
  shows "resource_inv good (run i w)"
proof (cases "\<not> mounted w \<or> cur_identity w \<noteq> i")
  case True
  with inv show ?thesis by (simp only: run_def if_True)
next
  case False
  then have i: "cur_identity w = i" by simp
  let ?st = "if st_identity (state w) = i then (state w)\<lparr>st_loading := True\<rparr> else blank_state i"
  have "st_identity ?st = i" by (simp add: blank_state_def)
  moreover have "data_ok good i ?st"
    using inv i by (auto simp: resource_inv_def data_ok_def blank_state_def)
  moreover have "pending_ok (Suc (generation w)) i i ((Suc (generation w), i) # pending w)"
    using inv i by (intro pending_new [of _ _ "st_identity (state w)"]) (simp_all add: resource_inv_def)
  moreover have "run i w = w\<lparr>generation := Suc (generation w), state := ?st,
      pending := (Suc (generation w), i) # pending w\<rparr>"
    using False by (simp add: run_def Let_def)
  ultimately show ?thesis
    using i by (simp add: resource_inv_def spinner_ok_def del: if_split)
qed

lemma run_mounted_inv:
  assumes "data_ok good (cur_identity w) (state w)"
    "pending_ok (generation w) (cur_identity w) (st_identity (state w)) (pending w)"
  shows "resource_inv good (run (cur_identity w) (w\<lparr>mounted := True\<rparr>))"
proof -
  let ?st = "if st_identity (state w) = cur_identity w then (state w)\<lparr>st_loading := True\<rparr>
    else blank_state (cur_identity w)"
  have "st_identity ?st = cur_identity w" "data_ok good (cur_identity w) ?st"
    using assms(1) by (auto simp: data_ok_def blank_state_def)
  moreover have "run (cur_identity w) (w\<lparr>mounted := True\<rparr>) =
      w\<lparr>mounted := True, generation := Suc (generation w), state := ?st,
        pending := (Suc (generation w), cur_identity w) # pending w\<rparr>"
    by (simp add: run_def Let_def)
  ultimately show ?thesis
    using pending_new [OF assms(2), of "cur_identity w"]
    by (simp add: resource_inv_def spinner_ok_def del: if_split)
qed

lemma loaded_inv:
  assumes inv: "resource_inv good w" and t: "t \<in> set (pending w)"
    and good: "\<forall>d. r = Inr d \<longrightarrow> good (snd t) d"
  shows "resource_inv good (loaded t now0 r w)"
proof (cases "mounted w \<and> fst t = generation w \<and> cur_identity w = snd t")
  case False
  then have "loaded t now0 r w = w\<lparr>pending := remove1 t (pending w)\<rparr>"
    by (simp only: loaded_def Let_def if_False)
  moreover have "spinner_ok (generation w) (cur_identity w) (mounted w) (remove1 t (pending w)) (state w)"
  proof (cases "t = (generation w, cur_identity w)")
    case True
    with False show ?thesis by (simp add: spinner_ok_def)
  next
    case other: False
    have "spinner_ok (generation w) (cur_identity w) (mounted w) (pending w) (state w)"
      using inv by (simp add: resource_inv_def)
    then show ?thesis using other by (rule spinner_remove)
  qed
  ultimately show ?thesis using inv by (simp add: resource_inv_def pending_remove)
next
  case True
  have same: "st_identity (state w) = snd t"
    using inv t True by (cases t) (auto simp: resource_inv_def pending_ok_def)
  have d: "data_ok good (cur_identity w) (state w)"
    and p: "pending_ok (generation w) (cur_identity w) (snd t) (remove1 t (pending w))"
    using inv pending_remove same by (simp_all add: resource_inv_def)
  show ?thesis
  proof (cases r)
    case (Inl e)
    then have "loaded t now0 r w = w\<lparr>pending := remove1 t (pending w),
        state := (state w)\<lparr>st_error := Some e, st_loading := False\<rparr>\<rparr>"
      using True by (simp add: loaded_def)
    with d p same show ?thesis by (simp add: resource_inv_def spinner_ok_def data_ok_def)
  next
    case (Inr x)
    then have "loaded t now0 r w = w\<lparr>pending := remove1 t (pending w),
        state := \<lparr>st_identity = snd t, st_data = Some x, st_error = None, st_loading = False,
                  st_loadedAt = Some now0\<rparr>\<rparr>"
      using True by (simp add: loaded_def)
    with d p good Inr True show ?thesis by (simp add: resource_inv_def spinner_ok_def data_ok_def)
  qed
qed

lemma setData_inv:
  assumes inv: "resource_inv good w"
    and f: "\<forall>x d. (\<forall>y. x = Some y \<longrightarrow> good i y) \<and> f x = Some d \<longrightarrow> good i d"
  shows "resource_inv good (setData i now0 f w)"
proof (cases "\<not> mounted w \<or> cur_identity w \<noteq> i")
  case True
  with inv show ?thesis by (simp only: setData_def if_True)
next
  case False
  then have i: "cur_identity w = i" by simp
  have "good i d" if "f (if st_identity (state w) = i then st_data (state w) else None) = Some d" for d
  proof -
    have "\<forall>y. (if st_identity (state w) = i then st_data (state w) else None) = Some y \<longrightarrow> good i y"
      using inv by (auto simp: resource_inv_def data_ok_def)
    with f that show ?thesis by blast
  qed
  moreover have "pending_ok (Suc (generation w)) i i (pending w)"
    using inv i by (intro pending_later) (auto simp: resource_inv_def)
  ultimately show ?thesis
    using False i by (simp add: setData_def resource_inv_def data_ok_def spinner_ok_def)
qed

lemma render_inv: "resource_inv good w \<Longrightarrow> resource_inv good (w\<lparr>cur_identity := Suc (cur_identity w)\<rparr>)"
  by (auto simp: resource_inv_def data_ok_def spinner_ok_def intro: pending_render)

lemma cleanup_inv: "resource_inv good w \<Longrightarrow> resource_inv good (cleanup w)"
  by (auto simp: resource_inv_def cleanup_def spinner_ok_def intro: pending_later)

lemma resource_step_inv: "resource_step good w w' \<Longrightarrow> resource_inv good w \<Longrightarrow> resource_inv good w'"
proof (induction rule: resource_step.induct)
  case (effects w)
  then have "data_ok good (cur_identity w) (state w)"
    "pending_ok (generation w) (cur_identity w) (st_identity (state w)) (pending w)"
    by (simp_all add: resource_inv_def)
  then show ?case unfolding effect_def by (rule run_mounted_inv)
qed (simp_all add: run_inv changed_def poll_def loaded_inv setData_inv render_inv cleanup_inv)

lemma first_render_inv: "resource_inv good first_render"
  by (simp add: resource_inv_def first_render_def blank_state_def data_ok_def pending_ok_def spinner_ok_def)

lemma resource_reachable_inv: "resource_reachable good w \<Longrightarrow> resource_inv good w"
  by (induction rule: resource_reachable.induct) (blast intro: first_render_inv resource_step_inv)+

section \<open>Properties\<close>

text \<open>The counter of a mounted component's current identity.\<close>

definition restart :: "'a resource \<Rightarrow> 'a resource" where
  "restart w = effect (cur_identity w) w"

lemma effect_generation: "generation (effect (cur_identity w) w) = Suc (generation w)"
  by (simp add: effect_def run_def Let_def)

interpretation resource_race: latest_wins generation restart
    "\<lambda>n r w. loaded (n, cur_identity w) now0 r w" state
  by unfold_locales
    (auto simp: restart_def effect_generation loaded_def Let_def split: sum.split)

text \<open>C14: data of one identity is never shown under another. In every reachable state of the hook,
  whatever loads were in flight when the tokens or parameters changed and in whatever order they
  end, the data and the error the component is given belong to the identity it is rendered
  with.\<close>

theorem resource_own_identity:
  assumes "resource_reachable good w" "st_data (view (cur_identity w) w) = Some d"
  shows "good (cur_identity w) d"
  using resource_reachable_inv [OF assms(1)] assms(2)
  by (auto simp: view_def resource_inv_def data_ok_def blank_state_def split: if_splits)

definition switched :: "string resource" where
  "switched =
     (let w = effect 0 first_render;
          w = cleanup (w\<lparr>cur_identity := Suc (cur_identity w)\<rparr>);
          w = effect (cur_identity w) w;
          w = loaded (3, 1) 50 (Inr ''B'') w
      in loaded (1, 0) 60 (Inr ''A'') w)"

lemma switched_reachable: "resource_reachable (\<lambda>i d. d = [''A'', ''B''] ! i) switched"
proof -
  let ?g = "\<lambda>i d. d = [''A'', ''B''] ! i"
  let ?w1 = "effect 0 (first_render :: string resource)"
  let ?w2 = "cleanup (?w1\<lparr>cur_identity := Suc (cur_identity ?w1)\<rparr>)"
  let ?w3 = "effect (cur_identity ?w2) ?w2"
  let ?w4 = "loaded (3, 1) 50 (Inr ''B'') ?w3"
  note step = resource_reachable.step
  have "\<not> mounted (first_render :: string resource)" by (simp add: first_render_def)
  from step [OF resource_reachable.start resource_step.effects [OF this]]
  have "resource_reachable ?g ?w1" by (simp add: first_render_def)
  from step [OF step [OF this resource_step.render] resource_step.cleanups]
  have w2: "resource_reachable ?g ?w2" .
  have "\<not> mounted ?w2" by (simp add: cleanup_def)
  from step [OF w2 resource_step.effects [OF this]] have w3: "resource_reachable ?g ?w3" .
  have "(3, 1) \<in> set (pending ?w3)" by code_simp
  from step [OF w3 resource_step.answer [OF this]] have w4: "resource_reachable ?g ?w4" by simp
  have "(1, 0) \<in> set (pending ?w4)" by code_simp
  from step [OF w4 resource_step.answer [OF this]]
  have "resource_reachable ?g (loaded (1, 0) 60 (Inr ''A'') ?w4)" by simp
  then show ?thesis by (simp add: switched_def Let_def)
qed

theorem resource_own_identity_witness:
  "st_data (view 1 switched) = Some ''B'' \<and> ''B'' = [''A'', ''B''] ! 1"
proof -
  have v: "cur_identity switched = 1 \<and> st_data (view 1 switched) = Some ''B''" by code_simp
  then have "st_data (view (cur_identity switched) switched) = Some ''B''" by simp
  from resource_own_identity [OF switched_reachable this] v show ?thesis by simp
qed

text \<open>C15: no spinner without a request. In every reachable state, a mounted component that is told it
  is loading, once its effect has run, waits for a load that is under way for its own identity with
  the newest ticket; and the answer to that load, a value or an error, ends the loading.\<close>

theorem loading_has_request:
  assumes "resource_reachable good w" "mounted w" "st_identity (state w) = cur_identity w"
    and "st_loading (view (cur_identity w) w)"
  shows "(generation w, cur_identity w) \<in> set (pending w) \<and>
    \<not> st_loading (view (cur_identity w) (loaded (generation w, cur_identity w) now0 r w))"
proof -
  have "(generation w, cur_identity w) \<in> set (pending w)"
    using resource_reachable_inv [OF assms(1)] assms(2-4)
    by (simp add: resource_inv_def spinner_ok_def view_def)
  then show ?thesis
    using assms(2,3) by (cases r) (simp_all add: loaded_def Let_def view_def)
qed

theorem loading_has_request_witness:
  "(1, 0) \<in> set (pending (effect 0 (first_render :: string resource)))"
proof -
  have "\<not> mounted (first_render :: string resource)" by (simp add: first_render_def)
  from resource_reachable.step [OF resource_reachable.start resource_step.effects [OF this]]
  have r: "resource_reachable (\<lambda>_ _. True) (effect 0 (first_render :: string resource))"
    by (simp add: first_render_def)
  have m: "mounted (effect 0 (first_render :: string resource))"
    "st_identity (state (effect 0 (first_render :: string resource))) =
       cur_identity (effect 0 (first_render :: string resource))"
    "st_loading (view (cur_identity (effect 0 (first_render :: string resource)))
       (effect 0 (first_render :: string resource)))" by code_simp+
  have "generation (effect 0 (first_render :: string resource)) = 1"
    "cur_identity (effect 0 (first_render :: string resource)) = 0" by code_simp+
  with loading_has_request [OF r m] show ?thesis by simp
qed

end
