(* ===== verification/Hooks.thy ===== *)
theory Hooks
  imports UrlCoding ClientAuth
begin

text \<open>
  The small hooks of the console: URL state (\<open>useQueryState.ts\<close>), the product metadata that is
  fetched once (\<open>useMeta.ts\<close>), the theme (\<open>useTheme.ts\<close>), the toast (\<open>useToast.tsx\<close>) and signing
  out (\<open>useSession.tsx\<close>).
\<close>

section \<open>URL state\<close>

text \<open>\<open>URLSearchParams\<close>: \<open>get\<close> reads the first value, \<open>set\<close> keeps the first place and removes the
  others, \<open>delete\<close> removes all.\<close>

definition params_get :: "string \<Rightarrow> search_params \<Rightarrow> string option" where
  "params_get k q = map_of q k"

fun params_set :: "string \<Rightarrow> string \<Rightarrow> search_params \<Rightarrow> search_params" where
  "params_set k v [] = [(k, v)]"
| "params_set k v ((k', v') # q) =
     (if k' = k then (k, v) # al_delete k q else (k', v') # params_set k v q)"

definition useClearQuery :: "string list \<Rightarrow> search_params \<Rightarrow> search_params" where
  "useClearQuery keys params = fold al_delete keys params"

definition query_value :: "string \<Rightarrow> string \<Rightarrow> search_params \<Rightarrow> string" where
  "query_value key fallback params = or_else (params_get key params) fallback"

definition set_query_value :: "string \<Rightarrow> string \<Rightarrow> string \<Rightarrow> search_params \<Rightarrow> search_params" where
  "set_query_value key fallback v params =
     (if v = fallback \<or> v = [] then al_delete key params else params_set key v params)"

lemma params_get_set: "params_get k (params_set k' v q) = (if k = k' then Some v else params_get k q)"
  by (induction k' v q rule: params_set.induct) (auto simp: params_get_def)

lemma params_set_others: "filter (\<lambda>p. fst p \<noteq> k) (params_set k v q) = filter (\<lambda>p. fst p \<noteq> k) q"
  by (induction k v q rule: params_set.induct) (auto simp: al_delete_def)

lemma params_set_once: "length (filter (\<lambda>p. fst p = k) (params_set k v q)) = 1"
  by (induction k v q rule: params_set.induct) (auto simp: al_delete_def filter_empty_conv)

lemma al_delete_none: "filter (\<lambda>p. fst p = k) (al_delete k q) = []"
  by (auto simp: al_delete_def filter_empty_conv)

lemma fold_al_delete: "fold al_delete keys q = filter (\<lambda>p. fst p \<notin> set keys) q"
proof (induction keys arbitrary: q)
  case (Cons k ks)
  have "filter (\<lambda>p. fst p \<notin> set ks) (filter (\<lambda>p. fst p \<noteq> k) q) = filter (\<lambda>p. fst p \<notin> set (k # ks)) q"
    by (induction q) auto
  with Cons show ?case by (simp add: al_delete_def)
qed simp

text \<open>A filter kept in the URL reads back as it was set, and leaves the rest of the URL alone.
  After setting, the hook reads the value set (the fallback for an empty one), the other parameters
  are unchanged and in order, the key occurs at most once and not at all for the fallback, so two URLs
  never mean the same default; clearing several keys removes exactly those.\<close>

lemma query_state_roundtrip:
  "query_value key fallback (set_query_value key fallback v params) =
     (if v = [] then fallback else v) \<and>
   filter (\<lambda>p. fst p \<noteq> key) (set_query_value key fallback v params) =
     filter (\<lambda>p. fst p \<noteq> key) params \<and>
   length (filter (\<lambda>p. fst p = key) (set_query_value key fallback v params)) =
     (if v = fallback \<or> v = [] then 0 else 1) \<and>
   useClearQuery keys params = filter (\<lambda>p. fst p \<notin> set keys) params"
proof -
  have "params_get key (al_delete key params) = None" by (simp add: params_get_def)
  then show ?thesis
    using params_set_once [of key v params]
    by (auto simp: set_query_value_def query_value_def params_get_set params_set_others
        al_delete_none useClearQuery_def fold_al_delete) (simp_all add: al_delete_def)
qed

section \<open>Product metadata\<close>

text \<open>The module variable \<open>cached\<close>: null, the promise under way, or one resolved to the metadata. A
  component mounts, the answer arrives (none for a failure), a component unmounts.\<close>

datatype 'm meta_cache = MetaNone | MetaPending | MetaKnown 'm

record 'm meta_state =
  meta_cached :: "'m meta_cache"
  meta_fetches :: nat
  meta_waiting :: "nat list"
  meta_values :: "(nat \<times> 'm option) list"

definition meta_mount :: "nat \<Rightarrow> 'm meta_state \<Rightarrow> 'm meta_state" where
  "meta_mount h w =
     (case meta_cached w of
        MetaNone \<Rightarrow> w\<lparr>meta_cached := MetaPending, meta_fetches := Suc (meta_fetches w),
                      meta_waiting := h # meta_waiting w, meta_values := al_set h None (meta_values w)\<rparr>
      | MetaPending \<Rightarrow> w\<lparr>meta_waiting := h # meta_waiting w,
                         meta_values := al_set h None (meta_values w)\<rparr>
      | MetaKnown m \<Rightarrow> w\<lparr>meta_values := al_set h (Some m) (meta_values w)\<rparr>)"

definition meta_answer :: "'m option \<Rightarrow> 'm meta_state \<Rightarrow> 'm meta_state" where
  "meta_answer r w =
     (if meta_cached w = MetaPending
      then w\<lparr>meta_cached := (case r of None \<Rightarrow> MetaNone | Some m \<Rightarrow> MetaKnown m),
             meta_waiting := [],
             meta_values := fold (\<lambda>h. al_set h r) (meta_waiting w) (meta_values w)\<rparr>
      else w)"

definition meta_unmount :: "nat \<Rightarrow> 'm meta_state \<Rightarrow> 'm meta_state" where
  "meta_unmount h w =
     w\<lparr>meta_waiting := filter (\<lambda>x. x \<noteq> h) (meta_waiting w), meta_values := al_delete h (meta_values w)\<rparr>"

section \<open>Theme\<close>

datatype Theme = light | dark

datatype ThemeMode = Mode Theme | system

fun mode_text :: "ThemeMode \<Rightarrow> string" where
  "mode_text (Mode light) = ''light''"
| "mode_text (Mode dark) = ''dark''"
| "mode_text system = ''system''"

text \<open>The local storage entry, none when there is none or the storage throws.\<close>

definition readMode :: "string option \<Rightarrow> ThemeMode" where
  "readMode stored =
     (if stored = Some ''light'' then Mode light
      else if stored = Some ''dark'' then Mode dark else system)"

record theme_env =
  th_stored :: "string option"
  th_works :: bool
  th_prefers_dark :: bool

definition stored_text :: "theme_env \<Rightarrow> string option" where
  "stored_text e = (if th_works e then th_stored e else None)"

definition systemTheme :: "theme_env \<Rightarrow> Theme" where
  "systemTheme e = (if th_prefers_dark e then dark else light)"

definition theme :: "theme_env \<Rightarrow> Theme" where
  "theme e = (case readMode (stored_text e) of system \<Rightarrow> systemTheme e | Mode t \<Rightarrow> t)"

definition setMode :: "ThemeMode \<Rightarrow> theme_env \<Rightarrow> theme_env" where
  "setMode next0 e = (if th_works e then e\<lparr>th_stored := Some (mode_text next0)\<rparr> else e)"

definition toggle :: "theme_env \<Rightarrow> theme_env" where
  "toggle e = setMode (Mode (if theme e = light then dark else light)) e"

section \<open>Toast\<close>

datatype toast_tone = toast_ok | toast_danger

text \<open>The toast on screen and the time its timer fires.\<close>

record toast_state =
  toast :: "(string \<times> toast_tone) option"
  timer :: "int option"

definition flash :: "string \<Rightarrow> toast_tone \<Rightarrow> int \<Rightarrow> toast_state \<Rightarrow> toast_state" where
  "flash message tone t w = w\<lparr>toast := Some (message, tone), timer := Some (t + 2600)\<rparr>"

definition fire :: "int \<Rightarrow> toast_state \<Rightarrow> toast_state" where
  "fire t w = (case timer w of Some d \<Rightarrow> if d \<le> t then w\<lparr>toast := None, timer := None\<rparr> else w | None \<Rightarrow> w)"

text \<open>\<open>copy\<close>; \<open>written\<close> tells whether the clipboard exists and took the text.\<close>

definition copy :: "bool \<Rightarrow> int \<Rightarrow> toast_state \<Rightarrow> toast_state" where
  "copy written t w =
     (if written then flash ''Copied to clipboard.'' toast_ok t w
      else flash ''Could not copy. Select the value and copy it manually.'' toast_danger t w)"

section \<open>Signing out\<close>

text \<open>\<open>signOutTenant\<close> of the session the provider rendered with; the call it sends is not awaited.\<close>

definition signOutTenant ::
    "string option \<Rightarrow> TenantSession option \<Rightarrow> 'a browser_scheme \<Rightarrow> HttpCall option \<times> 'a browser_scheme" where
  "signOutTenant setting tenant b =
     ((case tenant of
         None \<Rightarrow> None
       | Some s \<Rightarrow>
           if \<not> truthy (tn_accessToken s) then None
           else Some \<lparr>hc_url = base_url setting @ ''/v1/auth/logout'', hc_method = POST,
                      hc_headers = [(''Authorization'', bearer (the (tn_accessToken s))),
                                    (''Accept'', ''application/json'')],
                      hc_body = NoBody\<rparr>),
      clearTenantSession (markExplicitSignOut b))"

definition signOutPlatform :: "'a browser_scheme \<Rightarrow> 'a browser_scheme" where
  "signOutPlatform b = clearPlatformSession b"

definition useTenant :: "TenantSession option \<Rightarrow> string + TenantSession" where
  "useTenant tenant =
     (case tenant of None \<Rightarrow> Inl ''useTenant requires a tenant session (route is not guarded)''
      | Some s \<Rightarrow> Inr s)"

end
