(* ===== verification/Navigation.thy ===== *)
theory Navigation
  imports Session Quota
begin

text \<open>
  The console's navigation (\<open>web/src/layouts/Layouts.tsx\<close>): the menus, which entries a session
  sees, which one is highlighted, how groups open and close, the names in the user menu, the quota
  line of the sidebar, and the keyboard of a menu (\<open>web/src/ui/kit.tsx\<close>).
\<close>

section \<open>Menus\<close>

record NavItem =
  ni_label :: string
  ni_to :: string
  ni_icon :: string
  ni_scope :: "string option"
  ni_end :: bool

record NavGroup =
  ng_id :: string
  ng_label :: string
  ng_items :: "NavItem list"

definition nav_item :: "string \<Rightarrow> string \<Rightarrow> string \<Rightarrow> string option \<Rightarrow> bool \<Rightarrow> NavItem" where
  "nav_item label to icon scope end0 =
     \<lparr>ni_label = label, ni_to = to, ni_icon = icon, ni_scope = scope, ni_end = end0\<rparr>"

definition TENANT_NAV :: "NavGroup list" where
  "TENANT_NAV =
     [\<lparr>ng_id = ''overview'', ng_label = [], ng_items =
        [nav_item ''Overview'' ''/home'' ''home'' None False]\<rparr>,
      \<lparr>ng_id = ''catalog'', ng_label = ''Catalog'', ng_items =
        [nav_item ''Products'' ''/products'' ''box'' (Some ''catalog:read'') True,
         nav_item ''Catalog sync'' ''/products/sync'' ''refresh-cw'' (Some ''catalog:write'') False,
         nav_item ''Events'' ''/events/submit'' ''activity'' (Some ''events:write'') False,
         nav_item ''Datasets'' ''/datasets'' ''database'' (Some ''training:read'') False]\<rparr>,
      \<lparr>ng_id = ''models'', ng_label = ''Models'', ng_items =
        [nav_item ''Training'' ''/training'' ''cpu'' (Some ''training:read'') False,
         nav_item ''Model Versions'' ''/models'' ''layers'' (Some ''models:read'') False,
         nav_item ''Rules'' ''/recommendation-rules'' ''sliders'' (Some ''models:read'') False,
         nav_item ''Playground'' ''/playground'' ''play'' (Some ''recommendations:read'') False]\<rparr>,
      \<lparr>ng_id = ''integrate'', ng_label = ''Integrate'', ng_items =
        [nav_item ''Integration'' ''/integration'' ''plug'' None False,
         nav_item ''API Credentials'' ''/credentials'' ''key'' (Some ''keys:write'') False]\<rparr>,
      \<lparr>ng_id = ''workspace'', ng_label = ''Workspace'', ng_items =
        [nav_item ''Team members'' ''/users'' ''users'' (Some ''users:write'') False,
         nav_item ''Usage & Quotas'' ''/usage'' ''gauge'' (Some ''usage:read'') False,
         nav_item ''Audit trail'' ''/audit'' ''activity'' (Some ''audit:read'') False,
         nav_item ''Service Status'' ''/service-status'' ''server'' (Some ''deployments:read'') False,
         nav_item ''Account'' ''/account'' ''user'' None False]\<rparr>]"

definition PLATFORM_NAV :: "NavGroup list" where
  "PLATFORM_NAV =
     [\<lparr>ng_id = ''platform'', ng_label = ''Platform'', ng_items =
        [nav_item ''Platform Status'' ''/admin/status'' ''server'' None False,
         nav_item ''Tenants'' ''/admin/tenants'' ''users'' (Some ''platform|plan_management|monitoring|audit'') False,
         nav_item ''Plans & Quotas'' ''/admin/plans'' ''gauge'' (Some ''plan_management|platform|monitoring'') False,
         nav_item ''Plan requests'' ''/admin/plan-requests'' ''check'' (Some ''plan_management|platform|monitoring'') False,
         nav_item ''Usage'' ''/admin/usage'' ''gauge'' (Some ''monitoring|plan_management'') False,
         nav_item ''Failures & Audit'' ''/admin/audit'' ''activity'' (Some ''audit|monitoring'') False,
         nav_item ''Operators'' ''/admin/operators'' ''users'' (Some ''operator_admin'') False]\<rparr>]"

definition isActive :: "NavItem \<Rightarrow> string \<Rightarrow> bool" where
  "isActive item pathname =
     (if ni_to item = ''/products''
      then pathname = ''/products'' \<or> (starts_with pathname ''/products/'' \<and> pathname \<noteq> ''/products/sync'')
      else if ni_end item then pathname = ni_to item
      else pathname = ni_to item \<or> starts_with pathname (ni_to item @ ''/''))"

definition item_visible :: "(string \<Rightarrow> bool) \<Rightarrow> NavItem \<Rightarrow> bool" where
  "item_visible can item = (\<not> truthy (ni_scope item) \<or> can (the (ni_scope item)))"

text \<open>The list of closed groups kept in the browser, and what \<open>Nav\<close> renders from it.\<close>

record NavView =
  nv_id :: string
  nv_closed :: bool
  nv_items :: "(NavItem \<times> bool) list"

definition group_closed :: "bool \<Rightarrow> string list \<Rightarrow> string \<Rightarrow> (string \<Rightarrow> bool) \<Rightarrow> NavGroup \<Rightarrow> bool" where
  "group_closed collapsed shut pathname can grp =
     (\<not> collapsed \<and> ng_label grp \<noteq> [] \<and> ng_id grp \<in> set shut \<and>
      \<not> list_ex (\<lambda>item. isActive item pathname) (filter (item_visible can) (ng_items grp)))"

definition Nav ::
    "NavGroup list \<Rightarrow> (string \<Rightarrow> bool) \<Rightarrow> bool \<Rightarrow> string list \<Rightarrow> string \<Rightarrow> NavView list" where
  "Nav groups can collapsed shut pathname =
     concat (map (\<lambda>grp.
       let items = filter (item_visible can) (ng_items grp) in
       if items = [] then []
       else [\<lparr>nv_id = ng_id grp, nv_closed = group_closed collapsed shut pathname can grp,
              nv_items = map (\<lambda>item. (item, isActive item pathname)) items\<rparr>]) groups)"

definition click_heading :: "NavView \<Rightarrow> string list \<Rightarrow> string list" where
  "click_heading v shut =
     (if nv_closed v then filter (\<lambda>i. i \<noteq> nv_id v) shut else shut @ [nv_id v])"

text \<open>The platform menu asks for one of the operator roles named in the scope.\<close>

definition OPERATOR_ROLES :: "OperatorRole list" where
  "OPERATOR_ROLES =
     [role_platform, role_plan_management, role_monitoring, role_audit, role_operator_admin]"

definition role_named :: "string \<Rightarrow> OperatorRole option" where
  "role_named name = List.find (\<lambda>r. operator_role_name r = name) OPERATOR_ROLES"

definition platform_can :: "PlatformSession option \<Rightarrow> string \<Rightarrow> bool" where
  "platform_can session scope =
     hasOperatorRole session (List.map_filter role_named (js_split CHR ''|'' scope))"

section \<open>The user menu\<close>

text \<open>\<open>/\d{3,}/\<close> and \<open>/^[a-f0-9-]{8,}$/i\<close>.\<close>

fun three_digits :: "string \<Rightarrow> bool" where
  "three_digits (a # b # c # r) = (is_digit a \<and> is_digit b \<and> is_digit c \<or> three_digits (b # c # r))"
| "three_digits _ = False"

definition hex_handle :: "string \<Rightarrow> bool" where
  "hex_handle s =
     (8 \<le> length s \<and>
      list_all (\<lambda>c. is_digit c \<or> c = CHR ''-'' \<or> lower_char c \<in> set ''abcdef'') s)"

text \<open>\<open>split\<close> on runs of the given characters, without the empty parts.\<close>

fun words_by :: "(char \<Rightarrow> bool) \<Rightarrow> string \<Rightarrow> string list" where
  "words_by sep [] = []"
| "words_by sep (c # cs) =
     (if sep c then words_by sep cs
      else (case cs of
              [] \<Rightarrow> [[c]]
            | d # _ \<Rightarrow> if sep d then [c] # words_by sep cs
                      else (case words_by sep cs of [] \<Rightarrow> [[c]] | w # ws \<Rightarrow> (c # w) # ws)))"

definition displayName :: "string option \<Rightarrow> TenantUserRole option \<Rightarrow> string" where
  "displayName email role =
     (let local = hd (js_split CHR ''@'' (or_else email [])) in
      if local = [] then ''Signed-in user''
      else if three_digits local \<or> hex_handle local
      then (if role = Some tenant_administrator then ''Workspace owner'' else ''Team member'')
      else js_join '' '' (map capitalize (words_by (\<lambda>c. c \<in> set ''._-'') local)))"

definition initials :: "string \<Rightarrow> string" where
  "initials name =
     (let parts = words_by js_space name in
      to_upper ((if parts = [] then ''?'' else [hd (hd parts)])
                @ (if length parts > 1 then [hd (last parts)] else [])))"

section \<open>The quota line\<close>

record QuotaLine =
  ql_tone :: string
  ql_label :: string
  ql_class :: string
  ql_width :: nat

definition SidebarQuotaWidget :: "(int \<times> int option) list \<Rightarrow> QuotaLine option" where
  "SidebarQuotaWidget dims =
     (if dims = [] then None
      else let e = length (filter (\<lambda>(u, l). q_status (quotaState u l) = exhausted) dims);
               a = length (filter (\<lambda>(u, l). q_status (quotaState u l) = approaching) dims)
           in Some \<lparr>ql_tone = (if e \<noteq> 0 then ''is-danger'' else if a \<noteq> 0 then ''is-warn'' else []),
                    ql_label = (if e \<noteq> 0 then show_nat e @ '' limit reached''
                                else if a \<noteq> 0 then show_nat a @ '' limit near cap''
                                else ''Quotas within limits''),
                    ql_class = (if e \<noteq> 0 then ''danger'' else if a \<noteq> 0 then ''warn'' else ''ok''),
                    ql_width = (if e \<noteq> 0 then 100 else if a \<noteq> 0 then 85 else 30)\<rparr>)"

text \<open>\<open>GraphRec v1.2 \<dots> development\<close>, hidden until known and in a collapsed sidebar.\<close>

definition ProductVersion :: "(string \<times> bool) option \<Rightarrow> bool \<Rightarrow> string option" where
  "ProductVersion meta0 collapsed =
     (case meta0 of
        None \<Rightarrow> None
      | Some (version, development) \<Rightarrow>
          if collapsed then None
          else Some (''GraphRec v'' @ version @ (if development then '' '' @ mid_dot @ '' development'' else [])))"

section \<open>Menu keyboard\<close>

datatype Key = ArrowDown | ArrowUp | Home | End | OtherKey

text \<open>The index of the item that gets the focus: \<open>n\<close> items, the focus at \<open>i\<close>, minus one outside.\<close>

definition menuKeys :: "Key \<Rightarrow> int \<Rightarrow> int \<Rightarrow> int option" where
  "menuKeys key n i =
     (if key = OtherKey \<or> n = 0 then None
      else Some (if key = Home then 0 else if key = End then n - 1
                 else if key = ArrowDown then (i + 1) mod n
                 else (i - 1 + n) mod n))"

end
