(* ===== verification/Routes.thy ===== *)
theory Routes
  imports Navigation
begin

text \<open>
  Routes and guards (\<open>web/src/App.tsx\<close>, the guards of \<open>web/src/layouts/Layouts.tsx\<close>) and the
  command palette (\<open>web/src/ui/CommandPalette.tsx\<close>). A route is the chain of its layout routes
  and its element; rendering it either shows a page or redirects. Which route a path selects is the
  router's: \<open>matcher\<close> is an argument, and where a property needs it to know a static path, that is
  a hypothesis.
\<close>

section \<open>Routes\<close>

datatype Layout =
    MarketingLayout | DocsLayout | PublicLayout | RequireTenant | TenantLayout
  | RequirePlatform | PlatformLayout | ErrorLayout

datatype Element =
    Root | SetupRedirect | NavigateTo string | Elem string | Scoped string string

record route =
  rt_path :: string
  rt_layouts :: "Layout list"
  rt_element :: Element

definition route :: "string \<Rightarrow> Layout list \<Rightarrow> Element \<Rightarrow> route" where
  "route path layouts element = \<lparr>rt_path = path, rt_layouts = layouts, rt_element = element\<rparr>"

definition ROUTES :: "route list" where
  "ROUTES =
     [route ''/'' [] Root,
      route ''/pricing'' [MarketingLayout] (Elem ''PricingPage''),
      route ''/docs'' [DocsLayout] (Elem ''DocsGettingStartedPage''),
      route ''/docs/getting-started'' [DocsLayout] (Elem ''DocsGettingStartedPage''),
      route ''/docs/authentication'' [DocsLayout] (Elem ''DocsAuthPage''),
      route ''/docs/reference'' [DocsLayout] (Elem ''DocsApiReferencePage''),
      route ''/docs/sdk'' [DocsLayout] (Elem ''DocsSdkPage''),
      route ''/docs/guides'' [DocsLayout] (Elem ''DocsGuidesPage''),
      route ''/docs/errors-and-limits'' [DocsLayout] (Elem ''DocsErrorsLimitsPage''),
      route ''/login'' [PublicLayout] (Elem ''LoginPage''),
      route ''/register'' [PublicLayout] (Elem ''RegisterPage''),
      route ''/setup'' [PublicLayout] (Elem ''SetupPage''),
      route ''/invite/accept'' [PublicLayout] (Elem ''SetupPage''),
      route ''/recover'' [PublicLayout] (Elem ''RecoverPage''),
      route ''/recover/confirm'' [PublicLayout] SetupRedirect,
      route ''/admin/login'' [PublicLayout] (Elem ''AdminLoginPage''),
      route ''/home'' [RequireTenant, TenantLayout] (Elem ''HomePage''),
      route ''/account'' [RequireTenant, TenantLayout] (Elem ''AccountPage''),
      route ''/account/tenant-status'' [RequireTenant, TenantLayout] (Elem ''TenantStatusPage''),
      route ''/users'' [RequireTenant, TenantLayout] (Scoped ''users:write'' ''UsersPage''),
      route ''/audit'' [RequireTenant, TenantLayout] (Scoped ''audit:read'' ''AuditPage''),
      route ''/integration'' [RequireTenant, TenantLayout] (Elem ''IntegrationPage''),
      route ''/credentials'' [RequireTenant, TenantLayout] (Scoped ''keys:write'' ''CredentialsPage''),
      route ''/products'' [RequireTenant, TenantLayout] (Scoped ''catalog:read'' ''ProductsPage''),
      route ''/products/new'' [RequireTenant, TenantLayout] (Scoped ''catalog:write'' ''ProductNewPage''),
      route ''/products/sync'' [RequireTenant, TenantLayout] (Scoped ''catalog:write'' ''ProductSyncPage''),
      route ''/products/:productId'' [RequireTenant, TenantLayout] (Scoped ''catalog:read'' ''ProductDetailPage''),
      route ''/events/submit'' [RequireTenant, TenantLayout] (Scoped ''events:write'' ''EventsPage''),
      route ''/submissions/:submissionId'' [RequireTenant, TenantLayout] (Scoped ''events:read'' ''SubmissionPage''),
      route ''/datasets'' [RequireTenant, TenantLayout] (Scoped ''training:read'' ''DatasetsPage''),
      route ''/training'' [RequireTenant, TenantLayout] (Scoped ''training:read'' ''TrainingPage''),
      route ''/training/:jobId'' [RequireTenant, TenantLayout] (Scoped ''training:read'' ''TrainingJobPage''),
      route ''/models'' [RequireTenant, TenantLayout] (Scoped ''models:read'' ''ModelsPage''),
      route ''/models/:versionId'' [RequireTenant, TenantLayout] (Scoped ''models:read'' ''ModelVersionPage''),
      route ''/recommendation-rules'' [RequireTenant, TenantLayout] (Scoped ''models:read'' ''RecommendationRulesPage''),
      route ''/playground'' [RequireTenant, TenantLayout] (Scoped ''recommendations:read'' ''PlaygroundPage''),
      route ''/usage'' [RequireTenant, TenantLayout] (Scoped ''usage:read'' ''UsagePage''),
      route ''/service-status'' [RequireTenant, TenantLayout] (Scoped ''deployments:read'' ''ServiceStatusPage''),
      route ''/admin'' [] (NavigateTo ''/admin/status''),
      route ''/admin/status'' [RequirePlatform, PlatformLayout] (Elem ''PlatformStatusPage''),
      route ''/admin/tenants'' [RequirePlatform, PlatformLayout] (Elem ''PlatformTenantsPage''),
      route ''/admin/tenants/:tenantId'' [RequirePlatform, PlatformLayout] (Elem ''PlatformTenantPage''),
      route ''/admin/plans'' [RequirePlatform, PlatformLayout] (Elem ''PlatformPlansPage''),
      route ''/admin/plans/:planId'' [RequirePlatform, PlatformLayout] (Elem ''PlatformPlanPage''),
      route ''/admin/plan-requests'' [RequirePlatform, PlatformLayout] (Elem ''PlatformPlanRequestsPage''),
      route ''/admin/usage'' [RequirePlatform, PlatformLayout] (Elem ''PlatformUsagePage''),
      route ''/admin/audit'' [RequirePlatform, PlatformLayout] (Elem ''PlatformAuditPage''),
      route ''/admin/operators'' [RequirePlatform, PlatformLayout] (Elem ''PlatformOperatorsPage''),
      route ''/403'' [ErrorLayout] (Elem ''ForbiddenPage''),
      route ''/404'' [ErrorLayout] (Elem ''NotFoundPage''),
      route ''/error'' [ErrorLayout] (Elem ''FailurePage''),
      route ''*'' [ErrorLayout] (Elem ''NotFoundPage'')]"

section \<open>Guards\<close>

text \<open>What the guards read: the sessions, the place, and the flag of an explicit sign-out.\<close>

record visitor =
  v_tenant :: "TenantSession option"
  v_platform :: "PlatformSession option"
  v_signed_out :: bool
  v_pathname :: string
  v_search :: string

text \<open>A redirect goes to a path, with the place to return to where the guard keeps it.\<close>

datatype outcome = Shows string | Redirects string "string option"

definition isRestrictedSession :: "string list \<Rightarrow> bool" where
  "isRestrictedSession scopes = (scopes = [''account:status''])"

definition RequireTenant_guard :: "visitor \<Rightarrow> outcome option \<times> visitor" where
  "RequireTenant_guard v =
     (case v_tenant v of
        Some _ \<Rightarrow> (None, v)
      | None \<Rightarrow>
          if v_signed_out v then (Some (Redirects ''/login'' None), v\<lparr>v_signed_out := False\<rparr>)
          else (Some (Redirects ''/login'' (Some (v_pathname v @ v_search v))), v))"

definition TenantLayout_guard :: "visitor \<Rightarrow> outcome option" where
  "TenantLayout_guard v =
     (case v_tenant v of
        None \<Rightarrow> Some (Redirects ''/login'' None)
      | Some s \<Rightarrow>
          if isRestrictedSession (tn_scopes s) \<and> v_pathname v \<noteq> ''/account/tenant-status''
          then Some (Redirects ''/account/tenant-status'' None) else None)"

definition RequirePlatform_guard :: "visitor \<Rightarrow> outcome option" where
  "RequirePlatform_guard v =
     (if v_platform v = None
      then Some (Redirects ''/admin/login'' (Some (v_pathname v @ v_search v))) else None)"

definition PlatformLayout_guard :: "visitor \<Rightarrow> outcome option" where
  "PlatformLayout_guard v =
     (if v_platform v = None then Some (Redirects ''/admin/login'' None) else None)"

definition ErrorLayout_guard :: "visitor \<Rightarrow> outcome option" where
  "ErrorLayout_guard v =
     (if v_tenant v \<noteq> None then TenantLayout_guard v
      else if v_platform v \<noteq> None then PlatformLayout_guard v else None)"

definition RequireScope_guard :: "string \<Rightarrow> visitor \<Rightarrow> outcome option" where
  "RequireScope_guard scope v =
     (if hasScope (v_tenant v) scope then None else Some (Redirects ''/403'' None))"

fun layout_guard :: "Layout \<Rightarrow> visitor \<Rightarrow> outcome option \<times> visitor" where
  "layout_guard RequireTenant v = RequireTenant_guard v"
| "layout_guard TenantLayout v = (TenantLayout_guard v, v)"
| "layout_guard RequirePlatform v = (RequirePlatform_guard v, v)"
| "layout_guard PlatformLayout v = (PlatformLayout_guard v, v)"
| "layout_guard ErrorLayout v = (ErrorLayout_guard v, v)"
| "layout_guard _ v = (None, v)"

definition Root_element :: "visitor \<Rightarrow> outcome" where
  "Root_element v =
     (if v_tenant v \<noteq> None then Redirects ''/home'' None
      else if v_platform v \<noteq> None then Redirects ''/admin/status'' None
      else Shows ''LandingPage'')"

definition scoped :: "string \<Rightarrow> string \<Rightarrow> visitor \<Rightarrow> outcome" where
  "scoped scope element v =
     (case RequireScope_guard scope v of Some out \<Rightarrow> out | None \<Rightarrow> Shows element)"

fun element_outcome :: "Element \<Rightarrow> visitor \<Rightarrow> outcome" where
  "element_outcome Root v = Root_element v"
| "element_outcome SetupRedirect v = Redirects ''/setup'' None"
| "element_outcome (NavigateTo to) v = Redirects to None"
| "element_outcome (Elem page) v = Shows page"
| "element_outcome (Scoped scope page) v = scoped scope page v"

fun render_chain :: "Layout list \<Rightarrow> Element \<Rightarrow> visitor \<Rightarrow> outcome \<times> visitor" where
  "render_chain [] e v = (element_outcome e v, v)"
| "render_chain (l # ls) e v =
     (case layout_guard l v of (Some out, v1) \<Rightarrow> (out, v1) | (None, v1) \<Rightarrow> render_chain ls e v1)"

definition render :: "route \<Rightarrow> visitor \<Rightarrow> outcome \<times> visitor" where
  "render r v = render_chain (rt_layouts r) (rt_element r) v"

text \<open>Following redirects, at most \<open>fuel\<close> of them.\<close>

fun navigate :: "(string \<Rightarrow> route) \<Rightarrow> nat \<Rightarrow> visitor \<Rightarrow> string option" where
  "navigate matcher fuel v =
     (case render (matcher (v_pathname v)) v of
        (Shows page, v1) \<Rightarrow> Some page
      | (Redirects to from0, v1) \<Rightarrow>
          (case fuel of
             0 \<Rightarrow> None
           | Suc n \<Rightarrow> navigate matcher n (v1\<lparr>v_pathname := to, v_search := []\<rparr>)))"

declare navigate.simps [simp del]

section \<open>The command palette\<close>

record CommandItem =
  ci_id :: string
  ci_label :: string
  ci_to :: string
  ci_icon :: string
  ci_section :: string
  ci_scope :: "string option"
  ci_keywords :: "string list"

definition command ::
    "string \<Rightarrow> string \<Rightarrow> string \<Rightarrow> string \<Rightarrow> string \<Rightarrow> string option \<Rightarrow> string list \<Rightarrow> CommandItem" where
  "command i label to icon section0 scope keywords =
     \<lparr>ci_id = i, ci_label = label, ci_to = to, ci_icon = icon, ci_section = section0,
      ci_scope = scope, ci_keywords = keywords\<rparr>"

definition TENANT_COMMANDS :: "CommandItem list" where
  "TENANT_COMMANDS =
     [command ''home'' ''Overview'' ''/home'' ''home'' ''Overview'' None
         [''dashboard'', ''kpi'', ''metrics''],
      command ''products'' ''Products'' ''/products'' ''box'' ''Catalog'' (Some ''catalog:read'')
         [''catalog'', ''items'', ''sku''],
      command ''sync'' ''Catalog sync'' ''/products/sync'' ''refresh-cw'' ''Catalog'' (Some ''catalog:write'')
         [''sync'', ''import'', ''batch''],
      command ''events'' ''Interaction Events'' ''/events/submit'' ''activity'' ''Catalog'' (Some ''events:write'')
         [''events'', ''stream'', ''interactions'', ''clicks'', ''purchases''],
      command ''datasets'' ''Datasets'' ''/datasets'' ''database'' ''Catalog'' (Some ''training:read'')
         [''snapshots'', ''training data'', ''splits''],
      command ''training'' ''Training Jobs'' ''/training'' ''cpu'' ''Models'' (Some ''training:read'')
         [''jobs'', ''train'', ''retrain'', ''epochs''],
      command ''models'' ''Model Versions'' ''/models'' ''layers'' ''Models'' (Some ''models:read'')
         [''serving'', ''production'', ''rollback'', ''promote''],
      command ''rules'' ''Recommendation Rules'' ''/recommendation-rules'' ''sliders'' ''Models'' (Some ''models:read'')
         [''boost'', ''bury'', ''filter'', ''pin''],
      command ''playground'' ''Recommendation Playground'' ''/playground'' ''play'' ''Models'' (Some ''recommendations:read'')
         [''test'', ''preview'', ''curl'', ''recs''],
      command ''integration'' ''Integration Guide'' ''/integration'' ''plug'' ''Integrate'' None
         [''sdk'', ''api'', ''curl'', ''python'', ''docs''],
      command ''credentials'' ''API Credentials'' ''/credentials'' ''key'' ''Integrate'' (Some ''keys:write'')
         [''keys'', ''tokens'', ''secrets'', ''auth''],
      command ''users'' ''Team members'' ''/users'' ''users'' ''Workspace'' (Some ''users:write'')
         [''members'', ''roles'', ''invite''],
      command ''usage'' ''Usage & Quotas'' ''/usage'' ''gauge'' ''Workspace'' (Some ''usage:read'')
         [''billing'', ''limits'', ''capacity'', ''trends''],
      command ''audit'' ''Audit trail'' ''/audit'' ''activity'' ''Workspace'' (Some ''audit:read'')
         [''logs'', ''security'', ''activity''],
      command ''status'' ''Service Status'' ''/service-status'' ''server'' ''Workspace'' (Some ''deployments:read'')
         [''uptime'', ''health'', ''latency'', ''deployment''],
      command ''account'' ''Account Settings'' ''/account'' ''user'' ''Workspace'' None
         [''profile'', ''password'', ''settings''],
      command ''pricing'' ''Plans & Pricing'' ''/pricing'' ''gauge'' ''Workspace'' None
         [''upgrade'', ''tier'', ''limits'']]"

definition PLATFORM_COMMANDS :: "CommandItem list" where
  "PLATFORM_COMMANDS =
     [command ''p-status'' ''Platform Status'' ''/admin/status'' ''server'' ''Platform'' None
         [''health'', ''system'', ''uptime''],
      command ''p-tenants'' ''Tenant Workspaces'' ''/admin/tenants'' ''users'' ''Platform'' None
         [''tenants'', ''customers'', ''workspaces''],
      command ''p-plans'' ''Plans & Quotas'' ''/admin/plans'' ''gauge'' ''Platform'' None
         [''tiers'', ''pricing'', ''limits''],
      command ''p-usage'' ''Platform Usage'' ''/admin/usage'' ''gauge'' ''Platform'' None
         [''aggregate'', ''billing'', ''consumption''],
      command ''p-audit'' ''Failures & Audit'' ''/admin/audit'' ''activity'' ''Platform'' None
         [''logs'', ''errors'', ''security''],
      command ''p-operators'' ''Platform Operators'' ''/admin/operators'' ''users'' ''Platform'' None
         [''admins'', ''staff'', ''permissions'']]"

definition accessible :: "bool \<Rightarrow> (string \<Rightarrow> bool) \<Rightarrow> CommandItem list" where
  "accessible isPlatform can =
     filter (\<lambda>item. \<not> truthy (ci_scope item) \<or> can (the (ci_scope item)))
       (if isPlatform then PLATFORM_COMMANDS else TENANT_COMMANDS)"

definition command_matches :: "string \<Rightarrow> CommandItem \<Rightarrow> bool" where
  "command_matches q item =
     (js_includes (to_lower (ci_label item)) q \<or> js_includes (to_lower (ci_section item)) q \<or>
      js_includes (to_lower (ci_to item)) q \<or>
      list_ex (\<lambda>k. js_includes (to_lower k) q) (ci_keywords item))"

definition filteredItems :: "bool \<Rightarrow> (string \<Rightarrow> bool) \<Rightarrow> string \<Rightarrow> CommandItem list" where
  "filteredItems isPlatform can query =
     (let q = to_lower (js_trim query) in
      if q = [] then accessible isPlatform can
      else filter (command_matches q) (accessible isPlatform can))"

record palette =
  pal_query :: string
  pal_selected :: nat

definition palette_open :: palette where
  "palette_open = \<lparr>pal_query = [], pal_selected = 0\<rparr>"

definition set_query :: "string \<Rightarrow> palette \<Rightarrow> palette" where
  "set_query q p = p\<lparr>pal_query := q, pal_selected := (if q = pal_query p then pal_selected p else 0)\<rparr>"

datatype PaletteKey = PalDown | PalUp | PalEnter | PalEscape | PalOther

datatype PaletteResult = Stays palette | Opens string | Closes

text \<open>\<open>handleKeyDown\<close> with the items on screen.\<close>

definition handleKeyDown :: "CommandItem list \<Rightarrow> PaletteKey \<Rightarrow> palette \<Rightarrow> PaletteResult" where
  "handleKeyDown items key p =
     (let n = length items in
      case key of
        PalDown \<Rightarrow> Stays (p\<lparr>pal_selected := (if n \<noteq> 0 then (pal_selected p + 1) mod n else 0)\<rparr>)
      | PalUp \<Rightarrow> Stays (p\<lparr>pal_selected := (if n \<noteq> 0 then nat ((int (pal_selected p) - 1 + int n) mod int n) else 0)\<rparr>)
      | PalEnter \<Rightarrow> if pal_selected p < n then Opens (ci_to (items ! pal_selected p)) else Stays p
      | PalEscape \<Rightarrow> Closes
      | PalOther \<Rightarrow> Stays p)"

end
