(* ===== verification/RouteProps.thy ===== *)
theory RouteProps
  imports Routes
begin

text \<open>
  What the menus, the guards and the palette promise together: one highlighted entry, no page without
  its session and scope, no redirect loop, entries that open their page, and the palette's keyboard.
  The tables are checked by evaluation; the guards by cases on the chain of layouts.
\<close>

section \<open>Tables\<close>

definition tenant_items :: "NavItem list" where
  "tenant_items = concat (map ng_items TENANT_NAV)"

definition platform_items :: "NavItem list" where
  "platform_items = concat (map ng_items PLATFORM_NAV)"

definition apart :: "NavItem list \<Rightarrow> bool" where
  "apart items =
     list_all (\<lambda>i. list_all (\<lambda>j. i = j \<or> \<not> starts_with (ni_to i) (ni_to j) \<or>
        ni_to i = ''/products/sync'' \<and> ni_to j = ''/products'') items) items"

lemma menu_tables [nav_simps]:
  "apart tenant_items" "apart platform_items" "distinct tenant_items" "distinct platform_items"
  by code_simp+

lemma isActive_prefix: "isActive item p \<Longrightarrow> prefix (ni_to item) p"
  by (auto simp: isActive_def starts_with_prefix prefix_def split: if_splits)

lemma active_unique:
  assumes "apart items" "i \<in> set items" "j \<in> set items" "isActive i p" "isActive j p"
    and "\<not> starts_with p ''/products/sync/''"
  shows "i = j"
proof (rule ccontr)
  assume ne: "i \<noteq> j"
  have pair: "ni_to a = ''/products/sync'' \<and> ni_to b = ''/products''"
    if "a \<in> set items" "b \<in> set items" "a \<noteq> b" "prefix (ni_to b) (ni_to a)" for a b
    using assms(1) that by (auto simp: apart_def list_all_iff starts_with_prefix)
  have clash: False
    if "ni_to a = ''/products/sync''" "ni_to b = ''/products''" "isActive a p" "isActive b p" for a b
    using that assms(6) by (auto simp: isActive_def split: if_splits)
  have "prefix (ni_to i) (ni_to j) \<or> prefix (ni_to j) (ni_to i)"
    using isActive_prefix [OF assms(4)] isActive_prefix [OF assms(5)] by (rule prefix_same_cases)
  then show False
  proof
    assume "prefix (ni_to i) (ni_to j)"
    from pair [OF assms(3,2) ne [symmetric] this] clash [of j i] assms(4,5) show False by simp
  next
    assume "prefix (ni_to j) (ni_to i)"
    from pair [OF assms(2,3) ne this] clash [of i j] assms(4,5) show False by simp
  qed
qed

lemma filter_le_one:
  "distinct xs \<Longrightarrow> (\<And>x y. x \<in> set xs \<Longrightarrow> y \<in> set xs \<Longrightarrow> P x \<Longrightarrow> P y \<Longrightarrow> x = y) \<Longrightarrow> length (filter P xs) \<le> 1"
proof (induction xs)
  case (Cons x xs)
  show ?case
  proof (cases "P x")
    case True
    have "filter P xs = []"
      using Cons.prems True by (auto simp: filter_empty_conv)
    with True show ?thesis by simp
  qed (use Cons in auto)
qed simp

text \<open>One place at a time. For any path outside \<open>/products/sync/\<close> at most one entry of the tenant
  menu and at most one of the platform menu is highlighted, every entry is highlighted at its own
  path, and the group of a visible highlighted entry is never folded away. Under \<open>/products/sync/\<close>, a
  trailing slash being enough, Products and Catalog sync are highlighted together.\<close>

lemma single_active_entry:
  "(\<not> starts_with p ''/products/sync/'' \<longrightarrow>
      length (filter (\<lambda>i. isActive i p) tenant_items) \<le> 1 \<and>
      length (filter (\<lambda>i. isActive i p) platform_items) \<le> 1) \<and>
   list_all (\<lambda>i. isActive i (ni_to i)) (tenant_items @ platform_items) \<and>
   (item \<in> set (ng_items g) \<and> item_visible can item \<and> isActive item p \<longrightarrow>
      \<not> group_closed collapsed shut p can g) \<and>
   map ni_label (filter (\<lambda>i. isActive i ''/products/sync/'') tenant_items) = [''Products'', ''Catalog sync'']"
proof -
  have "length (filter (\<lambda>i. isActive i p) items) \<le> 1"
    if "apart items" "distinct items" "\<not> starts_with p ''/products/sync/''" for items
    using that by (intro filter_le_one) (auto intro: active_unique)
  moreover have "list_all (\<lambda>i. isActive i (ni_to i)) (tenant_items @ platform_items)" by code_simp
  moreover have "map ni_label (filter (\<lambda>i. isActive i ''/products/sync/'') tenant_items) =
      [''Products'', ''Catalog sync'']" by code_simp
  moreover have "\<not> group_closed collapsed shut p can g"
    if "item \<in> set (ng_items g)" "item_visible can item" "isActive item p"
    using that by (auto simp: group_closed_def list_ex_iff)
  ultimately show ?thesis using menu_tables by blast
qed

theorem single_active_entry_witness:
  "length (filter (\<lambda>i. isActive i ''/products/p1'') tenant_items) \<le> 1"
proof -
  have "\<not> starts_with ''/products/p1'' ''/products/sync/''" by code_simp
  with single_active_entry [of "''/products/p1''"] show ?thesis by blast
qed

section \<open>Guards\<close>

text \<open>The pages anyone may open.\<close>

definition public_pages :: "string list" where
  "public_pages =
     [''LandingPage'', ''PricingPage'', ''DocsGettingStartedPage'', ''DocsAuthPage'',
      ''DocsApiReferencePage'', ''DocsSdkPage'', ''DocsGuidesPage'', ''DocsErrorsLimitsPage'',
      ''LoginPage'', ''RegisterPage'', ''SetupPage'', ''RecoverPage'', ''AdminLoginPage'',
      ''ForbiddenPage'', ''NotFoundPage'', ''FailurePage'']"

definition element_public :: "Element \<Rightarrow> bool" where
  "element_public e = (case e of Elem p \<Rightarrow> p \<in> set public_pages | Scoped _ _ \<Rightarrow> False | _ \<Rightarrow> True)"

definition well_guarded :: "route \<Rightarrow> bool" where
  "well_guarded r =
     (rt_layouts r = [RequireTenant, TenantLayout] \<or> rt_layouts r = [RequirePlatform, PlatformLayout] \<or>
      rt_layouts r \<in> {[], [MarketingLayout], [DocsLayout], [PublicLayout], [ErrorLayout]} \<and>
        element_public (rt_element r))"

lemma routes_guarded: "list_all well_guarded ROUTES"
  by code_simp

lemma element_public_page: "element_public e \<Longrightarrow> element_outcome e v = Shows page \<Longrightarrow> page \<in> set public_pages"
  by (cases e) (auto simp: element_public_def Root_element_def public_pages_def split: if_splits)

lemma tenant_chain:
  "fst (render_chain [RequireTenant, TenantLayout] e v) =
     (case v_tenant v of
        None \<Rightarrow> Redirects ''/login'' (if v_signed_out v then None else Some (v_pathname v @ v_search v))
      | Some s \<Rightarrow>
          if isRestrictedSession (tn_scopes s) \<and> v_pathname v \<noteq> ''/account/tenant-status''
          then Redirects ''/account/tenant-status'' None
          else element_outcome e v)"
  by (simp add: RequireTenant_guard_def TenantLayout_guard_def split: option.split)

lemma platform_chain:
  "fst (render_chain [RequirePlatform, PlatformLayout] e v) =
     (if v_platform v = None then Redirects ''/admin/login'' (Some (v_pathname v @ v_search v))
      else element_outcome e v)"
  by (simp add: RequirePlatform_guard_def PlatformLayout_guard_def)

lemma scoped_shows:
  "scoped scope page v = Shows page' \<longleftrightarrow> page' = page \<and> hasScope (v_tenant v) scope"
  by (auto simp: scoped_def RequireScope_guard_def)

text \<open>C11: no page without its session. Whatever route is rendered for whatever sessions, a page that
  is not public is shown only to a tenant session that holds the scope of its route and, when it is
  restricted to the account status, only at the status path; or, on the platform routes, to an
  operator session.\<close>

theorem private_pages_guarded:
  assumes "r \<in> set ROUTES" "fst (render r v) = Shows page" "page \<notin> set public_pages"
  shows "RequireTenant \<in> set (rt_layouts r) \<and>
      (\<exists>s. v_tenant v = Some s \<and>
         (\<forall>scope p. rt_element r = Scoped scope p \<longrightarrow> scope \<in> set (tn_scopes s)) \<and>
         (isRestrictedSession (tn_scopes s) \<longrightarrow> v_pathname v = ''/account/tenant-status'')) \<or>
    RequirePlatform \<in> set (rt_layouts r) \<and> v_platform v \<noteq> None"
proof -
  have "well_guarded r" using routes_guarded assms(1) by (simp add: list_all_iff)
  then consider (t) "rt_layouts r = [RequireTenant, TenantLayout]"
    | (p) "rt_layouts r = [RequirePlatform, PlatformLayout]"
    | (o) "rt_layouts r \<in> {[], [MarketingLayout], [DocsLayout], [PublicLayout], [ErrorLayout]}"
        "element_public (rt_element r)"
    by (auto simp: well_guarded_def)
  then show ?thesis
  proof cases
    case t
    with assms(2) show ?thesis
      unfolding render_def t tenant_chain
      by (auto simp: scoped_shows hasScope_def split: option.splits if_splits)
  next
    case p
    with assms(2) show ?thesis
      unfolding render_def p platform_chain by (auto split: if_splits)
  next
    case o
    have "element_outcome (rt_element r) v = Shows page"
      using assms(2) o(1)
      by (auto simp: render_def ErrorLayout_guard_def TenantLayout_guard_def PlatformLayout_guard_def
          split: option.splits if_splits)
    with element_public_page [OF o(2)] assms(3) show ?thesis by blast
  qed
qed

definition dev_session :: "string list \<Rightarrow> TenantSession" where
  "dev_session scopes =
     \<lparr>tn_email = ''dev@shop.example'', tn_role = tenant_developer, tn_scopes = scopes,
      tn_accessToken = Some ''A'', tn_tenantName = None, tn_refreshToken = Some ''r'',
      tn_expiresAt = Some 0, tn_signedInAt = 0\<rparr>"

definition visitor_of :: "TenantSession option \<Rightarrow> string \<Rightarrow> visitor" where
  "visitor_of s path =
     \<lparr>v_tenant = s, v_platform = None, v_signed_out = False, v_pathname = path, v_search = []\<rparr>"

theorem private_pages_guarded_witness:
  "''catalog:read'' \<in> set (tn_scopes (dev_session [''catalog:read'']))"
proof -
  let ?r = "route ''/products'' [RequireTenant, TenantLayout] (Scoped ''catalog:read'' ''ProductsPage'')"
  let ?v = "visitor_of (Some (dev_session [''catalog:read''])) ''/products''"
  have r: "?r \<in> set ROUTES" by code_simp
  have s: "fst (render ?r ?v) = Shows ''ProductsPage''" by code_simp
  have p: "''ProductsPage'' \<notin> set public_pages" by code_simp
  from private_pages_guarded [OF r s p] show ?thesis by (auto simp: route_def visitor_of_def)
qed

section \<open>Redirects end\<close>

definition static_path :: "string \<Rightarrow> bool" where
  "static_path p = (CHR '':'' \<notin> set p \<and> CHR ''*'' \<notin> set p)"

definition knows_static :: "(string \<Rightarrow> route) \<Rightarrow> bool" where
  "knows_static matcher =
     ((\<forall>r \<in> set ROUTES. static_path (rt_path r) \<longrightarrow> matcher (rt_path r) = r) \<and>
      (\<forall>p. matcher p \<in> set ROUTES))"

lemma redirect_targets:
  "list_ex (\<lambda>r. r = route ''/login'' [PublicLayout] (Elem ''LoginPage'')) ROUTES"
  "list_ex (\<lambda>r. r = route ''/admin/login'' [PublicLayout] (Elem ''AdminLoginPage'')) ROUTES"
  "list_ex (\<lambda>r. r = route ''/setup'' [PublicLayout] (Elem ''SetupPage'')) ROUTES"
  "list_ex (\<lambda>r. r = route ''/403'' [ErrorLayout] (Elem ''ForbiddenPage'')) ROUTES"
  "list_ex (\<lambda>r. r = route ''/home'' [RequireTenant, TenantLayout] (Elem ''HomePage'')) ROUTES"
  "list_ex (\<lambda>r. r = route ''/admin/status'' [RequirePlatform, PlatformLayout] (Elem ''PlatformStatusPage'')) ROUTES"
  "list_ex (\<lambda>r. r = route ''/account/tenant-status'' [RequireTenant, TenantLayout] (Elem ''TenantStatusPage'')) ROUTES"
  by code_simp+

lemma navigate_shows: "fst (render (matcher (v_pathname v)) v) = Shows page \<Longrightarrow> navigate matcher n v = Some page"
  by (subst navigate.simps) (auto split: prod.splits)

lemma navigate_redirects:
  "render (matcher (v_pathname v)) v = (Redirects to from0, v1) \<Longrightarrow>
   navigate matcher (Suc n) v = navigate matcher n (v1\<lparr>v_pathname := to, v_search := []\<rparr>)"
  by (subst navigate.simps) simp

lemma matcher_at:
  assumes "knows_static matcher" "list_ex (\<lambda>r. r = route p ls e) ROUTES" "static_path p"
  shows "matcher p = route p ls e"
  using assms by (auto simp: knows_static_def list_ex_iff route_def)

lemma shows_public:
  "matcher (v_pathname v) = route p [PublicLayout] (Elem page) \<Longrightarrow> navigate matcher n v = Some page"
  by (rule navigate_shows) (simp add: render_def route_def)

lemma at_public:
  assumes "knows_static matcher" "v_pathname v \<in> {''/login'', ''/admin/login'', ''/setup''}"
  shows "\<exists>page. navigate matcher n v = Some page"
proof -
  have "static_path ''/login''" "static_path ''/admin/login''" "static_path ''/setup''" by code_simp+
  with redirect_targets(1-3) [THEN matcher_at [OF assms(1)]]
  have m: "matcher ''/login'' = route ''/login'' [PublicLayout] (Elem ''LoginPage'')"
    "matcher ''/admin/login'' = route ''/admin/login'' [PublicLayout] (Elem ''AdminLoginPage'')"
    "matcher ''/setup'' = route ''/setup'' [PublicLayout] (Elem ''SetupPage'')" by simp_all
  from assms(2) consider "v_pathname v = ''/login''" | "v_pathname v = ''/admin/login''"
    | "v_pathname v = ''/setup''" by auto
  then show ?thesis
    by cases (use m shows_public [of matcher v] in \<open>metis\<close>)+
qed

lemma at_status:
  assumes "knows_static matcher" "v_pathname v = ''/account/tenant-status''" "v_tenant v = Some s"
  shows "navigate matcher n v = Some ''TenantStatusPage''"
proof -
  have "matcher ''/account/tenant-status'' =
      route ''/account/tenant-status'' [RequireTenant, TenantLayout] (Elem ''TenantStatusPage'')"
    by (rule matcher_at [OF assms(1) redirect_targets(7)]) code_simp
  with assms(2,3) show ?thesis
    by (intro navigate_shows)
      (simp add: render_def route_def RequireTenant_guard_def TenantLayout_guard_def)
qed

lemma at_home:
  assumes "knows_static matcher" "v_pathname v = ''/home''" "v_tenant v = Some s"
  shows "\<exists>page. navigate matcher (Suc n) v = Some page"
proof -
  have m: "matcher ''/home'' = route ''/home'' [RequireTenant, TenantLayout] (Elem ''HomePage'')"
    by (rule matcher_at [OF assms(1) redirect_targets(5)]) code_simp
  show ?thesis
  proof (cases "isRestrictedSession (tn_scopes s)")
    case True
    have "render (matcher (v_pathname v)) v = (Redirects ''/account/tenant-status'' None, v)"
      using m True assms(2,3)
      by (simp add: render_def route_def RequireTenant_guard_def TenantLayout_guard_def)
    then have "navigate matcher (Suc n) v =
        navigate matcher n (v\<lparr>v_pathname := ''/account/tenant-status'', v_search := []\<rparr>)"
      by (rule navigate_redirects)
    then show ?thesis using at_status [OF assms(1)] assms(3) by simp
  next
    case False
    then show ?thesis using m assms(2,3)
      by (intro exI [of _ "''HomePage''"] navigate_shows)
        (simp add: render_def route_def RequireTenant_guard_def TenantLayout_guard_def)
  qed
qed

lemma at_admin:
  assumes "knows_static matcher" "v_pathname v = ''/admin/status''"
  shows "\<exists>page. navigate matcher (Suc n) v = Some page"
proof -
  have m: "matcher ''/admin/status'' =
      route ''/admin/status'' [RequirePlatform, PlatformLayout] (Elem ''PlatformStatusPage'')"
    by (rule matcher_at [OF assms(1) redirect_targets(6)]) code_simp
  show ?thesis
  proof (cases "v_platform v")
    case None
    have "render (matcher (v_pathname v)) v =
        (Redirects ''/admin/login'' (Some (v_pathname v @ v_search v)), v)"
      using m None assms(2) by (simp add: render_def route_def RequirePlatform_guard_def)
    then have "navigate matcher (Suc n) v =
        navigate matcher n (v\<lparr>v_pathname := ''/admin/login'', v_search := []\<rparr>)"
      by (rule navigate_redirects)
    then show ?thesis using at_public [OF assms(1)] by simp
  next
    case (Some s)
    then show ?thesis using m assms(2)
      by (intro exI [of _ "''PlatformStatusPage''"] navigate_shows)
        (simp add: render_def route_def RequirePlatform_guard_def PlatformLayout_guard_def)
  qed
qed

lemma at_forbidden:
  assumes "knows_static matcher" "v_pathname v = ''/403''" "v_tenant v = Some s"
    "\<not> isRestrictedSession (tn_scopes s)"
  shows "navigate matcher n v = Some ''ForbiddenPage''"
proof -
  have "matcher ''/403'' = route ''/403'' [ErrorLayout] (Elem ''ForbiddenPage'')"
    by (rule matcher_at [OF assms(1) redirect_targets(4)]) code_simp
  with assms(2-4) show ?thesis
    by (intro navigate_shows)
      (simp add: render_def route_def ErrorLayout_guard_def TenantLayout_guard_def)
qed

text \<open>Where a redirect of the table can go.\<close>

inductive legal_redirect :: "visitor \<Rightarrow> string \<Rightarrow> bool" for v where
  login: "legal_redirect v ''/login''"
| admin_login: "legal_redirect v ''/admin/login''"
| set_up: "legal_redirect v ''/setup''"
| status: "v_tenant v = Some s \<Longrightarrow> legal_redirect v ''/account/tenant-status''"
| home: "v_tenant v = Some s \<Longrightarrow> legal_redirect v ''/home''"
| admin: "legal_redirect v ''/admin/status''"
| forbidden: "v_tenant v = Some s \<Longrightarrow> \<not> isRestrictedSession (tn_scopes s) \<Longrightarrow>
    legal_redirect v ''/403''"

definition redirect_ok :: "route \<Rightarrow> bool" where
  "redirect_ok r =
     (case rt_element r of
        NavigateTo to \<Rightarrow> to = ''/admin/status''
      | Scoped _ _ \<Rightarrow> rt_layouts r = [RequireTenant, TenantLayout]
      | _ \<Rightarrow> True)"

lemma routes_redirect_ok: "list_all redirect_ok ROUTES"
  by code_simp

lemma render_sessions:
  assumes "render r v = (out, v1)"
  shows "v_tenant v1 = v_tenant v \<and> v_platform v1 = v_platform v"
proof -
  have "v_tenant v1 = v_tenant v \<and> v_platform v1 = v_platform v"
    if "render_chain ls e v = (out, v1)" for ls e
    using that
  proof (induction ls arbitrary: v)
    case (Cons l ls)
    have "v_tenant (snd (layout_guard l v)) = v_tenant v \<and> v_platform (snd (layout_guard l v)) = v_platform v"
      by (cases l) (auto simp: RequireTenant_guard_def split: option.split)
    with Cons show ?case by (fastforce split: prod.splits option.splits)
  qed simp
  with assms show ?thesis by (simp add: render_def)
qed

lemma element_redirect:
  assumes "element_outcome e v = Redirects to from0"
    and "\<And>x. e = NavigateTo x \<Longrightarrow> x = ''/admin/status''"
    and "\<And>sc p. e = Scoped sc p \<Longrightarrow> \<exists>s. v_tenant v = Some s \<and> \<not> isRestrictedSession (tn_scopes s)"
  shows "legal_redirect v to"
proof (cases e)
  case Root
  with assms(1) show ?thesis
    by (cases "v_tenant v") (auto simp: Root_element_def split: if_splits intro: legal_redirect.intros)
next
  case (Scoped sc p)
  then have "to = ''/403''"
    using assms(1) by (simp add: scoped_def RequireScope_guard_def split: if_splits)
  with assms(3) [OF Scoped] show ?thesis by (auto intro: legal_redirect.forbidden)
qed (use assms in \<open>auto intro: legal_redirect.intros\<close>)

lemma redirect_goes:
  assumes "well_guarded r" "redirect_ok r" "render r v = (Redirects to from0, v1)"
    and at: "v_pathname v = ''/account/tenant-status'' \<longrightarrow> \<not> (\<exists>s p. rt_element r = Scoped s p)"
  shows "legal_redirect v to"
    (is "?goal")
proof -
  have f: "fst (render r v) = Redirects to from0" using assms(3) by simp
  have element: ?goal
    if e: "element_outcome (rt_element r) v = Redirects to from0"
      and s: "rt_layouts r = [RequireTenant, TenantLayout] \<Longrightarrow>
        \<exists>s. v_tenant v = Some s \<and> (isRestrictedSession (tn_scopes s) \<longrightarrow> v_pathname v = ''/account/tenant-status'')"
  proof (rule element_redirect [OF e])
    show "x = ''/admin/status''" if "rt_element r = NavigateTo x" for x
      using assms(2) that by (simp add: redirect_ok_def)
    show "\<exists>s. v_tenant v = Some s \<and> \<not> isRestrictedSession (tn_scopes s)"
      if x: "rt_element r = Scoped sc p" for sc p
    proof -
      have "rt_layouts r = [RequireTenant, TenantLayout]"
        using assms(2) x by (simp add: redirect_ok_def)
      from s [OF this] at x show ?thesis by blast
    qed
  qed
  from assms(1) consider (t) "rt_layouts r = [RequireTenant, TenantLayout]"
    | (p) "rt_layouts r = [RequirePlatform, PlatformLayout]"
    | (o) "rt_layouts r \<in> {[], [MarketingLayout], [DocsLayout], [PublicLayout], [ErrorLayout]}"
    by (auto simp: well_guarded_def)
  then show ?thesis
  proof cases
    case t
    show ?thesis
    proof (cases "v_tenant v")
      case None
      with f t show ?thesis
        unfolding render_def t tenant_chain by (auto intro: legal_redirect.login)
    next
      case (Some s)
      show ?thesis
      proof (cases "isRestrictedSession (tn_scopes s) \<and> v_pathname v \<noteq> ''/account/tenant-status''")
        case True
        with f Some show ?thesis
          unfolding render_def t tenant_chain by (auto intro: legal_redirect.status)
      next
        case False
        then have "element_outcome (rt_element r) v = Redirects to from0"
          using f Some unfolding render_def t tenant_chain by (simp split: if_splits)
        then show ?thesis by (rule element) (use Some False in auto)
      qed
    qed
  next
    case p
    show ?thesis
    proof (cases "v_platform v = None")
      case True
      with f p show ?thesis
        unfolding render_def p platform_chain by (auto intro: legal_redirect.admin_login)
    next
      case False
      then have "element_outcome (rt_element r) v = Redirects to from0"
        using f unfolding render_def p platform_chain by (auto split: if_splits)
      then show ?thesis by (rule element) (simp add: p)
    qed
  next
    case o
    then consider (plain) "fst (render r v) = element_outcome (rt_element r) v"
      | (err) "rt_layouts r = [ErrorLayout]"
      by (auto simp: render_def)
    then show ?thesis
    proof cases
      case plain
      with f have "element_outcome (rt_element r) v = Redirects to from0" by simp
      then show ?thesis by (rule element) (use o in auto)
    next
      case err
      show ?thesis
      proof (cases "ErrorLayout_guard v")
        case None
        with f err have "element_outcome (rt_element r) v = Redirects to from0"
          by (simp add: render_def)
        then show ?thesis by (rule element) (simp add: err)
      next
        case (Some out)
        then have "out = Redirects to from0" using f err by (simp add: render_def)
        with Some show ?thesis
          by (auto simp: ErrorLayout_guard_def TenantLayout_guard_def PlatformLayout_guard_def
              split: if_splits option.splits intro: legal_redirect.intros)
      qed
    qed
  qed
qed


text \<open>A router that looks the path up and otherwise takes the last route.\<close>

definition exact_router :: "string \<Rightarrow> route" where
  "exact_router p =
     (case List.find (\<lambda>r. rt_path r = p) ROUTES of Some r \<Rightarrow> r | None \<Rightarrow> last ROUTES)"

lemma find_key: "x \<in> set xs \<Longrightarrow> distinct (map f xs) \<Longrightarrow> List.find (\<lambda>y. f y = f x) xs = Some x"
  by (induction xs) auto


section \<open>Entries open their page\<close>

definition entry_opens :: "string \<Rightarrow> string option \<Rightarrow> bool" where
  "entry_opens to scope =
     list_ex (\<lambda>r. rt_path r = to \<and>
       (rt_layouts r = [RequireTenant, TenantLayout] \<or> rt_layouts r = [MarketingLayout] \<and> scope = None) \<and>
       (case rt_element r of
          Scoped s page \<Rightarrow> scope = Some s | Elem page \<Rightarrow> scope = None | _ \<Rightarrow> False)) ROUTES"

lemma entries_open:
  "list_all (\<lambda>i. entry_opens (ni_to i) (ni_scope i) \<and> ni_scope i \<noteq> Some []) tenant_items"
  "list_all (\<lambda>c. entry_opens (ci_to c) (ci_scope c) \<and> ci_scope c \<noteq> Some []) TENANT_COMMANDS"
  by (simp_all add: entry_opens_def tenant_items_def TENANT_NAV_def nav_item_def
      TENANT_COMMANDS_def command_def ROUTES_def route_def)

lemma entry_page:
  assumes "entry_opens to scope" "scope \<noteq> Some []" "v_tenant v = Some s"
    "\<not> isRestrictedSession (tn_scopes s)" "v_pathname v = to"
  shows "\<exists>r \<in> set ROUTES. rt_path r = to \<and>
    ((\<exists>page. fst (render r v) = Shows page) \<longleftrightarrow>
       \<not> truthy scope \<or> hasScope (Some s) (the scope))"
proof -
  from assms(1) obtain r where r: "r \<in> set ROUTES" "rt_path r = to"
    "rt_layouts r = [RequireTenant, TenantLayout] \<or> rt_layouts r = [MarketingLayout] \<and> scope = None"
    "case rt_element r of Scoped s page \<Rightarrow> scope = Some s | Elem page \<Rightarrow> scope = None | _ \<Rightarrow> False"
    by (auto simp: entry_opens_def list_ex_iff)
  have "fst (render r v) = element_outcome (rt_element r) v"
    using r(3) assms(3,4)
    by (auto simp: render_def RequireTenant_guard_def TenantLayout_guard_def)
  moreover have "(\<exists>page. element_outcome (rt_element r) v = Shows page) \<longleftrightarrow>
      \<not> truthy scope \<or> hasScope (Some s) (the scope)"
    using r(4) assms(2,3) by (auto simp: scoped_shows split: Element.splits)
  ultimately show ?thesis using r(1,2) by (intro bexI [of _ r]) simp_all
qed

lemma operator_entries:
  "list_all (\<lambda>to. list_ex (\<lambda>r. rt_path r = to \<and> rt_layouts r = [RequirePlatform, PlatformLayout] \<and>
      (case rt_element r of Elem page \<Rightarrow> True | _ \<Rightarrow> False)) ROUTES)
    (map ni_to platform_items @ map ci_to PLATFORM_COMMANDS)"
  by code_simp

lemma operator_entry_opens:
  assumes "v_platform v \<noteq> None" "to \<in> ni_to ` set platform_items \<union> ci_to ` set PLATFORM_COMMANDS"
  shows "\<exists>r \<in> set ROUTES. rt_path r = to \<and> (\<exists>page. fst (render r (v\<lparr>v_pathname := to\<rparr>)) = Shows page)"
proof -
  from operator_entries assms(2) obtain r where r: "r \<in> set ROUTES" "rt_path r = to"
    "rt_layouts r = [RequirePlatform, PlatformLayout]" "case rt_element r of Elem page \<Rightarrow> True | _ \<Rightarrow> False"
    by (auto simp: list_all_iff list_ex_iff)
  then have "\<exists>page. fst (render r (v\<lparr>v_pathname := to\<rparr>)) = Shows page"
    using assms(1) unfolding render_def r(3) platform_chain by (auto split: Element.splits)
  with r(1,2) show ?thesis by blast
qed


definition auditor :: PlatformSession where
  "auditor =
     \<lparr>pn_token = ''T'', pn_signedInAt = 0, pn_credential = Some cred_operator, pn_email = None,
      pn_displayName = None, pn_roles = Some [role_audit], pn_expiresAt = None\<rparr>"


section \<open>Operators\<close>

text \<open>The operator palette does not follow the operator menu. The menu shows an operator whose only
  role is audit three entries, as the roles named there say; the palette of the same session
  lists all its six commands, operators included, and never the plan requests, which no operator
  reaches from it.\<close>

lemma palette_ignores_roles:
  "map ni_label (filter (item_visible (platform_can (Some auditor))) platform_items) =
     [''Platform Status'', ''Tenants'', ''Failures & Audit''] \<and>
   map ci_to (accessible True can) =
     [''/admin/status'', ''/admin/tenants'', ''/admin/plans'', ''/admin/usage'', ''/admin/audit'',
      ''/admin/operators''] \<and>
   ''/admin/plan-requests'' \<in> ni_to ` set platform_items"
proof -
  have "map ni_label (filter (item_visible (platform_can (Some auditor))) platform_items) =
     [''Platform Status'', ''Tenants'', ''Failures & Audit'']" by code_simp
  moreover have "accessible True can = PLATFORM_COMMANDS"
    by (simp add: accessible_def PLATFORM_COMMANDS_def command_def)
  moreover have "map ci_to PLATFORM_COMMANDS =
     [''/admin/status'', ''/admin/tenants'', ''/admin/plans'', ''/admin/usage'', ''/admin/audit'',
      ''/admin/operators'']" by code_simp
  moreover have "list_ex (\<lambda>i. ni_to i = ''/admin/plan-requests'') platform_items" by code_simp
  moreover from this have "''/admin/plan-requests'' \<in> ni_to ` set platform_items"
    unfolding list_ex_iff by force
  ultimately show ?thesis by simp
qed

section \<open>The palette's keyboard\<close>

text \<open>The palette always acts on an entry on screen. With entries on screen and the selection on
  one of them, the arrows keep it on one and undo each other, going round at both ends; Enter opens
  the selected entry, which is one the session may use and which matches the query; with no entry
  Enter does nothing; a new query selects the first entry again.\<close>

lemma palette_keyboard:
  assumes "items = filteredItems isPlatform can q" "items \<noteq> []" "pal_selected p < length items"
  shows "(\<exists>p'. handleKeyDown items PalDown p = Stays p' \<and> pal_selected p' < length items \<and>
      handleKeyDown items PalUp p' = Stays p) \<and>
    (\<exists>p'. handleKeyDown items PalUp p = Stays p' \<and> pal_selected p' < length items \<and>
      handleKeyDown items PalDown p' = Stays p) \<and>
    (\<exists>item. handleKeyDown items PalEnter p = Opens (ci_to item) \<and>
      item \<in> set (accessible isPlatform can) \<and>
      (to_lower (js_trim q) = [] \<or> command_matches (to_lower (js_trim q)) item)) \<and>
    handleKeyDown [] PalEnter p = Stays p \<and>
    (q' \<noteq> pal_query p \<longrightarrow> pal_selected (set_query q' p) = 0)"
proof -
  let ?n = "length items" and ?k = "pal_selected p"
  have n: "0 < ?n" using assms(2) by simp
  have down: "handleKeyDown items PalDown p = Stays (p\<lparr>pal_selected := (?k + 1) mod ?n\<rparr>)"
    using n by (simp add: handleKeyDown_def Let_def)
  have up: "handleKeyDown items PalUp x =
      Stays (x\<lparr>pal_selected := nat ((int (pal_selected x) - 1 + int ?n) mod int ?n)\<rparr>)" for x
    using n by (simp add: handleKeyDown_def Let_def)
  have down': "handleKeyDown items PalDown x = Stays (x\<lparr>pal_selected := (pal_selected x + 1) mod ?n\<rparr>)" for x
    using n by (simp add: handleKeyDown_def Let_def)
  have upk: "nat ((int k - 1 + int ?n) mod int ?n) = (if k = 0 then ?n - 1 else k - 1)" if "k < ?n" for k
  proof (cases "k = 0")
    case True
    then have e: "int k - 1 + int ?n = int (?n - 1)" using n by linarith
    have "(int (?n - 1)) mod int ?n = int ((?n - 1) mod ?n)" by (rule zmod_int [symmetric])
    also have "(?n - 1) mod ?n = ?n - 1" using n by simp
    finally show ?thesis unfolding e using True by simp
  next
    case False
    then have "(int k - 1 + int ?n) mod int ?n = int k - 1"
      using that by (simp add: mod_pos_pos_trivial)
    with False show ?thesis by simp
  qed
  have dn: "(k + 1) mod ?n = (if k = ?n - 1 then 0 else k + 1)" if "k < ?n" for k
    using that n by (auto simp: mod_less)
  have item: "items ! ?k \<in> set (filteredItems isPlatform can q)"
    using assms(1,3) by (metis nth_mem)
  have "handleKeyDown items PalUp (p\<lparr>pal_selected := (?k + 1) mod ?n\<rparr>) = Stays p"
    using n assms(3) dn [OF assms(3)] upk [of "(?k + 1) mod ?n"] by (simp add: up split: if_splits)
  moreover have "handleKeyDown items PalDown (p\<lparr>pal_selected := nat ((int ?k - 1 + int ?n) mod int ?n)\<rparr>) = Stays p"
    using n assms(3) upk [OF assms(3)] dn [of "?n - 1"] dn [of "?k - 1"]
    by (simp add: down' split: if_splits)
  moreover have "nat ((int ?k - 1 + int ?n) mod int ?n) < ?n" using upk [OF assms(3)] assms(3) by (cases "?k = 0") auto
  moreover have "items ! ?k \<in> set (accessible isPlatform can) \<and>
      (to_lower (js_trim q) = [] \<or> command_matches (to_lower (js_trim q)) (items ! ?k))"
    using item by (auto simp: filteredItems_def Let_def split: if_splits)
  moreover have "handleKeyDown items PalEnter p = Opens (ci_to (items ! ?k))"
    using assms(3) by (simp add: handleKeyDown_def Let_def)
  moreover have "handleKeyDown [] PalEnter p = Stays p" by (simp add: handleKeyDown_def Let_def)
  moreover have "q' \<noteq> pal_query p \<longrightarrow> pal_selected (set_query q' p) = 0" by (simp add: set_query_def)
  ultimately show ?thesis using down up n by auto
qed

theorem palette_keyboard_witness:
  "\<exists>item. handleKeyDown (filteredItems False (\<lambda>_. True) ''Train'') PalEnter palette_open = Opens (ci_to item) \<and>
     command_matches ''train'' item"
proof -
  have n: "filteredItems False (\<lambda>_. True) ''Train'' \<noteq> []"
    "pal_selected palette_open < length (filteredItems False (\<lambda>_. True) ''Train'')" by code_simp+
  have "to_lower (js_trim ''Train'') = ''train''" by code_simp
  with palette_keyboard [OF refl n] show ?thesis by force
qed

end
