(* ===== verification/ConsoleForms.thy ===== *)
theory ConsoleForms
  imports HttpClient Format WireOps
begin

text \<open>
  The forms of the console (\<open>web/src/ui/Form.tsx\<close>) and the two policy panels built on them: automatic
  retraining (\<open>pages/tenant/RetrainingPolicyPanel.tsx\<close>) and the recommendation rules with their
  simulation (\<open>pages/tenant/RecommendationRulesPage.tsx\<close>).
\<close>

section \<open>The form\<close>

datatype FormTone = tone_danger | tone_warn

record FormError =
  fo_title :: string
  fo_body :: string
  fo_tone :: "FormTone option"

abbreviation plain_error :: "string \<Rightarrow> string \<Rightarrow> FormError" where
  "plain_error title body \<equiv> \<lparr>fo_title = title, fo_body = body, fo_tone = None\<rparr>"

text \<open>What a field hands to its input: whether it is invalid, and what describes it.\<close>

definition Field :: "string \<Rightarrow> bool \<Rightarrow> string option \<Rightarrow> bool \<times> string \<times> string" where
  "Field i hint error =
     (truthy error,
      js_join '' '' (filter (\<lambda>s. s \<noteq> []) [if truthy error then i @ ''-error'' else [], if hint then i @ ''-hint'' else []]),
      i @ ''-label'')"

text \<open>A select shows the label of each option, or its value.\<close>

definition Select_options :: "(string \<times> string option) list \<Rightarrow> (string \<times> string) list" where
  "Select_options options = map (\<lambda>(v, label). (v, or_else label v)) options"

definition toggle_value :: "string \<Rightarrow> string list \<Rightarrow> string list" where
  "toggle_value v value0 = (if v \<in> set value0 then filter (\<lambda>x. x \<noteq> v) value0 else value0 @ [v])"

definition CheckGroup :: "(string \<times> string) list \<Rightarrow> string list \<Rightarrow> (string \<times> string \<times> bool) list" where
  "CheckGroup options value0 = map (\<lambda>(v, label). (v, label, v \<in> set value0)) options"

text \<open>\<open>submitting\<close> is a ref: it is set before the handler of the page runs and reset when that has
  settled. The first component says whether the handler is called.\<close>

definition form_handle :: "bool \<Rightarrow> bool \<Rightarrow> bool \<times> bool" where
  "form_handle busy submitting = (if busy \<or> submitting then (False, submitting) else (True, True))"

definition form_settled :: "bool \<Rightarrow> bool" where
  "form_settled submitting = False"

definition submit_label :: "bool \<Rightarrow> string \<Rightarrow> string" where
  "submit_label busy label = (if busy then ''Working'' @ ellipsis else label)"

section \<open>One submission at a time\<close>

text \<open>The contract of forms and dialogs: a lock that is taken by exactly the press that calls the handler
  and released when the call settles. \<open>running\<close> counts the calls that have not settled.\<close>

datatype 'e press_event = Press | Settle 'e | Outside 'e

locale one_at_a_time =
  fixes lock :: "'st \<Rightarrow> bool" and running :: "'st \<Rightarrow> nat" and do0 :: "'e press_event \<Rightarrow> 'st \<Rightarrow> 'st"
  assumes press: "running (do0 Press s) = (if lock (do0 Press s) \<and> \<not> lock s then Suc (running s) else running s)"
    and press_lock: "lock s \<Longrightarrow> lock (do0 Press s)"
    and settle: "lock s \<Longrightarrow> running (do0 (Settle e) s) = running s - 1 \<and> \<not> lock (do0 (Settle e) s)"
    and settle_idle: "\<not> lock s \<Longrightarrow> do0 (Settle e) s = s"
    and outside: "running (do0 (Outside e) s) = running s \<and> lock (do0 (Outside e) s) = lock s"
begin

lemma one_running:
  assumes "running s = (if lock s then 1 else 0)"
  shows "running (fold do0 es s) = (if lock (fold do0 es s) then 1 else 0)"
  using assms
proof (induction es arbitrary: s)
  case (Cons e es)
  have "running (do0 e s) = (if lock (do0 e s) then 1 else 0)"
  proof (cases e)
    case Press
    then show ?thesis using Cons.prems press [of s] press_lock [of s] by (auto split: if_splits)
  next
    case (Settle x)
    then show ?thesis using Cons.prems settle [of s x] settle_idle [of s x] by (cases "lock s") auto
  next
    case (Outside x)
    then show ?thesis using Cons.prems outside [of x s] by simp
  qed
  with Cons.IH show ?case by simp
qed simp

text \<open>Presses while a call runs change nothing: two in a row call the handler once.\<close>

lemma two_presses: "running s = 0 \<Longrightarrow> \<not> lock s \<Longrightarrow> running (do0 Press (do0 Press s)) \<le> 1"
  using press [of s] press [of "do0 Press s"] press_lock [of "do0 Press s"] by (auto split: if_splits)

end

text \<open>A mounted form: the ref, the calls of the handler that have not settled, and \<open>busy\<close> of the page,
  which the page may set at any time.\<close>

record form_run =
  fr_submitting :: bool
  fr_running :: nat
  fr_busy :: bool

fun form_do :: "bool press_event \<Rightarrow> form_run \<Rightarrow> form_run" where
  "form_do Press f =
     (let (go, s) = form_handle (fr_busy f) (fr_submitting f)
      in f\<lparr>fr_submitting := s, fr_running := fr_running f + (if go then 1 else 0)\<rparr>)"
| "form_do (Settle b) f =
     (if fr_submitting f
      then f\<lparr>fr_submitting := form_settled (fr_submitting f), fr_running := fr_running f - 1, fr_busy := b\<rparr> else f)"
| "form_do (Outside b) f = f\<lparr>fr_busy := b\<rparr>"

interpretation form_once: one_at_a_time fr_submitting fr_running form_do
  by unfold_locales (auto simp: form_handle_def form_settled_def Let_def split: if_splits)

section \<open>Numbers in fields\<close>

text \<open>A number, or the message of the field. \<open>nf\<close> prints a number in the locale.\<close>

definition parseBounded :: "(rat \<Rightarrow> string) \<Rightarrow> string \<Rightarrow> int \<Rightarrow> int \<Rightarrow> string + int" where
  "parseBounded nf value0 lo hi =
     (let s = js_trim value0 in
      if s = [] \<or> \<not> all_digits s then Inl ''Enter a whole number.''
      else case js_Number value0 of
        Fin x \<Rightarrow>
          if x < of_int lo \<or> x > of_int hi
          then Inl (''Enter a value from '' @ nf (of_int lo) @ '' to '' @ nf (of_int hi) @ ''.'')
          else Inr \<lfloor>x\<rfloor>
      | _ \<Rightarrow> Inl ''Enter a whole number.'')"

definition parseWeight :: "string \<Rightarrow> string + rat" where
  "parseWeight value0 =
     (if js_trim value0 = [] then Inl ''Enter a number.''
      else case js_Number (js_trim value0) of
        Fin n \<Rightarrow> if n < 0 \<or> n > 3 / 10 then Inl ''Enter a weight from 0 to 0.3.'' else Inr n
      | _ \<Rightarrow> Inl ''Enter a number.'')"

text \<open>The messages of the fields that do not parse.\<close>

definition field_error :: "string \<Rightarrow> string + 'a \<Rightarrow> (string \<times> string) list" where
  "field_error name r = (case r of Inl m \<Rightarrow> [(name, m)] | Inr _ \<Rightarrow> [])"

definition parsed_value :: "string + 'a \<Rightarrow> 'a \<Rightarrow> 'a" where
  "parsed_value r d = (case r of Inr x \<Rightarrow> x | Inl _ \<Rightarrow> d)"

section \<open>Automatic retraining\<close>

record RetrainingDraft =
  rd_schedule :: bool
  rd_interval :: string
  rd_events :: bool
  rd_threshold :: string
  rd_epochs :: string

definition retraining_toDraft :: "'a RetrainingPolicyInput_scheme \<Rightarrow> RetrainingDraft" where
  "retraining_toDraft p =
     \<lparr>rd_schedule = rp_schedule_enabled p, rd_interval = show_int (rp_interval_minutes p),
      rd_events = rp_event_trigger_enabled p, rd_threshold = show_int (rp_event_threshold p),
      rd_epochs = show_int (rp_epochs p)\<rparr>"

record 'd policy_panel =
  pl_draft :: "'d option"
  pl_errors :: "(string \<times> string) list"
  pl_formError :: "FormError option"
  pl_busy :: bool

text \<open>The effect that fills the draft from the first policy that comes.\<close>

definition fill_draft :: "'d option \<Rightarrow> 'd policy_panel \<Rightarrow> 'd policy_panel" where
  "fill_draft saved w = (case (saved, pl_draft w) of (Some d, None) \<Rightarrow> w\<lparr>pl_draft := Some d\<rparr> | _ \<Rightarrow> w)"

definition retraining_errors ::
    "(rat \<Rightarrow> string) \<Rightarrow> int \<Rightarrow> RetrainingDraft \<Rightarrow> (string \<times> string) list" where
  "retraining_errors nf minimum0 d =
     field_error ''interval'' (parseBounded nf (rd_interval d) minimum0 43200) @
     field_error ''threshold'' (parseBounded nf (rd_threshold d) 1 10000000) @
     field_error ''epochs'' (parseBounded nf (rd_epochs d) 1 10)"

definition retraining_input :: "(rat \<Rightarrow> string) \<Rightarrow> int \<Rightarrow> RetrainingDraft \<Rightarrow> RetrainingPolicyInput" where
  "retraining_input nf minimum0 d =
     \<lparr>rp_schedule_enabled = rd_schedule d,
      rp_interval_minutes = parsed_value (parseBounded nf (rd_interval d) minimum0 43200) 0,
      rp_event_trigger_enabled = rd_events d,
      rp_event_threshold = parsed_value (parseBounded nf (rd_threshold d) 1 10000000) 0,
      rp_epochs = parsed_value (parseBounded nf (rd_epochs d) 1 10) 0\<rparr>"

text \<open>\<open>save\<close> up to the request, which is none when a field is wrong; and its answer.\<close>

definition retraining_save ::
    "(rat \<Rightarrow> string) \<Rightarrow> RetrainingPolicy option \<Rightarrow> RetrainingDraft policy_panel \<Rightarrow>
     RetrainingDraft policy_panel \<times> RetrainingPolicyInput option" where
  "retraining_save nf policy w =
     (case (pl_draft w, policy) of
        (Some d, Some p) \<Rightarrow>
          (let next0 = retraining_errors nf (rp_minimum_interval_minutes p) d; w1 = w\<lparr>pl_errors := next0\<rparr> in
           if next0 \<noteq> []
           then (w1\<lparr>pl_formError := Some (plain_error ''Check the highlighted fields'' ''The policy was not saved.'')\<rparr>, None)
           else (w1\<lparr>pl_busy := True, pl_formError := None\<rparr>,
                 Some (retraining_input nf (rp_minimum_interval_minutes p) d)))
      | _ \<Rightarrow> (w, None))"

definition retraining_saved :: "exn + RetrainingPolicy \<Rightarrow> RetrainingDraft policy_panel \<Rightarrow> RetrainingDraft policy_panel" where
  "retraining_saved r w =
     (case r of
        Inr saved \<Rightarrow> w\<lparr>pl_draft := Some (retraining_toDraft saved)\<rparr>
      | Inl e \<Rightarrow> w\<lparr>pl_formError := Some (plain_error ''The policy could not be saved'' (describeError e))\<rparr>)
     \<lparr>pl_busy := False\<rparr>"

text \<open>The facts above the form; \<open>when\<close> prints a timestamp.\<close>

definition retraining_rows ::
    "(string option \<Rightarrow> string) \<Rightarrow> (rat \<Rightarrow> string) \<Rightarrow> RetrainingPolicy \<Rightarrow> (string \<times> string) list" where
  "retraining_rows when nf p =
     [(''Next scheduled run'', if rp_schedule_enabled p then when (rp_next_run_at p) else ''Schedule off''),
      (''New events since last training'',
        nf (of_int (rp_new_events_since_last_training p)) @
        (if rp_event_trigger_enabled p then '' of '' @ nf (of_int (rp_event_threshold p)) else [])),
      (''Last automatic outcome'',
        if truthy (rp_last_outcome p)
        then humanize (the (rp_last_outcome p)) @
          (if truthy (rp_last_trigger p) then '' '' @ mid_dot @ '' '' @ the (rp_last_trigger p) else []) @
          '' '' @ mid_dot @ '' '' @ when (rp_last_outcome_at p)
        else ''None yet''),
      (''Last automatic run'', if truthy (rp_last_job_id p) then ''View run'' else ''None yet''),
      (''Training in progress'', if rp_training_in_progress p then ''Yes '' @ em_dash @ '' triggers wait'' else ''No'')]"

definition retraining_note :: "(string option \<Rightarrow> string) \<Rightarrow> RetrainingDraft \<Rightarrow> RetrainingPolicy \<Rightarrow> string" where
  "retraining_note when d p =
     (if d = retraining_toDraft p
      then (if rp_configured p then ''Saved '' @ mid_dot @ '' last changed '' @ when (rp_updated_at p) else ''Not configured yet'')
      else [CHR 0xE2, CHR 0x97, CHR 0x8F] @ '' Unsaved changes'')"

section \<open>Facts\<close>

lemma toggle_value_twice: "set (toggle_value v (toggle_value v xs)) = set xs"
  by (auto simp: toggle_value_def)

lemma show_int_nonneg: "0 \<le> n \<Longrightarrow> show_int n = show_nat (nat n)"
  by (simp add: show_int_def)

lemma parseBounded_show:
  assumes "0 \<le> n" "lo \<le> n" "n \<le> hi"
  shows "parseBounded nf (show_int n) lo hi = Inr n"
proof -
  have "js_trim (show_nat (nat n)) = show_nat (nat n)"
    by (rule js_trim_id) (auto dest: show_nat_digits digit_not_space)
  moreover have "(of_nat (nat n) :: rat) = of_int n" using assms(1) by simp
  ultimately show ?thesis
    using assms by (simp add: parseBounded_def show_int_nonneg all_digits_show js_Number_show Let_def)
qed

lemma parseBounded_bounds:
  assumes "parseBounded nf s lo hi = Inr n"
  shows "lo \<le> n \<and> n \<le> hi"
proof -
  obtain x :: rat where x: "of_int lo \<le> x" "x \<le> of_int hi" "n = \<lfloor>x\<rfloor>"
    by (rule that [of "fin_val (js_Number s)"])
      (use assms in \<open>auto simp: parseBounded_def Let_def not_less split: if_splits number.splits\<close>)
  then show ?thesis using floor_mono [of x "of_int hi"] by (simp add: le_floor_iff)
qed

lemma parseWeight_bounds: "parseWeight s = Inr x \<Longrightarrow> 0 \<le> x \<and> x \<le> 3 / 10"
  by (auto simp: parseWeight_def split: if_splits number.splits)

lemma field_error_Nil: "field_error name r = [] \<longleftrightarrow> (\<exists>x. r = Inr x)"
  by (cases r) (auto simp: field_error_def)

lemma field_error_parsed: "field_error name r = [] \<Longrightarrow> r = Inr (parsed_value r d)"
  by (cases r) (auto simp: field_error_def parsed_value_def)

text \<open>A policy as the API stores it.\<close>

definition stored_retraining :: "RetrainingPolicy \<Rightarrow> bool" where
  "stored_retraining p =
     (0 \<le> rp_minimum_interval_minutes p \<and> rp_minimum_interval_minutes p \<le> rp_interval_minutes p \<and>
      rp_interval_minutes p \<le> 43200 \<and> 1 \<le> rp_event_threshold p \<and> rp_event_threshold p \<le> 10000000 \<and>
      1 \<le> rp_epochs p \<and> rp_epochs p \<le> 10)"

lemma untouched_retraining:
  assumes "stored_retraining p"
  shows "retraining_errors nf (rp_minimum_interval_minutes p) (retraining_toDraft p) = []"
    and "retraining_input nf (rp_minimum_interval_minutes p) (retraining_toDraft p) = RetrainingPolicyInput.truncate p"
  using assms
  by (simp_all add: stored_retraining_def retraining_errors_def retraining_input_def retraining_toDraft_def
      parseBounded_show field_error_def parsed_value_def RetrainingPolicyInput.truncate_def)

end
