(* ===== verification/ConsoleRules.thy ===== *)
theory ConsoleRules
  imports ConsoleForms
begin

text \<open>
  The recommendation rules (\<open>web/src/pages/tenant/RecommendationRulesPage.tsx\<close>): the form, what is in
  force, and the simulation of the rules on five products. Scores are exact numbers; the comparison of
  two scores that differ only by a rounding of the browser's floating point is not modelled.
\<close>

section \<open>The form\<close>

record RulesDraft =
  ru_diversity :: bool
  ru_maxPer :: string
  ru_freshness :: bool
  ru_weight :: string
  ru_halfLife :: string

text \<open>\<open>str\<close> is \<open>String\<close> on a number.\<close>

definition rules_toDraft :: "(rat \<Rightarrow> string) \<Rightarrow> 'a RecommendationPolicyInput_scheme \<Rightarrow> RulesDraft" where
  "rules_toDraft str p =
     \<lparr>ru_diversity = rcp_diversity_enabled p, ru_maxPer = show_int (rcp_max_per_category p),
      ru_freshness = rcp_freshness_enabled p, ru_weight = str (rcp_freshness_weight p),
      ru_halfLife = show_int (rcp_freshness_half_life_days p)\<rparr>"

definition rules_errors :: "(rat \<Rightarrow> string) \<Rightarrow> RulesDraft \<Rightarrow> (string \<times> string) list" where
  "rules_errors nf d =
     field_error ''maxPer'' (parseBounded nf (ru_maxPer d) 1 100) @
     field_error ''weight'' (parseWeight (ru_weight d)) @
     field_error ''halfLife'' (parseBounded nf (ru_halfLife d) 1 3650)"

definition rules_input :: "(rat \<Rightarrow> string) \<Rightarrow> RulesDraft \<Rightarrow> RecommendationPolicyInput" where
  "rules_input nf d =
     \<lparr>rcp_diversity_enabled = ru_diversity d,
      rcp_max_per_category = parsed_value (parseBounded nf (ru_maxPer d) 1 100) 0,
      rcp_freshness_enabled = ru_freshness d,
      rcp_freshness_weight = parsed_value (parseWeight (ru_weight d)) 0,
      rcp_freshness_half_life_days = parsed_value (parseBounded nf (ru_halfLife d) 1 3650) 0\<rparr>"

definition rules_save ::
    "(rat \<Rightarrow> string) \<Rightarrow> RulesDraft policy_panel \<Rightarrow> RulesDraft policy_panel \<times> RecommendationPolicyInput option" where
  "rules_save nf w =
     (case pl_draft w of
        None \<Rightarrow> (w, None)
      | Some d \<Rightarrow>
          (let next0 = rules_errors nf d; w1 = w\<lparr>pl_errors := next0\<rparr> in
           if next0 \<noteq> []
           then (w1\<lparr>pl_formError := Some (plain_error ''Check the highlighted fields'' ''The rules were not saved.'')\<rparr>, None)
           else (w1\<lparr>pl_busy := True, pl_formError := None\<rparr>, Some (rules_input nf d))))"

text \<open>The answer also replaces the policy shown.\<close>

definition rules_saved ::
    "(rat \<Rightarrow> string) \<Rightarrow> exn + RecommendationPolicy \<Rightarrow> RulesDraft policy_panel \<times> RecommendationPolicy option \<Rightarrow>
     RulesDraft policy_panel \<times> RecommendationPolicy option" where
  "rules_saved str r =
     (\<lambda>(w, policy).
       case r of
         Inr result \<Rightarrow> (w\<lparr>pl_draft := Some (rules_toDraft str result), pl_busy := False\<rparr>, Some result)
       | Inl e \<Rightarrow>
           (w\<lparr>pl_formError := Some (plain_error ''The rules could not be saved'' (describeError e)), pl_busy := False\<rparr>,
            policy))"

definition rules_dirty :: "(rat \<Rightarrow> string) \<Rightarrow> RecommendationPolicy option \<Rightarrow> RulesDraft policy_panel \<Rightarrow> bool" where
  "rules_dirty str policy w =
     (case (pl_draft w, policy) of (Some d, Some p) \<Rightarrow> d \<noteq> rules_toDraft str p | _ \<Rightarrow> False)"

definition discard :: "'d option \<Rightarrow> 'd policy_panel \<Rightarrow> 'd policy_panel" where
  "discard saved w =
     (case saved of Some d \<Rightarrow> w\<lparr>pl_draft := Some d\<rparr> | None \<Rightarrow> w)\<lparr>pl_errors := [], pl_formError := None\<rparr>"

text \<open>The rules in force.\<close>

definition live_rules :: "(rat \<Rightarrow> string) \<Rightarrow> RecommendationPolicy \<Rightarrow> string list" where
  "live_rules str p =
     (if rcp_diversity_enabled p then [''at most '' @ show_int (rcp_max_per_category p) @ '' per category''] else []) @
     (if rcp_freshness_enabled p
      then [''freshness boost (weight '' @ str (rcp_freshness_weight p) @ '', half-life '' @
            show_int (rcp_freshness_half_life_days p) @ '' days)'']
      else [])"

definition rules_line :: "(rat \<Rightarrow> string) \<Rightarrow> RecommendationPolicy \<Rightarrow> string" where
  "rules_line str p =
     (if rcp_configured p
      then ''Live: '' @ (if live_rules str p \<noteq> [] then js_join ('' '' @ mid_dot @ '' '') (live_rules str p)
             else ''no rules on (relevance order)'') @ '' '' @ mid_dot @ '' version '' @ show_int (rcp_version p)
      else ''Using relevance order only '' @ em_dash @ '' no rules saved yet.'')"

section \<open>The simulation\<close>

record Candidate =
  ca_title :: string
  ca_cat :: string
  ca_age :: int
  ca_score :: rat

definition CANDIDATES :: "Candidate list" where
  "CANDIDATES =
     [\<lparr>ca_title = ''Classic Sneaker'', ca_cat = ''Footwear'', ca_age = 2, ca_score = 95 / 100\<rparr>,
      \<lparr>ca_title = ''Running Shoe'', ca_cat = ''Footwear'', ca_age = 14, ca_score = 91 / 100\<rparr>,
      \<lparr>ca_title = ''Trail Boot'', ca_cat = ''Footwear'', ca_age = 40, ca_score = 88 / 100\<rparr>,
      \<lparr>ca_title = ''Leather Belt'', ca_cat = ''Accessories'', ca_age = 5, ca_score = 82 / 100\<rparr>,
      \<lparr>ca_title = ''Wool Sweater'', ca_cat = ''Apparel'', ca_age = 1, ca_score = 80 / 100\<rparr>]"

text \<open>\<open>Math.max(1, Number(maxPer) || 2)\<close>, with none for infinity.\<close>

definition simulated_cap :: "string \<Rightarrow> rat option" where
  "simulated_cap s =
     (case js_Number s of
        NaN \<Rightarrow> Some 2
      | Infinite negative \<Rightarrow> if negative then Some 1 else None
      | Fin x \<Rightarrow> Some (if x = 0 then 2 else max 1 x))"

text \<open>\<open>Math.max(0, Math.min(0.3, Number(weight) || 0))\<close>.\<close>

definition simulated_weight :: "string \<Rightarrow> rat" where
  "simulated_weight s =
     (case js_Number s of
        NaN \<Rightarrow> 0
      | Infinite negative \<Rightarrow> if negative then 0 else 3 / 10
      | Fin x \<Rightarrow> max 0 (min (3 / 10) x))"

definition freshen :: "rat \<Rightarrow> Candidate list \<Rightarrow> Candidate list" where
  "freshen w items =
     js_sort (\<lambda>a b. ca_score b - ca_score a)
       (map (\<lambda>i. i\<lparr>ca_score := ca_score i + 1 / max 1 (of_int (ca_age i)) * w\<rparr>) items)"

text \<open>The loop of the category cap: accepted and overflow, with the counts so far.\<close>

fun cap_loop :: "rat option \<Rightarrow> (string \<Rightarrow> nat) \<Rightarrow> Candidate list \<Rightarrow> Candidate list \<times> Candidate list" where
  "cap_loop cap counts [] = ([], [])"
| "cap_loop cap counts (i # items) =
     (let n = Suc (counts (ca_cat i)); (accepted, overflow) = cap_loop cap (counts(ca_cat i := n)) items in
      if (case cap of Some m \<Rightarrow> of_nat n \<le> m | None \<Rightarrow> True) then (i # accepted, overflow) else (accepted, i # overflow))"

definition diversify :: "rat option \<Rightarrow> Candidate list \<Rightarrow> Candidate list" where
  "diversify cap items = (let (accepted, overflow) = cap_loop cap (\<lambda>_. 0) items in accepted @ overflow)"

definition simulation :: "RulesDraft \<Rightarrow> Candidate list" where
  "simulation d =
     (let w = simulated_weight (ru_weight d);
          items = (if ru_freshness d \<and> w > 0 then freshen w CANDIDATES else CANDIDATES)
      in if ru_diversity d then diversify (simulated_cap (ru_maxPer d)) items else items)"

definition simulation_rows :: "RulesDraft \<Rightarrow> string list" where
  "simulation_rows d =
     map (\<lambda>i. ca_title i @ '' ('' @ ca_cat i @ '' '' @ mid_dot @ '' '' @ show_int (ca_age i) @ ''d old)'') (simulation d)"

section \<open>Facts\<close>

lemma mset_cap_loop:
  "mset (fst (cap_loop cap counts items)) + mset (snd (cap_loop cap counts items)) = mset items"
proof (induction items arbitrary: counts)
  case (Cons i items)
  define h where "h = counts(ca_cat i := Suc (counts (ca_cat i)))"
  obtain a f where af: "cap_loop cap h items = (a, f)" by (metis surj_pair)
  show ?case using Cons.IH [of h] by (simp add: h_def [symmetric] af Let_def)
qed simp

lemma mset_diversify: "mset (diversify cap items) = mset items"
  using mset_cap_loop [of cap "\<lambda>_. 0" items] by (auto simp: diversify_def Let_def split: prod.split)

text \<open>The accepted of a category are the first of it, as many as the cap leaves.\<close>

definition of_cat :: "string \<Rightarrow> Candidate list \<Rightarrow> Candidate list" where
  "of_cat c items = filter (\<lambda>i. ca_cat i = c) items"

lemma cap_loop_cat:
  assumes "cap = Some m" "1 \<le> m"
  shows "of_cat c (fst (cap_loop cap counts items)) = take (nat \<lfloor>m\<rfloor> - counts c) (of_cat c items) \<and>
    of_cat c (snd (cap_loop cap counts items)) = drop (nat \<lfloor>m\<rfloor> - counts c) (of_cat c items)"
proof (induction items arbitrary: counts)
  case Nil
  then show ?case by (simp add: of_cat_def)
next
  case (Cons i items)
  define h where "h = counts(ca_cat i := Suc (counts (ca_cat i)))"
  obtain a f where af: "cap_loop cap h items = (a, f)" by (metis surj_pair)
  have le: "of_nat (Suc n) \<le> m \<longleftrightarrow> n < nat \<lfloor>m\<rfloor>" for n
    by (simp add: zless_nat_eq_int_zless less_floor_iff add.commute)
  have h: "h c = (if ca_cat i = c then Suc (counts c) else counts c)" by (simp add: h_def)
  have step: "cap_loop cap counts (i # items) =
      (if counts (ca_cat i) < nat \<lfloor>m\<rfloor> then (i # a, f) else (a, i # f))"
    using assms(1) af by (simp add: h_def [symmetric] Let_def le del: of_nat_Suc)
  show ?case
  proof (cases "ca_cat i = c")
    case True
    then have k: "nat \<lfloor>m\<rfloor> - counts c = (if counts c < nat \<lfloor>m\<rfloor> then Suc (nat \<lfloor>m\<rfloor> - h c) else 0)"
      by (simp add: h) arith
    show ?thesis
      unfolding step using Cons.IH [of h] True by (simp add: af k of_cat_def h)
  next
    case False
    then show ?thesis unfolding step using Cons.IH [of h] by (simp add: af of_cat_def h)
  qed
qed

lemma mset_freshen_titles: "image_mset ca_title (mset (freshen w items)) = image_mset ca_title (mset items)"
  by (simp add: freshen_def mset_js_sort image_mset.compositionality comp_def)

lemma simulation_titles: "image_mset ca_title (mset (simulation d)) = image_mset ca_title (mset CANDIDATES)"
  by (simp add: simulation_def Let_def mset_diversify mset_freshen_titles)

lemma cap_at_least_one: "simulated_cap s = Some m \<Longrightarrow> 1 \<le> m"
  by (auto simp: simulated_cap_def split: number.splits if_splits)

lemma rules_sent_bounds:
  assumes "snd (rules_save nf w) = Some i"
  shows "1 \<le> rcp_max_per_category i \<and> rcp_max_per_category i \<le> 100 \<and> 0 \<le> rcp_freshness_weight i \<and>
    rcp_freshness_weight i \<le> 3 / 10 \<and> 1 \<le> rcp_freshness_half_life_days i \<and> rcp_freshness_half_life_days i \<le> 3650"
proof -
  obtain d where d: "rules_errors nf d = []" "i = rules_input nf d"
    using assms by (auto simp: rules_save_def Let_def split: option.splits if_splits)
  then obtain a b c where "parseBounded nf (ru_maxPer d) 1 100 = Inr a" "parseWeight (ru_weight d) = Inr b"
      "parseBounded nf (ru_halfLife d) 1 3650 = Inr c"
    by (auto simp: rules_errors_def field_error_Nil)
  then show ?thesis
    using parseBounded_bounds parseWeight_bounds d(2) by (fastforce simp: rules_input_def parsed_value_def)
qed

lemma untouched_rules:
  assumes "js_Number (js_trim (str (rcp_freshness_weight p))) = Fin (rcp_freshness_weight p)"
      "js_trim (str (rcp_freshness_weight p)) \<noteq> []"
    and "1 \<le> rcp_max_per_category p" "rcp_max_per_category p \<le> 100"
      "0 \<le> rcp_freshness_weight p" "rcp_freshness_weight p \<le> 3 / 10"
      "1 \<le> rcp_freshness_half_life_days p" "rcp_freshness_half_life_days p \<le> 3650"
  shows "rules_errors nf (rules_toDraft str p) = [] \<and>
    rules_input nf (rules_toDraft str p) = RecommendationPolicyInput.truncate p"
proof -
  have "parseWeight (str (rcp_freshness_weight p)) = Inr (rcp_freshness_weight p)"
    using assms(1,2,5,6) by (simp add: parseWeight_def)
  then show ?thesis
    using assms by (simp add: rules_errors_def rules_input_def rules_toDraft_def parseBounded_show field_error_def
        parsed_value_def RecommendationPolicyInput.truncate_def)
qed

section \<open>Properties\<close>

text \<open>C31: the simulation shows what the page promises of the rules, and nothing of the half-life. It
  never adds or removes a product; with the diversity rule on, the list is the accepted followed by
  the overflow, where the accepted of each category are the first of it, as many as the cap allows,
  and the overflow is the rest of it, both in the order before the cap; and the half-life that the
  footnote says is applied changes nothing.\<close>

theorem simulation_reorders:
  "image_mset ca_title (mset (simulation d)) = image_mset ca_title (mset CANDIDATES) \<and>
   simulation (d\<lparr>ru_halfLife := h\<rparr>) = simulation d \<and>
   (\<exists>accepted overflow. simulation (d\<lparr>ru_diversity := True\<rparr>) = accepted @ overflow \<and>
      (\<forall>c. case simulated_cap (ru_maxPer d) of
         Some m \<Rightarrow> of_cat c accepted = take (nat \<lfloor>m\<rfloor>) (of_cat c (simulation (d\<lparr>ru_diversity := False\<rparr>))) \<and>
           of_cat c overflow = drop (nat \<lfloor>m\<rfloor>) (of_cat c (simulation (d\<lparr>ru_diversity := False\<rparr>)))
       | None \<Rightarrow> True))"
proof (intro conjI)
  show "image_mset ca_title (mset (simulation d)) = image_mset ca_title (mset CANDIDATES)"
    by (rule simulation_titles)
  show "simulation (d\<lparr>ru_halfLife := h\<rparr>) = simulation d"
    by (simp add: simulation_def cong: if_cong)
  define items where "items = simulation (d\<lparr>ru_diversity := False\<rparr>)"
  obtain a f where af: "cap_loop (simulated_cap (ru_maxPer d)) (\<lambda>_. 0) items = (a, f)" by (metis surj_pair)
  have list: "simulation (d\<lparr>ru_diversity := True\<rparr>) = a @ f"
    using af by (simp add: items_def simulation_def diversify_def Let_def)
  have "case simulated_cap (ru_maxPer d) of
      Some m \<Rightarrow> of_cat c a = take (nat \<lfloor>m\<rfloor>) (of_cat c items) \<and> of_cat c f = drop (nat \<lfloor>m\<rfloor>) (of_cat c items)
    | None \<Rightarrow> True" for c
    using cap_loop_cat [of "simulated_cap (ru_maxPer d)" _ c "\<lambda>_. 0" items] cap_at_least_one [of "ru_maxPer d"] af
    by (auto split: option.split)
  with list show "\<exists>accepted overflow. simulation (d\<lparr>ru_diversity := True\<rparr>) = accepted @ overflow \<and>
      (\<forall>c. case simulated_cap (ru_maxPer d) of
         Some m \<Rightarrow> of_cat c accepted = take (nat \<lfloor>m\<rfloor>) (of_cat c (simulation (d\<lparr>ru_diversity := False\<rparr>))) \<and>
           of_cat c overflow = drop (nat \<lfloor>m\<rfloor>) (of_cat c (simulation (d\<lparr>ru_diversity := False\<rparr>)))
       | None \<Rightarrow> True)"
    unfolding items_def by blast
qed

text \<open>C32: saving the rules sends valid rules only, and an untouched form the rules in force. A request
  is made exactly when no field has a message, and then its numbers are in the ranges of the form;
  a form that shows a stored policy is not dirty and would send that policy again; after a
  successful answer the form shows the answer and is not dirty; after a failure the policy and the
  draft are kept. The first hypothesis is that the printed weight of the policy reads back.\<close>

theorem rules_form:
  assumes print: "js_Number (js_trim (str (rcp_freshness_weight p))) = Fin (rcp_freshness_weight p)"
      "js_trim (str (rcp_freshness_weight p)) \<noteq> []"
    and stored: "1 \<le> rcp_max_per_category p" "rcp_max_per_category p \<le> 100"
      "0 \<le> rcp_freshness_weight p" "rcp_freshness_weight p \<le> 3 / 10"
      "1 \<le> rcp_freshness_half_life_days p" "rcp_freshness_half_life_days p \<le> 3650"
  shows "(snd (rules_save nf w) \<noteq> None \<longleftrightarrow> (\<exists>d. pl_draft w = Some d \<and> rules_errors nf d = [])) \<and>
    (\<forall>i. snd (rules_save nf w) = Some i \<longrightarrow>
       1 \<le> rcp_max_per_category i \<and> rcp_max_per_category i \<le> 100 \<and> 0 \<le> rcp_freshness_weight i \<and>
       rcp_freshness_weight i \<le> 3 / 10 \<and> 1 \<le> rcp_freshness_half_life_days i \<and>
       rcp_freshness_half_life_days i \<le> 3650) \<and>
    snd (rules_save nf (w\<lparr>pl_draft := Some (rules_toDraft str p)\<rparr>)) = Some (RecommendationPolicyInput.truncate p) \<and>
    \<not> rules_dirty str (Some p) (w\<lparr>pl_draft := Some (rules_toDraft str p)\<rparr>) \<and>
    (let (w', policy) = rules_saved str (Inr r) (w, Some p) in
       policy = Some r \<and> pl_draft w' = Some (rules_toDraft str r) \<and> \<not> rules_dirty str policy w') \<and>
    (let (w', policy) = rules_saved str (Inl e) (w, Some p) in
       policy = Some p \<and> pl_draft w' = pl_draft w \<and> pl_formError w' \<noteq> None)"
proof (intro conjI)
  show "snd (rules_save nf w) \<noteq> None \<longleftrightarrow> (\<exists>d. pl_draft w = Some d \<and> rules_errors nf d = [])"
    by (cases "pl_draft w") (auto simp: rules_save_def Let_def)
  show "\<forall>i. snd (rules_save nf w) = Some i \<longrightarrow>
       1 \<le> rcp_max_per_category i \<and> rcp_max_per_category i \<le> 100 \<and> 0 \<le> rcp_freshness_weight i \<and>
       rcp_freshness_weight i \<le> 3 / 10 \<and> 1 \<le> rcp_freshness_half_life_days i \<and>
       rcp_freshness_half_life_days i \<le> 3650"
    by (intro allI impI) (rule rules_sent_bounds)
  show "snd (rules_save nf (w\<lparr>pl_draft := Some (rules_toDraft str p)\<rparr>)) = Some (RecommendationPolicyInput.truncate p)"
    using untouched_rules [where p = p and str = str and nf = nf] print stored by (simp add: rules_save_def Let_def)
qed (simp_all add: rules_dirty_def rules_saved_def Let_def)

text \<open>A policy with both rules on, printed as a decimal.\<close>

definition sample_rules :: RecommendationPolicy where
  "sample_rules = \<lparr>rcp_diversity_enabled = True, rcp_max_per_category = 2, rcp_freshness_enabled = True,
     rcp_freshness_weight = 0, rcp_freshness_half_life_days = 30, rcp_tenant_id = ''t1'', rcp_configured = True,
     rcp_version = 3, rcp_updated_at = None\<rparr>"

theorem rules_form_witness:
  "snd (rules_save (\<lambda>_. ''n'') \<lparr>pl_draft = Some (rules_toDraft (\<lambda>_. ''0'') sample_rules), pl_errors = [],
      pl_formError = None, pl_busy = False\<rparr>) = Some (RecommendationPolicyInput.truncate sample_rules)"
proof -
  have "js_Number (js_trim ''0'') = Fin 0" by code_simp
  then show ?thesis
    using rules_form [where str = "\<lambda>_. ''0''" and p = sample_rules and nf = "\<lambda>_. ''n''" and
        w = "\<lparr>pl_draft = None, pl_errors = [], pl_formError = None, pl_busy = False\<rparr>" and r = sample_rules and
        e = "OtherError []"]
    by (simp add: sample_rules_def js_trim_def js_space_def)
qed

end
