(* ===== verification/ConsoleAccess.thy ===== *)
theory ConsoleAccess
  imports ConsoleForms Scopes UrlCoding
begin

text \<open>
  Dialogs (\<open>web/src/ui/Dialog.tsx\<close>), API credentials (\<open>pages/tenant/CredentialsPage.tsx\<close>) and
  registration (\<open>pages/public/RegisterPage.tsx\<close>). Focus and scrolling of the dialog are not modelled.
\<close>

section \<open>Dialogs\<close>

record dialog =
  dg_open :: bool
  dg_error :: "string option"
  dg_busy :: bool
  dg_pending :: bool
  dg_running :: nat

definition dialog_first :: dialog where
  "dialog_first = \<lparr>dg_open = True, dg_error = None, dg_busy = False, dg_pending = False, dg_running = 0\<rparr>"

definition dialog_confirm :: "bool \<Rightarrow> dialog \<Rightarrow> dialog" where
  "dialog_confirm confirmDisabled d =
     (if dg_pending d \<or> confirmDisabled then d
      else d\<lparr>dg_pending := True, dg_busy := True, dg_error := None, dg_running := Suc (dg_running d)\<rparr>)"

text \<open>\<open>onConfirm\<close> settles: it threw, or returned a message, or nothing.\<close>

definition dialog_settle :: "exn + string option \<Rightarrow> dialog \<Rightarrow> dialog" where
  "dialog_settle r d =
     d\<lparr>dg_error := (case r of Inl e \<Rightarrow> Some (describeError e) | Inr (Some m) \<Rightarrow> Some m | Inr None \<Rightarrow> dg_error d),
       dg_pending := False, dg_busy := False, dg_running := dg_running d - 1\<rparr>"

text \<open>Cancel, Escape and the backdrop; none of them works while the dialog is busy.\<close>

definition dialog_close :: "dialog \<Rightarrow> dialog" where
  "dialog_close d = (if dg_busy d then d else d\<lparr>dg_open := False\<rparr>)"

fun dialog_do :: "(exn + string option) press_event \<Rightarrow> dialog \<Rightarrow> dialog" where
  "dialog_do Press d = (if dg_open d then dialog_confirm False d else d)"
| "dialog_do (Settle r) d = (if dg_pending d then dialog_settle r d else d)"
| "dialog_do (Outside _) d = dialog_close d"

interpretation dialog_once: one_at_a_time dg_pending dg_running dialog_do
  by unfold_locales (auto simp: dialog_confirm_def dialog_settle_def dialog_close_def)

section \<open>Credentials\<close>

definition EXPIRY_OPTIONS :: "(string \<times> string) list" where
  "EXPIRY_OPTIONS = [([], ''No expiry''), (''90'', ''90 days''), (''180'', ''180 days''), (''365'', ''365 days'')]"

definition GRACE_OPTIONS :: "(string \<times> string) list" where
  "GRACE_OPTIONS = [(''0'', ''None: old secret stops immediately''), (''3600'', ''1 hour''), (''21600'', ''6 hours''),
     (''86400'', ''24 hours (maximum)'')]"

text \<open>The select offers only the texts above, all numbers but the first.\<close>

definition expiryFromDays :: "(int \<Rightarrow> string) \<Rightarrow> int \<Rightarrow> string \<Rightarrow> string option" where
  "expiryFromDays to_iso now0 days =
     (if days = [] then None
      else case js_Number days of Fin x \<Rightarrow> Some (to_iso (now0 + \<lfloor>x * 86400000\<rfloor>)) | _ \<Rightarrow> None)"

record create_dialog =
  cd_name :: string
  cd_expiry :: string
  cd_scopes :: "string list"

definition create_first :: "TenantUserRole \<Rightarrow> create_dialog" where
  "create_first role = \<lparr>cd_name = [], cd_expiry = ''90'', cd_scopes = [scope_name (hd (delegatableScopes role))]\<rparr>"

text \<open>The scopes the check group offers.\<close>

definition offered :: "TenantUserRole \<Rightarrow> (string \<times> string) list" where
  "offered role =
     [(scope_name s, label). (s, label, g) \<leftarrow> API_KEY_SCOPES, s \<in> set (delegatableScopes role)]"

definition create_hint :: "TenantUserRole \<Rightarrow> string option" where
  "create_hint role =
     (if role = tenant_developer then Some ''A developer may delegate catalog, event and recommendation scopes only.'' else None)"

text \<open>A click on an offered scope, or another edit.\<close>

datatype create_edit = Toggle string | Set_Name string | Set_Expiry string

fun edit_create :: "TenantUserRole \<Rightarrow> create_edit \<Rightarrow> create_dialog \<Rightarrow> create_dialog" where
  "edit_create role (Toggle s) d =
     (if s \<in> fst ` set (offered role) then d\<lparr>cd_scopes := toggle_value s (cd_scopes d)\<rparr> else d)"
| "edit_create role (Set_Name n) d = d\<lparr>cd_name := n\<rparr>"
| "edit_create role (Set_Expiry e) d = d\<lparr>cd_expiry := e\<rparr>"

text \<open>The message of the dialog, or the request: name, scopes and expiry.\<close>

definition create_confirm ::
    "(int \<Rightarrow> string) \<Rightarrow> int \<Rightarrow> create_dialog \<Rightarrow> string + string \<times> string list \<times> string option" where
  "create_confirm to_iso now0 d =
     (if js_trim (cd_name d) = [] then Inl ''Give the credential a name so it can be told apart in this list.''
      else if cd_scopes d = []
      then Inl ''Select at least one integration operation. A credential with no scope cannot authorize anything.''
      else Inr (js_trim (cd_name d), cd_scopes d, expiryFromDays to_iso now0 (cd_expiry d)))"

definition rotate_confirm :: "string \<Rightarrow> string \<Rightarrow> string + number \<times> string" where
  "rotate_confirm grace reason =
     (if js_length (js_trim reason) < 4 then Inl ''A reason is required for this action.''
      else Inr (js_Number grace, js_trim reason))"

datatype credential_dialog = dialog_create | dialog_rotate ApiKeyResource | dialog_revoke ApiKeyResource

record credentials =
  cr_keys :: "ApiKeyResource list option"
  cr_dialog :: "credential_dialog option"
  cr_secret :: "(string \<times> ApiKeySecretResource) option"

definition upsertRow :: "ApiKeyResource \<Rightarrow> credentials \<Rightarrow> credentials" where
  "upsertRow row w =
     (let items = or_else (cr_keys w) [] in
      w\<lparr>cr_keys := Some (if list_ex (\<lambda>k. ak_id k = ak_id row) items
                         then map (\<lambda>k. if ak_id k = ak_id row then row else k) items else row # items)\<rparr>)"

definition showSecret :: "string \<Rightarrow> ApiKeySecretResource \<Rightarrow> credentials \<Rightarrow> credentials" where
  "showSecret title value0 w =
     upsertRow (ApiKeyResource.truncate value0) (w\<lparr>cr_dialog := None, cr_secret := Some (title, value0)\<rparr>)"

definition closeSecret :: "credentials \<Rightarrow> credentials" where
  "closeSecret w = w\<lparr>cr_secret := None\<rparr>"

definition key_revoked_done :: "ApiKeyResource \<Rightarrow> credentials \<Rightarrow> credentials" where
  "key_revoked_done revoked w = upsertRow revoked (w\<lparr>cr_dialog := None\<rparr>)"

definition accessPreset :: "string list \<Rightarrow> string" where
  "accessPreset scopes =
     (if set [''training:write'', ''models:deploy''] \<subseteq> set scopes then ''Full integration access''
      else if set [''catalog:write'', ''events:write'', ''recommendations:read''] \<subseteq> set scopes
      then ''Storefront: catalog, events and recommendations''
      else if set scopes = {''recommendations:read''} then ''Recommendations only''
      else show_int (int (length scopes)) @ '' selected permissions'')"

text \<open>The note under the name, the expiry, and the actions with whether they are disabled.\<close>

definition key_note :: "(string \<Rightarrow> string) \<Rightarrow> ApiKeyResource \<Rightarrow> string" where
  "key_note when k =
     ak_prefix k @ ellipsis @
     (if ak_status k \<noteq> key_active then '' '' @ mid_dot @ '' cannot authorize''
      else if truthy (ak_grace_expires_at k)
      then '' '' @ mid_dot @ '' previous secret valid until '' @ when (the (ak_grace_expires_at k)) else [])"

definition key_expiry :: "(string \<Rightarrow> string) \<Rightarrow> ApiKeyResource \<Rightarrow> string" where
  "key_expiry when k =
     (if truthy (ak_revoked_at k) then ''Revoked '' @ when (the (ak_revoked_at k))
      else if truthy (ak_expires_at k) then ''Expires '' @ when (the (ak_expires_at k)) else ''No expiry'')"

definition key_actions :: "ApiKeyResource \<Rightarrow> (string \<times> bool) list" where
  "key_actions k = [(''Rotate'', ak_status k = key_revoked), (''Revoke'', ak_status k = key_revoked)]"

section \<open>Registration\<close>

definition setupLink :: "string \<Rightarrow> string \<Rightarrow> string" where
  "setupLink origin token = origin @ ''/setup#token='' @ encodeURIComponent token"

record register_page =
  rg_name :: string
  rg_email :: string
  rg_password :: string
  rg_confirm :: string
  rg_fieldErrors :: "(string \<times> string) list"
  rg_error :: "FormError option"
  rg_busy :: bool
  rg_result :: "TenantRegistrationResult option"
  rg_attempt :: "((string \<times> string) \<times> string) option"

definition register_errors :: "register_page \<Rightarrow> (string \<times> string) list" where
  "register_errors w =
     (if js_trim (rg_name w) = [] then [(''name'', ''Enter the registered business name.'')] else []) @
     (if js_trim (rg_email w) = [] \<or> \<not> js_includes (rg_email w) ''@''
      then [(''email'', ''Enter a valid email address.'')] else []) @
     (if js_length (rg_password w) < 8 then [(''password'', ''Use at least 8 characters.'')]
      else if rg_password w \<noteq> rg_confirm w then [(''confirm'', ''The passwords do not match.'')] else [])"

text \<open>The request has the payload, its key and the password, which the activation needs.
  \<open>attempt\<close> keeps the payload, here the pair it is printed from, and its key.\<close>

definition register_input :: "register_page \<Rightarrow> string \<times> string" where
  "register_input w = (js_trim (rg_name w), to_lower (js_trim (rg_email w)))"

definition attempt_key :: "string \<Rightarrow> (string \<times> string) \<Rightarrow> ((string \<times> string) \<times> string) option \<Rightarrow> (string \<times> string) \<times> string" where
  "attempt_key fresh payload attempt =
     (case attempt of Some a \<Rightarrow> if fst a = payload then a else (payload, fresh) | None \<Rightarrow> (payload, fresh))"

definition register_submit :: "string \<Rightarrow> register_page \<Rightarrow> register_page \<times> (((string \<times> string) \<times> string) \<times> string) option" where
  "register_submit fresh w =
     (let errors = register_errors w; w1 = w\<lparr>rg_fieldErrors := errors\<rparr> in
      if errors \<noteq> []
      then (w1\<lparr>rg_error := Some (plain_error ''Registration could not be completed''
                ''Correct the highlighted field and submit again.'')\<rparr>, None)
      else let a = attempt_key fresh (register_input w) (rg_attempt w) in
        (w1\<lparr>rg_busy := True, rg_error := None, rg_attempt := Some a\<rparr>, Some (a, rg_password w)))"

definition registration_fields :: "FieldError list \<Rightarrow> (string \<times> string) list" where
  "registration_fields fs =
     foldl (\<lambda>m f. al_set (if fe_field f = ''admin_email'' then ''email'' else fe_field f) (fe_message f) m) [] fs"

definition register_failed :: "exn \<Rightarrow> register_page \<Rightarrow> register_page" where
  "register_failed e w =
     (case e of
        ApiError a \<Rightarrow>
          (let m = registration_fields (err_fields a); n = truthy (map_of m ''name''); i = truthy (map_of m ''email'') in
           if err_status a = 409
           then w\<lparr>rg_error := Some (plain_error ''This registration already exists''
                  (if n \<and> i then ''Both the business name and the administrator email are already in use. Sign in with your existing account, or ask your operator for a fresh setup link.''
                   else if n then ''Choose a different business name and submit again.''
                   else if i then ''Use a different administrator email, or sign in with your existing account.''
                   else ''Correct the highlighted fields and submit again.'')), rg_fieldErrors := m\<rparr>
           else if err_code a = ''validation_failed''
           then w\<lparr>rg_error := Some (plain_error ''Registration could not be completed''
                  ''Correct the highlighted field and submit again.''), rg_fieldErrors := m\<rparr>
           else if err_code a = ''rate_limit_exceeded''
           then w\<lparr>rg_error := Some \<lparr>fo_title = ''Too many registrations'',
                  fo_body = ''Try again in '' @ retry_seconds a @ '' seconds.'', fo_tone = Some tone_warn\<rparr>\<rparr>
           else w\<lparr>rg_error := Some (plain_error ''Registration could not be completed''
                  ''The request did not succeed. Try again shortly.'')\<rparr>)
      | OtherError _ \<Rightarrow> w\<lparr>rg_error := Some (plain_error ''Registration could not be completed''
                  ''The request did not succeed. Try again shortly.'')\<rparr>)"

text \<open>The answer to the registration: a failure ends the submission; a replay (no token) shows the
  result; otherwise the account is activated with the token, the password and the email.\<close>

definition register_answer ::
    "string \<Rightarrow> string \<Rightarrow> exn + TenantRegistrationResult \<Rightarrow> register_page \<Rightarrow> register_page \<times> (string \<times> string \<times> string) option" where
  "register_answer email password r w =
     (case r of
        Inl e \<Rightarrow> ((register_failed e w)\<lparr>rg_busy := False\<rparr>, None)
      | Inr t \<Rightarrow>
          if truthy (trr_setup_token t)
          then (w, Some (the (trr_setup_token t), password, email))
          else (w\<lparr>rg_result := Some t, rg_busy := False\<rparr>, None))"

text \<open>The answer to the activation: signed in, or the setup link is shown.\<close>

definition setup_answer ::
    "TenantRegistrationResult \<Rightarrow> string \<Rightarrow> exn + AuthTokenPair \<Rightarrow> register_page \<Rightarrow> browser \<Rightarrow> register_page \<times> browser" where
  "setup_answer t email r w b =
     (case r of
        Inr pair \<Rightarrow> (w\<lparr>rg_busy := False\<rparr>, snd (setTenantSession (or_else (tp_email pair) email) pair None b))
      | Inl e \<Rightarrow> (w\<lparr>rg_result := Some t, rg_busy := False\<rparr>, b))"

definition result_link :: "string \<Rightarrow> TenantRegistrationResult \<Rightarrow> string option" where
  "result_link origin t =
     (if truthy (trr_setup_token t) then Some (setupLink origin (the (trr_setup_token t))) else None)"

section \<open>Facts\<close>

lemma dialog_open_running:
  "dg_open d \<Longrightarrow> dg_busy d = dg_pending d \<Longrightarrow>
     (let d' = fold dialog_do es d in dg_busy d' = dg_pending d' \<and> (dg_open d' \<or> \<not> dg_pending d'))"
proof -
  have step: "dg_busy d = dg_pending d \<and> (dg_open d \<or> \<not> dg_pending d) \<Longrightarrow>
      dg_busy (dialog_do e d) = dg_pending (dialog_do e d) \<and> (dg_open (dialog_do e d) \<or> \<not> dg_pending (dialog_do e d))" for e d
    by (cases e) (auto simp: dialog_confirm_def dialog_settle_def dialog_close_def)
  have "dg_busy d = dg_pending d \<and> (dg_open d \<or> \<not> dg_pending d) \<Longrightarrow>
      dg_busy (fold dialog_do es d) = dg_pending (fold dialog_do es d) \<and>
      (dg_open (fold dialog_do es d) \<or> \<not> dg_pending (fold dialog_do es d))" for d
    by (induction es arbitrary: d) (use step in auto)
  then show "dg_open d \<Longrightarrow> dg_busy d = dg_pending d \<Longrightarrow> ?thesis" by (simp add: Let_def)
qed

lemma offered_names: "fst ` set (offered role) = scope_name ` set (delegatableScopes role)"
  using scope_listed by (force simp: offered_def)

lemma set_toggle: "set (toggle_value v xs) = (if v \<in> set xs then set xs - {v} else insert v (set xs))"
  and distinct_toggle: "distinct xs \<Longrightarrow> distinct (toggle_value v xs)"
  by (auto simp: toggle_value_def)

lemma create_scopes:
  "set (cd_scopes (fold (edit_create role) es (create_first role))) \<subseteq> scope_name ` set (delegatableScopes role) \<and>
   distinct (cd_scopes (fold (edit_create role) es (create_first role)))"
proof -
  have step: "set (cd_scopes d) \<subseteq> scope_name ` set (delegatableScopes role) \<and> distinct (cd_scopes d) \<Longrightarrow>
      set (cd_scopes (edit_create role e d)) \<subseteq> scope_name ` set (delegatableScopes role) \<and>
      distinct (cd_scopes (edit_create role e d))" for e d
    by (cases e) (auto simp: offered_names set_toggle distinct_toggle split: if_splits)
  have "set (cd_scopes d) \<subseteq> scope_name ` set (delegatableScopes role) \<and> distinct (cd_scopes d) \<Longrightarrow>
      set (cd_scopes (fold (edit_create role) es d)) \<subseteq> scope_name ` set (delegatableScopes role) \<and>
      distinct (cd_scopes (fold (edit_create role) es d))" for d
    by (induction es arbitrary: d) (use step in simp_all)
  moreover have "hd (delegatableScopes role) \<in> set (delegatableScopes role)"
    by (cases role) (simp_all add: delegatableScopes_def scopes_complete DEVELOPER_DELEGATED_def)
  ultimately show ?thesis by (simp add: create_first_def)
qed

lemma upsert_rows:
  "\<exists>rows. cr_keys (upsertRow row w) = Some rows \<and> row \<in> set rows \<and>
     filter (\<lambda>k. ak_id k \<noteq> ak_id row) rows = filter (\<lambda>k. ak_id k \<noteq> ak_id row) (or_else (cr_keys w) [])"
proof -
  have "filter (\<lambda>k. ak_id k \<noteq> ak_id row) (map (\<lambda>k. if ak_id k = ak_id row then row else k) xs) =
      filter (\<lambda>k. ak_id k \<noteq> ak_id row) xs" for xs
    by (induction xs) auto
  then show ?thesis by (force simp: upsertRow_def Let_def list_ex_iff)
qed

section \<open>Properties\<close>

text \<open>C30: a handler never runs twice at once, and a dialog stays until its handler has settled. Whatever
  is pressed, settles, rerenders or tries to close the dialog, in any order and number, at most one
  call of the handler of a form is unsettled, at most one of a dialog, and a dialog whose handler runs is
  open and busy.\<close>

theorem one_submission:
  "fr_running (fold form_do es \<lparr>fr_submitting = False, fr_running = 0, fr_busy = b\<rparr>) \<le> 1 \<and>
   dg_running (fold dialog_do ds dialog_first) \<le> 1 \<and>
   (dg_running (fold dialog_do ds dialog_first) = 0 \<or>
    dg_open (fold dialog_do ds dialog_first) \<and> dg_busy (fold dialog_do ds dialog_first))"
  using form_once.one_running [of "\<lparr>fr_submitting = False, fr_running = 0, fr_busy = b\<rparr>" es]
    dialog_once.one_running [of dialog_first ds] dialog_open_running [of dialog_first ds]
  by (auto simp: dialog_first_def Let_def)

text \<open>C27: a credential is never asked for with a scope its creator may not delegate. After any edits of
  the dialog, a request has a name, at least one scope, no scope twice, and only scopes the role may
  delegate; for a developer none of training, models, deployments, metrics, billing or usage.\<close>

theorem credential_scopes:
  assumes "create_confirm to_iso now0 (fold (edit_create role) es (create_first role)) = Inr (name, scopes, expiry)"
  shows "name \<noteq> [] \<and> scopes \<noteq> [] \<and> distinct scopes \<and> set scopes \<subseteq> scope_name ` set (delegatableScopes role) \<and>
    (role = tenant_developer \<longrightarrow>
       set scopes \<subseteq> {''catalog:read'', ''catalog:write'', ''events:read'', ''events:write'', ''recommendations:read''})"
proof -
  have "scopes = cd_scopes (fold (edit_create role) es (create_first role))" "name \<noteq> []" "scopes \<noteq> []"
    using assms by (auto simp: create_confirm_def split: if_splits)
  then show ?thesis
    using create_scopes [of role es] by (auto simp: delegatableScopes_def DEVELOPER_DELEGATED_def)
qed

theorem credential_scopes_witness:
  "create_confirm (\<lambda>_. ''later'') 0 (fold (edit_create tenant_developer) [Set_Name '' shop '', Toggle ''events:write'',
      Toggle ''models:write'', Set_Expiry []] (create_first tenant_developer)) =
     Inr (''shop'', [''catalog:read'', ''events:write''], None) \<and> distinct [''catalog:read'', ''events:write'']"
proof -
  have r: "create_confirm (\<lambda>_. ''later'') 0 (fold (edit_create tenant_developer) [Set_Name '' shop '', Toggle ''events:write'',
      Toggle ''models:write'', Set_Expiry []] (create_first tenant_developer)) =
     Inr (''shop'', [''catalog:read'', ''events:write''], None)"
    by code_simp
  from credential_scopes [OF r] r show ?thesis by blast
qed

text \<open>C28: the secret of a credential is shown once and not kept. After its dialog is closed the state of
  the page does not depend on it: two answers that differ only in the secret leave the same state.
  The list has the row of the credential without the secret and its other rows are untouched.\<close>

theorem secret_forgotten:
  "closeSecret (showSecret t (v\<lparr>aks_secret := s\<rparr>) w) = closeSecret (showSecret t' (v\<lparr>aks_secret := s'\<rparr>) w) \<and>
   cr_secret (showSecret t v w) = Some (t, v) \<and> cr_secret (closeSecret (showSecret t v w)) = None \<and>
   (\<exists>rows. cr_keys (closeSecret (showSecret t v w)) = Some rows \<and> ApiKeyResource.truncate v \<in> set rows \<and>
      filter (\<lambda>k. ak_id k \<noteq> ak_id v) rows = filter (\<lambda>k. ak_id k \<noteq> ak_id v) (or_else (cr_keys w) []))"
proof (intro conjI)
  show "closeSecret (showSecret t (v\<lparr>aks_secret := s\<rparr>) w) = closeSecret (showSecret t' (v\<lparr>aks_secret := s'\<rparr>) w)"
    by (simp add: closeSecret_def showSecret_def upsertRow_def Let_def ApiKeyResource.truncate_def)
  show "cr_secret (showSecret t v w) = Some (t, v)" "cr_secret (closeSecret (showSecret t v w)) = None"
    by (simp_all add: closeSecret_def showSecret_def upsertRow_def Let_def)
  show "\<exists>rows. cr_keys (closeSecret (showSecret t v w)) = Some rows \<and> ApiKeyResource.truncate v \<in> set rows \<and>
      filter (\<lambda>k. ak_id k \<noteq> ak_id v) rows = filter (\<lambda>k. ak_id k \<noteq> ak_id v) (or_else (cr_keys w) [])"
    using upsert_rows [of "ApiKeyResource.truncate v" "w\<lparr>cr_dialog := None, cr_secret := Some (t, v)\<rparr>"]
    by (simp add: closeSecret_def showSecret_def ApiKeyResource.truncate_def)
qed

text \<open>What can happen to the page between two submissions.\<close>

datatype register_action =
    Edit_Fields string string string string
  | Answered string string "exn + TenantRegistrationResult"
  | Activated TenantRegistrationResult string "exn + AuthTokenPair" browser

fun register_event :: "register_action \<Rightarrow> register_page \<Rightarrow> register_page" where
  "register_event (Edit_Fields n e p c) w = w\<lparr>rg_name := n, rg_email := e, rg_password := p, rg_confirm := c\<rparr>"
| "register_event (Answered email password r) w = fst (register_answer email password r w)"
| "register_event (Activated t email r b) w = fst (setup_answer t email r w b)"

lemma register_event_attempt: "rg_attempt (register_event e w) = rg_attempt w"
  by (cases e) (auto simp: register_answer_def register_failed_def setup_answer_def Let_def split: sum.split exn.split)

lemma register_events_attempt: "rg_attempt (fold register_event es w) = rg_attempt w"
  by (induction es arbitrary: w) (simp_all add: register_event_attempt)

text \<open>C29: a repeated registration is a retry exactly when it asks for the same thing. Whatever was edited
  and answered since an attempt, the next attempt carries the key of the last one if business name
  and email are again the same, and its own fresh key otherwise; the password has no part in it.\<close>

theorem registration_key:
  assumes "register_submit k w = (w1, Some ((input, key), pw))"
    and "register_submit k' (fold register_event es w1) = (w2, Some ((input', key'), pw'))"
  shows "input' = register_input (fold register_event es w1) \<and> key' = (if input' = input then key else k') \<and>
    rg_attempt w2 = Some (input', key')"
proof -
  have "rg_attempt (fold register_event es w1) = Some (input, key)"
    using assms(1) by (auto simp: register_events_attempt register_submit_def Let_def split: if_splits)
  then show ?thesis
    using assms(2) by (auto simp: register_submit_def attempt_key_def Let_def split: if_splits)
qed

text \<open>An attempt that failed for want of a network, a new password, and the attempt again.\<close>

definition filled_in :: register_page where
  "filled_in = \<lparr>rg_name = ''Northgate '', rg_email = ''A@b.c'', rg_password = ''longenough'', rg_confirm = ''longenough'',
     rg_fieldErrors = [], rg_error = None, rg_busy = False, rg_result = None, rg_attempt = None\<rparr>"

theorem registration_key_witness:
  "snd (register_submit ''k2'' (fold register_event
      [Answered ''a@b.c'' ''longenough'' (Inl (OtherError ''offline'')),
       Edit_Fields ''Northgate'' ''a@b.c'' ''another1'' ''another1''] (fst (register_submit ''k1'' filled_in)))) =
     Some (((''Northgate'', ''a@b.c''), ''k1''), ''another1'')"
  (is "snd (register_submit _ (fold _ ?es _)) = _")
proof -
  have first: "register_submit ''k1'' filled_in =
      (filled_in\<lparr>rg_busy := True, rg_attempt := Some ((''Northgate'', ''a@b.c''), ''k1'')\<rparr>,
       Some (((''Northgate'', ''a@b.c''), ''k1''), ''longenough''))"
    by code_simp
  have "snd (register_submit ''k2'' (fold register_event ?es (fst (register_submit ''k1'' filled_in)))) =
      Some (((''Northgate'', ''a@b.c''), ''k1''), ''another1'')"
    by code_simp
  then obtain w2 where again: "register_submit ''k2'' (fold register_event ?es (fst (register_submit ''k1'' filled_in))) =
      (w2, Some (((''Northgate'', ''a@b.c''), ''k1''), ''another1''))"
    by (metis prod.collapse)
  from registration_key [OF first again [unfolded first fst_conv]] again show ?thesis by simp
qed

end
