(* ===== verification/ConsoleSignIn.thy ===== *)
theory ConsoleSignIn
  imports ConsoleAccess Routes Hooks
begin

text \<open>
  Signing in (\<open>web/src/pages/public/LoginPage.tsx\<close>, \<open>AdminLoginPage.tsx\<close>), account setup (\<open>SetupPage.tsx\<close>)
  and password recovery (\<open>RecoverPage.tsx\<close>). A page is left by \<open>navigate\<close>; what it does to the sessions
  is in the browser part of the state.
\<close>

section \<open>Links with a token\<close>

definition strip_first :: "char \<Rightarrow> string \<Rightarrow> string" where
  "strip_first c s = (case s of d # r \<Rightarrow> if d = c then r else s | [] \<Rightarrow> [])"

text \<open>\<open>new URLSearchParams(hash.replace(/^#/, "")).get("token") ?? ""\<close>; the constructor drops a leading
  question mark and empty pieces.\<close>

definition tokenFromLocation :: "string \<Rightarrow> string" where
  "tokenFromLocation hash =
     or_else (params_get ''token''
       (map parse_pair (filter (\<lambda>w. w \<noteq> []) (js_split CHR ''&'' (strip_first CHR ''?'' (strip_first CHR ''#'' hash)))))) []"

text \<open>Once it is read the token is taken out of the address.\<close>

definition forget_token :: "string \<Rightarrow> string \<times> string \<Rightarrow> string \<times> string" where
  "forget_token linkToken = (\<lambda>(pathname, hash). if linkToken \<noteq> [] then (pathname, []) else (pathname, hash))"

section \<open>Workspace sign-in\<close>

definition GENERIC_ERROR :: FormError where
  "GENERIC_ERROR = plain_error ''Sign-in failed''
     ''The credentials supplied are not valid, or the account cannot sign in. If the problem continues, contact your workspace administrator.''"

definition safeReturn :: "string option \<Rightarrow> string" where
  "safeReturn v =
     (case v of
        Some s \<Rightarrow> if starts_with s ''/'' \<and> \<not> starts_with s ''//'' \<and> \<not> starts_with s ''/admin'' then s else ''/home''
      | None \<Rightarrow> ''/home'')"

record sign_in =
  sn_email :: string
  sn_password :: string
  sn_error :: "FormError option"
  sn_busy :: bool

definition too_many :: "GraphRecApiError \<Rightarrow> FormTone option \<Rightarrow> FormError" where
  "too_many a t =
     \<lparr>fo_title = ''Too many attempts'', fo_body = ''Try again in '' @ retry_seconds a @ '' seconds.'', fo_tone = t\<rparr>"

definition unreachable :: FormError where
  "unreachable = plain_error ''GraphRec could not be reached'' ''Check that the API is running and try again.''"

text \<open>\<open>submit\<close> up to the request: the normalized email and the password.\<close>

definition login_submit :: "sign_in \<Rightarrow> sign_in \<times> (string \<times> string) option" where
  "login_submit w =
     (let normalized = to_lower (js_trim (sn_email w)) in
      if normalized = [] \<or> sn_password w = [] then (w\<lparr>sn_error := Some GENERIC_ERROR\<rparr>, None)
      else (w\<lparr>sn_busy := True, sn_error := None\<rparr>, Some (normalized, sn_password w)))"

definition login_error :: "exn \<Rightarrow> FormError" where
  "login_error e =
     (case e of
        ApiError a \<Rightarrow>
          if err_code a = ''rate_limit_exceeded'' then too_many a (Some tone_warn)
          else if err_code a = ''network_error'' then unreachable else GENERIC_ERROR
      | OtherError _ \<Rightarrow> GENERIC_ERROR)"

text \<open>The answer: signed in and sent to \<open>returnTo\<close>, or a message. The third component is the path gone to.\<close>

definition login_answer ::
    "string \<Rightarrow> string \<Rightarrow> exn + AuthTokenPair \<Rightarrow> sign_in \<times> 'a browser_scheme \<Rightarrow> sign_in \<times> 'a browser_scheme \<times> string option" where
  "login_answer normalized returnTo r =
     (\<lambda>(w, b).
       case r of
         Inr pair \<Rightarrow>
           (w\<lparr>sn_busy := False\<rparr>, snd (setTenantSession (or_else (tp_email pair) normalized) pair None b), Some returnTo)
       | Inl e \<Rightarrow> (w\<lparr>sn_error := Some (login_error e), sn_busy := False\<rparr>, b, None))"

section \<open>Operator sign-in\<close>

definition admin_safeReturn :: "string option \<Rightarrow> string" where
  "admin_safeReturn v =
     (case v of Some s \<Rightarrow> if starts_with s ''/admin'' then s else ''/admin/status'' | None \<Rightarrow> ''/admin/status'')"

definition FAILED_ERROR :: FormError where
  "FAILED_ERROR = plain_error ''Sign-in failed'' ''The credentials supplied are not valid, or the operator account cannot sign in.''"

record admin_sign_in = sign_in +
  ad_token_mode :: bool
  ad_token :: string

definition allowToken :: "ProductMeta option \<Rightarrow> bool" where
  "allowToken meta = (case meta of Some m \<Rightarrow> pm_environment m = env_development | None \<Rightarrow> False)"

definition switch_mode :: "admin_sign_in \<Rightarrow> admin_sign_in" where
  "switch_mode w = w\<lparr>ad_token_mode := \<not> ad_token_mode w, sn_error := None\<rparr>"

text \<open>Either the account's email and password are sent, or the token is checked.\<close>

datatype admin_request = Operator_Login string string | Check_Token string

definition admin_submit :: "admin_sign_in \<Rightarrow> admin_sign_in \<times> admin_request option" where
  "admin_submit w =
     (let failed = (w\<lparr>sn_error := Some FAILED_ERROR, sn_busy := False\<rparr>, None);
          sent = w\<lparr>sn_busy := True, sn_error := None\<rparr> in
      if \<not> ad_token_mode w
      then (if js_trim (sn_email w) = [] \<or> sn_password w = [] then failed
            else (sent, Some (Operator_Login (js_trim (sn_email w)) (sn_password w))))
      else (if js_trim (ad_token w) = [] then failed else (sent, Some (Check_Token (js_trim (ad_token w))))))"

definition admin_error :: "exn \<Rightarrow> FormError" where
  "admin_error e =
     (case e of
        ApiError a \<Rightarrow>
          if err_code a = ''network_error'' then unreachable
          else if err_code a = ''rate_limit_exceeded'' then too_many a None else FAILED_ERROR
      | OtherError _ \<Rightarrow> FAILED_ERROR)"

definition operator_answer ::
    "string \<Rightarrow> exn + OperatorSession \<Rightarrow> admin_sign_in \<times> 'a browser_scheme \<Rightarrow> admin_sign_in \<times> 'a browser_scheme \<times> string option" where
  "operator_answer returnTo r =
     (\<lambda>(w, b).
       case r of
         Inr issued \<Rightarrow>
           (w\<lparr>sn_busy := False\<rparr>,
            snd (setPlatformSession (os_access_token issued) (Some cred_operator) (Some (os_email issued))
                  (Some (os_display_name issued)) (Some (os_roles issued)) (Some (now b + os_expires_in issued * 1000)) b),
            Some returnTo)
       | Inl e \<Rightarrow> (w\<lparr>sn_error := Some (admin_error e), sn_busy := False\<rparr>, b, None))"

definition token_answer ::
    "string \<Rightarrow> string \<Rightarrow> exn + PlatformMe \<Rightarrow> admin_sign_in \<times> 'a browser_scheme \<Rightarrow> admin_sign_in \<times> 'a browser_scheme \<times> string option" where
  "token_answer presented returnTo r =
     (\<lambda>(w, b).
       case r of
         Inr me \<Rightarrow>
           (w\<lparr>sn_busy := False\<rparr>,
            snd (setPlatformSession presented (Some cred_bootstrap_token) None None (Some (me_roles me)) None b),
            Some returnTo)
       | Inl e \<Rightarrow> (w\<lparr>sn_error := Some (admin_error e), sn_busy := False\<rparr>, b, None))"

section \<open>Account setup\<close>

record setup_page =
  su_token :: string
  su_email :: string
  su_password :: string
  su_confirm :: string
  su_fieldErrors :: "(string \<times> string) list"
  su_error :: "FormError option"
  su_busy :: bool

definition setup_first :: "string \<Rightarrow> string option \<Rightarrow> setup_page" where
  "setup_first hash email =
     \<lparr>su_token = tokenFromLocation hash, su_email = or_else email [], su_password = [], su_confirm = [],
      su_fieldErrors = [], su_error = None, su_busy = False\<rparr>"

definition setup_errors :: "setup_page \<Rightarrow> (string \<times> string) list" where
  "setup_errors w =
     (if js_trim (su_token w) = [] then [(''token'', ''Required.'')] else []) @
     (if js_length (su_password w) < 8 then [(''password'', ''At least 8 characters.'')] else []) @
     (if su_confirm w \<noteq> su_password w then [(''confirm'', ''The two entries do not match.'')] else [])"

text \<open>The request: token, password, and the email when one is given.\<close>

definition setup_submit :: "setup_page \<Rightarrow> setup_page \<times> (string \<times> string \<times> string option) option" where
  "setup_submit w =
     (let errors = setup_errors w; w1 = w\<lparr>su_fieldErrors := errors\<rparr>; normalized = to_lower (js_trim (su_email w)) in
      if errors \<noteq> []
      then (w1\<lparr>su_error := Some (plain_error ''Correct the highlighted field'' ''Then submit again.'')\<rparr>, None)
      else (w1\<lparr>su_busy := True, su_error := None\<rparr>,
            Some (js_trim (su_token w), su_password w, if normalized = [] then None else Some normalized)))"

definition setup_error :: "exn \<Rightarrow> FormError" where
  "setup_error e =
     (case e of
        ApiError a \<Rightarrow>
          if err_code a = ''invalid_setup_token''
          then plain_error ''This link cannot be used''
                 ''It has expired, was already used, or is not valid. Ask your operator for a new setup token.''
          else if err_code a = ''rate_limit_exceeded'' then too_many a (Some tone_warn)
          else if err_code a = ''validation_failed''
          then plain_error ''Correct the highlighted field''
                 (let m = js_join ''; '' (map fe_message (err_fields a)) in
                  if m \<noteq> [] then m else ''The password must be at least 8 characters.'')
          else plain_error ''Account setup is temporarily unavailable'' ''Try again shortly.''
      | OtherError _ \<Rightarrow> plain_error ''Account setup is temporarily unavailable'' ''Try again shortly.'')"

definition setup_done ::
    "string option \<Rightarrow> exn + AuthTokenPair \<Rightarrow> setup_page \<times> 'a browser_scheme \<Rightarrow> setup_page \<times> 'a browser_scheme \<times> string option" where
  "setup_done email r =
     (\<lambda>(w, b).
       case r of
         Inr pair \<Rightarrow>
           (w\<lparr>su_busy := False\<rparr>, snd (setTenantSession (or_else (tp_email pair) (or_else email [])) pair None b),
            Some ''/home'')
       | Inl e \<Rightarrow> (w\<lparr>su_error := Some (setup_error e), su_busy := False\<rparr>, b, None))"

section \<open>Recovery\<close>

definition recover_submit :: "setup_page \<Rightarrow> setup_page \<times> (string \<times> string \<times> string option) option" where
  "recover_submit w =
     (if js_trim (su_token w) = [] \<or> js_length (su_password w) < 8 \<or> su_password w \<noteq> su_confirm w
      then (w\<lparr>su_error := Some (plain_error ''Check your entries''
              ''Provide the one-time token and matching passwords of at least 8 characters.'')\<rparr>, None)
      else (w\<lparr>su_busy := True, su_error := None\<rparr>,
            Some (js_trim (su_token w), su_password w,
                  if js_trim (su_email w) = [] then None else Some (to_lower (js_trim (su_email w))))))"

definition recover_error :: "exn \<Rightarrow> FormError" where
  "recover_error e =
     (case e of
        ApiError a \<Rightarrow>
          if err_code a = ''invalid_recovery_token''
          then plain_error ''This token cannot be used''
                 ''It has expired, was already used, or is not valid. Ask your platform operator for a new token.''
          else if err_code a = ''rate_limit_exceeded'' then too_many a (Some tone_warn)
          else plain_error ''Recovery unavailable'' ''Check the fields or try again shortly.''
      | OtherError _ \<Rightarrow> plain_error ''Recovery unavailable'' ''Check the fields or try again shortly.'')"

definition recover_done :: "exn + unit \<Rightarrow> setup_page \<Rightarrow> setup_page \<times> string option" where
  "recover_done r w =
     (case r of
        Inr _ \<Rightarrow> (w\<lparr>su_busy := False\<rparr>, Some ''/login'')
      | Inl e \<Rightarrow> (w\<lparr>su_error := Some (recover_error e), su_busy := False\<rparr>, None))"

section \<open>Facts\<close>

text \<open>The token of a link comes out of its fragment as it went in.\<close>

lemma token_of_link: "tokenFromLocation (''#token='' @ encodeURIComponent t) = t"
proof -
  have clean: "c \<notin> set (encodeURIComponent t)" if "c \<in> set url_delimiters" for c
    using encodeURIComponent_clean that by blast
  have "js_split CHR ''&'' (''token='' @ encodeURIComponent t) = [''token='' @ encodeURIComponent t]"
    using clean [of "CHR ''&''"] by (intro js_split_absent) (auto simp: url_delimiters_def)
  moreover have "js_split CHR ''='' (''token='' @ encodeURIComponent t) = [''token'', encodeURIComponent t]"
    using js_split_append [of "CHR ''=''" "''token''" "encodeURIComponent t"]
      js_split_absent [of "CHR ''=''" "encodeURIComponent t"] clean [of "CHR ''=''"]
    by (simp add: url_delimiters_def)
  moreover have "percent_decode True ''token'' = ''token''" by code_simp
  ultimately show ?thesis
    by (simp add: tokenFromLocation_def strip_first_def params_get_def parse_pair_def form_decode_encodeURIComponent)
qed

text \<open>Where a sign-in leads stays on the site: a path with one slash, never the operator console.\<close>

lemma safeReturn_local:
  "\<exists>r. safeReturn v = CHR ''/'' # r \<and> \<not> starts_with r ''/'' \<and> \<not> starts_with (safeReturn v) ''/admin''"
  by (cases v) (auto simp: safeReturn_def starts_with_iff)

end
