(* ===== verification/Paging.thy ===== *)
theory Paging
  imports Prelude
begin

text \<open>
  Lists shown in pages: the contract of a page count, which the console's product list and the Reel
  shop's browse page share. Pages are numbered from 1; page \<open>n\<close> starts after \<open>(n - 1) * len\<close> rows.
\<close>

locale paging =
  fixes len :: int and pages :: "int \<Rightarrow> int"
  assumes len_pos: "0 < len"
    and pages_eq: "pages n_rows = max 1 \<lceil>of_int n_rows / (of_int len :: rat)\<rceil>"
begin

lemma pages_pos: "1 \<le> pages n_rows"
  by (simp add: pages_eq)

text \<open>A page exists when it is the first or a row is left for it.\<close>

lemma page_exists: "n \<le> pages n_rows \<longleftrightarrow> n \<le> 1 \<or> (n - 1) * len < n_rows"
proof -
  have "n \<le> \<lceil>of_int n_rows / (of_int len :: rat)\<rceil> \<longleftrightarrow> (of_int n - 1) * (of_int len :: rat) < of_int n_rows"
    using len_pos by (simp add: le_ceiling_iff pos_less_divide_eq)
  also have "\<dots> \<longleftrightarrow> (of_int ((n - 1) * len) :: rat) < of_int n_rows" by simp
  finally show ?thesis by (simp only: pages_eq le_max_iff_disj of_int_less_iff)
qed

text \<open>The rows of a page lie in the list, fill a page unless it is the last, and the last page ends
  with the list.\<close>

lemma page_rows:
  assumes "0 < n_rows" "1 \<le> n" "n \<le> pages n_rows"
  shows "0 \<le> (n - 1) * len \<and> (n - 1) * len < n_rows \<and>
    (n < pages n_rows \<longrightarrow> n * len < n_rows) \<and> (n = pages n_rows \<longrightarrow> n_rows \<le> n * len)"
proof -
  have "(n - 1) * len < n_rows" using page_exists [of n n_rows] assms by (cases "n = 1") auto
  moreover have "n < pages n_rows \<longrightarrow> n * len < n_rows" using page_exists [of "n + 1" n_rows] assms(2) by auto
  moreover have "n = pages n_rows \<longrightarrow> n_rows \<le> n * len" using page_exists [of "n + 1" n_rows] assms(2) by auto
  ultimately show ?thesis using assms(2) len_pos by simp
qed

text \<open>Every row is on exactly one page.\<close>

lemma row_page:
  assumes "0 \<le> k" "k < n_rows"
  shows "\<exists>!n. 1 \<le> n \<and> n \<le> pages n_rows \<and> (n - 1) * len \<le> k \<and> k < n * len"
proof (rule ex1I [of _ "k div len + 1"])
  have "k div len * len + k mod len = k" "0 \<le> k mod len" "k mod len < len"
    using len_pos by simp_all
  then have lo: "k div len * len \<le> k" and hi: "k < (k div len + 1) * len"
    by (simp_all only: distrib_right)
  then show "1 \<le> k div len + 1 \<and> k div len + 1 \<le> pages n_rows \<and> (k div len + 1 - 1) * len \<le> k \<and>
      k < (k div len + 1) * len"
    using page_exists [of "k div len + 1" n_rows] assms len_pos by (auto simp: pos_imp_zdiv_nonneg_iff)
  fix n
  assume n: "1 \<le> n \<and> n \<le> pages n_rows \<and> (n - 1) * len \<le> k \<and> k < n * len"
  then have "k div len = n - 1" using len_pos by (intro int_div_pos_eq [of _ _ _ "k - (n - 1) * len"])
      (auto simp: algebra_simps)
  then show "n = k div len + 1" by simp
qed

end

end
