(* ===== verification/ConsoleCatalog.thy ===== *)
theory ConsoleCatalog
  imports ConsoleForms Hooks Paging
begin

text \<open>
  The catalog pages of the console: the product form (\<open>web/src/pages/tenant/ProductFormPages.tsx\<close>), the
  synchronization (\<open>ProductSyncPage.tsx\<close>) and the list (\<open>ProductsPage.tsx\<close>). \<open>parse\<close> is \<open>JSON.parse\<close>,
  none where it throws, and \<open>stringify\<close> is \<open>JSON.stringify(value, null, 2)\<close>.
\<close>

section \<open>The product form\<close>

record ProductDraft =
  dr_external_id :: string
  dr_title :: string
  dr_category :: string
  dr_price :: string
  dr_availability :: string
  dr_description :: string
  dr_metadata :: string
  dr_is_active :: bool

definition EMPTY_DRAFT :: ProductDraft where
  "EMPTY_DRAFT = \<lparr>dr_external_id = [], dr_title = [], dr_category = [], dr_price = ''0.00'',
     dr_availability = ''available'', dr_description = [], dr_metadata = [], dr_is_active = True\<rparr>"

definition fromResource :: "(json \<Rightarrow> string) \<Rightarrow> ProductResource \<Rightarrow> ProductDraft" where
  "fromResource stringify p =
     \<lparr>dr_external_id = pr_external_id p, dr_title = pr_title p, dr_category = or_else (pr_category p) [],
      dr_price = fmtPrice (pr_price p), dr_availability = pr_availability_status p,
      dr_description = or_else (pr_description p) [],
      dr_metadata = (if pr_metadata p \<noteq> [] then stringify (JObj (pr_metadata p)) else []),
      dr_is_active = pr_is_active p\<rparr>"

text \<open>An optional JSON object: its members, or the message of the field.\<close>

definition parse_object :: "(string \<Rightarrow> json option) \<Rightarrow> string \<Rightarrow> string + (string \<times> json) list" where
  "parse_object parse s =
     (if js_trim s = [] then Inr []
      else case parse s of
        None \<Rightarrow> Inl ''Not valid JSON.''
      | Some (JObj kvs) \<Rightarrow> Inr kvs
      | Some _ \<Rightarrow> Inl ''Must be a JSON object.'')"

definition price_ok :: "string \<Rightarrow> bool" where
  "price_ok s = (js_trim s \<noteq> [] \<and> (case js_Number s of Fin x \<Rightarrow> x \<ge> 0 | _ \<Rightarrow> False))"

definition text_or_null :: "string \<Rightarrow> string option" where
  "text_or_null s = (if js_trim s = [] then None else Some (js_trim s))"

definition draft_errors :: "(string \<Rightarrow> json option) \<Rightarrow> bool \<Rightarrow> ProductDraft \<Rightarrow> (string \<times> string) list" where
  "draft_errors parse requireId d =
     (if requireId \<and> js_trim (dr_external_id d) = [] then [(''external_id'', ''Required.'')] else []) @
     (if js_trim (dr_title d) = [] then [(''title'', ''Required.'')] else []) @
     (if \<not> price_ok (dr_price d) then [(''price'', ''Enter a non-negative decimal.'')] else []) @
     field_error ''metadata'' (parse_object parse (dr_metadata d))"

definition validate ::
    "(string \<Rightarrow> json option) \<Rightarrow> bool \<Rightarrow> ProductDraft \<Rightarrow> (string \<times> string) list + ProductUpsert" where
  "validate parse requireId d =
     (let errors = draft_errors parse requireId d in
      if errors \<noteq> [] then Inl errors
      else Inr \<lparr>pu_external_id = js_trim (dr_external_id d), pu_title = js_trim (dr_title d),
                pu_description = text_or_null (dr_description d), pu_price = Some (Str (js_trim (dr_price d))),
                pu_category = text_or_null (dr_category d), pu_is_active = Some (dr_is_active d),
                pu_availability_status = Some (dr_availability d),
                pu_metadata = Some (parsed_value (parse_object parse (dr_metadata d)) [])\<rparr>)"

text \<open>What a failed save says, and the fields it marks (none where they are left).\<close>

definition product_mapError :: "exn \<Rightarrow> FormError \<times> (string \<times> string) list option" where
  "product_mapError e =
     (case e of
        ApiError a \<Rightarrow>
          if err_code a = ''validation_failed''
          then (plain_error ''Correct the highlighted field''
                  (if err_fields a \<noteq> [] then ''Then submit again.'' else err_message a),
                Some (foldl (\<lambda>m f. al_set (fe_field f) (fe_message f) m) [] (err_fields a)))
          else if err_status a = 409 then (plain_error ''That identifier is already in use'' (err_message a), None)
          else if err_status a = 429
          then (\<lparr>fo_title = ''Quota or rate limit reached'', fo_body = err_message a, fo_tone = Some tone_warn\<rparr>, None)
          else if err_status a = 403
          then (plain_error ''Not permitted'' ''Your credential does not grant catalog:write.'', None)
          else (plain_error ''The product could not be saved'' ''Try again shortly.'', None)
      | OtherError _ \<Rightarrow> (plain_error ''The product could not be saved'' ''Try again shortly.'', None))"

record product_form =
  pf_draft :: ProductDraft
  pf_fieldErrors :: "(string \<times> string) list"
  pf_error :: "FormError option"
  pf_busy :: bool

text \<open>\<open>submit\<close> up to the request; \<open>known\<close> is the identifier of the product being edited.\<close>

definition product_submit ::
    "(string \<Rightarrow> json option) \<Rightarrow> string option \<Rightarrow> product_form \<Rightarrow> product_form \<times> (string \<times> ProductUpsert) option" where
  "product_submit parse known w =
     (case validate parse (known = None) (pf_draft w) of
        Inl errors \<Rightarrow>
          (w\<lparr>pf_fieldErrors := errors, pf_error := Some (plain_error ''Correct the highlighted field'' ''Then submit again.'')\<rparr>, None)
      | Inr payload \<Rightarrow>
          (w\<lparr>pf_fieldErrors := [], pf_busy := True, pf_error := None\<rparr>,
           Some (case known of
                   Some i \<Rightarrow> (i, payload\<lparr>pu_external_id := i\<rparr>)
                 | None \<Rightarrow> (pu_external_id payload, payload))))"

definition product_failed :: "exn \<Rightarrow> product_form \<Rightarrow> product_form" where
  "product_failed e w =
     (let (err, fields) = product_mapError e in
      w\<lparr>pf_fieldErrors := or_else fields (pf_fieldErrors w), pf_error := Some err, pf_busy := False\<rparr>)"

definition eligibility :: "ProductResource \<Rightarrow> bool \<times> string" where
  "eligibility p =
     (if \<not> pr_is_active p then (False, ''Inactive: excluded from recommendations'')
      else if pr_availability_status p \<noteq> ''available''
      then (False, humanize (pr_availability_status p) @ '': excluded from recommendations'')
      else (True, []))"

definition product_badge :: "ProductResource \<Rightarrow> bool \<times> string" where
  "product_badge p =
     (fst (eligibility p), if pr_is_active p then humanize (pr_availability_status p) else ''Inactive'')"

text \<open>The disable action: whether it is disabled, and why.\<close>

definition disable_action :: "bool \<Rightarrow> ProductResource \<Rightarrow> bool \<times> string option" where
  "disable_action writable p =
     (\<not> pr_is_active p \<or> \<not> writable,
      if \<not> writable then Some ''Your role cannot change the catalog.''
      else if pr_is_active p then None else Some ''This product is already disabled.'')"

definition AVAILABILITY :: "string list" where
  "AVAILABILITY = [''available'', ''unavailable'', ''out_of_stock'', ''discontinued'']"

definition availability_options :: "ProductDraft \<Rightarrow> string list" where
  "availability_options d =
     (if dr_availability d \<in> set AVAILABILITY then AVAILABILITY else dr_availability d # AVAILABILITY)"

text \<open>Whether the catalog has as many products as the plan allows, or more.\<close>

definition overLimit :: "UsageDimension list option \<Rightarrow> bool" where
  "overLimit dimensions =
     (case List.find (\<lambda>d. ud_type d = stored_products) (or_else dimensions []) of
        None \<Rightarrow> False
      | Some d \<Rightarrow> (case ud_limit d of None \<Rightarrow> False | Some l \<Rightarrow> ud_used d \<ge> l))"

section \<open>Collections\<close>

text \<open>A pasted collection: an array, or an object with the array as member \<open>name\<close> and perhaps a
  \<open>request_id\<close>. The result is the items and the request id, or the message.\<close>

definition request_id_ok :: "json option \<Rightarrow> bool" where
  "request_id_ok r =
     (case r of
        None \<Rightarrow> True
      | Some (JStr s) \<Rightarrow> s \<noteq> [] \<and> js_length s \<le> 128
      | Some _ \<Rightarrow> False)"

definition parse_collection ::
    "(string \<Rightarrow> json option) \<Rightarrow> string \<Rightarrow> (json \<Rightarrow> bool) \<Rightarrow> string \<Rightarrow> string \<Rightarrow> string \<Rightarrow> string \<Rightarrow>
     string + json list \<times> string option" where
  "parse_collection parse name item_ok empty0 too_many bad_item text0 =
     (if js_trim text0 = [] then Inl empty0
      else case parse text0 of
        None \<Rightarrow> Inl ''The collection is not valid JSON.''
      | Some value0 \<Rightarrow>
          (case (case value0 of JArr xs \<Rightarrow> Some (JArr xs) | _ \<Rightarrow> json_get value0 name) of
             Some (JArr items) \<Rightarrow>
               if items = [] then Inl (''Provide a non-empty '' @ CHR 0x22 # name @ CHR 0x22 # '' array.'')
               else if length items > 1000 then Inl too_many
               else if \<not> list_all item_ok items then Inl bad_item
               else let requestId = (case value0 of JArr xs \<Rightarrow> None | _ \<Rightarrow> json_get value0 ''request_id'') in
                 if \<not> request_id_ok requestId
                 then Inl (''request_id must contain 1'' @ en_dash @ ''128 characters.'')
                 else Inr (items, json_string requestId)
           | _ \<Rightarrow> Inl (''Provide a non-empty '' @ CHR 0x22 # name @ CHR 0x22 # '' array.'')))"

definition has_string :: "string \<Rightarrow> json \<Rightarrow> bool" where
  "has_string k i = (json_string (json_get i k) \<noteq> None)"

definition parseProductCollection :: "(string \<Rightarrow> json option) \<Rightarrow> string \<Rightarrow> string + json list \<times> string option" where
  "parseProductCollection parse text0 =
     parse_collection parse ''products'' (has_string ''external_id'') ''Paste a product collection.''
       ''A synchronization accepts at most 1,000 products.'' ''Every product needs an external_id.'' text0"

section \<open>Synchronization\<close>

definition sync_error :: "exn \<Rightarrow> FormError" where
  "sync_error e =
     (case e of
        ApiError a \<Rightarrow>
          if err_status a = 413
          then \<lparr>fo_title = ''Submission rejected: too large'',
                fo_body = ''The request body exceeds the limit the API is configured with. Split the collection and submit it in parts, or use a dataset upload.'',
                fo_tone = Some tone_warn\<rparr>
          else if err_code a = ''validation_failed''
          then plain_error ''The collection cannot be accepted''
                 (if field_messages (err_fields a) \<noteq> [] then field_messages (err_fields a) else err_message a)
          else if err_status a = 403 then plain_error ''Not permitted'' ''Your credential does not grant catalog:write.''
          else plain_error ''Synchronization failed'' ''Try again shortly.''
      | OtherError _ \<Rightarrow> plain_error ''Synchronization failed'' ''Try again shortly.'')"

record sync_page =
  sy_payload :: string
  sy_error :: "FormError option"
  sy_fieldError :: "string option"
  sy_busy :: bool
  sy_result :: "(int \<times> ProductBulkUpsertResponse) option"

definition sync_submit ::
    "(string \<Rightarrow> json option) \<Rightarrow> sync_page \<Rightarrow> sync_page \<times> (json list \<times> string option) option" where
  "sync_submit parse w =
     (case parseProductCollection parse (sy_payload w) of
        Inl m \<Rightarrow> (w\<lparr>sy_fieldError := Some m, sy_error := Some (plain_error ''Correct the highlighted field'' m)\<rparr>, None)
      | Inr (items, requestId) \<Rightarrow>
          (w\<lparr>sy_fieldError := None, sy_busy := True, sy_error := None\<rparr>, Some (items, requestId)))"

definition sync_answer :: "json list \<Rightarrow> exn + ProductBulkUpsertResponse \<Rightarrow> sync_page \<Rightarrow> sync_page" where
  "sync_answer items r w =
     (case r of
        Inr response \<Rightarrow> w\<lparr>sy_result := Some (int (length items), response)\<rparr>
      | Inl e \<Rightarrow> w\<lparr>sy_error := Some (sync_error e)\<rparr>)\<lparr>sy_busy := False\<rparr>"

definition sync_stats :: "(rat \<Rightarrow> string) \<Rightarrow> int \<times> ProductBulkUpsertResponse \<Rightarrow> (string \<times> string) list" where
  "sync_stats nf =
     (\<lambda>(received, r).
       [(''Received'', nf (of_int received)), (''Accepted'', nf (of_int (pbu_accepted_count r))),
        (''Created'', nf (of_int (pbu_created_count r))), (''Updated'', nf (of_int (pbu_updated_count r))),
        (''Skipped'', nf (of_int (pbu_skipped_count r))), (''Rejected'', nf (of_int (pbu_rejected_count r)))])"

section \<open>The list\<close>

definition PAGE_SIZE :: int where
  "PAGE_SIZE = 50"

definition isPlaceholderTitle :: "ProductResource \<Rightarrow> bool" where
  "isPlaceholderTitle p = (js_trim (pr_title p) = ''Item '' @ pr_external_id p)"

definition hasPrice :: "ProductResource \<Rightarrow> bool" where
  "hasPrice p =
     (case (case pr_price p of Num x \<Rightarrow> Fin x | Str s \<Rightarrow> js_Number s) of
        Fin x \<Rightarrow> x > 0 | Infinite negative \<Rightarrow> \<not> negative | NaN \<Rightarrow> False)"

text \<open>The page asked for, which \<open>Number.isSafeInteger\<close> bounds by 2 to the 53.\<close>

definition products_page :: "search_params \<Rightarrow> int" where
  "products_page params =
     (case (case params_get ''page'' params of None \<Rightarrow> Fin 1 | Some s \<Rightarrow> js_Number s) of
        Fin x \<Rightarrow> if x = of_int \<lfloor>x\<rfloor> \<and> \<bar>x\<bar> < 2 ^ 53 \<and> x > 0 then \<lfloor>x\<rfloor> else 1
      | _ \<Rightarrow> 1)"

definition products_offset :: "int \<Rightarrow> int" where
  "products_offset page = (page - 1) * PAGE_SIZE"

definition products_filtered :: "(string \<Rightarrow> string \<Rightarrow> rat) \<Rightarrow> string \<Rightarrow> string \<Rightarrow> ProductResource list \<Rightarrow> ProductResource list" where
  "products_filtered natural avail q items =
     js_sort (\<lambda>a b. natural (pr_external_id a) (pr_external_id b))
       (filter (\<lambda>p. (avail = ''all availability'' \<or> pr_availability_status p = avail) \<and>
                    (js_trim q = [] \<or>
                     js_includes (to_lower (pr_external_id p @ '' '' @ pr_title p)) (to_lower (js_trim q)))) items)"

text \<open>Whether the columns of category and price are shown, and whether the catalog has neither.\<close>

definition shown_columns :: "ProductResource list \<Rightarrow> bool \<times> bool \<times> bool" where
  "shown_columns items =
     (let c = list_ex (\<lambda>p. truthy (pr_category p)) items; p = list_ex hasPrice items
      in (c, p, items \<noteq> [] \<and> \<not> c \<and> \<not> p))"

definition clear_filters :: "search_params \<Rightarrow> search_params" where
  "clear_filters params = al_delete ''availability'' (al_delete ''q'' params)"

definition go_to_page :: "int \<Rightarrow> search_params \<Rightarrow> search_params" where
  "go_to_page n params = params_set ''page'' (show_int n) params"

definition products_pages :: "int \<Rightarrow> int" where
  "products_pages total0 = max 1 \<lceil>of_int total0 / (of_int PAGE_SIZE :: rat)\<rceil>"

interpretation product_paging: paging PAGE_SIZE products_pages
  by unfold_locales (simp_all add: PAGE_SIZE_def products_pages_def)

text \<open>The pager: first and last row, number of pages, and whether the buttons are disabled.\<close>

definition products_pager :: "int \<Rightarrow> int \<Rightarrow> bool \<Rightarrow> int \<times> int \<times> int \<times> bool \<times> bool" where
  "products_pager page total0 loading =
     (let pages = products_pages total0 in
      (if total0 \<noteq> 0 then (page - 1) * PAGE_SIZE + 1 else 0, min total0 (page * PAGE_SIZE), pages,
       page \<le> 1 \<or> loading, page \<ge> pages \<or> loading))"

text \<open>Enter in the search opens the product with exactly that identifier when none matches.\<close>

definition search_submit :: "string \<Rightarrow> ProductResource list \<Rightarrow> string option" where
  "search_submit q filtered =
     (if js_trim q \<noteq> [] \<and> filtered = [] then Some (''/products/'' @ encodeURIComponent (js_trim q)) else None)"

definition replace_product :: "ProductResource \<Rightarrow> ProductResource list \<Rightarrow> ProductResource list" where
  "replace_product updated items = map (\<lambda>p. if pr_id p = pr_id updated then updated else p) items"

section \<open>Facts\<close>

text \<open>What a pasted collection must be to be taken: an array, or an object with the array as its last
  member of that name and a request id that is absent or has 1 to 128 characters; 1 to 1000 items, all of which pass the
  check.\<close>

definition collection_taken ::
    "(string \<Rightarrow> json option) \<Rightarrow> string \<Rightarrow> (json \<Rightarrow> bool) \<Rightarrow> string \<Rightarrow> json list \<Rightarrow> string option \<Rightarrow> bool" where
  "collection_taken parse name item_ok s items rid =
     (js_trim s \<noteq> [] \<and> 1 \<le> length items \<and> length items \<le> 1000 \<and> list_all item_ok items \<and>
      (parse s = Some (JArr items) \<and> rid = None \<or>
       (\<exists>kvs. parse s = Some (JObj kvs) \<and> map_of (rev kvs) name = Some (JArr items) \<and>
          request_id_ok (map_of (rev kvs) ''request_id'') \<and> rid = json_string (map_of (rev kvs) ''request_id''))))"

lemma parse_collection_taken:
  "parse_collection parse name item_ok a b c s = Inr (items, rid) \<longleftrightarrow> collection_taken parse name item_ok s items rid"
proof (cases "parse s")
  case (Some v)
  then show ?thesis
    by (cases v)
      (auto simp: collection_taken_def parse_collection_def Let_def Suc_le_eq request_id_ok_def not_less
        split: if_splits option.splits json.splits)
qed (simp add: collection_taken_def parse_collection_def)

text \<open>The form of a product as it is stored passes, and saves the product as it is: the metadata reads
  back from its text, and the price is the printed one.\<close>

lemma untouched_product:
  assumes "parse (stringify (JObj (pr_metadata p))) = Some (JObj (pr_metadata p))"
      "js_trim (stringify (JObj (pr_metadata p))) \<noteq> []"
    and "js_trim (pr_title p) = pr_title p" "pr_title p \<noteq> []" "price_ok (fmtPrice (pr_price p))"
  shows "\<exists>u. validate parse False (fromResource stringify p) = Inr u \<and> pu_title u = pr_title p \<and>
    pu_metadata u = Some (pr_metadata p) \<and> pu_is_active u = Some (pr_is_active p) \<and>
    pu_availability_status u = Some (pr_availability_status p)"
  using assms
  by (cases "pr_metadata p = []")
    (auto simp: validate_def draft_errors_def fromResource_def parse_object_def field_error_def parsed_value_def Let_def js_trim_def)

end
