(* ===== verification/ConsoleEvents.thy ===== *)
theory ConsoleEvents
  imports ConsoleCatalog
begin

text \<open>
  Submitting events (\<open>web/src/pages/tenant/EventsPage.tsx\<close>): the single event, the batch, what a failure
  says, the result and the lists of recent events and batches. \<open>parse\<close> is \<open>JSON.parse\<close>, \<open>date\<close> reads a
  timestamp (none for an invalid one) and \<open>to_iso\<close> is \<open>toISOString\<close>.
\<close>

definition EVENT_TYPES :: "string list" where
  "EVENT_TYPES = [''view'', ''click'', ''add_to_cart'', ''remove_from_cart'', ''purchase'', ''rating'', ''search'', ''add_to_wishlist'']"

definition parseEventCollection :: "(string \<Rightarrow> json option) \<Rightarrow> string \<Rightarrow> string + json list \<times> string option" where
  "parseEventCollection parse text0 =
     parse_collection parse ''events'' (\<lambda>i. has_string ''event_id'' i \<and> has_string ''event_type'' i)
       ''Paste an event collection.'' ''A batch accepts at most 1,000 events.''
       ''Every event needs an event_id and an event_type.'' text0"

definition events_mapError :: "exn \<Rightarrow> FormError" where
  "events_mapError e =
     (case e of
        ApiError a \<Rightarrow>
          if err_status a = 413
          then \<lparr>fo_title = ''Batch rejected: too large'',
                fo_body = ''The request body exceeds the limit the API is configured with. Split the collection or use a dataset upload.'',
                fo_tone = Some tone_warn\<rparr>
          else if err_code a = ''validation_failed''
          then plain_error ''The submission cannot be accepted''
                 (if field_messages (err_fields a) \<noteq> [] then field_messages (err_fields a) else err_message a)
          else if err_status a = 403 then plain_error ''Not permitted'' ''Your credential does not grant events:write.''
          else if err_status a = 429
          then \<lparr>fo_title = ''Quota or rate limit reached'', fo_body = err_message a, fo_tone = Some tone_warn\<rparr>
          else if err_status a \<ge> 400 \<and> err_status a < 500
          then plain_error ''The submission cannot be accepted'' (err_message a)
          else plain_error ''Submission failed'' ''Try again shortly.''
      | OtherError _ \<Rightarrow> plain_error ''Submission failed'' ''Try again shortly.'')"

section \<open>The page\<close>

record SingleEvent =
  si_event_id :: string
  si_user_id :: string
  si_external_product_id :: string
  si_event_type :: string
  si_occurred_at :: string
  si_context :: string

datatype EventResult = single_result EventSubmitResponse string | batch_result EventBatchResponse int

record events_page =
  ev_single :: SingleEvent
  ev_batch :: string
  ev_fieldErrors :: "(string \<times> string) list"
  ev_error :: "FormError option"
  ev_busy :: bool
  ev_result :: "EventResult option"

definition events_first :: events_page where
  "events_first =
     \<lparr>ev_single = \<lparr>si_event_id = [], si_user_id = [], si_external_product_id = [], si_event_type = ''view'',
        si_occurred_at = [], si_context = []\<rparr>,
      ev_batch = [], ev_fieldErrors = [], ev_error = None, ev_busy = False, ev_result = None\<rparr>"

definition single_errors ::
    "(string \<Rightarrow> json option) \<Rightarrow> (string \<Rightarrow> int option) \<Rightarrow> SingleEvent \<Rightarrow> (string \<times> string) list" where
  "single_errors parse date s =
     (if js_trim (si_event_id s) = [] then [(''event_id'', ''Required: it is the idempotency key.'')] else []) @
     field_error ''context'' (parse_object parse (si_context s)) @
     (if js_trim (si_occurred_at s) \<noteq> [] \<and> date (si_occurred_at s) = None
      then [(''occurred_at'', ''Use an ISO-8601 timestamp.'')] else [])"

text \<open>The request: blank members are left out.\<close>

definition single_request ::
    "(string \<Rightarrow> json option) \<Rightarrow> (string \<Rightarrow> int option) \<Rightarrow> (int \<Rightarrow> string) \<Rightarrow> SingleEvent \<Rightarrow> EventSubmit" where
  "single_request parse date to_iso s =
     \<lparr>es_event_id = js_trim (si_event_id s), es_event_type = si_event_type s,
      es_user_id = text_or_null (si_user_id s), es_external_product_id = text_or_null (si_external_product_id s),
      es_context = (if js_trim (si_context s) = [] then None else Some (parsed_value (parse_object parse (si_context s)) [])),
      es_occurred_at = (if js_trim (si_occurred_at s) = [] then None else map_option to_iso (date (si_occurred_at s)))\<rparr>"

definition submitSingle ::
    "(string \<Rightarrow> json option) \<Rightarrow> (string \<Rightarrow> int option) \<Rightarrow> (int \<Rightarrow> string) \<Rightarrow> events_page \<Rightarrow>
     events_page \<times> EventSubmit option" where
  "submitSingle parse date to_iso w =
     (let errors = single_errors parse date (ev_single w); w1 = w\<lparr>ev_fieldErrors := errors\<rparr> in
      if errors \<noteq> []
      then (w1\<lparr>ev_error := Some (plain_error ''Correct the highlighted fields'' ''Then submit again.'')\<rparr>, None)
      else (w1\<lparr>ev_busy := True, ev_error := None\<rparr>, Some (single_request parse date to_iso (ev_single w))))"

text \<open>The answer; the type of the result is the one the form had when it was sent.\<close>

definition single_answer :: "string \<Rightarrow> exn + EventSubmitResponse \<Rightarrow> events_page \<Rightarrow> events_page" where
  "single_answer type0 r w =
     (case r of
        Inr response \<Rightarrow> w\<lparr>ev_result := Some (single_result response type0)\<rparr>
      | Inl e \<Rightarrow> w\<lparr>ev_error := Some (events_mapError e)\<rparr>)\<lparr>ev_busy := False\<rparr>"

definition submitBatch ::
    "(string \<Rightarrow> json option) \<Rightarrow> events_page \<Rightarrow> events_page \<times> (json list \<times> string option) option" where
  "submitBatch parse w =
     (case parseEventCollection parse (ev_batch w) of
        Inl m \<Rightarrow>
          (w\<lparr>ev_fieldErrors := [(''batch'', m)], ev_error := Some (plain_error ''Correct the highlighted field'' m)\<rparr>, None)
      | Inr (items, requestId) \<Rightarrow>
          (w\<lparr>ev_fieldErrors := [], ev_busy := True, ev_error := None\<rparr>, Some (items, requestId)))"

definition batch_answer :: "json list \<Rightarrow> exn + EventBatchResponse \<Rightarrow> events_page \<Rightarrow> events_page" where
  "batch_answer items r w =
     (case r of
        Inr response \<Rightarrow> w\<lparr>ev_result := Some (batch_result response (int (length items)))\<rparr>
      | Inl e \<Rightarrow> w\<lparr>ev_error := Some (events_mapError e)\<rparr>)\<lparr>ev_busy := False\<rparr>"

text \<open>A change of the mode, and \<open>Submit another\<close>.\<close>

definition change_mode :: "events_page \<Rightarrow> events_page" where
  "change_mode w = w\<lparr>ev_error := None, ev_fieldErrors := []\<rparr>"

definition submit_another :: "events_page \<Rightarrow> events_page" where
  "submit_another w = w\<lparr>ev_result := None\<rparr>"

section \<open>Results and lists\<close>

definition single_title :: "EventSubmitResponse \<Rightarrow> string \<times> string" where
  "single_title r =
     (if esr_duplicate r
      then (''Duplicate confirmed'', ''Event '' @ esr_event_id r @
              '' was already received and is not counted twice. This is a success outcome, not an error.'')
      else (''Event accepted'', ''Event '' @ esr_event_id r @
              '' was accepted and will be included in the next dataset snapshot.''))"

definition single_rows :: "(string \<Rightarrow> string) \<Rightarrow> EventSubmitResponse \<Rightarrow> string \<Rightarrow> (string \<times> string) list" where
  "single_rows when r type0 =
     [(''Event identifier'', esr_event_id r), (''Event type'', type0),
      (''Status'', if esr_duplicate r then ''duplicate_confirmed'' else ''accepted''),
      (''Received at'', when (esr_received_at r))]"

definition batch_title :: "EventBatchResponse \<Rightarrow> string" where
  "batch_title b = (if ebr_rejected_count b \<noteq> 0 then ''Batch processed with rejections'' else ''Batch accepted'')"

definition batch_rows :: "(string \<Rightarrow> string) \<Rightarrow> (rat \<Rightarrow> string) \<Rightarrow> EventBatchResponse \<Rightarrow> int \<Rightarrow> (string \<times> string) list" where
  "batch_rows when nf b received =
     [(''Submission id'', ebr_id b), (''Received'', nf (of_int received)), (''Accepted'', nf (of_int (ebr_accepted_count b))),
      (''Duplicates'', nf (of_int (ebr_duplicate_count b))), (''Rejected'', nf (of_int (ebr_rejected_count b))),
      (''Submitted at'', when (ebr_created_at b))]"

definition RECENT_EVENT_LIMIT :: int where
  "RECENT_EVENT_LIMIT = 50"

text \<open>The filter that is applied, and what is asked for with it.\<close>

definition apply_customer :: "string \<Rightarrow> string" where
  "apply_customer customer = js_trim customer"

definition recent_filters :: "string \<Rightarrow> (string \<times> string option) list" where
  "recent_filters applied =
     [(''limit'', Some (show_int RECENT_EVENT_LIMIT)), (''user_id'', if applied \<noteq> [] then Some applied else None)]"

definition recent_row :: "(string \<Rightarrow> string) \<Rightarrow> EventRecord \<Rightarrow> string list" where
  "recent_row when e =
     [er_event_id e, er_event_type e, or_else (er_user_id e) em_dash, or_else (er_external_product_id e) em_dash,
      when (er_occurred_at e), when (er_created_at e)]"

definition recent_count :: "EventRecord list \<Rightarrow> string \<Rightarrow> string" where
  "recent_count rows applied =
     show_int (int (length rows)) @ '' most recent'' @ (if applied \<noteq> [] then '' for '' @ applied else [])"

definition batch_label :: "(rat \<Rightarrow> string) \<Rightarrow> EventBatchResponse \<Rightarrow> string" where
  "batch_label nf b =
     (let n = ebr_accepted_count b + ebr_duplicate_count b + ebr_rejected_count b in
      ''Batch of '' @ nf (of_int n) @ '' '' @ (if n = 1 then ''event'' else ''events''))"

definition recent_batch_row :: "(string \<Rightarrow> string) \<Rightarrow> (rat \<Rightarrow> string) \<Rightarrow> EventBatchResponse \<Rightarrow> string list" where
  "recent_batch_row when nf b =
     [batch_label nf b, take 8 (ebr_id b), ebr_status b, nf (of_int (ebr_accepted_count b)),
      nf (of_int (ebr_duplicate_count b)), nf (of_int (ebr_rejected_count b)), when (ebr_created_at b)]"

section \<open>Properties\<close>

text \<open>C33: a pasted collection of events or products is sent exactly when it meets the stated form, and
  then item for item. Both pages take the items and the request id of \<open>collection_taken\<close> and of
  nothing else, and send what they took; a collection that is not taken sends nothing, leaves the
  page idle and marks the field.\<close>

theorem collections_accepted:
  "(snd (submitBatch parse w) = Some (items, rid) \<longleftrightarrow>
      collection_taken parse ''events'' (\<lambda>i. has_string ''event_id'' i \<and> has_string ''event_type'' i) (ev_batch w) items rid) \<and>
   (snd (sync_submit parse y) = Some (items, rid) \<longleftrightarrow>
      collection_taken parse ''products'' (has_string ''external_id'') (sy_payload y) items rid) \<and>
   (snd (submitBatch parse w) = None \<longleftrightarrow> ev_fieldErrors (fst (submitBatch parse w)) \<noteq> []) \<and>
   (snd (sync_submit parse y) = None \<longleftrightarrow> sy_fieldError (fst (sync_submit parse y)) \<noteq> None) \<and>
   ev_busy (fst (submitBatch parse w)) = (if snd (submitBatch parse w) = None then ev_busy w else True) \<and>
   sy_busy (fst (sync_submit parse y)) = (if snd (sync_submit parse y) = None then sy_busy y else True)"
proof -
  have events: "parseEventCollection parse t = Inr (items, rid) \<longleftrightarrow>
      collection_taken parse ''events'' (\<lambda>i. has_string ''event_id'' i \<and> has_string ''event_type'' i) t items rid" for t
    by (simp only: parseEventCollection_def parse_collection_taken)
  have products: "parseProductCollection parse t = Inr (items, rid) \<longleftrightarrow>
      collection_taken parse ''products'' (has_string ''external_id'') t items rid" for t
    by (simp only: parseProductCollection_def parse_collection_taken)
  show ?thesis
    by (cases "parseEventCollection parse (ev_batch w)"; cases "parseProductCollection parse (sy_payload y)")
      (auto simp: submitBatch_def sync_submit_def events [symmetric] products [symmetric])
qed

end
