(* ===== verification/ConsoleTeam.thy ===== *)
theory ConsoleTeam
  imports ConsoleAccess ApiEndpoints
begin

text \<open>
  Team members (\<open>web/src/pages/tenant/UsersPage.tsx\<close>): invitations, whose one-time link the page shows until it
  is said to be saved, and changes of members.
\<close>

section \<open>Dialogs\<close>

record invite_form =
  iv_email :: string
  iv_name :: string
  iv_role :: TenantUserRole

definition invite_first :: invite_form where
  "invite_first = \<lparr>iv_email = [], iv_name = [], iv_role = tenant_developer\<rparr>"

fun role_name :: "TenantUserRole \<Rightarrow> string" where
  "role_name tenant_administrator = ''tenant_administrator''"
| "role_name tenant_developer = ''tenant_developer''"

definition invite_confirm :: "invite_form \<Rightarrow> string + ApiCall" where
  "invite_confirm f =
     (if js_trim (iv_email f) = [] \<or> CHR ''@'' \<notin> set (iv_email f) then Inl ''Enter a valid email address.''
      else Inr (tenantUsers_invite (JObj
        ([(''email'', JStr (to_lower (js_trim (iv_email f)))), (''role'', JStr (role_name (iv_role f)))] @
         (if js_trim (iv_name f) \<noteq> [] then [(''display_name'', JStr (js_trim (iv_name f)))] else [])))))"

datatype change_kind = Change_role | Change_lock | Change_unlock | Change_disable

fun change_status :: "change_kind \<Rightarrow> string option" where
  "change_status Change_lock = Some ''locked''"
| "change_status Change_unlock = Some ''active''"
| "change_status Change_disable = Some ''disabled''"
| "change_status Change_role = None"

definition other_role :: "TenantUserRole \<Rightarrow> TenantUserRole" where
  "other_role r = (if r = tenant_administrator then tenant_developer else tenant_administrator)"

definition change_confirm :: "TenantUserResource \<Rightarrow> change_kind \<Rightarrow> TenantUserRole \<Rightarrow> string \<Rightarrow> ApiCall" where
  "change_confirm u kind role reason =
     tenantUsers_update (tu_id u) (JObj
       ((case change_status kind of Some s \<Rightarrow> [(''status'', JStr s)] | None \<Rightarrow> [(''role'', JStr (role_name role))]) @
        (if js_trim reason \<noteq> [] then [(''reason'', JStr (js_trim reason))] else [])))"

section \<open>Members\<close>

datatype member_action = Resend_Invitation | Revoke_Invitation | Open_Change change_kind

definition rowActions :: "TenantUserResource \<Rightarrow> member_action list" where
  "rowActions u =
     (if tu_status u = ''invited'' then [Resend_Invitation, Revoke_Invitation]
      else if tu_status u = ''disabled'' then []
      else [Open_Change Change_role,
        Open_Change (if tu_status u = ''locked'' then Change_unlock else Change_lock), Open_Change Change_disable])"

record users_page =
  us_inviting :: bool
  us_invitation :: "TenantUserInvitation option"
  us_revoking :: "TenantUserResource option"
  us_change :: "(TenantUserResource \<times> change_kind) option"
  us_actionError :: "exn option"

definition users_first :: users_page where
  "users_first = \<lparr>us_inviting = False, us_invitation = None, us_revoking = None, us_change = None, us_actionError = None\<rparr>"

text \<open>\<open>Invite member\<close> is disabled while a link is shown.\<close>

definition open_invite :: "users_page \<Rightarrow> users_page" where
  "open_invite w = (if us_invitation w \<noteq> None then w else w\<lparr>us_inviting := True\<rparr>)"

definition close_invite :: "users_page \<Rightarrow> users_page" where
  "close_invite w = w\<lparr>us_inviting := False\<rparr>"

definition invited :: "TenantUserInvitation \<Rightarrow> users_page \<Rightarrow> users_page" where
  "invited u w = w\<lparr>us_inviting := False, us_invitation := Some u\<rparr>"

definition invitation_saved :: "users_page \<Rightarrow> users_page" where
  "invitation_saved w = w\<lparr>us_invitation := None\<rparr>"

definition resend_press :: "users_page \<Rightarrow> users_page" where
  "resend_press w = w\<lparr>us_actionError := None\<rparr>"

definition resend_answer :: "exn + TenantUserInvitation \<Rightarrow> users_page \<Rightarrow> users_page" where
  "resend_answer r w = (case r of Inr u \<Rightarrow> w\<lparr>us_invitation := Some u\<rparr> | Inl e \<Rightarrow> w\<lparr>us_actionError := Some e\<rparr>)"

definition revoked_invitation :: "users_page \<Rightarrow> users_page" where
  "revoked_invitation w =
     (case us_revoking w of
        Some u \<Rightarrow>
          w\<lparr>us_revoking := None,
            us_invitation := (case us_invitation w of Some i \<Rightarrow> if tu_id i = tu_id u then None else Some i | None \<Rightarrow> None)\<rparr>
      | None \<Rightarrow> w)"

definition member_changed :: "users_page \<Rightarrow> users_page" where
  "member_changed w = w\<lparr>us_change := None\<rparr>"

definition invitation_link :: "string \<Rightarrow> users_page \<Rightarrow> string" where
  "invitation_link origin w =
     (case us_invitation w of
        Some i \<Rightarrow> origin @ ''/invite/accept#token='' @ encodeURIComponent (tui_setup_token i) | None \<Rightarrow> [])"

datatype users_event = Open_Invite | Close_Invite | Invited TenantUserInvitation | Saved | Press_Resend
  | Resent "exn + TenantUserInvitation" | Ask_Revoke TenantUserResource | Revoked | Changed

text \<open>An invitation is answered only to an open dialog.\<close>

fun users_do :: "users_event \<Rightarrow> users_page \<Rightarrow> users_page" where
  "users_do Open_Invite w = open_invite w"
| "users_do Close_Invite w = close_invite w"
| "users_do (Invited u) w = (if us_inviting w then invited u w else w)"
| "users_do Saved w = invitation_saved w"
| "users_do Press_Resend w = resend_press w"
| "users_do (Resent r) w = resend_answer r w"
| "users_do (Ask_Revoke u) w = w\<lparr>us_revoking := Some u\<rparr>"
| "users_do Revoked w = revoked_invitation w"
| "users_do Changed w = member_changed w"

section \<open>Facts\<close>

text \<open>The events that take a shown link away: it was said to be saved, its invitation was revoked, or another
  invitation was sent again.\<close>

fun takes_link :: "users_event \<Rightarrow> bool" where
  "takes_link Saved = True"
| "takes_link Revoked = True"
| "takes_link (Resent (Inr _)) = True"
| "takes_link _ = False"

lemma link_kept_step:
  "us_invitation w = Some i \<Longrightarrow> \<not> us_inviting w \<Longrightarrow> \<not> takes_link e \<Longrightarrow>
     us_invitation (users_do e w) = Some i \<and> \<not> us_inviting (users_do e w)"
  by (cases "(e, w)" rule: users_do.cases)
    (auto simp: open_invite_def close_invite_def resend_press_def resend_answer_def member_changed_def split: sum.split
      elim: takes_link.elims)

text \<open>The one-time link of an invitation. Once it is shown, while no invitation dialog is open, no event
  but these three takes it from the page: it was said to be saved, an invitation was revoked, another one
  was sent again. Revoking takes only the link of the member revoked; sending another member's invitation
  again replaces a link that was not said to be saved.\<close>

lemma invitation_link_kept:
  "(us_invitation w = Some i \<and> \<not> us_inviting w \<and> list_all (\<lambda>e. \<not> takes_link e) es \<longrightarrow>
      us_invitation (fold users_do es w) = Some i \<and>
      invitation_link origin (fold users_do es w) = origin @ ''/invite/accept#token='' @ encodeURIComponent (tui_setup_token i)) \<and>
   (us_invitation w = Some i \<and> us_revoking w = Some u \<and> tu_id u \<noteq> tu_id i \<longrightarrow>
      us_invitation (users_do Revoked w) = Some i) \<and>
   us_invitation (users_do (Resent (Inr j)) w) = Some j"
proof (intro conjI impI)
  assume h: "us_invitation w = Some i \<and> \<not> us_inviting w \<and> list_all (\<lambda>e. \<not> takes_link e) es"
  then have "us_invitation (fold users_do es w) = Some i \<and> \<not> us_inviting (fold users_do es w)"
    by (induction es arbitrary: w) (simp_all add: link_kept_step)
  then show "us_invitation (fold users_do es w) = Some i"
    "invitation_link origin (fold users_do es w) = origin @ ''/invite/accept#token='' @ encodeURIComponent (tui_setup_token i)"
    by (simp_all add: invitation_link_def)
qed (auto simp: revoked_invitation_def resend_answer_def)

definition an_invitation :: "string \<Rightarrow> TenantUserInvitation" where
  "an_invitation i =
     \<lparr>tu_id = i, tu_email = i, tu_display_name = i, tu_role = tenant_developer, tu_status = ''invited'', tu_created_at = [],
      tu_last_authenticated_at = None, tui_setup_token = i, tui_setup_token_expires_at = []\<rparr>"

theorem invitation_link_kept_witness:
  "invitation_link ''https://c'' (fold users_do [Open_Invite, Press_Resend] (users_do (Invited (an_invitation ''t1'')) (users_do Open_Invite users_first)))
     = ''https://c/invite/accept#token=t1''"
proof -
  let ?w = "users_do (Invited (an_invitation ''t1'')) (users_do Open_Invite users_first)"
  have "us_invitation ?w = Some (an_invitation ''t1'') \<and> \<not> us_inviting ?w \<and>
      list_all (\<lambda>e. \<not> takes_link e) [Open_Invite, Press_Resend]"
    by (simp add: open_invite_def invited_def users_first_def)
  from conjunct1 [OF invitation_link_kept, rule_format, OF this, of "''https://c''"]
  have "invitation_link ''https://c'' (fold users_do [Open_Invite, Press_Resend] ?w) =
      ''https://c'' @ ''/invite/accept#token='' @ encodeURIComponent (tui_setup_token (an_invitation ''t1''))"
    by blast
  moreover have "encodeURIComponent (tui_setup_token (an_invitation ''t1'')) = ''t1''" by code_simp
  ultimately show ?thesis by simp
qed

end
