(* ===== verification/JsSort.thy ===== *)
theory JsSort
  imports JsNumber
begin

text \<open>
  Facts about \<open>js_sort\<close> for a comparator that is a total preorder: the result is sorted, and sorting commutes
  with removing elements. The pages that sort by a comparator of several keys rest on them.
\<close>

locale total_comparator =
  fixes cmp :: "'a \<Rightarrow> 'a \<Rightarrow> rat"
  assumes total: "cmp a b \<le> 0 \<or> cmp b a \<le> 0"
    and trans: "cmp a b \<le> 0 \<Longrightarrow> cmp b c \<le> 0 \<Longrightarrow> cmp a c \<le> 0"
begin

lemma insert_sorted: "sorted_wrt (\<lambda>a b. cmp a b \<le> 0) ys \<Longrightarrow> sorted_wrt (\<lambda>a b. cmp a b \<le> 0) (js_insert cmp x ys)"
proof (induction ys)
  case (Cons y ys)
  have "cmp x z \<le> 0" if "cmp x y \<le> 0" "z \<in> set ys" for z
    using that Cons.prems trans [of x y z] by simp
  moreover have "set (js_insert cmp x ys) = insert x (set ys)"
    by (metis mset_js_insert set_mset_mset set_mset_add_mset_insert)
  ultimately show ?case using Cons total [of x y] by auto
qed simp

lemma sort_sorted: "sorted_wrt (\<lambda>a b. cmp a b \<le> 0) (js_sort cmp xs)"
  by (induction xs) (simp_all add: js_sort_def insert_sorted)

lemma insert_front: "\<forall>y \<in> set ys. cmp x y \<le> 0 \<Longrightarrow> js_insert cmp x ys = x # ys"
  by (cases ys) simp_all

lemma filter_insert:
  "sorted_wrt (\<lambda>a b. cmp a b \<le> 0) ys \<Longrightarrow>
     filter P (js_insert cmp x ys) = (if P x then js_insert cmp x (filter P ys) else filter P ys)"
proof (induction ys)
  case (Cons y ys)
  have "js_insert cmp x (filter P (y # ys)) = x # filter P (y # ys)" if "cmp x y \<le> 0"
    using that Cons.prems trans [of x y] by (intro insert_front) auto
  with Cons show ?case by auto
qed simp

lemma sort_filter: "js_sort cmp (filter P xs) = filter P (js_sort cmp xs)"
proof (induction xs)
  case (Cons x xs)
  have "filter P (js_insert cmp x (js_sort cmp xs)) =
      (if P x then js_insert cmp x (filter P (js_sort cmp xs)) else filter P (js_sort cmp xs))"
    by (rule filter_insert [OF sort_sorted])
  with Cons show ?case by (simp add: js_sort_def)
qed (simp add: js_sort_def)

end

section \<open>The default order\<close>

text \<open>The order of \<open>sort\<close> without a comparator, by code units.\<close>

fun text_le :: "string \<Rightarrow> string \<Rightarrow> bool" where
  "text_le [] t = True"
| "text_le (c # s) [] = False"
| "text_le (c # s) (d # t) = ((of_char c :: nat) < of_char d \<or> c = d \<and> text_le s t)"

definition text_order :: "string \<Rightarrow> string \<Rightarrow> rat" where
  "text_order a b = (if text_le a b then -1 else 1)"

lemma text_le_total: "text_le s t \<or> text_le t s"
proof (induction s t rule: text_le.induct)
  case (3 c s d t)
  have "c = d" if "(of_char c :: nat) = of_char d" using that by simp
  with 3 show ?case by (cases "(of_char c :: nat)" "of_char d :: nat" rule: linorder_cases) auto
qed simp_all

lemma text_le_trans: "text_le s t \<Longrightarrow> text_le t u \<Longrightarrow> text_le s u"
proof (induction s t arbitrary: u rule: text_le.induct)
  case (3 c s d t)
  then show ?case by (cases u) auto
qed auto

lemma text_order_le: "text_order a b \<le> 0 \<longleftrightarrow> text_le a b"
  by (simp add: text_order_def)

interpretation text_comparator: total_comparator text_order
proof
  show "text_order a b \<le> 0 \<or> text_order b a \<le> 0" for a b
    unfolding text_order_le by (rule text_le_total)
  show "text_order a b \<le> 0 \<Longrightarrow> text_order b c \<le> 0 \<Longrightarrow> text_order a c \<le> 0" for a b c
    unfolding text_order_le by (rule text_le_trans)
qed

section \<open>\<open>Math.max\<close> of a list\<close>

lemma foldl_max_le:
  fixes q :: rat
  shows "q \<le> foldl max b xs \<longleftrightarrow> q \<le> b \<or> (\<exists>x \<in> set xs. q \<le> x)"
  by (induction xs arbitrary: b) (auto simp: le_max_iff_disj)

end
