(* ===== verification/ConsoleUsage.thy ===== *)
theory ConsoleUsage
  imports ConsoleAccess ApiEndpoints Plans Quota Resource Labels JsSort
begin

text \<open>
  Usage and quotas (\<open>web/src/pages/tenant/UsagePage.tsx\<close>), its trends (\<open>UsageTrends.tsx\<close>) and the panel of plan
  requests (\<open>PlanRequests.tsx\<close>). \<open>parse\<close> is \<open>Date.parse\<close> in milliseconds, \<open>None\<close> for NaN.
\<close>

section \<open>Plan requests\<close>

definition RECENT_DECISION_MS :: int where
  "RECENT_DECISION_MS = 14 * 86400000"

definition pending_request :: "PlanChangeRequestList option \<Rightarrow> PlanChangeRequest option" where
  "pending_request rs = Option.bind rs pcl_pending"

definition latest_decision :: "PlanChangeRequestList option \<Rightarrow> PlanChangeRequest option" where
  "latest_decision rs = Option.bind rs (\<lambda>l. find (\<lambda>r. pcr_status r \<noteq> pr_pending) (pcl_items l))"

definition recent_decision :: "(string \<Rightarrow> int option) \<Rightarrow> int \<Rightarrow> PlanChangeRequestList option \<Rightarrow> PlanChangeRequest option" where
  "recent_decision parse now0 rs =
     (case latest_decision rs of
        Some r \<Rightarrow>
          (case pcr_decided_at r of
             Some d \<Rightarrow>
               (case parse d of
                  Some t \<Rightarrow>
                    if d \<noteq> [] \<and> now0 - t < RECENT_DECISION_MS \<and> pcr_status r \<noteq> pr_cancelled then Some r else None
                | None \<Rightarrow> None)
           | None \<Rightarrow> None)
      | None \<Rightarrow> None)"

text \<open>The panel's own state is whether its dialog is open; \<open>wanted\<close> is in the URL.\<close>

record request_panel =
  rq_wanted :: string
  rq_open :: bool

definition wanted_effect ::
    "bool \<Rightarrow> PlanChangeRequestList option \<Rightarrow> SubscriptionResult option \<Rightarrow> request_panel \<Rightarrow> request_panel" where
  "wanted_effect canRequest rs plan w =
     (case (rs, plan) of
        (Some _, Some p) \<Rightarrow>
          if rq_wanted w \<noteq> [] \<and> canRequest \<and> pending_request rs = None \<and> rq_wanted w \<noteq> plan_code_name (sub_plan_code p)
          then w\<lparr>rq_open := True\<rparr> else w
      | _ \<Rightarrow> w)"

definition request_close :: "request_panel \<Rightarrow> request_panel" where
  "request_close w = w\<lparr>rq_open := False, rq_wanted := []\<rparr>"

definition change_plan_button :: "bool \<Rightarrow> PlanChangeRequestList option \<Rightarrow> SubscriptionResult option \<Rightarrow> bool option" where
  "change_plan_button canRequest rs plan =
     (if canRequest \<and> pending_request rs = None then Some (plan = None) else None)"

definition initial_choice :: "string \<Rightarrow> string \<Rightarrow> string option" where
  "initial_choice wanted current =
     (if wanted \<in> set [''free'', ''basic'', ''pro''] \<and> wanted \<noteq> current then Some wanted else None)"

definition plan_choices :: "MarketingPlan list \<Rightarrow> string \<Rightarrow> MarketingPlan list" where
  "plan_choices plans current = filter (\<lambda>p. mp_code p \<noteq> current) plans"

definition first_choice :: "MarketingPlan list \<Rightarrow> string \<Rightarrow> string option \<Rightarrow> string" where
  "first_choice plans current initial =
     or_else initial (case plan_choices plans current of p # _ \<Rightarrow> mp_code p | [] \<Rightarrow> ''basic'')"

definition is_downgrade :: "MarketingPlan list \<Rightarrow> string \<Rightarrow> string \<Rightarrow> bool" where
  "is_downgrade plans code current =
     (find (\<lambda>p. mp_code p = code) plans \<noteq> None \<and>
      find_index (\<lambda>p. mp_code p = code) plans < find_index (\<lambda>p. mp_code p = current) plans)"

definition set_message :: "string \<Rightarrow> string" where
  "set_message v = js_take 500 v"

definition request_confirm :: "string \<Rightarrow> string \<Rightarrow> ApiCall" where
  "request_confirm code message =
     billing_requestPlan (JObj ((''plan_code'', JStr code) #
       (if js_trim message \<noteq> [] then [(''message'', JStr (js_trim message))] else [])))"

definition decision_notice :: "(string \<Rightarrow> string) \<Rightarrow> PlanChangeRequest \<Rightarrow> string \<times> string" where
  "decision_notice dt r =
     (let approved = (pcr_status r = pr_approved) in
      (pcr_requested_plan_name r @ (if approved then '' plan approved'' else '' plan request was not approved''),
       (case pcr_decided_at r of Some d \<Rightarrow> if d \<noteq> [] then ''Decided '' @ dt d @ ''.'' else [] | None \<Rightarrow> []) @
       (case pcr_decision_reason r of
          Some m \<Rightarrow> if m \<noteq> [] then '' Operator'' @ [CHR 0x27] @ ''s note: '' @ [CHR 0xE2, CHR 0x80, CHR 0x9C] @ m @ [CHR 0xE2, CHR 0x80, CHR 0x9D] else [] | None \<Rightarrow> []) @
       (if approved then [] else '' You can send a new request.'')))"

section \<open>The plan after a decision\<close>

text \<open>\<open>recent?.status === "approved" && plan && recent.requested_plan_code !== plan.plan_code\<close>.\<close>

definition plan_outdated :: "PlanChangeRequest option \<Rightarrow> SubscriptionResult option \<Rightarrow> bool" where
  "plan_outdated recent plan =
     (case (recent, plan) of
        (Some r, Some p) \<Rightarrow> pcr_status r = pr_approved \<and> pcr_requested_plan_code r \<noteq> plan_code_name (sub_plan_code p)
      | _ \<Rightarrow> False)"

text \<open>A rendering of the page: the effect of the panel runs each time, since \<open>onPlanChanged\<close> is a new function
  in each; it loads the subscription again, and that sets the state of its resource, so the page is rendered
  once more.\<close>

definition plan_effect :: "nat \<Rightarrow> PlanChangeRequest option \<Rightarrow> SubscriptionResult resource \<Rightarrow> SubscriptionResult resource" where
  "plan_effect i recent w = (if plan_outdated recent (st_data (view i w)) then run i w else w)"

section \<open>Usage\<close>

text \<open>The month \<open>back\<close> months before a month of a year; months count from 0.\<close>

definition month_back :: "int \<Rightarrow> int \<Rightarrow> int \<Rightarrow> int \<times> int" where
  "month_back year month back = (let t = year * 12 + month - back in (t div 12, t mod 12))"

definition period_value :: "int \<times> int \<Rightarrow> string" where
  "period_value = (\<lambda>(y, m). show_int y @ ''-'' @ pad_left 2 (show_int (m + 1)))"

definition recentPeriods :: "int \<Rightarrow> int \<Rightarrow> string list" where
  "recentPeriods year month = map (\<lambda>back. period_value (month_back year month (int back))) [0..<12]"

definition period_past :: "int \<Rightarrow> int \<Rightarrow> string \<Rightarrow> bool" where
  "period_past year month period = (period \<noteq> hd (recentPeriods year month))"

definition period_call :: "int \<Rightarrow> int \<Rightarrow> string \<Rightarrow> ApiCall" where
  "period_call year month period = billing_usage (if period_past year month period then Some period else None)"

definition usage_status :: "UsageDimension \<Rightarrow> QuotaStatus" where
  "usage_status d = q_status (quotaState (ud_used d) (ud_limit d))"

definition usage_rank :: "UsageDimension \<Rightarrow> rat" where
  "usage_rank d =
     (if usage_status d = exhausted then 0 else if usage_status d = approaching then 1
      else if ud_limit d = None then 3 else 2)"

definition sortedDims :: "UsageDimension list \<Rightarrow> UsageDimension list" where
  "sortedDims dims = js_sort (\<lambda>a b. usage_rank a - usage_rank b) dims"

definition usage_headline :: "UsageDimension list \<Rightarrow> string" where
  "usage_headline dims =
     (let limited = length (filter (\<lambda>d. ud_limit d \<noteq> None) dims);
          over = length (filter (\<lambda>d. usage_status d = exhausted) dims);
          near = length (filter (\<lambda>d. usage_status d = approaching) dims) in
      if over \<noteq> 0 then show_nat over @ '' of '' @ show_nat limited @ '' limits reached''
      else if near \<noteq> 0 then show_nat near @ '' of '' @ show_nat limited @ '' limits near capacity''
      else ''All '' @ show_nat limited @ '' limits within capacity'')"

definition usage_pill :: "UsageDimension \<Rightarrow> string" where
  "usage_pill d =
     (case ud_limit d of
        None \<Rightarrow> ''No limit''
      | Some l \<Rightarrow>
          if ud_used d > l then ''Over limit''
          else if usage_status d = exhausted then ''At limit''
          else if usage_status d = approaching then ''Near limit'' else ''OK'')"

definition usage_percent :: "UsageDimension \<Rightarrow> string" where
  "usage_percent d =
     (case ud_limit d of
        Some l \<Rightarrow> if l \<noteq> 0 then show_int (js_round (of_int (ud_used d) / of_int l * 100)) @ ''%'' else ''Limit 0''
      | None \<Rightarrow> ''Limit 0'')"

definition usage_fix :: "(string \<Rightarrow> bool) \<Rightarrow> UsageType \<Rightarrow> (string \<times> string) option" where
  "usage_fix can ty =
     (if ty = stored_products \<and> can ''catalog:read'' then Some (''Manage catalog'', ''/products'')
      else if ty = active_model_versions \<and> can ''models:read'' then Some (''Manage versions'', ''/models'') else None)"

definition days_until :: "int \<Rightarrow> int \<Rightarrow> string" where
  "days_until now0 t =
     (let days = \<lceil>of_int (t - now0) / (86400000 :: rat)\<rceil> in
      if days \<le> 0 then ''today'' else if days = 1 then ''in 1 day'' else ''in '' @ show_int days @ '' days'')"

section \<open>Trends\<close>

definition TREND_TYPES :: "string list" where
  "TREND_TYPES =
     [''accepted_events'', ''recommendation_requests'', ''training_jobs'', ''training_cpu_seconds'', ''artifact_storage_bytes'']"

fun DEFAULT_DAYS :: "TrendGranularity \<Rightarrow> int" where
  "DEFAULT_DAYS trend_hour = 2" | "DEFAULT_DAYS trend_day = 30" | "DEFAULT_DAYS trend_week = 84"

fun MAX_DAYS :: "TrendGranularity \<Rightarrow> int" where
  "MAX_DAYS trend_hour = 31" | "MAX_DAYS trend_day = 366" | "MAX_DAYS trend_week = 728"

text \<open>\<open>/^\d{4}-\d{2}-\d{2}$/\<close>.\<close>

definition is_day :: "string \<Rightarrow> bool" where
  "is_day s = (map length (js_split CHR ''-'' s) = [4, 2, 2] \<and> list_all (list_all is_digit) (js_split CHR ''-'' s))"

definition rangeError :: "(string \<Rightarrow> int option) \<Rightarrow> string \<Rightarrow> string \<Rightarrow> TrendGranularity \<Rightarrow> string option" where
  "rangeError parse from0 to0 g =
     (if \<not> is_day from0 \<or> \<not> is_day to0 then Some ''Enter dates as YYYY-MM-DD.''
      else case (parse (from0 @ ''T00:00:00Z''), parse (to0 @ ''T00:00:00Z'')) of
        (Some start, Some last_day) \<Rightarrow>
          (let finish = last_day + 86400000 in
           if finish \<le> start then Some ''The end date must be on or after the start date.''
           else if of_int (finish - start) / 86400000 > (of_int (MAX_DAYS g) :: rat)
           then Some (humanize (granularity_name g) @ '' trends can cover at most '' @ show_int (MAX_DAYS g) @ '' days.'')
           else None)
      | _ \<Rightarrow> Some ''Enter valid dates.'')"

definition trend_query ::
    "(string \<Rightarrow> int option) \<Rightarrow> (int \<Rightarrow> string) \<Rightarrow> string \<Rightarrow> string \<Rightarrow> TrendGranularity \<Rightarrow> ApiCall option" where
  "trend_query parse to_iso from0 to0 g =
     (if rangeError parse from0 to0 g \<noteq> None then None
      else Some (billing_trends g (Some (from0 @ ''T00:00:00Z''))
        (Some (to_iso (or_else (parse (to0 @ ''T00:00:00Z'')) 0 + 86400000))) (Some TREND_TYPES)))"

text \<open>The bars: a height of at most 136 for every bucket, and the buckets listed below them.\<close>

definition bar_values :: "string \<Rightarrow> UsageTrend \<Rightarrow> rat list" where
  "bar_values ty t = map (\<lambda>b. or_else (map_of (tb_values b) ty) 0) (ut_buckets t)"

definition bar_heights :: "rat list \<Rightarrow> rat list" where
  "bar_heights values = map (\<lambda>v. v / foldl max 1 values * 136) values"

definition bar_width :: "nat \<Rightarrow> rat" where
  "bar_width n = max 1 (640 / of_nat (max n 1) - (if n > 60 then 0 else 1))"

definition bucket_time :: "string \<Rightarrow> string" where
  "bucket_time start =
     (let s = take 16 start in
      takeWhile (\<lambda>c. c \<noteq> CHR ''T'') s @ (case dropWhile (\<lambda>c. c \<noteq> CHR ''T'') s of _ # r \<Rightarrow> CHR '' '' # r | [] \<Rightarrow> []))"

definition trend_rows :: "string \<Rightarrow> UsageTrend \<Rightarrow> (string \<times> rat) list" where
  "trend_rows ty t =
     map (\<lambda>b. (bucket_time (tb_start b), or_else (map_of (tb_values b) ty) 0))
       (filter (\<lambda>b. or_else (map_of (tb_values b) ty) 0 > 0) (ut_buckets t))"

section \<open>Facts\<close>

lemma plan_effect_step:
  assumes "mounted w" "cur_identity w = i" "plan_outdated recent (st_data (view i w))"
  shows "mounted (plan_effect i recent w) \<and> cur_identity (plan_effect i recent w) = i \<and>
    st_data (view i (plan_effect i recent w)) = st_data (view i w) \<and>
    length (pending (plan_effect i recent w)) = Suc (length (pending w))"
proof -
  have "st_identity (state w) = i"
    using assms(3) by (auto simp: view_def blank_state_def plan_outdated_def split: if_splits option.splits)
  then show ?thesis using assms by (simp add: plan_effect_def run_def view_def Let_def)
qed


text \<open>Approved for Basic, then moved to Pro by the operator.\<close>

definition approved_basic :: PlanChangeRequest where
  "approved_basic =
     \<lparr>pcr_id = ''r'', pcr_status = pr_approved, pcr_current_plan_code = ''free'', pcr_current_plan_name = ''Free'',
      pcr_requested_plan_code = ''basic'', pcr_requested_plan_name = ''Basic'', pcr_message = None, pcr_decision_reason = None,
      pcr_created_at = [], pcr_decided_at = Some ''d''\<rparr>"

definition on_pro :: "SubscriptionResult resource" where
  "on_pro =
     loaded (1, 0) 0 (Inr \<lparr>sub_plan_code = plan_pro, sub_status = [], sub_period_start = [], sub_period_end = [],
       sub_limits = [], sub_project_defaults = False\<rparr>) (effect 0 first_render)"


lemma bar_heights_bounds: "\<forall>v \<in> set values. 0 \<le> v \<Longrightarrow> h \<in> set (bar_heights values) \<Longrightarrow> 0 \<le> h \<and> h \<le> 136"
proof -
  assume pos: "\<forall>v \<in> set values. 0 \<le> v" and "h \<in> set (bar_heights values)"
  then obtain v where v: "v \<in> set values" "h = v / foldl max 1 values * 136" by (auto simp: bar_heights_def)
  have "v \<le> foldl max 1 values" "1 \<le> foldl max 1 values" using v(1) by (auto simp: foldl_max_le)
  then have "0 \<le> v / foldl max 1 values" "v / foldl max 1 values \<le> 1"
    using pos v(1) by (simp_all add: divide_le_eq_1)
  moreover have "0 \<le> x * 136 \<and> x * 136 \<le> 136" if "0 \<le> x" "x \<le> 1" for x :: rat using that by simp
  ultimately show ?thesis unfolding v(2) by blast
qed

text \<open>A trend that is asked for covers a range that is not empty and not longer than its granularity
  allows, from the start of the first to the end of the last day given; nothing is asked for a range with an
  error; and every bar of its chart stays within the chart.\<close>

lemma trend_range:
  "(trend_query parse to_iso from0 to0 g = Some call \<longrightarrow>
      (\<exists>start last_day. parse (from0 @ ''T00:00:00Z'') = Some start \<and> parse (to0 @ ''T00:00:00Z'') = Some last_day \<and>
         start < last_day + 86400000 \<and> last_day + 86400000 - start \<le> MAX_DAYS g * 86400000 \<and>
         call = billing_trends g (Some (from0 @ ''T00:00:00Z'')) (Some (to_iso (last_day + 86400000))) (Some TREND_TYPES))) \<and>
   (trend_query parse to_iso from0 to0 g = None) = (rangeError parse from0 to0 g \<noteq> None) \<and>
   ((\<forall>v \<in> set values. 0 \<le> v) \<longrightarrow> (\<forall>h \<in> set (bar_heights values). 0 \<le> h \<and> h \<le> 136))"
proof (intro conjI impI)
  assume "trend_query parse to_iso from0 to0 g = Some call"
  then obtain start last_day where d: "parse (from0 @ ''T00:00:00Z'') = Some start" "parse (to0 @ ''T00:00:00Z'') = Some last_day"
      "\<not> last_day + 86400000 \<le> start" "\<not> of_int (last_day + 86400000 - start) / 86400000 > (of_int (MAX_DAYS g) :: rat)"
      "call = billing_trends g (Some (from0 @ ''T00:00:00Z'')) (Some (to_iso (last_day + 86400000))) (Some TREND_TYPES)"
    by (auto simp: trend_query_def rangeError_def Let_def split: if_splits option.splits)
  from d(4) have "(of_int (last_day + 86400000 - start) :: rat) \<le> of_int (MAX_DAYS g * 86400000)"
    by (simp add: field_simps not_less)
  then have "last_day + 86400000 - start \<le> MAX_DAYS g * 86400000" by (simp only: of_int_le_iff)
  with d show "\<exists>start last_day. parse (from0 @ ''T00:00:00Z'') = Some start \<and> parse (to0 @ ''T00:00:00Z'') = Some last_day \<and>
         start < last_day + 86400000 \<and> last_day + 86400000 - start \<le> MAX_DAYS g * 86400000 \<and>
         call = billing_trends g (Some (from0 @ ''T00:00:00Z'')) (Some (to_iso (last_day + 86400000))) (Some TREND_TYPES)"
    by (intro exI [of _ start] exI [of _ last_day]) simp
qed (auto simp: trend_query_def bar_heights_bounds)

theorem trend_range_witness:
  "\<exists>start last_day. Some (0 :: int) = Some start \<and> Some 0 = Some last_day \<and> start < last_day + 86400000 \<and>
     last_day + 86400000 - start \<le> MAX_DAYS trend_day * 86400000"
proof -
  have "rangeError (\<lambda>_. Some 0) ''2026-01-01'' ''2026-01-01'' trend_day = None" by code_simp
  then have "trend_query (\<lambda>_. Some 0) show_int ''2026-01-01'' ''2026-01-01'' trend_day =
      Some (billing_trends trend_day (Some (''2026-01-01'' @ ''T00:00:00Z'')) (Some (show_int 86400000)) (Some TREND_TYPES))"
    by (simp add: trend_query_def)
  from conjunct1 [OF trend_range, rule_format, OF this] show ?thesis by blast
qed

text \<open>The periods offered are twelve months in a row, the first of them the month of now.\<close>

lemma month_back_spec:
  "0 \<le> month \<Longrightarrow> month < 12 \<Longrightarrow> month_back year month 0 = (year, month)"
  "fst (month_back year month back) * 12 + snd (month_back year month back) = year * 12 + month - back"
  "0 \<le> snd (month_back year month back) \<and> snd (month_back year month back) < 12"
  by (simp_all add: month_back_def Let_def)

lemma sortedDims_spec:
  "mset (sortedDims dims) = mset dims \<and> sorted (map usage_rank (sortedDims dims))"
  by (simp add: sortedDims_def js_sort_key)

end
