(* ===== verification/ConsoleTraining.thy ===== *)
theory ConsoleTraining
  imports ConsoleAccess ApiEndpoints Labels Quota
begin

text \<open>
  Training (\<open>web/src/pages/tenant/TrainingPages.tsx\<close>) and datasets (\<open>DatasetsPage.tsx\<close>): who may start a run
  and when, what is sent, when the pages poll, uploads and snapshots. \<open>parse\<close> is \<open>Date.parse\<close> in
  milliseconds, \<open>None\<close> for NaN.
\<close>

section \<open>Eligibility\<close>

definition ACTIVE_STATES :: "string list" where
  "ACTIVE_STATES = [''queued'', ''running'']"

definition job_active :: "TrainingJobResource \<Rightarrow> bool" where
  "job_active j = (tj_status j \<in> set ACTIVE_STATES)"

text \<open>\<open>Inr ()\<close>, or the reason why training cannot be started.\<close>

definition training_eligibility :: "TrainingJobResource list option \<Rightarrow> int option \<Rightarrow> bool \<Rightarrow> string + unit" where
  "training_eligibility jobs remaining canWrite =
     (if \<not> canWrite then Inl ''Requesting training requires training:write.''
      else if list_ex job_active (or_else jobs [])
      then Inl ''Another training run is still in progress. Wait for it to finish before starting a new one.''
      else if remaining = Some 0 then Inl ''The training quota for this period is exhausted.''
      else Inr ())"

text \<open>What the page knows: the jobs and, for a session that reads usage, the use of training jobs.\<close>

record training_view =
  tv_canWrite :: bool
  tv_canUsage :: bool
  tv_jobsLoading :: bool
  tv_jobsError :: bool
  tv_jobs :: "TrainingJobResource list option"
  tv_usageLoading :: bool
  tv_usageError :: bool
  tv_usage :: "UsageDimension list option"

definition trainingDim :: "training_view \<Rightarrow> UsageDimension option" where
  "trainingDim v = Option.bind (tv_usage v) (find (\<lambda>d. ud_type d = training_jobs))"

definition training_checking :: "training_view \<Rightarrow> bool" where
  "training_checking v = (tv_jobsLoading v \<or> tv_canUsage v \<and> tv_usageLoading v)"

definition training_unavailable :: "training_view \<Rightarrow> bool" where
  "training_unavailable v = (tv_jobsError v \<or> tv_canUsage v \<and> (tv_usageError v \<or> trainingDim v = None))"

definition training_el :: "training_view \<Rightarrow> string + unit" where
  "training_el v =
     (if \<not> tv_canWrite v then training_eligibility None None False
      else if training_checking v then Inl (''Checking training and quota'' @ ellipsis)
      else if training_unavailable v then Inl ''Training availability could not be verified. Refresh to try again.''
      else training_eligibility (tv_jobs v)
        (case trainingDim v of Some d \<Rightarrow> q_remaining (quotaState (ud_used d) (ud_limit d)) | None \<Rightarrow> None) True)"

text \<open>The page reloads every five seconds while a job is active and the window is visible.\<close>

definition training_polls :: "TrainingJobResource list option \<Rightarrow> bool \<Rightarrow> bool" where
  "training_polls jobs hidden = (list_ex job_active (or_else jobs []) \<and> \<not> hidden)"

definition shown_jobs :: "string \<Rightarrow> TrainingJobResource list option \<Rightarrow> TrainingJobResource list" where
  "shown_jobs state0 jobs = filter (\<lambda>j. state0 = ''all states'' \<or> tj_status j = state0) (or_else jobs [])"

definition completed_text :: "(string \<Rightarrow> string) \<Rightarrow> TrainingJobResource \<Rightarrow> string" where
  "completed_text dt j =
     (case tj_completed_at j of
        Some d \<Rightarrow> if d \<noteq> [] then dt d else if job_active j then ''In progress'' else DASH
      | None \<Rightarrow> if job_active j then ''In progress'' else DASH)"

section \<open>Starting a run\<close>

record start_form =
  sf_mode :: string
  sf_artifact :: string
  sf_snapshot :: string
  sf_config :: string
  sf_request_id :: string

definition start_first :: "string \<Rightarrow> start_form" where
  "start_first uuid = \<lparr>sf_mode = ''train'', sf_artifact = [], sf_snapshot = [], sf_config = [], sf_request_id = uuid\<rparr>"

text \<open>The configuration typed: none, an object, or a message.\<close>

definition typed_configuration :: "(string \<Rightarrow> json option) \<Rightarrow> string \<Rightarrow> string + (string \<times> json) list" where
  "typed_configuration parse config =
     (if js_trim config = [] then Inr []
      else case parse config of
        None \<Rightarrow> Inl ''Configuration is not valid JSON.''
      | Some (JObj kvs) \<Rightarrow> Inr kvs
      | Some _ \<Rightarrow> Inl ''Configuration must be a JSON object.'')"

text \<open>The mode and the checkpoint of the form are written over those of the configuration.\<close>

definition final_configuration :: "start_form \<Rightarrow> (string \<times> json) list \<Rightarrow> (string \<times> json) list" where
  "final_configuration f kvs =
     (let m = al_set ''mode'' (JStr (sf_mode f)) kvs in
      if sf_mode f = ''checkpoint'' then al_set ''pretrained_artifact'' (JStr (js_trim (sf_artifact f))) m
      else al_delete ''pretrained_artifact'' m)"

definition start_input :: "start_form \<Rightarrow> (string \<times> json) list \<Rightarrow> json" where
  "start_input f cfg =
     JObj [(''request_id'', JStr (sf_request_id f)),
       (''dataset_snapshot_id'', if sf_snapshot f = [] then JNull else JStr (sf_snapshot f)), (''configuration'', JObj cfg)]"

definition start_confirm :: "(string \<Rightarrow> json option) \<Rightarrow> string + unit \<Rightarrow> start_form \<Rightarrow> string + ApiCall" where
  "start_confirm parse el f =
     (case el of
        Inl reason \<Rightarrow> Inl reason
      | Inr _ \<Rightarrow>
          (case typed_configuration parse (sf_config f) of
             Inl m \<Rightarrow> Inl m
           | Inr kvs \<Rightarrow>
               if sf_mode f = ''checkpoint'' \<and> js_trim (sf_artifact f) = []
               then Inl ''Enter the checkpoint directory name configured by your operator.''
               else Inr (training_create (start_input f (final_configuration f kvs)))))"

definition start_disabled :: "string + unit \<Rightarrow> bool \<Rightarrow> bool \<Rightarrow> bool" where
  "start_disabled el snapshotsLoading snapshotsError = (Inr () \<noteq> el \<or> snapshotsLoading \<or> snapshotsError)"

definition start_modes :: "ProductMeta option \<Rightarrow> (string \<times> string) list" where
  "start_modes meta =
     [(''train'', ''Train from tenant data''), (''checkpoint'', ''Trained DGSR checkpoint'')] @
     (case meta of
        Some m \<Rightarrow> if pm_development_placeholders m then [(''placeholder'', ''Placeholder '' @ em_dash @ '' development only'')] else []
      | None \<Rightarrow> [])"

section \<open>A job\<close>

text \<open>\<open>Math.round\<close> of the seconds between two dates, at least zero.\<close>

definition durationLabel :: "(string \<Rightarrow> int option) \<Rightarrow> string \<Rightarrow> string \<Rightarrow> string" where
  "durationLabel parse start finish =
     (case (parse start, parse finish) of
        (Some a, Some b) \<Rightarrow>
          (let s = max 0 (js_round (of_int (b - a) / 1000)) in
           if s < 60 then ''Completed in '' @ show_int s @ '' s''
           else if s < 3600 then ''Completed in '' @ show_int (js_round (of_int s / 60)) @ '' min''
           else ''Completed in '' @ to_fixed 1 (of_int s / 3600) @ '' h'')
      | _ \<Rightarrow> ''Completed in NaN h'')"

definition job_subtitle :: "TrainingJobResource \<Rightarrow> string option" where
  "job_subtitle j =
     (if job_active j then Some ''The job is running. Status updates automatically while this page is visible.''
      else if tj_status j = ''succeeded''
      then Some ''The job completed and registered a model version. Activation is a separate, deliberate action.''
      else if tj_status j = ''failed'' then Some ''The job stopped before producing a version.''
      else None)"

text \<open>The Cancel action, when it is offered, with whether it is disabled.\<close>

definition cancel_action :: "bool \<Rightarrow> TrainingJobResource \<Rightarrow> (string \<times> bool) option" where
  "cancel_action canWrite j =
     (if job_active j \<and> canWrite
      then Some (if tj_cancel_requested j then ''Cancellation requested'' else ''Cancel job'', tj_cancel_requested j) else None)"

text \<open>The banner of a job that trains nothing: no artifact of a checkpoint and another mode than training.\<close>

definition js_false :: "json option \<Rightarrow> bool" where
  "js_false v = (v \<in> {None, Some JNull, Some (JBool False), Some (JNum 0), Some (JStr [])})"

definition placeholder_job :: "TrainingJobResource \<Rightarrow> bool" where
  "placeholder_job j =
     (js_false (map_of (tj_configuration j) ''pretrained_artifact'') \<and> map_of (tj_configuration j) ''mode'' \<noteq> Some (JStr ''train''))"

definition job_progress :: "(rat \<Rightarrow> string) \<Rightarrow> TrainingJobResource \<Rightarrow> string" where
  "job_progress nf j =
     nf (tj_progress j) @ ''% '' @ mid_dot @ '' '' @ map (\<lambda>c. if c = CHR ''_'' then CHR '' '' else c) (tj_stage j)"

section \<open>Datasets\<close>

record 'f upload_page =
  up_file :: "'f option"
  up_uploading :: bool
  up_error :: "exn option"
  up_uploaded :: "DatasetUploadResponse option"

definition canUpload :: "(string \<Rightarrow> bool) \<Rightarrow> bool" where
  "canUpload can = (can ''catalog:write'' \<and> can ''events:write'')"

text \<open>The file input is disabled while a file is uploaded.\<close>

definition choose_file :: "'f option \<Rightarrow> 'f upload_page \<Rightarrow> 'f upload_page" where
  "choose_file file w = (if up_uploading w then w else w\<lparr>up_file := file, up_error := None\<rparr>)"

definition upload_file :: "'f upload_page \<Rightarrow> 'f upload_page \<times> 'f option" where
  "upload_file w =
     (if up_file w = None \<or> up_uploading w then (w, None)
      else (w\<lparr>up_uploading := True, up_error := None, up_uploaded := None\<rparr>, up_file w))"

definition upload_answer :: "exn + DatasetUploadResponse \<Rightarrow> 'f upload_page \<Rightarrow> 'f upload_page" where
  "upload_answer r w =
     (case r of
        Inr result \<Rightarrow> w\<lparr>up_uploaded := Some result, up_file := None, up_uploading := False\<rparr>
      | Inl e \<Rightarrow> w\<lparr>up_error := Some e, up_uploading := False\<rparr>)"

definition usedBy :: "TrainingJobResource list option \<Rightarrow> string \<Rightarrow> nat" where
  "usedBy runs i = length (filter (\<lambda>j. tj_dataset_snapshot_id j = Some i) (or_else runs []))"

definition snaps :: "(string \<Rightarrow> int option) \<Rightarrow> DatasetSnapshotResource list option \<Rightarrow> DatasetSnapshotResource list" where
  "snaps parse items = js_sort (\<lambda>a b. by_created parse ds_created_at b a) (or_else items [])"

definition count_delta :: "(int \<Rightarrow> string) \<Rightarrow> string \<Rightarrow> int \<Rightarrow> string list" where
  "count_delta nf noun d = (if d = 0 then [] else [(if d > 0 then ''+'' else []) @ nf d @ '' '' @ noun])"

definition snapshot_delta :: "(int \<Rightarrow> string) \<Rightarrow> DatasetSnapshotResource \<Rightarrow> DatasetSnapshotResource option \<Rightarrow> string" where
  "snapshot_delta nf s prev =
     (case prev of
        None \<Rightarrow> []
      | Some p \<Rightarrow>
          js_join '', '' (count_delta nf ''events'' (ds_event_count s - ds_event_count p) @
            count_delta nf ''products'' (ds_product_count s - ds_product_count p)))"

definition snapshot_note ::
    "(int \<Rightarrow> string) \<Rightarrow> TrainingJobResource list option \<Rightarrow> DatasetSnapshotResource \<Rightarrow> DatasetSnapshotResource option \<Rightarrow> string" where
  "snapshot_note nf runs s prev =
     (let used = usedBy runs (ds_id s);
          n = (if used \<noteq> 0 then used else if truthy (ds_training_job_id s) then 1 else 0);
          delta = snapshot_delta nf s prev in
      (if n \<noteq> 0 then ''Used by '' @ show_nat n @ '' training '' @ (if n = 1 then ''run'' else ''runs'') else ''Not used yet'') @
      (if delta \<noteq> [] then '' '' @ mid_dot @ '' '' @ delta @ '' vs previous''
       else if prev \<noteq> None then '' '' @ mid_dot @ '' same counts as previous'' else []))"

definition cutoff_confirm :: "(string \<Rightarrow> int option) \<Rightarrow> (int \<Rightarrow> string) \<Rightarrow> string \<Rightarrow> string + ApiCall" where
  "cutoff_confirm parse to_iso cutoff =
     (if js_trim cutoff = [] then Inr (datasets_createSnapshot (JObj [(''cutoff_at'', JNull)]))
      else case parse cutoff of
        None \<Rightarrow> Inl ''Use an ISO-8601 timestamp for the cutoff, or leave it empty.''
      | Some t \<Rightarrow> Inr (datasets_createSnapshot (JObj [(''cutoff_at'', JStr (to_iso t))])))"

section \<open>Facts\<close>

lemma remaining_zero: "q_remaining (quotaState used limit0) = Some 0 \<longleftrightarrow> (\<exists>l. limit0 = Some l \<and> l \<le> used)"
  by (cases limit0) (auto simp: quotaState_def Let_def)

lemma eligibility_ok:
  "training_eligibility jobs remaining canWrite = Inr () \<longleftrightarrow>
     canWrite \<and> \<not> list_ex job_active (or_else jobs []) \<and> remaining \<noteq> Some 0"
  by (simp add: training_eligibility_def)

text \<open>What a configuration sent has to do with the form and with what was typed.\<close>

definition configured :: "start_form \<Rightarrow> (string \<times> json) list \<Rightarrow> (string \<times> json) list \<Rightarrow> bool" where
  "configured f kvs cfg \<longleftrightarrow>
     map_of cfg ''mode'' = Some (JStr (sf_mode f)) \<and>
     map_of cfg ''pretrained_artifact'' =
       (if sf_mode f = ''checkpoint'' then Some (JStr (js_trim (sf_artifact f))) else None) \<and>
     (sf_mode f = ''checkpoint'' \<longrightarrow> js_trim (sf_artifact f) \<noteq> []) \<and>
     (\<forall>k. k \<noteq> ''mode'' \<and> k \<noteq> ''pretrained_artifact'' \<longrightarrow> map_of cfg k = map_of kvs k)"

lemma configured_final:
  "sf_mode f = ''checkpoint'' \<longrightarrow> js_trim (sf_artifact f) \<noteq> [] \<Longrightarrow> configured f kvs (final_configuration f kvs)"
  by (simp add: configured_def final_configuration_def Let_def)

lemma start_sent:
  "start_confirm parse el f = Inr call \<longleftrightarrow>
     el = Inr () \<and> (sf_mode f = ''checkpoint'' \<longrightarrow> js_trim (sf_artifact f) \<noteq> []) \<and>
     (\<exists>kvs. typed_configuration parse (sf_config f) = Inr kvs \<and>
        call = training_create (start_input f (final_configuration f kvs)))"
  by (auto simp: start_confirm_def split: sum.splits if_splits)

text \<open>What counts as typed: nothing, or the text of an object.\<close>

definition typed_as :: "(string \<Rightarrow> json option) \<Rightarrow> string \<Rightarrow> (string \<times> json) list \<Rightarrow> bool" where
  "typed_as parse config kvs \<longleftrightarrow>
     js_trim config = [] \<and> kvs = [] \<or> js_trim config \<noteq> [] \<and> parse config = Some (JObj kvs)"

lemma typed_configuration_as: "typed_configuration parse config = Inr kvs \<longleftrightarrow> typed_as parse config kvs"
  by (auto simp: typed_configuration_def typed_as_def split: option.split json.split)

text \<open>C24: starting a run. Training may be started exactly by a session that may write, once jobs and, where it
  may be read, usage are known, while no job is queued or running and the quota is not used up. A run is
  requested exactly when training may be started, the configuration typed is empty or an object, and the
  checkpoint is named if that mode is chosen; otherwise a message is shown, the reason if training may
  not be started. The request carries the id and the snapshot of the form and a configuration with the
  mode of the form, a checkpoint exactly in that mode, whatever was typed for them, and everything else as
  typed.\<close>

theorem training_start:
  "(training_el v = Inr () \<longleftrightarrow>
      tv_canWrite v \<and> \<not> tv_jobsLoading v \<and> \<not> tv_jobsError v \<and> \<not> list_ex job_active (or_else (tv_jobs v) []) \<and>
      (tv_canUsage v \<longrightarrow> \<not> tv_usageLoading v \<and> \<not> tv_usageError v \<and> trainingDim v \<noteq> None) \<and>
      (\<forall>d l. trainingDim v = Some d \<and> ud_limit d = Some l \<longrightarrow> ud_used d < l)) \<and>
   (\<forall>reason. training_el v = Inl reason \<longrightarrow> start_confirm parse (training_el v) f = Inl reason) \<and>
   ((\<exists>call. start_confirm parse (training_el v) f = Inr call) \<longleftrightarrow>
      training_el v = Inr () \<and> (\<exists>kvs. typed_as parse (sf_config f) kvs) \<and>
      (sf_mode f = ''checkpoint'' \<longrightarrow> js_trim (sf_artifact f) \<noteq> [])) \<and>
   (\<forall>call. start_confirm parse (training_el v) f = Inr call \<longrightarrow>
      (\<exists>kvs cfg. typed_as parse (sf_config f) kvs \<and> configured f kvs cfg \<and>
         call = (''/v1/training-jobs'', no_options\<lparr>ro_method := Some POST,
           ro_json := Some (JObj [(''request_id'', JStr (sf_request_id f)),
             (''dataset_snapshot_id'', if sf_snapshot f = [] then JNull else JStr (sf_snapshot f)),
             (''configuration'', JObj cfg)])\<rparr>)))"
proof (intro conjI)
  show "training_el v = Inr () \<longleftrightarrow>
      tv_canWrite v \<and> \<not> tv_jobsLoading v \<and> \<not> tv_jobsError v \<and> \<not> list_ex job_active (or_else (tv_jobs v) []) \<and>
      (tv_canUsage v \<longrightarrow> \<not> tv_usageLoading v \<and> \<not> tv_usageError v \<and> trainingDim v \<noteq> None) \<and>
      (\<forall>d l. trainingDim v = Some d \<and> ud_limit d = Some l \<longrightarrow> ud_used d < l)"
    by (cases "trainingDim v")
      (auto simp: training_el_def training_checking_def training_unavailable_def eligibility_ok remaining_zero not_le
        simp del: or_else.simps)
  show "\<forall>reason. training_el v = Inl reason \<longrightarrow> start_confirm parse (training_el v) f = Inl reason"
    by (simp add: start_confirm_def)
  show "(\<exists>call. start_confirm parse (training_el v) f = Inr call) \<longleftrightarrow>
      training_el v = Inr () \<and> (\<exists>kvs. typed_as parse (sf_config f) kvs) \<and>
      (sf_mode f = ''checkpoint'' \<longrightarrow> js_trim (sf_artifact f) \<noteq> [])"
    unfolding start_sent typed_configuration_as by blast
  show "\<forall>call. start_confirm parse (training_el v) f = Inr call \<longrightarrow>
      (\<exists>kvs cfg. typed_as parse (sf_config f) kvs \<and> configured f kvs cfg \<and>
         call = (''/v1/training-jobs'', no_options\<lparr>ro_method := Some POST,
           ro_json := Some (JObj [(''request_id'', JStr (sf_request_id f)),
             (''dataset_snapshot_id'', if sf_snapshot f = [] then JNull else JStr (sf_snapshot f)),
             (''configuration'', JObj cfg)])\<rparr>))"
    unfolding start_sent typed_configuration_as using configured_final [of f]
    by (fastforce simp: training_create_def start_input_def)
qed

text \<open>A session without a run or a limit, and a configuration that asks for another mode.\<close>

definition free_view :: training_view where
  "free_view = \<lparr>tv_canWrite = True, tv_canUsage = False, tv_jobsLoading = False, tv_jobsError = False, tv_jobs = Some [],
     tv_usageLoading = False, tv_usageError = False, tv_usage = None\<rparr>"

theorem training_start_witness:
  "training_el free_view = Inr () \<and>
   (\<exists>cfg. map_of cfg ''mode'' = Some (JStr ''train'') \<and> map_of cfg ''pretrained_artifact'' = None \<and>
     map_of cfg ''epochs'' = Some (JNum 3))"
proof -
  let ?f = "(start_first ''u'')\<lparr>sf_config := ''c''\<rparr>"
  let ?kvs = "[(''mode'', JStr ''checkpoint''), (''pretrained_artifact'', JStr ''x''), (''epochs'', JNum 3)]"
  let ?parse = "\<lambda>_. Some (JObj ?kvs)"
  note all = training_start [of free_view ?parse ?f]
  have el: "training_el free_view = Inr ()" by code_simp
  have typed: "typed_as ?parse (sf_config ?f) kvs \<longleftrightarrow> kvs = ?kvs" for kvs
    by (auto simp: typed_as_def js_trim_def js_space_def)
  have "sf_mode ?f \<noteq> ''checkpoint''" by (simp add: start_first_def)
  with all el typed obtain call where "start_confirm ?parse (training_el free_view) ?f = Inr call" by blast
  with all obtain kvs cfg where "typed_as ?parse (sf_config ?f) kvs" "configured ?f kvs cfg" by blast
  then have "configured ?f ?kvs cfg" by (simp only: typed)
  then have "map_of cfg ''mode'' = Some (JStr ''train'')" "map_of cfg ''pretrained_artifact'' = None"
      "map_of cfg ''epochs'' = Some (JNum 3)"
    by (simp_all add: configured_def start_first_def)
  with el show ?thesis by blast
qed

text \<open>Half a minute short of an hour is printed as sixty minutes.\<close>

lemma sixty_minutes:
  assumes "parse s = Some a" "parse e = Some b" "3570000 \<le> b - a" "b - a < 3599500"
  shows "durationLabel parse s e = ''Completed in 60 min''"
proof -
  let ?s = "js_round (of_int (b - a) / 1000)"
  have bounds: "3570 \<le> x / 1000 + 1 / 2 \<and> x / 1000 + 1 / 2 < 3600" if "3570000 \<le> x" "x < 3599500" for x :: rat
    using that by (simp add: field_simps)
  have "(3570000 :: rat) \<le> of_int (b - a)" "(of_int (b - a) :: rat) < 3599500"
    using assms(3,4) by (metis of_int_le_iff of_int_less_iff of_int_numeral)+
  from bounds [OF this] have x: "3570 \<le> (of_int (b - a) :: rat) / 1000 + 1 / 2" "(of_int (b - a) :: rat) / 1000 + 1 / 2 < 3600"
    by blast+
  from x have lo: "3570 \<le> ?s" and hi: "?s \<le> 3599"
    unfolding js_round_def by simp_all
  have "js_round (of_int ?s / 60) = 60"
    using lo hi unfolding js_round_def [of "of_int ?s / 60"] by (intro floor_unique) simp_all
  moreover have "show_int 60 = ''60''" by code_simp
  ultimately show ?thesis
    using lo hi assms(1,2) by (simp add: durationLabel_def Let_def max_def)
qed

end
