(* ===== verification/ConsoleModels.thy ===== *)
theory ConsoleModels
  imports ConsoleTraining JsSort
begin

text \<open>
  Model versions (\<open>web/src/pages/tenant/ModelsPages.tsx\<close>), the comparison of a version
  (\<open>web/src/ui/CommonComparison.tsx\<close>) and its quality measures (\<open>QualitySummary.tsx\<close>). \<open>parse\<close> is \<open>Date.parse\<close>,
  \<open>lc\<close> the sign of \<open>localeCompare\<close>.
\<close>

section \<open>Scores\<close>

definition MODEL_STATUSES :: "string list" where
  "MODEL_STATUSES = [''eligible'', ''active'', ''retired'', ''archived'']"

definition validation :: "ModelVersionResource \<Rightarrow> json option" where
  "validation v = json_get (JObj (mv_metrics v)) ''validation''"

definition model_metric :: "ModelVersionResource \<Rightarrow> string \<Rightarrow> rat option" where
  "model_metric v key =
     (case Option.bind (validation v) (\<lambda>j. json_get j key) of Some (JNum x) \<Rightarrow> Some x | _ \<Rightarrow> None)"

text \<open>Two texts of \<open>JSON.stringify\<close> are equal when the values are; a missing one counts as \<open>null\<close>.\<close>

definition scoreSignature :: "ModelVersionResource \<Rightarrow> json" where
  "scoreSignature v = or_else (validation v) JNull"

definition checkpointOf :: "ModelVersionResource \<Rightarrow> string option" where
  "checkpointOf v =
     json_string (Option.bind (json_get (JObj (mv_metrics v)) ''source'') (\<lambda>j. json_get j ''artifact''))"

definition difference_text :: "nat \<Rightarrow> rat \<Rightarrow> string" where
  "difference_text digits d = (if d > 0 then ''+'' else []) @ to_fixed digits d"

text \<open>A score and its difference to the serving version, when there is one worth showing.\<close>

definition scoreCell :: "ModelVersionResource option \<Rightarrow> ModelVersionResource \<Rightarrow> string \<Rightarrow> string \<times> string option" where
  "scoreCell active v key =
     (case model_metric v key of
        None \<Rightarrow> (DASH, None)
      | Some mine \<Rightarrow>
          (to_fixed 3 mine,
           (case active of
              Some a \<Rightarrow>
                if mv_id a \<noteq> mv_id v
                then (case model_metric a key of
                        Some base0 \<Rightarrow>
                          if \<bar>mine - base0\<bar> \<ge> 5 / 10000 then Some (difference_text 3 (mine - base0) @ '' vs serving'') else None
                      | None \<Rightarrow> None)
                else None
            | None \<Rightarrow> None)))"

section \<open>The registry\<close>

definition model_list :: "string \<Rightarrow> ModelVersionResource list \<Rightarrow> ModelVersionResource list" where
  "model_list status items = filter (\<lambda>v. status = ''all statuses'' \<or> mv_status v = status) items"

definition active_model :: "ModelVersionResource list \<Rightarrow> ModelVersionResource option" where
  "active_model items = find (\<lambda>v. mv_status v = ''active'') items"

definition ordered_models ::
    "(string \<Rightarrow> int option) \<Rightarrow> ModelVersionResource list \<Rightarrow> ModelVersionResource list" where
  "ordered_models parse items = js_sort (\<lambda>a b. by_created parse mv_created_at b a) items"

definition vNum :: "(string \<Rightarrow> int option) \<Rightarrow> ModelVersionResource list \<Rightarrow> ModelVersionResource \<Rightarrow> int" where
  "vNum parse items v = ordinal parse mv_created_at mv_id (mv_id v) items"

text \<open>\<open>Date.parse(a) > Date.parse(b)\<close>, which is false when one is NaN.\<close>

definition later :: "(string \<Rightarrow> int option) \<Rightarrow> string \<Rightarrow> string \<Rightarrow> bool" where
  "later parse a b = (case (parse a, parse b) of (Some x, Some y) \<Rightarrow> x > y | _ \<Rightarrow> False)"

definition rolledBackFrom ::
    "(string \<Rightarrow> int option) \<Rightarrow> ModelVersionResource list \<Rightarrow> ModelVersionResource option" where
  "rolledBackFrom parse items =
     (case active_model items of
        None \<Rightarrow> None
      | Some a \<Rightarrow>
          (case js_sort (\<lambda>x y. by_created parse (\<lambda>v. or_else (mv_activated_at v) []) y x)
             (filter (\<lambda>x. mv_id x \<noteq> mv_id a \<and> truthy (mv_activated_at x) \<and> later parse (mv_created_at x) (mv_created_at a)) items) of
             x # _ \<Rightarrow> Some x | [] \<Rightarrow> None))"

definition identicalScores :: "ModelVersionResource list \<Rightarrow> bool" where
  "identicalScores items =
     (case items of
        a # _ # _ \<Rightarrow> list_all (\<lambda>x. scoreSignature x = scoreSignature a) items \<and> scoreSignature a \<noteq> JNull
      | _ \<Rightarrow> False)"

definition sharedCheckpoint :: "ModelVersionResource list \<Rightarrow> string option" where
  "sharedCheckpoint items = (if identicalScores items then checkpointOf (hd items) else None)"

definition model_types :: "ModelVersionResource list \<Rightarrow> string list" where
  "model_types items = rev (remdups (rev (map (\<lambda>v. modelTypeLabel (Some (mv_model_type v))) items)))"

text \<open>The main action of a row, and the link of a rollback.\<close>

datatype row_action = Activate_Row | Rollback_To string | Details_Of string

definition rollback_link :: "bool \<Rightarrow> ModelVersionResource list \<Rightarrow> ModelVersionResource \<Rightarrow> string option" where
  "rollback_link canDeploy items v =
     (if mv_status v = ''retired'' \<and> canDeploy
      then map_option (\<lambda>a. ''/models/'' @ mv_id a @ ''?rollback='' @ mv_id v) (active_model items) else None)"

definition row_primary :: "bool \<Rightarrow> ModelVersionResource list \<Rightarrow> ModelVersionResource \<Rightarrow> row_action" where
  "row_primary canDeploy items v =
     (if mv_status v = ''eligible'' \<and> canDeploy then Activate_Row
      else case rollback_link canDeploy items v of Some l \<Rightarrow> Rollback_To l | None \<Rightarrow> Details_Of (''/models/'' @ mv_id v))"

section \<open>A version\<close>

definition retired_models :: "ModelVersionResource list \<Rightarrow> ModelVersionResource list" where
  "retired_models items = filter (\<lambda>x. mv_status x = ''retired'') items"

text \<open>What the page knows: the version, the registry when it is loaded, its error, the session's scopes.\<close>

record version_view =
  vv_version :: ModelVersionResource
  vv_all :: "ModelVersionResource list option"
  vv_error :: bool
  vv_canDeploy :: bool
  vv_canWrite :: bool

definition vv_items :: "version_view \<Rightarrow> ModelVersionResource list" where
  "vv_items w = or_else (vv_all w) []"

definition canActivate :: "version_view \<Rightarrow> bool" where
  "canActivate w = (mv_status (vv_version w) = ''eligible'' \<and> vv_canDeploy w \<and> vv_all w \<noteq> None \<and> \<not> vv_error w)"

definition canRollback :: "version_view \<Rightarrow> bool" where
  "canRollback w =
     (mv_status (vv_version w) = ''active'' \<and> retired_models (vv_items w) \<noteq> [] \<and> vv_canDeploy w \<and> \<not> vv_error w)"

text \<open>The retired version that was activated last.\<close>

definition protectedRollback :: "(string \<Rightarrow> string \<Rightarrow> rat) \<Rightarrow> ModelVersionResource list \<Rightarrow> string option" where
  "protectedRollback lc items =
     (case js_sort (\<lambda>a b. lc (or_else (mv_activated_at b) (mv_created_at b)) (or_else (mv_activated_at a) (mv_created_at a)))
        (retired_models items) of v # _ \<Rightarrow> Some (mv_id v) | [] \<Rightarrow> None)"

definition canArchive :: "(string \<Rightarrow> string \<Rightarrow> rat) \<Rightarrow> version_view \<Rightarrow> bool" where
  "canArchive lc w =
     (mv_status (vv_version w) \<noteq> ''active'' \<and> mv_status (vv_version w) \<noteq> ''archived'' \<and>
      \<not> (active_model (vv_items w) \<noteq> None \<and> Some (mv_id (vv_version w)) = protectedRollback lc (vv_items w)) \<and> vv_canWrite w)"

definition activate_reason :: "version_view \<Rightarrow> string option" where
  "activate_reason w =
     (if canActivate w then None
      else if \<not> vv_canDeploy w then Some ''Your role cannot activate models.''
      else if mv_status (vv_version w) = ''active'' then Some ''This version is already active.''
      else if vv_all w = None \<or> vv_error w then Some ''Load the model registry before activating.''
      else Some ''Only an eligible version can be activated.'')"

definition archive_reason :: "(string \<Rightarrow> string \<Rightarrow> rat) \<Rightarrow> version_view \<Rightarrow> string option" where
  "archive_reason lc w =
     (if canArchive lc w then None
      else if \<not> vv_canWrite w then Some ''Your role cannot archive models.''
      else if mv_status (vv_version w) = ''active'' then Some ''An active version cannot be archived.''
      else if active_model (vv_items w) \<noteq> None \<and> Some (mv_id (vv_version w)) = protectedRollback lc (vv_items w)
      then Some ''This version is retained as the rollback target.''
      else Some ''Already archived.'')"

text \<open>The actions in the header, each with whether it is disabled.\<close>

definition version_actions :: "(string \<Rightarrow> string \<Rightarrow> rat) \<Rightarrow> version_view \<Rightarrow> (string \<times> bool) list" where
  "version_actions lc w =
     (let s = mv_status (vv_version w) in
      (if s = ''eligible'' then [(''Activate'', \<not> canActivate w)] else []) @
      (if s = ''active'' then [(''Roll back'', \<not> canRollback w)] else []) @
      (if s \<noteq> ''active'' \<and> s \<noteq> ''archived'' then [(''Archive'', \<not> canArchive lc w)] else []))"

section \<open>Rolling back\<close>

datatype version_dialog = Dialog_Activate | Dialog_Rollback | Dialog_Archive

record rollback_state =
  rb_dialog :: "version_dialog option"
  rb_target :: string
  rb_requested :: "string option"

definition open_rollback :: "version_view \<Rightarrow> rollback_state \<Rightarrow> rollback_state" where
  "open_rollback w s =
     s\<lparr>rb_target := (case retired_models (vv_items w) of r # _ \<Rightarrow> mv_id r | [] \<Rightarrow> []), rb_dialog := Some Dialog_Rollback\<rparr>"

definition rollback_open :: "version_view \<Rightarrow> rollback_state \<Rightarrow> bool" where
  "rollback_open w s =
     (rb_dialog s = Some Dialog_Rollback \<or> rb_dialog s = None \<and> truthy (rb_requested s) \<and> canRollback w)"

definition choose_target :: "string \<Rightarrow> rollback_state \<Rightarrow> rollback_state" where
  "choose_target i s = s\<lparr>rb_target := i\<rparr>"

definition close_rollback :: "rollback_state \<Rightarrow> rollback_state" where
  "close_rollback s = s\<lparr>rb_dialog := None, rb_requested := (if truthy (rb_requested s) then None else rb_requested s)\<rparr>"

text \<open>\<open>target || requestedRollback || ""\<close>: what the request names.\<close>

definition chosen_target :: "rollback_state \<Rightarrow> string" where
  "chosen_target s = (if rb_target s \<noteq> [] then rb_target s else or_else (rb_requested s) [])"

definition rollback_confirm :: "string \<Rightarrow> rollback_state \<Rightarrow> string + ApiCall" where
  "rollback_confirm reason s =
     (if chosen_target s = [] then Inl ''No retired version is available as a roll-back target.''
      else Inr (models_rollback (chosen_target s) (Some reason)))"

text \<open>The fact shown above the select, and the option a browser shows for the value: the first one when no
  option has it.\<close>

definition rollback_fact :: "(string \<Rightarrow> int option) \<Rightarrow> version_view \<Rightarrow> rollback_state \<Rightarrow> string" where
  "rollback_fact parse w s =
     (case find (\<lambda>r. mv_id r = chosen_target s) (retired_models (vv_items w)) of
        Some t \<Rightarrow> (case vv_all w of Some all0 \<Rightarrow> modelLabel parse t all0 | None \<Rightarrow> mv_version_tag t)
      | None \<Rightarrow> ''Choose below'')"

definition select_shows :: "version_view \<Rightarrow> rollback_state \<Rightarrow> string option" where
  "select_shows w s =
     (let ids = map mv_id (retired_models (vv_items w)) in
      if chosen_target s \<in> set ids then Some (chosen_target s) else (case ids of i # _ \<Rightarrow> Some i | [] \<Rightarrow> None))"

section \<open>Comparisons\<close>

definition MEASURES :: "string list" where
  "MEASURES = [''Hit@1'', ''Hit@10'', ''NDCG@10'', ''MRR@10'', ''catalog_coverage@10'']"

definition comparisonOf :: "(string \<times> json) list \<Rightarrow> json option" where
  "comparisonOf metrics =
     (case json_get (JObj metrics) ''comparison'' of
        Some (JObj kvs) \<Rightarrow> if map_of kvs ''candidate'' \<noteq> None then Some (JObj kvs) else None
      | _ \<Rightarrow> None)"

definition json_num :: "json option \<Rightarrow> rat option" where
  "json_num v = (case v of Some (JNum x) \<Rightarrow> Some x | _ \<Rightarrow> None)"

text \<open>The version compared with, unless it could not be scored.\<close>

definition compared_active :: "json \<Rightarrow> json option" where
  "compared_active c =
     (case json_get c ''active'' of
        Some (JObj kvs) \<Rightarrow> if js_false (json_get (JObj kvs) ''unavailable_reason'') then Some (JObj kvs) else None
      | _ \<Rightarrow> None)"

definition difference_cell :: "rat option \<Rightarrow> rat option \<Rightarrow> string" where
  "difference_cell mine theirs =
     (case (mine, theirs) of
        (Some m, Some t) \<Rightarrow> if \<bar>m - t\<bar> < 5 / 100000 then ''Same'' else difference_text 4 (m - t)
      | _ \<Rightarrow> DASH)"

definition comparison_row :: "json \<Rightarrow> string \<Rightarrow> string list" where
  "comparison_row c key =
     (let num = (\<lambda>s. json_num (Option.bind s (\<lambda>j. json_get j key)));
          cell = (\<lambda>s. case num s of Some x \<Rightarrow> to_fixed 4 x | None \<Rightarrow> DASH);
          candidate = json_get c ''candidate''; baseline = json_get c ''popularity_baseline'' in
      (case compared_active c of
         Some a \<Rightarrow> [cell candidate, cell (Some a), cell baseline, difference_cell (num candidate) (num (Some a))]
       | None \<Rightarrow> [cell candidate, cell baseline]))"

text \<open>The groups of quality measures: those recorded as objects, or the metrics themselves.\<close>

definition quality_groups :: "(string \<times> json) list \<Rightarrow> (string \<times> json) list" where
  "quality_groups metrics =
     (let gs = List.map_filter (\<lambda>(key, label). case json_get (JObj metrics) key of
          Some (JObj kvs) \<Rightarrow> Some (label, JObj kvs) | Some (JArr js) \<Rightarrow> Some (label, JArr js) | _ \<Rightarrow> None)
        [(''validation'', ''Validation''), (''test'', ''Test''), (''popularity_baseline'', ''Popularity baseline'')] in
      if gs = [] then [(''Recorded'', JObj metrics)] else gs)"

definition quality_measures :: "(string \<times> json) list \<Rightarrow> string list" where
  "quality_measures groups =
     rev (remdups (rev (concat (map (\<lambda>(_, g). case g of
       JObj kvs \<Rightarrow> map fst (filter (\<lambda>(_, v). json_num (Some v) \<noteq> None) kvs)
     | JArr js \<Rightarrow> map (\<lambda>(i, _). show_nat i) (filter (\<lambda>(_, v). json_num (Some v) \<noteq> None) (enumerate 0 js))
     | _ \<Rightarrow> []) groups))))"

section \<open>Facts\<close>

definition archived :: "ModelVersionResource \<Rightarrow> ModelVersionResource list \<Rightarrow> ModelVersionResource list" where
  "archived v items = map (\<lambda>x. if mv_id x = mv_id v then x\<lparr>mv_status := ''archived''\<rparr> else x) items"

lemma retired_archived: "retired_models (archived v items) = filter (\<lambda>x. mv_id x \<noteq> mv_id v) (retired_models items)"
  by (induction items) (auto simp: retired_models_def archived_def)

text \<open>C25: archiving keeps the way back. When the registry has an active version, archiving any version that
  the page lets be archived leaves the protected rollback target, the retired version activated last, in
  place; and neither an active nor an archived version can be archived.\<close>

theorem archive_keeps_target:
  assumes total: "\<And>a b. lc a b \<le> 0 \<or> lc b a \<le> 0"
    and trans: "\<And>a b c. lc a b \<le> 0 \<Longrightarrow> lc b c \<le> 0 \<Longrightarrow> lc a c \<le> 0"
    and may: "canArchive lc w" and active: "active_model (vv_items w) \<noteq> None"
  shows "protectedRollback lc (archived (vv_version w) (vv_items w)) = protectedRollback lc (vv_items w) \<and>
    mv_status (vv_version w) \<noteq> ''active'' \<and> mv_status (vv_version w) \<noteq> ''archived''"
proof -
  let ?cmp = "\<lambda>a b. lc (or_else (mv_activated_at b) (mv_created_at b)) (or_else (mv_activated_at a) (mv_created_at a))"
  let ?sorted = "js_sort ?cmp (retired_models (vv_items w))"
  have "total_comparator ?cmp" using total trans by unfold_locales blast+
  from total_comparator.sort_filter [OF this]
  have sort: "js_sort ?cmp (retired_models (archived (vv_version w) (vv_items w))) =
      filter (\<lambda>x. mv_id x \<noteq> mv_id (vv_version w)) ?sorted"
    by (simp add: retired_archived)
  have "?sorted = r # rs \<Longrightarrow> mv_id r \<noteq> mv_id (vv_version w)" for r rs
    using may active by (auto simp: canArchive_def protectedRollback_def)
  then show ?thesis
    using may unfolding protectedRollback_def sort
    by (cases ?sorted) (auto simp: canArchive_def)
qed

text \<open>What a rollback names. The dialog opened from the page starts with the first retired version of the
  registry, which need not be the protected one; opened by a link it sends the version the link names, also
  when the registry has no such retired version: the select then shows the first retired one and the fact
  above it asks to choose. A choice is what is sent.\<close>

lemma rollback_names:
  assumes "retired_models (vv_items w) = r # rs"
  shows "chosen_target (open_rollback w s) = (if mv_id r \<noteq> [] then mv_id r else or_else (rb_requested s) []) \<and>
    (rb_dialog s = None \<and> rb_target s = [] \<and> rb_requested s = Some i \<and> i \<noteq> [] \<and> canRollback w \<longrightarrow>
       rollback_open w s \<and> rollback_confirm reason s = Inr (models_rollback i (Some reason)) \<and>
       (i \<notin> mv_id ` set (r # rs) \<longrightarrow>
          rollback_fact parse w s = ''Choose below'' \<and> select_shows w s = Some (mv_id r))) \<and>
    (i \<noteq> [] \<longrightarrow> rollback_confirm reason (choose_target i s) = Inr (models_rollback i (Some reason)))"
proof (intro conjI impI)
  show "chosen_target (open_rollback w s) = (if mv_id r \<noteq> [] then mv_id r else or_else (rb_requested s) [])"
    using assms by (simp add: chosen_target_def open_rollback_def)
  assume h: "rb_dialog s = None \<and> rb_target s = [] \<and> rb_requested s = Some i \<and> i \<noteq> [] \<and> canRollback w"
  then have i: "chosen_target s = i" by (simp add: chosen_target_def)
  show "rollback_open w s" using h by (simp add: rollback_open_def truthy_iff)
  show "rollback_confirm reason s = Inr (models_rollback i (Some reason))"
    using h i by (simp add: rollback_confirm_def)
  assume n: "i \<notin> mv_id ` set (r # rs)"
  then have "find (\<lambda>x. mv_id x = i) (r # rs) = None" by (auto simp: find_None_iff)
  then show "rollback_fact parse w s = ''Choose below''" unfolding rollback_fact_def i assms by simp
  show "select_shows w s = Some (mv_id r)" using n unfolding select_shows_def i assms by (auto simp: Let_def)
next
  assume "i \<noteq> []"
  then show "rollback_confirm reason (choose_target i s) = Inr (models_rollback i (Some reason))"
    by (simp add: rollback_confirm_def choose_target_def chosen_target_def)
qed

text \<open>A registry: one version serves, two are retired.\<close>

definition a_version :: "string \<Rightarrow> string \<Rightarrow> string option \<Rightarrow> ModelVersionResource" where
  "a_version i status at0 =
     \<lparr>mv_id = i, mv_version_tag = i, mv_model_type = ''dgsr'', mv_status = status, mv_metrics = [], mv_artifact_uri = None,
      mv_qdrant_collection = None, mv_created_at = ''2026-01-01'', mv_activated_at = at0\<rparr>"

definition registry_of :: "ModelVersionResource \<Rightarrow> version_view" where
  "registry_of v =
     \<lparr>vv_version = v,
      vv_all = Some [a_version ''a'' ''active'' (Some ''2026-03-03''), a_version ''b'' ''retired'' (Some ''2026-01-02''),
        a_version ''c'' ''retired'' (Some ''2026-02-02'')],
      vv_error = False, vv_canDeploy = True, vv_canWrite = True\<rparr>"

theorem archive_keeps_target_witness:
  "protectedRollback text_order (archived (a_version ''b'' ''retired'' None) (vv_items (registry_of (a_version ''b'' ''retired'' None)))) =
     Some ''c''"
proof -
  let ?w = "registry_of (a_version ''b'' ''retired'' None)"
  have may: "canArchive text_order ?w" and act: "active_model (vv_items ?w) \<noteq> None"
    and kept: "protectedRollback text_order (vv_items ?w) = Some ''c''"
    by code_simp+
  have "vv_version ?w = a_version ''b'' ''retired'' None" by (simp add: registry_of_def)
  with conjunct1 [OF archive_keeps_target [OF text_comparator.total text_comparator.trans may act]] kept
  show ?thesis by simp
qed

theorem rollback_names_witness:
  "rollback_confirm [] \<lparr>rb_dialog = None, rb_target = [], rb_requested = Some ''zz''\<rparr> = Inr (models_rollback ''zz'' (Some [])) \<and>
   select_shows (registry_of (a_version ''a'' ''active'' None)) \<lparr>rb_dialog = None, rb_target = [], rb_requested = Some ''zz''\<rparr> =
     Some ''b''"
proof -
  let ?w = "registry_of (a_version ''a'' ''active'' None)"
  let ?s = "\<lparr>rb_dialog = None, rb_target = [], rb_requested = Some ''zz''\<rparr>"
  have retired: "retired_models (vv_items ?w) =
      [a_version ''b'' ''retired'' (Some ''2026-01-02''), a_version ''c'' ''retired'' (Some ''2026-02-02'')]"
    by code_simp
  have "canRollback ?w" by code_simp
  then show ?thesis
    using rollback_names [OF retired, of ?s "''zz''" "[]"] by (simp add: a_version_def)
qed

end
