(* ===== verification/ConsoleLimits.thy ===== *)
theory ConsoleLimits
  imports ConsoleAccess ApiEndpoints Labels
begin

text \<open>
  Changes of limits by operators (\<open>web/src/pages/platform/TenantPages.tsx\<close>, \<open>PlanRequestsPage.tsx\<close>): the
  two-step confirmation of \<open>useBelowUsageGuard\<close> and the four dialogs that use it. The dialogs share one
  form of state, \<open>limit_dialog\<close>: the fields, the guard and the dialog around them. What is sent and how it
  was answered is kept in a log, newest first, which no operation reads.
\<close>

section \<open>The guard\<close>

record guard =
  gd_conflicts :: "json list option"
  gd_acknowledged :: bool

definition guard_reset :: guard where
  "guard_reset = \<lparr>gd_conflicts = None, gd_acknowledged = False\<rparr>"

text \<open>\<open>attempt\<close> up to the request: a message, or the acknowledgement it is sent with.\<close>

definition guard_attempt :: "guard \<Rightarrow> string + bool" where
  "guard_attempt g =
     (if gd_conflicts g \<noteq> None \<and> \<not> gd_acknowledged g
      then Inl ''Confirm that you want to apply limits below current usage, or change the values.''
      else Inr (gd_conflicts g \<noteq> None \<and> gd_acknowledged g))"

text \<open>\<open>caught.details.conflicts ?? []\<close>, which the server sends as an array.\<close>

definition conflicts_of :: "GraphRecApiError \<Rightarrow> json list" where
  "conflicts_of a =
     (case map_of (ed_other (err_details a)) ''conflicts'' of Some (JArr cs) \<Rightarrow> cs | _ \<Rightarrow> [])"

text \<open>\<open>attempt\<close> from the answer on: the result, a message, or the error thrown again.\<close>

definition guard_answer :: "exn + 'a \<Rightarrow> guard \<Rightarrow> (exn + (string + 'a)) \<times> guard" where
  "guard_answer r g =
     (case r of
        Inr v \<Rightarrow> (Inr (Inr v), g)
      | Inl (ApiError a) \<Rightarrow>
          if err_code a = ''limit_below_usage''
          then (Inr (Inl ''These limits are below what is already stored. Review the impact below.''),
                \<lparr>gd_conflicts = Some (conflicts_of a), gd_acknowledged = False\<rparr>)
          else (Inl (ApiError a), g)
      | Inl e \<Rightarrow> (Inl e, g))"

text \<open>A line of the notice; \<open>num\<close> prints a number of the conflict.\<close>

definition conflict_line :: "(json option \<Rightarrow> string) \<Rightarrow> json \<Rightarrow> string" where
  "conflict_line num c =
     (case json_string (json_get c ''tenant_name'') of
        Some n \<Rightarrow> if n \<noteq> [] then n @ '': '' else [] | None \<Rightarrow> []) @
     humanize (or_else (json_string (json_get c ''limit_name'')) []) @ '' '' @ DASH @ '' '' @ num (json_get c ''used'') @
     '' stored, new limit '' @ num (json_get c ''limit'') @ '' ('' @ num (json_get c ''over_by'') @ '' over)''"

definition guard_notice :: "(json option \<Rightarrow> string) \<Rightarrow> guard \<Rightarrow> string list option" where
  "guard_notice num g =
     map_option (map (conflict_line num)) (gd_conflicts g)"

section \<open>A dialog with a guard\<close>

datatype 'r sent_entry = Sent 'r bool | Refused "json list" | Failed | Done

record ('f, 'r) limit_dialog =
  ld_fields :: 'f
  ld_guard :: guard
  ld_dialog :: dialog
  ld_log :: "'r sent_entry list"

text \<open>An edit of a field, a click on the box of the notice, Confirm, an answer, Cancel. The fields and the
  box are disabled while the dialog is busy.\<close>

datatype ('e, 'a) limit_event = Edit 'e | Tick bool | Confirm | Answer "exn + 'a" | Cancel

definition limit_edit :: "('e \<Rightarrow> 'f \<Rightarrow> 'f) \<Rightarrow> ('e \<Rightarrow> bool) \<Rightarrow> 'e \<Rightarrow> ('f, 'r) limit_dialog \<Rightarrow> ('f, 'r) limit_dialog" where
  "limit_edit edit resets e d =
     (if dg_busy (ld_dialog d) then d
      else d\<lparr>ld_fields := edit e (ld_fields d), ld_guard := (if resets e then guard_reset else ld_guard d)\<rparr>)"

definition limit_tick :: "bool \<Rightarrow> ('f, 'r) limit_dialog \<Rightarrow> ('f, 'r) limit_dialog" where
  "limit_tick b d =
     (if dg_busy (ld_dialog d) \<or> gd_conflicts (ld_guard d) = None then d
      else d\<lparr>ld_guard := (ld_guard d)\<lparr>gd_acknowledged := b\<rparr>\<rparr>)"

text \<open>\<open>onConfirm\<close> up to the request: the check of the fields, then the guard.\<close>

definition limit_confirm ::
    "('f \<Rightarrow> bool) \<Rightarrow> ('f \<Rightarrow> string + 'r) \<Rightarrow> ('f, 'r) limit_dialog \<Rightarrow> ('f, 'r) limit_dialog" where
  "limit_confirm off req d =
     (if dg_pending (ld_dialog d) \<or> off (ld_fields d) then d
      else let started = dialog_confirm False (ld_dialog d) in
        case req (ld_fields d) of
          Inl m \<Rightarrow> d\<lparr>ld_dialog := dialog_settle (Inr (Some m)) started\<rparr>
        | Inr r \<Rightarrow>
            (case guard_attempt (ld_guard d) of
               Inl m \<Rightarrow> d\<lparr>ld_dialog := dialog_settle (Inr (Some m)) started\<rparr>
             | Inr ack \<Rightarrow> d\<lparr>ld_dialog := started, ld_log := Sent r ack # ld_log d\<rparr>))"

text \<open>The answer; a dialog that is done is closed and its guard is reset or forgotten with it.\<close>

definition limit_answer :: "exn + 'a \<Rightarrow> ('f, 'r) limit_dialog \<Rightarrow> ('f, 'r) limit_dialog" where
  "limit_answer r d =
     (if \<not> dg_pending (ld_dialog d) then d
      else case guard_answer r (ld_guard d) of
        (Inl e, g) \<Rightarrow> d\<lparr>ld_guard := g, ld_dialog := dialog_settle (Inl e) (ld_dialog d), ld_log := Failed # ld_log d\<rparr>
      | (Inr (Inl m), g) \<Rightarrow>
          d\<lparr>ld_guard := g, ld_dialog := dialog_settle (Inr (Some m)) (ld_dialog d),
            ld_log := Refused (or_else (gd_conflicts g) []) # ld_log d\<rparr>
      | (Inr (Inr _), _) \<Rightarrow>
          d\<lparr>ld_guard := guard_reset, ld_dialog := (dialog_settle (Inr None) (ld_dialog d))\<lparr>dg_open := False\<rparr>,
            ld_log := Done # ld_log d\<rparr>)"

definition limit_cancel :: "('f, 'r) limit_dialog \<Rightarrow> ('f, 'r) limit_dialog" where
  "limit_cancel d =
     (if dg_busy (ld_dialog d) then d else d\<lparr>ld_guard := guard_reset, ld_dialog := dialog_close (ld_dialog d)\<rparr>)"

fun limit_do ::
    "('e \<Rightarrow> 'f \<Rightarrow> 'f) \<Rightarrow> ('e \<Rightarrow> bool) \<Rightarrow> ('f \<Rightarrow> bool) \<Rightarrow> ('f \<Rightarrow> string + 'r) \<Rightarrow> ('e, 'a) limit_event \<Rightarrow>
     ('f, 'r) limit_dialog \<Rightarrow> ('f, 'r) limit_dialog" where
  "limit_do edit resets off req ev d =
     (if \<not> dg_open (ld_dialog d) then d
      else case ev of
        Edit e \<Rightarrow> limit_edit edit resets e d
      | Tick b \<Rightarrow> limit_tick b d
      | Confirm \<Rightarrow> limit_confirm off req d
      | Answer r \<Rightarrow> limit_answer r d
      | Cancel \<Rightarrow> limit_cancel d)"

definition limit_open :: "'f \<Rightarrow> ('f, 'r) limit_dialog" where
  "limit_open f = \<lparr>ld_fields = f, ld_guard = guard_reset, ld_dialog = dialog_first, ld_log = []\<rparr>"

section \<open>Acknowledged changes\<close>

text \<open>\<open>shown lm l cs log\<close>: the last refusal in the log came with the conflicts \<open>cs\<close> for the limits \<open>l\<close>, and
  since then only these limits have been sent, acknowledged, without an answer that settles them.\<close>

fun shown :: "('r \<Rightarrow> 'l) \<Rightarrow> 'l \<Rightarrow> json list \<Rightarrow> 'r sent_entry list \<Rightarrow> bool" where
  "shown lm l cs (Sent r a # es) = (a \<and> lm r = l \<and> shown lm l cs es)"
| "shown lm l cs (Failed # es) = shown lm l cs es"
| "shown lm l cs (Refused cs' # es) = (cs' = cs \<and> (case es of Sent r a # _ \<Rightarrow> lm r = l | _ \<Rightarrow> False))"
| "shown lm l cs _ = False"

text \<open>Every acknowledged request in the log follows a refusal of the same limits.\<close>

fun acknowledged_ok :: "('r \<Rightarrow> 'l) \<Rightarrow> 'r sent_entry list \<Rightarrow> bool" where
  "acknowledged_ok lm (Sent r True # es) = ((\<exists>cs. shown lm (lm r) cs es) \<and> acknowledged_ok lm es)"
| "acknowledged_ok lm (e # es) = acknowledged_ok lm es"
| "acknowledged_ok lm [] = True"

lemma acknowledged_ok_Sent [simp]:
  "acknowledged_ok lm (Sent r a # es) = ((a \<longrightarrow> (\<exists>cs. shown lm (lm r) cs es)) \<and> acknowledged_ok lm es)"
  by (cases a) simp_all

locale acknowledged_limits =
  fixes edit :: "'e \<Rightarrow> 'f \<Rightarrow> 'f" and resets :: "'e \<Rightarrow> bool" and off :: "'f \<Rightarrow> bool"
    and req :: "'f \<Rightarrow> string + 'r" and limits_of :: "'r \<Rightarrow> 'l" and limits_in :: "'f \<Rightarrow> 'l"
  assumes edit_keeps: "\<not> resets e \<Longrightarrow> limits_in (edit e f) = limits_in f"
    and request_limits: "req f = Inr r \<Longrightarrow> limits_of r = limits_in f"
begin

definition dialog_inv :: "('f, 'r) limit_dialog \<Rightarrow> bool" where
  "dialog_inv d \<longleftrightarrow>
     acknowledged_ok limits_of (ld_log d) \<and> dg_busy (ld_dialog d) = dg_pending (ld_dialog d) \<and>
     (dg_open (ld_dialog d) \<longrightarrow>
       (\<forall>cs. gd_conflicts (ld_guard d) = Some cs \<longrightarrow> shown limits_of (limits_in (ld_fields d)) cs (ld_log d)) \<and>
       (dg_pending (ld_dialog d) \<longrightarrow>
          (\<exists>r ack es. ld_log d = Sent r ack # es \<and> limits_of r = limits_in (ld_fields d))))"

lemma open_inv: "dialog_inv (limit_open f)"
  by (simp add: dialog_inv_def limit_open_def guard_reset_def dialog_first_def)

lemma edit_inv: "dialog_inv d \<Longrightarrow> dialog_inv (limit_edit edit resets e d)"
  by (auto simp: dialog_inv_def limit_edit_def guard_reset_def edit_keeps)

lemma tick_inv: "dialog_inv d \<Longrightarrow> dialog_inv (limit_tick b d)"
  by (auto simp: dialog_inv_def limit_tick_def)

lemma confirm_inv: "dialog_inv d \<Longrightarrow> dg_open (ld_dialog d) \<Longrightarrow> dialog_inv (limit_confirm off req d)"
  by (auto simp: dialog_inv_def limit_confirm_def dialog_confirm_def dialog_settle_def guard_attempt_def
      request_limits Let_def split: sum.split)

lemma answer_inv: "dialog_inv d \<Longrightarrow> dg_open (ld_dialog d) \<Longrightarrow> dialog_inv (limit_answer r d)"
  by (auto simp: dialog_inv_def limit_answer_def guard_answer_def dialog_settle_def guard_reset_def
      split: sum.split exn.split)

lemma cancel_inv: "dialog_inv d \<Longrightarrow> dialog_inv (limit_cancel d)"
  by (auto simp: dialog_inv_def limit_cancel_def dialog_close_def guard_reset_def)

lemma dialog_run_inv: "dialog_inv d \<Longrightarrow> dialog_inv (fold (limit_do edit resets off req) evs d)"
proof (induction evs arbitrary: d)
  case (Cons ev evs)
  have "dialog_inv (limit_do edit resets off req ev d)"
    using Cons.prems edit_inv tick_inv confirm_inv answer_inv cancel_inv by (cases ev) auto
  with Cons.IH show ?case by simp
qed simp

lemma dialog_run_shown:
  "acknowledged_ok limits_of (ld_log (fold (limit_do edit resets off req) evs (limit_open f))) \<and>
   (let d = fold (limit_do edit resets off req) evs (limit_open f) in
    dg_open (ld_dialog d) \<longrightarrow>
      (\<forall>cs. gd_conflicts (ld_guard d) = Some cs \<longrightarrow> shown limits_of (limits_in (ld_fields d)) cs (ld_log d)))"
  using dialog_run_inv [OF open_inv, of evs f] unfolding dialog_inv_def Let_def by blast

end

end
