(* ===== verification/ConsoleTenants.thy ===== *)
theory ConsoleTenants
  imports ConsoleLimits Quota
begin

text \<open>
  The operators' pages of tenants and plans (\<open>web/src/pages/platform/TenantPages.tsx\<close>) and of plan requests
  (\<open>PlanRequestsPage.tsx\<close>). The four dialogs that change limits are instances of \<open>limit_do\<close>, each with its
  fields, its edits, the edits that reset the guard and its request.
\<close>

section \<open>Tenants\<close>

definition TENANT_STATUSES :: "string list" where
  "TENANT_STATUSES = [''active'', ''suspended'', ''deleting'', ''deleted'']"

definition USAGE_TYPES :: "string list" where
  "USAGE_TYPES =
     [''accepted_events'', ''recommendation_requests'', ''training_jobs'', ''training_cpu_seconds'', ''stored_products'',
      ''artifact_storage_bytes'', ''active_model_versions'', ''inference_replicas'', ''replica_runtime_minutes'']"

definition status_first :: "PlatformTenant \<Rightarrow> string \<times> string" where
  "status_first t = (if pt_status t = ''active'' then ''suspended'' else ''active'', [])"

definition reason_missing :: "string \<Rightarrow> bool" where
  "reason_missing reason = (js_length (js_trim reason) < 3)"

definition all_tenant_statuses :: string where
  "all_tenant_statuses = ''all statuses''"

definition tenants_list :: "string \<Rightarrow> string \<Rightarrow> PlatformTenant list \<Rightarrow> PlatformTenant list" where
  "tenants_list status q items =
     filter (\<lambda>t. (status = all_tenant_statuses \<or> pt_status t = status) \<and>
       (js_trim q = [] \<or> js_includes (to_lower (pt_slug t @ '' '' @ pt_name t)) (to_lower (js_trim q)))) items"

definition tenant_changed :: "PlatformTenant \<Rightarrow> PlatformTenant list option \<Rightarrow> PlatformTenant list option" where
  "tenant_changed t prev = map_option (map (\<lambda>x. if pt_id x = pt_id t then t else x)) prev"

definition recovery_confirm :: "string \<Rightarrow> string \<Rightarrow> string \<Rightarrow> string + ApiCall" where
  "recovery_confirm tenant email reason =
     (if js_trim email = [] then Inl ''Enter the account email.''
      else Inr (platform_issueRecovery tenant (js_trim email) (Some reason)))"

text \<open>A missing tenant, and an identifier that is none, lead to the page that says so.\<close>

definition tenant_not_found :: "exn option \<Rightarrow> bool" where
  "tenant_not_found e = (case e of Some (ApiError a) \<Rightarrow> err_status a = 404 \<or> err_status a = 422 | _ \<Rightarrow> False)"

definition pendingRequest :: "string \<Rightarrow> PlatformPlanRequestList option \<Rightarrow> PlatformPlanRequest option" where
  "pendingRequest tenant rs = Option.bind rs (\<lambda>l. find (\<lambda>r. ppr_tenant_id r = tenant) (ppl_items l))"

definition canSeeRequests :: "PlatformSession option \<Rightarrow> bool" where
  "canSeeRequests session = hasOperatorRole session [role_plan_management, role_platform, role_monitoring]"

text \<open>Used, limit and what remains or is over; \<open>qty\<close> prints a quantity with its unit.\<close>

definition usage_cells :: "(int \<Rightarrow> UsageUnit \<Rightarrow> string) \<Rightarrow> UsageDimension \<Rightarrow> string \<times> string \<times> string" where
  "usage_cells qty d =
     (if ud_measured d = Some False then ''Not measured'' else qty (ud_used d) (ud_unit d),
      case ud_limit d of None \<Rightarrow> ''No limit'' | Some l \<Rightarrow> qty l (ud_unit d),
      case ud_remaining d of None \<Rightarrow> DASH
      | Some rm \<Rightarrow>
          (case ud_limit d of
             Some l \<Rightarrow> if ud_used d > l then qty (ud_used d - l) (ud_unit d) @ '' over'' else qty rm (ud_unit d)
           | None \<Rightarrow> qty rm (ud_unit d)))"

definition plan_options :: "PlatformPlan list \<Rightarrow> (string \<times> string) list" where
  "plan_options plans = ([], ''Choose a plan'') # map (\<lambda>p. (pp_id p, pp_name p)) (filter pp_is_active plans)"

definition assign_flash :: "(string \<times> json) list list option \<Rightarrow> string" where
  "assign_flash warnings =
     (case warnings of
        Some (_ # _) \<Rightarrow> ''Tenant plan updated. The tenant is now over a storage limit.'' | _ \<Rightarrow> ''Tenant plan updated.'')"

section \<open>Whole numbers\<close>

definition whole_number :: "string \<Rightarrow> int option" where
  "whole_number v =
     (if js_trim v = [] then None
      else case js_Number v of Fin x \<Rightarrow> if of_int \<lfloor>x\<rfloor> = x then Some \<lfloor>x\<rfloor> else None | _ \<Rightarrow> None)"

lemma whole_number_show: "0 \<le> n \<Longrightarrow> whole_number (show_int n) = Some n"
proof -
  assume n: "0 \<le> n"
  have "js_trim (show_nat (nat n)) = show_nat (nat n)"
    by (rule js_trim_id) (auto dest: show_nat_digits digit_not_space)
  moreover have "(of_nat (nat n) :: rat) = of_int n" using n by simp
  ultimately show ?thesis by (simp add: whole_number_def show_int_nonneg n js_Number_show)
qed

section \<open>Quota overrides\<close>

record override_fields =
  ov_type :: string
  ov_value :: string
  ov_reason :: string

datatype override_edit = Override_Type string | Override_Value string | Override_Reason string

definition override_first :: override_fields where
  "override_first = \<lparr>ov_type = hd USAGE_TYPES, ov_value = [], ov_reason = []\<rparr>"

fun edit_override :: "override_edit \<Rightarrow> override_fields \<Rightarrow> override_fields" where
  "edit_override (Override_Type t) f = f\<lparr>ov_type := t\<rparr>"
| "edit_override (Override_Value v) f = f\<lparr>ov_value := v\<rparr>"
| "edit_override (Override_Reason r) f = f\<lparr>ov_reason := r\<rparr>"

fun override_resets :: "override_edit \<Rightarrow> bool" where
  "override_resets (Override_Reason _) = False"
| "override_resets _ = True"

definition override_request :: "override_fields \<Rightarrow> string + string \<times> int \<times> string" where
  "override_request f =
     (case whole_number (ov_value f) of
        Some n \<Rightarrow>
          if n < 0 then Inl ''The override limit must be a non-negative integer.'' else Inr (ov_type f, n, ov_reason f)
      | None \<Rightarrow> Inl ''The override limit must be a non-negative integer.'')"

definition override_call :: "string \<Rightarrow> string \<times> int \<times> string \<Rightarrow> bool \<Rightarrow> ApiCall" where
  "override_call tenant = (\<lambda>(t, n, reason) ack. platform_setQuotaOverrides tenant [(t, JNum (of_int n))] ack (Some reason))"

section \<open>Assignment of a plan\<close>

record assign_fields =
  as_plan :: string
  as_reason :: string

datatype assign_edit = Assign_Plan string | Assign_Reason string

text \<open>The reason stays from one opening of the dialog to the next.\<close>

definition assign_first :: "string option \<Rightarrow> string \<Rightarrow> assign_fields" where
  "assign_first plan_id reason = \<lparr>as_plan = or_else plan_id [], as_reason = reason\<rparr>"

fun edit_assign :: "assign_edit \<Rightarrow> assign_fields \<Rightarrow> assign_fields" where
  "edit_assign (Assign_Plan p) f = f\<lparr>as_plan := p\<rparr>"
| "edit_assign (Assign_Reason r) f = f\<lparr>as_reason := r\<rparr>"

fun assign_resets :: "assign_edit \<Rightarrow> bool" where
  "assign_resets (Assign_Plan _) = True"
| "assign_resets (Assign_Reason _) = False"

definition assign_request :: "assign_fields \<Rightarrow> string + string \<times> string" where
  "assign_request f = (if as_plan f = [] then Inl ''Select an active plan.'' else Inr (as_plan f, as_reason f))"

definition assign_call :: "string \<Rightarrow> string \<times> string \<Rightarrow> bool \<Rightarrow> ApiCall" where
  "assign_call tenant = (\<lambda>(plan, reason) ack. platform_assignTenantPlan tenant plan ack (Some reason))"

section \<open>Editing a plan\<close>

record plan_fields =
  pe_name :: string
  pe_active :: string
  pe_limits :: "(string \<times> string) list"
  pe_reason :: string

datatype plan_edit = Plan_Name string | Plan_Active string | Plan_Limit string string | Plan_Reason string

definition plan_first :: "PlatformPlan \<Rightarrow> string \<Rightarrow> plan_fields" where
  "plan_first p reason =
     \<lparr>pe_name = pp_name p, pe_active = (if pp_is_active p then ''true'' else ''false''),
      pe_limits = map (\<lambda>(k, n). (k, show_int n)) (pp_limits p), pe_reason = reason\<rparr>"

fun edit_plan :: "plan_edit \<Rightarrow> plan_fields \<Rightarrow> plan_fields" where
  "edit_plan (Plan_Name n) f = f\<lparr>pe_name := n\<rparr>"
| "edit_plan (Plan_Active a) f = f\<lparr>pe_active := a\<rparr>"
| "edit_plan (Plan_Limit k v) f = f\<lparr>pe_limits := al_set k v (pe_limits f)\<rparr>"
| "edit_plan (Plan_Reason r) f = f\<lparr>pe_reason := r\<rparr>"

fun plan_resets :: "plan_edit \<Rightarrow> bool" where
  "plan_resets (Plan_Limit _ _) = True"
| "plan_resets _ = False"

definition MAX_LIMIT :: int where
  "MAX_LIMIT = 9000000000000000"

fun parse_limits :: "(string \<times> string) list \<Rightarrow> string + (string \<times> int) list" where
  "parse_limits [] = Inr []"
| "parse_limits ((k, v) # r) =
     (case whole_number v of
        Some n \<Rightarrow>
          if n < 0 \<or> n > MAX_LIMIT then Inl (k @ '' must be an integer from 0 to 9,000,000,000,000,000.'')
          else map_sum id (\<lambda>ps. (k, n) # ps) (parse_limits r)
      | None \<Rightarrow> Inl (k @ '' must be an integer from 0 to 9,000,000,000,000,000.''))"

definition plan_request :: "plan_fields \<Rightarrow> string + string \<times> bool \<times> (string \<times> int) list \<times> string" where
  "plan_request f =
     (case parse_limits (pe_limits f) of
        Inl m \<Rightarrow> Inl m
      | Inr ls \<Rightarrow>
          if js_trim (pe_name f) = [] then Inl ''Enter a plan name.''
          else Inr (js_trim (pe_name f), pe_active f = ''true'', ls, pe_reason f))"

definition plan_call :: "string \<Rightarrow> string \<times> bool \<times> (string \<times> int) list \<times> string \<Rightarrow> bool \<Rightarrow> ApiCall" where
  "plan_call ident =
     (\<lambda>(name, active, ls, reason) ack.
        platform_updatePlan ident
          [(''name'', JStr name), (''is_active'', JBool active), (''limits'', JObj (map (\<lambda>(k, n). (k, JNum (of_int n))) ls))]
          ack (Some reason))"

definition plan_updated :: "PlatformPlan \<Rightarrow> PlatformPlan list option \<Rightarrow> PlatformPlan list option" where
  "plan_updated u previous = map_option (map (\<lambda>p. if pp_id p = pp_id u then u else p)) previous"

definition plan_flash :: "PlatformPlan \<Rightarrow> string" where
  "plan_flash u =
     (case pp_warnings u of
        Some (w # ws) \<Rightarrow>
          pp_code u @ '' plan updated. '' @ show_nat (length (w # ws)) @ '' tenant limit(s) are now below usage.''
      | _ \<Rightarrow> pp_code u @ '' plan updated.'')"

text \<open>The column of limits in the list of plans.\<close>

definition plan_limits_text :: "(int \<Rightarrow> string) \<Rightarrow> PlatformPlan \<Rightarrow> string" where
  "plan_limits_text nf p =
     (case (map_of (pp_limits p) ''stored_products'', map_of (pp_limits p) ''accepted_events'') of
        (None, None) \<Rightarrow> show_nat (length (pp_limits p)) @ '' limits''
      | (sp, ev) \<Rightarrow>
          (case sp of Some n \<Rightarrow> nf n @ '' products'' | None \<Rightarrow> []) @
          (case ev of Some n \<Rightarrow> '' '' @ mid_dot @ '' '' @ nf n @ '' events/period'' | None \<Rightarrow> []))"

section \<open>Plan requests\<close>

definition REQUEST_VIEWS :: "string list" where
  "REQUEST_VIEWS = [''Pending'', ''Approved'', ''Rejected'', ''Cancelled'', ''All'']"

text \<open>The view comes from the URL: the status asked for, and the tab shown.\<close>

definition view_status :: "string \<Rightarrow> string option" where
  "view_status v = (if v = ''All'' then None else Some (to_lower v))"

definition view_tab :: "string \<Rightarrow> string" where
  "view_tab v = (if v \<in> set REQUEST_VIEWS then v else ''Pending'')"

definition canDecide :: "PlatformSession option \<Rightarrow> bool" where
  "canDecide session = hasOperatorRole session [role_plan_management]"

definition request_actions :: "PlatformSession option \<Rightarrow> PlatformPlanRequest \<Rightarrow> Decision list" where
  "request_actions session r = (if pcr_status r = pr_pending \<and> canDecide session then [approve, reject] else [])"

definition plan_since :: "PlatformPlanRequest \<Rightarrow> string option" where
  "plan_since r =
     (if pcr_status r = pr_pending
      then (case ppr_active_plan_code r of
              Some c \<Rightarrow> if c \<noteq> [] \<and> c \<noteq> pcr_current_plan_code r then Some (''Plan has since changed to '' @ c) else None
            | None \<Rightarrow> None)
      else None)"

definition requests_count :: "string \<Rightarrow> PlatformPlanRequestList \<Rightarrow> string" where
  "requests_count v l =
     show_nat (length (ppl_items l)) @ '' '' @ (if v = ''All'' then ''requests'' else to_lower v) @ '' '' @ mid_dot @ '' '' @
     show_int (ppl_pending_count l) @ '' pending''"

text \<open>The decision: its only field is the reason, which keeps Confirm off until it has three characters.\<close>

definition edit_decision :: "string \<Rightarrow> string \<Rightarrow> string" where
  "edit_decision reason f = reason"

definition decision_request :: "string \<Rightarrow> string + string" where
  "decision_request reason = Inr reason"

definition decision_call :: "string \<Rightarrow> Decision \<Rightarrow> string \<Rightarrow> bool \<Rightarrow> ApiCall" where
  "decision_call ident decision reason ack = platform_decidePlanRequest ident decision reason ack"

definition decision_title :: "PlatformPlanRequest \<Rightarrow> Decision \<Rightarrow> string" where
  "decision_title r d =
     (if d = approve then ''Approve'' else ''Reject'') @ '' '' @ pcr_requested_plan_name r @ '' for '' @ ppr_tenant_slug r"

definition decision_facts :: "(string \<Rightarrow> string) \<Rightarrow> PlatformPlanRequest \<Rightarrow> (string \<times> string) list" where
  "decision_facts dt r =
     [(''Current plan'', or_else (ppr_active_plan_code r) (pcr_current_plan_code r)),
      (''Requested plan'', pcr_requested_plan_name r), (''Requested'', dt (pcr_created_at r))] @
     (case pcr_message r of Some m \<Rightarrow> if m \<noteq> [] then [(''Tenant'' @ [CHR 0x27] @ ''s note'', m)] else [] | None \<Rightarrow> [])"

definition decision_flash :: "PlatformPlanRequest \<Rightarrow> Decision \<Rightarrow> PlanRequestDecisionResult \<Rightarrow> string" where
  "decision_flash r d result =
     (if d = approve
      then ppr_tenant_slug r @ '' is now on '' @ pcr_requested_plan_name r @ ''.'' @
        (case prd_warnings result of Some (_ # _) \<Rightarrow> '' It is over a storage limit.'' | _ \<Rightarrow> [])
      else ''Request from '' @ ppr_tenant_slug r @ '' rejected.'')"

section \<open>The four dialogs\<close>

definition override_do :: "(override_edit, PlatformQuotaOverride) limit_event \<Rightarrow>
    (override_fields, string \<times> int \<times> string) limit_dialog \<Rightarrow> (override_fields, string \<times> int \<times> string) limit_dialog" where
  "override_do = limit_do edit_override override_resets (\<lambda>_. False) override_request"

definition assign_do :: "(assign_edit, PlatformQuotaOverride) limit_event \<Rightarrow>
    (assign_fields, string \<times> string) limit_dialog \<Rightarrow> (assign_fields, string \<times> string) limit_dialog" where
  "assign_do = limit_do edit_assign assign_resets (\<lambda>_. False) assign_request"

definition plan_do :: "(plan_edit, PlatformPlan) limit_event \<Rightarrow>
    (plan_fields, string \<times> bool \<times> (string \<times> int) list \<times> string) limit_dialog \<Rightarrow>
    (plan_fields, string \<times> bool \<times> (string \<times> int) list \<times> string) limit_dialog" where
  "plan_do = limit_do edit_plan plan_resets (\<lambda>_. False) plan_request"

definition decision_do :: "(string, PlanRequestDecisionResult) limit_event \<Rightarrow>
    (string, string) limit_dialog \<Rightarrow> (string, string) limit_dialog" where
  "decision_do = limit_do edit_decision (\<lambda>_. False) reason_missing decision_request"

text \<open>The limits a request changes, and those in the fields.\<close>

definition override_limit :: "string \<times> int \<times> string \<Rightarrow> string \<times> int" where
  "override_limit = (\<lambda>(t, n, _). (t, n))"

definition override_limit_in :: "override_fields \<Rightarrow> string \<times> int" where
  "override_limit_in f = (ov_type f, or_else (whole_number (ov_value f)) 0)"

definition plan_limits :: "string \<times> bool \<times> (string \<times> int) list \<times> string \<Rightarrow> (string \<times> int) list" where
  "plan_limits = (\<lambda>(_, _, ls, _). ls)"

definition plan_limits_in :: "plan_fields \<Rightarrow> (string \<times> int) list" where
  "plan_limits_in f = (case parse_limits (pe_limits f) of Inr ls \<Rightarrow> ls | Inl _ \<Rightarrow> [])"

interpretation override_guard:
  acknowledged_limits edit_override override_resets "\<lambda>_. False" override_request override_limit override_limit_in
proof
  show "override_limit_in (edit_override e f) = override_limit_in f" if "\<not> override_resets e" for e f
    using that by (cases e) (simp_all add: override_limit_in_def)
  show "override_limit r = override_limit_in f" if "override_request f = Inr r" for f r
    using that by (auto simp: override_request_def override_limit_def override_limit_in_def split: option.splits if_splits)
qed

interpretation assign_guard: acknowledged_limits edit_assign assign_resets "\<lambda>_. False" assign_request fst as_plan
proof
  show "as_plan (edit_assign e f) = as_plan f" if "\<not> assign_resets e" for e f
    using that by (cases e) simp_all
  show "fst r = as_plan f" if "assign_request f = Inr r" for f r
    using that by (auto simp: assign_request_def split: if_splits)
qed

interpretation plan_guard: acknowledged_limits edit_plan plan_resets "\<lambda>_. False" plan_request plan_limits plan_limits_in
proof
  show "plan_limits_in (edit_plan e f) = plan_limits_in f" if "\<not> plan_resets e" for e f
    using that by (cases e) (simp_all add: plan_limits_in_def)
  show "plan_limits r = plan_limits_in f" if "plan_request f = Inr r" for f r
    using that by (auto simp: plan_request_def plan_limits_def plan_limits_in_def split: sum.splits if_splits)
qed

interpretation decision_guard:
  acknowledged_limits edit_decision "\<lambda>_. False" reason_missing decision_request "\<lambda>_. ()" "\<lambda>_. ()"
  by unfold_locales simp_all

text \<open>C21: limits below what is stored are applied only after a warning about these very limits. In the
  override, assignment, plan and decision dialogs every request that acknowledges the impact follows a
  refusal by the server of the same limits, with nothing but acknowledged requests of these limits since;
  and the conflicts an open dialog shows are those of the last refusal, which was for the limits that are in
  its fields.\<close>

theorem acknowledged_after_refusal:
  "acknowledged_ok override_limit (ld_log (fold override_do evs1 (limit_open override_first))) \<and>
   acknowledged_ok fst (ld_log (fold assign_do evs2 (limit_open (assign_first plan_id reason)))) \<and>
   acknowledged_ok plan_limits (ld_log (fold plan_do evs3 (limit_open (plan_first p reason)))) \<and>
   acknowledged_ok (\<lambda>_. ()) (ld_log (fold decision_do evs4 (limit_open []))) \<and>
   (let d = fold override_do evs1 (limit_open override_first) in
    dg_open (ld_dialog d) \<and> gd_conflicts (ld_guard d) = Some cs \<longrightarrow>
      shown override_limit (override_limit_in (ld_fields d)) cs (ld_log d)) \<and>
   (let d = fold plan_do evs3 (limit_open (plan_first p reason)) in
    dg_open (ld_dialog d) \<and> gd_conflicts (ld_guard d) = Some cs \<longrightarrow>
      shown plan_limits (plan_limits_in (ld_fields d)) cs (ld_log d))"
  using override_guard.dialog_run_shown [of evs1 override_first] assign_guard.dialog_run_shown [of evs2 "assign_first plan_id reason"]
    plan_guard.dialog_run_shown [of evs3 "plan_first p reason"] decision_guard.dialog_run_shown [of evs4 "[]"]
  unfolding override_do_def [symmetric] assign_do_def [symmetric] plan_do_def [symmetric] decision_do_def [symmetric] Let_def
  by blast

definition below_usage :: exn where
  "below_usage =
     ApiError \<lparr>err_message = ''below'', err_status = 409, err_code = ''limit_below_usage'', err_correlationId = None,
       err_retryAfterSeconds = None, err_fields = [],
       err_details = \<lparr>ed_fields = None, ed_other = [(''conflicts'', JArr [JStr ''c''])]\<rparr>\<rparr>"

theorem acknowledged_after_refusal_witness:
  "shown override_limit (''accepted_events'', 5) [JStr ''c''] [Refused [JStr ''c''], Sent (''accepted_events'', 5, []) False] \<and>
   ld_log (fold override_do [Edit (Override_Value ''5''), Confirm, Answer (Inl below_usage), Confirm, Tick True, Confirm]
     (limit_open override_first)) =
     [Sent (''accepted_events'', 5, []) True, Refused [JStr ''c''], Sent (''accepted_events'', 5, []) False]"
proof -
  let ?evs = "[Edit (Override_Value ''5''), Confirm, Answer (Inl below_usage)]"
  have "dg_open (ld_dialog (fold override_do ?evs (limit_open override_first))) \<and>
    gd_conflicts (ld_guard (fold override_do ?evs (limit_open override_first))) = Some [JStr ''c'']"
    "override_limit_in (ld_fields (fold override_do ?evs (limit_open override_first))) = (''accepted_events'', 5)"
    "ld_log (fold override_do ?evs (limit_open override_first)) =
       [Refused [JStr ''c''], Sent (''accepted_events'', 5, []) False]"
    by code_simp+
  then have "shown override_limit (''accepted_events'', 5) [JStr ''c''] [Refused [JStr ''c''], Sent (''accepted_events'', 5, []) False]"
    using acknowledged_after_refusal [of ?evs] unfolding Let_def by metis
  then show ?thesis by (intro conjI) (assumption, code_simp)
qed

lemma parse_limits_taken:
  "parse_limits vs = Inr ls \<Longrightarrow>
     list_all2 (\<lambda>(k, v) (k', n). k = k' \<and> whole_number v = Some n \<and> 0 \<le> n \<and> n \<le> MAX_LIMIT) vs ls"
proof (induction vs arbitrary: ls)
  case (Cons kv vs)
  obtain k v where [simp]: "kv = (k, v)" by fastforce
  from Cons.prems obtain n ps where "whole_number v = Some n" "0 \<le> n" "n \<le> MAX_LIMIT"
      "parse_limits vs = Inr ps" "ls = (k, n) # ps"
    by (cases "parse_limits vs") (auto split: option.splits if_splits)
  with Cons.IH show ?case by simp
qed simp

lemma parse_limits_show:
  "\<forall>(k, n) \<in> set ls. 0 \<le> n \<and> n \<le> MAX_LIMIT \<Longrightarrow> parse_limits (map (\<lambda>(k, n). (k, show_int n)) ls) = Inr ls"
  by (induction ls) (auto simp: whole_number_show)

lemma plan_request_sent:
  assumes "plan_request f = Inr (name, active, ls, reason)"
  shows "parse_limits (pe_limits f) = Inr ls \<and> name = js_trim (pe_name f) \<and> name \<noteq> []"
  using assms by (auto simp: plan_request_def split: sum.splits if_splits)

text \<open>C26: an edited plan. The limits sent are whole numbers from 0 to the maximum, one for every field in
  the order of the fields; a plan opened and confirmed without a change sends the limits, the state and the
  trimmed name it has; and a limit that is no such number is named in the message.\<close>

theorem plan_edit_limits:
  "(plan_request f = Inr (name, active, ls, reason) \<longrightarrow>
      name \<noteq> [] \<and>
      list_all2 (\<lambda>(k, v) (k', n). k = k' \<and> whole_number v = Some n \<and> 0 \<le> n \<and> n \<le> MAX_LIMIT) (pe_limits f) ls) \<and>
   ((\<forall>(k, n) \<in> set (pp_limits p). 0 \<le> n \<and> n \<le> MAX_LIMIT) \<and> js_trim (pp_name p) \<noteq> [] \<longrightarrow>
      plan_request (plan_first p r) = Inr (js_trim (pp_name p), pp_is_active p, pp_limits p, r)) \<and>
   ((\<forall>n. whole_number v = Some n \<longrightarrow> n < 0 \<or> n > MAX_LIMIT) \<longrightarrow>
      parse_limits ((k, v) # rest) = Inl (k @ '' must be an integer from 0 to 9,000,000,000,000,000.''))"
proof (intro conjI impI)
  assume "plan_request f = Inr (name, active, ls, reason)"
  note sent = plan_request_sent [OF this]
  show "name \<noteq> []" using sent by blast
  show "list_all2 (\<lambda>(k, v) (k', n). k = k' \<and> whole_number v = Some n \<and> 0 \<le> n \<and> n \<le> MAX_LIMIT) (pe_limits f) ls"
    using sent parse_limits_taken by blast
next
  assume "(\<forall>(k, n) \<in> set (pp_limits p). 0 \<le> n \<and> n \<le> MAX_LIMIT) \<and> js_trim (pp_name p) \<noteq> []"
  then show "plan_request (plan_first p r) = Inr (js_trim (pp_name p), pp_is_active p, pp_limits p, r)"
    using parse_limits_show [of "pp_limits p"] by (simp add: plan_request_def plan_first_def)
next
  assume "\<forall>n. whole_number v = Some n \<longrightarrow> n < 0 \<or> n > MAX_LIMIT"
  then show "parse_limits ((k, v) # rest) = Inl (k @ '' must be an integer from 0 to 9,000,000,000,000,000.'')"
    by (auto split: option.split)
qed

theorem plan_edit_limits_witness:
  "plan_request (plan_first \<lparr>pp_warnings = None, pp_id = ''1'', pp_code = ''free'', pp_name = '' Free '',
     pp_limits = [(''stored_products'', 100)], pp_is_active = True\<rparr> []) = Inr (''Free'', True, [(''stored_products'', 100)], [])"
proof -
  let ?p = "\<lparr>pp_warnings = None, pp_id = ''1'', pp_code = ''free'', pp_name = '' Free '',
     pp_limits = [(''stored_products'', 100)], pp_is_active = True\<rparr>"
  have trim: "js_trim '' Free '' = ''Free''" by code_simp
  have "(\<forall>(k, n) \<in> set (pp_limits ?p). 0 \<le> n \<and> n \<le> MAX_LIMIT) \<and> js_trim (pp_name ?p) \<noteq> []"
    using trim by (simp add: MAX_LIMIT_def)
  then have "plan_request (plan_first ?p []) = Inr (js_trim (pp_name ?p), pp_is_active ?p, pp_limits ?p, [])"
    using plan_edit_limits [where p = ?p and r = "[]"] by blast
  then show ?thesis using trim by simp
qed

end
