(* ===== verification/ConsoleOperators.thy ===== *)
theory ConsoleOperators
  imports ConsoleTenants JsSort
begin

text \<open>
  Operators and their roles (\<open>web/src/pages/platform/OperatorsPage.tsx\<close>), and the usage of all tenants
  (\<open>web/src/pages/platform/UsagePage.tsx\<close>).
\<close>

section \<open>Operators\<close>

definition ROLES :: "(OperatorRole \<times> string \<times> string) list" where
  "ROLES =
     [(role_platform, ''Platform'', ''Tenant status and account recovery''),
      (role_plan_management, ''Plan management'', ''Plans, plan assignment and quota overrides''),
      (role_monitoring, ''Monitoring'', ''Platform status, failures and tenant usage''),
      (role_audit, ''Audit'', ''The full audit history''),
      (role_operator_admin, ''Operator admin'', ''Create operators and change their roles'')]"

text \<open>A click on the box of a role, which is checked while the role is chosen.\<close>

definition pick_role :: "OperatorRole \<Rightarrow> OperatorRole list \<Rightarrow> OperatorRole list" where
  "pick_role r roles = (if r \<in> set roles then filter (\<lambda>x. x \<noteq> r) roles else roles @ [r])"

record operator_form =
  of_email :: string
  of_name :: string
  of_password :: string
  of_roles :: "OperatorRole list"

definition operator_first :: operator_form where
  "operator_first = \<lparr>of_email = [], of_name = [], of_password = [], of_roles = [role_monitoring]\<rparr>"

definition create_operator :: "operator_form \<Rightarrow> string + ApiCall" where
  "create_operator f =
     (if js_trim (of_email f) = [] \<or> js_trim (of_name f) = [] then Inl ''Enter an email and a name.''
      else if js_length (of_password f) < 12 then Inl ''The password must be at least 12 characters.''
      else if of_roles f = [] then Inl ''Choose at least one role.''
      else Inr (platform_createOperator (JObj
        [(''email'', JStr (js_trim (of_email f))), (''display_name'', JStr (js_trim (of_name f))),
         (''password'', JStr (of_password f)), (''roles'', JArr (map (\<lambda>r. JStr (operator_role_name r)) (of_roles f)))])))"

definition save_roles :: "PlatformOperator \<Rightarrow> OperatorRole list \<Rightarrow> string + ApiCall" where
  "save_roles o1 roles =
     (if roles = [] then Inl ''Choose at least one role.''
      else Inr (platform_updateOperator (op_id o1)
        (JObj [(''roles'', JArr (map (\<lambda>r. JStr (operator_role_name r)) roles))])))"

definition replace_operator :: "PlatformOperator \<Rightarrow> PlatformOperator list option \<Rightarrow> PlatformOperator list option" where
  "replace_operator o1 prev =
     map_option (\<lambda>items.
       if list_ex (\<lambda>x. op_id x = op_id o1) items then map (\<lambda>x. if op_id x = op_id o1 then o1 else x) items
       else items @ [o1]) prev"

definition role_labels :: "PlatformOperator \<Rightarrow> string" where
  "role_labels o1 =
     js_join '', '' (map (\<lambda>r. case map_of ROLES r of Some (l, _) \<Rightarrow> l | None \<Rightarrow> operator_role_name r) (op_roles o1))"

datatype operator_action = Edit_Roles | Set_Operator_Status OperatorStatus

text \<open>The operator's own row has no actions.\<close>

definition operator_actions :: "PlatformSession option \<Rightarrow> PlatformOperator \<Rightarrow> operator_action list" where
  "operator_actions session o1 =
     (if Some (op_email o1) = Option.bind session pn_email then []
      else [Edit_Roles, Set_Operator_Status (if op_status o1 = op_active then op_disabled else op_active)])"

section \<open>Usage of all tenants\<close>

definition SHOWN_TYPES :: "string list" where
  "SHOWN_TYPES =
     [''stored_products'', ''accepted_events'', ''recommendation_requests'', ''training_jobs'', ''active_model_versions'']"

text \<open>\<open>d.limit\<close> as a condition: neither \<open>null\<close> nor zero.\<close>

definition limit_ratio :: "UsageRow \<Rightarrow> rat option" where
  "limit_ratio d =
     (if ur_measured d then (case ur_limit d of Some l \<Rightarrow> if l \<noteq> 0 then Some (of_int (ur_used d) / of_int l) else None | None \<Rightarrow> None)
      else None)"

definition peak :: "PlatformTenantUsage \<Rightarrow> rat" where
  "peak t = foldl max 0 (List.map_filter limit_ratio (ptu_dimensions t))"

datatype cell_tone = Cell_danger | Cell_warn | Cell_neu

text \<open>A cell: its text, and the tone of its tag when it has one.\<close>

definition tenant_usage_cell :: "(int \<Rightarrow> string) \<Rightarrow> PlatformTenantUsage \<Rightarrow> string \<Rightarrow> string \<times> cell_tone option" where
  "tenant_usage_cell nf t ty =
     (if ptu_unavailable t then (''Unavailable'', None)
      else case find (\<lambda>d. ur_type d = ty) (ptu_dimensions t) of
        None \<Rightarrow> (DASH, None)
      | Some d \<Rightarrow>
          if \<not> ur_measured d then (''Not measured'', None)
          else case ur_limit d of
            None \<Rightarrow> (nf (ur_used d) @ '' / no limit'', None)
          | Some l \<Rightarrow>
              (let ratio = (if l \<noteq> 0 then of_int (ur_used d) / of_int l else 0 :: rat) in
               (nf (ur_used d) @ '' / '' @ nf l,
                Some (if ratio \<ge> 1 then Cell_danger else if ratio \<ge> 4 / 5 then Cell_warn else Cell_neu))))"

definition usage_shown :: "string \<Rightarrow> PlatformTenantUsage \<Rightarrow> bool" where
  "usage_shown view0 t =
     (view0 = ''all tenants'' \<or> (if view0 = ''at or near a limit'' then peak t \<ge> 4 / 5 else ptu_unavailable t))"

definition usage_order :: "PlatformTenantUsage \<Rightarrow> PlatformTenantUsage \<Rightarrow> rat" where
  "usage_order a b =
     (let d = of_bool (ptu_unavailable b) - of_bool (ptu_unavailable a) in if d \<noteq> 0 then d else peak b - peak a)"

definition usage_rows :: "string \<Rightarrow> PlatformTenantUsage list \<Rightarrow> PlatformTenantUsage list" where
  "usage_rows view0 items = js_sort usage_order (filter (usage_shown view0) items)"

section \<open>Facts\<close>

lemma pick_role_roles:
  "set (pick_role r roles) = (if r \<in> set roles then set roles - {r} else insert r (set roles)) \<and>
   (distinct roles \<longrightarrow> distinct (pick_role r roles))"
  by (auto simp: pick_role_def)

lemma usage_order_le:
  "usage_order a b \<le> 0 \<longleftrightarrow>
     ptu_unavailable a \<and> \<not> ptu_unavailable b \<or> ptu_unavailable a = ptu_unavailable b \<and> peak b \<le> peak a"
  by (auto simp: usage_order_def Let_def)

lemma peak_ge: "0 < q \<Longrightarrow> q \<le> peak t \<longleftrightarrow> (\<exists>d \<in> set (ptu_dimensions t). \<exists>x. limit_ratio d = Some x \<and> q \<le> x)"
proof -
  have "set (List.map_filter limit_ratio (ptu_dimensions t)) = {x. \<exists>d \<in> set (ptu_dimensions t). limit_ratio d = Some x}"
    by (force simp: List.map_filter_def)
  moreover assume "0 < q"
  ultimately show ?thesis by (auto simp: peak_def foldl_max_le)
qed

lemma limit_ratio_Some:
  "limit_ratio d = Some x \<longleftrightarrow> ur_measured d \<and> (\<exists>l. ur_limit d = Some l \<and> l \<noteq> 0 \<and> x = of_int (ur_used d) / of_int l)"
  by (auto simp: limit_ratio_def split: option.splits if_splits)

lemma near_limit:
  "usage_shown ''at or near a limit'' t \<longleftrightarrow>
     (\<exists>d \<in> set (ptu_dimensions t). ur_measured d \<and>
        (\<exists>l. ur_limit d = Some l \<and> l \<noteq> 0 \<and> 4 / 5 \<le> (of_int (ur_used d) / of_int l :: rat)))"
proof -
  have "usage_shown ''at or near a limit'' t \<longleftrightarrow> 4 / 5 \<le> peak t" by (simp add: usage_shown_def)
  also have "\<dots> \<longleftrightarrow> (\<exists>d \<in> set (ptu_dimensions t). \<exists>x. limit_ratio d = Some x \<and> 4 / 5 \<le> x)"
    by (rule peak_ge) simp
  finally show ?thesis by (auto simp: limit_ratio_Some)
qed

interpretation usage_comparator: total_comparator usage_order
  by unfold_locales (auto simp: usage_order_le)

text \<open>Usage across tenants. Every tenant of the chosen view is listed once, those whose usage could not
  be read first and then by the highest share of a limit; the view of tenants at or near a limit holds those
  with a measured use of four fifths or more of a limit that is not zero. A tenant all of whose limits are
  zero is never among them, although the quota of each is exhausted.\<close>

lemma usage_worst_first:
  "mset (usage_rows view0 items) = mset (filter (usage_shown view0) items) \<and>
   sorted_wrt (\<lambda>a b. ptu_unavailable a \<and> \<not> ptu_unavailable b \<or> ptu_unavailable a = ptu_unavailable b \<and> peak b \<le> peak a)
     (usage_rows view0 items) \<and>
   (usage_shown ''at or near a limit'' t \<longleftrightarrow>
      (\<exists>d \<in> set (ptu_dimensions t). ur_measured d \<and>
         (\<exists>l. ur_limit d = Some l \<and> l \<noteq> 0 \<and> 4 / 5 \<le> (of_int (ur_used d) / of_int l :: rat)))) \<and>
   ((\<forall>d \<in> set (ptu_dimensions t). ur_limit d = Some 0 \<and> 0 \<le> ur_used d) \<longrightarrow>
      \<not> usage_shown ''at or near a limit'' t \<and>
      (\<forall>d \<in> set (ptu_dimensions t). q_status (quotaState (ur_used d) (ur_limit d)) = exhausted))"
proof (intro conjI impI)
  show "mset (usage_rows view0 items) = mset (filter (usage_shown view0) items)"
    by (simp add: usage_rows_def mset_js_sort)
  have "sorted_wrt (\<lambda>a b. usage_order a b \<le> 0) (usage_rows view0 items)"
    unfolding usage_rows_def by (rule usage_comparator.sort_sorted)
  then show "sorted_wrt (\<lambda>a b. ptu_unavailable a \<and> \<not> ptu_unavailable b \<or>
      ptu_unavailable a = ptu_unavailable b \<and> peak b \<le> peak a) (usage_rows view0 items)"
    by (simp add: usage_order_le)
  show "usage_shown ''at or near a limit'' t \<longleftrightarrow>
      (\<exists>d \<in> set (ptu_dimensions t). ur_measured d \<and>
         (\<exists>l. ur_limit d = Some l \<and> l \<noteq> 0 \<and> 4 / 5 \<le> (of_int (ur_used d) / of_int l :: rat)))"
    by (rule near_limit)
  assume z: "\<forall>d \<in> set (ptu_dimensions t). ur_limit d = Some 0 \<and> 0 \<le> ur_used d"
  then show "\<not> usage_shown ''at or near a limit'' t" unfolding near_limit by auto
  show "\<forall>d \<in> set (ptu_dimensions t). q_status (quotaState (ur_used d) (ur_limit d)) = exhausted"
    using z by (auto simp: quotaState_def Let_def)
qed

text \<open>A tenant whose plan allows no training and who has used none.\<close>

definition no_training :: PlatformTenantUsage where
  "no_training =
     \<lparr>ptu_tenant_id = ''t'', ptu_name = ''T'', ptu_status = ''active'', ptu_plan_code = None, ptu_period_start = None,
      ptu_dimensions = [\<lparr>ur_type = ''training_jobs'', ur_used = 0, ur_limit = Some 0, ur_measured = True\<rparr>],
      ptu_unavailable = False\<rparr>"

theorem usage_worst_first_witness:
  "\<not> usage_shown ''at or near a limit'' no_training \<and> ptu_dimensions no_training \<noteq> []"
  using usage_worst_first [where t = no_training] by (simp add: no_training_def)

end
