(* ===== verification/ConsoleAudit.thy ===== *)
theory ConsoleAudit
  imports Session WireOps ApiEndpoints Format JsSort "HOL-Library.Sublist"
begin

text \<open>
  The audit trails: the tenant's (\<open>web/src/pages/tenant/AuditPage.tsx\<close>) and the operators'
  (\<open>PlatformAuditPage\<close> of \<open>web/src/pages/platform/StatusAuditPages.tsx\<close>). Both show the first page of a
  query and the older pages loaded since, which this theory models once for any query \<open>'k\<close> and record \<open>'a\<close>.
\<close>

section \<open>A log in pages\<close>

type_synonym 'a page = "'a list \<times> string option"

record ('k, 'a) audit_log =
  lo_query :: 'k
  lo_first :: "'a page option"
  lo_older :: "'a page option"
  lo_loading :: bool
  lo_pending :: "('k \<times> string) option"

definition log_first :: "'k \<Rightarrow> ('k, 'a) audit_log" where
  "log_first k = \<lparr>lo_query = k, lo_first = None, lo_older = None, lo_loading = False, lo_pending = None\<rparr>"

definition log_items :: "('k, 'a) audit_log \<Rightarrow> 'a list" where
  "log_items s =
     (case lo_first s of Some p \<Rightarrow> fst p | None \<Rightarrow> []) @ (case lo_older s of Some p \<Rightarrow> fst p | None \<Rightarrow> [])"

definition nextBefore :: "('k, 'a) audit_log \<Rightarrow> string option" where
  "nextBefore s = (case lo_older s of Some p \<Rightarrow> snd p | None \<Rightarrow> Option.bind (lo_first s) snd)"

text \<open>Another query: the resource starts over, the effect forgets the older pages.\<close>

definition choose_query :: "'k \<Rightarrow> ('k, 'a) audit_log \<Rightarrow> ('k, 'a) audit_log" where
  "choose_query k s = (if k = lo_query s then s else s\<lparr>lo_query := k, lo_first := None, lo_older := None\<rparr>)"

text \<open>The resource has the answer to its query; a reload gives another one later.\<close>

definition first_loaded :: "'a page \<Rightarrow> ('k, 'a) audit_log \<Rightarrow> ('k, 'a) audit_log" where
  "first_loaded p s = s\<lparr>lo_first := Some p\<rparr>"

text \<open>\<open>loadOlder\<close> up to the request; its button is disabled while it loads. Then its answer.\<close>

definition loadOlder :: "('k, 'a) audit_log \<Rightarrow> ('k, 'a) audit_log" where
  "loadOlder s =
     (if lo_loading s \<or> \<not> truthy (nextBefore s) then s
      else s\<lparr>lo_loading := True, lo_pending := Some (lo_query s, the (nextBefore s))\<rparr>)"

definition older_loaded :: "'a page option \<Rightarrow> ('k, 'a) audit_log \<Rightarrow> ('k, 'a) audit_log" where
  "older_loaded r s =
     (let s1 = s\<lparr>lo_loading := False, lo_pending := None\<rparr> in
      case r of
        Some p \<Rightarrow> s1\<lparr>lo_older := Some ((case lo_older s of Some q \<Rightarrow> fst q | None \<Rightarrow> []) @ fst p, snd p)\<rparr>
      | None \<Rightarrow> s1)"

section \<open>The tenant's audit trail\<close>

definition audit_actor :: "TenantAuditItem \<Rightarrow> string" where
  "audit_actor item =
     (if ta_actor_type item = ''platform_operator'' then ''GraphRec operator''
      else if ta_actor_type item = ''system'' then ''System''
      else humanize (ta_actor_type item) @
        (case ta_actor_reference item of Some r \<Rightarrow> if r \<noteq> [] then '' '' @ shortId r 8 else [] | None \<Rightarrow> []))"

definition all_actions :: string where
  "all_actions = ''all action types''"

definition serverAction :: "string \<Rightarrow> string option" where
  "serverAction action = (if action = all_actions then None else Some action)"

definition audit_query :: "string option \<Rightarrow> string option \<Rightarrow> ApiCall" where
  "audit_query action before =
     tenantAudit_list [(''action'', action), (''before'', before), (''limit'', Some ''100'')]"

definition actionTypes :: "string list \<Rightarrow> string option \<Rightarrow> string list" where
  "actionTypes types action =
     js_sort text_order
       (remdups (types @ (case action of Some a \<Rightarrow> if a \<noteq> [] then [a] else [] | None \<Rightarrow> [])))"

section \<open>The operators' audit trail and failures\<close>

definition hex_char :: "char \<Rightarrow> bool" where
  "hex_char c = (c \<in> set ''0123456789abcdefABCDEF'')"

text \<open>A whole tenant identifier is matched by the server.\<close>

definition is_uuid :: "string \<Rightarrow> bool" where
  "is_uuid s = (map length (js_split CHR ''-'' s) = [8, 4, 4, 4, 12] \<and> list_all (list_all hex_char) (js_split CHR ''-'' s))"

definition exactTenant :: "string \<Rightarrow> string option" where
  "exactTenant tenant = (if is_uuid (js_trim tenant) then Some (js_trim tenant) else None)"

definition auditList :: "string \<Rightarrow> string \<Rightarrow> PlatformAudit list \<Rightarrow> PlatformAudit list" where
  "auditList action tenant items =
     filter (\<lambda>a. (action = all_actions \<or> pa_action_type a = action) \<and>
       (js_trim tenant = [] \<or> starts_with (pa_tenant_id a) (js_trim tenant))) items"

definition platform_audit_query :: "string option \<Rightarrow> string option \<Rightarrow> string option \<Rightarrow> ApiCall" where
  "platform_audit_query tenant action before =
     platform_listAudit [(''tenant_id'', tenant), (''action'', action), (''before'', before), (''limit'', Some ''200'')]"

definition audit_tab :: "string \<Rightarrow> string" where
  "audit_tab param = (if param = ''Audit records'' then ''Audit records'' else ''Failures'')"

definition failureList :: "string \<Rightarrow> PlatformFailure list \<Rightarrow> PlatformFailure list" where
  "failureList severity items = filter (\<lambda>f. severity = ''all severities'' \<or> pf_severity f = severity) items"

definition severities :: "PlatformFailure list \<Rightarrow> string list" where
  "severities items =
     ''all severities'' # js_sort text_order (remdups (map pf_severity items))"

definition audit_count :: "PlatformAudit list \<Rightarrow> PlatformAudit list \<Rightarrow> string option \<Rightarrow> string" where
  "audit_count listed items next0 =
     show_nat (length listed) @ '' of '' @ show_nat (length items) @ '' loaded'' @
     (if truthy next0 then [] else '' (all matching records)'')"

section \<open>Platform status\<close>

text \<open>Failures of the last day, among those listed; \<open>parse\<close> is the time of a date, when it is one.\<close>

definition recentFailures :: "(string \<Rightarrow> int option) \<Rightarrow> int \<Rightarrow> PlatformFailure list option \<Rightarrow> nat option" where
  "recentFailures parse now0 failures =
     map_option (\<lambda>fs. length (filter (\<lambda>f. case parse (pf_occurred_at f) of
        Some t \<Rightarrow> t \<ge> now0 - 86400000 | None \<Rightarrow> False) fs)) failures"

definition activeTenants :: "PlatformTenant list option \<Rightarrow> nat" where
  "activeTenants ts = (case ts of Some l \<Rightarrow> length (filter (\<lambda>t. pt_status t = ''active'') l) | None \<Rightarrow> 0)"

text \<open>A number, or why there is none.\<close>

definition stat_value :: "nat option \<Rightarrow> bool \<Rightarrow> string" where
  "stat_value v loading = (case v of Some n \<Rightarrow> show_nat n | None \<Rightarrow> if loading then ''Loading'' @ ellipsis else ''Unavailable'')"

definition status_rows :: "(string \<Rightarrow> string) \<Rightarrow> PlatformStatus \<Rightarrow> (string \<times> string) list" where
  "status_rows dt s =
     [(''Overall'', ps_status s), (''Reported at'', dt (ps_timestamp s)), (''API cluster'', ps_api_cluster s),
      (''Database'', ps_database s), (''Worker pool'', ps_worker_pool s)] @
     (case ps_rate_limiter s of
        Some r \<Rightarrow> [(''Rate-limit store (Redis)'', rl_status r),
                  (''Admitted without the shared store'', show_int (rl_fail_open_total r))]
      | None \<Rightarrow> []) @
     (case ps_deployments s of
        Some d \<Rightarrow> [(''Ready local capacity'', show_int (dt_ready_capacity d) @ '' of '' @ show_int (dt_desired_capacity d)),
                  (''Degraded tenants'', show_int (dt_degraded_tenants d))]
      | None \<Rightarrow> [])"

definition requests_banner :: "int \<Rightarrow> string option" where
  "requests_banner n =
     (if n = 0 then None
      else Some (show_int n @ '' plan '' @ (if n = 1 then ''request'' else ''requests'') @ '' awaiting approval''))"

section \<open>Pages of a growing log\<close>

text \<open>
  The server's page (\<open>list_tenant_audit\<close> of \<open>apps/api/routes/audit.py\<close>): of the records of a query, newest first, the first
  \<open>n\<close> that are older than the cursor. The cursor of the next page is the time of the last record of this one,
  as \<open>stamp\<close> prints it. The order of records of one time is that of the list.
\<close>

definition server_page ::
    "('a \<Rightarrow> 't :: linorder) \<Rightarrow> ('t \<Rightarrow> string) \<Rightarrow> nat \<Rightarrow> 'a list \<Rightarrow> 't option \<Rightarrow> 'a page" where
  "server_page time stamp n records before =
     (let rows = take (Suc n) (case before of None \<Rightarrow> records | Some t \<Rightarrow> filter (\<lambda>r. time r < t) records);
          items = take n rows
      in (items, if n < length rows then Some (stamp (time (last items))) else None))"

definition newest_first :: "('a \<Rightarrow> 't :: linorder) \<Rightarrow> 'a list \<Rightarrow> bool" where
  "newest_first time = sorted_wrt (\<lambda>a b. time b \<le> time a)"

text \<open>
  The steps of a page. New records arrive on top at any moment; the filter is changed while no older page is on its
  way; the first page is loaded again while no older one is shown or on its way, or without a change in it. The steps left
  out are those of \<open>audit_older_misplaced\<close> below.
\<close>

inductive log_run ::
    "('a \<Rightarrow> 't :: linorder) \<Rightarrow> ('t \<Rightarrow> string) \<Rightarrow> nat \<Rightarrow> ('k \<Rightarrow> 'a list) \<Rightarrow> ('k, 'a) audit_log \<Rightarrow> bool" for time stamp n where
  start: "(\<And>k. newest_first time (R k)) \<Longrightarrow> log_run time stamp n R (log_first k)"
| arrive: "log_run time stamp n R s \<Longrightarrow> (\<And>k. newest_first time (news k @ R k)) \<Longrightarrow>
    log_run time stamp n (\<lambda>k. news k @ R k) s"
| choose: "log_run time stamp n R s \<Longrightarrow> lo_pending s = None \<Longrightarrow> log_run time stamp n R (choose_query k s)"
| loaded: "log_run time stamp n R s \<Longrightarrow> p = server_page time stamp n (R (lo_query s)) None \<Longrightarrow>
    lo_older s = None \<and> lo_pending s = None \<or> lo_first s = Some p \<Longrightarrow> log_run time stamp n R (first_loaded p s)"
| press: "log_run time stamp n R s \<Longrightarrow> log_run time stamp n R (loadOlder s)"
| older: "log_run time stamp n R s \<Longrightarrow> lo_pending s = Some (k, stamp t) \<Longrightarrow>
    log_run time stamp n R (older_loaded (Some (server_page time stamp n (R k) (Some t))) s)"
| failed: "log_run time stamp n R s \<Longrightarrow> log_run time stamp n R (older_loaded None s)"

text \<open>What a list of items \<open>I\<close> with a cursor for more has of the records \<open>S\<close>: a part of them in their order; with no cursor, a
  record of every time; with one, of every time not older than it.\<close>

definition covers :: "('a \<Rightarrow> 't :: linorder) \<Rightarrow> ('t \<Rightarrow> string) \<Rightarrow> 'a list \<Rightarrow> 'a list \<Rightarrow> string option \<Rightarrow> bool" where
  "covers time stamp S I more0 \<longleftrightarrow>
     subseq I S \<and>
     (case more0 of
        None \<Rightarrow> time ` set S \<subseteq> time ` set I
      | Some b \<Rightarrow> \<exists>t. b = stamp t \<and> t \<in> time ` set I \<and> (\<forall>x \<in> set I. t \<le> time x) \<and>
          (\<forall>r \<in> set S. time r < t \<or> time r \<in> time ` set I) \<and> length I < length S)"

lemma older_page: "server_page time stamp n L (Some t) = server_page time stamp n (filter (\<lambda>r. time r < t) L) None"
  by (simp add: server_page_def)

lemma page_covers:
  assumes "newest_first time L" "0 < n"
  shows "covers time stamp L (fst (server_page time stamp n L None)) (snd (server_page time stamp n L None))"
proof (cases "n < length L")
  case False
  then show ?thesis by (simp add: covers_def server_page_def Let_def)
next
  case True
  let ?I = "take n L" and ?t = "time (last (take n L))"
  have I: "?I \<noteq> []" using True assms(2) by auto
  have sorted: "newest_first time (?I @ drop n L)" using assms(1) by simp
  then have later: "\<forall>r \<in> set (drop n L). time r \<le> ?t"
    using I by (auto simp: newest_first_def sorted_wrt_append simp del: append_take_drop_id)
  have "newest_first time (butlast ?I @ [last ?I])" using sorted I by (simp add: newest_first_def sorted_wrt_append del: append_take_drop_id)
  then have "\<forall>x \<in> set (butlast ?I @ [last ?I]). ?t \<le> time x" by (auto simp: newest_first_def sorted_wrt_append)
  then have low: "\<forall>x \<in> set ?I. ?t \<le> time x" unfolding append_butlast_last_id [OF I] .
  have mem: "?t \<in> time ` set ?I" using I by simp
  have "time r < ?t \<or> time r \<in> time ` set ?I" if "r \<in> set L" for r
  proof -
    have "r \<in> set ?I \<or> r \<in> set (drop n L)" using that by (metis Un_iff append_take_drop_id set_append)
    with later mem show ?thesis by (metis image_eqI le_less)
  qed
  moreover have "subseq ?I L" by (metis append_take_drop_id list_emb_append2 subseq_order.refl subseq_append_le_same_iff subseq_rev_drop_many list_emb_prefix)
  ultimately show ?thesis
    using low mem True by (auto simp: covers_def server_page_def Let_def)
qed

lemma halves:
  assumes "newest_first time S"
  shows "S = filter (\<lambda>r. t \<le> time r) S @ filter (\<lambda>r. time r < t) S"
  using assms
proof (induction S)
  case (Cons a S)
  show ?case
  proof (cases "t \<le> time a")
    case True
    with Cons show ?thesis by (simp add: newest_first_def not_less)
  next
    case False
    with Cons.prems have "\<forall>r \<in> set S. time r < t" by (auto simp: newest_first_def)
    with False show ?thesis by (auto simp: filter_empty_conv)
  qed
qed simp

lemma covers_older:
  assumes "newest_first time S" "0 < n" "covers time stamp S I (Some (stamp t))" "inj stamp"
    and L: "L = filter (\<lambda>r. time r < t) S"
  shows "covers time stamp S (I @ fst (server_page time stamp n L None)) (snd (server_page time stamp n L None))"
proof -
  let ?P = "fst (server_page time stamp n L None)" and ?b = "snd (server_page time stamp n L None)"
  let ?H = "filter (\<lambda>r. t \<le> time r) S"
  have I: "subseq I S" "t \<in> time ` set I" "\<forall>x \<in> set I. t \<le> time x" "\<forall>r \<in> set S. time r < t \<or> time r \<in> time ` set I"
    using assms(3,4) by (auto simp: covers_def dest: injD)
  have "newest_first time L" using assms(1) unfolding L newest_first_def by (rule sorted_wrt_filter)
  from page_covers [OF this assms(2)] have P: "covers time stamp L ?P ?b" .
  have S: "S = ?H @ L" unfolding L by (rule halves [OF assms(1)])
  have "subseq (filter (\<lambda>r. t \<le> time r) I) ?H" using I(1) by (rule subseq_filter)
  then have H: "subseq I ?H" using I(3) by (simp add: filter_True)
  have sub: "subseq (I @ ?P) S"
    by (subst S) (rule list_emb_append_mono [OF H], use P in \<open>simp add: covers_def\<close>)
  have less: "\<forall>r \<in> set L. time r < t" by (simp add: L)
  have PL: "set ?P \<subseteq> set L" using P by (auto simp: covers_def dest: list_emb_set)
  have cover: "time r \<in> time ` set I \<or> r \<in> set L" if "r \<in> set S" for r using I(4) that by (auto simp: L)
  show ?thesis
  proof (cases ?b)
    case None
    with P have "time ` set L \<subseteq> time ` set ?P" by (simp add: covers_def)
    with cover sub None show ?thesis by (fastforce simp: covers_def)
  next
    case (Some b)
    with P obtain u where u: "b = stamp u" "u \<in> time ` set ?P" "\<forall>x \<in> set ?P. u \<le> time x"
        "\<forall>r \<in> set L. time r < u \<or> time r \<in> time ` set ?P" "length ?P < length L"
      by (auto simp: covers_def)
    have "u < t" using u(2) PL less by auto
    then have "\<forall>x \<in> set (I @ ?P). u \<le> time x" using I(3) u(3) by fastforce
    moreover have "\<forall>r \<in> set S. time r < u \<or> time r \<in> time ` set (I @ ?P)" using cover u(4) by fastforce
    moreover have "length I + length ?P < length S"
      using list_emb_length [OF H] u(5) by (subst S) simp
    ultimately show ?thesis using Some sub u(1,2) unfolding covers_def by auto
  qed
qed

text \<open>The state of a run: nothing is loaded yet, or the list covers the records of the moment of its first page.\<close>

definition log_blank :: "('k, 'a) audit_log \<Rightarrow> bool" where
  "log_blank s \<longleftrightarrow> lo_first s = None \<and> lo_older s = None \<and> lo_pending s = None"

definition log_shows :: "('a \<Rightarrow> 't :: linorder) \<Rightarrow> ('t \<Rightarrow> string) \<Rightarrow> 'a list \<Rightarrow> ('k, 'a) audit_log \<Rightarrow> bool" where
  "log_shows time stamp records s \<longleftrightarrow>
     lo_first s \<noteq> None \<and> (\<exists>news S. records = news @ S \<and> covers time stamp S (log_items s) (nextBefore s)) \<and>
     (case lo_pending s of None \<Rightarrow> True | Some (k, b) \<Rightarrow> k = lo_query s \<and> nextBefore s = Some b)"

lemma log_fields [simp]:
  "log_items (s\<lparr>lo_loading := b, lo_pending := p\<rparr>) = log_items s"
  "nextBefore (s\<lparr>lo_loading := b, lo_pending := p\<rparr>) = nextBefore s"
  by (cases "lo_older s"; simp add: log_items_def nextBefore_def)+

lemma shows_older:
  assumes s: "log_shows time stamp records s" and p: "lo_pending s = Some (k, stamp t)"
    and sorted: "newest_first time records" and inj: "inj stamp" and n: "0 < n"
  shows "log_shows time stamp records (older_loaded (Some (server_page time stamp n records (Some t))) s)"
proof -
  from s p obtain news S where S: "records = news @ S" "covers time stamp S (log_items s) (Some (stamp t))"
      and first: "lo_first s \<noteq> None"
    by (auto simp: log_shows_def)
  from S(2) obtain u where "stamp t = stamp u" "u \<in> time ` set (log_items s)" and sub: "subseq (log_items s) S"
    by (auto simp: covers_def)
  then have "t \<in> time ` set (log_items s)" using inj by (simp add: inj_eq)
  moreover have "set (log_items s) \<subseteq> set S" using sub by (auto dest: list_emb_set)
  ultimately obtain x where x: "x \<in> set S" "time x = t" by blast
  have "filter (\<lambda>r. time r < t) news = []"
    using sorted x unfolding S by (auto simp: newest_first_def sorted_wrt_append filter_empty_conv not_less)
  then have page: "server_page time stamp n records (Some t) = server_page time stamp n (filter (\<lambda>r. time r < t) S) None"
    unfolding older_page by (simp add: S)
  have "newest_first time S" using sorted by (simp add: S newest_first_def sorted_wrt_append)
  note c = covers_older [OF this n S(2) inj refl, folded page]
  have "log_items (older_loaded (Some pg) s) = log_items s @ fst pg" "nextBefore (older_loaded (Some pg) s) = snd pg"
    "lo_first (older_loaded (Some pg) s) = lo_first s" "lo_pending (older_loaded (Some pg) s) = None" for pg
    by (simp_all add: older_loaded_def log_items_def nextBefore_def Let_def split: option.split)
  with c first S(1) show ?thesis by (auto simp: log_shows_def)
qed

lemma log_run_shows:
  assumes "log_run time stamp n R s" and inj: "inj stamp" and n: "0 < n"
  shows "(\<forall>k. newest_first time (R k)) \<and> (log_blank s \<or> log_shows time stamp (R (lo_query s)) s)"
  using assms(1)
proof induction
  case (start R k)
  then show ?case by (simp add: log_blank_def log_first_def)
next
  case (arrive R s news)
  have "log_shows time stamp (news (lo_query s) @ R (lo_query s)) s" if "log_shows time stamp (R (lo_query s)) s"
    using that unfolding log_shows_def by (metis append.assoc)
  with arrive show ?case by blast
next
  case (choose R s k)
  then show ?case by (auto simp: choose_query_def log_blank_def)
next
  case (loaded R s p)
  show ?case
  proof (cases "lo_first s = Some p")
    case True
    then have "first_loaded p s = s" by (simp add: first_loaded_def)
    with loaded show ?thesis by simp
  next
    case False
    with loaded.hyps have o: "lo_older s = None" "lo_pending s = None" by auto
    have "covers time stamp (R (lo_query s)) (fst p) (snd p)"
      using page_covers [OF _ n] loaded.IH loaded.hyps(2) by blast
    then have "log_shows time stamp (R (lo_query s)) (first_loaded p s)"
      using o unfolding log_shows_def
      by (auto simp: first_loaded_def log_items_def nextBefore_def intro: exI [of _ "[]"])
    moreover have "lo_query (first_loaded p s) = lo_query s" by (simp add: first_loaded_def)
    ultimately show ?thesis using loaded.IH by simp
  qed
next
  case (press R s)
  have "log_blank s \<Longrightarrow> log_blank (loadOlder s)" by (simp add: log_blank_def loadOlder_def nextBefore_def)
  moreover have "log_shows time stamp (R (lo_query s)) s \<Longrightarrow> log_shows time stamp (R (lo_query s)) (loadOlder s)"
    by (cases "nextBefore s") (simp_all add: loadOlder_def log_shows_def)
  moreover have "lo_query (loadOlder s) = lo_query s" by (simp add: loadOlder_def)
  ultimately show ?case using press by auto
next
  case (older R s k t)
  then have s: "log_shows time stamp (R (lo_query s)) s" by (auto simp: log_blank_def)
  then have k: "k = lo_query s" using older.hyps(2) by (simp add: log_shows_def)
  have "lo_query (older_loaded r s) = lo_query s" for r by (simp add: older_loaded_def Let_def split: option.split)
  with shows_older [OF s older.hyps(2) _ inj n] older.IH k show ?case by simp
next
  case (failed R s)
  have "log_blank s \<Longrightarrow> log_blank (older_loaded None s)" by (simp add: log_blank_def older_loaded_def)
  moreover have "log_shows time stamp (R (lo_query s)) s \<Longrightarrow> log_shows time stamp (R (lo_query s)) (older_loaded None s)"
    by (simp add: log_shows_def older_loaded_def)
  moreover have "lo_query (older_loaded None s) = lo_query s" by (simp add: older_loaded_def)
  ultimately show ?case using failed by auto
qed

lemma subseq_same_set:
  assumes "subseq xs ys" "distinct ys" "set ys \<subseteq> set xs"
  shows "xs = ys"
proof -
  have "set xs \<subseteq> set ys" using assms(1) by (auto dest: list_emb_set)
  then have "set xs = set ys" using assms(3) by blast
  moreover have "distinct xs" using assms(1,2) by (auto simp: subseq_conv_nths distinct_nthsI)
  ultimately have "length xs = length ys"
    using distinct_card [of xs] distinct_card [OF assms(2)] by simp
  with assms(1) show ?thesis by (simp add: subseq_same_length)
qed

lemma covers_distinct:
  assumes c: "covers time stamp S I more0" and sorted: "newest_first time S" and d: "distinct (map time S)"
  shows "\<exists>m. I = take m S \<and> (more0 = None) = (I = S)"
proof -
  have inj: "inj_on time (set S)" and dS: "distinct S" using d by (simp_all add: distinct_map)
  have IS: "subseq I S" "set I \<subseteq> set S" using c by (auto simp: covers_def dest: list_emb_set)
  show ?thesis
  proof (cases more0)
    case None
    with c have "time ` set S \<subseteq> time ` set I" by (simp add: covers_def)
    then have "set S \<subseteq> set I" using IS(2) by (auto dest: inj_onD [OF inj])
    then have "I = S" by (rule subseq_same_set [OF IS(1) dS])
    with None show ?thesis by (intro exI [of _ "length S"]) simp
  next
    case (Some b)
    with c obtain t where t: "\<forall>x \<in> set I. t \<le> time x" "\<forall>r \<in> set S. time r < t \<or> time r \<in> time ` set I" "length I < length S"
      by (auto simp: covers_def)
    let ?H = "filter (\<lambda>r. t \<le> time r) S"
    have "subseq (filter (\<lambda>r. t \<le> time r) I) ?H" using IS(1) by (rule subseq_filter)
    then have "subseq I ?H" using t(1) by (simp add: filter_True)
    moreover have "set ?H \<subseteq> set I"
    proof
      fix r assume "r \<in> set ?H"
      then have r: "r \<in> set S" "time r \<in> time ` set I" using t(2) by auto
      then show "r \<in> set I" using inj IS(2) by (meson inj_on_image_mem_iff)
    qed
    ultimately have H: "I = ?H" using subseq_same_set dS by fastforce
    have "S = I @ filter (\<lambda>r. time r < t) S" unfolding H by (rule halves [OF sorted])
    then have "I = take (length I) S" by (metis append_eq_conv_conj)
    moreover have "I \<noteq> S" using t(3) by auto
    ultimately show ?thesis using Some by blast
  qed
qed


text \<open>Five records in pages of two; a sixth has come, then the older page.\<close>

definition five_records :: "string \<Rightarrow> nat list" where
  "five_records _ = [9, 8, 7, 6, 5]"

definition two_pages :: "(string, nat) audit_log" where
  "two_pages =
     older_loaded (Some (server_page id show_nat 2 [10, 9, 8, 7, 6, 5] (Some 8)))
       (loadOlder (first_loaded (server_page id show_nat 2 (five_records ''all'') None) (log_first ''all'')))"

lemma two_pages_run: "log_run id show_nat 2 (\<lambda>k. [10] @ five_records k) two_pages"
proof -
  let ?s = "loadOlder (first_loaded (server_page id show_nat 2 (five_records ''all'') None) (log_first ''all''))"
  have sorted: "newest_first id (five_records k)" "newest_first id ([10] @ five_records k)" for k
    by (simp_all add: newest_first_def five_records_def)
  note start = log_run.start [of id five_records show_nat 2 "''all''", OF sorted(1)]
  have first: "lo_query (log_first ''all'' :: (string, nat) audit_log) = ''all''"
    "lo_older (log_first ''all'' :: (string, nat) audit_log) = None \<and> lo_pending (log_first ''all'' :: (string, nat) audit_log) = None"
    by (simp_all add: log_first_def)
  have "log_run id show_nat 2 five_records ?s"
    by (rule log_run.press, rule log_run.loaded [OF start]) (simp_all add: first)
  from log_run.arrive [OF this, of "\<lambda>_. [10]"] sorted(2) have run: "log_run id show_nat 2 (\<lambda>k. [10] @ five_records k) ?s" by simp
  have "lo_pending ?s = Some (''all'', show_nat 8)" by code_simp
  from log_run.older [OF run this] show ?thesis by (simp add: two_pages_def five_records_def)
qed


text \<open>Three changes of one moment, in pages of two: the third is never shown, and nothing is left to load.\<close>

lemma same_time_lost:
  "let s = older_loaded (Some (server_page fst show_nat 2 [(7, ''a''), (7, ''b''), (7, ''c'')] (Some 7)))
       (loadOlder (first_loaded (server_page fst show_nat 2 [(7, ''a''), (7, ''b''), (7, ''c'')] None) (log_first ''all'')))
   in log_items s = [(7 :: nat, ''a''), (7, ''b'')] \<and> nextBefore s = None"
  by code_simp

text \<open>Older records of another filter, and a gap. When the filter is changed while older records
  load, they are added to the list of the new filter, whose next page is then asked for with their
  cursor. When new records have come and the first page is loaded again, as many records as are new are
  missing between the first page and the older ones.\<close>

lemma audit_older_misplaced:
  "(lo_first s = Some p \<and> lo_older s = None \<and> snd p = Some b \<and> b \<noteq> [] \<and> \<not> lo_loading s \<and> k \<noteq> lo_query s \<longrightarrow>
      (let s' = older_loaded (Some old) (first_loaded new (choose_query k (loadOlder s))) in
       lo_query s' = k \<and> log_items s' = fst new @ fst old \<and> nextBefore s' = snd old)) \<and>
   (distinct (news @ records) \<and> length news \<le> n \<and> n < length records \<and> b \<noteq> [] \<longrightarrow>
      (let s0 = first_loaded (take n records, Some b) (log_first k);
           s1 = first_loaded (take n (news @ records), Some b) (older_loaded (Some (take n (drop n records), x)) (loadOlder s0)) in
       \<forall>i. n - length news \<le> i \<and> i < n \<longrightarrow> records ! i \<notin> set (log_items s1)))"
proof (intro conjI impI)
  assume "lo_first s = Some p \<and> lo_older s = None \<and> snd p = Some b \<and> b \<noteq> [] \<and> \<not> lo_loading s \<and> k \<noteq> lo_query s"
  then show "let s' = older_loaded (Some old) (first_loaded new (choose_query k (loadOlder s))) in
       lo_query s' = k \<and> log_items s' = fst new @ fst old \<and> nextBefore s' = snd old"
    by (simp add: loadOlder_def nextBefore_def choose_query_def first_loaded_def older_loaded_def log_items_def Let_def)
next
  assume h: "distinct (news @ records) \<and> length news \<le> n \<and> n < length records \<and> b \<noteq> []"
  let ?s0 = "first_loaded (take n records, Some b) (log_first k)"
  let ?s1 = "first_loaded (take n (news @ records), Some b) (older_loaded (Some (take n (drop n records), x)) (loadOlder ?s0))"
  have items: "log_items ?s1 = news @ take (n - length news) records @ take n (drop n records)"
    using h by (simp add: loadOlder_def nextBefore_def first_loaded_def older_loaded_def log_items_def log_first_def Let_def)
  have "records ! i \<notin> set (log_items ?s1)" if i: "n - length news \<le> i" "i < n" for i
  proof -
    have at: "records ! i \<in> set records" using i h by simp
    have "records ! i \<notin> set news" using h at by auto
    moreover have "records ! i \<notin> set (take (n - length news) records)"
      using h i by (auto simp: in_set_conv_nth nth_eq_iff_index_eq)
    moreover have "records ! i \<notin> set (take n (drop n records))"
      using h i by (auto simp: in_set_conv_nth nth_eq_iff_index_eq)
    ultimately show ?thesis unfolding items by simp
  qed
  then show "let s0 = first_loaded (take n records, Some b) (log_first k);
           s1 = first_loaded (take n (news @ records), Some b) (older_loaded (Some (take n (drop n records), x)) (loadOlder s0)) in
       \<forall>i. n - length news \<le> i \<and> i < n \<longrightarrow> records ! i \<notin> set (log_items s1)"
    unfolding Let_def by blast
qed

theorem audit_older_misplaced_witness:
  "let s = first_loaded ([1 :: nat, 2], Some ''c'') (log_first ''created'');
       s' = older_loaded (Some ([3, 4], None)) (first_loaded ([7], Some ''d'') (choose_query ''deleted'' (loadOlder s))) in
   log_items s' = [7, 3, 4] \<and> nextBefore s' = None"
proof -
  let ?s = "first_loaded ([1 :: nat, 2], Some ''c'') (log_first ''created'')"
  have "lo_first ?s = Some ([1, 2], Some ''c'') \<and> lo_older ?s = None \<and> snd ([1 :: nat, 2], Some ''c'') = Some ''c'' \<and>
      ''c'' \<noteq> [] \<and> \<not> lo_loading ?s \<and> ''deleted'' \<noteq> lo_query ?s"
    by (simp add: first_loaded_def log_first_def)
  from conjunct1 [OF audit_older_misplaced, rule_format, OF this]
  show ?thesis by (simp add: Let_def)
qed

end
