(* ===== verification/ConsoleHome.thy ===== *)
theory ConsoleHome
  imports ConsoleModels Quota
begin

text \<open>
  The overview of a workspace (\<open>web/src/pages/tenant/HomePage.tsx\<close>) and the playground
  (\<open>PlaygroundPage.tsx\<close>): the facts the overview draws from its ten resources, the issues and their order,
  the health rows, the pipeline, the checklist of a new workspace, and the test request both pages send.
  \<open>parse\<close> is \<open>Date.parse\<close>, \<open>loc\<close> prints a count, \<open>date\<close> a date; a resource that may not be read, that
  has not loaded or whose failure is caught has no data.
\<close>

section \<open>What the overview knows\<close>

fun usage_type_text :: "UsageType \<Rightarrow> string" where
  "usage_type_text accepted_events = ''accepted_events''"
| "usage_type_text recommendation_requests = ''recommendation_requests''"
| "usage_type_text training_jobs = ''training_jobs''"
| "usage_type_text training_cpu_seconds = ''training_cpu_seconds''"
| "usage_type_text stored_products = ''stored_products''"
| "usage_type_text artifact_storage_bytes = ''artifact_storage_bytes''"
| "usage_type_text active_model_versions = ''active_model_versions''"
| "usage_type_text inference_replicas = ''inference_replicas''"
| "usage_type_text replica_runtime_minutes = ''replica_runtime_minutes''"

record home_data =
  hm_can :: "string \<Rightarrow> bool"
  hm_total :: "int option"
  hm_jobs :: "TrainingJobResource list option"
  hm_versions :: "ModelVersionResource list option"
  hm_deployment :: "DeploymentStatus option"
  hm_metrics :: "MetricsSummary option"
  hm_usage :: "UsageDimension list option"
  hm_snapshots :: "DatasetSnapshotResource list option"
  hm_batches :: "EventBatchResponse list option"
  hm_keys :: "ApiKeyResource list option"
  hm_latestEvents :: "EventRecord list option"

definition newest :: "(string \<Rightarrow> int option) \<Rightarrow> ('a \<Rightarrow> string) \<Rightarrow> 'a list option \<Rightarrow> 'a list" where
  "newest parse created xs = js_sort (\<lambda>a b. by_created parse created b a) (or_else xs [])"

fun first_of :: "'a list \<Rightarrow> 'a option" where
  "first_of [] = None"
| "first_of (x # _) = Some x"

definition home_active :: "home_data \<Rightarrow> ModelVersionResource option" where
  "home_active h = active_model (or_else (hm_versions h) [])"

definition activeN :: "(string \<Rightarrow> int option) \<Rightarrow> home_data \<Rightarrow> int" where
  "activeN parse h =
     (case home_active h of None \<Rightarrow> 0 | Some a \<Rightarrow> ordinal parse mv_created_at mv_id (mv_id a) (or_else (hm_versions h) []))"

definition latestJob :: "(string \<Rightarrow> int option) \<Rightarrow> home_data \<Rightarrow> TrainingJobResource option" where
  "latestJob parse h = first_of (newest parse tj_created_at (hm_jobs h))"

definition recentJobs :: "(string \<Rightarrow> int option) \<Rightarrow> home_data \<Rightarrow> TrainingJobResource list" where
  "recentJobs parse h = take 3 (newest parse tj_created_at (hm_jobs h))"

definition latestSnapshot :: "(string \<Rightarrow> int option) \<Rightarrow> home_data \<Rightarrow> DatasetSnapshotResource option" where
  "latestSnapshot parse h = first_of (newest parse ds_created_at (hm_snapshots h))"

definition latestBatch :: "(string \<Rightarrow> int option) \<Rightarrow> home_data \<Rightarrow> EventBatchResponse option" where
  "latestBatch parse h = first_of (newest parse ebr_created_at (hm_batches h))"

definition latestEvent :: "home_data \<Rightarrow> EventRecord option" where
  "latestEvent h = first_of (or_else (hm_latestEvents h) [])"

definition home_dims :: "home_data \<Rightarrow> UsageDimension list" where
  "home_dims h = or_else (hm_usage h) []"

definition accepted_dim :: "home_data \<Rightarrow> UsageDimension option" where
  "accepted_dim h = find (\<lambda>d. ud_type d = accepted_events) (home_dims h)"

definition stored_dim :: "home_data \<Rightarrow> UsageDimension option" where
  "stored_dim h = find (\<lambda>d. ud_type d = stored_products) (home_dims h)"

definition quota_share :: "UsageDimension \<Rightarrow> rat" where
  "quota_share d = (case ud_limit d of Some l \<Rightarrow> of_int (ud_used d) / of_int (if l = 0 then 1 else l) | None \<Rightarrow> of_int (ud_used d))"

definition topQuota :: "home_data \<Rightarrow> UsageDimension option" where
  "topQuota h =
     first_of (js_sort (\<lambda>a b. quota_share b - quota_share a)
       (filter (\<lambda>d. case ud_limit d of None \<Rightarrow> False | Some l \<Rightarrow> l > 0) (home_dims h)))"

definition servingUp :: "home_data \<Rightarrow> bool" where
  "servingUp h =
     (case hm_deployment h of None \<Rightarrow> False
      | Some d \<Rightarrow> dep_status d = ''available'' \<and> truthy (dep_active_model_version_id d))"

definition requests :: "home_data \<Rightarrow> int" where
  "requests h = (case hm_metrics h of None \<Rightarrow> 0 | Some m \<Rightarrow> ms_request_count m)"

definition noEvents :: "home_data \<Rightarrow> bool" where
  "noEvents h = (case accepted_dim h of None \<Rightarrow> False | Some a \<Rightarrow> ud_used a = 0)"

definition overBy :: "home_data \<Rightarrow> int" where
  "overBy h =
     (case stored_dim h of None \<Rightarrow> 0
      | Some d \<Rightarrow> (case ud_limit d of None \<Rightarrow> 0 | Some l \<Rightarrow> if ud_used d > l then ud_used d - l else 0))"

definition isNew :: "home_data \<Rightarrow> bool" where
  "isNew h = (hm_total h = Some 0 \<and> hm_versions h = Some [])"

definition hasKeys :: "home_data \<Rightarrow> bool" where
  "hasKeys h = list_ex (\<lambda>k. ak_status k = key_active) (or_else (hm_keys h) [])"

section \<open>Issues\<close>

datatype issue_severity = Blocking | Warning

record issue =
  iss_id :: string
  iss_severity :: issue_severity
  iss_title :: string
  iss_body :: string
  iss_fix :: "(string \<times> string) option"

definition new_issue :: "string \<Rightarrow> issue_severity \<Rightarrow> string \<Rightarrow> string \<Rightarrow> (string \<times> string) option \<Rightarrow> issue" where
  "new_issue i sev t b f = \<lparr>iss_id = i, iss_severity = sev, iss_title = t, iss_body = b, iss_fix = f\<rparr>"

definition serving_issue :: "home_data \<Rightarrow> issue list" where
  "serving_issue h =
     (case hm_deployment h of
        None \<Rightarrow> []
      | Some d \<Rightarrow>
          if servingUp h then []
          else [new_issue ''serving'' Blocking ''Recommendations are not being served''
                 (or_else (dep_failure_reason d) ''No model version is active. Activate one to start answering requests.'')
                 (if hm_can h ''models:read'' then Some (''Activate a model'', ''/models'') else None)])"

definition catalog_issue :: "(int \<Rightarrow> string) \<Rightarrow> home_data \<Rightarrow> issue list" where
  "catalog_issue loc h =
     (case stored_dim h of
        Some d \<Rightarrow>
          if overBy h > 0
          then [new_issue ''catalog'' Blocking ''New product additions are blocked''
                 (''Your catalog exceeds the plan limit by '' @ loc (overBy h) @ '' products ('' @ loc (ud_used d) @ '' of ''
                  @ loc (or_else (ud_limit d) 0) @ ''). Existing products and recommendations keep working.'')
                 (if hm_can h ''catalog:read'' then Some (''Manage catalog'', ''/products'') else None)]
          else []
      | None \<Rightarrow> [])"

definition quota_issue :: "(int \<Rightarrow> string) \<Rightarrow> UsageDimension \<Rightarrow> issue option" where
  "quota_issue loc d =
     (if ud_type d = stored_products then None
      else let q = quotaState (ud_used d) (ud_limit d) in
        if q_status q \<noteq> exhausted \<and> q_status q \<noteq> approaching then None
        else let (t, b) = quotaMessage loc (usage_type_text (ud_type d)) (ud_used d) (ud_limit d) in
          Some (new_issue (usage_type_text (ud_type d)) (if q_status q = exhausted then Blocking else Warning) t b
            (Some (''Review limits'', ''/usage''))))"

definition events_issue :: "(string \<Rightarrow> int option) \<Rightarrow> int \<Rightarrow> home_data \<Rightarrow> issue list" where
  "events_issue parse now0 h =
     (if noEvents h
      then [new_issue ''events'' Warning ''No interaction events this billing period''
             (''The serving model was trained ''
              @ daysAgoLabel parse (case home_active h of None \<Rightarrow> Absent | Some a \<Rightarrow> Text (mv_created_at a)) now0
              @ '' and has received no new behaviour data, so recommendations don'' @ [CHR 0x27] @ ''t reflect recent activity.'')
             (Some (if hm_can h ''events:write'' then (''Send events'', ''/events/submit'')
                    else (''Integration guide'', ''/integration'')))]
      else [])"

definition error_rate_issue :: "home_data \<Rightarrow> issue list" where
  "error_rate_issue h =
     (case Option.bind (hm_metrics h) ms_error_rate of
        Some r \<Rightarrow>
          if r > 1 / 20
          then [new_issue ''errors'' Warning (''Error rate is '' @ to_fixed 1 (r * 100) @ ''%'')
                 ''More than 5% of recommendation requests failed in the last 24 hours.''
                 (Some (''Investigate'', ''/service-status''))]
          else []
      | None \<Rightarrow> [])"

definition found_issues :: "(string \<Rightarrow> int option) \<Rightarrow> (int \<Rightarrow> string) \<Rightarrow> int \<Rightarrow> home_data \<Rightarrow> issue list" where
  "found_issues parse loc now0 h =
     serving_issue h @ catalog_issue loc h @ List.map_filter (quota_issue loc) (home_dims h)
     @ events_issue parse now0 h @ error_rate_issue h"

definition issue_key :: "issue \<Rightarrow> int" where
  "issue_key i = (if iss_severity i = Blocking then 0 else 1)"

definition home_issues :: "(string \<Rightarrow> int option) \<Rightarrow> (int \<Rightarrow> string) \<Rightarrow> int \<Rightarrow> home_data \<Rightarrow> issue list" where
  "home_issues parse loc now0 h =
     js_sort (\<lambda>a b. of_int (issue_key a - issue_key b)) (found_issues parse loc now0 h)"

definition blocking_count :: "issue list \<Rightarrow> nat" where
  "blocking_count is0 = length (filter (\<lambda>i. iss_severity i = Blocking) is0)"

definition warning_count :: "issue list \<Rightarrow> nat" where
  "warning_count is0 = length is0 - blocking_count is0"

definition issueSummary :: "issue list \<Rightarrow> string" where
  "issueSummary is0 =
     (let b = blocking_count is0; w = warning_count is0 in
      js_join ('' '' @ mid_dot @ '' '')
        ((if b \<noteq> 0 then [show_nat b @ '' blocking '' @ (if b = 1 then ''issue'' else ''issues'')] else [])
         @ (if w \<noteq> 0 then [show_nat w @ '' '' @ (if w = 1 then ''warning'' else ''warnings'')] else [])))"

text \<open>The pill of the health summary: its tone and its text.\<close>

definition health_pill :: "issue list \<Rightarrow> string \<times> string" where
  "health_pill is0 =
     (if blocking_count is0 \<noteq> 0 then ''danger'' else if warning_count is0 \<noteq> 0 then ''warning'' else ''success'',
      if is0 \<noteq> [] then issueSummary is0 else ''All systems healthy'')"

section \<open>Health rows\<close>

datatype home_health = Health_ok | Health_warn | Health_danger | Health_info | Health_neu

fun HEALTH_WORD :: "home_health \<Rightarrow> string" where
  "HEALTH_WORD Health_ok = ''Healthy''"
| "HEALTH_WORD Health_warn = ''Needs attention''"
| "HEALTH_WORD Health_danger = ''Blocked''"
| "HEALTH_WORD Health_info = ''Ready''"
| "HEALTH_WORD Health_neu = ''Not set up''"

definition servingHealth :: "home_data \<Rightarrow> home_health" where
  "servingHealth h =
     (if hm_deployment h = None then Health_neu else if \<not> servingUp h then Health_danger
      else if requests h = 0 then Health_info else Health_ok)"

definition modelHealth :: "home_data \<Rightarrow> home_health" where
  "modelHealth h =
     (if hm_versions h = None then Health_neu else if home_active h = None then Health_danger else Health_ok)"

definition eventHealth :: "home_data \<Rightarrow> home_health" where
  "eventHealth h = (if accepted_dim h = None then Health_neu else if noEvents h then Health_warn else Health_ok)"

definition catalogHealth :: "home_data \<Rightarrow> home_health" where
  "catalogHealth h =
     (if hm_total h = None then Health_neu else if hm_total h = Some 0 then Health_danger
      else if overBy h > 0 then Health_danger else Health_ok)"

text \<open>A row: its label, state, word and detail; \<open>ago\<close> prints a time relative to now.\<close>

type_synonym health_row = "string \<times> home_health \<times> string \<times> string"

definition serving_row :: "(int \<Rightarrow> string) \<Rightarrow> home_data \<Rightarrow> health_row" where
  "serving_row loc h =
     (let s = servingHealth h in
      (''Serving'', s, if s = Health_info then ''Ready '' @ mid_dot @ '' no traffic'' else HEALTH_WORD s,
       if hm_deployment h = None then em_dash
       else if servingUp h
       then (if requests h \<noteq> 0 then loc (requests h) @ '' requests in 24 h'' else ''No requests in 24 h'')
       else ''No model active''))"

definition model_row :: "(string \<Rightarrow> int option) \<Rightarrow> (string \<Rightarrow> string) \<Rightarrow> home_data \<Rightarrow> health_row" where
  "model_row parse ago h =
     (let s = modelHealth h in
      (''Model'', s, if home_active h \<noteq> None then ''Active'' else HEALTH_WORD s,
       case home_active h of
         Some a \<Rightarrow> modelTypeLabel (Some (mv_model_type a)) @ '' v'' @ show_int (activeN parse h) @ '' '' @ mid_dot @ '' trained ''
                   @ ago (mv_created_at a)
       | None \<Rightarrow> ''No version active''))"

definition event_row ::
    "(string \<Rightarrow> int option) \<Rightarrow> (string \<Rightarrow> string) \<Rightarrow> (int \<Rightarrow> string) \<Rightarrow> home_data \<Rightarrow> health_row" where
  "event_row parse ago loc h =
     (let s = eventHealth h in
      (''Event pipeline'', s, if noEvents h then ''No events'' else HEALTH_WORD s,
       case accepted_dim h of
         None \<Rightarrow> em_dash
       | Some a \<Rightarrow>
           if noEvents h
           then ''None this period''
                @ (case latestBatch parse h of None \<Rightarrow> [] | Some b \<Rightarrow> '' '' @ mid_dot @ '' last batch '' @ ago (ebr_created_at b))
           else loc (ud_used a) @ '' accepted this period''))"

definition catalog_row :: "(int \<Rightarrow> string) \<Rightarrow> home_data \<Rightarrow> health_row" where
  "catalog_row loc h =
     (let s = catalogHealth h in
      (''Catalog'', s, if overBy h > 0 then ''Over quota'' else HEALTH_WORD s,
       case hm_total h of
         None \<Rightarrow> em_dash
       | Some n \<Rightarrow>
           (case Option.bind (stored_dim h) ud_limit of
              Some l \<Rightarrow> loc n @ '' of '' @ loc l @ '' products'' | None \<Rightarrow> loc n @ '' products'')))"

definition health_rows ::
    "(string \<Rightarrow> int option) \<Rightarrow> (string \<Rightarrow> string) \<Rightarrow> (int \<Rightarrow> string) \<Rightarrow> home_data \<Rightarrow> health_row list" where
  "health_rows parse ago loc h =
     (if hm_can h ''deployments:read'' then [serving_row loc h] else [])
     @ (if hm_can h ''models:read'' then [model_row parse ago h] else [])
     @ (if hm_can h ''usage:read'' then [event_row parse ago loc h] else [])
     @ (if hm_can h ''catalog:read'' then [catalog_row loc h] else [])"

section \<open>The pipeline\<close>

datatype step_state = Step_done | Step_warn | Step_todo | Step_locked

record pipeline_step =
  ps_scope :: bool
  ps_label :: string
  ps_state :: step_state
  ps_detail :: string
  ps_to :: string

definition make_step :: "bool \<Rightarrow> string \<Rightarrow> step_state \<Rightarrow> string \<Rightarrow> string \<Rightarrow> pipeline_step" where
  "make_step sc l st d to =
     \<lparr>ps_scope = sc, ps_label = l, ps_state = st, ps_detail = d, ps_to = to\<rparr>"

definition products_known :: "home_data \<Rightarrow> bool" where
  "products_known h = (case hm_total h of None \<Rightarrow> False | Some n \<Rightarrow> n \<noteq> 0)"

definition accepted_used :: "home_data \<Rightarrow> bool" where
  "accepted_used h = (case accepted_dim h of None \<Rightarrow> False | Some a \<Rightarrow> ud_used a \<noteq> 0)"

definition events_seen :: "(string \<Rightarrow> int option) \<Rightarrow> home_data \<Rightarrow> bool" where
  "events_seen parse h = (latestEvent h \<noteq> None \<or> latestBatch parse h \<noteq> None)"

definition catalog_step :: "(int \<Rightarrow> string) \<Rightarrow> home_data \<Rightarrow> pipeline_step" where
  "catalog_step loc h =
     make_step (hm_can h ''catalog:read'') ''Catalog''
       (if \<not> products_known h then Step_todo else if overBy h > 0 then Step_warn else Step_done)
       (if products_known h then loc (or_else (hm_total h) 0) @ '' products'' else ''No products'') ''/products''"

definition events_step ::
    "(string \<Rightarrow> int option) \<Rightarrow> (string \<Rightarrow> string) \<Rightarrow> (int \<Rightarrow> string) \<Rightarrow> home_data \<Rightarrow> pipeline_step" where
  "events_step parse date loc h =
     make_step (hm_can h ''usage:read'' \<or> hm_can h ''events:read'') ''Events''
       (if noEvents h then Step_warn
        else if accepted_used h \<or> accepted_dim h = None \<and> events_seen parse h then Step_done else Step_todo)
       (if accepted_used h then (case accepted_dim h of Some a \<Rightarrow> loc (ud_used a) | None \<Rightarrow> []) @ '' this period''
        else case latestEvent h of
          Some e \<Rightarrow> ''Last event '' @ date (er_created_at e)
        | None \<Rightarrow>
            (case latestBatch parse h of Some b \<Rightarrow> ''Last batch '' @ date (ebr_created_at b) | None \<Rightarrow> ''None received''))
       ''/events/submit''"

definition dataset_step :: "(string \<Rightarrow> int option) \<Rightarrow> (string \<Rightarrow> string) \<Rightarrow> home_data \<Rightarrow> pipeline_step" where
  "dataset_step parse date h =
     make_step (hm_can h ''training:read'') ''Dataset''
       (if latestSnapshot parse h \<noteq> None then Step_done else Step_todo)
       (case latestSnapshot parse h of Some d \<Rightarrow> ''Snapshot '' @ date (ds_created_at d) | None \<Rightarrow> ''No snapshot'') ''/datasets''"

definition training_step :: "(string \<Rightarrow> int option) \<Rightarrow> (string \<Rightarrow> string) \<Rightarrow> home_data \<Rightarrow> pipeline_step" where
  "training_step parse date h =
     make_step (hm_can h ''training:read'') ''Training''
       (case latestJob parse h of
          Some j \<Rightarrow> if tj_status j = ''succeeded'' then Step_done else Step_warn
        | None \<Rightarrow> Step_todo)
       (case latestJob parse h of Some j \<Rightarrow> ''Last run '' @ date (tj_created_at j) | None \<Rightarrow> ''No runs'') ''/training''"

definition model_step :: "(string \<Rightarrow> int option) \<Rightarrow> home_data \<Rightarrow> pipeline_step" where
  "model_step parse h =
     make_step (hm_can h ''models:read'') ''Model''
       (if home_active h \<noteq> None then Step_done else if or_else (hm_versions h) [] \<noteq> [] then Step_warn else Step_todo)
       (if home_active h \<noteq> None then ''v'' @ show_int (activeN parse h) @ '' active''
        else if or_else (hm_versions h) [] \<noteq> [] then ''None active'' else ''No versions'') ''/models''"

definition serving_step :: "(int \<Rightarrow> string) \<Rightarrow> home_data \<Rightarrow> pipeline_step" where
  "serving_step loc h =
     make_step (hm_can h ''deployments:read'') ''Serving''
       (if servingUp h then (if requests h \<noteq> 0 then Step_done else Step_warn) else Step_todo)
       (if servingUp h then (if requests h \<noteq> 0 then loc (requests h) @ '' req '' @ mid_dot @ '' 24 h'' else ''No traffic'')
        else ''Not serving'') ''/service-status''"

definition LOCKED_DETAIL :: string where
  "LOCKED_DETAIL = ''Not visible to your role''"

definition pipeline_steps ::
    "(string \<Rightarrow> int option) \<Rightarrow> (string \<Rightarrow> string) \<Rightarrow> (int \<Rightarrow> string) \<Rightarrow> home_data \<Rightarrow> pipeline_step list" where
  "pipeline_steps parse date loc h =
     map (\<lambda>s. if ps_scope s then s else s\<lparr>ps_state := Step_locked, ps_detail := LOCKED_DETAIL\<rparr>)
       [catalog_step loc h, events_step parse date loc h, dataset_step parse date h, training_step parse date h,
        model_step parse h, serving_step loc h]"

section \<open>The checklist of a new workspace\<close>

record checklist_item =
  ck_title :: string
  ck_done :: bool
  ck_action :: "(string \<times> string) option"

definition make_item :: "string \<Rightarrow> bool \<Rightarrow> (string \<times> string) option \<Rightarrow> checklist_item" where
  "make_item t d a = \<lparr>ck_title = t, ck_done = d, ck_action = a\<rparr>"

definition hasProducts :: "home_data \<Rightarrow> bool" where
  "hasProducts h = (or_else (hm_total h) 0 > 0)"

definition hasEvents :: "(string \<Rightarrow> int option) \<Rightarrow> home_data \<Rightarrow> bool" where
  "hasEvents parse h =
     ((case accepted_dim h of None \<Rightarrow> False | Some a \<Rightarrow> ud_used a > 0) \<or> accepted_dim h = None \<and> events_seen parse h)"

definition hasTrained :: "(string \<Rightarrow> int option) \<Rightarrow> home_data \<Rightarrow> bool" where
  "hasTrained parse h = (or_else (hm_versions h) [] \<noteq> [] \<or> latestJob parse h \<noteq> None)"

definition hasTested :: "home_data \<Rightarrow> bool" where
  "hasTested h = (or_else (hm_versions h) [] \<noteq> [])"

definition isLive :: "home_data \<Rightarrow> bool" where
  "isLive h = (servingUp h \<and> requests h > 0)"

definition checklist :: "(string \<Rightarrow> int option) \<Rightarrow> home_data \<Rightarrow> checklist_item list" where
  "checklist parse h =
     [make_item ''Create API credentials'' (hasKeys h)
        (if hm_can h ''keys:write'' then Some (''Create API key'', ''/credentials'') else None),
      make_item ''Sync product catalog'' (hasProducts h)
        (if hm_can h ''catalog:write'' then Some (''Import catalog'', ''/products/sync'') else None),
      make_item ''Send interaction events'' (hasEvents parse h)
        (Some (if hm_can h ''events:write'' then (''Send events'', ''/events/submit'')
               else (''Integration guide'', ''/integration''))),
      make_item ''Train a model'' (hasTrained parse h)
        (if hm_can h ''training:read'' then Some (''Train a model'', ''/training'') else None),
      make_item ''Test in Playground'' (hasTested h)
        (if hm_can h ''recommendations:read'' then Some (''Open Playground'', ''/playground'') else None),
      make_item ''Activate model & go live'' (isLive h)
        (if hm_can h ''models:read'' then Some (''Model versions'', ''/models'') else None)]"

definition steps_done :: "checklist_item list \<Rightarrow> string" where
  "steps_done cs = show_nat (length (filter ck_done cs)) @ '' of '' @ show_nat (length cs) @ '' steps done''"

section \<open>Figures\<close>

definition home_pct :: "rat option \<Rightarrow> string" where
  "home_pct v =
     (case v of None \<Rightarrow> em_dash
      | Some x \<Rightarrow> to_fixed (if x < 1 / 100 \<and> x > 0 then 2 else 1) (x * 100) @ ''%'')"

definition home_latency :: "home_data \<Rightarrow> string" where
  "home_latency h =
     (case Option.bind (hm_metrics h) ms_p95_latency_ms of None \<Rightarrow> em_dash | Some x \<Rightarrow> show_int (js_round x) @ '' ms'')"

definition home_rate :: "home_data \<Rightarrow> string" where
  "home_rate h = to_fixed 2 (case hm_metrics h of None \<Rightarrow> 0 | Some m \<Rightarrow> ms_request_rate m)"

definition topQuotaPct :: "home_data \<Rightarrow> string" where
  "topQuotaPct h =
     (case topQuota h of
        Some d \<Rightarrow> show_int (js_round (of_int (ud_used d) / of_int (or_else (ud_limit d) 0) * 100)) @ ''%'' | None \<Rightarrow> ''0%'')"

definition topQuotaNote :: "(int \<Rightarrow> string) \<Rightarrow> home_data \<Rightarrow> string" where
  "topQuotaNote loc h =
     (case topQuota h of
        Some d \<Rightarrow> loc (ud_used d) @ '' of '' @ loc (or_else (ud_limit d) 0) @ '' ''
                  @ replace_char CHR ''_'' CHR '' '' (usage_type_text (ud_type d))
      | None \<Rightarrow> ''Within limits'')"

text \<open>The tiles above the page: where each leads, its label, its figure and its note.\<close>

definition kpi_tiles ::
    "(string \<Rightarrow> int option) \<Rightarrow> (int \<Rightarrow> string) \<Rightarrow> int \<Rightarrow> home_data \<Rightarrow> (string \<times> string \<times> string \<times> string) list" where
  "kpi_tiles parse loc now0 h =
     [(''/service-status'', ''Requests (24 h)'', if hm_metrics h \<noteq> None then loc (requests h) else em_dash,
       if requests h \<noteq> 0 then home_rate h @ '' / min'' else ''No traffic in 24 h''),
      (''/service-status'', ''p95 Latency'', home_latency h,
       if requests h \<noteq> 0 then ''Serving response time'' else ''No traffic''),
      (case home_active h of Some a \<Rightarrow> ''/models/'' @ mv_id a | None \<Rightarrow> ''/models'', ''Model freshness'',
       case home_active h of Some a \<Rightarrow> daysAgoLabel parse (Text (mv_created_at a)) now0 | None \<Rightarrow> ''None'',
       case home_active h of
         Some a \<Rightarrow> modelTypeLabel (Some (mv_model_type a)) @ '' v'' @ show_int (activeN parse h) | None \<Rightarrow> ''No active model''),
      (''/usage'', ''Quota capacity used'', topQuotaPct h, topQuotaNote loc h)]"

text \<open>A tile of the section on performance: label, value and note; a dash gives way to its own text.\<close>

definition metric_value :: "string \<Rightarrow> string \<Rightarrow> string" where
  "metric_value shown0 none0 = (if shown0 = em_dash then none0 else shown0)"

definition home_score :: "home_data \<Rightarrow> string \<Rightarrow> rat option" where
  "home_score h k = Option.bind (home_active h) (\<lambda>a. model_metric a k)"

definition performance_tiles :: "(int \<Rightarrow> string) \<Rightarrow> home_data \<Rightarrow> (string \<times> string \<times> string option) list" where
  "performance_tiles loc h =
     [(''Requests (24 h)'', metric_value (if hm_metrics h \<noteq> None then loc (requests h) else em_dash) ''Not available'',
       if hm_metrics h = None then None
       else Some (if requests h \<noteq> 0 then home_rate h @ '' per minute'' else ''No traffic yet'')),
      (''p95 latency'', metric_value (home_latency h) ''No traffic yet'',
       if requests h \<noteq> 0 then Some ''Successful requests'' else None),
      (''Error rate'', metric_value (home_pct (Option.bind (hm_metrics h) ms_error_rate)) ''No traffic yet'',
       if requests h \<noteq> 0 then Some (''Fallback '' @ home_pct (Option.bind (hm_metrics h) ms_fallback_rate)) else None),
      (''NDCG@10'', metric_value (case home_score h ''NDCG@10'' of Some x \<Rightarrow> to_fixed 3 x | None \<Rightarrow> em_dash) ''Not evaluated'',
       map_option (\<lambda>x. ''Hit@10 '' @ to_fixed 3 x) (home_score h ''Hit@10''))]"

text \<open>The second part of a text cut at a separator.\<close>

fun cut_before :: "string \<Rightarrow> string \<Rightarrow> string" where
  "cut_before sep [] = []"
| "cut_before sep (c # r) = (if starts_with (c # r) sep then [] else c # cut_before sep r)"

fun after_first :: "string \<Rightarrow> string \<Rightarrow> string option" where
  "after_first sep [] = None"
| "after_first sep (c # r) =
     (if starts_with (c # r) sep then Some (cut_before sep (drop (length sep) (c # r))) else after_first sep r)"

definition rollback_note ::
    "(string \<Rightarrow> int option) \<Rightarrow> (string \<Rightarrow> string) \<Rightarrow> home_data \<Rightarrow> string option" where
  "rollback_note parse ago h =
     (case (home_active h, rolledBackFrom parse (or_else (hm_versions h) [])) of
        (Some a, Some r) \<Rightarrow>
          Some (''Rolled back from ''
                @ or_else (after_first ('' '' @ mid_dot @ '' '') (modelLabel parse r (or_else (hm_versions h) []))) ''undefined''
                @ '' '' @ ago (or_else (mv_activated_at a) (or_else (mv_activated_at r) [])) @ ''.'')
      | _ \<Rightarrow> None)"

definition modelAge :: "(string \<Rightarrow> int option) \<Rightarrow> int \<Rightarrow> home_data \<Rightarrow> int" where
  "modelAge parse now0 h =
     (case home_active h of None \<Rightarrow> 0 | Some a \<Rightarrow> or_else (daysSince parse (Text (mv_created_at a)) now0) 0)"

definition age_note :: "(string \<Rightarrow> int option) \<Rightarrow> int \<Rightarrow> home_data \<Rightarrow> string option" where
  "age_note parse now0 h =
     (if modelAge parse now0 h > 14 \<and> noEvents h
      then Some (''Trained on data that is '' @ show_int (modelAge parse now0 h) @ '' days old.'') else None)"

text \<open>The banner above the page, for the errors of the versions, the deployment, the catalog, the jobs, the usage
  and the metrics.\<close>

definition home_banner :: "exn option list \<Rightarrow> (exn \<times> string) option" where
  "home_banner errors =
     (case List.map_filter id errors of
        [] \<Rightarrow> None
      | [e] \<Rightarrow> Some (e, ''Part of the overview couldn'' @ [CHR 0x27] @ ''t be loaded'')
      | e # es \<Rightarrow>
          Some (e, ''GraphRec couldn'' @ [CHR 0x27] @ ''t load the overview ('' @ show_nat (Suc (length es))
                   @ '' of 6 data sources failed)''))"

definition canTry :: "home_data \<Rightarrow> bool" where
  "canTry h = (servingUp h \<and> hm_can h ''recommendations:read'')"

section \<open>A test request\<close>

definition top_n_of :: "string \<Rightarrow> string + int" where
  "top_n_of s =
     (case js_Number s of
        Fin x \<Rightarrow>
          if of_int \<lfloor>x\<rfloor> = x \<and> 1 \<le> x \<and> x \<le> 100 then Inr \<lfloor>x\<rfloor>
          else Inl ''Enter how many items to return, from 1 to 100.''
      | _ \<Rightarrow> Inl ''Enter how many items to return, from 1 to 100.'')"

definition recommendation_input :: "string \<Rightarrow> json \<Rightarrow> string \<Rightarrow> json" where
  "recommendation_input user n surface =
     JObj ((if js_trim user \<noteq> [] then [(''user_id'', JStr (js_trim user))] else [])
           @ [(''top_n'', n), (''context'', JObj [(''surface'', JStr surface)])])"

definition try_confirm :: "string \<Rightarrow> string \<Rightarrow> string + ApiCall" where
  "try_confirm user topN =
     map_sum id (\<lambda>n. recommendations_get (recommendation_input user (JNum (of_int n)) ''console_test'')) (top_n_of topN)"

text \<open>The answer: the message the dialog shows, or the result.\<close>

definition try_answer :: "exn + RecommendationResult \<Rightarrow> RecommendationResult option \<Rightarrow> string option \<times> RecommendationResult option" where
  "try_answer r old = (case r of Inl e \<Rightarrow> (Some (describeError e), old) | Inr v \<Rightarrow> (None, Some v))"

definition try_line :: "RecommendationResult \<Rightarrow> string \<times> string" where
  "try_line r =
     (show_nat (length (rr_items r)) @ '' items'',
      mid_dot @ '' ''
      @ (if rr_fallback_used r then ''fallback ('' @ replace_char CHR ''_'' CHR '' '' (rr_fallback_tier r) @ '')''
         else ''model '' @ replace_char CHR ''_'' CHR '' '' (rr_strategy r))
      @ (if rr_applied_rules r \<noteq> [] then '' '' @ mid_dot @ '' rules: '' @ js_join '', '' (rr_applied_rules r) else []))"

definition try_links :: "RecommendationResult \<Rightarrow> (string \<times> string) list" where
  "try_links r = map (\<lambda>i. (''/products/'' @ encodeURIComponent (ri_external_product_id i), ''Product '' @ ri_external_product_id i)) (rr_items r)"

section \<open>The playground\<close>

definition SURFACES :: "(string \<times> string) list" where
  "SURFACES =
     [(''console_test'', ''Console test (general)''), (''homepage'', ''Storefront homepage''),
      (''pdp'', ''Product detail page (PDP)''), (''cart'', ''Shopping cart / checkout''),
      (''category'', ''Category / collection'')]"

datatype snippet_tab = Tab_curl | Tab_python

record playground =
  pg_userId :: string
  pg_topN :: string
  pg_surface :: string
  pg_busy :: bool
  pg_error :: "string option"
  pg_result :: "RecommendationResult option"
  pg_tab :: snippet_tab

definition playground_first :: playground where
  "playground_first =
     \<lparr>pg_userId = [], pg_topN = ''10'', pg_surface = ''console_test'', pg_busy = False, pg_error = None,
      pg_result = None, pg_tab = Tab_curl\<rparr>"

definition playground_run :: "playground \<Rightarrow> playground \<times> ApiCall option" where
  "playground_run w =
     (case top_n_of (pg_topN w) of
        Inl m \<Rightarrow> (w\<lparr>pg_error := Some m\<rparr>, None)
      | Inr n \<Rightarrow>
          (w\<lparr>pg_busy := True, pg_error := None\<rparr>,
           Some (recommendations_get (recommendation_input (pg_userId w) (JNum (of_int n)) (pg_surface w)))))"

definition playground_answer :: "exn + RecommendationResult \<Rightarrow> playground \<Rightarrow> playground" where
  "playground_answer r w =
     (case r of
        Inl e \<Rightarrow> w\<lparr>pg_error := Some (describeError e), pg_busy := False\<rparr>
      | Inr v \<Rightarrow> w\<lparr>pg_result := Some v, pg_busy := False\<rparr>)"

definition run_label :: "playground \<Rightarrow> string" where
  "run_label w =
     (if pg_busy w then ''Evaluating'' @ ellipsis else if pg_result w \<noteq> None then ''Re-run request''
      else ''Get recommendations'')"

text \<open>\<open>Number(topN) || 10\<close>, and its JSON, in which an infinite number is \<open>null\<close>.\<close>

definition snippet_top_n :: "string \<Rightarrow> number" where
  "snippet_top_n s = (case js_Number s of Fin x \<Rightarrow> Fin (if x = 0 then 10 else x) | NaN \<Rightarrow> Fin 10 | n \<Rightarrow> n)"

definition number_json :: "number \<Rightarrow> json" where
  "number_json n = (case n of Fin x \<Rightarrow> JNum x | _ \<Rightarrow> JNull)"

definition snippet_input :: "playground \<Rightarrow> json" where
  "snippet_input w = recommendation_input (pg_userId w) (number_json (snippet_top_n (pg_topN w))) (pg_surface w)"

definition nl :: string where "nl = [CHR 0x0A]"

definition dq :: string where "dq = [CHR 0x22]"

definition continued :: string where "continued = '' '' @ [CHR 0x5C] @ nl @ ''  ''"

definition curlSnippet :: "(json \<Rightarrow> string) \<Rightarrow> playground \<Rightarrow> string" where
  "curlSnippet stringify w =
     ''curl -X POST '' @ dq @ ''https://api.graphrec.io/v1/recommendations'' @ dq @ continued
     @ ''-H '' @ dq @ ''Authorization: Bearer <YOUR_API_KEY>'' @ dq @ continued
     @ ''-H '' @ dq @ ''Content-Type: application/json'' @ dq @ continued
     @ ''-d '' @ [CHR 0x27] @ stringify (snippet_input w) @ [CHR 0x27]"

definition pythonSnippet :: "(number \<Rightarrow> string) \<Rightarrow> playground \<Rightarrow> string" where
  "pythonSnippet str w =
     ''from graphrec_sdk import GraphRec'' @ nl @ nl
     @ ''client = GraphRec(base_url='' @ dq @ ''https://api.graphrec.io'' @ dq @ '', api_key='' @ dq @ ''<YOUR_API_KEY>'' @ dq @ '')''
     @ nl @ nl @ ''response = client.storefront.recommendations.get('' @ nl @ ''    ''
     @ (if js_trim (pg_userId w) \<noteq> [] then ''user_id='' @ dq @ js_trim (pg_userId w) @ dq @ '','' @ nl @ ''    '' else [])
     @ ''top_n='' @ str (snippet_top_n (pg_topN w)) @ '','' @ nl
     @ ''    context={'' @ dq @ ''surface'' @ dq @ '': '' @ dq @ pg_surface w @ dq @ ''}'' @ nl @ '')'' @ nl @ nl
     @ ''for item in response.items:'' @ nl
     @ ''    print(f'' @ dq @ ''Rank #{item.position}: {item.external_product_id}'' @ dq @ '')''"

definition results_title :: "RecommendationResult \<Rightarrow> string" where
  "results_title r = ''Results ('' @ show_nat (length (rr_items r)) @ '' items ranked)''"

definition results_description :: "RecommendationResult \<Rightarrow> string" where
  "results_description r =
     (if rr_fallback_used r
      then ''Fallback served ('' @ replace_char CHR ''_'' CHR '' '' (rr_fallback_tier r) @ '') '' @ mid_dot @ '' Model '' @ rr_strategy r
      else ''Served by model strategy: '' @ rr_strategy r
           @ (if rr_applied_rules r \<noteq> [] then '' '' @ mid_dot @ '' Rules applied: '' @ js_join '', '' (rr_applied_rules r) else []))"

definition results_pills :: "RecommendationResult \<Rightarrow> (string \<times> string) list" where
  "results_pills r =
     (if rr_fallback_used r then (''warning'', ''Fallback ('' @ rr_fallback_tier r @ '')'') else (''success'', ''Model inference''))
     # (case rr_rules_version r of Some n \<Rightarrow> if n \<noteq> 0 then [(''info'', ''Rules v'' @ show_int n)] else [] | None \<Rightarrow> [])"

section \<open>The order of the issues\<close>

lemma js_sort_two:
  assumes "\<And>x. key x = (0::int) \<or> key x = 1"
  shows "js_sort (\<lambda>a b. of_int (key a - key b)) xs = filter (\<lambda>x. key x = 0) xs @ filter (\<lambda>x. key x = 1) xs"
proof -
  define cmp :: "'a \<Rightarrow> 'a \<Rightarrow> rat" where "cmp = (\<lambda>a b. of_int (key a - key b))"
  have front: "cmp x y \<le> 0" if "key x = 0" for x y using that assms [of y] by (auto simp: cmp_def)
  have behind: "\<not> cmp x y \<le> 0" if "key x = 1" "key y = 0" for x y using that by (simp add: cmp_def)
  have even: "cmp x y \<le> 0" if "key x = 1" "key y = 1" for x y using that by (simp add: cmp_def)
  have zero: "js_insert cmp x ys = x # ys" if "key x = 0" for x ys
    using front [OF that] by (cases ys) simp_all
  have one: "js_insert cmp x (as @ bs) = as @ x # bs"
    if "key x = 1" "\<forall>a \<in> set as. key a = 0" "\<forall>b \<in> set bs. key b = 1" for x as bs
    using that(2) by (induction as) (use that(1,3) behind even in \<open>cases bs; simp\<close>)+
  have "js_sort cmp xs = filter (\<lambda>x. key x = 0) xs @ filter (\<lambda>x. key x = 1) xs"
  proof (induction xs)
    case (Cons x xs)
    have step: "js_sort cmp (x # xs) = js_insert cmp x (filter (\<lambda>x. key x = 0) xs @ filter (\<lambda>x. key x = 1) xs)"
      using Cons by (simp add: js_sort_def)
    from assms [of x] show ?case
    proof
      assume "key x = 0" then show ?thesis by (simp add: step zero)
    next
      assume k: "key x = 1"
      show ?thesis unfolding step by (subst one) (use k in simp_all)
    qed
  qed (simp add: js_sort_def)
  then show ?thesis by (simp only: cmp_def)
qed

lemma home_issues_split:
  "home_issues parse loc now0 h =
     filter (\<lambda>i. iss_severity i = Blocking) (found_issues parse loc now0 h) @
     filter (\<lambda>i. iss_severity i = Warning) (found_issues parse loc now0 h)"
proof -
  have k: "issue_key i = 0 \<longleftrightarrow> iss_severity i = Blocking" "issue_key i = 1 \<longleftrightarrow> iss_severity i = Warning" for i
    by (cases "iss_severity i"; simp add: issue_key_def)+
  have two: "issue_key i = 0 \<or> issue_key i = 1" for i by (simp add: issue_key_def)
  show ?thesis unfolding home_issues_def js_sort_two [OF two] k ..
qed

lemma blocking_of_home: "blocking_count (home_issues parse loc now0 h) = blocking_count (found_issues parse loc now0 h)"
  by (simp add: blocking_count_def home_issues_split)

lemma length_home: "length (home_issues parse loc now0 h) = length (found_issues parse loc now0 h)"
  by (simp add: home_issues_def)

lemma blocking_append [simp]: "blocking_count (xs @ ys) = blocking_count xs + blocking_count ys"
  by (simp add: blocking_count_def)

lemma blocking_le: "blocking_count is0 \<le> length is0"
  by (simp add: blocking_count_def)

lemma blocking_zero: "blocking_count is0 = 0 \<longleftrightarrow> (\<forall>i \<in> set is0. iss_severity i \<noteq> Blocking)"
  by (auto simp: blocking_count_def filter_empty_conv)

lemma severity_new [simp]: "iss_severity (new_issue i s t b f) = s"
  by (simp add: new_issue_def)

lemma quota_issue_blocking:
  "(\<exists>i. quota_issue loc d = Some i \<and> iss_severity i = Blocking) \<longleftrightarrow>
     ud_type d \<noteq> stored_products \<and> (\<exists>l. ud_limit d = Some l \<and> l \<le> ud_used d)"
proof -
  have "q_status (quotaState (ud_used d) (ud_limit d)) = exhausted \<longleftrightarrow> (\<exists>l. ud_limit d = Some l \<and> l \<le> ud_used d)"
    by (cases "ud_limit d") (simp_all add: quota_exhausted_iff quotaState_simps)
  then show ?thesis by (simp add: quota_issue_def Let_def split_beta)
qed

text \<open>C37: the issues of the overview. They are all listed, the blocking ones first and otherwise in the order found; the
  summary says that all is well exactly when there are none; and one is blocking exactly when a deployment
  that may be seen does not serve, more products are stored than the plan allows, or another quota is used up.\<close>

theorem issues_by_severity:
  "home_issues parse loc now0 h =
     filter (\<lambda>i. iss_severity i = Blocking) (found_issues parse loc now0 h) @
     filter (\<lambda>i. iss_severity i = Warning) (found_issues parse loc now0 h) \<and>
   (health_pill (home_issues parse loc now0 h) = (''success'', ''All systems healthy'')) = (found_issues parse loc now0 h = []) \<and>
   (0 < blocking_count (home_issues parse loc now0 h)) =
     ((\<exists>dep. hm_deployment h = Some dep \<and> \<not> servingUp h) \<or> 0 < overBy h \<or>
      (\<exists>d \<in> set (home_dims h). ud_type d \<noteq> stored_products \<and> (\<exists>l. ud_limit d = Some l \<and> l \<le> ud_used d)))"
proof (intro conjI)
  show "home_issues parse loc now0 h =
     filter (\<lambda>i. iss_severity i = Blocking) (found_issues parse loc now0 h) @
     filter (\<lambda>i. iss_severity i = Warning) (found_issues parse loc now0 h)"
    by (rule home_issues_split)
  have "home_issues parse loc now0 h = [] \<longleftrightarrow> found_issues parse loc now0 h = []"
    by (metis length_0_conv length_home)
  moreover have "health_pill is0 = (''success'', ''All systems healthy'') \<longleftrightarrow> is0 = []" for is0
    using blocking_le [of is0] by (auto simp: health_pill_def warning_count_def blocking_count_def)
  ultimately show "(health_pill (home_issues parse loc now0 h) = (''success'', ''All systems healthy'')) =
      (found_issues parse loc now0 h = [])" by blast
  have pos: "0 < blocking_count is0 \<longleftrightarrow> (\<exists>i \<in> set is0. iss_severity i = Blocking)" for is0
    using blocking_zero [of is0] by auto
  have serving: "0 < blocking_count (serving_issue h) \<longleftrightarrow> (\<exists>dep. hm_deployment h = Some dep \<and> \<not> servingUp h)"
    by (cases "hm_deployment h") (simp_all add: pos serving_issue_def)
  have catalog: "0 < blocking_count (catalog_issue loc h) \<longleftrightarrow> 0 < overBy h"
    by (cases "stored_dim h") (simp_all add: pos catalog_issue_def overBy_def)
  have warnings: "blocking_count (events_issue parse now0 h) = 0" "blocking_count (error_rate_issue h) = 0"
    by (simp add: blocking_zero events_issue_def)
      (cases "Option.bind (hm_metrics h) ms_error_rate"; simp add: blocking_zero error_rate_issue_def)
  have "0 < blocking_count (List.map_filter (quota_issue loc) ds) \<longleftrightarrow>
      (\<exists>d \<in> set ds. ud_type d \<noteq> stored_products \<and> (\<exists>l. ud_limit d = Some l \<and> l \<le> ud_used d))" for ds
  proof -
    have "0 < blocking_count (List.map_filter (quota_issue loc) ds) \<longleftrightarrow>
        (\<exists>d \<in> set ds. \<exists>i. quota_issue loc d = Some i \<and> iss_severity i = Blocking)"
      by (induction ds) (auto simp: pos List.map_filter_simps split: option.splits)
    then show ?thesis by (simp only: quota_issue_blocking)
  qed
  then show "(0 < blocking_count (home_issues parse loc now0 h)) =
     ((\<exists>dep. hm_deployment h = Some dep \<and> \<not> servingUp h) \<or> 0 < overBy h \<or>
      (\<exists>d \<in> set (home_dims h). ud_type d \<noteq> stored_products \<and> (\<exists>l. ud_limit d = Some l \<and> l \<le> ud_used d)))"
    unfolding blocking_of_home found_issues_def
    by (simp only: blocking_append add_gr_0 serving catalog warnings less_irrefl simp_thms)
qed

section \<open>Where rows, tiles and summary disagree\<close>

lemma issues_ignore_total: "found_issues parse loc now0 (h\<lparr>hm_total := t\<rparr>) = found_issues parse loc now0 h"
  by (simp add: found_issues_def serving_issue_def catalog_issue_def events_issue_def error_rate_issue_def home_dims_def
      servingUp_def overBy_def stored_dim_def noEvents_def accepted_dim_def home_active_def
      cong: option.case_cong if_cong)

text \<open>What the summary of the overview leaves out. It takes no notice of the catalog: an empty one that is not that
  of a new workspace has a row \<open>Blocked\<close> under a summary that says all is well. A product quota that is
  used up exactly, when no further product can be added, is no issue. And when the measurements could not be
  loaded, the serving row says that there were no requests, as it does when none were measured.\<close>

lemma healthy_while_blocked:
  "(found_issues parse loc now0 h = [] \<and> hm_can h ''catalog:read'' \<longrightarrow>
      (let h' = h\<lparr>hm_total := Some 0\<rparr> in
       health_pill (home_issues parse loc now0 h') = (''success'', ''All systems healthy'') \<and>
       (\<exists>detail. (''Catalog'', Health_danger, ''Blocked'', detail) \<in> set (health_rows parse ago loc h')))) \<and>
   (home_dims h = [d] \<and> ud_type d = stored_products \<and> ud_limit d = Some (ud_used d) \<longrightarrow>
      q_status (quotaState (ud_used d) (ud_limit d)) = exhausted \<and>
      blocking_count (home_issues parse loc now0 h) = blocking_count (serving_issue h)) \<and>
   (hm_metrics h = None \<and> ms_request_count m = 0 \<and> servingUp h \<longrightarrow>
      serving_row loc h = (''Serving'', Health_info, ''Ready '' @ mid_dot @ '' no traffic'', ''No requests in 24 h'') \<and>
      serving_row loc (h\<lparr>hm_metrics := Some m\<rparr>) = serving_row loc h)"
proof (intro conjI impI)
  assume f: "found_issues parse loc now0 h = [] \<and> hm_can h ''catalog:read''"
  let ?h = "h\<lparr>hm_total := Some 0\<rparr>"
  have none: "found_issues parse loc now0 ?h = []" using f by (simp add: issues_ignore_total)
  then have "catalog_issue loc ?h = []" by (simp add: found_issues_def)
  then have "\<not> 0 < overBy ?h" by (cases "stored_dim ?h") (auto simp: catalog_issue_def overBy_def split: if_splits)
  then have "catalog_row loc ?h = (''Catalog'', Health_danger, ''Blocked'', snd (snd (snd (catalog_row loc ?h))))"
    by (simp add: catalog_row_def catalogHealth_def)
  then have "(''Catalog'', Health_danger, ''Blocked'', snd (snd (snd (catalog_row loc ?h)))) \<in> set (health_rows parse ago loc ?h)"
    using f by (simp add: health_rows_def)
  moreover have "home_issues parse loc now0 ?h = []" using none length_home [of parse loc now0 ?h] by simp
  ultimately show "let h' = h\<lparr>hm_total := Some 0\<rparr> in
       health_pill (home_issues parse loc now0 h') = (''success'', ''All systems healthy'') \<and>
       (\<exists>detail. (''Catalog'', Health_danger, ''Blocked'', detail) \<in> set (health_rows parse ago loc h'))"
    by (auto simp: Let_def health_pill_def blocking_count_def warning_count_def)
next
  assume d: "home_dims h = [d] \<and> ud_type d = stored_products \<and> ud_limit d = Some (ud_used d)"
  then show "q_status (quotaState (ud_used d) (ud_limit d)) = exhausted" by (simp add: quota_exhausted_iff)
  have "catalog_issue loc h = []" "events_issue parse now0 h = []" "List.map_filter (quota_issue loc) (home_dims h) = []"
    using d by (simp_all add: catalog_issue_def events_issue_def overBy_def stored_dim_def noEvents_def accepted_dim_def
        quota_issue_def List.map_filter_simps)
  moreover have "blocking_count (error_rate_issue h) = 0"
    by (cases "Option.bind (hm_metrics h) ms_error_rate"; simp add: blocking_zero error_rate_issue_def)
  ultimately show "blocking_count (home_issues parse loc now0 h) = blocking_count (serving_issue h)"
    by (simp add: blocking_of_home found_issues_def)
next
  assume m: "hm_metrics h = None \<and> ms_request_count m = 0 \<and> servingUp h"
  then obtain dep where dep: "hm_deployment h = Some dep" by (cases "hm_deployment h") (simp_all add: servingUp_def)
  have up: "servingUp (h\<lparr>hm_metrics := Some m\<rparr>)" using m by (simp add: servingUp_def)
  show "serving_row loc h = (''Serving'', Health_info, ''Ready '' @ mid_dot @ '' no traffic'', ''No requests in 24 h'')"
    "serving_row loc (h\<lparr>hm_metrics := Some m\<rparr>) = serving_row loc h"
    using m dep up by (simp_all add: serving_row_def servingHealth_def requests_def)
qed

text \<open>A workspace that serves, with as many products as its plan allows, whose measurements did not load.\<close>

definition full_shop :: home_data where
  "full_shop =
     \<lparr>hm_can = (\<lambda>s. True), hm_total = Some 100, hm_jobs = Some [], hm_versions = Some [sample_model ''m''],
      hm_deployment = Some \<lparr>dep_id = None, dep_desired_model_version_id = None, dep_status = ''available'',
         dep_active_model_version_id = Some ''m'', dep_desired_capacity = None, dep_ready_capacity = None,
         dep_last_transition_at = None, dep_failure_reason = None, dep_rate_limiter = None\<rparr>,
      hm_metrics = None,
      hm_usage = Some [\<lparr>ud_type = stored_products, ud_used = 100, ud_limit = Some 100, ud_remaining = Some 0,
         ud_unit = unit_count, ud_measured = None, ud_scope = None\<rparr>],
      hm_snapshots = None, hm_batches = None, hm_keys = None, hm_latestEvents = None\<rparr>"

definition no_requests :: MetricsSummary where
  "no_requests =
     \<lparr>ms_window_start = [], ms_window_end = [], ms_request_count = 0, ms_request_rate = 0, ms_error_rate = None,
      ms_fallback_rate = None, ms_p95_latency_ms = None, ms_active_model_version_id = None, ms_quality = None\<rparr>"

theorem healthy_while_blocked_witness:
  "health_pill (home_issues (\<lambda>_. None) show_int 0 (full_shop\<lparr>hm_total := Some 0\<rparr>)) = (''success'', ''All systems healthy'') \<and>
   blocking_count (home_issues (\<lambda>_. None) show_int 0 full_shop) = 0 \<and>
   serving_row show_int full_shop = serving_row show_int (full_shop\<lparr>hm_metrics := Some no_requests\<rparr>)"
proof -
  let ?d = "\<lparr>ud_type = stored_products, ud_used = 100, ud_limit = Some 100, ud_remaining = Some 0,
         ud_unit = unit_count, ud_measured = None, ud_scope = None\<rparr>"
  have f: "found_issues (\<lambda>_. None) show_int 0 full_shop = [] \<and> hm_can full_shop ''catalog:read''"
    and d: "home_dims full_shop = [?d] \<and> ud_type ?d = stored_products \<and> ud_limit ?d = Some (ud_used ?d)"
    and m: "hm_metrics full_shop = None \<and> ms_request_count no_requests = 0 \<and> servingUp full_shop"
    by (simp_all add: full_shop_def found_issues_def serving_issue_def catalog_issue_def quota_issue_def events_issue_def
        error_rate_issue_def home_dims_def servingUp_def overBy_def stored_dim_def noEvents_def accepted_dim_def no_requests_def
        List.map_filter_simps)
  have "serving_issue full_shop = []" using m by (simp add: serving_issue_def split: option.split)
  then show ?thesis
    using healthy_while_blocked [of "\<lambda>_. None" show_int 0 full_shop "\<lambda>_. []" ?d no_requests] f d m
    by (auto simp: Let_def blocking_count_def)
qed

section \<open>The checklist\<close>

text \<open>The checklist of a new workspace can never be finished. It is shown while the catalog is empty and there is no
  version, and while it is shown the import of the catalog and the test in the playground are not ticked, the
  latter since it stands for a version and not for a test; so at most four of its six steps are.\<close>

theorem checklist_unfinished:
  assumes "isNew h"
  shows "(\<forall>c \<in> set (checklist parse h). ck_done c \<longrightarrow> ck_title c \<noteq> ''Sync product catalog'' \<and> ck_title c \<noteq> ''Test in Playground'') \<and>
    length (checklist parse h) = 6 \<and> length (filter ck_done (checklist parse h)) \<le> 4 \<and>
    (0 < n \<longrightarrow> \<not> isNew (h\<lparr>hm_total := Some n\<rparr>))"
proof -
  have off: "\<not> hasProducts h" "\<not> hasTested h"
    using assms by (simp_all add: isNew_def hasProducts_def hasTested_def)
  show ?thesis by (simp add: checklist_def make_item_def off isNew_def)
qed

theorem checklist_unfinished_witness:
  "length (filter ck_done (checklist (\<lambda>_. None) (full_shop\<lparr>hm_total := Some 0, hm_versions := Some []\<rparr>))) \<le> 4"
proof -
  have "isNew (full_shop\<lparr>hm_total := Some 0, hm_versions := Some []\<rparr>)" by (simp add: isNew_def)
  from checklist_unfinished [OF this, of "\<lambda>_. None" 0] show ?thesis by simp
qed

section \<open>Test requests\<close>

lemma top_n_of_Inr:
  "top_n_of s = Inr n \<longleftrightarrow> js_Number s = Fin (of_int n) \<and> 1 \<le> n \<and> n \<le> 100"
proof -
  have "(1::rat) \<le> of_int n \<longleftrightarrow> 1 \<le> n" "(of_int n :: rat) \<le> 100 \<longleftrightarrow> n \<le> 100" by linarith+
  then show ?thesis by (cases "js_Number s") (auto simp: top_n_of_def split: if_splits)
qed

text \<open>A test request. The dialog of the overview and the playground ask for recommendations exactly when the number of
  items is a whole one from 1 to 100; on the surface of the console both send the same; and the command line shown
  beside the form then carries exactly what is sent, for the customer without surrounding spaces.\<close>

theorem test_request:
  "(snd (playground_run w) = Some call) =
     (\<exists>n. js_Number (pg_topN w) = Fin (of_int n) \<and> 1 \<le> n \<and> n \<le> 100 \<and> call = recommendations_get (snippet_input w)) \<and>
   (pg_surface w = ''console_test'' \<longrightarrow>
      try_confirm (pg_userId w) (pg_topN w) =
        (case snd (playground_run w) of Some call0 \<Rightarrow> Inr call0 | None \<Rightarrow> Inl (the (pg_error (fst (playground_run w)))))) \<and>
   pg_result (fst (playground_run w)) = pg_result w \<and> \<not> pg_busy (playground_answer r w)"
proof (intro conjI impI)
  have snippet: "recommendations_get (recommendation_input (pg_userId w) (JNum (of_int n)) (pg_surface w)) =
      recommendations_get (snippet_input w)" if "js_Number (pg_topN w) = Fin (of_int n)" "1 \<le> n" for n
    using that by (simp add: snippet_input_def snippet_top_n_def number_json_def)
  show "(snd (playground_run w) = Some call) =
     (\<exists>n. js_Number (pg_topN w) = Fin (of_int n) \<and> 1 \<le> n \<and> n \<le> 100 \<and> call = recommendations_get (snippet_input w))"
  proof (cases "top_n_of (pg_topN w)")
    case (Inl m)
    then have "\<not> (js_Number (pg_topN w) = Fin (of_int n) \<and> 1 \<le> n \<and> n \<le> 100)" for n
      using top_n_of_Inr [of "pg_topN w" n] by simp
    with Inl show ?thesis by (auto simp: playground_run_def)
  next
    case (Inr n)
    with top_n_of_Inr [of "pg_topN w" n] snippet [of n] show ?thesis by (auto simp: playground_run_def)
  qed
  show "try_confirm (pg_userId w) (pg_topN w) =
        (case snd (playground_run w) of Some call0 \<Rightarrow> Inr call0 | None \<Rightarrow> Inl (the (pg_error (fst (playground_run w)))))"
    if "pg_surface w = ''console_test''"
    using that by (simp add: try_confirm_def playground_run_def split: sum.split)
  show "pg_result (fst (playground_run w)) = pg_result w" by (simp add: playground_run_def split: sum.split)
  show "\<not> pg_busy (playground_answer r w)" by (simp add: playground_answer_def split: sum.split)
qed

theorem test_request_witness:
  "try_confirm '' c1 '' ''3'' = Inr (recommendations_get (snippet_input
     (playground_first\<lparr>pg_userId := '' c1 '', pg_topN := ''3''\<rparr>)))"
proof -
  let ?w = "playground_first\<lparr>pg_userId := '' c1 '', pg_topN := ''3''\<rparr>"
  have n: "js_Number ''3'' = Fin (of_int 3)" by code_simp
  have "snd (playground_run ?w) = Some (recommendations_get (snippet_input ?w))"
    using test_request [of ?w "recommendations_get (snippet_input ?w)" "Inl e"] n by (auto simp: playground_first_def)
  then show ?thesis
    using test_request [of ?w "recommendations_get (snippet_input ?w)" "Inl e"] by (simp add: playground_first_def)
qed

end
