(* ===== verification/ConsoleService.thy ===== *)
theory ConsoleService
  imports ConsoleModels Quota Scopes JsObject
begin

text \<open>
  Service status (\<open>web/src/pages/tenant/ServiceStatusPage.tsx\<close>, \<open>ScalingPanel.tsx\<close>), the result of a submission
  (\<open>SubmissionPage.tsx\<close>), the status of a workspace (\<open>TenantStatusPage.tsx\<close>), the account (\<open>AccountPage.tsx\<close>) and
  the integration guide (\<open>IntegrationPage.tsx\<close>). \<open>nf\<close> prints a number in the browser's locale, \<open>dt\<close> a time, a
  missing one as a dash.
\<close>

section \<open>The measurement window\<close>

definition WINDOWS :: "(string \<times> int) list" where
  "WINDOWS = [(''last hour'', 60), (''last 24 hours'', 1440), (''last 7 days'', 10080)]"

definition span_of :: "string \<Rightarrow> string" where
  "span_of queryWindow =
     (if queryWindow \<in> set (map fst WINDOWS) \<union> set OBJECT_MEMBERS then queryWindow else ''last hour'')"

text \<open>The minutes of a window; an inherited member is no number, and the request made for it is left out.\<close>

definition window_minutes :: "string \<Rightarrow> int option" where
  "window_minutes w = map_of WINDOWS w"

definition metrics_call :: "bool \<Rightarrow> string \<Rightarrow> ApiCall option" where
  "metrics_call canMetrics w =
     (if canMetrics then map_option (\<lambda>n. serving_metrics (Some n)) (window_minutes w) else None)"

section \<open>Service status\<close>

record service_view =
  sv_deployment :: "DeploymentStatus option"
  sv_metrics :: "MetricsSummary option"
  sv_versions :: "ModelVersionResource list option"
  sv_canMetrics :: bool
  sv_span :: string

definition active_version :: "service_view \<Rightarrow> ModelVersionResource option" where
  "active_version v =
     find (\<lambda>x. Some (mv_id x) = Option.bind (sv_deployment v) dep_active_model_version_id) (or_else (sv_versions v) [])"

definition service_up :: "service_view \<Rightarrow> bool" where
  "service_up v =
     (case sv_deployment v of None \<Rightarrow> False
      | Some d \<Rightarrow> dep_status d = ''available'' \<and> truthy (dep_active_model_version_id d))"

definition activeLabel :: "(string \<Rightarrow> int option) \<Rightarrow> service_view \<Rightarrow> string option" where
  "activeLabel parse v =
     (case active_version v of
        Some a \<Rightarrow> Some (modelLabel parse a (or_else (sv_versions v) []))
      | None \<Rightarrow>
          if truthy (Option.bind (sv_deployment v) dep_active_model_version_id) then Some ''the selected model'' else None)"

definition window_requests :: "service_view \<Rightarrow> int" where
  "window_requests v = (case sv_metrics v of None \<Rightarrow> 0 | Some m \<Rightarrow> ms_request_count m)"

definition service_tone :: "service_view \<Rightarrow> string" where
  "service_tone v =
     (if \<not> service_up v then ''danger'' else if sv_canMetrics v \<and> window_requests v = 0 then ''warn'' else ''ok'')"

definition service_title :: "(string \<Rightarrow> int option) \<Rightarrow> service_view \<Rightarrow> string" where
  "service_title parse v =
     (if service_up v then ''Serving '' @ or_else (activeLabel parse v) ''null'' else ''Not serving recommendations'')"

definition service_text :: "(rat \<Rightarrow> string) \<Rightarrow> (string option \<Rightarrow> string) \<Rightarrow> service_view \<Rightarrow> DeploymentStatus \<Rightarrow> string" where
  "service_text nf dt v d =
     (if \<not> service_up v
      then or_else (dep_failure_reason d) ''No model is active. Activate a version on Model Versions.''
      else if sv_canMetrics v
      then (if window_requests v = 0 then ''Ready, but no recommendation requests in the '' @ sv_span v @ ''.''
            else nf (of_int (window_requests v)) @ '' requests in the '' @ sv_span v @ ''.'')
      else ''A model is loaded and can answer requests.'')
     @ (if truthy (dep_last_transition_at d) then '' Active since '' @ dt (dep_last_transition_at d) @ ''.'' else [])"

definition pending_model :: "(string \<Rightarrow> int option) \<Rightarrow> service_view \<Rightarrow> DeploymentStatus \<Rightarrow> string option" where
  "pending_model parse v d =
     (case dep_desired_model_version_id d of
        Some i \<Rightarrow>
          if i \<noteq> [] \<and> Some i \<noteq> dep_active_model_version_id d
          then Some (case find (\<lambda>x. mv_id x = i) (or_else (sv_versions v) []) of
                       Some x \<Rightarrow> modelLabel parse x (or_else (sv_versions v) []) | None \<Rightarrow> i)
          else None
      | None \<Rightarrow> None)"

definition capacity_text :: "DeploymentStatus \<Rightarrow> string" where
  "capacity_text d =
     show_int (or_else (dep_ready_capacity d) 0) @ '' of '' @ show_int (or_else (dep_desired_capacity d) 1) @ '' units ready''"

text \<open>The figures of the window: label, value and note.\<close>

definition traffic_stats :: "(rat \<Rightarrow> string) \<Rightarrow> MetricsSummary \<Rightarrow> (string \<times> string \<times> string) list" where
  "traffic_stats nf m =
     [(''Requests'', nf (of_int (ms_request_count m)), to_fixed 2 (ms_request_rate m) @ '' per minute''),
      (''p95 latency'', case ms_p95_latency_ms m of None \<Rightarrow> em_dash | Some x \<Rightarrow> nf x @ '' ms'', ''Successful requests''),
      (''Fallback rate'', case ms_fallback_rate m of None \<Rightarrow> em_dash | Some x \<Rightarrow> fmtPercent x 2, ''Served without the model''),
      (''Error rate'', case ms_error_rate m of None \<Rightarrow> em_dash | Some x \<Rightarrow> fmtPercent x 2, [])]"

definition limiter_note :: "RateLimiterStatus \<Rightarrow> string" where
  "limiter_note r = (if rl_status r = ''ok'' then ''Healthy'' else ''Needs attention'')"

definition limiter_rows ::
    "(rat \<Rightarrow> string) \<Rightarrow> (string option \<Rightarrow> string) \<Rightarrow> RateLimiterStatus \<Rightarrow> (string \<times> string) list" where
  "limiter_rows nf dt r =
     [(''Rate-limit store'', if rl_backend r = ''redis'' then ''Redis'' else rl_backend r),
      (''Requests let through while the store was down'', nf (of_int (rl_fail_open_total r))),
      (''Last store error'', if truthy (rl_last_error_at r) then dt (rl_last_error_at r) else ''None'')]"

section \<open>Quality of the serving model\<close>

definition json_entries :: "json option \<Rightarrow> (string \<times> json) list" where
  "json_entries j = (case j of Some (JObj kvs) \<Rightarrow> kvs | _ \<Rightarrow> [])"

definition quality_source :: "MetricsSummary \<Rightarrow> (string \<times> json) list" where
  "quality_source m = json_entries (Option.bind (ms_quality m) (\<lambda>q. json_get (JObj (qs_metrics q)) ''source''))"

definition quality_scores :: "MetricsSummary \<Rightarrow> (string \<times> rat) list" where
  "quality_scores m =
     List.map_filter (\<lambda>(k, v). case v of JNum x \<Rightarrow> if ends_at_number k then Some (k, x) else None | _ \<Rightarrow> None)
       (json_entries (Option.bind (ms_quality m) (\<lambda>q. json_get (JObj (qs_metrics q)) ''validation'')))"

definition cut_offs :: "(string \<times> rat) list \<Rightarrow> string list" where
  "cut_offs scores = rev (remdups (rev (map (\<lambda>(k, x). js_split CHR ''@'' k ! 1) scores)))"

definition cut_off_rows :: "(string \<times> rat) list \<Rightarrow> (string \<times> string list) list" where
  "cut_off_rows scores =
     map (\<lambda>k. (''Top '' @ k,
         map (\<lambda>name. case map_of scores (name @ ''@'' @ k) of Some x \<Rightarrow> to_fixed 4 x | None \<Rightarrow> em_dash) [''Hit'', ''NDCG'']))
       (cut_offs scores)"

definition HASH_KEYS :: "string list" where
  "HASH_KEYS = [''data_fingerprint'', ''checkpoint_sha256'']"

definition quality_details :: "(json \<Rightarrow> string) \<Rightarrow> MetricsSummary \<Rightarrow> (string \<times> string) list" where
  "quality_details str m =
     map (\<lambda>(k, v). (humanizeKey k, formatMetricValue str k (Some v)))
       (filter (\<lambda>(k, v). k \<notin> set HASH_KEYS \<and> k \<noteq> ''artifact'' \<and> k \<noteq> ''engine_version'') (quality_source m))"

definition unindexed :: "MetricsSummary \<Rightarrow> rat option" where
  "unindexed m =
     (case (map_of (quality_source m) ''items'', map_of (quality_source m) ''indexed_items'') of
        (Some (JNum n), Some (JNum i)) \<Rightarrow> if i < n then Some (n - i) else None
      | _ \<Rightarrow> None)"

section \<open>Capacity\<close>

definition fixed_capacity :: "ScalingStatus \<Rightarrow> bool" where
  "fixed_capacity s = (ss_min_capacity s = ss_max_capacity s)"

definition scaling_rows :: "(rat \<Rightarrow> string) \<Rightarrow> (string option \<Rightarrow> string) \<Rightarrow> ScalingStatus \<Rightarrow> (string \<times> string) list" where
  "scaling_rows nf dt s =
     [(''Capacity'',
        if ss_managed s
        then show_int (ss_ready_capacity s) @ '' of '' @ show_int (ss_desired_capacity s) @ '' ready''
             @ (if fixed_capacity s then '' (fixed at '' @ show_int (ss_max_capacity s) @ '')''
                else '' (scales '' @ show_int (ss_min_capacity s) @ en_dash @ show_int (ss_max_capacity s) @ '')'')
        else ''Not managed: activate a model version''),
      (''Concurrent requests'',
        case ss_serving_slots s of None \<Rightarrow> ''No limit'' | Some n \<Rightarrow> ''Up to '' @ nf (of_int n) @ '' at once''),
      (''Demand'', nf (ss_measured_rpm s) @ '' req/min now '' @ mid_dot @ '' peak '' @ nf (ss_peak_rpm s))]
     @ (if fixed_capacity s then []
        else [(''Scaling rule'',
                ''1 unit per '' @ nf (ss_target_rpm_per_replica s) @ '' req/min; scales down after ''
                @ show_int (round_div (ss_scale_down_stabilization_seconds s) 60) @ '' min of lower demand'')])
     @ [(''Last change'', if truthy (ss_last_scaled_at s) then dt (ss_last_scaled_at s) else ''No changes yet'')]"

definition scaling_count :: "ScalingStatus \<Rightarrow> string" where
  "scaling_count s =
     show_nat (length (ss_events s)) @ '' recent scaling '' @ (if length (ss_events s) = 1 then ''change'' else ''changes'')"

section \<open>A submission\<close>

definition received :: "EventBatchResponse \<Rightarrow> int" where
  "received b = ebr_accepted_count b + ebr_duplicate_count b + ebr_rejected_count b"

definition submission_subtitle :: "EventBatchResponse \<Rightarrow> string" where
  "submission_subtitle b =
     (if ebr_status b = ''completed''
      then ''The batch was applied in the request that submitted it; these are its final counts.''
      else ''Reload to update the counts.'')"

definition submission_stats :: "(int \<Rightarrow> string) \<Rightarrow> EventBatchResponse \<Rightarrow> (string \<times> string \<times> bool) list" where
  "submission_stats loc b =
     [(''Received'', loc (received b), False), (''Accepted'', loc (ebr_accepted_count b), False),
      (''Duplicates'', loc (ebr_duplicate_count b), False),
      (''Rejected'', loc (ebr_rejected_count b), ebr_rejected_count b \<noteq> 0)]"

definition submission_rows :: "(string option \<Rightarrow> string) \<Rightarrow> EventBatchResponse \<Rightarrow> (string \<times> string) list" where
  "submission_rows dt b =
     [(''Submission id'', ebr_id b)]
     @ (if truthy (ebr_request_id b) then [(''Request id'', the (ebr_request_id b))] else [])
     @ [(''Kind'', ''event batch''), (''Submitted at'', dt (Some (ebr_created_at b))), (''Status'', ebr_status b)]"

definition outcome_rows :: "EventBatchResponse \<Rightarrow> (string \<times> string \<times> string) list" where
  "outcome_rows b =
     map (\<lambda>o1. (eo_event_id o1, eo_status o1, or_else (eo_reason o1) em_dash)) (or_else (ebr_outcomes b) [])"

definition submission_not_found :: "exn option \<Rightarrow> bool" where
  "submission_not_found e = (case e of Some (ApiError a) \<Rightarrow> err_status a = 404 \<or> err_status a = 422 | _ \<Rightarrow> False)"

section \<open>Workspace status and account\<close>

definition status_subtitle :: "TenantStatus option \<Rightarrow> string" where
  "status_subtitle s = (case s of Some x \<Rightarrow> ts_message x | None \<Rightarrow> ''Checking the workspace status'' @ ellipsis)"

definition status_actions :: "TenantStatus option \<Rightarrow> string list" where
  "status_actions s = (case s of Some x \<Rightarrow> if ts_restricted_session x then [''Sign out''] else [] | None \<Rightarrow> [])"

definition CAPABILITIES :: "(string \<times> string) list" where
  "CAPABILITIES =
     [(''Credential management'', ''keys:write''), (''User invitations'', ''users:write''), (''Catalog read'', ''catalog:read''),
      (''Catalog write & synchronization'', ''catalog:write''), (''Event submission'', ''events:write''),
      (''Submission result read'', ''events:read''), (''Training request'', ''training:write''),
      (''Training and snapshot read'', ''training:read''), (''Model version read'', ''models:read''),
      (''Model version write'', ''models:write''), (''Model activation and roll back'', ''models:deploy''),
      (''Recommendation serving'', ''recommendations:read''), (''Usage read'', ''usage:read''),
      (''Subscription read'', ''billing:read''), (''Deployment read'', ''deployments:read''),
      (''Serving metrics read'', ''metrics:read'')]"

definition granted :: "TenantSession \<Rightarrow> (string \<times> string \<times> bool) list" where
  "granted t = map (\<lambda>(l, sc). (l, sc, sc \<in> set (tn_scopes t))) CAPABILITIES"

definition account_text :: "TenantSession \<Rightarrow> string" where
  "account_text t =
     capitalize (roleLabel (tn_role t))
     @ (if length CAPABILITIES \<le> length (tn_scopes t) then '': full access to this tenant.''
        else '': '' @ show_nat (length (filter (\<lambda>(l, sc). sc \<in> set (tn_scopes t)) CAPABILITIES)) @ '' of ''
             @ show_nat (length CAPABILITIES) @ '' permissions. Actions outside them are hidden or disabled.'')"

section \<open>The integration guide\<close>

definition usable_keys :: "ApiKeyResource list option \<Rightarrow> ApiKeyResource list" where
  "usable_keys ks = filter (\<lambda>k. ak_status k = key_active) (or_else ks [])"

definition usable_row :: "(string option \<Rightarrow> string) \<Rightarrow> ApiKeyResource \<Rightarrow> string \<times> string \<times> string" where
  "usable_row dt k =
     (ak_prefix k @ ellipsis,
      js_join ('' '' @ mid_dot @ '' '') (map (\<lambda>s. or_else (map_of SCOPE_SHORT (scope_name s)) (scope_name s)) (ak_scopes k)),
      if truthy (ak_expires_at k) then dt (ak_expires_at k) else ''No expiry'')"

definition GUIDE_ERRORS :: "(string \<times> string \<times> string \<times> string) list" where
  "GUIDE_ERRORS =
     [(''validation_failed'', ''422'', ''Supplied information cannot be accepted'', ''details.fields names each invalid field''),
      (''malformed_request'', ''400'', ''Headers or body violate the contract'', ''Content-Type must be application/json''),
      (''authentication_failed'', ''401'', ''Credential missing, invalid, revoked or expired'', ''Uniform security message across causes''),
      (''insufficient_scope'', ''403'', ''The credential lacks the required scope'',
         ''keys:write, catalog:write, events:write, '' @ ellipsis),
      (''resource_not_found'', ''404'', ''No such resource in this tenant'', ''Multi-tenant isolated; foreign IDs return 404''),
      (''duplicate_resource / conflict'', ''409'', ''State or uniqueness prevents the operation'', ''Version tag or resource already exists''),
      (''payload_too_large'', ''413'', ''Body exceeds the configured limit'', ''JSON bodies and dataset uploads have distinct limits''),
      (''rate_limit_exceeded'', ''429'', ''Per-minute rate limit is exhausted'', ''Retry-After response header is provided''),
      (''service_unavailable'', ''503'', ''A backend dependency is unavailable; retry later'', ''retryable: true flag included''),
      (''recommendation_unavailable'', ''503'', ''No personalized result and fallback disallowed'', ''Allow fallback or provide user history'')]"

section \<open>Properties\<close>

lemma up_has_model: "service_up v \<Longrightarrow> \<exists>d i. sv_deployment v = Some d \<and> dep_active_model_version_id d = Some i \<and> i \<noteq> []"
  by (auto simp: service_up_def truthy_iff split: option.splits)

lemma up_labelled: "service_up v \<Longrightarrow> \<exists>l. activeLabel parse v = Some l"
  using up_has_model [of v] by (auto simp: activeLabel_def split: option.splits)

text \<open>The head of the service status. It is red exactly when nothing is served, and then the title says so; otherwise
  the title names the serving model. A window that has not been measured, because its figures are still loading
  or have failed to load, is reported as one without requests.\<close>

lemma service_head:
  "(service_tone v = ''danger'') = (\<not> service_up v) \<and>
   (service_title parse v = ''Not serving recommendations'') = (\<not> service_up v) \<and>
   (if service_up v then \<exists>l. activeLabel parse v = Some l \<and> service_title parse v = ''Serving '' @ l else True) \<and>
   (if service_up v \<and> sv_canMetrics v \<and> sv_metrics v = None
    then service_tone v = ''warn'' \<and>
      starts_with (service_text nf dt v d) (''Ready, but no recommendation requests in the '' @ sv_span v @ ''.'')
    else True)"
proof -
  have "service_up v \<Longrightarrow> \<exists>l. activeLabel parse v = Some l \<and> service_title parse v = ''Serving '' @ l"
    using up_labelled [of v parse] by (auto simp: service_title_def)
  moreover have "(service_title parse v = ''Not serving recommendations'') = (\<not> service_up v)"
    by (simp add: service_title_def)
  moreover have "service_up v \<and> sv_canMetrics v \<and> sv_metrics v = None \<Longrightarrow> service_tone v = ''warn'' \<and>
      starts_with (service_text nf dt v d) (''Ready, but no recommendation requests in the '' @ sv_span v @ ''.'')"
    by (simp add: service_tone_def window_requests_def service_text_def starts_with_iff)
  moreover have "(service_tone v = ''danger'') = (\<not> service_up v)" by (simp add: service_tone_def)
  ultimately show ?thesis by (simp only: if_bool_eq_conj simp_thms) blast
qed

lemma length_listed: "length CAPABILITIES = 16" "distinct (map snd CAPABILITIES)"
  by (simp_all add: CAPABILITIES_def)

lemma show_nat_16: "show_nat 16 = ''16''"
  by code_simp

lemma granted_count:
  "length (filter (\<lambda>(l, sc). sc \<in> set (tn_scopes t)) CAPABILITIES) = length (filter (\<lambda>(l, sc, g). g) (granted t))"
  by (simp add: granted_def filter_map comp_def case_prod_unfold)

text \<open>What an account may do. For a session whose scopes are among the listed ones, named once each, the page says
  full access exactly when every row is granted, and otherwise counts the granted rows. Scopes outside the list count
  as well, so two of them can hide two permissions that are not granted.\<close>

lemma account_access:
  "(if distinct (tn_scopes t) \<and> set (tn_scopes t) \<subseteq> snd ` set CAPABILITIES
    then account_text t =
      capitalize (roleLabel (tn_role t)) @
      (if filter (\<lambda>(l, sc, g). \<not> g) (granted t) = [] then '': full access to this tenant.''
       else '': '' @ show_nat (length (filter (\<lambda>(l, sc, g). g) (granted t)))
            @ '' of 16 permissions. Actions outside them are hidden or disabled.'')
    else True) \<and>
   (let t' = t\<lparr>tn_scopes := [''audit:read'', ''billing:write''] @ map snd (drop 2 CAPABILITIES)\<rparr> in
    account_text t' = capitalize (roleLabel (tn_role t')) @ '': full access to this tenant.'' \<and>
    map (\<lambda>(l, sc, g). sc) (filter (\<lambda>(l, sc, g). \<not> g) (granted t')) = [''keys:write'', ''users:write''])"
proof -
  have all: "(filter (\<lambda>(l, sc, g). \<not> g) (granted t) = []) = (set (map snd CAPABILITIES) \<subseteq> set (tn_scopes t))"
    by (auto simp: granted_def filter_empty_conv)
  have "(16 \<le> length (tn_scopes t)) = (set (map snd CAPABILITIES) \<subseteq> set (tn_scopes t))"
    if d: "distinct (tn_scopes t)" and s: "set (tn_scopes t) \<subseteq> set (map snd CAPABILITIES)"
  proof -
    have c: "card (set (tn_scopes t)) = length (tn_scopes t)" "card (set (map snd CAPABILITIES)) = 16"
      using d distinct_card [OF length_listed(2)] length_listed(1) by (simp_all add: distinct_card)
    show ?thesis
    proof
      assume "16 \<le> length (tn_scopes t)"
      then have "set (tn_scopes t) = set (map snd CAPABILITIES)" using c s by (intro card_seteq) simp_all
      then show "set (map snd CAPABILITIES) \<subseteq> set (tn_scopes t)" by simp
    next
      assume "set (map snd CAPABILITIES) \<subseteq> set (tn_scopes t)"
      then have "card (set (map snd CAPABILITIES)) \<le> card (set (tn_scopes t))" by (intro card_mono) simp_all
      then show "16 \<le> length (tn_scopes t)" using c by simp
    qed
  qed
  then have "distinct (tn_scopes t) \<and> set (tn_scopes t) \<subseteq> snd ` set CAPABILITIES \<Longrightarrow> account_text t =
      capitalize (roleLabel (tn_role t)) @
      (if filter (\<lambda>(l, sc, g). \<not> g) (granted t) = [] then '': full access to this tenant.''
       else '': '' @ show_nat (length (filter (\<lambda>(l, sc, g). g) (granted t)))
            @ '' of 16 permissions. Actions outside them are hidden or disabled.'')"
    by (simp add: account_text_def length_listed granted_count all show_nat_16)
  then show ?thesis
    by (simp only: if_bool_eq_conj simp_thms) (simp add: account_text_def granted_def CAPABILITIES_def Let_def)
qed

end
