(* ===== verification/ConsoleKit.thy ===== *)
theory ConsoleKit
  imports Labels Quota HttpClient Navigation
begin

text \<open>
  The building blocks of the console's pages (\<open>web/src/ui/primitives.tsx\<close>, \<open>Page.tsx\<close>, \<open>kit.tsx\<close>): badges,
  identifiers, meters and progress bars, banners of failed requests, tabs, definition lists, table
  cells, breadcrumbs, the page header with its time of the last load, and overflow menus. A block is given by
  its classes, texts and switches.
\<close>

section \<open>Badges and identifiers\<close>

definition BADGE_LABEL :: "(string \<times> (string \<times> string) list) list" where
  "BADGE_LABEL =
     [(''model'', [(''active'', ''Serving''), (''retired'', ''Available''), (''eligible'', ''Available''),
        (''archived'', ''Archived'')])]"

definition badge_label :: "string \<Rightarrow> string \<Rightarrow> string option" where
  "badge_label grp v = Option.bind (map_of BADGE_LABEL grp) (\<lambda>g. map_of g v)"

definition COMPLETION_GROUPS :: "string list" where
  "COMPLETION_GROUPS = [''job'', ''outcome'', ''batch'']"

datatype badge_kind = Badge_check | Badge_cross | Badge_spin | Badge_dot

definition kind_of_badge :: "string \<Rightarrow> string \<Rightarrow> badge_kind" where
  "kind_of_badge grp v =
     (let tone = toneFor grp v in
      if grp \<in> set COMPLETION_GROUPS \<and> (tone = ok \<or> tone = danger)
      then (if tone = ok then Badge_check else Badge_cross)
      else if tone = info \<and> (v = ''running'' \<or> v = ''queued'') then Badge_spin else Badge_dot)"

definition badge_text :: "string \<Rightarrow> string \<Rightarrow> string" where
  "badge_text grp v = or_else (badge_label grp v) (replace_char CHR ''_'' CHR '' '' v)"

definition status_help :: "string \<Rightarrow> string \<Rightarrow> string option" where
  "status_help grp v = Option.bind (map_of STATUS_HELP grp) (\<lambda>g. map_of g v)"

text \<open>The legend of a vocabulary: the text and what it means.\<close>

definition status_legend :: "string \<Rightarrow> string list \<Rightarrow> (string \<times> string) list" where
  "status_legend grp vs = map (\<lambda>v. (badge_text grp v, or_else (status_help grp v) [])) vs"

text \<open>An identifier that can be copied: what is shown and what is copied.\<close>

definition id_chip :: "string \<Rightarrow> string option \<Rightarrow> nat \<Rightarrow> string \<times> string" where
  "id_chip v display len =
     (case display of Some d \<Rightarrow> d | None \<Rightarrow> if length v > len + 1 then take len v @ ellipsis else v, v)"

section \<open>Meters\<close>

definition meter_fraction :: "int \<Rightarrow> int option \<Rightarrow> rat" where
  "meter_fraction used limit0 = max 0 (min 1 (or_else (q_ratio (quotaState used limit0)) 0))"

text \<open>The value, the maximum and the text a meter announces, unless it is only a caption.\<close>

definition meter_values :: "int \<Rightarrow> int option \<Rightarrow> (int \<times> int \<times> string) option" where
  "meter_values used limit0 =
     (case limit0 of
        None \<Rightarrow> None
      | Some l \<Rightarrow>
          if l = 0 then None
          else Some (min l (max 0 used), l, show_int used @ '' of '' @ show_int l @ ''. '' @ q_label (quotaState used limit0)))"

definition progress_pct :: "rat \<Rightarrow> rat \<Rightarrow> rat" where
  "progress_pct v m = (if m > 0 then max 0 (min 100 (v / m * 100)) else if v > 0 then 100 else 0)"

section \<open>Failed requests\<close>

text \<open>The tone of the banner, its text and the reference to quote.\<close>

definition error_banner :: "exn \<Rightarrow> Tone \<times> string \<times> string option" where
  "error_banner e =
     (case e of ApiError a \<Rightarrow> if err_status a = 429 then warn else danger | OtherError _ \<Rightarrow> danger,
      describeError e,
      case e of ApiError a \<Rightarrow> if truthy (err_correlationId a) then err_correlationId a else None | OtherError _ \<Rightarrow> None)"

section \<open>Tabs and menus\<close>

datatype tab_key = Tab_Right | Tab_Left | Tab_Home | Tab_End | Tab_Other

definition tab_next :: "tab_key \<Rightarrow> int \<Rightarrow> int \<Rightarrow> int" where
  "tab_next key n i =
     (case key of
        Tab_Right \<Rightarrow> (i + 1) mod n
      | Tab_Left \<Rightarrow> (i + n - 1) mod n
      | Tab_Home \<Rightarrow> 0
      | Tab_End \<Rightarrow> n - 1
      | Tab_Other \<Rightarrow> -1)"

definition tab_press :: "tab_key \<Rightarrow> string list \<Rightarrow> string \<Rightarrow> string option" where
  "tab_press key tabs t =
     (let nxt = tab_next key (int (length tabs)) (find_index (\<lambda>x. x = t) tabs) in
      if nxt < 0 then None else Some (tabs ! nat nxt))"

record menu_item =
  me_label :: string
  me_to :: "string option"
  me_disabled :: bool

text \<open>An entry of an overflow menu is a link, or else a button that may be off. Choosing one closes the menu.\<close>

definition menu_is_link :: "menu_item \<Rightarrow> bool" where
  "menu_is_link m = (truthy (me_to m) \<and> \<not> me_disabled m)"

datatype popover_event = Toggle | Press_inside | Press_outside | Escape_key | Choose_item

text \<open>Whether the menu is open, and whether the focus returns to its button.\<close>

definition popover_do :: "popover_event \<Rightarrow> bool \<Rightarrow> bool \<times> bool" where
  "popover_do e open0 =
     (case e of
        Toggle \<Rightarrow> (\<not> open0, False)
      | Press_inside \<Rightarrow> (open0, False)
      | Press_outside \<Rightarrow> (False, False)
      | Escape_key \<Rightarrow> (False, open0)
      | Choose_item \<Rightarrow> (False, False))"

section \<open>Lists and cells\<close>

record dl_item =
  dl_label :: string
  dl_value :: "string option"
  dl_mono :: bool
  dl_copy :: "string option"

text \<open>What an entry shows: one copyable value, or the value (and whether it is in monospace) and a button that copies.\<close>

datatype dl_shown = Shown_chip string nat | Shown_value "(string \<times> bool) option" "string option"

definition dl_entry :: "dl_item \<Rightarrow> dl_shown" where
  "dl_entry d =
     (if truthy (dl_copy d) \<and> dl_mono d \<and> dl_value d = dl_copy d
      then Shown_chip (the (dl_copy d)) (if length (the (dl_copy d)) > 24 then 13 else 40)
      else Shown_value
        (if truthy (dl_value d) then Some (the (dl_value d), dl_mono d \<and> isCodeLike (JStr (the (dl_value d)))) else None)
        (if truthy (dl_copy d) then dl_copy d else None))"

definition cell_class :: "bool \<Rightarrow> bool \<Rightarrow> string \<Rightarrow> string option" where
  "cell_class mono0 muted content =
     (let c = js_trim ((if mono0 \<and> isCodeLike (JStr content) then ''td-mono'' else if mono0 then ''td-num'' else [])
                       @ (if muted then '' td-muted'' else []))
      in if c = [] then None else Some c)"

text \<open>Whether a table of rows gives way to the text of an empty one.\<close>

definition table_empty :: "'r list \<Rightarrow> 'e option \<Rightarrow> bool" where
  "table_empty rows text0 = (rows = [] \<and> text0 \<noteq> None)"

definition column_label :: "string \<Rightarrow> string" where
  "column_label l = (if l = [] then ''Actions'' else l)"

section \<open>The page header\<close>

record crumb =
  cb_label :: string
  cb_to :: "string option"

definition crumb_text :: "crumb \<Rightarrow> string" where
  "crumb_text c = (if cb_label c = ''Home'' then ''Overview'' else cb_label c)"

text \<open>A breadcrumb: where it leads, its text and whether it is the page itself.\<close>

definition breadcrumbs :: "crumb list \<Rightarrow> (string option \<times> string \<times> bool) list" where
  "breadcrumbs items =
     map (\<lambda>i. (if truthy (cb_to (items ! i)) \<and> i \<noteq> length items - 1 then cb_to (items ! i) else None,
          crumb_text (items ! i), i = length items - 1))
       [0..<length items]"

definition nested_crumbs :: "crumb list option \<Rightarrow> crumb list option" where
  "nested_crumbs cs = (case cs of Some l \<Rightarrow> if length l > 2 then Some (drop 1 l) else None | None \<Rightarrow> None)"

record header_action =
  ha_label :: string
  ha_disabled :: bool
  ha_icon :: bool
  ha_reason :: "string option"

definition refresh_like :: "header_action \<Rightarrow> bool" where
  "refresh_like a = (ha_icon a \<or> starts_with (to_lower (ha_label a)) ''refresh'')"

definition refresh_action :: "header_action list \<Rightarrow> header_action option" where
  "refresh_action as = find refresh_like as"

text \<open>\<open>/^\+\s*/\<close> before a label stands for an icon.\<close>

definition action_text :: "header_action \<Rightarrow> string" where
  "action_text a =
     (if starts_with (ha_label a) ''+'' then dropWhile js_space (drop 1 (ha_label a)) else ha_label a)"

text \<open>\<open>useLoadedStamp\<close>: the time kept, and the value of \<open>loading\<close> its effect ran for last. The effect runs
  when the component appears and whenever \<open>loading\<close> has changed.\<close>

record stamp_state =
  sp_stamp :: "int option"
  sp_seen :: "bool option"

definition stamp_effect :: "bool option \<Rightarrow> int \<Rightarrow> stamp_state \<Rightarrow> stamp_state" where
  "stamp_effect loading now0 s =
     s\<lparr>sp_stamp := (if loading = Some False then Some now0 else sp_stamp s), sp_seen := loading\<rparr>"

definition stamp_first :: "bool option \<Rightarrow> int \<Rightarrow> stamp_state" where
  "stamp_first loading now0 =
     stamp_effect loading now0
       \<lparr>sp_stamp = (case loading of None \<Rightarrow> None | Some b \<Rightarrow> if b then None else Some now0), sp_seen = loading\<rparr>"

definition stamp_render :: "bool option \<times> int \<Rightarrow> stamp_state \<Rightarrow> stamp_state" where
  "stamp_render r s = (if fst r = sp_seen s then s else stamp_effect (fst r) (snd r) s)"

definition header_loading :: "header_action list \<Rightarrow> bool option" where
  "header_loading as = map_option ha_disabled (refresh_action as)"

text \<open>The line beside the actions.\<close>

definition stamp_line :: "(int \<Rightarrow> string) \<Rightarrow> header_action list \<Rightarrow> string option \<Rightarrow> stamp_state \<Rightarrow> string option" where
  "stamp_line time as updated s =
     (case refresh_action as of
        None \<Rightarrow> if as = [] then updated else None
      | Some a \<Rightarrow>
          if ha_disabled a then Some (''Refreshing'' @ ellipsis)
          else if updated \<noteq> None then updated
          else (case sp_stamp s of Some t \<Rightarrow> if t \<noteq> 0 then Some (''Updated '' @ time t) else None | None \<Rightarrow> None))"

definition document_title :: "string \<Rightarrow> string" where
  "document_title t = t @ '' '' @ mid_dot @ '' GraphRec''"

section \<open>Small parts\<close>

datatype button_variant = Primary_button | Secondary_button | Ghost_button | Destructive_button

fun VARIANT_CLASS :: "button_variant \<Rightarrow> string" where
  "VARIANT_CLASS Primary_button = ''btn-primary''"
| "VARIANT_CLASS Secondary_button = ''btn-secondary''"
| "VARIANT_CLASS Ghost_button = ''btn-ghost''"
| "VARIANT_CLASS Destructive_button = ''btn-danger''"

definition buttonClass :: "button_variant \<Rightarrow> bool \<Rightarrow> string option \<Rightarrow> string" where
  "buttonClass v small extra =
     ''btn '' @ VARIANT_CLASS v @ (if small then '' btn-sm'' else [])
     @ (if truthy extra then '' '' @ the extra else [])"

text \<open>A relative time; for a text that is no date \<open>toISOString\<close> throws.\<close>

definition relative_time ::
    "(int \<Rightarrow> string) \<Rightarrow> (string \<Rightarrow> int option) \<Rightarrow> stamp \<Rightarrow> int \<Rightarrow> string option" where
  "relative_time dateOnly parse v now0 =
     (if blank v then Some em_dash
      else case time_of parse v of None \<Rightarrow> None | Some t \<Rightarrow> Some (fmtRelative dateOnly parse v now0))"

text \<open>Copying a code block or a field: the clipboard may refuse, and the mark goes after two seconds.\<close>

datatype copy_event = Copy_done | Copy_refused | Copy_timeout

definition copy_do :: "copy_event \<Rightarrow> bool \<Rightarrow> bool" where
  "copy_do e copied = (case e of Copy_done \<Rightarrow> True | Copy_refused \<Rightarrow> copied | Copy_timeout \<Rightarrow> False)"

section \<open>Properties\<close>

lemma meter_fraction_bounds: "0 \<le> meter_fraction used limit0" "meter_fraction used limit0 \<le> 1"
  by (simp_all add: meter_fraction_def)

lemma progress_bounds: "0 \<le> progress_pct v m" "progress_pct v m \<le> 100"
  by (simp_all add: progress_pct_def)

lemma id_chip_copies: "snd (id_chip v display len) = v"
  by (simp add: id_chip_def)

text \<open>A meter announces a value between zero and its limit, and its bar is as long as the value's share of it.\<close>

lemma meter_consistent:
  assumes "meter_values used limit0 = Some (v, m, t)" "0 < m"
  shows "0 \<le> v \<and> v \<le> m \<and> meter_fraction used limit0 = of_int v / of_int m"
proof -
  obtain l where l: "limit0 = Some l" "l = m" "v = min m (max 0 used)"
    using assms(1) by (cases limit0) (auto simp: meter_values_def split: if_splits)
  have r: "q_ratio (quotaState used limit0) = Some (of_int used / of_int m)"
    using l assms(2) by (simp add: quotaState_simps)
  have "max 0 (min 1 (of_int used / of_int m :: rat)) = of_int (min m (max 0 used)) / of_int m"
  proof (cases "used \<le> 0 \<or> m \<le> used")
    case True
    then show ?thesis
    proof
      assume "used \<le> 0"
      then have "(of_int used / of_int m :: rat) \<le> 0" using assms(2) by (simp add: divide_le_0_iff)
      with \<open>used \<le> 0\<close> assms(2) show ?thesis by simp
    next
      assume "m \<le> used"
      then have "1 \<le> (of_int used / of_int m :: rat)" using assms(2) by simp
      with \<open>m \<le> used\<close> assms(2) show ?thesis by simp
    qed
  next
    case False
    then have "0 \<le> (of_int used / of_int m :: rat)" "(of_int used / of_int m :: rat) \<le> 1" using assms(2) by simp_all
    with False show ?thesis by simp
  qed
  then show ?thesis using l assms(2) r by (simp add: meter_fraction_def)
qed

lemma tab_in_range:
  assumes "tabs \<noteq> []" "t \<in> set tabs" "tab_press key tabs t = Some u"
  shows "u \<in> set tabs"
proof -
  have n: "0 < int (length tabs)" using assms(1) by simp
  let ?nxt = "tab_next key (int (length tabs)) (find_index (\<lambda>x. x = t) tabs)"
  have "?nxt < int (length tabs)" by (cases key) (use n in \<open>simp_all add: tab_next_def\<close>)
  moreover have "0 \<le> ?nxt" "u = tabs ! nat ?nxt" using assms(3) by (simp_all add: tab_press_def Let_def split: if_splits)
  ultimately show ?thesis using n by (metis nat_less_iff nth_mem zless_nat_eq_int_zless)
qed

text \<open>The keys of the tabs go round and undo each other.\<close>

lemma tab_right_eq: "0 \<le> i \<Longrightarrow> i < n \<Longrightarrow> tab_next Tab_Right n i = (if i = n - 1 then 0 else i + 1)"
  by (auto simp: tab_next_def mod_pos_pos_trivial)

lemma tab_left_eq:
  assumes "0 \<le> i" "i < n"
  shows "tab_next Tab_Left n i = (if i = 0 then n - 1 else i - 1)"
proof (cases "i = 0")
  case True
  have "(n - 1) mod n = n - 1" using assms by (intro mod_pos_pos_trivial) simp_all
  with True show ?thesis by (simp only: tab_next_def tab_key.simps add_0 if_True simp_thms)
next
  case False
  then show ?thesis
    using assms mod_add_self2 [of "i - 1" n] by (simp add: tab_next_def mod_pos_pos_trivial algebra_simps)
qed

lemma tab_right_left:
  assumes "0 \<le> i" "i < n"
  shows "tab_next Tab_Left n (tab_next Tab_Right n i) = i" "tab_next Tab_Right n (tab_next Tab_Left n i) = i"
proof -
  have "tab_next Tab_Left n (if i = n - 1 then 0 else i + 1) = i"
    "tab_next Tab_Right n (if i = 0 then n - 1 else i - 1) = i"
    using assms by (simp_all add: tab_left_eq tab_right_eq)
  then show "tab_next Tab_Left n (tab_next Tab_Right n i) = i" "tab_next Tab_Right n (tab_next Tab_Left n i) = i"
    by (simp_all only: tab_left_eq [OF assms] tab_right_eq [OF assms])
qed

text \<open>The time shown by a page whose refresh action is never off is the time the page was opened, however often
  it has been used since.\<close>

lemma stamp_stays: "list_all (\<lambda>r. fst r = sp_seen s) rs \<Longrightarrow> fold stamp_render rs s = s"
  by (induction rs arbitrary: s) (simp_all add: stamp_render_def)

text \<open>The time of the last load in a page header. A page whose refresh action says when it is loading shows the
  time its latest loading has ended, whether it has succeeded or not; one whose action does not, as on the
  page of the service status, shows for ever the time it was opened.\<close>

lemma updated_stamp:
  "(list_all (\<lambda>r. fst r = Some False) rs \<longrightarrow> sp_stamp (fold stamp_render rs (stamp_first (Some False) opened)) = Some opened) \<and>
   sp_stamp (stamp_render (Some False, ended) (stamp_render (Some True, started) s)) = Some ended \<and>
   (refresh_action as = Some a \<and> \<not> ha_disabled a \<and> sp_stamp s = Some t \<and> t \<noteq> 0 \<longrightarrow>
      stamp_line time as None s = Some (''Updated '' @ time t))"
proof (intro conjI impI)
  assume "list_all (\<lambda>r. fst r = Some False) rs"
  then have "fold stamp_render rs (stamp_first (Some False) opened) = stamp_first (Some False) opened"
    by (intro stamp_stays) (simp add: stamp_first_def stamp_effect_def)
  then show "sp_stamp (fold stamp_render rs (stamp_first (Some False) opened)) = Some opened"
    by (simp add: stamp_first_def stamp_effect_def)
next
  show "sp_stamp (stamp_render (Some False, ended) (stamp_render (Some True, started) s)) = Some ended"
    by (cases "sp_seen s = Some True") (auto simp: stamp_render_def stamp_effect_def)
next
  assume "refresh_action as = Some a \<and> \<not> ha_disabled a \<and> sp_stamp s = Some t \<and> t \<noteq> 0"
  then show "stamp_line time as None s = Some (''Updated '' @ time t)" by (simp add: stamp_line_def)
qed

theorem updated_stamp_witness:
  "sp_stamp (fold stamp_render [(Some False, 20), (Some False, 30)] (stamp_first (Some False) 10)) = Some 10 \<and>
   stamp_line show_int [\<lparr>ha_label = ''Refresh'', ha_disabled = False, ha_icon = False, ha_reason = None\<rparr>] None
     \<lparr>sp_stamp = Some 10, sp_seen = Some False\<rparr> = Some ''Updated 10''"
proof -
  let ?a = "\<lparr>ha_label = ''Refresh'', ha_disabled = False, ha_icon = False, ha_reason = None\<rparr>"
  have a: "refresh_action [?a] = Some ?a"
    by code_simp
  have "show_int 10 = ''10''" by code_simp
  then show ?thesis
    using updated_stamp [of "[(Some False, 20), (Some False, 30)]" 10 0 0 "\<lparr>sp_stamp = Some 10, sp_seen = Some False\<rparr>"
        "[?a]" ?a 10 show_int] a
    by simp
qed

end
