(* ===== verification/ConsoleShell.thy ===== *)
theory ConsoleShell
  imports ConsoleAccess ConsoleKit ClientAuth Navigation Hooks
begin

text \<open>
  The frame of the console (\<open>web/src/layouts/Layouts.tsx\<close>): preferences kept in local storage, the
  sidebar and its drawer, the menus of the workspace and of the account, and the page under them,
  which is mounted for the access token of the session. The first section reads the workspace's id
  out of that token (\<open>sessionTenantId\<close> in \<open>auth/session.ts\<close>). Focus and markup are left out.
\<close>

section \<open>The id in the token\<close>

definition B64_ALPHABET :: string where
  "B64_ALPHABET = ''ABCDEFGHIJKLMNOPQRSTUVWXYZabcdefghijklmnopqrstuvwxyz0123456789+/''"

definition sextet :: "char \<Rightarrow> nat option" where
  "sextet = map_of (zip B64_ALPHABET [0..<64])"

text \<open>The bytes of a list of six-bit groups; a single group left over is an error, its unused bits are not.\<close>

fun b64_bytes :: "nat list \<Rightarrow> nat list option" where
  "b64_bytes (p # q # r # s # gs) =
     map_option (\<lambda>bs. (p * 4 + q div 16) # (q mod 16 * 16 + r div 4) # (r mod 4 * 64 + s) # bs) (b64_bytes gs)"
| "b64_bytes [p, q, r] = Some [p * 4 + q div 16, q mod 16 * 16 + r div 4]"
| "b64_bytes [p, q] = Some [p * 4 + q div 16]"
| "b64_bytes [p] = None"
| "b64_bytes [] = Some []"

definition b64_unpadded :: "string \<Rightarrow> string" where
  "b64_unpadded s =
     (if length s mod 4 \<noteq> 0 then s
      else if ends_with s ''=='' then take (length s - 2) s
      else if ends_with s ''='' then take (length s - 1) s else s)"

definition b64_space :: "char \<Rightarrow> bool" where
  "b64_space c = (c \<in> {CHR 0x09, CHR 0x0A, CHR 0x0C, CHR 0x0D, CHR '' ''})"

text \<open>\<open>atob\<close> of the browser: none when it throws. The result has one character per byte.\<close>

definition atob :: "string \<Rightarrow> string option" where
  "atob s =
     (let gs = map sextet (b64_unpadded (filter (\<lambda>c. \<not> b64_space c) s))
      in if None \<in> set gs then None
         else map_option (map (\<lambda>n. char_of n)) (b64_bytes (map the gs)))"

text \<open>\<open>sessionTenantId\<close>, with the parser of JSON, which gives none when it throws.\<close>

definition token_payload :: "string \<Rightarrow> string option" where
  "token_payload token =
     (case js_split CHR ''.'' token of
        _ # payload # _ \<Rightarrow> Some (replace_char CHR ''_'' CHR ''/'' (replace_char CHR ''-'' CHR ''+'' payload))
      | _ \<Rightarrow> None)"

definition sessionTenantId :: "(string \<Rightarrow> json option) \<Rightarrow> TenantSession \<Rightarrow> string option" where
  "sessionTenantId json_parse s =
     Option.bind (Option.bind (Option.bind (tn_accessToken s) token_payload) atob)
       (\<lambda>text0. Option.bind (json_parse text0) (\<lambda>claims. json_string (json_get claims ''tid'')))"

text \<open>The other direction, as tokens are written: groups of six bits in the alphabet for URLs, without padding.\<close>

definition URL_ALPHABET :: string where
  "URL_ALPHABET = ''ABCDEFGHIJKLMNOPQRSTUVWXYZabcdefghijklmnopqrstuvwxyz0123456789-_''"

fun b64_groups :: "nat list \<Rightarrow> nat list" where
  "b64_groups (a # b # c # bs) =
     a div 4 # (a mod 4 * 16 + b div 16) # (b mod 16 * 4 + c div 64) # c mod 64 # b64_groups bs"
| "b64_groups [a, b] = [a div 4, a mod 4 * 16 + b div 16, b mod 16 * 4]"
| "b64_groups [a] = [a div 4, a mod 4 * 16]"
| "b64_groups [] = []"

definition base64url :: "string \<Rightarrow> string" where
  "base64url s = map (\<lambda>g. URL_ALPHABET ! g) (b64_groups (map of_char s))"

lemma group_bounds: "\<forall>b\<in>set bs. b < 256 \<Longrightarrow> \<forall>g\<in>set (b64_groups bs). g < 64"
  by (induction bs rule: b64_groups.induct) auto

lemma bytes_groups: "\<forall>b\<in>set bs. b < 256 \<Longrightarrow> b64_bytes (b64_groups bs) = Some bs"
proof (induction bs rule: b64_groups.induct)
  case (1 a b c bs)
  then have "b div 16 < 16" "c div 64 < 4" by auto
  then have "(a div 4) * 4 + (a mod 4 * 16 + b div 16) div 16 = a"
    "(a mod 4 * 16 + b div 16) mod 16 * 16 + (b mod 16 * 4 + c div 64) div 4 = b"
    "(b mod 16 * 4 + c div 64) mod 4 * 64 + c mod 64 = c"
    by simp_all
  with 1 show ?case by simp
next
  case (2 a b)
  then have "b div 16 < 16" by auto
  then have "(a div 4) * 4 + (a mod 4 * 16 + b div 16) div 16 = a"
    "(a mod 4 * 16 + b div 16) mod 16 * 16 + b mod 16 * 4 div 4 = b"
    by simp_all
  with 2 show ?case by simp
qed simp_all

lemma groups_length: "length (b64_groups bs) mod 4 \<noteq> 1"
  by (induction bs rule: b64_groups.induct) (simp_all add: mod_Suc)

lemma alphabet_length: "length B64_ALPHABET = 64" "length URL_ALPHABET = 64"
  by (simp_all add: B64_ALPHABET_def URL_ALPHABET_def)

lemma alphabet_distinct: "distinct B64_ALPHABET"
  by code_simp

lemma sextet_nth: "g < 64 \<Longrightarrow> sextet (B64_ALPHABET ! g) = Some g"
  unfolding sextet_def using map_of_zip_nth [of B64_ALPHABET "[0..<64]" g]
  by (simp add: alphabet_length alphabet_distinct)

definition standard_char :: "char \<Rightarrow> char" where
  "standard_char c = (if c = CHR ''-'' then CHR ''+'' else if c = CHR ''_'' then CHR ''/'' else c)"

lemma to_standard:
  "replace_char CHR ''_'' CHR ''/'' (replace_char CHR ''-'' CHR ''+'' s) = map standard_char s"
  by (simp add: replace_char_def standard_char_def)

lemma alphabets_agree: "map standard_char URL_ALPHABET = B64_ALPHABET"
  by code_simp

lemma url_translated:
  assumes "\<forall>g\<in>set gs. g < 64"
  shows "map standard_char (map (\<lambda>g. URL_ALPHABET ! g) gs) = map (\<lambda>g. B64_ALPHABET ! g) gs"
  using assms by (simp add: alphabets_agree [symmetric] alphabet_length)

lemma alphabet_clean:
  "list_all (\<lambda>c. \<not> b64_space c \<and> c \<noteq> CHR ''='') B64_ALPHABET" "list_all (\<lambda>c. c \<noteq> CHR ''.'') URL_ALPHABET"
  by code_simp+

lemma nth_clean:
  assumes "g < 64"
  shows "\<not> b64_space (B64_ALPHABET ! g)" "B64_ALPHABET ! g \<noteq> CHR ''=''" "URL_ALPHABET ! g \<noteq> CHR ''.''"
  using alphabet_clean assms by (simp_all add: list_all_length alphabet_length)

lemma ends_with_set: "ends_with s p \<Longrightarrow> set p \<subseteq> set s"
  using set_take_subset [of "length p" "rev s"] by (auto simp: ends_with_def starts_with_def)

lemma unpadded_clean: "CHR ''='' \<notin> set s \<Longrightarrow> b64_unpadded s = s"
  using ends_with_set [of s "''=''"] ends_with_set [of s "''==''"] by (auto simp: b64_unpadded_def)

lemma atob_groups:
  assumes "\<forall>g\<in>set gs. g < 64"
  shows "atob (map (\<lambda>g. B64_ALPHABET ! g) gs) = map_option (map char_of) (b64_bytes gs)"
proof -
  let ?s = "map (\<lambda>g. B64_ALPHABET ! g) gs"
  have "filter (\<lambda>c. \<not> b64_space c) ?s = ?s"
    using assms by (intro filter_True) (auto simp: nth_clean)
  moreover have "b64_unpadded ?s = ?s" using assms nth_clean(2) by (intro unpadded_clean) fastforce
  moreover have "map sextet ?s = map Some gs" using assms by (simp add: sextet_nth)
  moreover from this have "map the (map sextet ?s) = gs" by (simp only:) (simp add: comp_def)
  ultimately show ?thesis by (simp add: atob_def del: map_map)
qed

lemma payload_of_token:
  assumes "CHR ''.'' \<notin> set h" "CHR ''.'' \<notin> set p"
  shows "token_payload (h @ ''.'' @ p @ ''.'' @ r) =
    Some (map standard_char p)"
  using assms js_split_append [of "CHR ''.''" h "p @ ''.'' @ r"] js_split_append [of "CHR ''.''" p r]
  by (simp add: token_payload_def to_standard)

theorem tenant_id_roundtrip:
  assumes header: "CHR ''.'' \<notin> set h"
    and token: "tn_accessToken s = Some (h @ ''.'' @ base64url claims @ ''.'' @ r)"
  shows "sessionTenantId json_parse s =
    Option.bind (json_parse claims) (\<lambda>c. json_string (json_get c ''tid''))"
proof -
  let ?gs = "b64_groups (map of_char claims)"
  have small: "\<forall>b\<in>set (map of_char claims). b < (256::nat)" by simp
  note bound = group_bounds [OF small]
  have "CHR ''.'' \<notin> set (base64url claims)"
    using bound nth_clean(3) by (fastforce simp: base64url_def)
  then have "Option.bind (tn_accessToken s) token_payload = Some (map (\<lambda>g. B64_ALPHABET ! g) ?gs)"
    using url_translated [OF bound] payload_of_token [OF header] token by (simp add: base64url_def del: map_map)
  then show ?thesis
    using atob_groups [OF bound] bytes_groups [OF small]
    by (simp add: sessionTenantId_def comp_def)
qed

section \<open>What the provider hands down\<close>

text \<open>A rendering of \<open>SessionProvider\<close>; a session event, a storage event and a timer of thirty seconds cause one.\<close>

definition SessionProvider ::
    "'a browser_scheme \<Rightarrow> (TenantSession option \<times> PlatformSession option \<times> (string \<Rightarrow> bool)) \<times> 'a browser_scheme" where
  "SessionProvider b =
     (case getTenantSession b of (tenant, b1) \<Rightarrow>
        case getPlatformSession b1 of (platform, b2) \<Rightarrow> ((tenant, platform, hasScope tenant), b2))"

text \<open>No page is handed a session that had lapsed when the provider was rendered.\<close>

lemma provider_current:
  assumes "fst (SessionProvider b) = (tenant, platform, can)"
  shows "tenant = Some s \<Longrightarrow> \<not> tenant_lapsed (now b) s"
    "platform = Some p \<Longrightarrow> \<not> platform_lapsed (now b) p"
    "can scope = hasScope tenant scope"
  using assms tenant_get_not_lapsed [of b] platform_get_not_lapsed [of b]
  by (auto simp: SessionProvider_def split_beta)

section \<open>Preferences\<close>

text \<open>Local storage, none where reading and writing it throws; texts are read with the parser of JSON.\<close>

type_synonym local_storage = "(string \<rightharpoonup> string) option"

definition read_pref :: "(string \<Rightarrow> 'a option) \<Rightarrow> local_storage \<Rightarrow> string \<Rightarrow> 'a \<Rightarrow> 'a" where
  "read_pref parse store key fallback =
     (case store of
        None \<Rightarrow> fallback
      | Some m \<Rightarrow> (case m key of None \<Rightarrow> fallback | Some raw \<Rightarrow> or_else (parse raw) fallback))"

definition save_pref :: "('a \<Rightarrow> string) \<Rightarrow> string \<Rightarrow> 'a \<Rightarrow> local_storage \<Rightarrow> local_storage" where
  "save_pref print key v store = map_option (\<lambda>m. m(key \<mapsto> print v)) store"

lemma pref_roundtrip:
  assumes "parse (print v) = Some v"
  shows "read_pref parse (save_pref print key v (Some m)) key fallback = v"
    "key' \<noteq> key \<Longrightarrow> read_pref parse (save_pref print key v store) key' fallback = read_pref parse store key' fallback"
    "read_pref parse (save_pref print key v None) key fallback = fallback"
  using assms by (auto simp: read_pref_def save_pref_def split: option.split)

section \<open>The sidebar\<close>

text \<open>The shadows of the scrolled menu: something above, something below.\<close>

definition measure_edges :: "rat \<Rightarrow> rat \<Rightarrow> rat \<Rightarrow> bool \<times> bool" where
  "measure_edges scrollTop clientHeight scrollHeight =
     (scrollTop > 2, scrollTop + clientHeight < scrollHeight - 2)"

record shell =
  sl_open :: bool
  sl_palette :: bool
  sl_collapsed :: bool
  sl_drawer :: bool
  sl_store :: local_storage

definition COLLAPSED_KEY :: string where
  "COLLAPSED_KEY = ''graphrec.sidebar.collapsed''"

text \<open>What is stored may be any JSON value; only whether it counts as true is looked at.\<close>

fun json_true :: "json \<Rightarrow> bool" where
  "json_true JNull = False"
| "json_true (JBool b) = b"
| "json_true (JNum x) = (x \<noteq> 0)"
| "json_true (JStr t) = (t \<noteq> [])"
| "json_true _ = True"

definition print_bool :: "bool \<Rightarrow> string" where
  "print_bool b = (if b then ''true'' else ''false'')"

text \<open>What the first rendering finds: the widths of the window and the preference written here before.\<close>

definition shell_first :: "(string \<Rightarrow> json option) \<Rightarrow> local_storage \<Rightarrow> bool \<Rightarrow> bool \<Rightarrow> shell" where
  "shell_first json_parse store below1280 below1024 =
     \<lparr>sl_open = False, sl_palette = False,
      sl_collapsed = read_pref (map_option json_true \<circ> json_parse) store COLLAPSED_KEY below1280,
      sl_drawer = below1024, sl_store = store\<rparr>"

definition railCollapsed :: "shell \<Rightarrow> bool" where
  "railCollapsed s = (sl_collapsed s \<and> \<not> sl_drawer s)"

definition toggleCollapsed :: "shell \<Rightarrow> shell" where
  "toggleCollapsed s =
     s\<lparr>sl_collapsed := \<not> sl_collapsed s,
       sl_store := save_pref print_bool COLLAPSED_KEY (\<not> sl_collapsed s) (sl_store s)\<rparr>"

definition shell_key :: "bool \<Rightarrow> string \<Rightarrow> shell \<Rightarrow> shell" where
  "shell_key meta_or_ctrl key s =
     (let s1 = (if sl_open s \<and> key = ''Escape'' then s\<lparr>sl_open := False\<rparr> else s)
      in if meta_or_ctrl \<and> to_lower key = ''k'' then s1\<lparr>sl_palette := \<not> sl_palette s1\<rparr> else s1)"

datatype shell_event =
  Menu_button | Close_drawer | Shell_key bool string | Path_changed | Width_changed bool
  | Collapse_button | Search_button | Palette_closed

fun shell_do :: "shell_event \<Rightarrow> shell \<Rightarrow> shell" where
  "shell_do Menu_button s = s\<lparr>sl_open := \<not> sl_open s\<rparr>"
| "shell_do Close_drawer s = s\<lparr>sl_open := False\<rparr>"
| "shell_do (Shell_key m k) s = shell_key m k s"
| "shell_do Path_changed s = s\<lparr>sl_open := False\<rparr>"
| "shell_do (Width_changed below1024) s = s\<lparr>sl_drawer := below1024\<rparr>"
| "shell_do Collapse_button s = toggleCollapsed s"
| "shell_do Search_button s = s\<lparr>sl_palette := True\<rparr>"
| "shell_do Palette_closed s = s\<lparr>sl_palette := False\<rparr>"

definition shell_class :: "shell \<Rightarrow> string" where
  "shell_class s =
     ''app-shell'' @ (if sl_open s then '' nav-open'' else []) @ (if railCollapsed s then '' sb-collapsed'' else [])"

definition menu_button_label :: "shell \<Rightarrow> string" where
  "menu_button_label s = (if sl_open s then ''Close navigation'' else ''Open navigation'')"

definition collapse_label :: "bool \<Rightarrow> string" where
  "collapse_label collapsed = (if collapsed then ''Expand sidebar'' else ''Collapse sidebar'')"

text \<open>The preference on screen is the one a reload finds, as long as storage works and was read at the start.\<close>

lemma shell_pref_kept:
  assumes parser: "json_parse ''true'' = Some (JBool True)" "json_parse ''false'' = Some (JBool False)"
    and store: "sl_store s = Some m"
    and start: "read_pref (map_option json_true \<circ> json_parse) (sl_store s) COLLAPSED_KEY d = sl_collapsed s"
  shows "read_pref (map_option json_true \<circ> json_parse) (sl_store (shell_do e s)) COLLAPSED_KEY d =
    sl_collapsed (shell_do e s)"
proof -
  have reads: "(map_option json_true \<circ> json_parse) (print_bool b) = Some b" for b
    using parser by (simp add: print_bool_def)
  show ?thesis
    using store start
    by (cases e) (simp_all add: toggleCollapsed_def shell_key_def Let_def pref_roundtrip(1) [where parse = "map_option json_true \<circ> json_parse" and print = print_bool, OF reads])
qed

section \<open>The menus of the frame\<close>

datatype ws_entry = Ws_home string string string | Ws_id string | Ws_copy string

definition ws_avatar :: "string \<Rightarrow> string" where
  "ws_avatar name = to_upper (take 1 name)"

definition WorkspaceSwitcher :: "string \<Rightarrow> string option \<Rightarrow> string \<Rightarrow> ws_entry list" where
  "WorkspaceSwitcher name tenantId home =
     Ws_home (ws_avatar name) name home #
     (if truthy tenantId then [Ws_id (the tenantId), Ws_copy (the tenantId)] else [])"

datatype um_entry = Um_link string string | Um_theme ThemeMode string bool | Um_sign_out

definition THEME_OPTIONS :: "(ThemeMode \<times> string) list" where
  "THEME_OPTIONS = [(Mode light, ''Light''), (Mode dark, ''Dark''), (system, ''System'')]"

definition UserMenu :: "string option \<Rightarrow> string option \<Rightarrow> ThemeMode \<Rightarrow> um_entry list" where
  "UserMenu accountTo plansTo mode =
     (if truthy accountTo then [Um_link ''Account'' (the accountTo)] else []) @
     (if truthy plansTo then [Um_link ''Plans & limits'' (the plansTo)] else []) @
     map (\<lambda>(m, label). Um_theme m label (mode = m)) THEME_OPTIONS @ [Um_sign_out]"

record frame =
  fr_key :: "string option"
  fr_home :: string
  fr_platform :: bool
  fr_workspace :: string
  fr_tenant_id :: "string option"
  fr_caption :: string
  fr_user :: string
  fr_detail :: "string option"
  fr_role :: string
  fr_account :: "string option"
  fr_plans :: "string option"

definition tenant_role_text :: "TenantUserRole \<Rightarrow> string" where
  "tenant_role_text r =
     capitalize (let l = roleLabel r in if starts_with l ''tenant '' then drop 7 l else l)"

definition TenantLayout :: "(string \<Rightarrow> json option) \<Rightarrow> TenantSession \<Rightarrow> frame" where
  "TenantLayout json_parse tenant =
     \<lparr>fr_key = tn_accessToken tenant, fr_home = ''/home'', fr_platform = False,
      fr_workspace = or_else (tn_tenantName tenant) ''Your workspace'',
      fr_tenant_id = sessionTenantId json_parse tenant, fr_caption = ''Tenant workspace'',
      fr_user = displayName (Some (tn_email tenant)) (Some (tn_role tenant)),
      fr_detail = Some (tn_email tenant), fr_role = tenant_role_text (tn_role tenant),
      fr_account = Some ''/account'', fr_plans = Some ''/pricing''\<rparr>"

definition PlatformLayout :: "PlatformSession \<Rightarrow> frame" where
  "PlatformLayout platform =
     \<lparr>fr_key = Some (pn_token platform), fr_home = ''/admin/status'', fr_platform = True,
      fr_workspace = ''Platform'', fr_tenant_id = None, fr_caption = ''Operator console'',
      fr_user = or_else (pn_displayName platform) ''Platform operator'',
      fr_detail = Some (or_else (pn_email platform) ''Development bootstrap token''),
      fr_role = (if pn_credential platform = Some cred_operator then ''Operator'' else ''Bootstrap''),
      fr_account = None, fr_plans = None\<rparr>"

text \<open>The quota line is mounted for a workspace while the sidebar is wide and usage may be read.\<close>

definition SidebarQuota :: "bool \<Rightarrow> TenantSession option \<Rightarrow> bool" where
  "SidebarQuota collapsed tenant = (\<not> collapsed \<and> hasScope tenant ''usage:read'')"

section \<open>The page under the frame\<close>

text \<open>
  What stands under \<open><Shell key={tenant.accessToken}>\<close>: an instance of the page and its state.
  A rendering with another key mounts a new instance, and an update that is
  addressed to an instance no longer mounted has no effect.
\<close>

record ('k, 'p) mounted =
  mt_instance :: nat
  mt_key :: "'k option"
  mt_page :: 'p

definition shell_render ::
    "'p \<Rightarrow> TenantSession option \<Rightarrow> (string option, 'p) mounted \<Rightarrow> (string option, 'p) mounted" where
  "shell_render first0 s m =
     (let key = map_option tn_accessToken s
      in if mt_key m = key then m
         else \<lparr>mt_instance = Suc (mt_instance m), mt_key = key, mt_page = first0\<rparr>)"

definition set_page :: "nat \<Rightarrow> ('p \<Rightarrow> 'p) \<Rightarrow> ('k, 'p) mounted \<Rightarrow> ('k, 'p) mounted" where
  "set_page i f m = (if mt_instance m = i then m\<lparr>mt_page := f (mt_page m)\<rparr> else m)"

definition credentials_page :: credentials where
  "credentials_page = \<lparr>cr_keys = None, cr_dialog = None, cr_secret = None\<rparr>"

lemma after_refresh_pair:
  assumes "tp_refresh_token pair \<noteq> [] \<or> 0 < tp_expires_in pair"
  shows "after_refresh session (Response 200 correlationId (JsonText (PPair pair))) w =
    Some (renewed session pair (now w))"
  using assms
  by (auto simp: after_refresh_def refresh_finish_def Let_def http_ok_def setTenantSession_def
      tenant_store.get_put tenant_lapsed_def tenant_session_of_def renewed_def)

lemma render_set:
  "mt_page (set_page (mt_instance m) f (shell_render first0 s m)) =
     (if mt_key m = map_option tn_accessToken s then f (mt_page m) else first0)"
  by (simp add: shell_render_def set_page_def Let_def)

lemma shown_secret: "cr_secret (showSecret title v c) = Some (title, v)"
  by (simp add: showSecret_def upsertRow_def Let_def)

text \<open>C38: a renewal of the access token loses what the credentials page has asked for. The
  page stands under a frame keyed by the token. After any answer to the refresh call, the
  secret of a credential that was being created is shown to the user exactly when the token is
  still the same. When the answer is a token pair with a new token, the page, its open dialog and
  what was typed are gone too, and the secret, which the server shows only once, is dropped.\<close>

theorem renewal_loses_secret:
  assumes page: "mt_key m = Some (tn_accessToken session)"
    and usable: "tp_refresh_token pair \<noteq> [] \<or> 0 < tp_expires_in pair"
    and new: "Some (tp_access_token pair) \<noteq> tn_accessToken session"
  shows "cr_secret (mt_page (set_page (mt_instance m) (showSecret title v)
           (shell_render credentials_page (after_refresh session reply w) m))) =
         (if map_option tn_accessToken (after_refresh session reply w) = Some (tn_accessToken session)
          then Some (title, v) else None) \<and>
         mt_page (set_page (mt_instance m) (showSecret title v)
           (shell_render credentials_page
             (after_refresh session (Response 200 correlationId (JsonText (PPair pair))) w) m)) =
         credentials_page"
proof -
  let ?renewal = "after_refresh session (Response 200 correlationId (JsonText (PPair pair))) w"
  have "map_option tn_accessToken ?renewal \<noteq> Some (tn_accessToken session)"
    using new by (simp add: after_refresh_pair [OF usable] renewed_def)
  then have "Some (tn_accessToken session) \<noteq> map_option tn_accessToken ?renewal" by metis
  moreover have "cr_secret (if Some t = k then showSecret title v p else credentials_page) =
      (if k = Some t then Some (title, v) else None)" for t k and p :: credentials
    by (cases k) (auto simp: shown_secret credentials_page_def)
  ultimately show ?thesis unfolding render_set page by (simp only: if_False simp_thms)
qed

section \<open>A run that loses a secret\<close>

text \<open>
  The administrator confirms the dialog ten seconds before the token lapses. The client renews
  the token first, the frame is mounted anew, and the answer with the secret arrives.
\<close>

definition near_lapse :: client where
  "near_lapse =
     snd (setTenantSession ''dana@shop.example''
       \<lparr>tp_access_token = ''A'', tp_expires_in = 10, tp_refresh_token = ''r1'', tp_user_role = tenant_administrator,
        tp_scopes = [''keys:write''], tp_email = None, tp_tenant_name = None\<rparr> None (page_load [] Map.empty True 0))"

definition new_pair :: AuthTokenPair where
  "new_pair =
     \<lparr>tp_access_token = ''B'', tp_expires_in = 900, tp_refresh_token = ''r2'', tp_user_role = tenant_administrator,
      tp_scopes = [''keys:write''], tp_email = None, tp_tenant_name = None\<rparr>"

definition submitted :: client where
  "submitted = request ''/v1/api-keys'' (no_options\<lparr>ro_method := Some POST, ro_json := Some (JObj [])\<rparr>) near_lapse"

definition answered :: client where
  "answered =
     deliver 1 (Response 201 None (JsonText (PValue (JObj [(''secret'', JStr ''grk_1'')]))))
       (deliver 0 (Response 200 None (JsonText (PPair new_pair))) submitted)"

lemma answered_run:
  "map (fl_path \<circ> snd) (inflight submitted) = [''/v1/auth/refresh'']"
  "map_option tn_accessToken (fst (getTenantSession submitted)) = Some (Some ''A'')"
  "settled answered = [(0, Inr (PValue (JObj [(''secret'', JStr ''grk_1'')])))]"
  "resource_changed answered = [''/v1/api-keys'']"
  by code_simp+

definition open_dialog :: "(string option, credentials) mounted" where
  "open_dialog =
     \<lparr>mt_instance = 0, mt_key = Some (Some ''A''),
      mt_page = \<lparr>cr_keys = Some [], cr_dialog = Some dialog_create, cr_secret = None\<rparr>\<rparr>"

definition made_key :: ApiKeySecretResource where
  "made_key =
     \<lparr>ak_id = ''k1'', ak_name = ''Storefront server'', ak_prefix = ''grk'', ak_scopes = [], ak_status = key_active,
      ak_expires_at = None, ak_created_at = ''2026-01-01T00:00:00Z'', ak_last_used_at = None, ak_revoked_at = None,
      ak_grace_expires_at = None, aks_secret = ''grk_1''\<rparr>"

theorem renewal_loses_secret_witness:
  "settled answered = [(0, Inr (PValue (JObj [(''secret'', JStr ''grk_1'')])))] \<and>
   (let session = the (fst (getTenantSession submitted));
        s' = after_refresh session (Response 200 None (JsonText (PPair new_pair))) submitted
    in cr_secret (mt_page (set_page 0 (showSecret ''Created'' made_key) (shell_render credentials_page (Some session) open_dialog))) =
         Some (''Created'', made_key) \<and>
       mt_page (set_page 0 (showSecret ''Created'' made_key) (shell_render credentials_page s' open_dialog)) = credentials_page)"
proof -
  let ?s = "the (fst (getTenantSession submitted))"
  have token: "tn_accessToken ?s = Some ''A''" using answered_run(2) by (cases "fst (getTenantSession submitted)") simp_all
  have "mt_page (set_page (mt_instance open_dialog) (showSecret ''Created'' made_key)
      (shell_render credentials_page (after_refresh ?s (Response 200 None (JsonText (PPair new_pair))) submitted) open_dialog)) =
    credentials_page"
    using renewal_loses_secret [of open_dialog ?s new_pair] token by (simp add: open_dialog_def new_pair_def)
  moreover have "cr_secret (mt_page (set_page (mt_instance open_dialog) (showSecret ''Created'' made_key)
      (shell_render credentials_page (Some ?s) open_dialog))) = Some (''Created'', made_key)"
    unfolding render_set by (simp add: open_dialog_def token shown_secret)
  moreover have "mt_instance open_dialog = 0" by (simp add: open_dialog_def)
  ultimately show ?thesis using answered_run(3) by (simp add: Let_def)
qed

end
