(* ===== verification/ConsoleDetail.thy ===== *)
theory ConsoleDetail
  imports ConsoleModels ConsoleTenants ConsoleShell
begin

text \<open>
  Two pages of details: the rows and the notices of the model registry and the page of a version
  (\<open>pages/tenant/ModelsPages.tsx\<close>), and the page of a tenant with its dialogs and its recovery token
  (\<open>pages/platform/TenantPages.tsx\<close>).
\<close>

section \<open>The registry\<close>

definition STATUS_HELP_MODEL :: "(string \<times> string) list" where
  "STATUS_HELP_MODEL =
     [(''eligible'', ''Available; never served. Activate to serve it.''), (''active'', ''Serving now.''),
      (''retired'', ''Available; served before and can be rolled back to.''),
      (''archived'', ''Audit only; cannot serve.'')]"

text \<open>The name of the workspace read off the address: \<open>shop\<close> of \<open>dana@shop.example\<close>, with capital letters.\<close>

definition word_char :: "char \<Rightarrow> bool" where
  "word_char c = (is_lower c \<or> is_upper c \<or> is_digit c \<or> c = CHR ''_'')"

fun dashes_to_space :: "string \<Rightarrow> string" where
  "dashes_to_space [] = []"
| "dashes_to_space [c] = (if c \<in> set ''-_'' then '' '' else [c])"
| "dashes_to_space (c # d # cs) =
     (if c \<in> set ''-_'' then (if d \<in> set ''-_'' then dashes_to_space (d # cs) else CHR '' '' # dashes_to_space (d # cs))
      else c # dashes_to_space (d # cs))"

fun upper_words :: "bool \<Rightarrow> string \<Rightarrow> string" where
  "upper_words inside [] = []"
| "upper_words inside (c # cs) =
     (if word_char c \<and> \<not> inside then upper_char c else c) # upper_words (word_char c) cs"

definition useTenantEmailDomain :: "TenantSession option \<Rightarrow> string option" where
  "useTenantEmailDomain tenant =
     (case tenant of
        None \<Rightarrow> None
      | Some s \<Rightarrow>
          (case js_split CHR ''@'' (tn_email s) of
             _ # d # _ \<Rightarrow> (let domain = hd (js_split CHR ''.'' d) in
                          if domain = [] then None else Some (upper_words False (dashes_to_space domain)))
           | _ \<Rightarrow> None))"

text \<open>The entries behind the dots of a row, each with its hint.\<close>

definition NO_ROLE :: string where
  "NO_ROLE = ''Your role cannot activate models.''"

definition row_menu :: "bool \<Rightarrow> ModelVersionResource list \<Rightarrow> ModelVersionResource \<Rightarrow> (menu_item \<times> string option) list" where
  "row_menu canDeploy items v =
     (let rollbackTo = rollback_link canDeploy items v in
      [(\<lparr>me_label = ''View details'', me_to = Some (''/models/'' @ mv_id v), me_disabled = False\<rparr>, None)] @
      (if mv_status v = ''eligible''
       then [(\<lparr>me_label = ''Activate'', me_to = None, me_disabled = \<not> canDeploy\<rparr>, if canDeploy then None else Some NO_ROLE)] else []) @
      (if mv_status v = ''retired''
       then [(\<lparr>me_label = ''Roll back to this version'', me_to = rollbackTo, me_disabled = (rollbackTo = None)\<rparr>,
              if rollbackTo \<noteq> None then None else Some NO_ROLE)] else []) @
      [(\<lparr>me_label = ''Copy version ID'', me_to = None, me_disabled = False\<rparr>, None)])"

definition none_serving :: "ModelVersionResource list option \<Rightarrow> (string \<times> string) option" where
  "none_serving items =
     (case items of
        Some (v # vs) \<Rightarrow>
          if active_model (v # vs) = None
          then Some (''No version is serving'', ''Activate an available version to start answering recommendation requests.'') else None
      | _ \<Rightarrow> None)"

definition registry_head ::
    "(string \<Rightarrow> int option) \<Rightarrow> TenantSession option \<Rightarrow> ModelVersionResource list \<Rightarrow> string \<times> string" where
  "registry_head parse tenant items =
     (if items = [] then (''Each training run registers a version. Exactly one version serves at a time.'', [])
      else (let types = js_join '', '' (model_types items); workspace = or_else (useTenantEmailDomain tenant) [] in
            (if types = [] then ''Model'' else types) @ (if workspace = [] then [] else '' '' @ mid_dot @ '' '' @ workspace),
            show_int (int (length items)) @ (if length items = 1 then '' version'' else '' versions'') @ '' '' @ mid_dot @ '' '' @
            (case active_model items of Some a \<Rightarrow> ''v'' @ show_int (vNum parse items a) @ '' serving'' | None \<Rightarrow> ''none serving'')))"

text \<open>The button of the page: its label, whether it is the main one; both lead to the training page.\<close>

definition registry_actions :: "(string \<Rightarrow> bool) \<Rightarrow> (string \<times> bool) list" where
  "registry_actions can =
     (if can ''training:write'' then [(''+ Train new version'', True)]
      else if can ''training:read'' then [(''Training'', False)] else [])"

definition status_filter_shown :: "ModelVersionResource list \<Rightarrow> bool" where
  "status_filter_shown items = (length items > 4)"

definition registry_empty :: "string \<Rightarrow> string \<times> string" where
  "registry_empty status =
     (if status = ''all statuses'' then (''No model versions yet'', ''Train or import a model to produce your first version.'')
      else (''No versions match this filter'', ''Choose another status or clear the filter.''))"

text \<open>A dialog to activate: what it says of the version that serves now.\<close>

definition activate_consequence :: "ModelVersionResource option \<Rightarrow> string" where
  "activate_consequence active =
     (case active of
        Some a \<Rightarrow> mv_version_tag a @ '' is retired and retained as a roll-back target.''
      | None \<Rightarrow> ''This selects the first active model. Request metrics are available on Service Status.'')"

definition activate_facts ::
    "(string \<Rightarrow> string) \<Rightarrow> ModelVersionResource \<Rightarrow> ModelVersionResource option \<Rightarrow> (string \<times> string) list" where
  "activate_facts when version active =
     (let score = (\<lambda>key. case model_metric version key of Some x \<Rightarrow> to_fixed 3 x | None \<Rightarrow> DASH) in
      [(''Model type'', modelTypeLabel (Some (mv_model_type version))),
       (''Current active'', case active of Some a \<Rightarrow> mv_version_tag a | None \<Rightarrow> ''none''),
       (''Created'', when (mv_created_at version)),
       (''Hit@10 '' @ mid_dot @ '' NDCG@10'', score ''Hit@10'' @ '' '' @ mid_dot @ '' '' @ score ''NDCG@10'')])"

section \<open>A version\<close>

datatype version_page = Version_missing | Version_waiting bool | Version_shown ModelVersionResource

text \<open>Which page a version has: none, a banner or a skeleton, or its details.\<close>

definition ModelVersionDetail :: "exn option \<Rightarrow> ModelVersionResource option \<Rightarrow> version_page" where
  "ModelVersionDetail error version =
     (if tenant_not_found error then Version_missing
      else case version of Some v \<Rightarrow> Version_shown v | None \<Rightarrow> Version_waiting (error \<noteq> None))"

definition version_line :: "ModelVersionResource \<Rightarrow> TrainingJobResource option \<Rightarrow> string" where
  "version_line v producingJob =
     (if mv_status v = ''active'' then ''Selected for recommendation requests.''
      else if producingJob \<noteq> None then ''Registered by a training run.'' else ''Registered model version.'')"

definition producingJob :: "TrainingJobResource list option \<Rightarrow> ModelVersionResource \<Rightarrow> TrainingJobResource option" where
  "producingJob jobs v = Option.bind jobs (find (\<lambda>j. tj_model_version_id j = Some (mv_id v)))"

text \<open>Recorded measures: numbers of the validation whose name ends in a cut-off such as \<open>@10\<close>.\<close>

definition at_cutoff :: "string \<Rightarrow> bool" where
  "at_cutoff key =
     (takeWhile is_digit (rev key) \<noteq> [] \<and>
      (case dropWhile is_digit (rev key) of c # _ \<Rightarrow> c = CHR ''@'' | [] \<Rightarrow> False))"

fun leaf_number :: "metric_leaf \<Rightarrow> rat option" where
  "leaf_number (Leaf (JNum x)) = Some x"
| "leaf_number _ = None"

definition metricEntries :: "ModelVersionResource \<Rightarrow> (string \<times> rat) list" where
  "metricEntries v =
     List.map_filter (\<lambda>(key, leaf). case leaf_number leaf of
         Some x \<Rightarrow> if starts_with key ''validation.'' \<and> at_cutoff key then Some (key, x) else None
       | None \<Rightarrow> None)
       (flattenMetrics (Some (JObj (mv_metrics v))))"

text \<open>A row of the comparison with the serving version, or the score alone; \<open>Object.fromEntries\<close> keeps the last entry.\<close>

definition metric_cells :: "ModelVersionResource option \<Rightarrow> ModelVersionResource \<Rightarrow> string \<times> rat \<Rightarrow> string list" where
  "metric_cells active v entry =
     (case entry of (key, mine) \<Rightarrow>
        (case active of
           Some a \<Rightarrow>
             if mv_id a \<noteq> mv_id v
             then (let theirs = Option.bind (map_of (rev (flattenMetrics (Some (JObj (mv_metrics a))))) key) leaf_number in
                   [humanizeKey key, to_fixed 4 mine, (case theirs of Some t \<Rightarrow> to_fixed 4 t | None \<Rightarrow> DASH),
                    difference_cell (Some mine) theirs])
             else [humanizeKey key, to_fixed 4 mine]
         | None \<Rightarrow> [humanizeKey key, to_fixed 4 mine]))"

definition quality_title :: "ModelVersionResource option \<Rightarrow> ModelVersionResource \<Rightarrow> string" where
  "quality_title active v =
     (if (case active of Some a \<Rightarrow> mv_id a \<noteq> mv_id v | None \<Rightarrow> False)
      then (if comparisonOf (mv_metrics v) \<noteq> None then ''Recorded quality (each version on its own split)''
            else ''Quality compared with the active version'')
      else ''Offline quality'')"

definition artifact_cell :: "ModelVersionResource \<Rightarrow> string" where
  "artifact_cell v =
     (if truthy (checkpointOf v) then the (checkpointOf v)
      else if truthy (mv_artifact_uri v) then the (mv_artifact_uri v) else ''Not recorded'')"

definition index_cell :: "ModelVersionResource \<Rightarrow> TrainingJobResource option \<Rightarrow> string" where
  "index_cell v job =
     (case mv_qdrant_collection v of Some c \<Rightarrow> c
      | None \<Rightarrow> or_else (Option.bind job tj_qdrant_collection) ''Not recorded'')"

text \<open>What stays of a finished dialog: the dialog is closed, the message, and where the page goes.\<close>

record version_page_state =
  vp_dialog :: "version_dialog option"
  vp_version :: "ModelVersionResource option"
  vp_flash :: "string option"
  vp_path :: "string option"
  vp_reloads :: nat

definition activate_done :: "ModelVersionResource \<Rightarrow> version_page_state \<Rightarrow> version_page_state" where
  "activate_done updated s =
     s\<lparr>vp_dialog := None, vp_version := Some updated, vp_flash := Some (mv_version_tag updated @ '' activated.''),
       vp_reloads := Suc (vp_reloads s)\<rparr>"

definition rollback_done :: "ModelVersionResource \<Rightarrow> version_page_state \<Rightarrow> version_page_state" where
  "rollback_done restored s =
     s\<lparr>vp_dialog := None, vp_flash := Some (''Rolled back to '' @ mv_version_tag restored @ ''.''), vp_path := Some ''/models''\<rparr>"

definition archive_done :: "ModelVersionResource \<Rightarrow> version_page_state \<Rightarrow> version_page_state" where
  "archive_done archived0 s =
     s\<lparr>vp_dialog := None, vp_flash := Some (mv_version_tag archived0 @ '' archived.''), vp_path := Some ''/models''\<rparr>"

text \<open>A registry whose versions are all retired is a dead end: the page says that none is serving and asks to activate one,
  but no row and no page of a version offers it, and what the menu offers is switched off with
  the hint that the member's role is to blame, whatever the role.\<close>

lemma retired_dead_end:
  assumes items: "items \<noteq> []" "list_all (\<lambda>v. mv_status v = ''retired'') items" and v: "v \<in> set items"
    and view: "vv_version w = v" "vv_all w = Some items"
  shows "none_serving (Some items) \<noteq> None \<and>
    row_primary canDeploy items v = Details_Of (''/models/'' @ mv_id v) \<and>
    (\<lparr>me_label = ''Roll back to this version'', me_to = None, me_disabled = True\<rparr>, Some NO_ROLE)
      \<in> set (row_menu canDeploy items v) \<and>
    map fst (version_actions lc w) = [''Archive''] \<and> (rb_dialog s0 = Some Dialog_Rollback \<or> \<not> rollback_open w s0)"
proof -
  have status: "mv_status v = ''retired''" using items(2) v by (auto simp: list_all_iff)
  have none: "active_model items = None"
    using items(2) by (auto simp: active_model_def find_None_iff list_all_iff)
  then have link: "rollback_link canDeploy items v = None" by (simp add: rollback_link_def)
  have "none_serving (Some items) \<noteq> None" using items(1) none by (cases items) (simp_all add: none_serving_def)
  moreover have "row_primary canDeploy items v = Details_Of (''/models/'' @ mv_id v)"
    using status link by (simp add: row_primary_def)
  moreover have "(\<lparr>me_label = ''Roll back to this version'', me_to = None, me_disabled = True\<rparr>, Some NO_ROLE)
      \<in> set (row_menu canDeploy items v)"
    using status link by (simp add: row_menu_def Let_def)
  moreover have "map fst (version_actions lc w) = [''Archive'']" using status view by (simp add: version_actions_def Let_def)
  moreover have "rb_dialog s0 = Some Dialog_Rollback \<or> \<not> rollback_open w s0"
    using status view by (auto simp: rollback_open_def canRollback_def)
  ultimately show ?thesis by blast
qed

section \<open>A tenant\<close>

datatype detail_dialog = Detail_Status | Detail_Override | Detail_Plan | Detail_Recovery

record tenant_detail =
  td_tenant :: "PlatformTenant option"
  td_dialog :: "detail_dialog option"
  td_recovery :: "(string \<times> string) option"
  td_flash :: "string option"
  td_reloads :: "string list"

definition tenant_detail_first :: tenant_detail where
  "tenant_detail_first = \<lparr>td_tenant = None, td_dialog = None, td_recovery = None, td_flash = None, td_reloads = []\<rparr>"

definition open_detail :: "detail_dialog \<Rightarrow> tenant_detail \<Rightarrow> tenant_detail" where
  "open_detail d s = (if d = Detail_Recovery then s\<lparr>td_recovery := None, td_dialog := Some d\<rparr> else s\<lparr>td_dialog := Some d\<rparr>)"

definition close_detail :: "tenant_detail \<Rightarrow> tenant_detail" where
  "close_detail s = s\<lparr>td_dialog := None\<rparr>"

definition hide_token :: "tenant_detail \<Rightarrow> tenant_detail" where
  "hide_token s = s\<lparr>td_recovery := None\<rparr>"

definition recovery_done :: "string \<times> string \<Rightarrow> tenant_detail \<Rightarrow> tenant_detail" where
  "recovery_done issued s =
     s\<lparr>td_dialog := None, td_recovery := Some issued, td_flash := Some ''One-time recovery token issued.''\<rparr>"

definition status_done :: "PlatformTenant \<Rightarrow> tenant_detail \<Rightarrow> tenant_detail" where
  "status_done updated s =
     s\<lparr>td_dialog := None, td_tenant := Some updated,
       td_flash := Some (pt_slug updated @ '' is now '' @ pt_status updated @ ''.'')\<rparr>"

definition override_done :: "PlatformTenant \<Rightarrow> tenant_detail \<Rightarrow> tenant_detail" where
  "override_done t s =
     s\<lparr>td_dialog := None, td_reloads := td_reloads s @ [''quota'', ''usage''],
       td_flash := Some (''Quota override approved for '' @ pt_slug t @ ''.'')\<rparr>"

text \<open>Whether a token may be asked for: the button is off for a tenant that is not active.\<close>

definition recovery_off :: "PlatformTenant \<Rightarrow> bool" where
  "recovery_off t = (pt_status t \<noteq> ''active'')"

text \<open>A row of effective limits and overrides; limits that are no numbers are printed as they are.\<close>

definition quota_row :: "(json \<Rightarrow> string) \<Rightarrow> (json \<Rightarrow> string) \<Rightarrow> (string \<times> json) list \<Rightarrow> string \<times> json \<Rightarrow> string \<times> string \<times> string" where
  "quota_row number str overrides kv =
     (humanizeKey (fst kv), case snd kv of JNum x \<Rightarrow> number (JNum x) | j \<Rightarrow> str j,
      case map_of (rev overrides) (fst kv) of Some j \<Rightarrow> number j | None \<Rightarrow> DASH)"

section \<open>Whose recovery token\<close>

text \<open>
  The page is mounted for the tenant in the address (\<open><PlatformTenantDetail key={tenantId}>\<close>). A request for a token
  goes to the tenant of the page that made it; its answer is delivered to that page, and the message to the
  toast of the whole application, whichever page is on screen by then.
\<close>

record tenant_route =
  tr_page :: "(string, tenant_detail) mounted"
  tr_pending :: "(nat \<times> string) list"
  tr_issued :: "(string \<times> string) list"
  tr_toast :: "string option"

definition keyed_render :: "string \<Rightarrow> (string, tenant_detail) mounted \<Rightarrow> (string, tenant_detail) mounted" where
  "keyed_render tenant m =
     (if mt_key m = Some tenant then m
      else \<lparr>mt_instance = Suc (mt_instance m), mt_key = Some tenant, mt_page = tenant_detail_first\<rparr>)"

datatype route_event =
  Go_tenant string | Open_dialog detail_dialog | Close_dialog | Hide_token
  | Confirm_recovery | Token_issued nat string string

fun route_step :: "route_event \<Rightarrow> tenant_route \<Rightarrow> tenant_route" where
  "route_step (Go_tenant t) w = w\<lparr>tr_page := keyed_render t (tr_page w)\<rparr>"
| "route_step (Open_dialog d) w = w\<lparr>tr_page := (tr_page w)\<lparr>mt_page := open_detail d (mt_page (tr_page w))\<rparr>\<rparr>"
| "route_step Close_dialog w = w\<lparr>tr_page := (tr_page w)\<lparr>mt_page := close_detail (mt_page (tr_page w))\<rparr>\<rparr>"
| "route_step Hide_token w = w\<lparr>tr_page := (tr_page w)\<lparr>mt_page := hide_token (mt_page (tr_page w))\<rparr>\<rparr>"
| "route_step Confirm_recovery w =
     (case (mt_key (tr_page w), td_dialog (mt_page (tr_page w))) of
        (Some t, Some Detail_Recovery) \<Rightarrow> w\<lparr>tr_pending := tr_pending w @ [(mt_instance (tr_page w), t)]\<rparr>
      | _ \<Rightarrow> w)"
| "route_step (Token_issued n token expires) w =
     (if n < length (tr_pending w)
      then (case tr_pending w ! n of (i, t) \<Rightarrow>
              w\<lparr>tr_page := set_page i (recovery_done (token, expires)) (tr_page w),
                tr_pending := take n (tr_pending w) @ drop (Suc n) (tr_pending w),
                tr_issued := tr_issued w @ [(t, token)],
                tr_toast := Some ''One-time recovery token issued.''\<rparr>)
      else w)"

definition route_first :: tenant_route where
  "route_first =
     \<lparr>tr_page = \<lparr>mt_instance = 0, mt_key = None, mt_page = tenant_detail_first\<rparr>, tr_pending = [], tr_issued = [], tr_toast = None\<rparr>"

definition route_ok :: "tenant_route \<Rightarrow> bool" where
  "route_ok w =
     (list_all (\<lambda>(i, t). i \<le> mt_instance (tr_page w) \<and> (i = mt_instance (tr_page w) \<longrightarrow> mt_key (tr_page w) = Some t)) (tr_pending w) \<and>
      (case td_recovery (mt_page (tr_page w)) of
         Some (token, _) \<Rightarrow> (\<exists>t. mt_key (tr_page w) = Some t \<and> (t, token) \<in> set (tr_issued w))
       | None \<Rightarrow> True))"

lemma route_step_ok:
  assumes ok: "route_ok w"
  shows "route_ok (route_step e w)"
proof (cases e)
  case (Go_tenant t)
  show ?thesis
  proof (cases "mt_key (tr_page w) = Some t")
    case True
    then show ?thesis using Go_tenant ok by (simp add: keyed_render_def)
  next
    case False
    have "list_all (\<lambda>(i, t'). i \<le> mt_instance (tr_page w)) (tr_pending w)"
      using ok by (auto simp: route_ok_def list_all_iff)
    then have "list_all (\<lambda>(i, t'). i \<le> Suc (mt_instance (tr_page w)) \<and> i \<noteq> Suc (mt_instance (tr_page w))) (tr_pending w)"
      by (rule list.pred_mono_strong) auto
    then have "list_all (\<lambda>(i, t'). i \<le> Suc (mt_instance (tr_page w)) \<and>
        (i = Suc (mt_instance (tr_page w)) \<longrightarrow> t = t')) (tr_pending w)"
      by (rule list.pred_mono_strong) auto
    with False show ?thesis using Go_tenant
      by (simp add: route_ok_def keyed_render_def tenant_detail_first_def)
  qed
next
  case (Open_dialog d)
  then show ?thesis using ok by (auto simp: route_ok_def open_detail_def split: option.splits)
next
  case Confirm_recovery
  then show ?thesis
    using ok by (auto simp: route_ok_def split: option.splits detail_dialog.splits)
next
  case (Token_issued n token expires)
  show ?thesis
  proof (cases "n < length (tr_pending w)")
    case True
    obtain i t where entry: "tr_pending w ! n = (i, t)" by (cases "tr_pending w ! n")
    then have "(i, t) \<in> set (tr_pending w)" using True nth_mem by fastforce
    then have key: "i = mt_instance (tr_page w) \<longrightarrow> mt_key (tr_page w) = Some t"
      using ok by (auto simp: route_ok_def list_all_iff)
    have rest: "list_all P (tr_pending w) \<Longrightarrow> list_all P (take n (tr_pending w) @ drop (Suc n) (tr_pending w))" for P
      by (auto simp: list_all_iff dest: in_set_takeD in_set_dropD)
    show ?thesis
      using Token_issued True entry ok key rest
      by (auto simp: route_ok_def set_page_def recovery_done_def split: option.splits)
  next
    case False
    then show ?thesis using Token_issued ok by simp
  qed
qed (use ok in \<open>auto simp: route_ok_def close_detail_def hide_token_def split: option.splits\<close>)

text \<open>A recovery token on screen was issued for the tenant of that page, however dialogs, answers and moves between tenants
  interleave: an answer that comes after the operator has moved to another tenant is shown nowhere.\<close>

lemma recovery_of_tenant:
  assumes "td_recovery (mt_page (tr_page (fold route_step es route_first))) = Some (token, expires)"
  shows "\<exists>t. mt_key (tr_page (fold route_step es route_first)) = Some t \<and>
    (t, token) \<in> set (tr_issued (fold route_step es route_first))"
proof -
  have "route_ok (fold route_step es w)" if "route_ok w" for w
    using that by (induction es arbitrary: w) (simp_all add: route_step_ok)
  moreover have "route_ok route_first" by (simp add: route_ok_def route_first_def tenant_detail_first_def)
  ultimately have "route_ok (fold route_step es route_first)" by blast
  with assms show ?thesis by (simp add: route_ok_def)
qed

text \<open>The other side of it: the answer that comes after the operator has moved on is announced on the page of the other
  tenant, and its token, which revoked the earlier ones, can be read nowhere.\<close>

lemma recovery_lost:
  assumes "t' \<noteq> t"
  shows "fold route_step
      [Go_tenant t, Open_dialog Detail_Recovery, Confirm_recovery, Go_tenant t', Token_issued 0 token expires] route_first =
    \<lparr>tr_page = \<lparr>mt_instance = 2, mt_key = Some t', mt_page = tenant_detail_first\<rparr>, tr_pending = [],
     tr_issued = [(t, token)], tr_toast = Some ''One-time recovery token issued.''\<rparr>"
  using assms by (simp add: route_first_def keyed_render_def open_detail_def set_page_def)

end
