(* ===== verification/Marketing.thy ===== *)
theory Marketing
  imports RouteProps ConsoleUsage UrlCoding
begin

text \<open>
  The public site (\<open>web/src/layouts/MarketingLayout.tsx\<close>, \<open>pages/marketing/PricingPage.tsx\<close>,
  \<open>pages/marketing/sections/\<close>) and the pages of errors (\<open>pages/errors/ErrorPages.tsx\<close>): the links it offers to whoever is
  looking, its mobile menu, where an address with a section scrolls to, the tables of plans and the tabs of its
  code samples. A link is its target and its label.
\<close>

section \<open>Links\<close>

definition SECTION_LINKS :: "(string \<times> string) list" where
  "SECTION_LINKS =
     [(''features'', ''Features''), (''how-it-works'', ''How it works''), (''developers'', ''Developers''),
      (''security'', ''Security'')]"

definition HeaderCta :: "bool \<Rightarrow> bool \<Rightarrow> (string \<times> string) list" where
  "HeaderCta tenant platform =
     (if tenant then [(''/home'', ''Open console'')]
      else if platform then [(''/admin/status'', ''Open platform console'')]
      else [(''/login'', ''Sign in''), (''/register'', ''Create account'')])"

definition shown_sections :: "bool \<Rightarrow> bool \<Rightarrow> (string \<times> string) list" where
  "shown_sections tenant platform = (if tenant \<or> platform then [] else SECTION_LINKS)"

definition section_link :: "string \<times> string \<Rightarrow> string \<times> string" where
  "section_link s = (''/#'' @ fst s, snd s)"

definition marketing_nav :: "bool \<Rightarrow> bool \<Rightarrow> (string \<times> string) list" where
  "marketing_nav tenant platform =
     map section_link (shown_sections tenant platform) @ [(''/docs'', ''Docs''), (''/pricing'', ''Pricing'')]"

definition marketing_footer :: "bool \<Rightarrow> bool \<Rightarrow> (string \<times> (string \<times> string) list) list" where
  "marketing_footer tenant platform =
     [(''Product'',
         map section_link (filter (\<lambda>s. fst s = ''features'' \<or> fst s = ''how-it-works'') (shown_sections tenant platform))
         @ [(''/pricing'', ''Pricing'')]),
      (''Console'',
         [(''/login'', ''Sign in''), (''/register'', ''Create account''), (''/setup'', ''Finish account setup''),
          (''/recover'', ''Reset password'')]),
      (''Developers'',
         [(''/docs'', ''Documentation''), (''/docs/reference'', ''API Reference''), (''/docs/sdk'', ''Python SDK''),
          (''/docs/errors-and-limits#changelog'', ''Changelog'')]),
      (''Operators'', [(''/admin/login'', ''Platform sign-in'')])]"

definition hero_links :: "(string \<times> string) list" where
  "hero_links =
     [(''/register'', ''Create account''), (''/docs'', ''Read API Docs''), (''/pricing'', ''See pricing''), (''/login'', ''Sign in'')]"

definition developer_links :: "(string \<times> string) list" where
  "developer_links =
     [(''/docs'', ''Developer Quickstart''), (''/docs/reference'', ''API Reference (85 Endpoints)''),
      (''/docs/sdk'', ''Python SDK Reference'')]"

definition final_links :: "(string \<times> string) list" where
  "final_links = [(''/register'', ''Create account''), (''/login'', ''Sign in'')]"

text \<open>Where "start" is, on the pages of errors.\<close>

definition useStartLink :: "visitor \<Rightarrow> string \<times> string" where
  "useStartLink v =
     (if v_tenant v \<noteq> None then (''/home'', ''Go to Overview'')
      else if v_platform v \<noteq> None then (''/admin/status'', ''Go to Platform Status'')
      else (''/'', ''Go to GraphRec home''))"

text \<open>The reference a failure page shows, and the one its button copies.\<close>

definition failure_reference :: "string option \<Rightarrow> string \<times> string option" where
  "failure_reference r = (or_else r ''not available'', r)"

section \<open>The mobile menu\<close>

datatype nav_event = Menu_toggle | Menu_escape | Menu_link | Menu_scrim | Menu_moved

text \<open>Whether the menu is open, and whether the focus goes back to its button.\<close>

definition nav_menu :: "nav_event \<Rightarrow> bool \<Rightarrow> bool \<times> bool" where
  "nav_menu e open0 =
     (case e of
        Menu_toggle \<Rightarrow> (\<not> open0, False)
      | Menu_escape \<Rightarrow> (False, open0)
      | Menu_link \<Rightarrow> (False, False)
      | Menu_scrim \<Rightarrow> (False, False)
      | Menu_moved \<Rightarrow> (False, False))"

section \<open>Scrolling to a section\<close>

text \<open>
  \<open>decodeURIComponent\<close> on the bytes of a text: an escape is a percent sign and two hexadecimal digits; the
  escapes of a character beyond ASCII follow each other and make one well-formed sequence of UTF-8. Anything else throws.
\<close>

definition is_hex :: "char \<Rightarrow> bool" where
  "is_hex c = (is_digit c \<or> c \<in> set ''ABCDEFabcdef'')"

definition hex_of :: "char \<Rightarrow> nat" where
  "hex_of c = (if is_digit c then of_char c - 48 else if is_upper c then of_char c - 55 else of_char c - 87)"

fun escape_at :: "string \<Rightarrow> (nat \<times> string) option" where
  "escape_at (p # a # b # r) =
     (if p = CHR ''%'' \<and> is_hex a \<and> is_hex b then Some (16 * hex_of a + hex_of b, r) else None)"
| "escape_at _ = None"

fun continuation :: "nat \<Rightarrow> string \<Rightarrow> (nat list \<times> string) option" where
  "continuation 0 s = Some ([], s)"
| "continuation (Suc n) s =
     (case escape_at s of
        Some (b, r) \<Rightarrow>
          if 128 \<le> b \<and> b < 192
          then (case continuation n r of Some (bs, t) \<Rightarrow> Some (b # bs, t) | None \<Rightarrow> None) else None
      | None \<Rightarrow> None)"

definition utf8_tail :: "nat \<Rightarrow> nat option" where
  "utf8_tail b =
     (if b < 128 then Some 0 else if 194 \<le> b \<and> b < 224 then Some 1 else if 224 \<le> b \<and> b < 240 then Some 2
      else if 240 \<le> b \<and> b < 245 then Some 3 else None)"

text \<open>No overlong form, no surrogate and nothing beyond the last code point.\<close>

definition utf8_second :: "nat \<Rightarrow> nat list \<Rightarrow> bool" where
  "utf8_second b bs =
     (case bs of
        [] \<Rightarrow> True
      | c # _ \<Rightarrow> (b = 224 \<longrightarrow> 160 \<le> c) \<and> (b = 237 \<longrightarrow> c < 160) \<and> (b = 240 \<longrightarrow> 144 \<le> c) \<and> (b = 244 \<longrightarrow> c < 144))"

lemma escape_at_length: "escape_at s = Some (b, r) \<Longrightarrow> length r < length s"
  by (cases s rule: escape_at.cases) (auto split: if_splits)

lemma continuation_length: "continuation n s = Some (bs, t) \<Longrightarrow> length t \<le> length s"
proof (induction n arbitrary: s bs)
  case (Suc n)
  from Suc.prems obtain b r bs' where e: "escape_at s = Some (b, r)" and "continuation n r = Some (bs', t)"
    by (auto split: option.splits if_splits)
  with Suc.IH have "length t \<le> length r" by blast
  with escape_at_length [OF e] show ?case by simp
qed simp

function decodeURIComponent :: "string \<Rightarrow> string option" where
  "decodeURIComponent [] = Some []"
| "decodeURIComponent (c # cs) =
     (if c \<noteq> CHR ''%'' then map_option ((#) c) (decodeURIComponent cs)
      else case escape_at (c # cs) of
          None \<Rightarrow> None
        | Some (b, r) \<Rightarrow>
            (case Option.bind (utf8_tail b) (\<lambda>n. continuation n r) of
               None \<Rightarrow> None
             | Some (bs, t) \<Rightarrow>
                 if utf8_second b bs then map_option ((@) (map char_of (b # bs))) (decodeURIComponent t) else None))"
  by pat_completeness auto

termination
proof (relation "measure length")
  fix c :: char and cs p b r q bs t
  assume e: "escape_at (c # cs) = Some p" "(b, r) = p" and "Option.bind (utf8_tail b) (\<lambda>n. continuation n r) = Some q" "(bs, t) = q"
  then obtain n where "continuation n r = Some (bs, t)" by (auto simp: bind_eq_Some_conv)
  from continuation_length [OF this] have "length t \<le> length r" .
  moreover have "length r < length (c # cs)" using e escape_at_length by metis
  ultimately show "(t, c # cs) \<in> measure length" by simp
qed simp_all

datatype scroll = To_section string | To_top

text \<open>What the effect of a navigation does with the hash of the address; none when it throws.\<close>

definition useScrollAndFocus :: "(string \<Rightarrow> bool) \<Rightarrow> string \<Rightarrow> scroll option" where
  "useScrollAndFocus has_element url_hash =
     map_option (\<lambda>i. if i \<noteq> [] \<and> has_element i then To_section i else To_top)
       (if url_hash \<noteq> [] then decodeURIComponent (drop 1 url_hash) else Some [])"

section \<open>Plans\<close>

definition CARD_LIMITS :: "string list" where
  "CARD_LIMITS =
     [''accepted_events'', ''recommendation_requests'', ''stored_products'', ''training_jobs'', ''active_model_versions'']"

definition PlanCta :: "bool \<Rightarrow> bool \<Rightarrow> MarketingPlan \<Rightarrow> (string \<times> string) list" where
  "PlanCta tenant platform plan =
     (if tenant then [(''/usage?request='' @ mp_code plan, ''Request '' @ mp_name plan), (''/usage'', ''View your usage'')]
      else if platform then [(''/admin/plans'', ''Manage plans'')]
      else if mp_code plan = ''free'' then [(''/register'', ''Create account'')]
      else [(''/register'', ''Start free, upgrade later'')])"

definition plan_tag :: "MarketingPlan \<Rightarrow> string option" where
  "plan_tag p = (if mp_code p = ''basic'' then Some ''Room to grow'' else None)"

definition plan_price :: "MarketingPlan \<Rightarrow> string" where
  "plan_price p = (if mp_code p = ''free'' then ''Free'' else ''Upgrade on request'')"

text \<open>A limit of a plan; none where \<open>plan.limits[key]\<close> would be undefined.\<close>

definition limit_cell :: "(rat \<Rightarrow> string) \<Rightarrow> string \<Rightarrow> MarketingPlan \<Rightarrow> string option" where
  "limit_cell nf key p = map_option (formatLimit nf key) (map_of (mp_limits p) key)"

definition card_rows :: "(rat \<Rightarrow> string) \<Rightarrow> string list \<Rightarrow> MarketingPlan \<Rightarrow> (string \<times> string option) list" where
  "card_rows nf keys p =
     map (\<lambda>key. (limitLabel key @ (if key \<in> set MONTHLY_LIMITS then '' / month'' else []), limit_cell nf key p)) keys"

definition compare_rows :: "(rat \<Rightarrow> string) \<Rightarrow> MarketingPlan list \<Rightarrow> (string \<times> string option \<times> string option list) list" where
  "compare_rows nf plans =
     map (\<lambda>key. (limitLabel key, if key \<in> set MONTHLY_LIMITS then Some ''per calendar month'' else None, map (limit_cell nf key) plans))
       LIMIT_KEYS"

definition default_note :: "bool \<Rightarrow> string option" where
  "default_note live =
     (if live then None else Some ''Showing the default plan limits. Your operator may have changed them.'')"

section \<open>Code samples\<close>

datatype code_key = Code_right | Code_left | Code_home | Code_end | Code_other

definition code_tab :: "nat \<Rightarrow> code_key \<Rightarrow> nat \<Rightarrow> nat" where
  "code_tab last0 key active =
     (case key of
        Code_right \<Rightarrow> if active = last0 then 0 else active + 1
      | Code_left \<Rightarrow> if active = 0 then last0 else active - 1
      | Code_home \<Rightarrow> 0
      | Code_end \<Rightarrow> last0
      | Code_other \<Rightarrow> active)"

section \<open>Properties\<close>

lemma limits_of_plans: "p \<in> set PLANS \<Longrightarrow> key \<in> set LIMIT_KEYS \<Longrightarrow> map_of (mp_limits p) key \<noteq> None"
proof -
  have "list_all (\<lambda>p. list_all (\<lambda>key. map_of (mp_limits p) key \<noteq> None) LIMIT_KEYS) PLANS" by code_simp
  then show "p \<in> set PLANS \<Longrightarrow> key \<in> set LIMIT_KEYS \<Longrightarrow> map_of (mp_limits p) key \<noteq> None" by (simp add: list_all_iff)
qed

lemma live_limits:
  assumes "p \<in> set (fst (mergeLivePlans live))" "key \<in> set LIMIT_KEYS"
  shows "map_of (mp_limits p) key \<noteq> None"
proof (cases live)
  case None
  then show ?thesis using assms limits_of_plans by (simp add: mergeLivePlans_def)
next
  case (Some ps)
  then obtain q name limits where "q \<in> set PLANS" "p = q\<lparr>mp_name := name, mp_limits := spread (mp_limits q) limits\<rparr>"
    using assms(1) by (auto simp: mergeLivePlans_def Let_def split: prod.splits)
  then show ?thesis using limits_of_plans [OF _ assms(2), of q] by (auto simp: map_of_spread map_add_None)
qed

lemma card_limits_known: "set CARD_LIMITS \<subseteq> set LIMIT_KEYS" "set HEADLINE_LIMITS \<subseteq> set LIMIT_KEYS"
  by (simp_all add: CARD_LIMITS_def HEADLINE_LIMITS_def LIMIT_KEYS_def)

text \<open>C39: the tables of plans are well typed: whatever the server has answered, a plan without some limits or with limits
  unknown to the page included, every cell of the comparison and every row of a card has a limit to print.\<close>

theorem plan_cells_typed:
  "list_all (\<lambda>(l, m, cells). length cells = length (fst (mergeLivePlans live)) \<and> None \<notin> set cells)
     (compare_rows nf (fst (mergeLivePlans live))) \<and>
   list_all (\<lambda>p. None \<notin> snd ` set (card_rows nf CARD_LIMITS p) \<and> None \<notin> snd ` set (card_rows nf HEADLINE_LIMITS p))
     (fst (mergeLivePlans live))"
proof -
  have c: "limit_cell nf key p \<noteq> None" if "p \<in> set (fst (mergeLivePlans live))" "key \<in> set LIMIT_KEYS" for p key
    using live_limits [OF that] by (simp add: limit_cell_def)
  have k: "key \<in> set LIMIT_KEYS" if "key \<in> set CARD_LIMITS \<or> key \<in> set HEADLINE_LIMITS" for key
    using that card_limits_known by blast
  show ?thesis
    unfolding list_all_iff compare_rows_def card_rows_def using c k by force
qed

text \<open>Where the start link of an error page leads.\<close>

lemma known_pages:
  assumes "knows_static matcher"
  shows "matcher ''/'' = route ''/'' [] Root"
    "matcher ''/home'' = route ''/home'' [RequireTenant, TenantLayout] (Elem ''HomePage'')"
    "matcher ''/admin/status'' = route ''/admin/status'' [RequirePlatform, PlatformLayout] (Elem ''PlatformStatusPage'')"
    "matcher ''/usage'' = route ''/usage'' [RequireTenant, TenantLayout] (Scoped ''usage:read'' ''UsagePage'')"
proof -
  have r: "list_ex (\<lambda>r. r = route ''/'' [] Root) ROUTES"
    "list_ex (\<lambda>r. r = route ''/usage'' [RequireTenant, TenantLayout] (Scoped ''usage:read'' ''UsagePage'')) ROUTES"
    by code_simp+
  have s: "static_path ''/''" "static_path ''/home''" "static_path ''/admin/status''" "static_path ''/usage''" by code_simp+
  show "matcher ''/'' = route ''/'' [] Root" by (rule matcher_at [OF assms r(1) s(1)])
  show "matcher ''/home'' = route ''/home'' [RequireTenant, TenantLayout] (Elem ''HomePage'')"
    by (rule matcher_at [OF assms redirect_targets(5) s(2)])
  show "matcher ''/admin/status'' = route ''/admin/status'' [RequirePlatform, PlatformLayout] (Elem ''PlatformStatusPage'')"
    by (rule matcher_at [OF assms redirect_targets(6) s(3)])
  show "matcher ''/usage'' = route ''/usage'' [RequireTenant, TenantLayout] (Scoped ''usage:read'' ''UsagePage'')"
    by (rule matcher_at [OF assms r(2) s(4)])
qed

lemma restricted_goes:
  assumes "knows_static matcher" "v_tenant v = Some s" "isRestrictedSession (tn_scopes s)" "v_pathname v \<noteq> ''/account/tenant-status''"
    "rt_layouts (matcher (v_pathname v)) = [RequireTenant, TenantLayout]"
  shows "navigate matcher (Suc n) v = Some ''TenantStatusPage''"
proof -
  have "render (matcher (v_pathname v)) v = (Redirects ''/account/tenant-status'' None, v)"
    using assms by (simp add: render_def RequireTenant_guard_def TenantLayout_guard_def)
  then have "navigate matcher (Suc n) v = navigate matcher n (v\<lparr>v_pathname := ''/account/tenant-status'', v_search := []\<rparr>)"
    by (rule navigate_redirects)
  then show ?thesis using at_status [OF assms(1)] assms(2) by simp
qed

text \<open>The way back from an error page opens a page for everybody: the overview for a member of a workspace (the
  status of the workspace while it is suspended), the platform's status for an operator, and the public home page for anyone else.\<close>

lemma start_link_opens:
  assumes "knows_static matcher" "v_pathname v = fst (useStartLink v)"
  shows "navigate matcher 1 v =
    Some (case v_tenant v of
            Some s \<Rightarrow> if isRestrictedSession (tn_scopes s) then ''TenantStatusPage'' else ''HomePage''
          | None \<Rightarrow> if v_platform v \<noteq> None then ''PlatformStatusPage'' else ''LandingPage'')"
proof (cases "v_tenant v")
  case (Some s)
  then have p: "v_pathname v = ''/home''" using assms(2) by (simp add: useStartLink_def)
  show ?thesis
  proof (cases "isRestrictedSession (tn_scopes s)")
    case True
    then show ?thesis
      using restricted_goes [OF assms(1) Some, of 0] Some p known_pages(2) [OF assms(1)] by (simp add: route_def)
  next
    case False
    then have "navigate matcher 1 v = Some ''HomePage''"
      using Some p known_pages(2) [OF assms(1)]
      by (intro navigate_shows) (simp add: render_def route_def RequireTenant_guard_def TenantLayout_guard_def)
    with Some False show ?thesis by simp
  qed
next
  case None
  then have t: "v_tenant v = None" .
  show ?thesis
  proof (cases "v_platform v")
    case None
    then have "v_pathname v = ''/''" using t assms(2) by (simp add: useStartLink_def)
    then have "navigate matcher 1 v = Some ''LandingPage''"
      using t None known_pages(1) [OF assms(1)] by (intro navigate_shows) (simp add: render_def route_def Root_element_def)
    with t None show ?thesis by simp
  next
    case (Some q)
    then have "v_pathname v = ''/admin/status''" using t assms(2) by (simp add: useStartLink_def)
    then have "navigate matcher 1 v = Some ''PlatformStatusPage''"
      using t Some known_pages(3) [OF assms(1)]
      by (intro navigate_shows) (simp add: render_def route_def RequirePlatform_guard_def PlatformLayout_guard_def)
    with t Some show ?thesis by simp
  qed
qed

lemma exact_knows: "knows_static exact_router"
proof -
  have d: "distinct (map rt_path ROUTES)" by (simp add: ROUTES_def route_def)
  have "exact_router (rt_path r) = r" if "r \<in> set ROUTES" for r
    using find_key [OF that d] by (simp add: exact_router_def)
  moreover have "exact_router p \<in> set ROUTES" for p
  proof -
    have "ROUTES \<noteq> []" by code_simp
    then show ?thesis by (auto simp: exact_router_def find_Some_iff split: option.split intro: nth_mem)
  qed
  ultimately show ?thesis by (simp add: knows_static_def)
qed

theorem start_link_opens_witness:
  "navigate exact_router 1 (visitor_of (Some (dev_session [''account:status''])) ''/home'') = Some ''TenantStatusPage''"
  using start_link_opens [OF exact_knows, of "visitor_of (Some (dev_session [''account:status''])) ''/home''"]
  by (simp add: visitor_of_def useStartLink_def dev_session_def isRestrictedSession_def)

text \<open>A plan's button on the pricing page, for a member of a workspace. It leads to the usage page only for those who may
  read usage; others, as developers are, end on the page of what is forbidden. On the usage page, once the
  subscription and the requests have been loaded, the dialog opens with the plan chosen if the member may
  request plans, none is pending and the plan is another one; otherwise nothing opens.\<close>

lemma plan_button_leads:
  assumes "knows_static matcher" "v_tenant v = Some s" "v_pathname v = ''/usage''" "\<not> isRestrictedSession (tn_scopes s)"
    "plan \<in> set PLANS"
  shows "fst (hd (PlanCta True platform plan)) = ''/usage?request='' @ mp_code plan \<and>
    navigate matcher 1 v = Some (if hasScope (Some s) ''usage:read'' then ''UsagePage'' else ''ForbiddenPage'') \<and>
    (let w = \<lparr>rq_wanted = mp_code plan, rq_open = False\<rparr>; w' = wanted_effect canRequest (Some rs) (Some sub) w;
         current = plan_code_name (sub_plan_code sub) in
     if canRequest \<and> pcl_pending rs = None \<and> mp_code plan \<noteq> current
     then rq_open w' \<and> first_choice plans current (initial_choice (rq_wanted w') current) = mp_code plan
     else \<not> rq_open w')"
proof -
  have c: "mp_code plan \<in> set [''free'', ''basic'', ''pro'']" using assms(5) by (auto simp: PLANS_def)
  have m: "matcher (v_pathname v) = route ''/usage'' [RequireTenant, TenantLayout] (Scoped ''usage:read'' ''UsagePage'')"
    using known_pages(4) [OF assms(1)] assms(3) by simp
  have "navigate matcher 1 v = Some (if hasScope (Some s) ''usage:read'' then ''UsagePage'' else ''ForbiddenPage'')"
  proof (cases "hasScope (Some s) ''usage:read''")
    case True
    then have "navigate matcher 1 v = Some ''UsagePage''"
      using m assms by (intro navigate_shows)
        (simp add: render_def route_def RequireTenant_guard_def TenantLayout_guard_def scoped_def RequireScope_guard_def)
    with True show ?thesis by simp
  next
    case False
    then have "render (matcher (v_pathname v)) v = (Redirects ''/403'' None, v)"
      using m assms by (simp add: render_def route_def RequireTenant_guard_def TenantLayout_guard_def scoped_def RequireScope_guard_def)
    then have "navigate matcher 1 v = navigate matcher 0 (v\<lparr>v_pathname := ''/403'', v_search := []\<rparr>)"
      unfolding One_nat_def by (rule navigate_redirects)
    then show ?thesis using at_forbidden [OF assms(1)] assms(2,4) False by simp
  qed
  moreover have "mp_code plan \<noteq> []" using c by auto
  ultimately show ?thesis
    using c by (simp add: PlanCta_def wanted_effect_def pending_request_def initial_choice_def first_choice_def Let_def)
qed

theorem plan_button_leads_witness:
  "navigate exact_router 1 (visitor_of (Some (dev_session [''catalog:read''])) ''/usage'') = Some ''ForbiddenPage''"
proof -
  let ?v = "visitor_of (Some (dev_session [''catalog:read''])) ''/usage''"
  have "PLANS \<noteq> []" by code_simp
  then have "hd PLANS \<in> set PLANS" by simp
  from plan_button_leads [OF exact_knows _ _ _ this, of ?v "dev_session [''catalog:read'']"]
  show ?thesis by (simp add: visitor_of_def dev_session_def isRestrictedSession_def hasScope_def)
qed

text \<open>Reading back what \<open>encodeURIComponent\<close> wrote.\<close>

lemma decode_plain_char: "c \<noteq> CHR ''%'' \<Longrightarrow> decodeURIComponent (c # cs) = map_option ((#) c) (decodeURIComponent cs)"
  by simp

lemma hex_of_digit:
  assumes "n < 16"
  shows "is_hex (hex_digit n) \<and> hex_of (hex_digit n) = n"
proof (cases "n < 10")
  case True
  then show ?thesis by (simp add: hex_digit_def is_hex_def hex_of_def is_digit_def)
next
  case False
  with assms consider "n = 10" | "n = 11" | "n = 12" | "n = 13" | "n = 14" | "n = 15" by linarith
  then show ?thesis by cases (simp_all only:, code_simp+)
qed

lemma decode_byte:
  assumes "(of_char c :: nat) < 128"
  shows "decodeURIComponent (percent_byte c @ r) = map_option ((#) c) (decodeURIComponent r)"
proof -
  have d: "(of_char c :: nat) div 16 < 16" "(of_char c :: nat) mod 16 < 16" using assms by simp_all
  have "escape_at (percent_byte c @ r) = Some (of_char c, r)"
    using hex_of_digit [OF d(1)] hex_of_digit [OF d(2)] by (simp add: percent_byte_def)
  moreover have "(@) [c] = (#) c" by (simp add: fun_eq_iff)
  ultimately show ?thesis using assms by (simp add: percent_byte_def utf8_tail_def utf8_second_def del: escape_at.simps)
qed

lemma decode_encoded:
  "list_all (\<lambda>c. (of_char c :: nat) < 128) s \<Longrightarrow> decodeURIComponent (encodeURIComponent s) = Some s"
proof (induction s)
  case (Cons c s)
  have "uri_unreserved c \<Longrightarrow> c \<noteq> CHR ''%''" by (auto simp: uri_unreserved_def is_alnum_def is_digit_def is_upper_def is_lower_def)
  with Cons show ?case by (auto simp: encodeURIComponent_def decode_byte)
qed (simp add: encodeURIComponent_def)

text \<open>An address of the public site with a hash. The address made of an identifier scrolls to it if the page has it, and
  to the top otherwise; one with a percent sign that begins no escape makes the effect throw, for any page.\<close>

lemma hash_scrolls:
  "(if list_all (\<lambda>c. (of_char c :: nat) < 128) s
    then useScrollAndFocus has_element (CHR ''#'' # encodeURIComponent s) = Some (if s \<noteq> [] \<and> has_element s then To_section s else To_top)
    else True) \<and>
   list_all (\<lambda>s. useScrollAndFocus (\<lambda>i. i = fst s) (drop 1 (fst (section_link s))) = Some (To_section (fst s))) SECTION_LINKS \<and>
   useScrollAndFocus has_element ''#100%'' = None"
proof -
  have "list_all (\<lambda>s. useScrollAndFocus (\<lambda>i. i = fst s) (drop 1 (fst (section_link s))) = Some (To_section (fst s))) SECTION_LINKS"
    by code_simp
  moreover have "decodeURIComponent ''100%'' = None" by code_simp
  then have "useScrollAndFocus has_element ''#100%'' = None" by (simp add: useScrollAndFocus_def)
  ultimately show ?thesis by (simp add: useScrollAndFocus_def decode_encoded)
qed

text \<open>The links of the public pages lead to pages of the router, and its tabs stay in range.\<close>

definition routed :: "bool \<Rightarrow> bool \<Rightarrow> bool" where
  "routed t p =
     list_all (\<lambda>u. takeWhile (\<lambda>c. c \<noteq> CHR ''#'') (fst u) \<in> set (map rt_path ROUTES))
       (HeaderCta t p @ marketing_nav t p @ concat (map snd (marketing_footer t p)) @ hero_links @ developer_links @ final_links)"

lemma marketing_links_routed: "routed t p"
proof -
  have "routed True True" "routed True False" "routed False True" "routed False False" by code_simp+
  then show ?thesis by (cases t; cases p) simp_all
qed

lemma code_tab_range: "active \<le> last0 \<Longrightarrow> code_tab last0 key active \<le> last0"
  by (cases key) (auto simp: code_tab_def)

end
