(* ===== verification/DocsSite.thy ===== *)
theory DocsSite
  imports Routes JsObject
begin

text \<open>
  The documentation site: its search (\<open>web/src/docs/DocsSearch.tsx\<close>), its frame (\<open>DocsLayout.tsx\<close>), code samples
  in several languages (\<open>DocsCodeTabs.tsx\<close>) and the API reference (\<open>pages/docs/DocsApiReferencePage.tsx\<close>). The tables of
  endpoints and SDK methods are arguments. A parameter of an endpoint is its name, place, whether it is
  required, type and description; a request body whether it is required, its content type and its summary; a
  response its status and description. Example texts are left out.
\<close>

section \<open>What is documented\<close>

record EndpointDoc =
  ed_id :: string
  ed_group :: string
  ed_method :: string
  ed_path :: string
  ed_summary :: string
  ed_description :: string
  ed_scope :: "string option"
  ed_auth :: string
  ed_parameters :: "(string \<times> string \<times> bool \<times> string \<times> string) list"
  ed_body :: "(bool \<times> string \<times> string) option"
  ed_responses :: "(int \<times> string) list"
  ed_sdkMethod :: "string option"

record DocsNavGroup =
  dg_id :: string
  dg_title :: string
  dg_description :: string
  dg_tags :: "string list"

record SdkRoute =
  sr_key :: string
  sr_method :: string
  sr_path :: string
  sr_auth :: string
  sr_scopes :: "string list"
  sr_idempotent :: bool

record SdkParam =
  sq_name :: string
  sq_type :: string
  sq_default :: "string option"
  sq_required :: bool
  sq_kind :: string
  sq_description :: "string option"

record SdkMethod =
  sm_name :: string
  sm_call :: string
  sm_signature :: string
  sm_doc :: string
  sm_params :: "SdkParam list"
  sm_returns :: string
  sm_routes :: "SdkRoute list"

record SdkResource =
  sx_id :: string
  sx_path :: string
  sx_title :: string
  sx_className :: string
  sx_asyncClass :: "string option"
  sx_doc :: string
  sx_ctor :: "string option"
  sx_contextManager :: "bool option"
  sx_methods :: "SdkMethod list"

record SdkNamespace =
  ns_name :: string
  ns_path :: string
  ns_doc :: string
  ns_resources :: "SdkResource list"

record SdkError =
  xe_name :: string
  xe_base :: string
  xe_doc :: string
  xe_statuses :: "int list"
  xe_codes :: "string list"

record SdkStats =
  st_methods :: int
  st_routes :: int
  st_routesCovered :: int
  st_uncoveredRoutes :: "string list"

text \<open>A bundle of scopes is a list, or a list per role. The code of an example is left out.\<close>

record SdkReference =
  sdk_version :: string
  sdk_package :: string
  sdk_requiresPython :: string
  sdk_dependencies :: "string list"
  sdk_constants :: "(string \<times> json) list"
  sdk_clientDoc :: string
  sdk_clientParams :: "SdkParam list"
  sdk_clientMethods :: "SdkMethod list"
  sdk_namespaces :: "SdkNamespace list"
  sdk_helpers :: "SdkResource list"
  sdk_errors :: "SdkError list"
  sdk_enums :: "(string \<times> string list) list"
  sdk_scopeSets :: "(string \<times> (string list + (string \<times> string list) list)) list"
  sdk_examples :: "(string \<times> string) list"
  sdk_stats :: SdkStats

definition sdk_methods :: "SdkReference \<Rightarrow> SdkMethod list" where
  "sdk_methods s =
     sdk_clientMethods s @ concat (map (\<lambda>n. concat (map sx_methods (ns_resources n))) (sdk_namespaces s))
     @ concat (map sx_methods (sdk_helpers s))"

text \<open>\<open>/[^a-zA-Z0-9_-]/g\<close> becomes a dash.\<close>

definition anchor_char :: "char \<Rightarrow> bool" where
  "anchor_char c = (is_lower c \<or> is_upper c \<or> is_digit c \<or> c = CHR ''_'' \<or> c = CHR ''-'')"

definition anchor :: "string \<Rightarrow> string" where
  "anchor s = map (\<lambda>c. if anchor_char c then c else CHR ''-'') s"

section \<open>Search\<close>

datatype hit_category = Hit_guide | Hit_endpoint | Hit_sdk

record SearchResult =
  hit_id :: string
  hit_category :: hit_category
  hit_title :: string
  hit_subtitle :: string
  hit_url :: string
  hit_method :: "string option"

definition article :: "string \<Rightarrow> string \<Rightarrow> string \<Rightarrow> string \<Rightarrow> SearchResult" where
  "article i t st u =
     \<lparr>hit_id = i, hit_category = Hit_guide, hit_title = t, hit_subtitle = st, hit_url = u, hit_method = None\<rparr>"

definition STATIC_ARTICLES :: "SearchResult list" where
  "STATIC_ARTICLES =
     [article ''overview'' ''Overview & Core Concepts'' ''Graph/sequential recommender platform architecture'' ''/docs'',
      article ''quickstart'' ''5-Minute Quickstart'' ''Install SDK, ingest products & events, query recommendations'' ''/docs#quickstart'',
      article ''auth'' ''Authentication & Credentials'' ''API keys, Bearer tokens, scopes matrix, multi-tenancy'' ''/docs/authentication'',
      article ''scopes'' ''Scopes & Permissions'' ''catalog:write, events:write, recommendations:read'' ''/docs/authentication#scopes'',
      article ''ref-recs'' ''Recommendations API Reference'' ''Real-time and session-based recommendation endpoints'' ''/docs/reference#recommendations'',
      article ''ref-catalog'' ''Catalog & Products API'' ''Bulk upsert, single product management, catalog syncs'' ''/docs/reference#catalog'',
      article ''ref-events'' ''Events & Ingestion API'' ''Real-time and batch interaction events submission'' ''/docs/reference#events'',
      article ''sdk-ref'' ''Python SDK Reference'' ''GraphRec and AsyncGraphRec client reference & options'' ''/docs/sdk'',
      article ''sdk-ecommerce'' ''E-Commerce Helpers (CatalogSync, EventTracker)'' ''Chunked catalog sync and buffered background event streaming'' ''/docs/sdk#ecommerce'',
      article ''guides-events'' ''Guide: Interaction Event Semantics'' ''View, cart, purchase, rating semantics and timestamps'' ''/docs/guides#event-ingestion'',
      article ''guides-recs'' ''Guide: Choosing Recommendation Types'' ''Personalized DGSR vs session vs popular fallback'' ''/docs/guides#recommendation-strategies'',
      article ''guides-cold'' ''Guide: Cold-Start Handling'' ''Handling anonymous shoppers and brand new catalog items'' ''/docs/guides#cold-start'',
      article ''guides-retries'' ''Guide: Production Retries & Tracing'' ''Exponential backoff, correlation IDs, and idempotent keys'' ''/docs/guides#retries-errors'',
      article ''errors'' ''Errors, Limits & Changelog'' ''Standard error codes, rate limits, body limits, and history'' ''/docs/errors-and-limits'']"

definition article_matches :: "string \<Rightarrow> SearchResult \<Rightarrow> bool" where
  "article_matches q a = (js_includes (to_lower (hit_title a)) q \<or> js_includes (to_lower (hit_subtitle a)) q)"

definition endpoint_matches :: "string \<Rightarrow> EndpointDoc \<Rightarrow> bool" where
  "endpoint_matches q e =
     (js_includes (to_lower (ed_path e)) q \<or> js_includes (to_lower (ed_summary e)) q \<or> js_includes (to_lower (ed_description e)) q)"

definition endpoint_hit :: "EndpointDoc \<Rightarrow> SearchResult" where
  "endpoint_hit e =
     \<lparr>hit_id = ed_id e, hit_category = Hit_endpoint, hit_title = ed_summary e, hit_subtitle = ed_method e @ '' '' @ ed_path e,
      hit_url = ''/docs/reference#'' @ ed_id e, hit_method = Some (ed_method e)\<rparr>"

definition method_matches :: "string \<Rightarrow> SdkMethod \<Rightarrow> bool" where
  "method_matches q m =
     (js_includes (to_lower (sm_call m)) q \<or> js_includes (to_lower (sm_doc m)) q \<or>
      list_ex (\<lambda>r. js_includes (to_lower (sr_path r)) q) (sm_routes m))"

definition method_hit :: "SdkMethod \<Rightarrow> SearchResult" where
  "method_hit m =
     \<lparr>hit_id = sm_call m, hit_category = Hit_sdk, hit_title = sm_call m @ ''()'',
      hit_subtitle =
        (let line = js_split CHR 0x0A (sm_doc m) ! 0 in
         if line \<noteq> [] then line else js_join '', '' (map (\<lambda>r. sr_method r @ '' '' @ sr_path r) (sm_routes m))),
      hit_url = ''/docs/sdk#'' @ anchor (sm_call m), hit_method = None\<rparr>"

definition search_results :: "EndpointDoc list \<Rightarrow> SdkReference \<Rightarrow> string \<Rightarrow> SearchResult list" where
  "search_results endpoints sdk query =
     (let q = to_lower (js_trim query) in
      if q \<noteq> []
      then filter (article_matches q) STATIC_ARTICLES @ map endpoint_hit (filter (endpoint_matches q) endpoints)
           @ map method_hit (filter (method_matches q) (sdk_methods sdk))
      else take 6 STATIC_ARTICLES)"

definition limitedResults :: "EndpointDoc list \<Rightarrow> SdkReference \<Rightarrow> string \<Rightarrow> SearchResult list" where
  "limitedResults endpoints sdk query = take 10 (search_results endpoints sdk query)"

record search_modal =
  se_open :: bool
  se_query :: string
  se_selected :: int

text \<open>
  The keys and clicks the open dialog knows, and the buttons, keys and links of the page around it. The search is
  opened by its button, by \<open>/\<close> outside a text field, or by the shortcut, which also closes it; what is
  typed goes to the query and selects the first result. The effect of \<open>isOpen\<close> empties the query.
\<close>

datatype search_event =
    Open_search | Slash_key bool | Shortcut_key | Escape_search | Click_overlay
  | Type_query string | Arrow_down | Arrow_up | Enter_key | Hover_result nat | Click_result nat

definition open_modal :: "search_modal \<Rightarrow> search_modal" where
  "open_modal s = (if se_open s then s else \<lparr>se_open = True, se_query = [], se_selected = 0\<rparr>)"

definition select_hit :: "SearchResult list \<Rightarrow> int \<Rightarrow> search_modal \<Rightarrow> search_modal \<times> string option" where
  "select_hit rs i s =
     (if 0 \<le> i \<and> i < int (length rs) then (s\<lparr>se_open := False\<rparr>, Some (hit_url (rs ! nat i))) else (s, None))"

definition search_do ::
    "EndpointDoc list \<Rightarrow> SdkReference \<Rightarrow> search_event \<Rightarrow> search_modal \<Rightarrow> search_modal \<times> string option" where
  "search_do endpoints sdk e s =
     (let rs = limitedResults endpoints sdk (se_query s); n = int (length rs) in
      case e of
        Open_search \<Rightarrow> (open_modal s, None)
      | Slash_key in_field \<Rightarrow> if in_field then (s, None) else (open_modal s, None)
      | Shortcut_key \<Rightarrow> if se_open s then (s\<lparr>se_open := False\<rparr>, None) else (open_modal s, None)
      | _ \<Rightarrow>
          if \<not> se_open s then (s, None)
          else (case e of
              Escape_search \<Rightarrow> (s\<lparr>se_open := False\<rparr>, None)
            | Click_overlay \<Rightarrow> (s\<lparr>se_open := False\<rparr>, None)
            | Type_query q \<Rightarrow> (s\<lparr>se_query := q, se_selected := 0\<rparr>, None)
            | Arrow_down \<Rightarrow> (s\<lparr>se_selected := js_rem (se_selected s + 1) (max 1 n)\<rparr>, None)
            | Arrow_up \<Rightarrow> (s\<lparr>se_selected := js_rem (se_selected s - 1 + n) (max 1 n)\<rparr>, None)
            | Enter_key \<Rightarrow> select_hit rs (se_selected s) s
            | Hover_result i \<Rightarrow> (if i < length rs then s\<lparr>se_selected := int i\<rparr> else s, None)
            | Click_result i \<Rightarrow> select_hit rs (int i) s
            | _ \<Rightarrow> (s, None)))"

definition search_first :: search_modal where
  "search_first = \<lparr>se_open = False, se_query = [], se_selected = 0\<rparr>"

section \<open>The API reference\<close>

definition reference_matches :: "string \<Rightarrow> string \<Rightarrow> EndpointDoc \<Rightarrow> bool" where
  "reference_matches selected filterQuery e =
     ((selected = ''all'' \<or> ed_group e = selected) \<and>
      (js_trim filterQuery = [] \<or>
       (let q = to_lower filterQuery in
        js_includes (to_lower (ed_path e)) q \<or> js_includes (to_lower (ed_summary e)) q \<or> js_includes (to_lower (ed_method e)) q \<or>
        (truthy (ed_scope e) \<and> js_includes (to_lower (the (ed_scope e))) q) \<or>
        (truthy (ed_sdkMethod e) \<and> js_includes (to_lower (the (ed_sdkMethod e))) q))))"

definition filteredEndpoints :: "string \<Rightarrow> string \<Rightarrow> EndpointDoc list \<Rightarrow> EndpointDoc list" where
  "filteredEndpoints selected filterQuery endpoints = filter (reference_matches selected filterQuery) endpoints"

definition push_endpoint ::
    "EndpointDoc \<Rightarrow> (string \<times> EndpointDoc list) list \<Rightarrow> (string \<times> EndpointDoc list) list" where
  "push_endpoint e m = al_set (ed_group e) (or_else (map_of m (ed_group e)) [] @ [e]) m"

definition endpointsByGroup :: "DocsNavGroup list \<Rightarrow> EndpointDoc list \<Rightarrow> (string \<times> EndpointDoc list) list" where
  "endpointsByGroup groups eps = fold push_endpoint eps (fold (\<lambda>g. al_set (dg_id g) []) groups [])"

definition reference_sections ::
    "DocsNavGroup list \<Rightarrow> EndpointDoc list \<Rightarrow> string \<Rightarrow> string \<Rightarrow> (string \<times> EndpointDoc list) list" where
  "reference_sections groups endpoints selected filterQuery =
     (let m = endpointsByGroup groups (filteredEndpoints selected filterQuery endpoints) in
      filter (\<lambda>(g, es). es \<noteq> []) (map (\<lambda>g. (dg_id g, or_else (map_of m (dg_id g)) [])) groups))"

definition group_count :: "EndpointDoc list \<Rightarrow> string \<Rightarrow> nat" where
  "group_count endpoints g = length (filter (\<lambda>e. ed_group e = g) endpoints)"

definition auth_badge :: "string \<Rightarrow> string option" where
  "auth_badge a =
     map_of [(''none'', ''Public''), (''apiKey'', ''API Key''), (''bearer'', ''Bearer JWT''), (''operator'', ''Cluster Operator'')] a"

definition response_badge :: "int \<Rightarrow> string" where
  "response_badge st =
     (if 200 \<le> st \<and> st < 300 then ''badge-success'' else if 400 \<le> st \<and> st < 500 then ''badge-warning'' else ''badge-danger'')"

text \<open>The rows of an endpoint's parameters and responses.\<close>

definition parameter_rows :: "EndpointDoc \<Rightarrow> (string \<times> string \<times> string \<times> string \<times> string) list" where
  "parameter_rows e =
     map (\<lambda>(n, i, r, t, d). (n, i, t, if r then ''Required'' else ''Optional'', if d = [] then em_dash else d)) (ed_parameters e)"

definition response_rows :: "EndpointDoc \<Rightarrow> (string \<times> string \<times> string) list" where
  "response_rows e = map (\<lambda>(st, d). (response_badge st, ''HTTP '' @ show_int st, d)) (ed_responses e)"

text \<open>The link of an endpoint to the SDK.\<close>

definition sdk_link :: "EndpointDoc \<Rightarrow> string option" where
  "sdk_link e = (if truthy (ed_sdkMethod e) then Some (''/docs/sdk#'' @ anchor (the (ed_sdkMethod e))) else None)"

section \<open>Code samples\<close>

text \<open>A sample of \<open>DocsCodeTabs\<close> may be given by itself or among examples.\<close>

record code_examples =
  ce_curl :: "string option"
  ce_python :: "string option"
  ce_javascript :: "string option"

record code_props =
  cd_examples :: "code_examples option"
  cd_curl :: "string option"
  cd_python :: "string option"
  cd_javascript :: "string option"
  cd_title :: "string option"

definition LANG_LABELS :: "(string \<times> string) list" where
  "LANG_LABELS = [(''curl'', ''cURL''), (''python'', ''Python (SDK)''), (''javascript'', ''JavaScript'')]"

definition sample :: "string option \<Rightarrow> (code_examples \<Rightarrow> string option) \<Rightarrow> code_props \<Rightarrow> string option" where
  "sample own field p = (case own of Some c \<Rightarrow> Some c | None \<Rightarrow> Option.bind (cd_examples p) field)"

definition codeMap :: "code_props \<Rightarrow> (string \<times> string option) list" where
  "codeMap p =
     [(''curl'', sample (cd_curl p) ce_curl p), (''python'', sample (cd_python p) ce_python p),
      (''javascript'', sample (cd_javascript p) ce_javascript p)]"

definition own_code :: "code_props \<Rightarrow> string \<Rightarrow> string option" where
  "own_code p l = Option.bind (map_of (codeMap p) l) id"

text \<open>Whether \<open>codeMap[l]\<close> is truthy: a sample that is not empty, or an inherited member.\<close>

definition has_code :: "code_props \<Rightarrow> string \<Rightarrow> bool" where
  "has_code p l = (truthy (own_code p l) \<or> l \<in> set OBJECT_MEMBERS)"

definition availableLangs :: "code_props \<Rightarrow> string list" where
  "availableLangs p = filter (\<lambda>l. truthy (own_code p l)) [''curl'', ''python'', ''javascript'']"

text \<open>The language a block starts with; storage that cannot be read counts as empty.\<close>

definition first_lang :: "string option \<Rightarrow> code_props \<Rightarrow> string" where
  "first_lang stored0 p =
     (if truthy stored0 \<and> has_code p (the stored0) then the stored0
      else case availableLangs p of l # ls \<Rightarrow> l | [] \<Rightarrow> ''curl'')"

definition adjust_lang :: "code_props \<Rightarrow> string \<Rightarrow> string" where
  "adjust_lang p l = (if \<not> has_code p l \<and> availableLangs p \<noteq> [] then hd (availableLangs p) else l)"

definition hear_storage :: "string option \<Rightarrow> code_props \<times> string \<Rightarrow> code_props \<times> string" where
  "hear_storage v b = (case b of (p, l) \<Rightarrow> (p, if truthy v \<and> has_code p (the v) then the v else l))"

text \<open>The code of a block, or nothing where an inherited member stands in its place.\<close>

definition currentCode :: "code_props \<Rightarrow> string \<Rightarrow> string option" where
  "currentCode p l =
     (if truthy (own_code p l) then own_code p l
      else if l \<in> set OBJECT_MEMBERS then None
      else case find truthy (own_code p ''curl'' # map snd (codeMap p)) of Some c \<Rightarrow> c | None \<Rightarrow> Some [])"

text \<open>
  All the blocks of a page, each with its properties and its language: a tab is pressed and the choice is stored
  (which every block of the page hears) or refused, another tab of the browser stores a choice, a block gets
  new properties.
\<close>

datatype tabs_event = Switch_lang nat string bool | Other_tab "string option" | New_props nat code_props

definition tabs_do :: "tabs_event \<Rightarrow> (code_props \<times> string) list \<Rightarrow> (code_props \<times> string) list" where
  "tabs_do e bs =
     map (\<lambda>(p, l). (p, adjust_lang p l))
       (case e of
          Switch_lang i l stored_ok \<Rightarrow>
            if i < length bs \<and> 1 < length (availableLangs (fst (bs ! i))) \<and> l \<in> set (availableLangs (fst (bs ! i)))
            then (let bs1 = bs[i := (fst (bs ! i), l)] in if stored_ok then map (hear_storage (Some l)) bs1 else bs1)
            else bs
        | Other_tab v \<Rightarrow> map (hear_storage v) bs
        | New_props i p \<Rightarrow> if i < length bs then bs[i := (p, snd (bs ! i))] else bs)"

section \<open>The frame of the site\<close>

definition docs_cta :: "bool \<Rightarrow> bool \<Rightarrow> string \<times> string" where
  "docs_cta tenant platform =
     (if tenant then (''/home'', ''Open Console'') else if platform then (''/admin/status'', ''Platform Console'')
      else (''/login'', ''Sign in''))"

definition TOPBAR_LINKS :: "(string \<times> string) list" where
  "TOPBAR_LINKS =
     [(''/docs'', ''Getting Started''), (''/docs/reference'', ''API Reference''), (''/docs/sdk'', ''Python SDK''),
      (''/pricing'', ''Pricing'')]"

definition SIDEBAR_LINKS :: "DocsNavGroup list \<Rightarrow> (string \<times> (string \<times> string) list) list" where
  "SIDEBAR_LINKS groups =
     [(''Overview'', [(''/docs'', ''Getting Started''), (''/docs/authentication'', ''Authentication & Tenancy'')]),
      (''API Reference'',
         (''/docs/reference'', ''All Endpoints Overview'') # map (\<lambda>g. (''/docs/reference#'' @ dg_id g, dg_title g)) groups),
      (''Python SDK'',
         [(''/docs/sdk'', ''SDK Overview & Install''), (''/docs/sdk#storefront'', ''Storefront Namespace''),
          (''/docs/sdk#tenant'', ''Tenant Management''), (''/docs/sdk#platform'', ''Platform Operations''),
          (''/docs/sdk#ecommerce'', ''E-Commerce Helpers''), (''/docs/sdk#errors'', ''Errors''),
          (''/docs/sdk#examples'', ''Runnable Examples'')]),
      (''Guides & Architecture'',
         [(''/docs/guides'', ''All Guides''), (''/docs/guides#event-ingestion'', ''Interaction Event Ingestion''),
          (''/docs/guides#recommendation-strategies'', ''Recommendation Strategies''),
          (''/docs/guides#cold-start'', ''Cold-Start & Fallbacks''), (''/docs/guides#retries-errors'', ''Retries & Observability'')]),
      (''Resources'', [(''/docs/errors-and-limits'', ''Errors, Limits & Changelog''), (''/pricing'', ''Pricing Plans'')])]"

record heading =
  hd_id :: string
  hd_text :: string
  hd_h3 :: bool
  hd_top :: rat

text \<open>The contents of a page: \<open>/^#\s*/\<close> is cut from a heading's text.\<close>

definition toc_label :: "string \<Rightarrow> string" where
  "toc_label t = (if starts_with t ''#'' then dropWhile js_space (drop 1 t) else t)"

definition toc_items :: "heading list \<Rightarrow> (string \<times> string \<times> nat) list" where
  "toc_items hs = map (\<lambda>h. (hd_id h, toc_label (hd_text h), if hd_h3 h then 3 else 2)) (filter (\<lambda>h. hd_id h \<noteq> []) hs)"

definition active_heading :: "heading list \<Rightarrow> string" where
  "active_heading hs = fold (\<lambda>h current. if hd_top h \<le> 120 then hd_id h else current) (filter (\<lambda>h. hd_id h \<noteq> []) hs) []"

text \<open>The endpoint cards of the API reference.\<close>

definition endpoint_highlighted :: "string \<Rightarrow> EndpointDoc \<Rightarrow> bool" where
  "endpoint_highlighted url_hash e = (url_hash = CHR ''#'' # ed_id e)"

definition endpoint_text :: "EndpointDoc \<Rightarrow> string \<times> string option" where
  "endpoint_text e =
     (if ed_summary e \<noteq> [] then ed_summary e else ed_description e,
      if ed_description e \<noteq> [] \<and> ed_description e \<noteq> ed_summary e then Some (ed_description e) else None)"

section \<open>Properties\<close>

text \<open>The pages of the documentation, as the router has them.\<close>

definition docs_paths :: "string list" where
  "docs_paths = map rt_path (filter (\<lambda>r. rt_layouts r = [DocsLayout]) ROUTES)"

definition link_path :: "string \<Rightarrow> string" where
  "link_path u = takeWhile (\<lambda>c. c \<noteq> CHR ''#'') u"

lemma link_path_append: "CHR ''#'' \<notin> set p \<Longrightarrow> link_path (p @ CHR ''#'' # h) = p"
proof (induction p)
  case Nil
  show ?case by (simp add: link_path_def)
next
  case (Cons c p)
  then have "c \<noteq> CHR ''#''" "link_path (p @ CHR ''#'' # h) = p" by auto
  then show ?case by (simp add: link_path_def)
qed

lemma docs_paths_values:
  "docs_paths = [''/docs'', ''/docs/getting-started'', ''/docs/authentication'', ''/docs/reference'', ''/docs/sdk'',
     ''/docs/guides'', ''/docs/errors-and-limits'']"
  by code_simp

lemma articles_routed: "list_all (\<lambda>a. link_path (hit_url a) \<in> set docs_paths) STATIC_ARTICLES"
  by code_simp

lemma reference_link: "link_path (''/docs/reference#'' @ h) = ''/docs/reference''"
  using link_path_append [of "''/docs/reference''" h] by simp

lemma sdk_page_link: "link_path (''/docs/sdk#'' @ h) = ''/docs/sdk''"
  using link_path_append [of "''/docs/sdk''" h] by simp

lemma results_routed:
  assumes "r \<in> set (search_results eps sdk query)"
  shows "link_path (hit_url r) \<in> set docs_paths"
proof -
  have "r \<in> set STATIC_ARTICLES \<Longrightarrow> link_path (hit_url r) \<in> set docs_paths"
    using articles_routed by (simp add: list_all_iff)
  moreover have "link_path (hit_url (endpoint_hit e)) \<in> set docs_paths" for e
    unfolding endpoint_hit_def SearchResult.simps reference_link by (simp add: docs_paths_values)
  moreover have "link_path (hit_url (method_hit m)) \<in> set docs_paths" for m
    unfolding method_hit_def SearchResult.simps sdk_page_link by (simp add: docs_paths_values)
  ultimately show ?thesis
    using assms unfolding search_results_def Let_def by (auto split: if_splits dest: in_set_takeD)
qed

definition search_run :: "EndpointDoc list \<Rightarrow> SdkReference \<Rightarrow> search_event list \<Rightarrow> search_modal" where
  "search_run eps sdk es = fold (\<lambda>e s. fst (search_do eps sdk e s)) es search_first"

definition in_range :: "EndpointDoc list \<Rightarrow> SdkReference \<Rightarrow> search_modal \<Rightarrow> bool" where
  "in_range eps sdk s =
     (0 \<le> se_selected s \<and> se_selected s < max 1 (int (length (limitedResults eps sdk (se_query s)))))"

lemma max_pos: "(0::int) < max 1 n"
  by simp

lemma in_range_select: "in_range eps sdk (fst (select_hit rs i s)) = in_range eps sdk s"
  by (simp add: select_hit_def in_range_def)

lemma in_range_open: "in_range eps sdk s \<Longrightarrow> in_range eps sdk (open_modal s)"
  by (simp add: open_modal_def in_range_def max_pos)

lemma in_range_closed: "in_range eps sdk (s\<lparr>se_open := b\<rparr>) = in_range eps sdk s"
  by (simp add: in_range_def)

lemma arrow_range:
  assumes "0 \<le> i" "i < max 1 n" "0 \<le> (n :: int)"
  shows "0 \<le> js_rem (i + 1) (max 1 n) \<and> js_rem (i + 1) (max 1 n) < max 1 n"
    "0 \<le> js_rem (i - 1 + n) (max 1 n) \<and> js_rem (i - 1 + n) (max 1 n) < max 1 n"
proof -
  show "0 \<le> js_rem (i + 1) (max 1 n) \<and> js_rem (i + 1) (max 1 n) < max 1 n"
    using assms(1) by (intro js_rem_nonneg) simp_all
  show "0 \<le> js_rem (i - 1 + n) (max 1 n) \<and> js_rem (i - 1 + n) (max 1 n) < max 1 n"
  proof (cases "n = 0")
    case True
    then show ?thesis using assms(1,2) by (simp add: js_rem_def)
  next
    case False
    then show ?thesis using assms by (intro js_rem_nonneg) simp_all
  qed
qed

lemma search_step_range:
  assumes "in_range eps sdk s"
  shows "in_range eps sdk (fst (search_do eps sdk e s))"
proof -
  note m = arrow_range [of "se_selected s" "int (length (limitedResults eps sdk (se_query s)))"]
  show ?thesis
    using assms
    by (cases e)
      (simp_all add: search_do_def Let_def in_range_select in_range_open in_range_closed,
       simp_all add: in_range_def m max_pos)
qed

lemma search_run_range: "in_range eps sdk (search_run eps sdk es)"
proof -
  have "in_range eps sdk s \<Longrightarrow> in_range eps sdk (fold (\<lambda>e s. fst (search_do eps sdk e s)) es s)" for s
    by (induction es arbitrary: s) (simp_all add: search_step_range)
  moreover have "in_range eps sdk search_first" by (simp add: in_range_def search_first_def)
  ultimately show ?thesis by (simp add: search_run_def)
qed

lemma selected_hit:
  assumes "in_range eps sdk s" "se_open s" "limitedResults eps sdk (se_query s) \<noteq> []"
  shows "\<exists>r \<in> set (limitedResults eps sdk (se_query s)).
     search_do eps sdk Enter_key s = (s\<lparr>se_open := False\<rparr>, Some (hit_url r))"
proof -
  have "max 1 (int (length (limitedResults eps sdk (se_query s)))) = int (length (limitedResults eps sdk (se_query s)))"
    using assms(3) by (cases "limitedResults eps sdk (se_query s)") simp_all
  then have n: "nat (se_selected s) < length (limitedResults eps sdk (se_query s))" "0 \<le> se_selected s"
    using assms(1) by (simp_all add: in_range_def nat_less_iff)
  then have "search_do eps sdk Enter_key s =
      (s\<lparr>se_open := False\<rparr>, Some (hit_url (limitedResults eps sdk (se_query s) ! nat (se_selected s))))"
    using assms(2) by (simp add: search_do_def Let_def select_hit_def)
  with n(1) show ?thesis using nth_mem by blast
qed

lemma enter_result:
  assumes "in_range eps sdk s"
  shows "if se_open s \<and> limitedResults eps sdk (se_query s) \<noteq> []
    then \<exists>r. r \<in> set (limitedResults eps sdk (se_query s)) \<and>
           search_do eps sdk Enter_key s = (s\<lparr>se_open := False\<rparr>, Some (hit_url r))
    else snd (search_do eps sdk Enter_key s) = None"
proof (cases "se_open s \<and> limitedResults eps sdk (se_query s) \<noteq> []")
  case True
  then show ?thesis using selected_hit [OF assms] by auto
next
  case False
  then show ?thesis by (auto simp: search_do_def Let_def select_hit_def)
qed

text \<open>The search of the documentation. Whatever has been typed, pressed and pointed at, the selected result
  is one of those shown (the first if there are none); the enter key then closes the search and leads to it; and
  every result, at most ten, leads to a page the router has for the documentation.\<close>

lemma search_selects:
  "in_range eps sdk (search_run eps sdk es) \<and>
   (if se_open (search_run eps sdk es) \<and> limitedResults eps sdk (se_query (search_run eps sdk es)) \<noteq> []
    then \<exists>r. r \<in> set (limitedResults eps sdk (se_query (search_run eps sdk es))) \<and>
           search_do eps sdk Enter_key (search_run eps sdk es) =
             ((search_run eps sdk es)\<lparr>se_open := False\<rparr>, Some (hit_url r))
    else snd (search_do eps sdk Enter_key (search_run eps sdk es)) = None) \<and>
   link_path ` hit_url ` set (limitedResults eps sdk query) \<subseteq> set docs_paths \<and>
   length (limitedResults eps sdk query) \<le> 10"
proof -
  have "link_path ` hit_url ` set (limitedResults eps sdk query) \<subseteq> set docs_paths"
    using results_routed [of _ eps sdk query] by (auto simp: limitedResults_def dest: in_set_takeD)
  then show ?thesis
    by (intro conjI search_run_range enter_result) (simp_all only: limitedResults_def length_take min.cobounded2)
qed

text \<open>The sections of the API reference.\<close>

lemma fold_push:
  "or_else (map_of (fold push_endpoint eps m) g) [] = or_else (map_of m g) [] @ filter (\<lambda>e. ed_group e = g) eps"
  by (induction eps arbitrary: m) (simp_all add: push_endpoint_def)

lemma fold_groups:
  "or_else (map_of m i) [] = [] \<Longrightarrow> or_else (map_of (fold (\<lambda>g. al_set (dg_id g) []) groups m) i) [] = []"
  by (induction groups arbitrary: m) simp_all

lemma groups_listed: "or_else (map_of (endpointsByGroup groups eps) g) [] = filter (\<lambda>e. ed_group e = g) eps"
  by (simp add: endpointsByGroup_def fold_push fold_groups)

lemma sections_eq:
  "reference_sections groups eps sel q =
     filter (\<lambda>(g, es). es \<noteq> [])
       (map (\<lambda>g. (dg_id g, filter (\<lambda>e. ed_group e = dg_id g) (filteredEndpoints sel q eps))) groups)"
  by (simp add: reference_sections_def groups_listed Let_def)

lemma mset_sections:
  "distinct gs \<Longrightarrow> list_all (\<lambda>e. ed_group e \<in> set gs) es \<Longrightarrow>
   mset (concat (map snd (filter (\<lambda>(g, xs). xs \<noteq> []) (map (\<lambda>g. (g, filter (\<lambda>e. ed_group e = g) es)) gs)))) = mset es"
proof (induction gs arbitrary: es)
  case Nil
  then show ?case by (cases es) simp_all
next
  case (Cons g gs)
  let ?r = "filter (\<lambda>e. ed_group e \<noteq> g) es"
  have e: "map (\<lambda>h. (h, filter (\<lambda>e. ed_group e = h) es)) gs = map (\<lambda>h. (h, filter (\<lambda>e. ed_group e = h) ?r)) gs"
    using Cons.prems(1) by (auto simp: filter_filter intro!: filter_cong)
  have "list_all (\<lambda>e. ed_group e \<in> set gs) ?r" using Cons.prems(2) by (auto simp: list_all_iff)
  then have "mset (concat (map snd (filter (\<lambda>(g, xs). xs \<noteq> []) (map (\<lambda>g. (g, filter (\<lambda>e. ed_group e = g) es)) gs)))) = mset ?r"
    using Cons.IH [of ?r] Cons.prems(1) unfolding e by simp
  moreover have "mset (filter (\<lambda>e. ed_group e = g) es) + mset ?r = mset es" by (simp add: union_filter_mset_complement)
  ultimately show ?case by (auto simp del: mset_filter)
qed

text \<open>The API reference. A group's section holds the endpoints of the group that match the filter, in the order of the
  documentation; when every endpoint belongs to one of the groups, each match is shown in exactly one section, so that the page
  has no section only when it says that nothing matches. A group's button names as many endpoints as it shows.\<close>

lemma reference_partition:
  assumes "distinct (map dg_id groups)" "list_all (\<lambda>e. ed_group e \<in> dg_id ` set groups) eps"
  shows "reference_sections groups eps sel q =
      filter (\<lambda>(g, es). es \<noteq> [])
        (map (\<lambda>g. (dg_id g, filter (\<lambda>e. ed_group e = dg_id g) (filteredEndpoints sel q eps))) groups) \<and>
    mset (concat (map snd (reference_sections groups eps sel q))) = mset (filteredEndpoints sel q eps) \<and>
    (reference_sections groups eps sel q = []) = (filteredEndpoints sel q eps = []) \<and>
    (if sel = ''all'' then filteredEndpoints sel [] eps = eps else length (filteredEndpoints sel [] eps) = group_count eps sel)"
proof -
  have "list_all (\<lambda>e. ed_group e \<in> set (map dg_id groups)) (filteredEndpoints sel q eps)"
    using assms(2) by (auto simp: filteredEndpoints_def list_all_iff)
  then have m: "mset (concat (map snd (reference_sections groups eps sel q))) = mset (filteredEndpoints sel q eps)"
    using mset_sections [OF assms(1)] by (simp add: sections_eq comp_def)
  have "list_all (\<lambda>(g, es). es \<noteq> []) (reference_sections groups eps sel q)" by (auto simp: sections_eq list_all_iff)
  then have "(reference_sections groups eps sel q = []) = (filteredEndpoints sel q eps = [])"
    using m by (cases "reference_sections groups eps sel q") auto
  moreover have "reference_matches g [] = (\<lambda>e. g = ''all'' \<or> ed_group e = g)" for g
    by (simp add: reference_matches_def js_trim_def fun_eq_iff)
  then have "if sel = ''all'' then filteredEndpoints sel [] eps = eps else length (filteredEndpoints sel [] eps) = group_count eps sel"
    by (simp add: filteredEndpoints_def group_count_def)
  ultimately show ?thesis using m by (simp only: sections_eq simp_thms)
qed

definition probe :: "string \<Rightarrow> string \<Rightarrow> EndpointDoc" where
  "probe i g =
     \<lparr>ed_id = i, ed_group = g, ed_method = ''GET'', ed_path = ''/v1/'' @ i, ed_summary = i, ed_description = i,
      ed_scope = None, ed_auth = ''none'', ed_parameters = [], ed_body = None, ed_responses = [], ed_sdkMethod = None\<rparr>"

theorem reference_partition_witness:
  "mset (concat (map snd (reference_sections
     [\<lparr>dg_id = ''a'', dg_title = ''A'', dg_description = [], dg_tags = []\<rparr>, \<lparr>dg_id = ''b'', dg_title = ''B'', dg_description = [], dg_tags = []\<rparr>] [probe ''x'' ''b'', probe ''y'' ''a''] ''all'' ''GET'')))
   = mset (filteredEndpoints ''all'' ''GET'' [probe ''x'' ''b'', probe ''y'' ''a''])"
proof -
  let ?gs = "[\<lparr>dg_id = ''a'', dg_title = ''A'', dg_description = [], dg_tags = []\<rparr>, \<lparr>dg_id = ''b'', dg_title = ''B'', dg_description = [], dg_tags = []\<rparr>]" and ?es = "[probe ''x'' ''b'', probe ''y'' ''a'']"
  have "distinct (map dg_id ?gs)" "list_all (\<lambda>e. ed_group e \<in> dg_id ` set ?gs) ?es" by (simp_all add: probe_def)
  then show ?thesis by (rule reference_partition [THEN conjunct2, THEN conjunct1])
qed

text \<open>The samples of a page.\<close>

definition tabs_ok :: "(code_props \<times> string) list \<Rightarrow> bool" where
  "tabs_ok bs = list_all (\<lambda>(p, l). availableLangs p = [] \<or> has_code p l) bs"

lemma adjusted: "availableLangs p = [] \<or> has_code p (adjust_lang p l)"
proof (cases "availableLangs p")
  case (Cons x xs)
  then have "x \<in> set (availableLangs p)" by simp
  then have "has_code p x" unfolding availableLangs_def has_code_def set_filter by blast
  with Cons show ?thesis by (simp add: adjust_lang_def)
qed simp

lemma tabs_do_ok: "tabs_ok (tabs_do e bs)"
  using adjusted by (auto simp: tabs_ok_def tabs_do_def list_all_iff)

lemma lang_not_inherited: "l \<in> set (availableLangs p) \<Longrightarrow> l \<notin> set OBJECT_MEMBERS \<and> l \<noteq> []"
  by (auto simp: availableLangs_def OBJECT_MEMBERS_def split: if_splits)

text \<open>The samples of a page agree. After each event every block with a sample shows one (or an inherited
  member stands for it); and when a language has been chosen in one block and stored, all the blocks that have a
  sample in this language show it, and the others stay as they were.\<close>

lemma samples_agree:
  assumes "tabs_ok bs" "i < length bs" "l \<in> set (availableLangs (fst (bs ! i)))" "1 < length (availableLangs (fst (bs ! i)))"
  shows "tabs_ok (tabs_do e bs) \<and>
    list_all2 (\<lambda>b b'. fst b' = fst b \<and>
        (if truthy (own_code (fst b) l) then snd b' = l \<and> currentCode (fst b') (snd b') = own_code (fst b) l
         else snd b' = snd b))
      bs (tabs_do (Switch_lang i l True) bs)"
proof -
  let ?bs = "tabs_do (Switch_lang i l True) bs"
  have l: "l \<notin> set OBJECT_MEMBERS" "l \<noteq> []" using lang_not_inherited [OF assms(3)] by simp_all
  have own: "truthy (own_code (fst (bs ! i)) l)" using assms(3) by (simp only: availableLangs_def set_filter mem_Collect_eq)
  have nth: "?bs ! j = (let b = hear_storage (Some l) (bs[i := (fst (bs ! i), l)] ! j) in (fst b, adjust_lang (fst b) (snd b)))"
    if "j < length bs" for j
    using that assms by (simp add: tabs_do_def Let_def case_prod_beta)
  have len: "length ?bs = length bs" using assms by (simp add: tabs_do_def Let_def)
  have "fst (?bs ! j) = fst (bs ! j) \<and>
      (if truthy (own_code (fst (bs ! j)) l)
       then snd (?bs ! j) = l \<and> currentCode (fst (?bs ! j)) (snd (?bs ! j)) = own_code (fst (bs ! j)) l
       else snd (?bs ! j) = snd (bs ! j))" if j: "j < length bs" for j
  proof (cases "truthy (own_code (fst (bs ! j)) l)")
    case True
    then have "?bs ! j = (fst (bs ! j), l)"
      using j nth [OF j] l own
      by (cases "bs ! j"; cases "i = j") (simp_all add: hear_storage_def has_code_def adjust_lang_def Let_def)
    with True show ?thesis by (simp add: currentCode_def)
  next
    case False
    then have "j \<noteq> i" using own by blast
    moreover have "availableLangs (fst (bs ! j)) = [] \<or> has_code (fst (bs ! j)) (snd (bs ! j))"
      using assms(1) j by (auto simp: tabs_ok_def list_all_length)
    ultimately have "?bs ! j = bs ! j"
      using False j nth [OF j] l by (cases "bs ! j") (auto simp: hear_storage_def has_code_def adjust_lang_def Let_def)
    with False show ?thesis by simp
  qed
  then have "list_all2 (\<lambda>b b'. fst b' = fst b \<and>
        (if truthy (own_code (fst b) l) then snd b' = l \<and> currentCode (fst b') (snd b') = own_code (fst b) l
         else snd b' = snd b)) bs ?bs"
    using len by (auto simp only: list_all2_conv_all_nth)
  with tabs_do_ok show ?thesis by blast
qed

definition sample_block :: "string option \<Rightarrow> string option \<Rightarrow> code_props" where
  "sample_block c py = \<lparr>cd_examples = None, cd_curl = c, cd_python = py, cd_javascript = None, cd_title = None\<rparr>"

theorem samples_agree_witness:
  "map snd (tabs_do (Switch_lang 0 ''python'' True)
      [(sample_block (Some ''c'') (Some ''p''), ''curl''), (sample_block (Some ''d'') None, ''curl'')]) = [''python'', ''curl'']"
proof -
  let ?bs = "[(sample_block (Some ''c'') (Some ''p''), ''curl''), (sample_block (Some ''d'') None, ''curl'')]"
  have a: "tabs_ok ?bs" "''python'' \<in> set (availableLangs (fst (?bs ! 0)))" "1 < length (availableLangs (fst (?bs ! 0)))"
    by code_simp+
  have b: "truthy (own_code (sample_block (Some ''c'') (Some ''p'')) ''python'')" "\<not> truthy (own_code (sample_block (Some ''d'') None) ''python'')"
    by code_simp+
  show ?thesis
    using samples_agree [OF a(1) _ a(2,3), of "Other_tab None"] b by (auto simp: list_all2_Cons1)
qed

text \<open>Every link of the site's frame leads to a page of the router.\<close>

lemma frame_links_routed:
  "link_path ` fst ` set (TOPBAR_LINKS @ concat (map snd (SIDEBAR_LINKS groups))) \<subseteq> set (map rt_path ROUTES)"
proof -
  have f: "list_all (\<lambda>u. link_path (fst u) \<in> set (map rt_path ROUTES)) (TOPBAR_LINKS @ concat (map snd (SIDEBAR_LINKS [])))"
    by code_simp
  have r: "''/docs/reference'' \<in> set (map rt_path ROUTES)" by code_simp
  have "u \<in> set (TOPBAR_LINKS @ concat (map snd (SIDEBAR_LINKS [])))
      \<or> (\<exists>h. fst u = ''/docs/reference#'' @ h)"
    if "u \<in> set (TOPBAR_LINKS @ concat (map snd (SIDEBAR_LINKS groups)))" for u
    using that unfolding SIDEBAR_LINKS_def set_append list.map concat.simps snd_conv set_map list.set by (elim UnE insertE imageE) simp_all
  then have "link_path (fst u) \<in> set (map rt_path ROUTES)"
    if "u \<in> set (TOPBAR_LINKS @ concat (map snd (SIDEBAR_LINKS groups)))" for u
    using that f r reference_link unfolding list_all_iff by metis
  then show ?thesis by blast
qed

end
