(* ===== verification/DocsTables.thy ===== *)
theory DocsTables
  imports DocsSite Plans
begin

text \<open>
  The tables of the documentation (\<open>web/src/docs/docsData.ts\<close>): its groups, its endpoints, the vocabulary of errors and the
  limits of plans. An endpoint has everything the reference filters, counts and links by; example texts are
  left out.
\<close>

section \<open>Groups, errors and limits\<close>

definition DOCS_GROUPS :: "DocsNavGroup list" where
  "DOCS_GROUPS =
     [\<lparr>dg_id = ''recommendations'', dg_title = ''Recommendations & Feedback'', dg_description = ''Real-time personalization inference, session recommendations, and attribution telemetry.'', dg_tags = [''recommendations'']\<rparr>,
      \<lparr>dg_id = ''catalog'', dg_title = ''Catalog & Products'', dg_description = ''Product catalog synchronization, attribute indexing, and bulk upsert operations.'', dg_tags = [''catalog'']\<rparr>,
      \<lparr>dg_id = ''events'', dg_title = ''Events & Ingestion'', dg_description = ''Shopper interaction events, batch uploads, and idempotency tracking.'', dg_tags = [''events'']\<rparr>,
      \<lparr>dg_id = ''datasets'', dg_title = ''Datasets & Snapshots'', dg_description = ''Dataset file uploads and point-in-time training cohort snapshots.'', dg_tags = [''datasets'']\<rparr>,
      \<lparr>dg_id = ''models'', dg_title = ''Models & Training'', dg_description = ''Sequential DGSR training jobs, model version registry, and serving lifecycle.'', dg_tags = [''models'', ''training'']\<rparr>,
      \<lparr>dg_id = ''serving'', dg_title = ''Serving & Monitoring'', dg_description = ''Active deployment status, autoscaling health, latency histograms, and system probes.'', dg_tags = [''deployment'']\<rparr>,
      \<lparr>dg_id = ''management'', dg_title = ''Workspace & Management'', dg_description = ''API key credentials, member invitations, subscription limits, usage trends, and audit trail.'', dg_tags = [''api-keys'', ''tenant-users'', ''subscription'', ''usage'', ''audit'', ''tenants'']\<rparr>,
      \<lparr>dg_id = ''platform'', dg_title = ''Platform Operations'', dg_description = ''Cross-tenant administrative APIs for cluster operators.'', dg_tags = [''platform'']\<rparr>,
      \<lparr>dg_id = ''auth'', dg_title = ''Authentication & Accounts'', dg_description = ''Member authentication, password setup, recovery, and session token rotation.'', dg_tags = [''authentication'', ''meta'']\<rparr>]"

record ErrorCode =
  er_code :: string
  er_status :: int
  er_meaning :: string
  er_retryable :: bool

definition ERROR_CODES :: "ErrorCode list" where
  "ERROR_CODES =
     [\<lparr>er_code = ''malformed_request'', er_status = 400,
        er_meaning = ''Request validation failed or Content-Type header is not application/json'', er_retryable = False\<rparr>,
      \<lparr>er_code = ''authentication_failed'', er_status = 401,
        er_meaning = ''API key or Bearer token is missing, expired, revoked or invalid'', er_retryable = False\<rparr>,
      \<lparr>er_code = ''insufficient_scope'', er_status = 403,
        er_meaning = ''Credential is valid but lacks the required permission scope (e.g. catalog:write)'', er_retryable = False\<rparr>,
      \<lparr>er_code = ''tenant_inactive'', er_status = 403,
        er_meaning = ''Tenant workspace is suspended or archived. Only status probes are admitted'', er_retryable = False\<rparr>,
      \<lparr>er_code = ''resource_not_found'', er_status = 404,
        er_meaning = ''Resource ID does not exist within the caller's tenant boundary'', er_retryable = False\<rparr>,
      \<lparr>er_code = ''duplicate_resource'', er_status = 409,
        er_meaning = ''Resource with that ID, version tag or unique constraint already exists'', er_retryable = False\<rparr>,
      \<lparr>er_code = ''payload_too_large'', er_status = 413,
        er_meaning = ''Request body exceeded max permitted size (16 KiB default / 50 MiB multipart)'', er_retryable = False\<rparr>,
      \<lparr>er_code = ''rate_limit_exceeded'', er_status = 429,
        er_meaning = ''Sliding-window request quota exhausted. Retry-After header indicates wait duration'', er_retryable = True\<rparr>,
      \<lparr>er_code = ''service_unavailable'', er_status = 503,
        er_meaning = ''A backend dependency (Postgres or ML model host) is temporarily degraded'', er_retryable = True\<rparr>,
      \<lparr>er_code = ''recommendation_unavailable'', er_status = 503,
        er_meaning = ''Model is not serving and fallback_allowed was explicitly set to false'', er_retryable = True\<rparr>]"

record PlanLimit =
  pl_dimension :: string
  pl_free :: string
  pl_pro :: string
  pl_enterprise :: string
  pl_unit :: string

definition PLAN_LIMITS :: "PlanLimit list" where
  "PLAN_LIMITS =
     [\<lparr>pl_dimension = ''stored_products'', pl_free = ''5,000'', pl_pro = ''50,000'', pl_enterprise = ''Custom'', pl_unit = ''SKUs''\<rparr>,
      \<lparr>pl_dimension = ''accepted_events'', pl_free = ''50,000 / mo'', pl_pro = ''500,000 / mo'', pl_enterprise = ''Custom'', pl_unit = ''events''\<rparr>,
      \<lparr>pl_dimension = ''recommendation_requests'', pl_free = ''10,000 / mo'', pl_pro = ''250,000 / mo'', pl_enterprise = ''Custom'', pl_unit = ''queries''\<rparr>,
      \<lparr>pl_dimension = ''model_training_jobs'', pl_free = ''3 / mo'', pl_pro = ''20 / mo'', pl_enterprise = ''Unlimited'', pl_unit = ''runs''\<rparr>,
      \<lparr>pl_dimension = ''api_keys'', pl_free = ''2 keys'', pl_pro = ''10 keys'', pl_enterprise = ''Unlimited'', pl_unit = ''keys''\<rparr>]"

section \<open>Endpoints\<close>

definition ep_get_v1_api_keys :: EndpointDoc where
  "ep_get_v1_api_keys =
     \<lparr>ed_id = ''get-v1-api-keys'', ed_group = ''management'', ed_method = ''GET'',
      ed_path = ''/v1/api-keys'', ed_summary = ''List Api Keys'',
      ed_description = ''List Api Keys'',
      ed_scope = Some ''keys:write'', ed_auth = ''bearer'',
      ed_parameters = [],
      ed_body = None,
      ed_responses = [(200, ''Successful Response'')],
      ed_sdkMethod = Some ''client.tenant.api_keys.list()''\<rparr>"

definition ep_post_v1_api_keys :: EndpointDoc where
  "ep_post_v1_api_keys =
     \<lparr>ed_id = ''post-v1-api-keys'', ed_group = ''management'', ed_method = ''POST'',
      ed_path = ''/v1/api-keys'', ed_summary = ''Create Api Key'',
      ed_description = ''Create Api Key'',
      ed_scope = Some ''keys:write'', ed_auth = ''bearer'',
      ed_parameters = [],
      ed_body = Some (True, ''application/json'', ''Request Payload''),
      ed_responses = [(201, ''Successful Response''), (422, ''Validation Error'')],
      ed_sdkMethod = Some ''client.tenant.api_keys.create(name='Storefront Key', scopes=['events:write', 'recommendations:read'])''\<rparr>"

definition ep_delete_v1_api_keys_key_id :: EndpointDoc where
  "ep_delete_v1_api_keys_key_id =
     \<lparr>ed_id = ''delete-v1-api-keys-key-id'', ed_group = ''management'', ed_method = ''DELETE'',
      ed_path = ''/v1/api-keys/{key_id}'', ed_summary = ''Revoke Api Key'',
      ed_description = ''Revoke Api Key'',
      ed_scope = Some ''keys:write'', ed_auth = ''bearer'',
      ed_parameters = [(''key_id'', ''path'', True, ''string'', [])],
      ed_body = None,
      ed_responses = [(200, ''Successful Response''), (422, ''Validation Error'')],
      ed_sdkMethod = Some ''client.tenant.api_keys.revoke(key_id='key-123')''\<rparr>"

definition ep_get_v1_api_keys_key_id :: EndpointDoc where
  "ep_get_v1_api_keys_key_id =
     \<lparr>ed_id = ''get-v1-api-keys-key-id'', ed_group = ''management'', ed_method = ''GET'',
      ed_path = ''/v1/api-keys/{key_id}'', ed_summary = ''Get Api Key'',
      ed_description = ''Get Api Key'',
      ed_scope = Some ''keys:write'', ed_auth = ''bearer'',
      ed_parameters = [(''key_id'', ''path'', True, ''string'', [])],
      ed_body = None,
      ed_responses = [(200, ''Successful Response''), (422, ''Validation Error'')],
      ed_sdkMethod = Some ''client.tenant.api_keys.get(key_id='key-123')''\<rparr>"

definition ep_post_v1_api_keys_key_id_rotate :: EndpointDoc where
  "ep_post_v1_api_keys_key_id_rotate =
     \<lparr>ed_id = ''post-v1-api-keys-key-id-rotate'', ed_group = ''management'', ed_method = ''POST'',
      ed_path = ''/v1/api-keys/{key_id}/rotate'', ed_summary = ''Rotate Api Key'',
      ed_description = ''Rotate Api Key'',
      ed_scope = Some ''keys:write'', ed_auth = ''bearer'',
      ed_parameters = [(''key_id'', ''path'', True, ''string'', [])],
      ed_body = Some (True, ''application/json'', ''Request Payload''),
      ed_responses = [(200, ''Successful Response''), (422, ''Validation Error'')],
      ed_sdkMethod = Some ''client.tenant.api_keys.rotate(key_id='key-123')''\<rparr>"

definition ep_get_v1_audit :: EndpointDoc where
  "ep_get_v1_audit =
     \<lparr>ed_id = ''get-v1-audit'', ed_group = ''management'', ed_method = ''GET'',
      ed_path = ''/v1/audit'', ed_summary = ''List Tenant Audit'',
      ed_description = ''List Tenant Audit'',
      ed_scope = Some ''audit:read'', ed_auth = ''bearer'',
      ed_parameters = [(''action'', ''query'', False, ''string'', []),
         (''outcome'', ''query'', False, ''string'', []),
         (''since'', ''query'', False, ''string'', []),
         (''until'', ''query'', False, ''string'', []),
         (''before'', ''query'', False, ''string'', ''Keyset cursor from next_before.''),
         (''limit'', ''query'', False, ''integer'', [])],
      ed_body = None,
      ed_responses = [(200, ''Successful Response''), (422, ''Validation Error'')],
      ed_sdkMethod = Some ''client.tenant.audit.list(limit=50)''\<rparr>"

definition ep_post_v1_auth_login :: EndpointDoc where
  "ep_post_v1_auth_login =
     \<lparr>ed_id = ''post-v1-auth-login'', ed_group = ''auth'', ed_method = ''POST'',
      ed_path = ''/v1/auth/login'', ed_summary = ''Login'',
      ed_description = ''Login'',
      ed_scope = None, ed_auth = ''none'',
      ed_parameters = [],
      ed_body = Some (True, ''application/json'', ''Request Payload''),
      ed_responses = [(200, ''Successful Response''), (422, ''Validation Error'')],
      ed_sdkMethod = Some ''client.tenant.auth.login(email='admin@acme.com', password='...')''\<rparr>"

definition ep_post_v1_auth_logout :: EndpointDoc where
  "ep_post_v1_auth_logout =
     \<lparr>ed_id = ''post-v1-auth-logout'', ed_group = ''auth'', ed_method = ''POST'',
      ed_path = ''/v1/auth/logout'', ed_summary = ''Logout'',
      ed_description = ''End the caller's sessions: every access token for this user stops working'' @ [CHR 0x0A] @ ''immediately (auth epoch bump) and all refresh sessions are revoked.'',
      ed_scope = None, ed_auth = ''bearer'',
      ed_parameters = [],
      ed_body = None,
      ed_responses = [(204, ''Successful Response'')],
      ed_sdkMethod = Some ''client.tenant.auth.logout()''\<rparr>"

definition ep_post_v1_auth_recover_password :: EndpointDoc where
  "ep_post_v1_auth_recover_password =
     \<lparr>ed_id = ''post-v1-auth-recover-password'', ed_group = ''auth'', ed_method = ''POST'',
      ed_path = ''/v1/auth/recover-password'', ed_summary = ''Recover Password'',
      ed_description = ''Recover Password'',
      ed_scope = None, ed_auth = ''none'',
      ed_parameters = [],
      ed_body = Some (True, ''application/json'', ''Request Payload''),
      ed_responses = [(200, ''Successful Response''), (422, ''Validation Error'')],
      ed_sdkMethod = Some ''client.tenant.auth.recover_password(email='admin@acme.com')''\<rparr>"

definition ep_post_v1_auth_refresh :: EndpointDoc where
  "ep_post_v1_auth_refresh =
     \<lparr>ed_id = ''post-v1-auth-refresh'', ed_group = ''auth'', ed_method = ''POST'',
      ed_path = ''/v1/auth/refresh'', ed_summary = ''Refresh Session'',
      ed_description = ''Exchange a refresh token for a new token pair (A-05).'' @ [CHR 0x0A] @ [CHR 0x0A] @ ''Each refresh token works once and is replaced by the one returned here. The'' @ [CHR 0x0A] @ ''sign-in's absolute lifetime is not extended. Presenting a token that was'' @ [CHR 0x0A] @ ''already rotated signs the user out everywhere.'',
      ed_scope = None, ed_auth = ''none'',
      ed_parameters = [],
      ed_body = Some (True, ''application/json'', ''Request Payload''),
      ed_responses = [(200, ''Successful Response''), (422, ''Validation Error'')],
      ed_sdkMethod = Some ''client.tenant.auth.refresh(refresh_token='...')''\<rparr>"

definition ep_post_v1_auth_setup_password :: EndpointDoc where
  "ep_post_v1_auth_setup_password =
     \<lparr>ed_id = ''post-v1-auth-setup-password'', ed_group = ''auth'', ed_method = ''POST'',
      ed_path = ''/v1/auth/setup-password'', ed_summary = ''Setup Password'',
      ed_description = ''Setup Password'',
      ed_scope = None, ed_auth = ''none'',
      ed_parameters = [],
      ed_body = Some (True, ''application/json'', ''Request Payload''),
      ed_responses = [(200, ''Successful Response''), (422, ''Validation Error'')],
      ed_sdkMethod = Some ''client.tenant.auth.setup_password(setup_token='...', password='...')''\<rparr>"

definition ep_get_v1_catalog_syncs :: EndpointDoc where
  "ep_get_v1_catalog_syncs =
     \<lparr>ed_id = ''get-v1-catalog-syncs'', ed_group = ''catalog'', ed_method = ''GET'',
      ed_path = ''/v1/catalog-syncs'', ed_summary = ''List Catalog Syncs'',
      ed_description = ''List Catalog Syncs'',
      ed_scope = Some ''catalog:read'', ed_auth = ''apiKey'',
      ed_parameters = [],
      ed_body = None,
      ed_responses = [(200, ''Successful Response'')],
      ed_sdkMethod = Some ''client.tenant.catalog.list_syncs(limit=20)''\<rparr>"

definition ep_get_v1_catalog_syncs_sync_id :: EndpointDoc where
  "ep_get_v1_catalog_syncs_sync_id =
     \<lparr>ed_id = ''get-v1-catalog-syncs-sync-id'', ed_group = ''catalog'', ed_method = ''GET'',
      ed_path = ''/v1/catalog-syncs/{sync_id}'', ed_summary = ''Get Catalog Sync'',
      ed_description = ''Get Catalog Sync'',
      ed_scope = Some ''catalog:read'', ed_auth = ''apiKey'',
      ed_parameters = [(''sync_id'', ''path'', True, ''string'', [])],
      ed_body = None,
      ed_responses = [(200, ''Successful Response''), (422, ''Validation Error'')],
      ed_sdkMethod = Some ''client.tenant.catalog.get_sync(sync_id='sync-123')''\<rparr>"

definition ep_get_v1_datasets_snapshots :: EndpointDoc where
  "ep_get_v1_datasets_snapshots =
     \<lparr>ed_id = ''get-v1-datasets-snapshots'', ed_group = ''datasets'', ed_method = ''GET'',
      ed_path = ''/v1/datasets/snapshots'', ed_summary = ''List Dataset Snapshots'',
      ed_description = ''List Dataset Snapshots'',
      ed_scope = Some ''training:read'', ed_auth = ''bearer'',
      ed_parameters = [],
      ed_body = None,
      ed_responses = [(200, ''Successful Response'')],
      ed_sdkMethod = Some ''client.tenant.datasets.list_snapshots()''\<rparr>"

definition ep_post_v1_datasets_snapshots :: EndpointDoc where
  "ep_post_v1_datasets_snapshots =
     \<lparr>ed_id = ''post-v1-datasets-snapshots'', ed_group = ''datasets'', ed_method = ''POST'',
      ed_path = ''/v1/datasets/snapshots'', ed_summary = ''Create Dataset Snapshot'',
      ed_description = ''Create Dataset Snapshot'',
      ed_scope = Some ''training:write'', ed_auth = ''bearer'',
      ed_parameters = [],
      ed_body = Some (True, ''application/json'', ''Request Payload''),
      ed_responses = [(200, ''Successful Response''), (422, ''Validation Error'')],
      ed_sdkMethod = Some ''client.tenant.datasets.create_snapshot()''\<rparr>"

definition ep_get_v1_datasets_snapshots_snapshot_id :: EndpointDoc where
  "ep_get_v1_datasets_snapshots_snapshot_id =
     \<lparr>ed_id = ''get-v1-datasets-snapshots-snapshot-id'', ed_group = ''datasets'', ed_method = ''GET'',
      ed_path = ''/v1/datasets/snapshots/{snapshot_id}'', ed_summary = ''Get Dataset Snapshot'',
      ed_description = ''Get Dataset Snapshot'',
      ed_scope = Some ''training:read'', ed_auth = ''bearer'',
      ed_parameters = [(''snapshot_id'', ''path'', True, ''string'', [])],
      ed_body = None,
      ed_responses = [(200, ''Successful Response''), (422, ''Validation Error'')],
      ed_sdkMethod = Some ''client.tenant.datasets.get_snapshot(snapshot_id='snap-123')''\<rparr>"

definition ep_post_v1_datasets_upload :: EndpointDoc where
  "ep_post_v1_datasets_upload =
     \<lparr>ed_id = ''post-v1-datasets-upload'', ed_group = ''datasets'', ed_method = ''POST'',
      ed_path = ''/v1/datasets/upload'', ed_summary = ''Upload Dataset File'',
      ed_description = ''Upload Dataset File'',
      ed_scope = Some ''catalog:write, events:write'', ed_auth = ''bearer'',
      ed_parameters = [],
      ed_body = Some (True, ''multipart/form-data'', ''Request Payload''),
      ed_responses = [(200, ''Successful Response''), (422, ''Validation Error'')],
      ed_sdkMethod = Some ''client.tenant.datasets.upload(file=open('catalog.csv', 'rb'))''\<rparr>"

definition ep_get_v1_deployment :: EndpointDoc where
  "ep_get_v1_deployment =
     \<lparr>ed_id = ''get-v1-deployment'', ed_group = ''serving'', ed_method = ''GET'',
      ed_path = ''/v1/deployment'', ed_summary = ''Get Deployment Status'',
      ed_description = ''Get Deployment Status'',
      ed_scope = Some ''deployments:read'', ed_auth = ''bearer'',
      ed_parameters = [],
      ed_body = None,
      ed_responses = [(200, ''Successful Response'')],
      ed_sdkMethod = Some ''client.tenant.deployment.get()''\<rparr>"

definition ep_get_v1_deployment_scaling :: EndpointDoc where
  "ep_get_v1_deployment_scaling =
     \<lparr>ed_id = ''get-v1-deployment-scaling'', ed_group = ''serving'', ed_method = ''GET'',
      ed_path = ''/v1/deployment/scaling'', ed_summary = ''Get Scaling Status'',
      ed_description = ''XR-F-08: the tenant's capacity policy, live demand and recent scaling events.'',
      ed_scope = Some ''deployments:read'', ed_auth = ''bearer'',
      ed_parameters = [(''limit'', ''query'', False, ''integer'', [])],
      ed_body = None,
      ed_responses = [(200, ''Successful Response''), (422, ''Validation Error'')],
      ed_sdkMethod = Some ''client.tenant.deployment.scaling()''\<rparr>"

definition ep_get_v1_events :: EndpointDoc where
  "ep_get_v1_events =
     \<lparr>ed_id = ''get-v1-events'', ed_group = ''events'', ed_method = ''GET'',
      ed_path = ''/v1/events'', ed_summary = ''List Events'',
      ed_description = ''Recently received events, newest first, including single submissions.'',
      ed_scope = Some ''events:read'', ed_auth = ''apiKey'',
      ed_parameters = [(''limit'', ''query'', False, ''integer'', []),
         (''user_id'', ''query'', False, ''string'', []),
         (''event_type'', ''query'', False, ''string'', []),
         (''external_product_id'', ''query'', False, ''string'', [])],
      ed_body = None,
      ed_responses = [(200, ''Successful Response''), (422, ''Validation Error'')],
      ed_sdkMethod = Some ''client.storefront.events.list(user_id='cus-9931', limit=50)''\<rparr>"

definition ep_post_v1_events :: EndpointDoc where
  "ep_post_v1_events =
     \<lparr>ed_id = ''post-v1-events'', ed_group = ''events'', ed_method = ''POST'',
      ed_path = ''/v1/events'', ed_summary = ''Submit Event'',
      ed_description = ''Submit Event'',
      ed_scope = Some ''events:write'', ed_auth = ''apiKey'',
      ed_parameters = [],
      ed_body = Some (True, ''application/json'', ''Request Payload''),
      ed_responses = [(200, ''Successful Response''), (422, ''Validation Error'')],
      ed_sdkMethod = Some ''client.storefront.events.create(event_type='view', user_id='cus-9931', external_product_id='SKU-100')''\<rparr>"

definition ep_get_v1_events_batches :: EndpointDoc where
  "ep_get_v1_events_batches =
     \<lparr>ed_id = ''get-v1-events-batches'', ed_group = ''events'', ed_method = ''GET'',
      ed_path = ''/v1/events/batches'', ed_summary = ''List Event Batches'',
      ed_description = ''List Event Batches'',
      ed_scope = Some ''events:read'', ed_auth = ''apiKey'',
      ed_parameters = [],
      ed_body = None,
      ed_responses = [(200, ''Successful Response'')],
      ed_sdkMethod = Some ''client.storefront.events.list_batches(limit=20)''\<rparr>"

definition ep_post_v1_events_batches :: EndpointDoc where
  "ep_post_v1_events_batches =
     \<lparr>ed_id = ''post-v1-events-batches'', ed_group = ''events'', ed_method = ''POST'',
      ed_path = ''/v1/events/batches'', ed_summary = ''Submit Event Batch'',
      ed_description = ''Submit Event Batch'',
      ed_scope = Some ''events:write'', ed_auth = ''apiKey'',
      ed_parameters = [],
      ed_body = Some (True, ''application/json'', ''Request Payload''),
      ed_responses = [(200, ''Successful Response''), (422, ''Validation Error'')],
      ed_sdkMethod = Some ''client.storefront.events.create_batch(events=[{'event_type': 'view', 'user_id': 'cus-9931', 'external_product_id': 'SKU-100'}])''\<rparr>"

definition ep_get_v1_events_batches_batch_id :: EndpointDoc where
  "ep_get_v1_events_batches_batch_id =
     \<lparr>ed_id = ''get-v1-events-batches-batch-id'', ed_group = ''events'', ed_method = ''GET'',
      ed_path = ''/v1/events/batches/{batch_id}'', ed_summary = ''Get Event Batch'',
      ed_description = ''Get Event Batch'',
      ed_scope = Some ''events:read'', ed_auth = ''apiKey'',
      ed_parameters = [(''batch_id'', ''path'', True, ''string'', [])],
      ed_body = None,
      ed_responses = [(200, ''Successful Response''), (422, ''Validation Error'')],
      ed_sdkMethod = Some ''client.storefront.events.get_batch(batch_id='batch-123')''\<rparr>"

definition ep_post_v1_feedback_clicks :: EndpointDoc where
  "ep_post_v1_feedback_clicks =
     \<lparr>ed_id = ''post-v1-feedback-clicks'', ed_group = ''recommendations'', ed_method = ''POST'',
      ed_path = ''/v1/feedback/clicks'', ed_summary = ''Submit Click Feedback'',
      ed_description = ''Submit Click Feedback'',
      ed_scope = Some ''events:write'', ed_auth = ''apiKey'',
      ed_parameters = [],
      ed_body = Some (True, ''application/json'', ''Request Payload''),
      ed_responses = [(200, ''Successful Response''), (422, ''Validation Error'')],
      ed_sdkMethod = Some ''client.storefront.feedback.click(recommendation='5b1f0c9e-...', item='SKU-100', position=1)''\<rparr>"

definition ep_post_v1_feedback_conversions :: EndpointDoc where
  "ep_post_v1_feedback_conversions =
     \<lparr>ed_id = ''post-v1-feedback-conversions'', ed_group = ''recommendations'', ed_method = ''POST'',
      ed_path = ''/v1/feedback/conversions'', ed_summary = ''Submit Conversion Feedback'',
      ed_description = ''Submit Conversion Feedback'',
      ed_scope = Some ''events:write'', ed_auth = ''apiKey'',
      ed_parameters = [],
      ed_body = Some (True, ''application/json'', ''Request Payload''),
      ed_responses = [(200, ''Successful Response''), (422, ''Validation Error'')],
      ed_sdkMethod = Some ''client.storefront.feedback.conversion(recommendation='5b1f0c9e-...', item='SKU-100', value=49.99)''\<rparr>"

definition ep_post_v1_feedback_impressions :: EndpointDoc where
  "ep_post_v1_feedback_impressions =
     \<lparr>ed_id = ''post-v1-feedback-impressions'', ed_group = ''recommendations'', ed_method = ''POST'',
      ed_path = ''/v1/feedback/impressions'', ed_summary = ''Submit Impression Feedback'',
      ed_description = ''Submit Impression Feedback'',
      ed_scope = Some ''events:write'', ed_auth = ''apiKey'',
      ed_parameters = [],
      ed_body = Some (True, ''application/json'', ''Request Payload''),
      ed_responses = [(200, ''Successful Response''), (422, ''Validation Error'')],
      ed_sdkMethod = Some ''client.storefront.feedback.impression(recommendation='5b1f0c9e-...', items=['SKU-100', 'SKU-200'])''\<rparr>"

definition ep_get_v1_meta :: EndpointDoc where
  "ep_get_v1_meta =
     \<lparr>ed_id = ''get-v1-meta'', ed_group = ''auth'', ed_method = ''GET'',
      ed_path = ''/v1/meta'', ed_summary = ''Get Meta'',
      ed_description = ''Get Meta'',
      ed_scope = None, ed_auth = ''none'',
      ed_parameters = [],
      ed_body = None,
      ed_responses = [(200, ''Successful Response'')],
      ed_sdkMethod = Some ''client.meta()''\<rparr>"

definition ep_get_v1_metrics_summary :: EndpointDoc where
  "ep_get_v1_metrics_summary =
     \<lparr>ed_id = ''get-v1-metrics-summary'', ed_group = ''serving'', ed_method = ''GET'',
      ed_path = ''/v1/metrics/summary'', ed_summary = ''Get Metrics Summary'',
      ed_description = ''Get Metrics Summary'',
      ed_scope = Some ''metrics:read'', ed_auth = ''bearer'',
      ed_parameters = [(''window_minutes'', ''query'', False, ''integer'', ''Width of the measurement window ending now.'')],
      ed_body = None,
      ed_responses = [(200, ''Successful Response''), (422, ''Validation Error'')],
      ed_sdkMethod = Some ''client.tenant.metrics.summary(window_minutes=1440)''\<rparr>"

definition ep_get_v1_model_versions :: EndpointDoc where
  "ep_get_v1_model_versions =
     \<lparr>ed_id = ''get-v1-model-versions'', ed_group = ''models'', ed_method = ''GET'',
      ed_path = ''/v1/model-versions'', ed_summary = ''List Model Versions'',
      ed_description = ''List Model Versions'',
      ed_scope = Some ''models:read'', ed_auth = ''bearer'',
      ed_parameters = [],
      ed_body = None,
      ed_responses = [(200, ''Successful Response'')],
      ed_sdkMethod = Some ''client.tenant.model_versions.list()''\<rparr>"

definition ep_post_v1_model_versions :: EndpointDoc where
  "ep_post_v1_model_versions =
     \<lparr>ed_id = ''post-v1-model-versions'', ed_group = ''models'', ed_method = ''POST'',
      ed_path = ''/v1/model-versions'', ed_summary = ''Register Model Version'',
      ed_description = ''Register Model Version'',
      ed_scope = Some ''models:write'', ed_auth = ''bearer'',
      ed_parameters = [],
      ed_body = Some (True, ''application/json'', ''Request Payload''),
      ed_responses = [(200, ''Successful Response''), (422, ''Validation Error'')],
      ed_sdkMethod = Some ''client.tenant.model_versions.create(version_tag='v2.0', checkpoint_path='...')''\<rparr>"

definition ep_get_v1_model_versions_version_id :: EndpointDoc where
  "ep_get_v1_model_versions_version_id =
     \<lparr>ed_id = ''get-v1-model-versions-version-id'', ed_group = ''models'', ed_method = ''GET'',
      ed_path = ''/v1/model-versions/{version_id}'', ed_summary = ''Get Model Version'',
      ed_description = ''Get Model Version'',
      ed_scope = Some ''models:read'', ed_auth = ''bearer'',
      ed_parameters = [(''version_id'', ''path'', True, ''string'', [])],
      ed_body = None,
      ed_responses = [(200, ''Successful Response''), (422, ''Validation Error'')],
      ed_sdkMethod = Some ''client.tenant.model_versions.get(version_id='ver-123')''\<rparr>"

definition ep_post_v1_model_versions_version_id_activate :: EndpointDoc where
  "ep_post_v1_model_versions_version_id_activate =
     \<lparr>ed_id = ''post-v1-model-versions-version-id-activate'', ed_group = ''models'', ed_method = ''POST'',
      ed_path = ''/v1/model-versions/{version_id}:activate'', ed_summary = ''Activate Model Version'',
      ed_description = ''Activate Model Version'',
      ed_scope = Some ''models:deploy'', ed_auth = ''bearer'',
      ed_parameters = [(''version_id'', ''path'', True, ''string'', [])],
      ed_body = Some (False, ''application/json'', ''Payload''),
      ed_responses = [(200, ''Successful Response''), (422, ''Validation Error'')],
      ed_sdkMethod = Some ''client.tenant.model_versions.activate(version_id='ver-123')''\<rparr>"

definition ep_post_v1_model_versions_version_id_archive :: EndpointDoc where
  "ep_post_v1_model_versions_version_id_archive =
     \<lparr>ed_id = ''post-v1-model-versions-version-id-archive'', ed_group = ''models'', ed_method = ''POST'',
      ed_path = ''/v1/model-versions/{version_id}:archive'', ed_summary = ''Archive Model Version'',
      ed_description = ''Archive Model Version'',
      ed_scope = Some ''models:write'', ed_auth = ''bearer'',
      ed_parameters = [(''version_id'', ''path'', True, ''string'', [])],
      ed_body = Some (False, ''application/json'', ''Payload''),
      ed_responses = [(200, ''Successful Response''), (422, ''Validation Error'')],
      ed_sdkMethod = Some ''client.tenant.model_versions.archive(version_id='ver-123')''\<rparr>"

definition ep_post_v1_model_versions_version_id_rollback :: EndpointDoc where
  "ep_post_v1_model_versions_version_id_rollback =
     \<lparr>ed_id = ''post-v1-model-versions-version-id-rollback'', ed_group = ''models'', ed_method = ''POST'',
      ed_path = ''/v1/model-versions/{version_id}:rollback'', ed_summary = ''Rollback To Version'',
      ed_description = ''Roll back to the retained version ``version_id`` (A-36: same as the'' @ [CHR 0x0A] @ ''older ``/v1/models/{model_id}:rollback``, whose parameter is a version id).'',
      ed_scope = Some ''models:deploy'', ed_auth = ''bearer'',
      ed_parameters = [(''version_id'', ''path'', True, ''string'', [])],
      ed_body = Some (False, ''application/json'', ''Payload''),
      ed_responses = [(200, ''Successful Response''), (422, ''Validation Error'')],
      ed_sdkMethod = Some ''client.tenant.model_versions.rollback(version_id='ver-123')''\<rparr>"

definition ep_post_v1_models_model_id_rollback :: EndpointDoc where
  "ep_post_v1_models_model_id_rollback =
     \<lparr>ed_id = ''post-v1-models-model-id-rollback'', ed_group = ''models'', ed_method = ''POST'',
      ed_path = ''/v1/models/{model_id}:rollback'', ed_summary = ''Rollback Model'',
      ed_description = ''Rollback Model'',
      ed_scope = None, ed_auth = ''apiKey'',
      ed_parameters = [(''model_id'', ''path'', True, ''string'', [])],
      ed_body = Some (False, ''application/json'', ''Payload''),
      ed_responses = [(200, ''Successful Response''), (422, ''Validation Error'')],
      ed_sdkMethod = None\<rparr>"

definition ep_get_v1_plans :: EndpointDoc where
  "ep_get_v1_plans =
     \<lparr>ed_id = ''get-v1-plans'', ed_group = ''auth'', ed_method = ''GET'',
      ed_path = ''/v1/plans'', ed_summary = ''List Public Plans'',
      ed_description = ''List Public Plans'',
      ed_scope = None, ed_auth = ''none'',
      ed_parameters = [],
      ed_body = None,
      ed_responses = [(200, ''Successful Response'')],
      ed_sdkMethod = Some ''client.plans()''\<rparr>"

definition ep_get_v1_platform_audit :: EndpointDoc where
  "ep_get_v1_platform_audit =
     \<lparr>ed_id = ''get-v1-platform-audit'', ed_group = ''platform'', ed_method = ''GET'',
      ed_path = ''/v1/platform/audit'', ed_summary = ''List Platform Audit Logs'',
      ed_description = ''UC-31: the immutable action history, newest first, filtered and paginated.'',
      ed_scope = None, ed_auth = ''bearer'',
      ed_parameters = [(''tenant_id'', ''query'', False, ''string'', []),
         (''action'', ''query'', False, ''string'', []),
         (''outcome'', ''query'', False, ''string'', []),
         (''since'', ''query'', False, ''string'', ''Inclusive ISO-8601 start.''),
         (''until'', ''query'', False, ''string'', ''Exclusive ISO-8601 end.''),
         (''before'', ''query'', False, ''string'', ''Keyset cursor from next_before.''),
         (''limit'', ''query'', False, ''integer'', [])],
      ed_body = None,
      ed_responses = [(200, ''Successful Response''), (422, ''Validation Error'')],
      ed_sdkMethod = None\<rparr>"

definition ep_post_v1_platform_auth_login :: EndpointDoc where
  "ep_post_v1_platform_auth_login =
     \<lparr>ed_id = ''post-v1-platform-auth-login'', ed_group = ''platform'', ed_method = ''POST'',
      ed_path = ''/v1/platform/auth/login'', ed_summary = ''Operator Login'',
      ed_description = ''Operator Login'',
      ed_scope = None, ed_auth = ''bearer'',
      ed_parameters = [],
      ed_body = Some (True, ''application/json'', ''Request Payload''),
      ed_responses = [(200, ''Successful Response''), (422, ''Validation Error'')],
      ed_sdkMethod = None\<rparr>"

definition ep_get_v1_platform_failures :: EndpointDoc where
  "ep_get_v1_platform_failures =
     \<lparr>ed_id = ''get-v1-platform-failures'', ed_group = ''platform'', ed_method = ''GET'',
      ed_path = ''/v1/platform/failures'', ed_summary = ''List Platform Failures'',
      ed_description = ''List Platform Failures'',
      ed_scope = None, ed_auth = ''bearer'',
      ed_parameters = [],
      ed_body = None,
      ed_responses = [(200, ''Successful Response'')],
      ed_sdkMethod = None\<rparr>"

definition ep_get_v1_platform_me :: EndpointDoc where
  "ep_get_v1_platform_me =
     \<lparr>ed_id = ''get-v1-platform-me'', ed_group = ''platform'', ed_method = ''GET'',
      ed_path = ''/v1/platform/me'', ed_summary = ''Whoami'',
      ed_description = ''Whoami'',
      ed_scope = None, ed_auth = ''bearer'',
      ed_parameters = [],
      ed_body = None,
      ed_responses = [(200, ''Successful Response'')],
      ed_sdkMethod = None\<rparr>"

definition ep_get_v1_platform_operators :: EndpointDoc where
  "ep_get_v1_platform_operators =
     \<lparr>ed_id = ''get-v1-platform-operators'', ed_group = ''platform'', ed_method = ''GET'',
      ed_path = ''/v1/platform/operators'', ed_summary = ''List Operators'',
      ed_description = ''List Operators'',
      ed_scope = None, ed_auth = ''bearer'',
      ed_parameters = [],
      ed_body = None,
      ed_responses = [(200, ''Successful Response'')],
      ed_sdkMethod = None\<rparr>"

definition ep_post_v1_platform_operators :: EndpointDoc where
  "ep_post_v1_platform_operators =
     \<lparr>ed_id = ''post-v1-platform-operators'', ed_group = ''platform'', ed_method = ''POST'',
      ed_path = ''/v1/platform/operators'', ed_summary = ''Create Operator'',
      ed_description = ''Create Operator'',
      ed_scope = None, ed_auth = ''bearer'',
      ed_parameters = [],
      ed_body = Some (True, ''application/json'', ''Request Payload''),
      ed_responses = [(201, ''Successful Response''), (422, ''Validation Error'')],
      ed_sdkMethod = None\<rparr>"

definition ep_patch_v1_platform_operators_operator_id :: EndpointDoc where
  "ep_patch_v1_platform_operators_operator_id =
     \<lparr>ed_id = ''patch-v1-platform-operators-operator-id'', ed_group = ''platform'', ed_method = ''PATCH'',
      ed_path = ''/v1/platform/operators/{operator_id}'', ed_summary = ''Update Operator'',
      ed_description = ''Update Operator'',
      ed_scope = None, ed_auth = ''bearer'',
      ed_parameters = [(''operator_id'', ''path'', True, ''string'', [])],
      ed_body = Some (True, ''application/json'', ''Request Payload''),
      ed_responses = [(200, ''Successful Response''), (422, ''Validation Error'')],
      ed_sdkMethod = None\<rparr>"

definition ep_get_v1_platform_plan_requests :: EndpointDoc where
  "ep_get_v1_platform_plan_requests =
     \<lparr>ed_id = ''get-v1-platform-plan-requests'', ed_group = ''platform'', ed_method = ''GET'',
      ed_path = ''/v1/platform/plan-requests'', ed_summary = ''List Plan Requests'',
      ed_description = ''Requests across tenants: pending first (oldest first), then decided (newest first).'',
      ed_scope = None, ed_auth = ''bearer'',
      ed_parameters = [(''status'', ''query'', False, ''string'', [])],
      ed_body = None,
      ed_responses = [(200, ''Successful Response''), (422, ''Validation Error'')],
      ed_sdkMethod = None\<rparr>"

definition ep_post_v1_platform_plan_requests_request_id_approve :: EndpointDoc where
  "ep_post_v1_platform_plan_requests_request_id_approve =
     \<lparr>ed_id = ''post-v1-platform-plan-requests-request-id-approve'', ed_group = ''platform'', ed_method = ''POST'',
      ed_path = ''/v1/platform/plan-requests/{request_id}:approve'', ed_summary = ''Approve Plan Request'',
      ed_description = ''Approve a pending request; the tenant moves to the requested plan immediately.'',
      ed_scope = None, ed_auth = ''bearer'',
      ed_parameters = [(''request_id'', ''path'', True, ''string'', [])],
      ed_body = Some (True, ''application/json'', ''Request Payload''),
      ed_responses = [(200, ''Successful Response''), (422, ''Validation Error'')],
      ed_sdkMethod = None\<rparr>"

definition ep_post_v1_platform_plan_requests_request_id_reject :: EndpointDoc where
  "ep_post_v1_platform_plan_requests_request_id_reject =
     \<lparr>ed_id = ''post-v1-platform-plan-requests-request-id-reject'', ed_group = ''platform'', ed_method = ''POST'',
      ed_path = ''/v1/platform/plan-requests/{request_id}:reject'', ed_summary = ''Reject Plan Request'',
      ed_description = ''Reject a pending request; the tenant keeps its plan and sees the reason.'',
      ed_scope = None, ed_auth = ''bearer'',
      ed_parameters = [(''request_id'', ''path'', True, ''string'', [])],
      ed_body = Some (True, ''application/json'', ''Request Payload''),
      ed_responses = [(200, ''Successful Response''), (422, ''Validation Error'')],
      ed_sdkMethod = None\<rparr>"

definition ep_get_v1_platform_plans :: EndpointDoc where
  "ep_get_v1_platform_plans =
     \<lparr>ed_id = ''get-v1-platform-plans'', ed_group = ''platform'', ed_method = ''GET'',
      ed_path = ''/v1/platform/plans'', ed_summary = ''List Platform Plans'',
      ed_description = ''List Platform Plans'',
      ed_scope = None, ed_auth = ''bearer'',
      ed_parameters = [],
      ed_body = None,
      ed_responses = [(200, ''Successful Response'')],
      ed_sdkMethod = None\<rparr>"

definition ep_put_v1_platform_plans_plan_id :: EndpointDoc where
  "ep_put_v1_platform_plans_plan_id =
     \<lparr>ed_id = ''put-v1-platform-plans-plan-id'', ed_group = ''platform'', ed_method = ''PUT'',
      ed_path = ''/v1/platform/plans/{plan_id}'', ed_summary = ''Update Platform Plan'',
      ed_description = ''Update Platform Plan'',
      ed_scope = None, ed_auth = ''bearer'',
      ed_parameters = [(''plan_id'', ''path'', True, ''string'', [])],
      ed_body = Some (True, ''application/json'', ''Request Payload''),
      ed_responses = [(200, ''Successful Response''), (422, ''Validation Error'')],
      ed_sdkMethod = None\<rparr>"

definition ep_get_v1_platform_status :: EndpointDoc where
  "ep_get_v1_platform_status =
     \<lparr>ed_id = ''get-v1-platform-status'', ed_group = ''platform'', ed_method = ''GET'',
      ed_path = ''/v1/platform/status'', ed_summary = ''Get Platform Status'',
      ed_description = ''Get Platform Status'',
      ed_scope = None, ed_auth = ''bearer'',
      ed_parameters = [],
      ed_body = None,
      ed_responses = [(200, ''Successful Response'')],
      ed_sdkMethod = None\<rparr>"

definition ep_get_v1_platform_tenants :: EndpointDoc where
  "ep_get_v1_platform_tenants =
     \<lparr>ed_id = ''get-v1-platform-tenants'', ed_group = ''platform'', ed_method = ''GET'',
      ed_path = ''/v1/platform/tenants'', ed_summary = ''List Platform Tenants'',
      ed_description = ''List Platform Tenants'',
      ed_scope = None, ed_auth = ''bearer'',
      ed_parameters = [],
      ed_body = None,
      ed_responses = [(200, ''Successful Response'')],
      ed_sdkMethod = None\<rparr>"

definition ep_get_v1_platform_tenants_tenant_id :: EndpointDoc where
  "ep_get_v1_platform_tenants_tenant_id =
     \<lparr>ed_id = ''get-v1-platform-tenants-tenant-id'', ed_group = ''platform'', ed_method = ''GET'',
      ed_path = ''/v1/platform/tenants/{tenant_id}'', ed_summary = ''Get Platform Tenant'',
      ed_description = ''Get Platform Tenant'',
      ed_scope = None, ed_auth = ''bearer'',
      ed_parameters = [(''tenant_id'', ''path'', True, ''string'', [])],
      ed_body = None,
      ed_responses = [(200, ''Successful Response''), (422, ''Validation Error'')],
      ed_sdkMethod = None\<rparr>"

definition ep_post_v1_platform_tenants_tenant_id_plan :: EndpointDoc where
  "ep_post_v1_platform_tenants_tenant_id_plan =
     \<lparr>ed_id = ''post-v1-platform-tenants-tenant-id-plan'', ed_group = ''platform'', ed_method = ''POST'',
      ed_path = ''/v1/platform/tenants/{tenant_id}/plan'', ed_summary = ''Assign Tenant Plan'',
      ed_description = ''Assign Tenant Plan'',
      ed_scope = None, ed_auth = ''bearer'',
      ed_parameters = [(''tenant_id'', ''path'', True, ''string'', [])],
      ed_body = Some (True, ''application/json'', ''Request Payload''),
      ed_responses = [(200, ''Successful Response''), (422, ''Validation Error'')],
      ed_sdkMethod = None\<rparr>"

definition ep_get_v1_platform_tenants_tenant_id_quotas :: EndpointDoc where
  "ep_get_v1_platform_tenants_tenant_id_quotas =
     \<lparr>ed_id = ''get-v1-platform-tenants-tenant-id-quotas'', ed_group = ''platform'', ed_method = ''GET'',
      ed_path = ''/v1/platform/tenants/{tenant_id}/quotas'', ed_summary = ''Get Tenant Quota'',
      ed_description = ''Get Tenant Quota'',
      ed_scope = None, ed_auth = ''bearer'',
      ed_parameters = [(''tenant_id'', ''path'', True, ''string'', [])],
      ed_body = None,
      ed_responses = [(200, ''Successful Response''), (422, ''Validation Error'')],
      ed_sdkMethod = None\<rparr>"

definition ep_post_v1_platform_tenants_tenant_id_quotas :: EndpointDoc where
  "ep_post_v1_platform_tenants_tenant_id_quotas =
     \<lparr>ed_id = ''post-v1-platform-tenants-tenant-id-quotas'', ed_group = ''platform'', ed_method = ''POST'',
      ed_path = ''/v1/platform/tenants/{tenant_id}/quotas'', ed_summary = ''Set Tenant Quota Override'',
      ed_description = ''Set Tenant Quota Override'',
      ed_scope = None, ed_auth = ''bearer'',
      ed_parameters = [(''tenant_id'', ''path'', True, ''string'', [])],
      ed_body = Some (True, ''application/json'', ''Request Payload''),
      ed_responses = [(200, ''Successful Response''), (422, ''Validation Error'')],
      ed_sdkMethod = None\<rparr>"

definition ep_post_v1_platform_tenants_tenant_id_recovery :: EndpointDoc where
  "ep_post_v1_platform_tenants_tenant_id_recovery =
     \<lparr>ed_id = ''post-v1-platform-tenants-tenant-id-recovery'', ed_group = ''platform'', ed_method = ''POST'',
      ed_path = ''/v1/platform/tenants/{tenant_id}/recovery'', ed_summary = ''Issue Account Recovery'',
      ed_description = ''Issue Account Recovery'',
      ed_scope = None, ed_auth = ''bearer'',
      ed_parameters = [(''tenant_id'', ''path'', True, ''string'', [])],
      ed_body = Some (True, ''application/json'', ''Request Payload''),
      ed_responses = [(200, ''Successful Response''), (422, ''Validation Error'')],
      ed_sdkMethod = None\<rparr>"

definition ep_post_v1_platform_tenants_tenant_id_status :: EndpointDoc where
  "ep_post_v1_platform_tenants_tenant_id_status =
     \<lparr>ed_id = ''post-v1-platform-tenants-tenant-id-status'', ed_group = ''platform'', ed_method = ''POST'',
      ed_path = ''/v1/platform/tenants/{tenant_id}/status'', ed_summary = ''Update Platform Tenant Status'',
      ed_description = ''Update Platform Tenant Status'',
      ed_scope = None, ed_auth = ''bearer'',
      ed_parameters = [(''tenant_id'', ''path'', True, ''string'', [])],
      ed_body = Some (True, ''application/json'', ''Request Payload''),
      ed_responses = [(200, ''Successful Response''), (422, ''Validation Error'')],
      ed_sdkMethod = None\<rparr>"

definition ep_get_v1_platform_tenants_tenant_id_usage :: EndpointDoc where
  "ep_get_v1_platform_tenants_tenant_id_usage =
     \<lparr>ed_id = ''get-v1-platform-tenants-tenant-id-usage'', ed_group = ''platform'', ed_method = ''GET'',
      ed_path = ''/v1/platform/tenants/{tenant_id}/usage'', ed_summary = ''Get Tenant Usage'',
      ed_description = ''Get Tenant Usage'',
      ed_scope = None, ed_auth = ''bearer'',
      ed_parameters = [(''tenant_id'', ''path'', True, ''string'', [])],
      ed_body = None,
      ed_responses = [(200, ''Successful Response''), (422, ''Validation Error'')],
      ed_sdkMethod = None\<rparr>"

definition ep_get_v1_platform_usage :: EndpointDoc where
  "ep_get_v1_platform_usage =
     \<lparr>ed_id = ''get-v1-platform-usage'', ed_group = ''platform'', ed_method = ''GET'',
      ed_path = ''/v1/platform/usage'', ed_summary = ''List Platform Usage'',
      ed_description = ''UC-29: every tenant's usage against its limits for the current period.'' @ [CHR 0x0A] @ ''Aggregates only; no customer or event payloads leave this endpoint.'',
      ed_scope = None, ed_auth = ''bearer'',
      ed_parameters = [],
      ed_body = None,
      ed_responses = [(200, ''Successful Response'')],
      ed_sdkMethod = None\<rparr>"

definition ep_get_v1_products :: EndpointDoc where
  "ep_get_v1_products =
     \<lparr>ed_id = ''get-v1-products'', ed_group = ''catalog'', ed_method = ''GET'',
      ed_path = ''/v1/products'', ed_summary = ''List Products'',
      ed_description = ''List products newest first. ``total`` counts every match, not just this page.'',
      ed_scope = Some ''catalog:read'', ed_auth = ''apiKey'',
      ed_parameters = [(''limit'', ''query'', False, ''integer'', []),
         (''offset'', ''query'', False, ''integer'', []),
         (''ids'', ''query'', False, ''string'', ''Comma-separated external ids (at most 200) to fetch directly'')],
      ed_body = None,
      ed_responses = [(200, ''Successful Response''), (422, ''Validation Error'')],
      ed_sdkMethod = Some ''client.tenant.catalog.list(limit=50)''\<rparr>"

definition ep_get_v1_products_external_id :: EndpointDoc where
  "ep_get_v1_products_external_id =
     \<lparr>ed_id = ''get-v1-products-external-id'', ed_group = ''catalog'', ed_method = ''GET'',
      ed_path = ''/v1/products/{external_id}'', ed_summary = ''Get Product'',
      ed_description = ''Get Product'',
      ed_scope = Some ''catalog:read'', ed_auth = ''apiKey'',
      ed_parameters = [(''external_id'', ''path'', True, ''string'', [])],
      ed_body = None,
      ed_responses = [(200, ''Successful Response''), (422, ''Validation Error'')],
      ed_sdkMethod = Some ''client.tenant.catalog.get(external_id='SKU-100')''\<rparr>"

definition ep_patch_v1_products_external_id :: EndpointDoc where
  "ep_patch_v1_products_external_id =
     \<lparr>ed_id = ''patch-v1-products-external-id'', ed_group = ''catalog'', ed_method = ''PATCH'',
      ed_path = ''/v1/products/{external_id}'', ed_summary = ''Patch Product'',
      ed_description = ''Patch Product'',
      ed_scope = Some ''catalog:write'', ed_auth = ''apiKey'',
      ed_parameters = [(''external_id'', ''path'', True, ''string'', [])],
      ed_body = Some (True, ''application/json'', ''Request Payload''),
      ed_responses = [(200, ''Successful Response''), (422, ''Validation Error'')],
      ed_sdkMethod = Some ''client.tenant.catalog.update(external_id='SKU-100', patch={'price': '44.90'})''\<rparr>"

definition ep_put_v1_products_external_id :: EndpointDoc where
  "ep_put_v1_products_external_id =
     \<lparr>ed_id = ''put-v1-products-external-id'', ed_group = ''catalog'', ed_method = ''PUT'',
      ed_path = ''/v1/products/{external_id}'', ed_summary = ''Put Product'',
      ed_description = ''Put Product'',
      ed_scope = Some ''catalog:write'', ed_auth = ''apiKey'',
      ed_parameters = [(''external_id'', ''path'', True, ''string'', [])],
      ed_body = Some (True, ''application/json'', ''Request Payload''),
      ed_responses = [(200, ''Successful Response''), (422, ''Validation Error'')],
      ed_sdkMethod = Some ''client.tenant.catalog.upsert(external_id='SKU-100', product={'title': 'Linen Shirt', 'price': '49.90', 'category': 'Apparel'})''\<rparr>"

definition ep_post_v1_products_external_id_disable :: EndpointDoc where
  "ep_post_v1_products_external_id_disable =
     \<lparr>ed_id = ''post-v1-products-external-id-disable'', ed_group = ''catalog'', ed_method = ''POST'',
      ed_path = ''/v1/products/{external_id}:disable'', ed_summary = ''Disable Product'',
      ed_description = ''Disable Product'',
      ed_scope = Some ''catalog:write'', ed_auth = ''apiKey'',
      ed_parameters = [(''external_id'', ''path'', True, ''string'', [])],
      ed_body = None,
      ed_responses = [(200, ''Successful Response''), (422, ''Validation Error'')],
      ed_sdkMethod = Some ''client.tenant.catalog.disable(external_id='SKU-100')''\<rparr>"

definition ep_post_v1_products_bulk_upsert :: EndpointDoc where
  "ep_post_v1_products_bulk_upsert =
     \<lparr>ed_id = ''post-v1-products-bulk-upsert'', ed_group = ''catalog'', ed_method = ''POST'',
      ed_path = ''/v1/products:bulk-upsert'', ed_summary = ''Bulk Upsert Products'',
      ed_description = ''Bulk Upsert Products'',
      ed_scope = Some ''catalog:write'', ed_auth = ''apiKey'',
      ed_parameters = [],
      ed_body = Some (True, ''application/json'', ''Request Payload''),
      ed_responses = [(200, ''Successful Response''), (422, ''Validation Error'')],
      ed_sdkMethod = Some ''client.tenant.catalog.bulk_upsert(products=[{'external_id': 'SKU-100', 'title': 'Linen Shirt', 'price': '49.90', 'category': 'Apparel'}])''\<rparr>"

definition ep_get_v1_recommendation_policy :: EndpointDoc where
  "ep_get_v1_recommendation_policy =
     \<lparr>ed_id = ''get-v1-recommendation-policy'', ed_group = ''recommendations'', ed_method = ''GET'',
      ed_path = ''/v1/recommendation-policy'', ed_summary = ''Get Recommendation Policy'',
      ed_description = ''Get Recommendation Policy'',
      ed_scope = Some ''models:read'', ed_auth = ''bearer'',
      ed_parameters = [],
      ed_body = None,
      ed_responses = [(200, ''Successful Response'')],
      ed_sdkMethod = Some ''client.tenant.recommendation_policy.get()''\<rparr>"

definition ep_put_v1_recommendation_policy :: EndpointDoc where
  "ep_put_v1_recommendation_policy =
     \<lparr>ed_id = ''put-v1-recommendation-policy'', ed_group = ''recommendations'', ed_method = ''PUT'',
      ed_path = ''/v1/recommendation-policy'', ed_summary = ''Put Recommendation Policy'',
      ed_description = ''Put Recommendation Policy'',
      ed_scope = Some ''models:deploy'', ed_auth = ''bearer'',
      ed_parameters = [],
      ed_body = Some (True, ''application/json'', ''Request Payload''),
      ed_responses = [(200, ''Successful Response''), (422, ''Validation Error'')],
      ed_sdkMethod = Some ''client.tenant.recommendation_policy.update(max_category_share=0.4, freshness_boost_hours=48)''\<rparr>"

definition ep_post_v1_recommendations :: EndpointDoc where
  "ep_post_v1_recommendations =
     \<lparr>ed_id = ''post-v1-recommendations'', ed_group = ''recommendations'', ed_method = ''POST'',
      ed_path = ''/v1/recommendations'', ed_summary = ''Get Recommendations'',
      ed_description = ''Serve Top-N recommendations and record what it took to serve them.'',
      ed_scope = Some ''recommendations:read'', ed_auth = ''apiKey'',
      ed_parameters = [],
      ed_body = Some (True, ''application/json'', ''Request Payload''),
      ed_responses = [(200, ''Successful Response''), (422, ''Validation Error'')],
      ed_sdkMethod = Some ''client.storefront.recommendations.get(user_id='cus-9931', top_n=10, context={'surface': 'cart'})''\<rparr>"

definition ep_post_v1_recommendations_session :: EndpointDoc where
  "ep_post_v1_recommendations_session =
     \<lparr>ed_id = ''post-v1-recommendations-session'', ed_group = ''recommendations'', ed_method = ''POST'',
      ed_path = ''/v1/recommendations/session'', ed_summary = ''Get Session Recommendations'',
      ed_description = ''Get Session Recommendations'',
      ed_scope = Some ''recommendations:read'', ed_auth = ''apiKey'',
      ed_parameters = [],
      ed_body = Some (True, ''application/json'', ''Request Payload''),
      ed_responses = [(200, ''Successful Response''), (422, ''Validation Error'')],
      ed_sdkMethod = Some ''client.storefront.recommendations.for_session(item_ids=['SKU-100', 'SKU-200'], top_n=10)''\<rparr>"

definition ep_get_v1_retraining_policy :: EndpointDoc where
  "ep_get_v1_retraining_policy =
     \<lparr>ed_id = ''get-v1-retraining-policy'', ed_group = ''models'', ed_method = ''GET'',
      ed_path = ''/v1/retraining-policy'', ed_summary = ''Get Retraining Policy'',
      ed_description = ''Get Retraining Policy'',
      ed_scope = Some ''training:read'', ed_auth = ''bearer'',
      ed_parameters = [],
      ed_body = None,
      ed_responses = [(200, ''Successful Response'')],
      ed_sdkMethod = Some ''client.tenant.retraining_policy.get()''\<rparr>"

definition ep_put_v1_retraining_policy :: EndpointDoc where
  "ep_put_v1_retraining_policy =
     \<lparr>ed_id = ''put-v1-retraining-policy'', ed_group = ''models'', ed_method = ''PUT'',
      ed_path = ''/v1/retraining-policy'', ed_summary = ''Put Retraining Policy'',
      ed_description = ''Put Retraining Policy'',
      ed_scope = Some ''training:write'', ed_auth = ''bearer'',
      ed_parameters = [],
      ed_body = Some (True, ''application/json'', ''Request Payload''),
      ed_responses = [(200, ''Successful Response''), (422, ''Validation Error'')],
      ed_sdkMethod = Some ''client.tenant.retraining_policy.update(enabled=True, schedule_cron='0 2 * * *')''\<rparr>"

definition ep_get_v1_subscription :: EndpointDoc where
  "ep_get_v1_subscription =
     \<lparr>ed_id = ''get-v1-subscription'', ed_group = ''management'', ed_method = ''GET'',
      ed_path = ''/v1/subscription'', ed_summary = ''Get Subscription'',
      ed_description = ''Get Subscription'',
      ed_scope = Some ''billing:read'', ed_auth = ''apiKey'',
      ed_parameters = [],
      ed_body = None,
      ed_responses = [(200, ''Successful Response'')],
      ed_sdkMethod = Some ''client.tenant.subscription.get()''\<rparr>"

definition ep_get_v1_subscription_requests :: EndpointDoc where
  "ep_get_v1_subscription_requests =
     \<lparr>ed_id = ''get-v1-subscription-requests'', ed_group = ''management'', ed_method = ''GET'',
      ed_path = ''/v1/subscription/requests'', ed_summary = ''List Plan Requests'',
      ed_description = ''List Plan Requests'',
      ed_scope = None, ed_auth = ''apiKey'',
      ed_parameters = [],
      ed_body = None,
      ed_responses = [(200, ''Successful Response'')],
      ed_sdkMethod = None\<rparr>"

definition ep_post_v1_subscription_requests :: EndpointDoc where
  "ep_post_v1_subscription_requests =
     \<lparr>ed_id = ''post-v1-subscription-requests'', ed_group = ''management'', ed_method = ''POST'',
      ed_path = ''/v1/subscription/requests'', ed_summary = ''Create Plan Request'',
      ed_description = ''Create Plan Request'',
      ed_scope = None, ed_auth = ''apiKey'',
      ed_parameters = [],
      ed_body = Some (True, ''application/json'', ''Request Payload''),
      ed_responses = [(201, ''Successful Response''), (422, ''Validation Error'')],
      ed_sdkMethod = None\<rparr>"

definition ep_post_v1_subscription_requests_request_id_cancel :: EndpointDoc where
  "ep_post_v1_subscription_requests_request_id_cancel =
     \<lparr>ed_id = ''post-v1-subscription-requests-request-id-cancel'', ed_group = ''management'', ed_method = ''POST'',
      ed_path = ''/v1/subscription/requests/{request_id}:cancel'', ed_summary = ''Cancel Plan Request'',
      ed_description = ''Cancel Plan Request'',
      ed_scope = None, ed_auth = ''apiKey'',
      ed_parameters = [(''request_id'', ''path'', True, ''string'', [])],
      ed_body = None,
      ed_responses = [(200, ''Successful Response''), (422, ''Validation Error'')],
      ed_sdkMethod = None\<rparr>"

definition ep_get_v1_tenant_status :: EndpointDoc where
  "ep_get_v1_tenant_status =
     \<lparr>ed_id = ''get-v1-tenant-status'', ed_group = ''management'', ed_method = ''GET'',
      ed_path = ''/v1/tenant/status'', ed_summary = ''Get Tenant Status'',
      ed_description = ''Any signed-in member may read the workspace status; a member of a suspended'' @ [CHR 0x0A] @ ''workspace can read only this (D-13). API keys are not accepted.'',
      ed_scope = Some ''status:read'', ed_auth = ''bearer'',
      ed_parameters = [],
      ed_body = None,
      ed_responses = [(200, ''Successful Response'')],
      ed_sdkMethod = Some ''client.tenant.account.status()''\<rparr>"

definition ep_get_v1_tenant_users :: EndpointDoc where
  "ep_get_v1_tenant_users =
     \<lparr>ed_id = ''get-v1-tenant-users'', ed_group = ''management'', ed_method = ''GET'',
      ed_path = ''/v1/tenant/users'', ed_summary = ''List Tenant Users'',
      ed_description = ''List Tenant Users'',
      ed_scope = Some ''users:write'', ed_auth = ''bearer'',
      ed_parameters = [],
      ed_body = None,
      ed_responses = [(200, ''Successful Response'')],
      ed_sdkMethod = Some ''client.tenant.users.list()''\<rparr>"

definition ep_post_v1_tenant_users :: EndpointDoc where
  "ep_post_v1_tenant_users =
     \<lparr>ed_id = ''post-v1-tenant-users'', ed_group = ''management'', ed_method = ''POST'',
      ed_path = ''/v1/tenant/users'', ed_summary = ''Invite Tenant User'',
      ed_description = ''Invite Tenant User'',
      ed_scope = Some ''users:write'', ed_auth = ''bearer'',
      ed_parameters = [],
      ed_body = Some (True, ''application/json'', ''Request Payload''),
      ed_responses = [(201, ''Successful Response''), (422, ''Validation Error'')],
      ed_sdkMethod = Some ''client.tenant.users.invite(email='dev@example.com', role='tenant_developer')''\<rparr>"

definition ep_get_v1_tenant_users_user_id :: EndpointDoc where
  "ep_get_v1_tenant_users_user_id =
     \<lparr>ed_id = ''get-v1-tenant-users-user-id'', ed_group = ''management'', ed_method = ''GET'',
      ed_path = ''/v1/tenant/users/{user_id}'', ed_summary = ''Get Tenant User'',
      ed_description = ''Get Tenant User'',
      ed_scope = Some ''users:write'', ed_auth = ''bearer'',
      ed_parameters = [(''user_id'', ''path'', True, ''string'', [])],
      ed_body = None,
      ed_responses = [(200, ''Successful Response''), (422, ''Validation Error'')],
      ed_sdkMethod = Some ''client.tenant.users.get(user_id='user-123')''\<rparr>"

definition ep_patch_v1_tenant_users_user_id :: EndpointDoc where
  "ep_patch_v1_tenant_users_user_id =
     \<lparr>ed_id = ''patch-v1-tenant-users-user-id'', ed_group = ''management'', ed_method = ''PATCH'',
      ed_path = ''/v1/tenant/users/{user_id}'', ed_summary = ''Update Tenant User'',
      ed_description = ''Change a member's role, or lock, unlock or disable the account. Ends the member's sessions.'',
      ed_scope = Some ''users:write'', ed_auth = ''bearer'',
      ed_parameters = [(''user_id'', ''path'', True, ''string'', [])],
      ed_body = Some (True, ''application/json'', ''Request Payload''),
      ed_responses = [(200, ''Successful Response''), (422, ''Validation Error'')],
      ed_sdkMethod = Some ''client.tenant.users.update(user_id='user-123', role='tenant_admin')''\<rparr>"

definition ep_delete_v1_tenant_users_user_id_invitation :: EndpointDoc where
  "ep_delete_v1_tenant_users_user_id_invitation =
     \<lparr>ed_id = ''delete-v1-tenant-users-user-id-invitation'', ed_group = ''management'', ed_method = ''DELETE'',
      ed_path = ''/v1/tenant/users/{user_id}/invitation'', ed_summary = ''Revoke Tenant User Invitation'',
      ed_description = ''Withdraw a pending invitation; its one-time setup link stops working.'',
      ed_scope = Some ''users:write'', ed_auth = ''bearer'',
      ed_parameters = [(''user_id'', ''path'', True, ''string'', [])],
      ed_body = None,
      ed_responses = [(200, ''Successful Response''), (422, ''Validation Error'')],
      ed_sdkMethod = Some ''client.tenant.users.revoke_invitation(user_id='user-123')''\<rparr>"

definition ep_post_v1_tenant_users_user_id_invitation_resend :: EndpointDoc where
  "ep_post_v1_tenant_users_user_id_invitation_resend =
     \<lparr>ed_id = ''post-v1-tenant-users-user-id-invitation-resend'', ed_group = ''management'', ed_method = ''POST'',
      ed_path = ''/v1/tenant/users/{user_id}/invitation:resend'', ed_summary = ''Resend Tenant User Invitation'',
      ed_description = ''Issue a new one-time setup link for a pending invitation; earlier links stop working.'',
      ed_scope = Some ''users:write'', ed_auth = ''bearer'',
      ed_parameters = [(''user_id'', ''path'', True, ''string'', [])],
      ed_body = None,
      ed_responses = [(200, ''Successful Response''), (422, ''Validation Error'')],
      ed_sdkMethod = Some ''client.tenant.users.resend_invitation(user_id='user-123')''\<rparr>"

definition ep_post_v1_tenants :: EndpointDoc where
  "ep_post_v1_tenants =
     \<lparr>ed_id = ''post-v1-tenants'', ed_group = ''management'', ed_method = ''POST'',
      ed_path = ''/v1/tenants'', ed_summary = ''Register Tenant'',
      ed_description = ''Register Tenant'',
      ed_scope = None, ed_auth = ''none'',
      ed_parameters = [(''Idempotency-Key'', ''header'', True, ''string'', [])],
      ed_body = Some (True, ''application/json'', ''Request Payload''),
      ed_responses = [(200, ''OK''), (201, ''Successful Response''), (422, ''Validation Error'')],
      ed_sdkMethod = Some ''client.tenant.auth.register(business_name='Acme', email='admin@acme.com')''\<rparr>"

definition ep_get_v1_training_jobs :: EndpointDoc where
  "ep_get_v1_training_jobs =
     \<lparr>ed_id = ''get-v1-training-jobs'', ed_group = ''models'', ed_method = ''GET'',
      ed_path = ''/v1/training-jobs'', ed_summary = ''List Training Jobs'',
      ed_description = ''List Training Jobs'',
      ed_scope = Some ''training:read'', ed_auth = ''bearer'',
      ed_parameters = [],
      ed_body = None,
      ed_responses = [(200, ''Successful Response'')],
      ed_sdkMethod = Some ''client.tenant.training_jobs.list()''\<rparr>"

definition ep_post_v1_training_jobs :: EndpointDoc where
  "ep_post_v1_training_jobs =
     \<lparr>ed_id = ''post-v1-training-jobs'', ed_group = ''models'', ed_method = ''POST'',
      ed_path = ''/v1/training-jobs'', ed_summary = ''Create Training Job'',
      ed_description = ''Create Training Job'',
      ed_scope = Some ''training:write'', ed_auth = ''bearer'',
      ed_parameters = [],
      ed_body = Some (True, ''application/json'', ''Request Payload''),
      ed_responses = [(200, ''Successful Response''), (422, ''Validation Error'')],
      ed_sdkMethod = Some ''client.tenant.training_jobs.create(dataset_snapshot_id='snap-123')''\<rparr>"

definition ep_get_v1_training_jobs_job_id :: EndpointDoc where
  "ep_get_v1_training_jobs_job_id =
     \<lparr>ed_id = ''get-v1-training-jobs-job-id'', ed_group = ''models'', ed_method = ''GET'',
      ed_path = ''/v1/training-jobs/{job_id}'', ed_summary = ''Get Training Job'',
      ed_description = ''Get Training Job'',
      ed_scope = Some ''training:read'', ed_auth = ''bearer'',
      ed_parameters = [(''job_id'', ''path'', True, ''string'', [])],
      ed_body = None,
      ed_responses = [(200, ''Successful Response''), (422, ''Validation Error'')],
      ed_sdkMethod = Some ''client.tenant.training_jobs.get(job_id='job-123')''\<rparr>"

definition ep_post_v1_training_jobs_job_id_cancel :: EndpointDoc where
  "ep_post_v1_training_jobs_job_id_cancel =
     \<lparr>ed_id = ''post-v1-training-jobs-job-id-cancel'', ed_group = ''models'', ed_method = ''POST'',
      ed_path = ''/v1/training-jobs/{job_id}:cancel'', ed_summary = ''Cancel Training Job'',
      ed_description = ''Cancel Training Job'',
      ed_scope = Some ''training:write'', ed_auth = ''bearer'',
      ed_parameters = [(''job_id'', ''path'', True, ''string'', [])],
      ed_body = Some (False, ''application/json'', ''Payload''),
      ed_responses = [(200, ''Successful Response''), (422, ''Validation Error'')],
      ed_sdkMethod = Some ''client.tenant.training_jobs.cancel(job_id='job-123')''\<rparr>"

definition ep_get_v1_usage :: EndpointDoc where
  "ep_get_v1_usage =
     \<lparr>ed_id = ''get-v1-usage'', ed_group = ''management'', ed_method = ''GET'',
      ed_path = ''/v1/usage'', ed_summary = ''Get Usage'',
      ed_description = ''Get Usage'',
      ed_scope = Some ''usage:read'', ed_auth = ''apiKey'',
      ed_parameters = [(''period'', ''query'', False, ''string'', ''UC-24: a monthly billing period, YYYY-MM (default: the current one). Up to 24 months back; never in the future.'')],
      ed_body = None,
      ed_responses = [(200, ''Successful Response''), (422, ''Validation Error'')],
      ed_sdkMethod = Some ''client.tenant.usage.get(period='current')''\<rparr>"

definition ep_get_v1_usage_trends :: EndpointDoc where
  "ep_get_v1_usage_trends =
     \<lparr>ed_id = ''get-v1-usage-trends'', ed_group = ''management'', ed_method = ''GET'',
      ed_path = ''/v1/usage/trends'', ed_summary = ''Get Usage Trends'',
      ed_description = ''XR-F-07: usage summarized by period and usage type for the caller's tenant.'',
      ed_scope = Some ''usage:read'', ed_auth = ''apiKey'',
      ed_parameters = [(''granularity'', ''query'', False, ''string'', []),
         (''start'', ''query'', False, ''string'', ''Inclusive ISO-8601 start (default: 30 days before end).''),
         (''end'', ''query'', False, ''string'', ''Exclusive ISO-8601 end (default: now).''),
         (''types'', ''query'', False, ''string'', ''Comma-separated usage types (default: all metered types).'')],
      ed_body = None,
      ed_responses = [(200, ''Successful Response''), (422, ''Validation Error'')],
      ed_sdkMethod = Some ''client.tenant.usage.trends(granularity='day')''\<rparr>"

definition ep_get_healthz :: EndpointDoc where
  "ep_get_healthz =
     \<lparr>ed_id = ''get-healthz'', ed_group = ''serving'', ed_method = ''GET'',
      ed_path = ''/healthz'', ed_summary = ''Liveness Probe'',
      ed_description = ''Liveness check that confirms the HTTP server process is running and can query PostgreSQL.'',
      ed_scope = None, ed_auth = ''none'',
      ed_parameters = [],
      ed_body = None,
      ed_responses = [(200, ''System live'')],
      ed_sdkMethod = Some ''client.health()''\<rparr>"

definition ep_get_readyz :: EndpointDoc where
  "ep_get_readyz =
     \<lparr>ed_id = ''get-readyz'', ed_group = ''serving'', ed_method = ''GET'',
      ed_path = ''/readyz'', ed_summary = ''Deep Readiness Probe'',
      ed_description = ''Deep readiness inspection measuring PostgreSQL, Redis, and Qdrant vector store dependencies.'',
      ed_scope = None, ed_auth = ''none'',
      ed_parameters = [],
      ed_body = None,
      ed_responses = [(200, ''System ready'')],
      ed_sdkMethod = Some ''client.ready()''\<rparr>"

definition ENDPOINTS :: "EndpointDoc list" where
  "ENDPOINTS =
     [ep_get_v1_api_keys, ep_post_v1_api_keys, ep_delete_v1_api_keys_key_id, ep_get_v1_api_keys_key_id,
      ep_post_v1_api_keys_key_id_rotate, ep_get_v1_audit, ep_post_v1_auth_login, ep_post_v1_auth_logout,
      ep_post_v1_auth_recover_password, ep_post_v1_auth_refresh, ep_post_v1_auth_setup_password,
      ep_get_v1_catalog_syncs, ep_get_v1_catalog_syncs_sync_id, ep_get_v1_datasets_snapshots,
      ep_post_v1_datasets_snapshots, ep_get_v1_datasets_snapshots_snapshot_id, ep_post_v1_datasets_upload,
      ep_get_v1_deployment, ep_get_v1_deployment_scaling, ep_get_v1_events, ep_post_v1_events,
      ep_get_v1_events_batches, ep_post_v1_events_batches, ep_get_v1_events_batches_batch_id,
      ep_post_v1_feedback_clicks, ep_post_v1_feedback_conversions, ep_post_v1_feedback_impressions,
      ep_get_v1_meta, ep_get_v1_metrics_summary, ep_get_v1_model_versions, ep_post_v1_model_versions,
      ep_get_v1_model_versions_version_id, ep_post_v1_model_versions_version_id_activate,
      ep_post_v1_model_versions_version_id_archive, ep_post_v1_model_versions_version_id_rollback,
      ep_post_v1_models_model_id_rollback, ep_get_v1_plans, ep_get_v1_platform_audit,
      ep_post_v1_platform_auth_login, ep_get_v1_platform_failures, ep_get_v1_platform_me,
      ep_get_v1_platform_operators, ep_post_v1_platform_operators,
      ep_patch_v1_platform_operators_operator_id, ep_get_v1_platform_plan_requests,
      ep_post_v1_platform_plan_requests_request_id_approve,
      ep_post_v1_platform_plan_requests_request_id_reject, ep_get_v1_platform_plans,
      ep_put_v1_platform_plans_plan_id, ep_get_v1_platform_status, ep_get_v1_platform_tenants,
      ep_get_v1_platform_tenants_tenant_id, ep_post_v1_platform_tenants_tenant_id_plan,
      ep_get_v1_platform_tenants_tenant_id_quotas, ep_post_v1_platform_tenants_tenant_id_quotas,
      ep_post_v1_platform_tenants_tenant_id_recovery, ep_post_v1_platform_tenants_tenant_id_status,
      ep_get_v1_platform_tenants_tenant_id_usage, ep_get_v1_platform_usage, ep_get_v1_products,
      ep_get_v1_products_external_id, ep_patch_v1_products_external_id, ep_put_v1_products_external_id,
      ep_post_v1_products_external_id_disable, ep_post_v1_products_bulk_upsert,
      ep_get_v1_recommendation_policy, ep_put_v1_recommendation_policy, ep_post_v1_recommendations,
      ep_post_v1_recommendations_session, ep_get_v1_retraining_policy, ep_put_v1_retraining_policy,
      ep_get_v1_subscription, ep_get_v1_subscription_requests, ep_post_v1_subscription_requests,
      ep_post_v1_subscription_requests_request_id_cancel, ep_get_v1_tenant_status, ep_get_v1_tenant_users,
      ep_post_v1_tenant_users, ep_get_v1_tenant_users_user_id, ep_patch_v1_tenant_users_user_id,
      ep_delete_v1_tenant_users_user_id_invitation, ep_post_v1_tenant_users_user_id_invitation_resend,
      ep_post_v1_tenants, ep_get_v1_training_jobs, ep_post_v1_training_jobs,
      ep_get_v1_training_jobs_job_id, ep_post_v1_training_jobs_job_id_cancel, ep_get_v1_usage,
      ep_get_v1_usage_trends, ep_get_healthz, ep_get_readyz]"

lemmas endpoint_defs =
  ep_get_v1_api_keys_def ep_post_v1_api_keys_def ep_delete_v1_api_keys_key_id_def
  ep_get_v1_api_keys_key_id_def ep_post_v1_api_keys_key_id_rotate_def ep_get_v1_audit_def
  ep_post_v1_auth_login_def ep_post_v1_auth_logout_def ep_post_v1_auth_recover_password_def
  ep_post_v1_auth_refresh_def ep_post_v1_auth_setup_password_def ep_get_v1_catalog_syncs_def
  ep_get_v1_catalog_syncs_sync_id_def ep_get_v1_datasets_snapshots_def ep_post_v1_datasets_snapshots_def
  ep_get_v1_datasets_snapshots_snapshot_id_def ep_post_v1_datasets_upload_def ep_get_v1_deployment_def
  ep_get_v1_deployment_scaling_def ep_get_v1_events_def ep_post_v1_events_def
  ep_get_v1_events_batches_def ep_post_v1_events_batches_def ep_get_v1_events_batches_batch_id_def
  ep_post_v1_feedback_clicks_def ep_post_v1_feedback_conversions_def ep_post_v1_feedback_impressions_def
  ep_get_v1_meta_def ep_get_v1_metrics_summary_def ep_get_v1_model_versions_def
  ep_post_v1_model_versions_def ep_get_v1_model_versions_version_id_def ep_post_v1_model_versions_version_id_activate_def
  ep_post_v1_model_versions_version_id_archive_def ep_post_v1_model_versions_version_id_rollback_def ep_post_v1_models_model_id_rollback_def
  ep_get_v1_plans_def ep_get_v1_platform_audit_def ep_post_v1_platform_auth_login_def
  ep_get_v1_platform_failures_def ep_get_v1_platform_me_def ep_get_v1_platform_operators_def
  ep_post_v1_platform_operators_def ep_patch_v1_platform_operators_operator_id_def ep_get_v1_platform_plan_requests_def
  ep_post_v1_platform_plan_requests_request_id_approve_def ep_post_v1_platform_plan_requests_request_id_reject_def ep_get_v1_platform_plans_def
  ep_put_v1_platform_plans_plan_id_def ep_get_v1_platform_status_def ep_get_v1_platform_tenants_def
  ep_get_v1_platform_tenants_tenant_id_def ep_post_v1_platform_tenants_tenant_id_plan_def ep_get_v1_platform_tenants_tenant_id_quotas_def
  ep_post_v1_platform_tenants_tenant_id_quotas_def ep_post_v1_platform_tenants_tenant_id_recovery_def ep_post_v1_platform_tenants_tenant_id_status_def
  ep_get_v1_platform_tenants_tenant_id_usage_def ep_get_v1_platform_usage_def ep_get_v1_products_def
  ep_get_v1_products_external_id_def ep_patch_v1_products_external_id_def ep_put_v1_products_external_id_def
  ep_post_v1_products_external_id_disable_def ep_post_v1_products_bulk_upsert_def ep_get_v1_recommendation_policy_def
  ep_put_v1_recommendation_policy_def ep_post_v1_recommendations_def ep_post_v1_recommendations_session_def
  ep_get_v1_retraining_policy_def ep_put_v1_retraining_policy_def ep_get_v1_subscription_def
  ep_get_v1_subscription_requests_def ep_post_v1_subscription_requests_def ep_post_v1_subscription_requests_request_id_cancel_def
  ep_get_v1_tenant_status_def ep_get_v1_tenant_users_def ep_post_v1_tenant_users_def
  ep_get_v1_tenant_users_user_id_def ep_patch_v1_tenant_users_user_id_def ep_delete_v1_tenant_users_user_id_invitation_def
  ep_post_v1_tenant_users_user_id_invitation_resend_def ep_post_v1_tenants_def ep_get_v1_training_jobs_def
  ep_post_v1_training_jobs_def ep_get_v1_training_jobs_job_id_def ep_post_v1_training_jobs_job_id_cancel_def
  ep_get_v1_usage_def ep_get_v1_usage_trends_def ep_get_healthz_def
  ep_get_readyz_def

end
