(* ===== verification/DocsSdk.thy ===== *)
theory DocsSdk
  imports DocsSite
begin

text \<open>
  The reference of the Python SDK (\<open>web/src/pages/docs/DocsSdkPage.tsx\<close>): docstrings drawn as paragraphs, blocks
  and spans of code, the filter over the methods, the sections it leaves and the cards links lead to.
\<close>

section \<open>The reference of the SDK\<close>

text \<open>\<open>split(/\n\s*\n/)\<close>: a run of white space that starts and ends with a line break separates paragraphs.\<close>

definition after_last_break :: "string \<Rightarrow> string" where
  "after_last_break cs =
     drop (length (takeWhile js_space cs) - length (takeWhile (\<lambda>c. c \<noteq> CHR 0x0A) (rev (takeWhile js_space cs)))) cs"

lemma length_after_last_break [termination_simp]: "length (after_last_break cs) < Suc (length cs)"
  by (simp add: after_last_break_def le_imp_less_Suc)

fun doc_blocks :: "string \<Rightarrow> string \<Rightarrow> string list" where
  "doc_blocks acc [] = [rev acc]"
| "doc_blocks acc (c # cs) =
     (if c = CHR 0x0A \<and> CHR 0x0A \<in> set (takeWhile js_space cs)
      then rev acc # doc_blocks [] (after_last_break cs) else doc_blocks (c # acc) cs)"

text \<open>\<open>split(/(`[^`]+`)/g)\<close>: the texts between the spans of code, and the spans.\<close>

lemma length_after_span [termination_simp]: "length (dropWhile P cs) - Suc 0 < Suc (length cs)"
  using length_dropWhile_le [of P cs] by arith

fun inline_parts :: "string \<Rightarrow> string \<Rightarrow> string list" where
  "inline_parts acc [] = [rev acc]"
| "inline_parts acc (c # cs) =
     (if c = CHR ''`'' \<and> takeWhile (\<lambda>x. x \<noteq> CHR ''`'') cs \<noteq> [] \<and> dropWhile (\<lambda>x. x \<noteq> CHR ''`'') cs \<noteq> []
      then rev acc # (c # takeWhile (\<lambda>x. x \<noteq> CHR ''`'') cs @ [CHR ''`''])
        # inline_parts [] (tl (dropWhile (\<lambda>x. x \<noteq> CHR ''`'') cs))
      else inline_parts (c # acc) cs)"

datatype doc_part = Code_part string | Text_part string

definition inline_part :: "string \<Rightarrow> doc_part" where
  "inline_part s =
     (if starts_with s ''`'' \<and> ends_with s ''`'' then Code_part (butlast (tl s)) else Text_part s)"

definition inline_text :: "string \<Rightarrow> doc_part list" where
  "inline_text s = map inline_part (inline_parts [] s)"

fun part_text :: "doc_part \<Rightarrow> string" where
  "part_text (Code_part s) = s"
| "part_text (Text_part s) = s"

datatype doc_piece = Code_block string | Paragraph "doc_part list"

definition doc_block :: "string \<Rightarrow> doc_piece" where
  "doc_block b =
     (let ls = js_split CHR 0x0A b in
      if list_all (\<lambda>l. starts_with l (replicate 4 CHR '' '') \<or> js_trim l = []) ls
      then Code_block (js_join [CHR 0x0A] (map (drop 4) ls))
      else Paragraph (inline_text (if ends_with b ''::'' then butlast b else b)))"

definition DocText :: "string \<Rightarrow> doc_piece list" where
  "DocText t = (if t = [] then [] else map doc_block (doc_blocks [] t))"

text \<open>\<open>split(/\s+/)\<close>.\<close>

function split_spaces :: "string \<Rightarrow> string list" where
  "split_spaces s =
     (case dropWhile (\<lambda>c. \<not> js_space c) s of
        [] \<Rightarrow> [s]
      | c # cs \<Rightarrow> takeWhile (\<lambda>c. \<not> js_space c) s # split_spaces (dropWhile js_space cs))"
  by pat_completeness auto

termination
proof (relation "measure length")
  fix s c cs
  assume "dropWhile (\<lambda>c. \<not> js_space c) s = c # cs"
  then have "Suc (length cs) \<le> length s" using length_dropWhile_le [of "\<lambda>c. \<not> js_space c" s] by simp
  then show "(dropWhile js_space cs, s) \<in> measure length" using length_dropWhile_le [of js_space cs] by simp
qed simp

definition method_haystack :: "SdkMethod \<Rightarrow> string" where
  "method_haystack m =
     to_lower (sm_call m @ '' '' @ sm_signature m @ '' '' @ sm_doc m @ '' ''
       @ js_join '' '' (map (\<lambda>r. sr_path r @ '' '' @ js_join '' '' (sr_scopes r)) (sm_routes m)))"

definition sdk_matches :: "string \<Rightarrow> SdkMethod \<Rightarrow> bool" where
  "sdk_matches q m = (q = [] \<or> list_all (js_includes (method_haystack m)) (split_spaces q))"

definition sdk_query :: "string \<Rightarrow> string" where
  "sdk_query query = to_lower (js_trim query)"

definition sdk_hits :: "SdkReference \<Rightarrow> string \<Rightarrow> nat" where
  "sdk_hits s query =
     (let q = sdk_query query in
      if q \<noteq> [] then length (filter (sdk_matches q) (sdk_methods s)) else length (sdk_methods s))"

text \<open>A resource and the methods it shows, unless it is left out; the count beside its name is of all its methods.\<close>

definition ResourceSection :: "string \<Rightarrow> SdkResource \<Rightarrow> (string \<times> nat \<times> SdkMethod list) option" where
  "ResourceSection q r =
     (let ms = filter (sdk_matches q) (sx_methods r) in
      if q \<noteq> [] \<and> ms = [] then None else Some (sx_id r, length (sx_methods r), ms))"

definition clientResource :: "SdkReference \<Rightarrow> SdkResource" where
  "clientResource s =
     \<lparr>sx_id = ''client-methods'', sx_path = ''client'', sx_title = ''client'', sx_className = ''GraphRec'',
      sx_asyncClass = Some ''AsyncGraphRec'', sx_doc = ''Service checks and credential helpers on the client itself.'',
      sx_ctor = None, sx_contextManager = None, sx_methods = sdk_clientMethods s\<rparr>"

definition sdk_sections :: "SdkReference \<Rightarrow> string \<Rightarrow> (string \<times> nat \<times> SdkMethod list) list" where
  "sdk_sections s query =
     List.map_filter (ResourceSection (sdk_query query))
       (clientResource s # concat (map ns_resources (sdk_namespaces s)) @ sdk_helpers s)"

text \<open>A method's card: the heading links lead to, and whether the address names it.\<close>

definition card_id :: "SdkMethod \<Rightarrow> string" where
  "card_id m = anchor (sm_call m)"

definition card_highlighted :: "string \<Rightarrow> SdkMethod \<Rightarrow> bool" where
  "card_highlighted url_hash m = (url_hash = CHR ''#'' # card_id m)"

definition card_idempotent :: "SdkMethod \<Rightarrow> bool" where
  "card_idempotent m = (sm_routes m \<noteq> [] \<and> list_all sr_idempotent (sm_routes m))"

text \<open>What a card shows: its routes with their badges, the text, the table of its arguments and what it returns.\<close>

definition route_auth_badge :: "SdkRoute \<Rightarrow> string option" where
  "route_auth_badge r =
     (if sr_auth r = ''none'' then Some ''Public'' else if sr_auth r = ''bearer'' then Some ''User token'' else None)"

definition route_badges :: "SdkMethod \<Rightarrow> (string \<times> string \<times> string list \<times> string option) list" where
  "route_badges m = map (\<lambda>r. (sr_method r, sr_path r, sr_scopes r, route_auth_badge r)) (sm_routes m)"

definition method_text :: "SdkMethod \<Rightarrow> doc_piece list" where
  "method_text m =
     (if sm_doc m \<noteq> [] then DocText (sm_doc m)
      else if sm_routes m \<noteq> []
      then [Paragraph [Text_part ''Calls '',
              Code_part (js_join '', '' (map (\<lambda>r. sr_method r @ '' '' @ sr_path r) (sm_routes m))), Text_part ''.'']]
      else [])"

text \<open>A row: name and whether it is given by keyword only, type, whether it is required, default, and description if asked for.\<close>

definition param_row :: "bool \<Rightarrow> SdkParam \<Rightarrow> (string \<times> bool) \<times> string \<times> string \<times> string \<times> string option" where
  "param_row withDescription p =
     ((sq_name p, sq_kind p = ''keyword''), if sq_type p = [] then ''Any'' else sq_type p,
      if sq_required p then ''Required'' else ''Optional'', or_else (sq_default p) em_dash,
      if withDescription then sq_description p else None)"

definition method_returns :: "SdkMethod \<Rightarrow> string option" where
  "method_returns m = (if sm_returns m = [] then None else Some (sm_returns m))"

text \<open>The line under the heading of a resource, and the cards of the namespaces.\<close>

definition resource_line :: "SdkResource \<Rightarrow> string" where
  "resource_line r =
     sx_className r @ (if truthy (sx_asyncClass r) then '' '' @ mid_dot @ '' async: '' @ the (sx_asyncClass r) else []) @
     '' '' @ mid_dot @ '' '' @ show_int (int (length (sx_methods r))) @ '' method'' @
     (if length (sx_methods r) = 1 then [] else ''s'')"

definition namespace_links :: "SdkNamespace \<Rightarrow> (string \<times> string) \<times> (string \<times> string \<times> nat) list" where
  "namespace_links n =
     ((CHR ''#'' # ns_name n, ns_path n),
      map (\<lambda>r. (CHR ''#'' # sx_id r, sx_title r, length (sx_methods r))) (ns_resources n))"

definition error_row :: "SdkError \<Rightarrow> string \<times> string \<times> string \<times> string list \<times> doc_part list" where
  "error_row e =
     (xe_name e, xe_base e, if xe_statuses e \<noteq> [] then js_join '', '' (map show_int (xe_statuses e)) else em_dash,
      if xe_codes e \<noteq> [] then xe_codes e else [em_dash], inline_text (xe_doc e))"

definition scope_rows :: "SdkReference \<Rightarrow> (string \<times> string list) list" where
  "scope_rows s =
     concat (map (\<lambda>(name0, v). case v of
         Inl scopes \<Rightarrow> [(name0, scopes)]
       | Inr roles \<Rightarrow> map (\<lambda>(role, scopes). (name0 @ ''['' @ [CHR 0x22] @ role @ [CHR 0x22] @ '']'', scopes)) roles) (sdk_scopeSets s))"

text \<open>The ids of the page: fixed headings, namespaces, resources, cards and errors.\<close>

definition FIXED_HEADINGS :: "string list" where
  "FIXED_HEADINGS =
     [''installation'', ''quickstart'', ''configuration'', ''environment'', ''behaviour'', ''async'', ''reference'',
      ''ecommerce'', ''errors'', ''types'', ''enums'', ''scopes'', ''examples'']"

definition page_ids :: "SdkReference \<Rightarrow> string list" where
  "page_ids s =
     FIXED_HEADINGS @ map ns_name (sdk_namespaces s) @
     map sx_id (clientResource s # concat (map ns_resources (sdk_namespaces s)) @ sdk_helpers s) @
     map card_id (sdk_methods s) @ map (\<lambda>e. ''error-'' @ xe_name e) (sdk_errors s)"

section \<open>Properties\<close>

lemma span_parts:
  assumes "dropWhile (\<lambda>x. x \<noteq> d) cs \<noteq> []"
  shows "takeWhile (\<lambda>x. x \<noteq> d) cs @ d # tl (dropWhile (\<lambda>x. x \<noteq> d) cs) = cs"
proof -
  have "hd (dropWhile (\<lambda>x. x \<noteq> d) cs) = d" using hd_dropWhile [OF assms] by simp
  with assms have "dropWhile (\<lambda>x. x \<noteq> d) cs = d # tl (dropWhile (\<lambda>x. x \<noteq> d) cs)"
    by (cases "dropWhile (\<lambda>x. x \<noteq> d) cs") simp_all
  then show ?thesis by (metis takeWhile_dropWhile_id)
qed

lemma concat_inline_parts: "concat (inline_parts acc s) = rev acc @ s"
proof (induction acc s rule: inline_parts.induct)
  case (2 acc c cs)
  show ?case
  proof (cases "c = CHR ''`'' \<and> takeWhile (\<lambda>x. x \<noteq> CHR ''`'') cs \<noteq> [] \<and> dropWhile (\<lambda>x. x \<noteq> CHR ''`'') cs \<noteq> []")
    case True
    then show ?thesis using "2.IH"(1) [OF True] span_parts [of "CHR ''`''" cs] by simp
  next
    case False
    then show ?thesis using "2.IH"(2) [OF False] by (simp only: inline_parts.simps if_False rev.simps append_assoc append.simps)
  qed
qed simp

lemma filter_snoc_out: "r = q @ [d] \<Longrightarrow> filter (\<lambda>c. c \<noteq> d) r = filter (\<lambda>c. c \<noteq> d) q"
  by simp

lemma inline_part_text:
  "filter (\<lambda>c. c \<noteq> CHR ''`'') (part_text (inline_part s)) = filter (\<lambda>c. c \<noteq> CHR ''`'') s"
proof (cases "starts_with s ''`'' \<and> ends_with s ''`''")
  case True
  then obtain r q where r: "s = CHR ''`'' # r" and q: "s = q @ [CHR ''`'']"
    by (metis append_Cons append_Nil ends_with_def rev_append rev_rev_ident rev_singleton_conv starts_with_iff)
  show ?thesis
  proof (cases "r = []")
    case True
    with r show ?thesis by (simp add: inline_part_def)
  next
    case False
    with r q have "last r = CHR ''`''" by (metis last_ConsR last_snoc)
    with False have "r = butlast r @ [CHR ''`'']" by (metis append_butlast_last_id)
    then have "filter (\<lambda>c. c \<noteq> CHR ''`'') r = filter (\<lambda>c. c \<noteq> CHR ''`'') (butlast r)" by (rule filter_snoc_out)
    with True r show ?thesis by (simp add: inline_part_def)
  qed
next
  case False
  then show ?thesis by (auto simp: inline_part_def)
qed

text \<open>A docstring's paragraph is cut into spans of code and the texts between them without losing anything, and
  drawing it loses only backquotes.\<close>

lemma inline_roundtrip:
  "concat (inline_parts [] s) = s \<and>
   filter (\<lambda>c. c \<noteq> CHR ''`'') (concat (map part_text (inline_text s))) = filter (\<lambda>c. c \<noteq> CHR ''`'') s"
proof -
  have "filter (\<lambda>c. c \<noteq> CHR ''`'') (concat (map (part_text \<circ> inline_part) ps)) = filter (\<lambda>c. c \<noteq> CHR ''`'') (concat ps)" for ps
    by (induction ps) (simp_all add: inline_part_text)
  then show ?thesis by (simp add: concat_inline_parts inline_text_def)
qed

text \<open>The sections show, in order, the methods the filter finds; their number is the one beside the filter.\<close>

lemma sections_methods:
  "concat (map (snd \<circ> snd) (List.map_filter (ResourceSection q) rs)) = filter (sdk_matches q) (concat (map sx_methods rs))"
  by (induction rs) (auto simp: List.map_filter_simps ResourceSection_def Let_def)

lemma sdk_matches_Nil [simp]: "sdk_matches [] = (\<lambda>m. True)"
  by (simp add: sdk_matches_def fun_eq_iff)

lemma all_methods:
  "concat (map sx_methods (clientResource s # concat (map ns_resources (sdk_namespaces s)) @ sdk_helpers s)) = sdk_methods s"
proof -
  have "concat (map sx_methods (concat (map ns_resources ns))) = concat (map (\<lambda>n. concat (map sx_methods (ns_resources n))) ns)"
    for ns :: "SdkNamespace list"
    by (induction ns) simp_all
  then show ?thesis by (simp add: clientResource_def sdk_methods_def)
qed

lemma sections_concat:
  "concat (map (snd \<circ> snd) (sdk_sections s query)) = filter (sdk_matches (sdk_query query)) (sdk_methods s)"
  by (simp only: sdk_sections_def sections_methods all_methods)

lemma sections_filled:
  "q \<noteq> [] \<Longrightarrow> list_all (\<lambda>(i, n, ms). ms \<noteq> [] \<and> length ms \<le> n) (List.map_filter (ResourceSection q) rs)"
  by (induction rs) (auto simp: List.map_filter_simps ResourceSection_def Let_def)

text \<open>The filter of the SDK reference. The sections left show, in their order, exactly the methods that match,
  no section is left without one, and the figure beside the filter is their number.\<close>

lemma sdk_filter:
  "concat (map (snd \<circ> snd) (sdk_sections s query)) = filter (sdk_matches (sdk_query query)) (sdk_methods s) \<and>
   sdk_hits s query = sum_list (map (length \<circ> (snd \<circ> snd)) (sdk_sections s query)) \<and>
   (if sdk_query query = [] then sdk_hits s query = length (sdk_methods s)
    else list_all (\<lambda>(i, n, ms). ms \<noteq> [] \<and> length ms \<le> n) (sdk_sections s query))"
proof -
  have "sum_list (map (length \<circ> (snd \<circ> snd)) xs) = length (concat (map (snd \<circ> snd) xs))" for xs :: "(string \<times> nat \<times> SdkMethod list) list"
    by (simp add: length_concat comp_def)
  then have h: "sdk_hits s query = sum_list (map (length \<circ> (snd \<circ> snd)) (sdk_sections s query))"
    by (simp add: sections_concat sdk_hits_def Let_def)
  have "sdk_query query \<noteq> [] \<Longrightarrow> list_all (\<lambda>(i, n, ms). ms \<noteq> [] \<and> length ms \<le> n) (sdk_sections s query)"
    unfolding sdk_sections_def by (rule sections_filled)
  moreover have "sdk_query query = [] \<Longrightarrow> sdk_hits s query = length (sdk_methods s)" by (simp add: sdk_hits_def)
  ultimately show ?thesis using h by (simp add: sections_concat)
qed

lemma hit_of_method:
  assumes "hit \<in> set (search_results eps s query)" "hit_category hit = Hit_sdk"
  shows "\<exists>m \<in> set (sdk_methods s). hit = method_hit m"
proof -
  have a: "a \<in> set STATIC_ARTICLES \<Longrightarrow> hit_category a = Hit_guide" for a by (auto simp: STATIC_ARTICLES_def article_def)
  have e: "hit_category (endpoint_hit e) = Hit_endpoint" for e by (simp add: endpoint_hit_def)
  show ?thesis using assms a e unfolding search_results_def Let_def by (auto split: if_splits dest: in_set_takeD)
qed

text \<open>Links into the SDK reference. A method found by the search leads to its card. An endpoint of the API
  reference names the call with its arguments, and the link made of it leads to no card.\<close>

lemma sdk_links:
  "(hit \<in> set (search_results eps s query) \<and> hit_category hit = Hit_sdk \<longrightarrow>
     (\<exists>m \<in> set (concat (map (snd \<circ> snd) (sdk_sections s []))).
        hit_url hit = ''/docs/sdk#'' @ card_id m \<and> card_highlighted (CHR ''#'' # card_id m) m)) \<and>
   (sdk_link e = Some u \<and> last (the (ed_sdkMethod e)) = CHR '')'' \<longrightarrow>
     list_all (\<lambda>m. sm_call m \<noteq> [] \<and> anchor_char (last (sm_call m)) \<and> last (sm_call m) \<noteq> CHR ''-'') (sdk_methods s) \<longrightarrow>
     u \<notin> (\<lambda>m. ''/docs/sdk#'' @ card_id m) ` set (sdk_methods s))"
proof (intro conjI impI)
  assume "hit \<in> set (search_results eps s query) \<and> hit_category hit = Hit_sdk"
  then obtain m where "m \<in> set (sdk_methods s)" "hit = method_hit m" using hit_of_method by blast
  moreover have "concat (map (snd \<circ> snd) (sdk_sections s [])) = sdk_methods s" 
    by (simp add: sections_concat sdk_query_def js_trim_def to_lower_def)
  ultimately show "\<exists>m \<in> set (concat (map (snd \<circ> snd) (sdk_sections s []))).
        hit_url hit = ''/docs/sdk#'' @ card_id m \<and> card_highlighted (CHR ''#'' # card_id m) m"
    by (auto simp: method_hit_def card_id_def card_highlighted_def)
next
  assume l: "sdk_link e = Some u \<and> last (the (ed_sdkMethod e)) = CHR '')''"
    and c: "list_all (\<lambda>m. sm_call m \<noteq> [] \<and> anchor_char (last (sm_call m)) \<and> last (sm_call m) \<noteq> CHR ''-'') (sdk_methods s)"
  obtain t where t: "ed_sdkMethod e = Some t" "t \<noteq> []" "u = ''/docs/sdk#'' @ anchor t"
    using l by (cases "ed_sdkMethod e") (auto simp: sdk_link_def split: if_splits)
  have n: "\<not> anchor_char CHR '')''" by code_simp
  have t2: "last (anchor t) = CHR ''-''" "anchor t \<noteq> []" using t l n by (simp_all add: anchor_def last_map)
  show "u \<notin> (\<lambda>m. ''/docs/sdk#'' @ card_id m) ` set (sdk_methods s)"
  proof
    assume "u \<in> (\<lambda>m. ''/docs/sdk#'' @ card_id m) ` set (sdk_methods s)"
    then obtain m where m: "m \<in> set (sdk_methods s)" "anchor t = anchor (sm_call m)" using t(3) by (auto simp: card_id_def)
    then have "sm_call m \<noteq> []" "anchor_char (last (sm_call m))" "last (sm_call m) \<noteq> CHR ''-''" using c by (auto simp: list_all_iff)
    then have "last (anchor (sm_call m)) \<noteq> CHR ''-''" by (simp add: anchor_def last_map)
    with m(2) t2 show False by simp
  qed
qed

definition ping_method :: SdkMethod where
  "ping_method =
     \<lparr>sm_name = ''ping'', sm_call = ''client.ping'', sm_signature = ''ping() -> bool'', sm_doc = ''Check the service.'',
      sm_params = [], sm_returns = ''bool'', sm_routes = []\<rparr>"

definition ping_endpoint :: EndpointDoc where
  "ping_endpoint =
     \<lparr>ed_id = ''ping'', ed_group = ''serving'', ed_method = ''GET'', ed_path = ''/v1/ping'', ed_summary = ''Ping'',
      ed_description = ''Ping'', ed_scope = None, ed_auth = ''none'', ed_parameters = [], ed_body = None, ed_responses = [], ed_sdkMethod = Some ''client.ping()''\<rparr>"

definition ping_sdk :: SdkReference where
  "ping_sdk = 
     \<lparr>sdk_version = ''1'', sdk_package = ''p'', sdk_requiresPython = ''3'', sdk_dependencies = [], sdk_constants = [], sdk_clientDoc = [],
      sdk_clientParams = [], sdk_clientMethods = [ping_method], sdk_namespaces = [], sdk_helpers = [], sdk_errors = [],
      sdk_enums = [], sdk_scopeSets = [], sdk_examples = [],
      sdk_stats = \<lparr>st_methods = 1, st_routes = 0, st_routesCovered = 0, st_uncoveredRoutes = []\<rparr>\<rparr>"

theorem sdk_links_witness:
  "(\<exists>m \<in> set (concat (map (snd \<circ> snd) (sdk_sections ping_sdk []))).
      hit_url (method_hit ping_method) = ''/docs/sdk#'' @ card_id m \<and> card_highlighted (CHR ''#'' # card_id m) m) \<and>
   ''/docs/sdk#client-ping--'' \<notin> (\<lambda>m. ''/docs/sdk#'' @ card_id m) ` set (sdk_methods ping_sdk)"
proof -
  have a: "sdk_link ping_endpoint = Some ''/docs/sdk#client-ping--''" "last (the (ed_sdkMethod ping_endpoint)) = CHR '')''"
    by code_simp+
  have b: "list_all (\<lambda>m. sm_call m \<noteq> [] \<and> anchor_char (last (sm_call m)) \<and> last (sm_call m) \<noteq> CHR ''-'') (sdk_methods ping_sdk)"
    by code_simp
  have c: "search_results [] ping_sdk ''client.p'' = [method_hit ping_method]" by code_simp
  have "hit_category (method_hit ping_method) = Hit_sdk" by (simp add: method_hit_def)
  with a b c show ?thesis
    using sdk_links [of "method_hit ping_method" "[]" ping_sdk "''client.p''" ping_endpoint "''/docs/sdk#client-ping--''"] by simp
qed

end
