(* ===== verification/DocsCalls.thy ===== *)
theory DocsCalls
  imports DocsTables DocsSdk ApiEndpoints ConsoleService
begin

text \<open>
  The console and the documentation of the API: every call of the console's endpoint table (\<open>web/src/api/index.ts\<close>) against
  the table of endpoints (\<open>web/src/docs/docsData.ts\<close>), and that table against the pages that read it.
\<close>

section \<open>Calls and endpoints\<close>

text \<open>A value for each kind of argument a call takes.\<close>

record call_args =
  ca_id :: string
  ca_input :: json
  ca_text :: string
  ca_option :: "string option"
  ca_flag :: bool
  ca_items :: "json list"
  ca_filters :: "(string \<times> string option) list"
  ca_members :: "(string \<times> json) list"
  ca_number :: "int option"
  ca_list :: "string list option"
  ca_granularity :: TrendGranularity
  ca_status :: PlatformTenantStatus
  ca_requests :: "PlanRequestStatus option"

fun method_name :: "Method \<Rightarrow> string" where
  "method_name GET = ''GET''"
| "method_name POST = ''POST''"
| "method_name PUT = ''PUT''"
| "method_name PATCH = ''PATCH''"
| "method_name DELETE = ''DELETE''"

text \<open>A path fits the path of an endpoint when something without a delimiter stands for each name in braces.\<close>

fun path_fits :: "string \<Rightarrow> string \<Rightarrow> bool" where
  "path_fits [] p = (p = [])"
| "path_fits (c # t) p =
     (if c = CHR ''{''
      then takeWhile (\<lambda>d. d \<notin> set url_delimiters) p \<noteq> [] \<and>
        path_fits (tl (dropWhile (\<lambda>d. d \<noteq> CHR ''}'') t)) (dropWhile (\<lambda>d. d \<notin> set url_delimiters) p)
      else (case p of [] \<Rightarrow> False | d # q \<Rightarrow> c = d \<and> path_fits t q))"

definition call_path :: "ApiCall \<Rightarrow> string" where
  "call_path c = takeWhile (\<lambda>d. d \<noteq> CHR ''?'') (fst c)"

text \<open>The body: none where none is documented, one where the documented one is required, and of the documented type.\<close>

definition body_fits :: "ApiCall \<Rightarrow> EndpointDoc \<Rightarrow> bool" where
  "body_fits c e =
     (case ed_body e of
        None \<Rightarrow> ro_json (snd c) = None \<and> ro_form (snd c) = None
      | Some (required, type0, what) \<Rightarrow>
          (ro_json (snd c) \<noteq> None \<longrightarrow> type0 = ''application/json'') \<and>
          (ro_form (snd c) \<noteq> None \<longrightarrow> type0 = ''multipart/form-data'') \<and>
          (required \<longrightarrow> ro_json (snd c) \<noteq> None \<or> ro_form (snd c) \<noteq> None))"

definition fits :: "ApiCall \<Rightarrow> EndpointDoc \<Rightarrow> bool" where
  "fits c e =
     (ed_method e = method_name (method_of (snd c)) \<and> path_fits (ed_path e) (call_path c) \<and> body_fits c e)"

text \<open>The session a call is sent with: none for a public endpoint, the operator's for the paths of the platform, the
  workspace's for the others. A token that is being tried is sent to the platform by the call itself.\<close>

definition unsigned :: "ApiCall \<Rightarrow> bool" where
  "unsigned c =
     (realm_of (snd c) = public_realm \<and> map_of (or_else (ro_headers (snd c)) []) ''Authorization'' = None)"

definition credential_fits :: "ApiCall \<Rightarrow> EndpointDoc \<Rightarrow> bool" where
  "credential_fits c e =
     (if ed_auth e = ''none'' then unsigned c
      else if starts_with (ed_path e) ''/v1/platform/''
      then realm_of (snd c) = platform_realm \<or>
        realm_of (snd c) = public_realm \<and> (\<exists>token. ro_headers (snd c) = Some [(''Authorization'', bearer token)])
      else realm_of (snd c) = tenant_realm)"

text \<open>The calls of the console, each with the endpoint that documents it.\<close>

definition console_calls :: "call_args \<Rightarrow> (ApiCall \<times> EndpointDoc) list" where
  "console_calls a =
     [(tenantStatus_get, ep_get_v1_tenant_status),
      (meta_get, ep_get_v1_meta),
      (meta_plans, ep_get_v1_plans),
      (tenantUsers_list, ep_get_v1_tenant_users),
      (tenantUsers_invite (ca_input a), ep_post_v1_tenant_users),
      (tenantUsers_revokeInvitation (ca_id a), ep_delete_v1_tenant_users_user_id_invitation),
      (tenantUsers_update (ca_id a) (ca_input a), ep_patch_v1_tenant_users_user_id),
      (tenantUsers_resendInvitation (ca_id a), ep_post_v1_tenant_users_user_id_invitation_resend),
      (auth_login (ca_input a), ep_post_v1_auth_login),
      (auth_setupPassword (ca_input a), ep_post_v1_auth_setup_password),
      (auth_recoverPassword (ca_input a), ep_post_v1_auth_recover_password),
      (auth_registerTenant (ca_input a) (ca_text a), ep_post_v1_tenants),
      (apiKeys_list, ep_get_v1_api_keys),
      (apiKeys_get (ca_id a), ep_get_v1_api_keys_key_id),
      (apiKeys_create (ca_input a), ep_post_v1_api_keys),
      (apiKeys_rotate (ca_id a) (ca_input a), ep_post_v1_api_keys_key_id_rotate),
      (apiKeys_revoke (ca_id a), ep_delete_v1_api_keys_key_id),
      (billing_subscription, ep_get_v1_subscription),
      (billing_planRequests, ep_get_v1_subscription_requests),
      (billing_requestPlan (ca_input a), ep_post_v1_subscription_requests),
      (billing_cancelPlanRequest (ca_id a), ep_post_v1_subscription_requests_request_id_cancel),
      (billing_usage (ca_option a), ep_get_v1_usage),
      (billing_trends (ca_granularity a) (ca_option a) (ca_option a) (ca_list a), ep_get_v1_usage_trends),
      (retraining_get, ep_get_v1_retraining_policy),
      (retraining_put (ca_input a), ep_put_v1_retraining_policy),
      (recommendations_get (ca_input a), ep_post_v1_recommendations),
      (recommendationRules_get, ep_get_v1_recommendation_policy),
      (recommendationRules_put (ca_input a), ep_put_v1_recommendation_policy),
      (products_list (ca_number a) (ca_number a) (ca_list a), ep_get_v1_products),
      (products_get (ca_id a), ep_get_v1_products_external_id),
      (products_put (ca_id a) (ca_input a), ep_put_v1_products_external_id),
      (products_disable (ca_id a), ep_post_v1_products_external_id_disable),
      (products_bulkUpsert (ca_items a) (ca_option a), ep_post_v1_products_bulk_upsert),
      (products_listSyncs, ep_get_v1_catalog_syncs),
      (products_getSync (ca_id a), ep_get_v1_catalog_syncs_sync_id),
      (events_submit (ca_input a), ep_post_v1_events),
      (events_submitBatch (ca_items a) (ca_option a), ep_post_v1_events_batches),
      (events_list (ca_filters a), ep_get_v1_events),
      (events_listBatches, ep_get_v1_events_batches),
      (events_getBatch (ca_id a), ep_get_v1_events_batches_batch_id),
      (datasets_upload (ca_text a), ep_post_v1_datasets_upload),
      (datasets_listSnapshots, ep_get_v1_datasets_snapshots),
      (datasets_getSnapshot (ca_id a), ep_get_v1_datasets_snapshots_snapshot_id),
      (datasets_createSnapshot (ca_input a), ep_post_v1_datasets_snapshots),
      (models_list, ep_get_v1_model_versions),
      (models_get (ca_id a), ep_get_v1_model_versions_version_id),
      (models_activate (ca_id a) (ca_option a), ep_post_v1_model_versions_version_id_activate),
      (models_archive (ca_id a) (ca_option a), ep_post_v1_model_versions_version_id_archive),
      (models_rollback (ca_id a) (ca_option a), ep_post_v1_model_versions_version_id_rollback),
      (training_cancel (ca_id a) (ca_option a), ep_post_v1_training_jobs_job_id_cancel),
      (training_get (ca_id a), ep_get_v1_training_jobs_job_id),
      (training_list, ep_get_v1_training_jobs),
      (training_create (ca_input a), ep_post_v1_training_jobs),
      (serving_deployment, ep_get_v1_deployment),
      (serving_scaling, ep_get_v1_deployment_scaling),
      (serving_metrics (ca_number a), ep_get_v1_metrics_summary),
      (platform_getTenantQuota (ca_id a), ep_get_v1_platform_tenants_tenant_id_quotas),
      (platform_getTenantUsage (ca_id a), ep_get_v1_platform_tenants_tenant_id_usage),
      (platform_issueRecovery (ca_id a) (ca_text a) (ca_option a), ep_post_v1_platform_tenants_tenant_id_recovery),
      (platform_assignTenantPlan (ca_id a) (ca_text a) (ca_flag a) (ca_option a), ep_post_v1_platform_tenants_tenant_id_plan),
      (platform_status (ca_option a), ep_get_v1_platform_status),
      (platform_listTenants, ep_get_v1_platform_tenants),
      (platform_getTenant (ca_id a), ep_get_v1_platform_tenants_tenant_id),
      (platform_setTenantStatus (ca_id a) (ca_status a) (ca_text a), ep_post_v1_platform_tenants_tenant_id_status),
      (platform_setQuotaOverrides (ca_id a) (ca_members a) (ca_flag a) (ca_option a), ep_post_v1_platform_tenants_tenant_id_quotas),
      (platform_listPlans, ep_get_v1_platform_plans),
      (platform_listPlanRequests (ca_requests a), ep_get_v1_platform_plan_requests),
      (platform_decidePlanRequest (ca_id a) approve (ca_text a) (ca_flag a), ep_post_v1_platform_plan_requests_request_id_approve),
      (platform_decidePlanRequest (ca_id a) reject (ca_text a) (ca_flag a), ep_post_v1_platform_plan_requests_request_id_reject),
      (platform_updatePlan (ca_id a) (ca_members a) (ca_flag a) (ca_option a), ep_put_v1_platform_plans_plan_id),
      (platform_login (ca_text a) (ca_text a), ep_post_v1_platform_auth_login),
      (platform_me (ca_option a), ep_get_v1_platform_me),
      (platform_listOperators, ep_get_v1_platform_operators),
      (platform_createOperator (ca_input a), ep_post_v1_platform_operators),
      (platform_updateOperator (ca_id a) (ca_input a), ep_patch_v1_platform_operators_operator_id),
      (platform_listFailures, ep_get_v1_platform_failures),
      (platform_listUsage, ep_get_v1_platform_usage),
      (platform_listAudit (ca_filters a), ep_get_v1_platform_audit),
      (tenantAudit_list (ca_filters a), ep_get_v1_audit)]"

lemmas call_defs =
  tenantStatus_get_def meta_get_def meta_plans_def tenantUsers_list_def
  tenantUsers_invite_def tenantUsers_revokeInvitation_def tenantUsers_update_def tenantUsers_resendInvitation_def
  auth_login_def auth_setupPassword_def auth_recoverPassword_def auth_registerTenant_def
  apiKeys_list_def apiKeys_get_def apiKeys_create_def apiKeys_rotate_def
  apiKeys_revoke_def billing_subscription_def billing_planRequests_def billing_requestPlan_def
  billing_cancelPlanRequest_def billing_usage_def billing_trends_def retraining_get_def
  retraining_put_def recommendations_get_def recommendationRules_get_def recommendationRules_put_def
  products_list_def products_get_def products_put_def products_disable_def
  products_bulkUpsert_def products_listSyncs_def products_getSync_def events_submit_def
  events_submitBatch_def events_list_def events_listBatches_def events_getBatch_def
  datasets_upload_def datasets_listSnapshots_def datasets_getSnapshot_def datasets_createSnapshot_def
  models_list_def models_get_def models_activate_def models_archive_def
  models_rollback_def training_cancel_def training_get_def training_list_def
  training_create_def serving_deployment_def serving_scaling_def serving_metrics_def
  platform_getTenantQuota_def platform_getTenantUsage_def platform_issueRecovery_def platform_assignTenantPlan_def
  platform_status_def platform_listTenants_def platform_getTenant_def platform_setTenantStatus_def
  platform_setQuotaOverrides_def platform_listPlans_def platform_listPlanRequests_def platform_decidePlanRequest_def
  platform_updatePlan_def platform_login_def platform_me_def platform_listOperators_def
  platform_createOperator_def platform_updateOperator_def platform_listFailures_def platform_listUsage_def
  platform_listAudit_def tenantAudit_list_def

section \<open>Every call is documented\<close>

lemma enc_clean_all: "\<forall>x \<in> set (encodeURIComponent i). x \<notin> set url_delimiters"
  using encodeURIComponent_clean by blast

lemma takeWhile_enc:
  "takeWhile (\<lambda>d. d \<notin> set url_delimiters) (encodeURIComponent i @ r) =
     encodeURIComponent i @ takeWhile (\<lambda>d. d \<notin> set url_delimiters) r"
  "takeWhile (\<lambda>d. d \<notin> set url_delimiters) (encodeURIComponent i) = encodeURIComponent i"
  "dropWhile (\<lambda>d. d \<notin> set url_delimiters) (encodeURIComponent i @ r) = dropWhile (\<lambda>d. d \<notin> set url_delimiters) r"
  "dropWhile (\<lambda>d. d \<notin> set url_delimiters) (encodeURIComponent i) = []"
  using encodeURIComponent_clean by (simp_all add: takeWhile_append2 takeWhile_eq_all_conv dropWhile_append1 dropWhile_append3 dropWhile_eq_Nil_conv)

lemma path_enc:
  "takeWhile (\<lambda>d. d \<noteq> CHR ''?'') (encodeURIComponent i @ r) = encodeURIComponent i @ takeWhile (\<lambda>d. d \<noteq> CHR ''?'') r"
  "takeWhile (\<lambda>d. d \<noteq> CHR ''?'') (encodeURIComponent i) = encodeURIComponent i"
proof -
  have "CHR ''?'' \<in> set url_delimiters" by (simp add: url_delimiters_def)
  then have "\<forall>d \<in> set (encodeURIComponent i). d \<noteq> CHR ''?''" using encodeURIComponent_clean by blast
  then show "takeWhile (\<lambda>d. d \<noteq> CHR ''?'') (encodeURIComponent i @ r) = encodeURIComponent i @ takeWhile (\<lambda>d. d \<noteq> CHR ''?'') r"
    "takeWhile (\<lambda>d. d \<noteq> CHR ''?'') (encodeURIComponent i) = encodeURIComponent i"
    by (simp_all add: takeWhile_append2)
qed

lemma enc_not_Nil: "encodeURIComponent i = [] \<longleftrightarrow> i = []"
  by (cases i) (simp_all add: encodeURIComponent_def percent_byte_def)

lemma path_query: "takeWhile (\<lambda>d. d \<noteq> CHR ''?'') (with_query q) = []"
  by (simp add: with_query_def)

lemma delimiters: "CHR ''/'' \<in> set url_delimiters" "CHR '':'' \<in> set url_delimiters"
  by (simp_all add: url_delimiters_def)

lemma path_fits_Cons: "c \<noteq> CHR ''{'' \<Longrightarrow> path_fits (c # t) (c # q) = path_fits t q"
  by simp

lemma path_fits_name:
  "path_fits (CHR ''{'' # t) p =
     (takeWhile (\<lambda>d. d \<notin> set url_delimiters) p \<noteq> [] \<and>
      path_fits (tl (dropWhile (\<lambda>d. d \<noteq> CHR ''}'') t)) (dropWhile (\<lambda>d. d \<notin> set url_delimiters) p))"
  by simp

lemma calls_fit: "ca_id a \<noteq> [] \<Longrightarrow> list_all (\<lambda>(c, e). fits c e) (console_calls a)"
  unfolding console_calls_def list.pred_inject
  by (intro conjI)
    (simp_all add: fits_def body_fits_def call_path_def call_defs endpoint_defs method_of_def no_options_def platformRealm_def
      path_enc path_query takeWhile_enc enc_not_Nil enc_clean_all delimiters del: list.pred_inject(2) split: option.split)

lemma calls_listed: "set (map snd (console_calls a)) \<subseteq> set ENDPOINTS"
  by (simp add: console_calls_def ENDPOINTS_def)

definition operator_sign_in :: "EndpointDoc \<Rightarrow> bool" where
  "operator_sign_in e = (ed_id e = ''post-v1-platform-auth-login'')"

lemma truthy_header: "truthy t \<Longrightarrow> \<exists>token. token_header t = Some [(''Authorization'', bearer token)]"
  by (auto simp: token_header_def)

lemma calls_credentials:
  "list_all (\<lambda>(c, e). if operator_sign_in e then unsigned c
      else credential_fits c e) (console_calls a)"
  unfolding console_calls_def list.pred_inject
  by (intro conjI)
    (simp_all add: credential_fits_def operator_sign_in_def call_defs endpoint_defs realm_of_def no_options_def platformRealm_def
      unsigned_def starts_with_def truthy_header split: option.split del: list.pred_inject(2))



section \<open>The tables and the pages that read them\<close>

lemma groups_distinct: "distinct (map dg_id DOCS_GROUPS)"
  by (simp add: DOCS_GROUPS_def)

lemma endpoints_grouped: "list_all (\<lambda>e. ed_group e \<in> dg_id ` set DOCS_GROUPS) ENDPOINTS"
  by (simp add: ENDPOINTS_def endpoint_defs DOCS_GROUPS_def)

text \<open>The names in braces of a path.\<close>

fun path_names :: "string \<Rightarrow> string list" where
  "path_names [] = []"
| "path_names (c # t) =
     (if c = CHR ''{'' then takeWhile (\<lambda>d. d \<noteq> CHR ''}'') t # path_names t else path_names t)"

definition path_parameters :: "EndpointDoc \<Rightarrow> string list" where
  "path_parameters e = map fst (filter (\<lambda>(n, i, r). i = ''path'') (ed_parameters e))"

definition endpoint_ok :: "EndpointDoc \<Rightarrow> bool" where
  "endpoint_ok e =
     (ed_group e \<in> dg_id ` set DOCS_GROUPS \<and> ed_method e \<in> set [''GET'', ''POST'', ''PUT'', ''PATCH'', ''DELETE''] \<and>
      auth_badge (ed_auth e) \<noteq> None \<and> path_parameters e = path_names (ed_path e) \<and>
      list_all (\<lambda>(n, i, r, d). i \<in> set [''path'', ''query'', ''header''] \<and> (i = ''path'' \<longrightarrow> r)) (ed_parameters e) \<and>
      (ed_method e = ''GET'' \<longrightarrow> ed_body e = None) \<and>
      (case ed_sdkMethod e of Some m \<Rightarrow> m \<noteq> [] \<and> last m = CHR '')'' | None \<Rightarrow> True) \<and>
      list_all (\<lambda>(st, d). 200 \<le> st \<and> st < 600) (ed_responses e))"

lemma endpoints_ok: "list_all endpoint_ok ENDPOINTS"
  by code_simp

lemma endpoint_ids: "distinct (map ed_id ENDPOINTS)" "length ENDPOINTS = 91"
  by (simp_all add: ENDPOINTS_def endpoint_defs)

text \<open>The table of endpoints is well formed, so the pages that read it are complete: each endpoint belongs to a known
  group, needs a credential with a badge, declares exactly the names of its path as required path parameters and
  describes its SDK call; no two share an identifier. Hence for every filter the reference shows each matching
  endpoint exactly once, and no link to an SDK method leads to a method's card.\<close>

lemma endpoint_table:
  "list_all endpoint_ok ENDPOINTS \<and> distinct (map ed_id ENDPOINTS) \<and> length ENDPOINTS = 91 \<and>
   mset (concat (map snd (reference_sections DOCS_GROUPS ENDPOINTS sel q))) = mset (filteredEndpoints sel q ENDPOINTS) \<and>
   (reference_sections DOCS_GROUPS ENDPOINTS sel q = []) = (filteredEndpoints sel q ENDPOINTS = [])"
  using endpoints_ok endpoint_ids reference_partition [OF groups_distinct endpoints_grouped, of sel q] by blast

text \<open>The limits the documentation names against those the plans start with: the digits of a text such as \<open>50,000 / mo\<close>.\<close>

definition doc_number :: "string \<Rightarrow> int" where
  "doc_number t = fold (\<lambda>c n. 10 * n + (of_char c - 48)) (filter is_digit (takeWhile (\<lambda>c. c \<noteq> CHR '' '') t)) 0"

definition seeded :: "string \<Rightarrow> string \<Rightarrow> int option" where
  "seeded code key = Option.bind (find (\<lambda>p. mp_code p = code) PLANS) (\<lambda>p. map_of (mp_limits p) key)"

definition doc_differences :: "(string \<times> string \<times> int \<times> int) list" where
  "doc_differences =
     List.map_filter (\<lambda>(l, code, text0). case seeded code (pl_dimension l) of
          Some n \<Rightarrow> if n = doc_number text0 then None else Some (pl_dimension l, code, doc_number text0, n)
        | None \<Rightarrow> None)
       (concat (map (\<lambda>l. [(l, ''free'', pl_free l), (l, ''pro'', pl_pro l)]) PLAN_LIMITS))"

text \<open>Where the documentation contradicts the plans: limits of both plans it names, a plan that does not exist for one that
  does; and the errors it lists against those of the console's guide.\<close>

lemma documented_limits:
  "doc_differences =
     [(''stored_products'', ''pro'', 50000, 500000), (''accepted_events'', ''pro'', 500000, 2000000),
      (''recommendation_requests'', ''free'', 10000, 20000), (''recommendation_requests'', ''pro'', 250000, 1000000)]"
  "''enterprise'' \<notin> set (map mp_code PLANS)"
  by code_simp+

lemma documented_errors:
  "filter (\<lambda>(code, st, what, hint). code \<notin> set (map er_code ERROR_CODES)) GUIDE_ERRORS =
     filter (\<lambda>(code, st, what, hint). code = ''validation_failed'' \<or> code = ''duplicate_resource / conflict'') GUIDE_ERRORS"
  by code_simp

end
