(* ===== verification/SdkTables.thy ===== *)
theory SdkTables
  imports DocsSdk
begin

text \<open>
  The reference of the Python SDK as the documentation holds it (\<open>web/src/docs/sdkData.ts\<close>): the methods of the client
  and those that storefronts and tenants use. The texts of its runnable examples are left out.
\<close>

definition sdk_client_health :: SdkMethod where
  "sdk_client_health =
     \<lparr>sm_name = ''health'', sm_call = ''client.health'',
      sm_signature = ''client.health() -> Dict[str, Any]'',
      sm_doc = ''`GET /healthz` - database connectivity check, no credentials needed.'',
      sm_params =
        [],
      sm_returns = ''Dict[str, Any]'',
      sm_routes =
        [\<lparr>sr_key = ''health.check'', sr_method = ''GET'', sr_path = ''/healthz'', sr_auth = ''none'',
         sr_scopes = [], sr_idempotent = True\<rparr>]\<rparr>"

definition sdk_client_ready :: SdkMethod where
  "sdk_client_ready =
     \<lparr>sm_name = ''ready'', sm_call = ''client.ready'',
      sm_signature = ''client.ready() -> Dict[str, Any]'',
      sm_doc = ''`GET /readyz` - live status of the database, Redis and Qdrant (`ready`, `degraded` or `not_ready`).'',
      sm_params =
        [],
      sm_returns = ''Dict[str, Any]'',
      sm_routes =
        [\<lparr>sr_key = ''health.ready'', sr_method = ''GET'', sr_path = ''/readyz'', sr_auth = ''none'',
         sr_scopes = [], sr_idempotent = True\<rparr>]\<rparr>"

definition sdk_client_meta :: SdkMethod where
  "sdk_client_meta =
     \<lparr>sm_name = ''meta'', sm_call = ''client.meta'',
      sm_signature = ''client.meta() -> Dict[str, Any]'',
      sm_doc = ''`GET /v1/meta` - product version (shared by API, console and SDK) and environment.'',
      sm_params =
        [],
      sm_returns = ''Dict[str, Any]'',
      sm_routes =
        [\<lparr>sr_key = ''meta.get'', sr_method = ''GET'', sr_path = ''/v1/meta'', sr_auth = ''none'',
         sr_scopes = [], sr_idempotent = True\<rparr>]\<rparr>"

definition sdk_client_plans :: SdkMethod where
  "sdk_client_plans =
     \<lparr>sm_name = ''plans'', sm_call = ''client.plans'',
      sm_signature = ''client.plans() -> Dict[str, Any]'',
      sm_doc = ''`GET /v1/plans` - active plans and their current limits (public).'',
      sm_params =
        [],
      sm_returns = ''Dict[str, Any]'',
      sm_routes =
        [\<lparr>sr_key = ''meta.plans'', sr_method = ''GET'', sr_path = ''/v1/plans'', sr_auth = ''none'',
         sr_scopes = [], sr_idempotent = True\<rparr>]\<rparr>"

definition sdk_client_with_credentials :: SdkMethod where
  "sdk_client_with_credentials =
     \<lparr>sm_name = ''with_credentials'', sm_call = ''client.with_credentials'',
      sm_signature = ''client.with_credentials('' @ [CHR 0x0A] @ ''    *,'' @ [CHR 0x0A] @ ''    api_key: Optional[str] = None,'' @ [CHR 0x0A] @ ''    access_token: Optional[str] = None,'' @ [CHR 0x0A] @ ''    email: Optional[str] = None,'' @ [CHR 0x0A] @ ''    password: Optional[str] = None,'' @ [CHR 0x0A] @ ''    auth: Optional[Auth] = None,'' @ [CHR 0x0A] @ '') -> GraphRec'',
      sm_doc = ''A client for the same server with different credentials, sharing the connection pool.'' @ [CHR 0x0A, CHR 0x0A] @ ''Close the original client last - the copy never closes the shared pool.'',
      sm_params =
        [\<lparr>sq_name = ''api_key'', sq_type = ''Optional[str]'', sq_default = Some ''None'', sq_required = False, sq_kind = ''keyword'', sq_description = None\<rparr>,
         \<lparr>sq_name = ''access_token'', sq_type = ''Optional[str]'', sq_default = Some ''None'', sq_required = False, sq_kind = ''keyword'', sq_description = None\<rparr>,
         \<lparr>sq_name = ''email'', sq_type = ''Optional[str]'', sq_default = Some ''None'', sq_required = False, sq_kind = ''keyword'', sq_description = None\<rparr>,
         \<lparr>sq_name = ''password'', sq_type = ''Optional[str]'', sq_default = Some ''None'', sq_required = False, sq_kind = ''keyword'', sq_description = None\<rparr>,
         \<lparr>sq_name = ''auth'', sq_type = ''Optional[Auth]'', sq_default = Some ''None'', sq_required = False, sq_kind = ''keyword'', sq_description = None\<rparr>],
      sm_returns = ''GraphRec'',
      sm_routes =
        []\<rparr>"

definition sdk_client_close :: SdkMethod where
  "sdk_client_close =
     \<lparr>sm_name = ''close'', sm_call = ''client.close'',
      sm_signature = ''client.close() -> None'',
      sm_doc = [],
      sm_params =
        [],
      sm_returns = ''None'',
      sm_routes =
        []\<rparr>"

section \<open>Methods of the client\<close>

section \<open>Namespace storefront\<close>

definition sdk_client_storefront_events_create :: SdkMethod where
  "sdk_client_storefront_events_create =
     \<lparr>sm_name = ''create'', sm_call = ''client.storefront.events.create'',
      sm_signature = ''client.storefront.events.create('' @ [CHR 0x0A] @ ''    event_type: Union[EventType, str],'' @ [CHR 0x0A] @ ''    *,'' @ [CHR 0x0A] @ ''    user_id: Optional[str] = None,'' @ [CHR 0x0A] @ ''    product_id: Optional[str] = None,'' @ [CHR 0x0A] @ ''    context: Optional[Mapping[str, Any]] = None,'' @ [CHR 0x0A] @ ''    occurred_at: Optional[datetime] = None,'' @ [CHR 0x0A] @ ''    event_id: Optional[str] = None,'' @ [CHR 0x0A] @ '') -> EventReceipt'',
      sm_doc = ''Record one interaction (`POST /v1/events`).'' @ [CHR 0x0A, CHR 0x0A] @ ''`event_id` deduplicates: a repeat returns `duplicate=True`. It is'' @ [CHR 0x0A] @ ''generated when omitted, and reused across automatic retries.'',
      sm_params =
        [\<lparr>sq_name = ''event_type'', sq_type = ''Union[EventType, str]'', sq_default = None, sq_required = True, sq_kind = ''positional'', sq_description = None\<rparr>,
         \<lparr>sq_name = ''user_id'', sq_type = ''Optional[str]'', sq_default = Some ''None'', sq_required = False, sq_kind = ''keyword'', sq_description = None\<rparr>,
         \<lparr>sq_name = ''product_id'', sq_type = ''Optional[str]'', sq_default = Some ''None'', sq_required = False, sq_kind = ''keyword'', sq_description = None\<rparr>,
         \<lparr>sq_name = ''context'', sq_type = ''Optional[Mapping[str, Any]]'', sq_default = Some ''None'', sq_required = False, sq_kind = ''keyword'', sq_description = None\<rparr>,
         \<lparr>sq_name = ''occurred_at'', sq_type = ''Optional[datetime]'', sq_default = Some ''None'', sq_required = False, sq_kind = ''keyword'', sq_description = None\<rparr>,
         \<lparr>sq_name = ''event_id'', sq_type = ''Optional[str]'', sq_default = Some ''None'', sq_required = False, sq_kind = ''keyword'', sq_description = None\<rparr>],
      sm_returns = ''EventReceipt'',
      sm_routes =
        [\<lparr>sr_key = ''events.create'', sr_method = ''POST'', sr_path = ''/v1/events'', sr_auth = ''any'',
         sr_scopes = [''events:write''], sr_idempotent = True\<rparr>]\<rparr>"

definition sdk_client_storefront_events_create_batch :: SdkMethod where
  "sdk_client_storefront_events_create_batch =
     \<lparr>sm_name = ''create_batch'', sm_call = ''client.storefront.events.create_batch'',
      sm_signature = ''client.storefront.events.create_batch('' @ [CHR 0x0A] @ ''    events: Iterable[EventLike],'' @ [CHR 0x0A] @ ''    *,'' @ [CHR 0x0A] @ ''    request_id: Optional[str] = None,'' @ [CHR 0x0A] @ '') -> EventBatchResult'',
      sm_doc = ''Record many interactions (`POST /v1/events/batches`), split to fit the body limit.'' @ [CHR 0x0A, CHR 0x0A] @ ''On failure the raised `APIError` carries'' @ [CHR 0x0A] @ ''`partial_result` describing the batches already accepted.'',
      sm_params =
        [\<lparr>sq_name = ''events'', sq_type = ''Iterable[EventLike]'', sq_default = None, sq_required = True, sq_kind = ''positional'', sq_description = None\<rparr>,
         \<lparr>sq_name = ''request_id'', sq_type = ''Optional[str]'', sq_default = Some ''None'', sq_required = False, sq_kind = ''keyword'', sq_description = None\<rparr>],
      sm_returns = ''EventBatchResult'',
      sm_routes =
        [\<lparr>sr_key = ''events.create_batch'', sr_method = ''POST'', sr_path = ''/v1/events/batches'', sr_auth = ''any'',
         sr_scopes = [''events:write''], sr_idempotent = True\<rparr>]\<rparr>"

definition sdk_client_storefront_events_list :: SdkMethod where
  "sdk_client_storefront_events_list =
     \<lparr>sm_name = ''list'', sm_call = ''client.storefront.events.list'',
      sm_signature = ''client.storefront.events.list('' @ [CHR 0x0A] @ ''    *,'' @ [CHR 0x0A] @ ''    limit: int = 50,'' @ [CHR 0x0A] @ ''    user_id: Optional[str] = None,'' @ [CHR 0x0A] @ ''    event_type: Union[EventType, str, None] = None,'' @ [CHR 0x0A] @ ''    product_id: Optional[str] = None,'' @ [CHR 0x0A] @ '') -> EventRecordList'',
      sm_doc = ''Recently received events, newest first (`GET /v1/events`), optionally filtered.'',
      sm_params =
        [\<lparr>sq_name = ''limit'', sq_type = ''int'', sq_default = Some ''50'', sq_required = False, sq_kind = ''keyword'', sq_description = None\<rparr>,
         \<lparr>sq_name = ''user_id'', sq_type = ''Optional[str]'', sq_default = Some ''None'', sq_required = False, sq_kind = ''keyword'', sq_description = None\<rparr>,
         \<lparr>sq_name = ''event_type'', sq_type = ''Union[EventType, str, None]'', sq_default = Some ''None'', sq_required = False, sq_kind = ''keyword'', sq_description = None\<rparr>,
         \<lparr>sq_name = ''product_id'', sq_type = ''Optional[str]'', sq_default = Some ''None'', sq_required = False, sq_kind = ''keyword'', sq_description = None\<rparr>],
      sm_returns = ''EventRecordList'',
      sm_routes =
        [\<lparr>sr_key = ''events.list'', sr_method = ''GET'', sr_path = ''/v1/events'', sr_auth = ''any'',
         sr_scopes = [''events:read''], sr_idempotent = True\<rparr>]\<rparr>"

definition sdk_client_storefront_events_list_batches :: SdkMethod where
  "sdk_client_storefront_events_list_batches =
     \<lparr>sm_name = ''list_batches'', sm_call = ''client.storefront.events.list_batches'',
      sm_signature = ''client.storefront.events.list_batches() -> EventBatchList'',
      sm_doc = ''Submitted batches, newest first (`GET /v1/events/batches`).'',
      sm_params =
        [],
      sm_returns = ''EventBatchList'',
      sm_routes =
        [\<lparr>sr_key = ''events.list_batches'', sr_method = ''GET'', sr_path = ''/v1/events/batches'', sr_auth = ''any'',
         sr_scopes = [''events:read''], sr_idempotent = True\<rparr>]\<rparr>"

definition sdk_client_storefront_events_get_batch :: SdkMethod where
  "sdk_client_storefront_events_get_batch =
     \<lparr>sm_name = ''get_batch'', sm_call = ''client.storefront.events.get_batch'',
      sm_signature = ''client.storefront.events.get_batch(batch_id: Union[str, UUID]) -> EventBatch'',
      sm_doc = ''`GET /v1/events/batches/{batch_id}`.'',
      sm_params =
        [\<lparr>sq_name = ''batch_id'', sq_type = ''Union[str, UUID]'', sq_default = None, sq_required = True, sq_kind = ''positional'', sq_description = None\<rparr>],
      sm_returns = ''EventBatch'',
      sm_routes =
        [\<lparr>sr_key = ''events.get_batch'', sr_method = ''GET'', sr_path = ''/v1/events/batches/{batch_id}'', sr_auth = ''any'',
         sr_scopes = [''events:read''], sr_idempotent = True\<rparr>]\<rparr>"

definition sdk_resource_client_storefront_events :: SdkResource where
  "sdk_resource_client_storefront_events =
     \<lparr>sx_id = ''client-storefront-events'', sx_path = ''client.storefront.events'', sx_title = ''events'',
      sx_className = ''Events'', sx_asyncClass = Some ''AsyncEvents'',
      sx_doc = ''Customer interactions used for training. Scopes: `events:write` / `events:read`.'',
      sx_ctor = None,
      sx_contextManager = None,
      sx_methods =
        [sdk_client_storefront_events_create, sdk_client_storefront_events_create_batch,
         sdk_client_storefront_events_list, sdk_client_storefront_events_list_batches,
         sdk_client_storefront_events_get_batch]\<rparr>"

definition sdk_client_storefront_recommendations_get :: SdkMethod where
  "sdk_client_storefront_recommendations_get =
     \<lparr>sm_name = ''get'', sm_call = ''client.storefront.recommendations.get'',
      sm_signature = ''client.storefront.recommendations.get('' @ [CHR 0x0A] @ ''    *,'' @ [CHR 0x0A] @ ''    user_id: Optional[str] = None,'' @ [CHR 0x0A] @ ''    top_n: int = 10,'' @ [CHR 0x0A] @ ''    context: Optional[Mapping[str, Any]] = None,'' @ [CHR 0x0A] @ ''    exclude_product_ids: Optional[Sequence[str]] = None,'' @ [CHR 0x0A] @ ''    request_id: Optional[str] = None,'' @ [CHR 0x0A] @ ''    fallback_allowed: Optional[bool] = None,'' @ [CHR 0x0A] @ ''    explain: Optional[bool] = None,'' @ [CHR 0x0A] @ ''    diversity: Optional[float] = None,'' @ [CHR 0x0A] @ '') -> Recommendations'',
      sm_doc = ''Recommendations for an identified customer (`POST /v1/recommendations`).'' @ [CHR 0x0A, CHR 0x0A] @ ''`exclude_product_ids` removes items such as the product on the current'' @ [CHR 0x0A] @ ''page or the cart contents. Check `fallback_used` to know whether the'' @ [CHR 0x0A] @ ''result is personalized.'',
      sm_params =
        [\<lparr>sq_name = ''user_id'', sq_type = ''Optional[str]'', sq_default = Some ''None'', sq_required = False, sq_kind = ''keyword'', sq_description = None\<rparr>,
         \<lparr>sq_name = ''top_n'', sq_type = ''int'', sq_default = Some ''10'', sq_required = False, sq_kind = ''keyword'', sq_description = None\<rparr>,
         \<lparr>sq_name = ''context'', sq_type = ''Optional[Mapping[str, Any]]'', sq_default = Some ''None'', sq_required = False, sq_kind = ''keyword'', sq_description = None\<rparr>,
         \<lparr>sq_name = ''exclude_product_ids'', sq_type = ''Optional[Sequence[str]]'', sq_default = Some ''None'', sq_required = False, sq_kind = ''keyword'', sq_description = None\<rparr>,
         \<lparr>sq_name = ''request_id'', sq_type = ''Optional[str]'', sq_default = Some ''None'', sq_required = False, sq_kind = ''keyword'', sq_description = None\<rparr>,
         \<lparr>sq_name = ''fallback_allowed'', sq_type = ''Optional[bool]'', sq_default = Some ''None'', sq_required = False, sq_kind = ''keyword'', sq_description = None\<rparr>,
         \<lparr>sq_name = ''explain'', sq_type = ''Optional[bool]'', sq_default = Some ''None'', sq_required = False, sq_kind = ''keyword'', sq_description = None\<rparr>,
         \<lparr>sq_name = ''diversity'', sq_type = ''Optional[float]'', sq_default = Some ''None'', sq_required = False, sq_kind = ''keyword'', sq_description = None\<rparr>],
      sm_returns = ''Recommendations'',
      sm_routes =
        [\<lparr>sr_key = ''recommendations.get'', sr_method = ''POST'', sr_path = ''/v1/recommendations'', sr_auth = ''any'',
         sr_scopes = [''recommendations:read''], sr_idempotent = True\<rparr>]\<rparr>"

definition sdk_client_storefront_recommendations_for_session :: SdkMethod where
  "sdk_client_storefront_recommendations_for_session =
     \<lparr>sm_name = ''for_session'', sm_call = ''client.storefront.recommendations.for_session'',
      sm_signature = ''client.storefront.recommendations.for_session('' @ [CHR 0x0A] @ ''    session_id: str,'' @ [CHR 0x0A] @ ''    *,'' @ [CHR 0x0A] @ ''    recent_product_ids: Optional[Sequence[str]] = None,'' @ [CHR 0x0A] @ ''    user_id: Optional[str] = None,'' @ [CHR 0x0A] @ ''    top_n: int = 10,'' @ [CHR 0x0A] @ ''    context: Optional[Mapping[str, Any]] = None,'' @ [CHR 0x0A] @ ''    exclude_product_ids: Optional[Sequence[str]] = None,'' @ [CHR 0x0A] @ ''    request_id: Optional[str] = None,'' @ [CHR 0x0A] @ ''    fallback_allowed: Optional[bool] = None,'' @ [CHR 0x0A] @ ''    explain: Optional[bool] = None,'' @ [CHR 0x0A] @ ''    diversity: Optional[float] = None,'' @ [CHR 0x0A] @ '') -> Recommendations'',
      sm_doc = ''Session-aware recommendations for anonymous shoppers.'' @ [CHR 0x0A, CHR 0x0A] @ ''`POST /v1/recommendations/session`.'' @ [CHR 0x0A, CHR 0x0A] @ ''`session_id` and `recent_product_ids` are sent in `context`.'',
      sm_params =
        [\<lparr>sq_name = ''session_id'', sq_type = ''str'', sq_default = None, sq_required = True, sq_kind = ''positional'', sq_description = None\<rparr>,
         \<lparr>sq_name = ''recent_product_ids'', sq_type = ''Optional[Sequence[str]]'', sq_default = Some ''None'', sq_required = False, sq_kind = ''keyword'', sq_description = None\<rparr>,
         \<lparr>sq_name = ''user_id'', sq_type = ''Optional[str]'', sq_default = Some ''None'', sq_required = False, sq_kind = ''keyword'', sq_description = None\<rparr>,
         \<lparr>sq_name = ''top_n'', sq_type = ''int'', sq_default = Some ''10'', sq_required = False, sq_kind = ''keyword'', sq_description = None\<rparr>,
         \<lparr>sq_name = ''context'', sq_type = ''Optional[Mapping[str, Any]]'', sq_default = Some ''None'', sq_required = False, sq_kind = ''keyword'', sq_description = None\<rparr>,
         \<lparr>sq_name = ''exclude_product_ids'', sq_type = ''Optional[Sequence[str]]'', sq_default = Some ''None'', sq_required = False, sq_kind = ''keyword'', sq_description = None\<rparr>,
         \<lparr>sq_name = ''request_id'', sq_type = ''Optional[str]'', sq_default = Some ''None'', sq_required = False, sq_kind = ''keyword'', sq_description = None\<rparr>,
         \<lparr>sq_name = ''fallback_allowed'', sq_type = ''Optional[bool]'', sq_default = Some ''None'', sq_required = False, sq_kind = ''keyword'', sq_description = None\<rparr>,
         \<lparr>sq_name = ''explain'', sq_type = ''Optional[bool]'', sq_default = Some ''None'', sq_required = False, sq_kind = ''keyword'', sq_description = None\<rparr>,
         \<lparr>sq_name = ''diversity'', sq_type = ''Optional[float]'', sq_default = Some ''None'', sq_required = False, sq_kind = ''keyword'', sq_description = None\<rparr>],
      sm_returns = ''Recommendations'',
      sm_routes =
        [\<lparr>sr_key = ''recommendations.for_session'', sr_method = ''POST'', sr_path = ''/v1/recommendations/session'', sr_auth = ''any'',
         sr_scopes = [''recommendations:read''], sr_idempotent = True\<rparr>]\<rparr>"

definition sdk_resource_client_storefront_recommendations :: SdkResource where
  "sdk_resource_client_storefront_recommendations =
     \<lparr>sx_id = ''client-storefront-recommendations'', sx_path = ''client.storefront.recommendations'', sx_title = ''recommendations'',
      sx_className = ''RecommendationsResource'', sx_asyncClass = Some ''AsyncRecommendationsResource'',
      sx_doc = ''Top-N recommendations. Scope: `recommendations:read`.'',
      sx_ctor = None,
      sx_contextManager = None,
      sx_methods =
        [sdk_client_storefront_recommendations_get, sdk_client_storefront_recommendations_for_session]\<rparr>"

definition sdk_client_storefront_feedback_impression :: SdkMethod where
  "sdk_client_storefront_feedback_impression =
     \<lparr>sm_name = ''impression'', sm_call = ''client.storefront.feedback.impression'',
      sm_signature = ''client.storefront.feedback.impression('' @ [CHR 0x0A] @ ''    recommendation: RecommendationRef,'' @ [CHR 0x0A] @ ''    *,'' @ [CHR 0x0A] @ ''    items: Optional[Sequence[ItemLike]] = None,'' @ [CHR 0x0A] @ ''    event_id: Optional[str] = None,'' @ [CHR 0x0A] @ ''    occurred_at: Optional[datetime] = None,'' @ [CHR 0x0A] @ ''    context: Optional[Mapping[str, Any]] = None,'' @ [CHR 0x0A] @ '') -> FeedbackReceipt'',
      sm_doc = ''Report that recommendations were shown (`POST /v1/feedback/impressions`).'' @ [CHR 0x0A, CHR 0x0A] @ ''Pass the `Recommendations` object, or a'' @ [CHR 0x0A] @ ''`request_id` plus `items` (product IDs in display order are fine).'',
      sm_params =
        [\<lparr>sq_name = ''recommendation'', sq_type = ''RecommendationRef'', sq_default = None, sq_required = True, sq_kind = ''positional'', sq_description = None\<rparr>,
         \<lparr>sq_name = ''items'', sq_type = ''Optional[Sequence[ItemLike]]'', sq_default = Some ''None'', sq_required = False, sq_kind = ''keyword'', sq_description = None\<rparr>,
         \<lparr>sq_name = ''event_id'', sq_type = ''Optional[str]'', sq_default = Some ''None'', sq_required = False, sq_kind = ''keyword'', sq_description = None\<rparr>,
         \<lparr>sq_name = ''occurred_at'', sq_type = ''Optional[datetime]'', sq_default = Some ''None'', sq_required = False, sq_kind = ''keyword'', sq_description = None\<rparr>,
         \<lparr>sq_name = ''context'', sq_type = ''Optional[Mapping[str, Any]]'', sq_default = Some ''None'', sq_required = False, sq_kind = ''keyword'', sq_description = None\<rparr>],
      sm_returns = ''FeedbackReceipt'',
      sm_routes =
        [\<lparr>sr_key = ''feedback.impression'', sr_method = ''POST'', sr_path = ''/v1/feedback/impressions'', sr_auth = ''any'',
         sr_scopes = [''events:write''], sr_idempotent = True\<rparr>]\<rparr>"

definition sdk_client_storefront_feedback_click :: SdkMethod where
  "sdk_client_storefront_feedback_click =
     \<lparr>sm_name = ''click'', sm_call = ''client.storefront.feedback.click'',
      sm_signature = ''client.storefront.feedback.click('' @ [CHR 0x0A] @ ''    recommendation: RecommendationRef,'' @ [CHR 0x0A] @ ''    product_id: str,'' @ [CHR 0x0A] @ ''    *,'' @ [CHR 0x0A] @ ''    position: Optional[int] = None,'' @ [CHR 0x0A] @ ''    impression_event_id: Optional[str] = None,'' @ [CHR 0x0A] @ ''    event_id: Optional[str] = None,'' @ [CHR 0x0A] @ ''    occurred_at: Optional[datetime] = None,'' @ [CHR 0x0A] @ ''    context: Optional[Mapping[str, Any]] = None,'' @ [CHR 0x0A] @ '') -> FeedbackReceipt'',
      sm_doc = ''Report a click on a recommended product (`POST /v1/feedback/clicks`).'',
      sm_params =
        [\<lparr>sq_name = ''recommendation'', sq_type = ''RecommendationRef'', sq_default = None, sq_required = True, sq_kind = ''positional'', sq_description = None\<rparr>,
         \<lparr>sq_name = ''product_id'', sq_type = ''str'', sq_default = None, sq_required = True, sq_kind = ''positional'', sq_description = None\<rparr>,
         \<lparr>sq_name = ''position'', sq_type = ''Optional[int]'', sq_default = Some ''None'', sq_required = False, sq_kind = ''keyword'', sq_description = None\<rparr>,
         \<lparr>sq_name = ''impression_event_id'', sq_type = ''Optional[str]'', sq_default = Some ''None'', sq_required = False, sq_kind = ''keyword'', sq_description = None\<rparr>,
         \<lparr>sq_name = ''event_id'', sq_type = ''Optional[str]'', sq_default = Some ''None'', sq_required = False, sq_kind = ''keyword'', sq_description = None\<rparr>,
         \<lparr>sq_name = ''occurred_at'', sq_type = ''Optional[datetime]'', sq_default = Some ''None'', sq_required = False, sq_kind = ''keyword'', sq_description = None\<rparr>,
         \<lparr>sq_name = ''context'', sq_type = ''Optional[Mapping[str, Any]]'', sq_default = Some ''None'', sq_required = False, sq_kind = ''keyword'', sq_description = None\<rparr>],
      sm_returns = ''FeedbackReceipt'',
      sm_routes =
        [\<lparr>sr_key = ''feedback.click'', sr_method = ''POST'', sr_path = ''/v1/feedback/clicks'', sr_auth = ''any'',
         sr_scopes = [''events:write''], sr_idempotent = True\<rparr>]\<rparr>"

definition sdk_client_storefront_feedback_conversion :: SdkMethod where
  "sdk_client_storefront_feedback_conversion =
     \<lparr>sm_name = ''conversion'', sm_call = ''client.storefront.feedback.conversion'',
      sm_signature = ''client.storefront.feedback.conversion('' @ [CHR 0x0A] @ ''    recommendation: RecommendationRef,'' @ [CHR 0x0A] @ ''    product_id: str,'' @ [CHR 0x0A] @ ''    *,'' @ [CHR 0x0A] @ ''    value: Optional[Union[Decimal, float, int, str]] = None,'' @ [CHR 0x0A] @ ''    position: Optional[int] = None,'' @ [CHR 0x0A] @ ''    event_id: Optional[str] = None,'' @ [CHR 0x0A] @ ''    occurred_at: Optional[datetime] = None,'' @ [CHR 0x0A] @ ''    context: Optional[Mapping[str, Any]] = None,'' @ [CHR 0x0A] @ '') -> FeedbackReceipt'',
      sm_doc = ''Report a purchase attributed to a recommendation (`POST /v1/feedback/conversions`).'',
      sm_params =
        [\<lparr>sq_name = ''recommendation'', sq_type = ''RecommendationRef'', sq_default = None, sq_required = True, sq_kind = ''positional'', sq_description = None\<rparr>,
         \<lparr>sq_name = ''product_id'', sq_type = ''str'', sq_default = None, sq_required = True, sq_kind = ''positional'', sq_description = None\<rparr>,
         \<lparr>sq_name = ''value'', sq_type = ''Optional[Union[Decimal, float, int, str]]'', sq_default = Some ''None'', sq_required = False, sq_kind = ''keyword'', sq_description = None\<rparr>,
         \<lparr>sq_name = ''position'', sq_type = ''Optional[int]'', sq_default = Some ''None'', sq_required = False, sq_kind = ''keyword'', sq_description = None\<rparr>,
         \<lparr>sq_name = ''event_id'', sq_type = ''Optional[str]'', sq_default = Some ''None'', sq_required = False, sq_kind = ''keyword'', sq_description = None\<rparr>,
         \<lparr>sq_name = ''occurred_at'', sq_type = ''Optional[datetime]'', sq_default = Some ''None'', sq_required = False, sq_kind = ''keyword'', sq_description = None\<rparr>,
         \<lparr>sq_name = ''context'', sq_type = ''Optional[Mapping[str, Any]]'', sq_default = Some ''None'', sq_required = False, sq_kind = ''keyword'', sq_description = None\<rparr>],
      sm_returns = ''FeedbackReceipt'',
      sm_routes =
        [\<lparr>sr_key = ''feedback.conversion'', sr_method = ''POST'', sr_path = ''/v1/feedback/conversions'', sr_auth = ''any'',
         sr_scopes = [''events:write''], sr_idempotent = True\<rparr>]\<rparr>"

definition sdk_resource_client_storefront_feedback :: SdkResource where
  "sdk_resource_client_storefront_feedback =
     \<lparr>sx_id = ''client-storefront-feedback'', sx_path = ''client.storefront.feedback'', sx_title = ''feedback'',
      sx_className = ''Feedback'', sx_asyncClass = Some ''AsyncFeedback'',
      sx_doc = ''Impression, click and conversion feedback. Every call is deduplicated by `event_id`.'',
      sx_ctor = None,
      sx_contextManager = None,
      sx_methods =
        [sdk_client_storefront_feedback_impression, sdk_client_storefront_feedback_click,
         sdk_client_storefront_feedback_conversion]\<rparr>"

section \<open>Namespace tenant\<close>

definition sdk_client_tenant_auth_register :: SdkMethod where
  "sdk_client_tenant_auth_register =
     \<lparr>sm_name = ''register'', sm_call = ''client.tenant.auth.register'',
      sm_signature = ''client.tenant.auth.register('' @ [CHR 0x0A] @ ''    *,'' @ [CHR 0x0A] @ ''    name: str,'' @ [CHR 0x0A] @ ''    admin_email: str,'' @ [CHR 0x0A] @ ''    idempotency_key: Optional[str] = None,'' @ [CHR 0x0A] @ '') -> TenantRegistration'',
      sm_doc = ''Register a business as a tenant with its first administrator.'' @ [CHR 0x0A, CHR 0x0A] @ ''`POST /v1/tenants` - public. Safe to retry: the `Idempotency-Key`'' @ [CHR 0x0A] @ ''(generated when omitted) makes repeated submissions return the original'' @ [CHR 0x0A] @ ''tenant. Pass your own key to stay idempotent across process restarts.'' @ [CHR 0x0A, CHR 0x0A] @ ''The result carries a one-time `setup_token` that activates the'' @ [CHR 0x0A] @ ''administrator through `setup_password`. Keep it secret. It is'' @ [CHR 0x0A] @ ''returned only once: a replayed registration has `setup_token=None`.'',
      sm_params =
        [\<lparr>sq_name = ''name'', sq_type = ''str'', sq_default = None, sq_required = True, sq_kind = ''keyword'', sq_description = None\<rparr>,
         \<lparr>sq_name = ''admin_email'', sq_type = ''str'', sq_default = None, sq_required = True, sq_kind = ''keyword'', sq_description = None\<rparr>,
         \<lparr>sq_name = ''idempotency_key'', sq_type = ''Optional[str]'', sq_default = Some ''None'', sq_required = False, sq_kind = ''keyword'', sq_description = None\<rparr>],
      sm_returns = ''TenantRegistration'',
      sm_routes =
        [\<lparr>sr_key = ''tenants.register'', sr_method = ''POST'', sr_path = ''/v1/tenants'', sr_auth = ''none'',
         sr_scopes = [], sr_idempotent = True\<rparr>]\<rparr>"

definition sdk_client_tenant_auth_login :: SdkMethod where
  "sdk_client_tenant_auth_login =
     \<lparr>sm_name = ''login'', sm_call = ''client.tenant.auth.login'',
      sm_signature = ''client.tenant.auth.login('' @ [CHR 0x0A] @ ''    *,'' @ [CHR 0x0A] @ ''    email: str,'' @ [CHR 0x0A] @ ''    password: str,'' @ [CHR 0x0A] @ '') -> AuthTokenPair'',
      sm_doc = ''Exchange a tenant user'' @ [CHR 0x27] @ ''s email and password for tokens (`POST /v1/auth/login`).'' @ [CHR 0x0A, CHR 0x0A] @ ''Tip: create the client with `email=`/`password=` instead and the SDK'' @ [CHR 0x0A] @ ''logs in, and logs in again when the 15-minute token expires.'',
      sm_params =
        [\<lparr>sq_name = ''email'', sq_type = ''str'', sq_default = None, sq_required = True, sq_kind = ''keyword'', sq_description = None\<rparr>,
         \<lparr>sq_name = ''password'', sq_type = ''str'', sq_default = None, sq_required = True, sq_kind = ''keyword'', sq_description = None\<rparr>],
      sm_returns = ''AuthTokenPair'',
      sm_routes =
        [\<lparr>sr_key = ''auth.login'', sr_method = ''POST'', sr_path = ''/v1/auth/login'', sr_auth = ''none'',
         sr_scopes = [], sr_idempotent = True\<rparr>]\<rparr>"

definition sdk_client_tenant_auth_setup_password :: SdkMethod where
  "sdk_client_tenant_auth_setup_password =
     \<lparr>sm_name = ''setup_password'', sm_call = ''client.tenant.auth.setup_password'',
      sm_signature = ''client.tenant.auth.setup_password('' @ [CHR 0x0A] @ ''    *,'' @ [CHR 0x0A] @ ''    setup_token: str,'' @ [CHR 0x0A] @ ''    password: str,'' @ [CHR 0x0A] @ ''    email: Optional[str] = None,'' @ [CHR 0x0A] @ '') -> AuthTokenPair'',
      sm_doc = ''Activate an invited account with its one-time setup token and choose a password.'' @ [CHR 0x0A, CHR 0x0A] @ ''`POST /v1/auth/setup-password` - `setup_token` comes from a'' @ [CHR 0x0A] @ ''registration, an invitation or an operator reissue. It can be used once,'' @ [CHR 0x0A] @ ''expires, and only activates accounts that are still invited. Pass'' @ [CHR 0x0A] @ ''`email` to have the server confirm the token belongs to that address.'' @ [CHR 0x0A] @ ''Every rejection is an `AuthenticationError`.'',
      sm_params =
        [\<lparr>sq_name = ''setup_token'', sq_type = ''str'', sq_default = None, sq_required = True, sq_kind = ''keyword'', sq_description = None\<rparr>,
         \<lparr>sq_name = ''password'', sq_type = ''str'', sq_default = None, sq_required = True, sq_kind = ''keyword'', sq_description = None\<rparr>,
         \<lparr>sq_name = ''email'', sq_type = ''Optional[str]'', sq_default = Some ''None'', sq_required = False, sq_kind = ''keyword'', sq_description = None\<rparr>],
      sm_returns = ''AuthTokenPair'',
      sm_routes =
        [\<lparr>sr_key = ''auth.setup_password'', sr_method = ''POST'', sr_path = ''/v1/auth/setup-password'', sr_auth = ''none'',
         sr_scopes = [], sr_idempotent = True\<rparr>]\<rparr>"

definition sdk_client_tenant_auth_recover_password :: SdkMethod where
  "sdk_client_tenant_auth_recover_password =
     \<lparr>sm_name = ''recover_password'', sm_call = ''client.tenant.auth.recover_password'',
      sm_signature = ''client.tenant.auth.recover_password('' @ [CHR 0x0A] @ ''    *,'' @ [CHR 0x0A] @ ''    recovery_token: str,'' @ [CHR 0x0A] @ ''    password: str,'' @ [CHR 0x0A] @ ''    email: Optional[str] = None,'' @ [CHR 0x0A] @ '') -> Dict[str, str]'',
      sm_doc = ''Set a new password with an operator-issued recovery token.'' @ [CHR 0x0A, CHR 0x0A] @ ''`POST /v1/auth/recover-password` - public. Existing sessions of the'' @ [CHR 0x0A] @ ''account are invalidated. Returns `{'' @ [CHR 0x22] @ ''status'' @ [CHR 0x22] @ '': '' @ [CHR 0x22] @ ''completed'' @ [CHR 0x22] @ ''}`.'',
      sm_params =
        [\<lparr>sq_name = ''recovery_token'', sq_type = ''str'', sq_default = None, sq_required = True, sq_kind = ''keyword'', sq_description = None\<rparr>,
         \<lparr>sq_name = ''password'', sq_type = ''str'', sq_default = None, sq_required = True, sq_kind = ''keyword'', sq_description = None\<rparr>,
         \<lparr>sq_name = ''email'', sq_type = ''Optional[str]'', sq_default = Some ''None'', sq_required = False, sq_kind = ''keyword'', sq_description = None\<rparr>],
      sm_returns = ''Dict[str, str]'',
      sm_routes =
        [\<lparr>sr_key = ''auth.recover_password'', sr_method = ''POST'', sr_path = ''/v1/auth/recover-password'', sr_auth = ''none'',
         sr_scopes = [], sr_idempotent = False\<rparr>]\<rparr>"

definition sdk_client_tenant_auth_refresh :: SdkMethod where
  "sdk_client_tenant_auth_refresh =
     \<lparr>sm_name = ''refresh'', sm_call = ''client.tenant.auth.refresh'',
      sm_signature = ''client.tenant.auth.refresh(*, refresh_token: str) -> AuthTokenPair'',
      sm_doc = ''Exchange a refresh token for a new pair (`POST /v1/auth/refresh`).'' @ [CHR 0x0A, CHR 0x0A] @ ''Refresh tokens are single-use: store the returned `refresh_token` and'' @ [CHR 0x0A] @ ''discard the old one. Presenting an already-used token signs the user out'' @ [CHR 0x0A] @ ''of every session.'',
      sm_params =
        [\<lparr>sq_name = ''refresh_token'', sq_type = ''str'', sq_default = None, sq_required = True, sq_kind = ''keyword'', sq_description = None\<rparr>],
      sm_returns = ''AuthTokenPair'',
      sm_routes =
        [\<lparr>sr_key = ''auth.refresh'', sr_method = ''POST'', sr_path = ''/v1/auth/refresh'', sr_auth = ''none'',
         sr_scopes = [], sr_idempotent = False\<rparr>]\<rparr>"

definition sdk_client_tenant_auth_logout :: SdkMethod where
  "sdk_client_tenant_auth_logout =
     \<lparr>sm_name = ''logout'', sm_call = ''client.tenant.auth.logout'',
      sm_signature = ''client.tenant.auth.logout() -> None'',
      sm_doc = ''End every session of the signed-in user (`POST /v1/auth/logout`, bearer only).'' @ [CHR 0x0A, CHR 0x0A] @ ''All access tokens of the user stop working immediately and refresh'' @ [CHR 0x0A] @ ''sessions are revoked. A client created with `email=`/`password=`'' @ [CHR 0x0A] @ ''forgets its cached token, so its next call signs in again.'',
      sm_params =
        [],
      sm_returns = ''None'',
      sm_routes =
        [\<lparr>sr_key = ''auth.logout'', sr_method = ''POST'', sr_path = ''/v1/auth/logout'', sr_auth = ''bearer'',
         sr_scopes = [], sr_idempotent = True\<rparr>]\<rparr>"

definition sdk_resource_client_tenant_auth :: SdkResource where
  "sdk_resource_client_tenant_auth =
     \<lparr>sx_id = ''client-tenant-auth'', sx_path = ''client.tenant.auth'', sx_title = ''auth'',
      sx_className = ''Authentication'', sx_asyncClass = Some ''AsyncAuthentication'',
      sx_doc = ''Registration, sign-in, account setup/recovery and sign-out for tenant users.'',
      sx_ctor = None,
      sx_contextManager = None,
      sx_methods =
        [sdk_client_tenant_auth_register, sdk_client_tenant_auth_login, sdk_client_tenant_auth_setup_password,
         sdk_client_tenant_auth_recover_password, sdk_client_tenant_auth_refresh, sdk_client_tenant_auth_logout]\<rparr>"

definition sdk_client_tenant_users_list :: SdkMethod where
  "sdk_client_tenant_users_list =
     \<lparr>sm_name = ''list'', sm_call = ''client.tenant.users.list'',
      sm_signature = ''client.tenant.users.list() -> TenantUserList'',
      sm_doc = ''`GET /v1/tenant/users`.'',
      sm_params =
        [],
      sm_returns = ''TenantUserList'',
      sm_routes =
        [\<lparr>sr_key = ''tenant_users.list'', sr_method = ''GET'', sr_path = ''/v1/tenant/users'', sr_auth = ''bearer'',
         sr_scopes = [''users:write''], sr_idempotent = True\<rparr>]\<rparr>"

definition sdk_client_tenant_users_invite :: SdkMethod where
  "sdk_client_tenant_users_invite =
     \<lparr>sm_name = ''invite'', sm_call = ''client.tenant.users.invite'',
      sm_signature = ''client.tenant.users.invite('' @ [CHR 0x0A] @ ''    email: str,'' @ [CHR 0x0A] @ ''    *,'' @ [CHR 0x0A] @ ''    role: str = '' @ [CHR 0x27] @ ''tenant_developer'' @ [CHR 0x27] @ '','' @ [CHR 0x0A] @ ''    display_name: Optional[str] = None,'' @ [CHR 0x0A] @ '') -> TenantUserInvitation'',
      sm_doc = ''Invite a user (`POST /v1/tenant/users`).'' @ [CHR 0x0A, CHR 0x0A] @ ''The response carries a one-time `setup_token` the invitee redeems with'' @ [CHR 0x0A] @ ''`Authentication.setup_password`; it is never shown again.'',
      sm_params =
        [\<lparr>sq_name = ''email'', sq_type = ''str'', sq_default = None, sq_required = True, sq_kind = ''positional'', sq_description = None\<rparr>,
         \<lparr>sq_name = ''role'', sq_type = ''str'', sq_default = Some ([CHR 0x27] @ ''tenant_developer'' @ [CHR 0x27]), sq_required = False, sq_kind = ''keyword'', sq_description = None\<rparr>,
         \<lparr>sq_name = ''display_name'', sq_type = ''Optional[str]'', sq_default = Some ''None'', sq_required = False, sq_kind = ''keyword'', sq_description = None\<rparr>],
      sm_returns = ''TenantUserInvitation'',
      sm_routes =
        [\<lparr>sr_key = ''tenant_users.invite'', sr_method = ''POST'', sr_path = ''/v1/tenant/users'', sr_auth = ''bearer'',
         sr_scopes = [''users:write''], sr_idempotent = False\<rparr>]\<rparr>"

definition sdk_client_tenant_users_get :: SdkMethod where
  "sdk_client_tenant_users_get =
     \<lparr>sm_name = ''get'', sm_call = ''client.tenant.users.get'',
      sm_signature = ''client.tenant.users.get(user_id: Union[str, UUID]) -> TenantUser'',
      sm_doc = ''`GET /v1/tenant/users/{user_id}`.'',
      sm_params =
        [\<lparr>sq_name = ''user_id'', sq_type = ''Union[str, UUID]'', sq_default = None, sq_required = True, sq_kind = ''positional'', sq_description = None\<rparr>],
      sm_returns = ''TenantUser'',
      sm_routes =
        [\<lparr>sr_key = ''tenant_users.get'', sr_method = ''GET'', sr_path = ''/v1/tenant/users/{user_id}'', sr_auth = ''bearer'',
         sr_scopes = [''users:write''], sr_idempotent = True\<rparr>]\<rparr>"

definition sdk_client_tenant_users_update :: SdkMethod where
  "sdk_client_tenant_users_update =
     \<lparr>sm_name = ''update'', sm_call = ''client.tenant.users.update'',
      sm_signature = ''client.tenant.users.update('' @ [CHR 0x0A] @ ''    user_id: Union[str, UUID],'' @ [CHR 0x0A] @ ''    *,'' @ [CHR 0x0A] @ ''    role: Optional[str] = None,'' @ [CHR 0x0A] @ ''    status: Optional[str] = None,'' @ [CHR 0x0A] @ ''    reason: Optional[str] = None,'' @ [CHR 0x0A] @ '') -> TenantUser'',
      sm_doc = ''Change a member'' @ [CHR 0x27] @ ''s role or status (`active`, `locked`, `disabled`).'' @ [CHR 0x0A, CHR 0x0A] @ ''`PATCH /v1/tenant/users/{user_id}`. Ends the member'' @ [CHR 0x27] @ ''s sessions. The last'' @ [CHR 0x0A] @ ''active administrator cannot be demoted, locked or disabled (ConflictError).'',
      sm_params =
        [\<lparr>sq_name = ''user_id'', sq_type = ''Union[str, UUID]'', sq_default = None, sq_required = True, sq_kind = ''positional'', sq_description = None\<rparr>,
         \<lparr>sq_name = ''role'', sq_type = ''Optional[str]'', sq_default = Some ''None'', sq_required = False, sq_kind = ''keyword'', sq_description = None\<rparr>,
         \<lparr>sq_name = ''status'', sq_type = ''Optional[str]'', sq_default = Some ''None'', sq_required = False, sq_kind = ''keyword'', sq_description = None\<rparr>,
         \<lparr>sq_name = ''reason'', sq_type = ''Optional[str]'', sq_default = Some ''None'', sq_required = False, sq_kind = ''keyword'', sq_description = None\<rparr>],
      sm_returns = ''TenantUser'',
      sm_routes =
        [\<lparr>sr_key = ''tenant_users.update'', sr_method = ''PATCH'', sr_path = ''/v1/tenant/users/{user_id}'', sr_auth = ''bearer'',
         sr_scopes = [''users:write''], sr_idempotent = False\<rparr>]\<rparr>"

definition sdk_client_tenant_users_resend_invitation :: SdkMethod where
  "sdk_client_tenant_users_resend_invitation =
     \<lparr>sm_name = ''resend_invitation'', sm_call = ''client.tenant.users.resend_invitation'',
      sm_signature = ''client.tenant.users.resend_invitation(user_id: Union[str, UUID]) -> TenantUserInvitation'',
      sm_doc = ''Issue a new one-time setup link; the previous one stops working.'',
      sm_params =
        [\<lparr>sq_name = ''user_id'', sq_type = ''Union[str, UUID]'', sq_default = None, sq_required = True, sq_kind = ''positional'', sq_description = None\<rparr>],
      sm_returns = ''TenantUserInvitation'',
      sm_routes =
        [\<lparr>sr_key = ''tenant_users.resend_invitation'', sr_method = ''POST'', sr_path = ''/v1/tenant/users/{user_id}/invitation:resend'', sr_auth = ''bearer'',
         sr_scopes = [''users:write''], sr_idempotent = False\<rparr>]\<rparr>"

definition sdk_client_tenant_users_revoke_invitation :: SdkMethod where
  "sdk_client_tenant_users_revoke_invitation =
     \<lparr>sm_name = ''revoke_invitation'', sm_call = ''client.tenant.users.revoke_invitation'',
      sm_signature = ''client.tenant.users.revoke_invitation(user_id: Union[str, UUID]) -> TenantUser'',
      sm_doc = ''Withdraw a pending invitation; its one-time setup link stops working.'' @ [CHR 0x0A, CHR 0x0A] @ ''`DELETE /v1/tenant/users/{user_id}/invitation`. Raises'' @ [CHR 0x0A] @ ''`NotFoundError` for unknown users and a'' @ [CHR 0x0A] @ ''`ConflictError` when the user is no longer invited.'',
      sm_params =
        [\<lparr>sq_name = ''user_id'', sq_type = ''Union[str, UUID]'', sq_default = None, sq_required = True, sq_kind = ''positional'', sq_description = None\<rparr>],
      sm_returns = ''TenantUser'',
      sm_routes =
        [\<lparr>sr_key = ''tenant_users.revoke_invitation'', sr_method = ''DELETE'', sr_path = ''/v1/tenant/users/{user_id}/invitation'', sr_auth = ''bearer'',
         sr_scopes = [''users:write''], sr_idempotent = True\<rparr>]\<rparr>"

definition sdk_resource_client_tenant_users :: SdkResource where
  "sdk_resource_client_tenant_users =
     \<lparr>sx_id = ''client-tenant-users'', sx_path = ''client.tenant.users'', sx_title = ''users'',
      sx_className = ''TenantUsers'', sx_asyncClass = Some ''AsyncTenantUsers'',
      sx_doc = ''Tenant user administration. Administrator bearer tokens only (scope `users:write`).'',
      sx_ctor = None,
      sx_contextManager = None,
      sx_methods =
        [sdk_client_tenant_users_list, sdk_client_tenant_users_invite, sdk_client_tenant_users_get,
         sdk_client_tenant_users_update, sdk_client_tenant_users_resend_invitation,
         sdk_client_tenant_users_revoke_invitation]\<rparr>"

definition sdk_client_tenant_api_keys_list :: SdkMethod where
  "sdk_client_tenant_api_keys_list =
     \<lparr>sm_name = ''list'', sm_call = ''client.tenant.api_keys.list'',
      sm_signature = ''client.tenant.api_keys.list() -> ApiKeyList'',
      sm_doc = ''`GET /v1/api-keys` - redacted list (secrets are never returned).'',
      sm_params =
        [],
      sm_returns = ''ApiKeyList'',
      sm_routes =
        [\<lparr>sr_key = ''api_keys.list'', sr_method = ''GET'', sr_path = ''/v1/api-keys'', sr_auth = ''bearer'',
         sr_scopes = [''keys:write''], sr_idempotent = True\<rparr>]\<rparr>"

definition sdk_client_tenant_api_keys_get :: SdkMethod where
  "sdk_client_tenant_api_keys_get =
     \<lparr>sm_name = ''get'', sm_call = ''client.tenant.api_keys.get'',
      sm_signature = ''client.tenant.api_keys.get(key_id: Union[str, UUID]) -> ApiKey'',
      sm_doc = ''`GET /v1/api-keys/{key_id}`.'',
      sm_params =
        [\<lparr>sq_name = ''key_id'', sq_type = ''Union[str, UUID]'', sq_default = None, sq_required = True, sq_kind = ''positional'', sq_description = None\<rparr>],
      sm_returns = ''ApiKey'',
      sm_routes =
        [\<lparr>sr_key = ''api_keys.get'', sr_method = ''GET'', sr_path = ''/v1/api-keys/{key_id}'', sr_auth = ''bearer'',
         sr_scopes = [''keys:write''], sr_idempotent = True\<rparr>]\<rparr>"

definition sdk_client_tenant_api_keys_create :: SdkMethod where
  "sdk_client_tenant_api_keys_create =
     \<lparr>sm_name = ''create'', sm_call = ''client.tenant.api_keys.create'',
      sm_signature = ''client.tenant.api_keys.create('' @ [CHR 0x0A] @ ''    *,'' @ [CHR 0x0A] @ ''    name: str,'' @ [CHR 0x0A] @ ''    scopes: Sequence[ScopeLike],'' @ [CHR 0x0A] @ ''    expires_at: Optional[datetime] = None,'' @ [CHR 0x0A] @ '') -> ApiKeyWithSecret'',
      sm_doc = ''Create a key. `secret` is only returned now - store it securely.'' @ [CHR 0x0A, CHR 0x0A] @ ''`POST /v1/api-keys`. Not retried after ambiguous network failures'' @ [CHR 0x0A] @ ''because a retry could create a second key; names are unique per tenant.'',
      sm_params =
        [\<lparr>sq_name = ''name'', sq_type = ''str'', sq_default = None, sq_required = True, sq_kind = ''keyword'', sq_description = None\<rparr>,
         \<lparr>sq_name = ''scopes'', sq_type = ''Sequence[ScopeLike]'', sq_default = None, sq_required = True, sq_kind = ''keyword'', sq_description = None\<rparr>,
         \<lparr>sq_name = ''expires_at'', sq_type = ''Optional[datetime]'', sq_default = Some ''None'', sq_required = False, sq_kind = ''keyword'', sq_description = None\<rparr>],
      sm_returns = ''ApiKeyWithSecret'',
      sm_routes =
        [\<lparr>sr_key = ''api_keys.create'', sr_method = ''POST'', sr_path = ''/v1/api-keys'', sr_auth = ''bearer'',
         sr_scopes = [''keys:write''], sr_idempotent = False\<rparr>]\<rparr>"

definition sdk_client_tenant_api_keys_rotate :: SdkMethod where
  "sdk_client_tenant_api_keys_rotate =
     \<lparr>sm_name = ''rotate'', sm_call = ''client.tenant.api_keys.rotate'',
      sm_signature = ''client.tenant.api_keys.rotate('' @ [CHR 0x0A] @ ''    key_id: Union[str, UUID],'' @ [CHR 0x0A] @ ''    *,'' @ [CHR 0x0A] @ ''    reason: str,'' @ [CHR 0x0A] @ ''    grace_period_seconds: int = 0,'' @ [CHR 0x0A] @ '') -> ApiKeyWithSecret'',
      sm_doc = ''Issue a new secret. The old one keeps working for `grace_period_seconds` (max 1 day).'' @ [CHR 0x0A, CHR 0x0A] @ ''`POST /v1/api-keys/{key_id}/rotate`.'',
      sm_params =
        [\<lparr>sq_name = ''key_id'', sq_type = ''Union[str, UUID]'', sq_default = None, sq_required = True, sq_kind = ''positional'', sq_description = None\<rparr>,
         \<lparr>sq_name = ''reason'', sq_type = ''str'', sq_default = None, sq_required = True, sq_kind = ''keyword'', sq_description = None\<rparr>,
         \<lparr>sq_name = ''grace_period_seconds'', sq_type = ''int'', sq_default = Some ''0'', sq_required = False, sq_kind = ''keyword'', sq_description = None\<rparr>],
      sm_returns = ''ApiKeyWithSecret'',
      sm_routes =
        [\<lparr>sr_key = ''api_keys.rotate'', sr_method = ''POST'', sr_path = ''/v1/api-keys/{key_id}/rotate'', sr_auth = ''bearer'',
         sr_scopes = [''keys:write''], sr_idempotent = False\<rparr>]\<rparr>"

definition sdk_client_tenant_api_keys_revoke :: SdkMethod where
  "sdk_client_tenant_api_keys_revoke =
     \<lparr>sm_name = ''revoke'', sm_call = ''client.tenant.api_keys.revoke'',
      sm_signature = ''client.tenant.api_keys.revoke(key_id: Union[str, UUID]) -> ApiKey'',
      sm_doc = ''Revoke immediately (idempotent). `DELETE /v1/api-keys/{key_id}`.'',
      sm_params =
        [\<lparr>sq_name = ''key_id'', sq_type = ''Union[str, UUID]'', sq_default = None, sq_required = True, sq_kind = ''positional'', sq_description = None\<rparr>],
      sm_returns = ''ApiKey'',
      sm_routes =
        [\<lparr>sr_key = ''api_keys.revoke'', sr_method = ''DELETE'', sr_path = ''/v1/api-keys/{key_id}'', sr_auth = ''bearer'',
         sr_scopes = [''keys:write''], sr_idempotent = True\<rparr>]\<rparr>"

definition sdk_resource_client_tenant_api_keys :: SdkResource where
  "sdk_resource_client_tenant_api_keys =
     \<lparr>sx_id = ''client-tenant-api_keys'', sx_path = ''client.tenant.api_keys'', sx_title = ''api_keys'',
      sx_className = ''ApiKeys'', sx_asyncClass = Some ''AsyncApiKeys'',
      sx_doc = ''Scoped server credentials. Requires a tenant user'' @ [CHR 0x27] @ ''s bearer token (`keys:write`).'',
      sx_ctor = None,
      sx_contextManager = None,
      sx_methods =
        [sdk_client_tenant_api_keys_list, sdk_client_tenant_api_keys_get, sdk_client_tenant_api_keys_create,
         sdk_client_tenant_api_keys_rotate, sdk_client_tenant_api_keys_revoke]\<rparr>"

definition sdk_client_tenant_subscription_get :: SdkMethod where
  "sdk_client_tenant_subscription_get =
     \<lparr>sm_name = ''get'', sm_call = ''client.tenant.subscription.get'',
      sm_signature = ''client.tenant.subscription.get() -> Subscription'',
      sm_doc = ''Current plan, period and effective limits.'' @ [CHR 0x0A, CHR 0x0A] @ ''`GET /v1/subscription` - scope `billing:read`.'',
      sm_params =
        [],
      sm_returns = ''Subscription'',
      sm_routes =
        [\<lparr>sr_key = ''subscription.get'', sr_method = ''GET'', sr_path = ''/v1/subscription'', sr_auth = ''any'',
         sr_scopes = [''billing:read''], sr_idempotent = True\<rparr>]\<rparr>"

definition sdk_client_tenant_subscription_list_requests :: SdkMethod where
  "sdk_client_tenant_subscription_list_requests =
     \<lparr>sm_name = ''list_requests'', sm_call = ''client.tenant.subscription.list_requests'',
      sm_signature = ''client.tenant.subscription.list_requests() -> PlanChangeRequestList'',
      sm_doc = ''This workspace'' @ [CHR 0x27] @ ''s plan change requests, newest first, and the open one.'' @ [CHR 0x0A, CHR 0x0A] @ ''`GET /v1/subscription/requests` - scope `billing:read`.'',
      sm_params =
        [],
      sm_returns = ''PlanChangeRequestList'',
      sm_routes =
        [\<lparr>sr_key = ''subscription.list_requests'', sr_method = ''GET'', sr_path = ''/v1/subscription/requests'', sr_auth = ''any'',
         sr_scopes = [''billing:read''], sr_idempotent = True\<rparr>]\<rparr>"

definition sdk_client_tenant_subscription_request_plan :: SdkMethod where
  "sdk_client_tenant_subscription_request_plan =
     \<lparr>sm_name = ''request_plan'', sm_call = ''client.tenant.subscription.request_plan'',
      sm_signature = ''client.tenant.subscription.request_plan('' @ [CHR 0x0A] @ ''    plan_code: str,'' @ [CHR 0x0A] @ ''    *,'' @ [CHR 0x0A] @ ''    message: Optional[str] = None,'' @ [CHR 0x0A] @ '') -> PlanChangeRequest'',
      sm_doc = ''Ask a platform operator to move this workspace to `plan_code`.'' @ [CHR 0x0A, CHR 0x0A] @ ''`free` (Free demo), `basic` or `pro`. GraphRec takes no payments: the plan'' @ [CHR 0x0A] @ ''changes when an operator approves. One request may be open at a time.'' @ [CHR 0x0A] @ ''`POST /v1/subscription/requests` - scope `billing:write` (administrators).'',
      sm_params =
        [\<lparr>sq_name = ''plan_code'', sq_type = ''str'', sq_default = None, sq_required = True, sq_kind = ''positional'', sq_description = None\<rparr>,
         \<lparr>sq_name = ''message'', sq_type = ''Optional[str]'', sq_default = Some ''None'', sq_required = False, sq_kind = ''keyword'', sq_description = None\<rparr>],
      sm_returns = ''PlanChangeRequest'',
      sm_routes =
        [\<lparr>sr_key = ''subscription.request_plan'', sr_method = ''POST'', sr_path = ''/v1/subscription/requests'', sr_auth = ''any'',
         sr_scopes = [''billing:write''], sr_idempotent = False\<rparr>]\<rparr>"

definition sdk_client_tenant_subscription_cancel_request :: SdkMethod where
  "sdk_client_tenant_subscription_cancel_request =
     \<lparr>sm_name = ''cancel_request'', sm_call = ''client.tenant.subscription.cancel_request'',
      sm_signature = ''client.tenant.subscription.cancel_request(request_id: Id) -> PlanChangeRequest'',
      sm_doc = ''Withdraw a pending request. `POST /v1/subscription/requests/{request_id}:cancel`.'',
      sm_params =
        [\<lparr>sq_name = ''request_id'', sq_type = ''Id'', sq_default = None, sq_required = True, sq_kind = ''positional'', sq_description = None\<rparr>],
      sm_returns = ''PlanChangeRequest'',
      sm_routes =
        [\<lparr>sr_key = ''subscription.cancel_request'', sr_method = ''POST'', sr_path = ''/v1/subscription/requests/{request_id}:cancel'', sr_auth = ''any'',
         sr_scopes = [''billing:write''], sr_idempotent = False\<rparr>]\<rparr>"

definition sdk_resource_client_tenant_subscription :: SdkResource where
  "sdk_resource_client_tenant_subscription =
     \<lparr>sx_id = ''client-tenant-subscription'', sx_path = ''client.tenant.subscription'', sx_title = ''subscription'',
      sx_className = ''Subscriptions'', sx_asyncClass = Some ''AsyncSubscriptions'',
      sx_doc = [],
      sx_ctor = None,
      sx_contextManager = None,
      sx_methods =
        [sdk_client_tenant_subscription_get, sdk_client_tenant_subscription_list_requests,
         sdk_client_tenant_subscription_request_plan, sdk_client_tenant_subscription_cancel_request]\<rparr>"

definition sdk_client_tenant_usage_get :: SdkMethod where
  "sdk_client_tenant_usage_get =
     \<lparr>sm_name = ''get'', sm_call = ''client.tenant.usage.get'',
      sm_signature = ''client.tenant.usage.get(period: Optional[str] = None) -> UsageSummary'',
      sm_doc = ''Usage per dimension with remaining allowance.'' @ [CHR 0x0A, CHR 0x0A] @ ''`GET /v1/usage` - scope `usage:read`. `period='' @ [CHR 0x22] @ ''YYYY-MM'' @ [CHR 0x22] @ ''` (UC-24) reads a'' @ [CHR 0x0A] @ ''past monthly period (up to 24 months back); inventory dimensions'' @ [CHR 0x0A] @ ''(`scope == '' @ [CHR 0x22] @ ''current'' @ [CHR 0x22] @ ''`) always reflect now.'',
      sm_params =
        [\<lparr>sq_name = ''period'', sq_type = ''Optional[str]'', sq_default = Some ''None'', sq_required = False, sq_kind = ''positional'', sq_description = None\<rparr>],
      sm_returns = ''UsageSummary'',
      sm_routes =
        [\<lparr>sr_key = ''usage.get'', sr_method = ''GET'', sr_path = ''/v1/usage'', sr_auth = ''any'',
         sr_scopes = [''usage:read''], sr_idempotent = True\<rparr>]\<rparr>"

definition sdk_client_tenant_usage_trends :: SdkMethod where
  "sdk_client_tenant_usage_trends =
     \<lparr>sm_name = ''trends'', sm_call = ''client.tenant.usage.trends'',
      sm_signature = ''client.tenant.usage.trends('' @ [CHR 0x0A] @ ''    *,'' @ [CHR 0x0A] @ ''    granularity: str = '' @ [CHR 0x27] @ ''day'' @ [CHR 0x27] @ '','' @ [CHR 0x0A] @ ''    start: Optional[datetime] = None,'' @ [CHR 0x0A] @ ''    end: Optional[datetime] = None,'' @ [CHR 0x0A] @ ''    types: Optional[Iterable[Union[UsageType, str]]] = None,'' @ [CHR 0x0A] @ '') -> UsageTrend'',
      sm_doc = ''Usage per period and usage type, read from the usage ledger.'' @ [CHR 0x0A, CHR 0x0A] @ ''`GET /v1/usage/trends` - scope `usage:read`. `granularity` is'' @ [CHR 0x0A] @ ''`hour`, `day` or `week`; the window defaults to the 30 days before'' @ [CHR 0x0A] @ ''`end` (default now). `types` limits the result to some usage types.'' @ [CHR 0x0A] @ ''Naive datetimes are treated as UTC.'',
      sm_params =
        [\<lparr>sq_name = ''granularity'', sq_type = ''str'', sq_default = Some ([CHR 0x27] @ ''day'' @ [CHR 0x27]), sq_required = False, sq_kind = ''keyword'', sq_description = None\<rparr>,
         \<lparr>sq_name = ''start'', sq_type = ''Optional[datetime]'', sq_default = Some ''None'', sq_required = False, sq_kind = ''keyword'', sq_description = None\<rparr>,
         \<lparr>sq_name = ''end'', sq_type = ''Optional[datetime]'', sq_default = Some ''None'', sq_required = False, sq_kind = ''keyword'', sq_description = None\<rparr>,
         \<lparr>sq_name = ''types'', sq_type = ''Optional[Iterable[Union[UsageType, str]]]'', sq_default = Some ''None'', sq_required = False, sq_kind = ''keyword'', sq_description = None\<rparr>],
      sm_returns = ''UsageTrend'',
      sm_routes =
        [\<lparr>sr_key = ''usage.trends'', sr_method = ''GET'', sr_path = ''/v1/usage/trends'', sr_auth = ''any'',
         sr_scopes = [''usage:read''], sr_idempotent = True\<rparr>]\<rparr>"

definition sdk_resource_client_tenant_usage :: SdkResource where
  "sdk_resource_client_tenant_usage =
     \<lparr>sx_id = ''client-tenant-usage'', sx_path = ''client.tenant.usage'', sx_title = ''usage'',
      sx_className = ''Usage'', sx_asyncClass = Some ''AsyncUsage'',
      sx_doc = [],
      sx_ctor = None,
      sx_contextManager = None,
      sx_methods =
        [sdk_client_tenant_usage_get, sdk_client_tenant_usage_trends]\<rparr>"

definition sdk_client_tenant_catalog_bulk_upsert :: SdkMethod where
  "sdk_client_tenant_catalog_bulk_upsert =
     \<lparr>sm_name = ''bulk_upsert'', sm_call = ''client.tenant.catalog.bulk_upsert'',
      sm_signature = ''client.tenant.catalog.bulk_upsert('' @ [CHR 0x0A] @ ''    products: Iterable[ProductLike],'' @ [CHR 0x0A] @ ''    *,'' @ [CHR 0x0A] @ ''    idempotency_key: Optional[str] = None,'' @ [CHR 0x0A] @ ''    request_id: Optional[str] = None,'' @ [CHR 0x0A] @ '') -> ProductBulkUpsertResult'',
      sm_doc = ''Create or update many products (`POST /v1/products:bulk-upsert`).'' @ [CHR 0x0A, CHR 0x0A] @ ''The input is validated locally, de-duplicated by `external_id` (later'' @ [CHR 0x0A] @ ''duplicates are reported as rejected, like the server does), and split'' @ [CHR 0x0A] @ ''into requests that fit the server'' @ [CHR 0x27] @ ''s body limit. Counts are summed across'' @ [CHR 0x0A] @ ''requests. If a request fails, the raised `APIError`'' @ [CHR 0x0A] @ ''carries `partial_result` with the totals applied so far.'',
      sm_params =
        [\<lparr>sq_name = ''products'', sq_type = ''Iterable[ProductLike]'', sq_default = None, sq_required = True, sq_kind = ''positional'', sq_description = None\<rparr>,
         \<lparr>sq_name = ''idempotency_key'', sq_type = ''Optional[str]'', sq_default = Some ''None'', sq_required = False, sq_kind = ''keyword'', sq_description = None\<rparr>,
         \<lparr>sq_name = ''request_id'', sq_type = ''Optional[str]'', sq_default = Some ''None'', sq_required = False, sq_kind = ''keyword'', sq_description = None\<rparr>],
      sm_returns = ''ProductBulkUpsertResult'',
      sm_routes =
        [\<lparr>sr_key = ''products.bulk_upsert'', sr_method = ''POST'', sr_path = ''/v1/products:bulk-upsert'', sr_auth = ''any'',
         sr_scopes = [''catalog:write''], sr_idempotent = True\<rparr>]\<rparr>"

definition sdk_client_tenant_catalog_list_syncs :: SdkMethod where
  "sdk_client_tenant_catalog_list_syncs =
     \<lparr>sm_name = ''list_syncs'', sm_call = ''client.tenant.catalog.list_syncs'',
      sm_signature = ''client.tenant.catalog.list_syncs() -> List[CatalogSync]'',
      sm_doc = [],
      sm_params =
        [],
      sm_returns = ''List[CatalogSync]'',
      sm_routes =
        [\<lparr>sr_key = ''products.list_syncs'', sr_method = ''GET'', sr_path = ''/v1/catalog-syncs'', sr_auth = ''any'',
         sr_scopes = [''catalog:read''], sr_idempotent = True\<rparr>]\<rparr>"

definition sdk_client_tenant_catalog_get_sync :: SdkMethod where
  "sdk_client_tenant_catalog_get_sync =
     \<lparr>sm_name = ''get_sync'', sm_call = ''client.tenant.catalog.get_sync'',
      sm_signature = ''client.tenant.catalog.get_sync(sync_id: Union[str, UUID]) -> CatalogSync'',
      sm_doc = [],
      sm_params =
        [\<lparr>sq_name = ''sync_id'', sq_type = ''Union[str, UUID]'', sq_default = None, sq_required = True, sq_kind = ''positional'', sq_description = None\<rparr>],
      sm_returns = ''CatalogSync'',
      sm_routes =
        [\<lparr>sr_key = ''products.get_sync'', sr_method = ''GET'', sr_path = ''/v1/catalog-syncs/{sync_id}'', sr_auth = ''any'',
         sr_scopes = [''catalog:read''], sr_idempotent = True\<rparr>]\<rparr>"

definition sdk_client_tenant_catalog_list :: SdkMethod where
  "sdk_client_tenant_catalog_list =
     \<lparr>sm_name = ''list'', sm_call = ''client.tenant.catalog.list'',
      sm_signature = ''client.tenant.catalog.list('' @ [CHR 0x0A] @ ''    *,'' @ [CHR 0x0A] @ ''    limit: Optional[int] = None,'' @ [CHR 0x0A] @ ''    offset: Optional[int] = None,'' @ [CHR 0x0A] @ ''    external_ids: Optional[Sequence[str]] = None,'' @ [CHR 0x0A] @ '') -> ProductList'',
      sm_doc = ''One page of products, newest first (`GET /v1/products`).'' @ [CHR 0x0A, CHR 0x0A] @ ''The server pages at `limit` (default 500, at most 1000); `total` counts'' @ [CHR 0x0A] @ ''every match. `external_ids` (at most 200) fetches specific products.'',
      sm_params =
        [\<lparr>sq_name = ''limit'', sq_type = ''Optional[int]'', sq_default = Some ''None'', sq_required = False, sq_kind = ''keyword'', sq_description = None\<rparr>,
         \<lparr>sq_name = ''offset'', sq_type = ''Optional[int]'', sq_default = Some ''None'', sq_required = False, sq_kind = ''keyword'', sq_description = None\<rparr>,
         \<lparr>sq_name = ''external_ids'', sq_type = ''Optional[Sequence[str]]'', sq_default = Some ''None'', sq_required = False, sq_kind = ''keyword'', sq_description = None\<rparr>],
      sm_returns = ''ProductList'',
      sm_routes =
        [\<lparr>sr_key = ''products.list'', sr_method = ''GET'', sr_path = ''/v1/products'', sr_auth = ''any'',
         sr_scopes = [''catalog:read''], sr_idempotent = True\<rparr>]\<rparr>"

definition sdk_client_tenant_catalog_iterate :: SdkMethod where
  "sdk_client_tenant_catalog_iterate =
     \<lparr>sm_name = ''iterate'', sm_call = ''client.tenant.catalog.iterate'',
      sm_signature = ''client.tenant.catalog.iterate(*, page_size: int = 1000) -> Iterator[Product]'',
      sm_doc = ''Every product, newest first, fetched page by page.'',
      sm_params =
        [\<lparr>sq_name = ''page_size'', sq_type = ''int'', sq_default = Some ''1000'', sq_required = False, sq_kind = ''keyword'', sq_description = None\<rparr>],
      sm_returns = ''Iterator[Product]'',
      sm_routes =
        [\<lparr>sr_key = ''products.list'', sr_method = ''GET'', sr_path = ''/v1/products'', sr_auth = ''any'',
         sr_scopes = [''catalog:read''], sr_idempotent = True\<rparr>]\<rparr>"

definition sdk_client_tenant_catalog_get :: SdkMethod where
  "sdk_client_tenant_catalog_get =
     \<lparr>sm_name = ''get'', sm_call = ''client.tenant.catalog.get'',
      sm_signature = ''client.tenant.catalog.get(external_id: str) -> Product'',
      sm_doc = ''`GET /v1/products/{external_id}`. Raises `NotFoundError`.'',
      sm_params =
        [\<lparr>sq_name = ''external_id'', sq_type = ''str'', sq_default = None, sq_required = True, sq_kind = ''positional'', sq_description = None\<rparr>],
      sm_returns = ''Product'',
      sm_routes =
        [\<lparr>sr_key = ''products.get'', sr_method = ''GET'', sr_path = ''/v1/products/{external_id}'', sr_auth = ''any'',
         sr_scopes = [''catalog:read''], sr_idempotent = True\<rparr>]\<rparr>"

definition sdk_client_tenant_catalog_upsert :: SdkMethod where
  "sdk_client_tenant_catalog_upsert =
     \<lparr>sm_name = ''upsert'', sm_call = ''client.tenant.catalog.upsert'',
      sm_signature = ''client.tenant.catalog.upsert(product: ProductLike) -> Product'',
      sm_doc = ''Create or fully replace one product (`PUT /v1/products/{external_id}`).'',
      sm_params =
        [\<lparr>sq_name = ''product'', sq_type = ''ProductLike'', sq_default = None, sq_required = True, sq_kind = ''positional'', sq_description = None\<rparr>],
      sm_returns = ''Product'',
      sm_routes =
        [\<lparr>sr_key = ''products.upsert'', sr_method = ''PUT'', sr_path = ''/v1/products/{external_id}'', sr_auth = ''any'',
         sr_scopes = [''catalog:write''], sr_idempotent = True\<rparr>]\<rparr>"

definition sdk_client_tenant_catalog_update :: SdkMethod where
  "sdk_client_tenant_catalog_update =
     \<lparr>sm_name = ''update'', sm_call = ''client.tenant.catalog.update'',
      sm_signature = ''client.tenant.catalog.update('' @ [CHR 0x0A] @ ''    external_id: str,'' @ [CHR 0x0A] @ ''    *,'' @ [CHR 0x0A] @ ''    title: str = unchanged,'' @ [CHR 0x0A] @ ''    description: str = unchanged,'' @ [CHR 0x0A] @ ''    price: Union[Decimal, float, int, str] = unchanged,'' @ [CHR 0x0A] @ ''    category: str = unchanged,'' @ [CHR 0x0A] @ ''    is_active: bool = unchanged,'' @ [CHR 0x0A] @ ''    availability_status: str = unchanged,'' @ [CHR 0x0A] @ ''    metadata: Mapping[str, Any] = unchanged,'' @ [CHR 0x0A] @ '') -> Product'',
      sm_doc = ''Change selected fields of an existing product (`PATCH /v1/products/{external_id}`).'' @ [CHR 0x0A, CHR 0x0A] @ ''The server'' @ [CHR 0x27] @ ''s PATCH expects a complete product, so the SDK reads the'' @ [CHR 0x0A] @ ''current product, applies your changes and sends the result (two'' @ [CHR 0x0A] @ ''requests, not atomic). `metadata` replaces the whole metadata object.'',
      sm_params =
        [\<lparr>sq_name = ''external_id'', sq_type = ''str'', sq_default = None, sq_required = True, sq_kind = ''positional'', sq_description = None\<rparr>,
         \<lparr>sq_name = ''title'', sq_type = ''str'', sq_default = Some ''unchanged'', sq_required = False, sq_kind = ''keyword'', sq_description = None\<rparr>,
         \<lparr>sq_name = ''description'', sq_type = ''str'', sq_default = Some ''unchanged'', sq_required = False, sq_kind = ''keyword'', sq_description = None\<rparr>,
         \<lparr>sq_name = ''price'', sq_type = ''Union[Decimal, float, int, str]'', sq_default = Some ''unchanged'', sq_required = False, sq_kind = ''keyword'', sq_description = None\<rparr>,
         \<lparr>sq_name = ''category'', sq_type = ''str'', sq_default = Some ''unchanged'', sq_required = False, sq_kind = ''keyword'', sq_description = None\<rparr>,
         \<lparr>sq_name = ''is_active'', sq_type = ''bool'', sq_default = Some ''unchanged'', sq_required = False, sq_kind = ''keyword'', sq_description = None\<rparr>,
         \<lparr>sq_name = ''availability_status'', sq_type = ''str'', sq_default = Some ''unchanged'', sq_required = False, sq_kind = ''keyword'', sq_description = None\<rparr>,
         \<lparr>sq_name = ''metadata'', sq_type = ''Mapping[str, Any]'', sq_default = Some ''unchanged'', sq_required = False, sq_kind = ''keyword'', sq_description = None\<rparr>],
      sm_returns = ''Product'',
      sm_routes =
        [\<lparr>sr_key = ''products.update'', sr_method = ''PATCH'', sr_path = ''/v1/products/{external_id}'', sr_auth = ''any'',
         sr_scopes = [''catalog:write''], sr_idempotent = True\<rparr>,
         \<lparr>sr_key = ''products.get'', sr_method = ''GET'', sr_path = ''/v1/products/{external_id}'', sr_auth = ''any'',
         sr_scopes = [''catalog:read''], sr_idempotent = True\<rparr>]\<rparr>"

definition sdk_client_tenant_catalog_disable :: SdkMethod where
  "sdk_client_tenant_catalog_disable =
     \<lparr>sm_name = ''disable'', sm_call = ''client.tenant.catalog.disable'',
      sm_signature = ''client.tenant.catalog.disable(external_id: str) -> Product'',
      sm_doc = ''Stop recommending a product (`POST /v1/products/{external_id}:disable`).'',
      sm_params =
        [\<lparr>sq_name = ''external_id'', sq_type = ''str'', sq_default = None, sq_required = True, sq_kind = ''positional'', sq_description = None\<rparr>],
      sm_returns = ''Product'',
      sm_routes =
        [\<lparr>sr_key = ''products.disable'', sr_method = ''POST'', sr_path = ''/v1/products/{external_id}:disable'', sr_auth = ''any'',
         sr_scopes = [''catalog:write''], sr_idempotent = True\<rparr>]\<rparr>"

definition sdk_resource_client_tenant_catalog :: SdkResource where
  "sdk_resource_client_tenant_catalog =
     \<lparr>sx_id = ''client-tenant-catalog'', sx_path = ''client.tenant.catalog'', sx_title = ''catalog'',
      sx_className = ''Products'', sx_asyncClass = Some ''AsyncProducts'',
      sx_doc = ''Tenant catalog. Scopes: `catalog:read` / `catalog:write`.'',
      sx_ctor = None,
      sx_contextManager = None,
      sx_methods =
        [sdk_client_tenant_catalog_bulk_upsert, sdk_client_tenant_catalog_list_syncs,
         sdk_client_tenant_catalog_get_sync, sdk_client_tenant_catalog_list, sdk_client_tenant_catalog_iterate,
         sdk_client_tenant_catalog_get, sdk_client_tenant_catalog_upsert, sdk_client_tenant_catalog_update,
         sdk_client_tenant_catalog_disable]\<rparr>"

definition sdk_client_tenant_datasets_upload :: SdkMethod where
  "sdk_client_tenant_datasets_upload =
     \<lparr>sm_name = ''upload'', sm_call = ''client.tenant.datasets.upload'',
      sm_signature = ''client.tenant.datasets.upload('' @ [CHR 0x0A] @ ''    file: FileInput,'' @ [CHR 0x0A] @ ''    *,'' @ [CHR 0x0A] @ ''    filename: Optional[str] = None,'' @ [CHR 0x0A] @ ''    content_type: Optional[str] = None,'' @ [CHR 0x0A] @ '') -> DatasetUploadResult'',
      sm_doc = ''Import a JSON or CSV export of products and/or events, then snapshot it.'' @ [CHR 0x0A, CHR 0x0A] @ ''`POST /v1/datasets/upload` (multipart, up to the server'' @ [CHR 0x27] @ ''s'' @ [CHR 0x0A] @ ''`MAX_UPLOAD_BODY_BYTES`). JSON may be `{'' @ [CHR 0x22] @ ''products'' @ [CHR 0x22] @ '': [...], '' @ [CHR 0x22] @ ''events'' @ [CHR 0x22] @ '': [...]}`'' @ [CHR 0x0A] @ ''or a list of records; CSV needs a header row. Records with `event_id`'' @ [CHR 0x0A] @ ''are events, records with `external_id` are products, and `context` /'' @ [CHR 0x0A] @ ''`metadata` CSV cells may contain JSON. One invalid record rejects the'' @ [CHR 0x0A] @ ''whole file with `RequestValidationError`.'',
      sm_params =
        [\<lparr>sq_name = ''file'', sq_type = ''FileInput'', sq_default = None, sq_required = True, sq_kind = ''positional'', sq_description = None\<rparr>,
         \<lparr>sq_name = ''filename'', sq_type = ''Optional[str]'', sq_default = Some ''None'', sq_required = False, sq_kind = ''keyword'', sq_description = None\<rparr>,
         \<lparr>sq_name = ''content_type'', sq_type = ''Optional[str]'', sq_default = Some ''None'', sq_required = False, sq_kind = ''keyword'', sq_description = None\<rparr>],
      sm_returns = ''DatasetUploadResult'',
      sm_routes =
        [\<lparr>sr_key = ''datasets.upload'', sr_method = ''POST'', sr_path = ''/v1/datasets/upload'', sr_auth = ''any'',
         sr_scopes = [''catalog:write'', ''events:write''], sr_idempotent = False\<rparr>]\<rparr>"

definition sdk_client_tenant_datasets_create_snapshot :: SdkMethod where
  "sdk_client_tenant_datasets_create_snapshot =
     \<lparr>sm_name = ''create_snapshot'', sm_call = ''client.tenant.datasets.create_snapshot'',
      sm_signature = ''client.tenant.datasets.create_snapshot('' @ [CHR 0x0A] @ ''    *,'' @ [CHR 0x0A] @ ''    cutoff_at: Optional[datetime] = None,'' @ [CHR 0x0A] @ ''    description: Optional[str] = None,'' @ [CHR 0x0A] @ '') -> DatasetSnapshot'',
      sm_doc = ''Freeze the tenant'' @ [CHR 0x27] @ ''s current data (up to `cutoff_at`) for training.'' @ [CHR 0x0A, CHR 0x0A] @ ''`POST /v1/datasets/snapshots`.'',
      sm_params =
        [\<lparr>sq_name = ''cutoff_at'', sq_type = ''Optional[datetime]'', sq_default = Some ''None'', sq_required = False, sq_kind = ''keyword'', sq_description = None\<rparr>,
         \<lparr>sq_name = ''description'', sq_type = ''Optional[str]'', sq_default = Some ''None'', sq_required = False, sq_kind = ''keyword'', sq_description = None\<rparr>],
      sm_returns = ''DatasetSnapshot'',
      sm_routes =
        [\<lparr>sr_key = ''datasets.create_snapshot'', sr_method = ''POST'', sr_path = ''/v1/datasets/snapshots'', sr_auth = ''any'',
         sr_scopes = [''training:write''], sr_idempotent = False\<rparr>]\<rparr>"

definition sdk_client_tenant_datasets_list_snapshots :: SdkMethod where
  "sdk_client_tenant_datasets_list_snapshots =
     \<lparr>sm_name = ''list_snapshots'', sm_call = ''client.tenant.datasets.list_snapshots'',
      sm_signature = ''client.tenant.datasets.list_snapshots() -> DatasetSnapshotList'',
      sm_doc = ''`GET /v1/datasets/snapshots`, newest first.'',
      sm_params =
        [],
      sm_returns = ''DatasetSnapshotList'',
      sm_routes =
        [\<lparr>sr_key = ''datasets.list_snapshots'', sr_method = ''GET'', sr_path = ''/v1/datasets/snapshots'', sr_auth = ''any'',
         sr_scopes = [''training:read''], sr_idempotent = True\<rparr>]\<rparr>"

definition sdk_client_tenant_datasets_get_snapshot :: SdkMethod where
  "sdk_client_tenant_datasets_get_snapshot =
     \<lparr>sm_name = ''get_snapshot'', sm_call = ''client.tenant.datasets.get_snapshot'',
      sm_signature = ''client.tenant.datasets.get_snapshot(snapshot_id: Union[str, UUID]) -> DatasetSnapshot'',
      sm_doc = ''`GET /v1/datasets/snapshots/{snapshot_id}`.'',
      sm_params =
        [\<lparr>sq_name = ''snapshot_id'', sq_type = ''Union[str, UUID]'', sq_default = None, sq_required = True, sq_kind = ''positional'', sq_description = None\<rparr>],
      sm_returns = ''DatasetSnapshot'',
      sm_routes =
        [\<lparr>sr_key = ''datasets.get_snapshot'', sr_method = ''GET'', sr_path = ''/v1/datasets/snapshots/{snapshot_id}'', sr_auth = ''any'',
         sr_scopes = [''training:read''], sr_idempotent = True\<rparr>]\<rparr>"

definition sdk_resource_client_tenant_datasets :: SdkResource where
  "sdk_resource_client_tenant_datasets =
     \<lparr>sx_id = ''client-tenant-datasets'', sx_path = ''client.tenant.datasets'', sx_title = ''datasets'',
      sx_className = ''Datasets'', sx_asyncClass = Some ''AsyncDatasets'',
      sx_doc = ''Training data preparation. Scopes: `training:write` / `training:read`.'',
      sx_ctor = None,
      sx_contextManager = None,
      sx_methods =
        [sdk_client_tenant_datasets_upload, sdk_client_tenant_datasets_create_snapshot,
         sdk_client_tenant_datasets_list_snapshots, sdk_client_tenant_datasets_get_snapshot]\<rparr>"

definition sdk_client_tenant_model_versions_create :: SdkMethod where
  "sdk_client_tenant_model_versions_create =
     \<lparr>sm_name = ''create'', sm_call = ''client.tenant.model_versions.create'',
      sm_signature = ''client.tenant.model_versions.create('' @ [CHR 0x0A] @ ''    *,'' @ [CHR 0x0A] @ ''    version_tag: str,'' @ [CHR 0x0A] @ ''    model_type: str = '' @ [CHR 0x27] @ ''dgsr'' @ [CHR 0x27] @ '','' @ [CHR 0x0A] @ ''    metrics: Optional[Mapping[str, Any]] = None,'' @ [CHR 0x0A] @ ''    artifact_uri: Optional[str] = None,'' @ [CHR 0x0A] @ '') -> ModelVersion'',
      sm_doc = ''Register an externally trained version (`POST /v1/model-versions`).'' @ [CHR 0x0A, CHR 0x0A] @ ''Raises `DuplicateResourceError` if the tag exists.'',
      sm_params =
        [\<lparr>sq_name = ''version_tag'', sq_type = ''str'', sq_default = None, sq_required = True, sq_kind = ''keyword'', sq_description = None\<rparr>,
         \<lparr>sq_name = ''model_type'', sq_type = ''str'', sq_default = Some ([CHR 0x27] @ ''dgsr'' @ [CHR 0x27]), sq_required = False, sq_kind = ''keyword'', sq_description = None\<rparr>,
         \<lparr>sq_name = ''metrics'', sq_type = ''Optional[Mapping[str, Any]]'', sq_default = Some ''None'', sq_required = False, sq_kind = ''keyword'', sq_description = None\<rparr>,
         \<lparr>sq_name = ''artifact_uri'', sq_type = ''Optional[str]'', sq_default = Some ''None'', sq_required = False, sq_kind = ''keyword'', sq_description = None\<rparr>],
      sm_returns = ''ModelVersion'',
      sm_routes =
        [\<lparr>sr_key = ''model_versions.create'', sr_method = ''POST'', sr_path = ''/v1/model-versions'', sr_auth = ''any'',
         sr_scopes = [''models:write''], sr_idempotent = False\<rparr>]\<rparr>"

definition sdk_client_tenant_model_versions_list :: SdkMethod where
  "sdk_client_tenant_model_versions_list =
     \<lparr>sm_name = ''list'', sm_call = ''client.tenant.model_versions.list'',
      sm_signature = ''client.tenant.model_versions.list() -> ModelVersionList'',
      sm_doc = ''`GET /v1/model-versions`, newest first. `.active` gives the serving version.'',
      sm_params =
        [],
      sm_returns = ''ModelVersionList'',
      sm_routes =
        [\<lparr>sr_key = ''model_versions.list'', sr_method = ''GET'', sr_path = ''/v1/model-versions'', sr_auth = ''any'',
         sr_scopes = [''models:read''], sr_idempotent = True\<rparr>]\<rparr>"

definition sdk_client_tenant_model_versions_get :: SdkMethod where
  "sdk_client_tenant_model_versions_get =
     \<lparr>sm_name = ''get'', sm_call = ''client.tenant.model_versions.get'',
      sm_signature = ''client.tenant.model_versions.get(version_id: Union[str, UUID]) -> ModelVersion'',
      sm_doc = ''`GET /v1/model-versions/{version_id}`.'',
      sm_params =
        [\<lparr>sq_name = ''version_id'', sq_type = ''Union[str, UUID]'', sq_default = None, sq_required = True, sq_kind = ''positional'', sq_description = None\<rparr>],
      sm_returns = ''ModelVersion'',
      sm_routes =
        [\<lparr>sr_key = ''model_versions.get'', sr_method = ''GET'', sr_path = ''/v1/model-versions/{version_id}'', sr_auth = ''any'',
         sr_scopes = [''models:read''], sr_idempotent = True\<rparr>]\<rparr>"

definition sdk_client_tenant_model_versions_get_active :: SdkMethod where
  "sdk_client_tenant_model_versions_get_active =
     \<lparr>sm_name = ''get_active'', sm_call = ''client.tenant.model_versions.get_active'',
      sm_signature = ''client.tenant.model_versions.get_active() -> Optional[ModelVersion]'',
      sm_doc = ''The version currently serving recommendations, or `None`.'',
      sm_params =
        [],
      sm_returns = ''Optional[ModelVersion]'',
      sm_routes =
        [\<lparr>sr_key = ''model_versions.list'', sr_method = ''GET'', sr_path = ''/v1/model-versions'', sr_auth = ''any'',
         sr_scopes = [''models:read''], sr_idempotent = True\<rparr>]\<rparr>"

definition sdk_client_tenant_model_versions_activate :: SdkMethod where
  "sdk_client_tenant_model_versions_activate =
     \<lparr>sm_name = ''activate'', sm_call = ''client.tenant.model_versions.activate'',
      sm_signature = ''client.tenant.model_versions.activate('' @ [CHR 0x0A] @ ''    version_id: Union[str, UUID],'' @ [CHR 0x0A] @ ''    *,'' @ [CHR 0x0A] @ ''    reason: Optional[str] = None,'' @ [CHR 0x0A] @ '') -> ModelVersion'',
      sm_doc = ''Serve this version; the previous active one becomes `retired`.'' @ [CHR 0x0A, CHR 0x0A] @ ''`POST /v1/model-versions/{version_id}:activate`.'',
      sm_params =
        [\<lparr>sq_name = ''version_id'', sq_type = ''Union[str, UUID]'', sq_default = None, sq_required = True, sq_kind = ''positional'', sq_description = None\<rparr>,
         \<lparr>sq_name = ''reason'', sq_type = ''Optional[str]'', sq_default = Some ''None'', sq_required = False, sq_kind = ''keyword'', sq_description = None\<rparr>],
      sm_returns = ''ModelVersion'',
      sm_routes =
        [\<lparr>sr_key = ''model_versions.activate'', sr_method = ''POST'', sr_path = ''/v1/model-versions/{version_id}:activate'', sr_auth = ''any'',
         sr_scopes = [''models:deploy''], sr_idempotent = True\<rparr>]\<rparr>"

definition sdk_client_tenant_model_versions_archive :: SdkMethod where
  "sdk_client_tenant_model_versions_archive =
     \<lparr>sm_name = ''archive'', sm_call = ''client.tenant.model_versions.archive'',
      sm_signature = ''client.tenant.model_versions.archive('' @ [CHR 0x0A] @ ''    version_id: Union[str, UUID],'' @ [CHR 0x0A] @ ''    *,'' @ [CHR 0x0A] @ ''    reason: Optional[str] = None,'' @ [CHR 0x0A] @ '') -> ModelVersion'',
      sm_doc = ''Archive an inactive version and free its vector index.'' @ [CHR 0x0A, CHR 0x0A] @ ''`POST /v1/model-versions/{version_id}:archive`. Archiving the active'' @ [CHR 0x0A] @ ''version raises `StateConflictError`.'',
      sm_params =
        [\<lparr>sq_name = ''version_id'', sq_type = ''Union[str, UUID]'', sq_default = None, sq_required = True, sq_kind = ''positional'', sq_description = None\<rparr>,
         \<lparr>sq_name = ''reason'', sq_type = ''Optional[str]'', sq_default = Some ''None'', sq_required = False, sq_kind = ''keyword'', sq_description = None\<rparr>],
      sm_returns = ''ModelVersion'',
      sm_routes =
        [\<lparr>sr_key = ''model_versions.archive'', sr_method = ''POST'', sr_path = ''/v1/model-versions/{version_id}:archive'', sr_auth = ''any'',
         sr_scopes = [''models:write''], sr_idempotent = True\<rparr>]\<rparr>"

definition sdk_client_tenant_model_versions_rollback :: SdkMethod where
  "sdk_client_tenant_model_versions_rollback =
     \<lparr>sm_name = ''rollback'', sm_call = ''client.tenant.model_versions.rollback'',
      sm_signature = ''client.tenant.model_versions.rollback('' @ [CHR 0x0A] @ ''    version_id: Union[str, UUID],'' @ [CHR 0x0A] @ ''    *,'' @ [CHR 0x0A] @ ''    reason: Optional[str] = None,'' @ [CHR 0x0A] @ '') -> ModelVersion'',
      sm_doc = ''Re-activate a previously served version (`POST /v1/model-versions/{id}:rollback`).'',
      sm_params =
        [\<lparr>sq_name = ''version_id'', sq_type = ''Union[str, UUID]'', sq_default = None, sq_required = True, sq_kind = ''positional'', sq_description = None\<rparr>,
         \<lparr>sq_name = ''reason'', sq_type = ''Optional[str]'', sq_default = Some ''None'', sq_required = False, sq_kind = ''keyword'', sq_description = None\<rparr>],
      sm_returns = ''ModelVersion'',
      sm_routes =
        [\<lparr>sr_key = ''model_versions.rollback'', sr_method = ''POST'', sr_path = ''/v1/model-versions/{version_id}:rollback'', sr_auth = ''any'',
         sr_scopes = [''models:deploy''], sr_idempotent = True\<rparr>]\<rparr>"

definition sdk_resource_client_tenant_model_versions :: SdkResource where
  "sdk_resource_client_tenant_model_versions =
     \<lparr>sx_id = ''client-tenant-model_versions'', sx_path = ''client.tenant.model_versions'', sx_title = ''model_versions'',
      sx_className = ''ModelVersions'', sx_asyncClass = Some ''AsyncModelVersions'',
      sx_doc = ''Model registry. Scopes: `models:read` / `models:write` / `models:deploy`.'',
      sx_ctor = None,
      sx_contextManager = None,
      sx_methods =
        [sdk_client_tenant_model_versions_create, sdk_client_tenant_model_versions_list,
         sdk_client_tenant_model_versions_get, sdk_client_tenant_model_versions_get_active,
         sdk_client_tenant_model_versions_activate, sdk_client_tenant_model_versions_archive,
         sdk_client_tenant_model_versions_rollback]\<rparr>"

definition sdk_client_tenant_training_jobs_create :: SdkMethod where
  "sdk_client_tenant_training_jobs_create =
     \<lparr>sm_name = ''create'', sm_call = ''client.tenant.training_jobs.create'',
      sm_signature = ''client.tenant.training_jobs.create('' @ [CHR 0x0A] @ ''    *,'' @ [CHR 0x0A] @ ''    model_type: str = '' @ [CHR 0x27] @ ''dgsr'' @ [CHR 0x27] @ '','' @ [CHR 0x0A] @ ''    dataset_snapshot_id: Optional[Union[str, UUID]] = None,'' @ [CHR 0x0A] @ ''    configuration: Optional[Mapping[str, Any]] = None,'' @ [CHR 0x0A] @ ''    request_id: Optional[str] = None,'' @ [CHR 0x0A] @ '') -> TrainingJob'',
      sm_doc = ''Request training (`POST /v1/training-jobs`).'' @ [CHR 0x0A, CHR 0x0A] @ ''Pass `request_id` to retry an ambiguous response without creating'' @ [CHR 0x0A] @ ''another job. The accepted job runs in the background. Poll it until'' @ [CHR 0x0A] @ ''terminal; then activate its `model_version_id` with'' @ [CHR 0x0A] @ ''`client.tenant.model_versions.activate(...)` after reviewing its metrics.'',
      sm_params =
        [\<lparr>sq_name = ''model_type'', sq_type = ''str'', sq_default = Some ([CHR 0x27] @ ''dgsr'' @ [CHR 0x27]), sq_required = False, sq_kind = ''keyword'', sq_description = None\<rparr>,
         \<lparr>sq_name = ''dataset_snapshot_id'', sq_type = ''Optional[Union[str, UUID]]'', sq_default = Some ''None'', sq_required = False, sq_kind = ''keyword'', sq_description = None\<rparr>,
         \<lparr>sq_name = ''configuration'', sq_type = ''Optional[Mapping[str, Any]]'', sq_default = Some ''None'', sq_required = False, sq_kind = ''keyword'', sq_description = None\<rparr>,
         \<lparr>sq_name = ''request_id'', sq_type = ''Optional[str]'', sq_default = Some ''None'', sq_required = False, sq_kind = ''keyword'', sq_description = None\<rparr>],
      sm_returns = ''TrainingJob'',
      sm_routes =
        [\<lparr>sr_key = ''training_jobs.create'', sr_method = ''POST'', sr_path = ''/v1/training-jobs'', sr_auth = ''any'',
         sr_scopes = [''training:write''], sr_idempotent = False\<rparr>]\<rparr>"

definition sdk_client_tenant_training_jobs_list :: SdkMethod where
  "sdk_client_tenant_training_jobs_list =
     \<lparr>sm_name = ''list'', sm_call = ''client.tenant.training_jobs.list'',
      sm_signature = ''client.tenant.training_jobs.list() -> TrainingJobList'',
      sm_doc = ''`GET /v1/training-jobs`, newest first.'',
      sm_params =
        [],
      sm_returns = ''TrainingJobList'',
      sm_routes =
        [\<lparr>sr_key = ''training_jobs.list'', sr_method = ''GET'', sr_path = ''/v1/training-jobs'', sr_auth = ''any'',
         sr_scopes = [''training:read''], sr_idempotent = True\<rparr>]\<rparr>"

definition sdk_client_tenant_training_jobs_get :: SdkMethod where
  "sdk_client_tenant_training_jobs_get =
     \<lparr>sm_name = ''get'', sm_call = ''client.tenant.training_jobs.get'',
      sm_signature = ''client.tenant.training_jobs.get(job_id: Union[str, UUID]) -> TrainingJob'',
      sm_doc = [],
      sm_params =
        [\<lparr>sq_name = ''job_id'', sq_type = ''Union[str, UUID]'', sq_default = None, sq_required = True, sq_kind = ''positional'', sq_description = None\<rparr>],
      sm_returns = ''TrainingJob'',
      sm_routes =
        [\<lparr>sr_key = ''training_jobs.get'', sr_method = ''GET'', sr_path = ''/v1/training-jobs/{job_id}'', sr_auth = ''any'',
         sr_scopes = [''training:read''], sr_idempotent = True\<rparr>]\<rparr>"

definition sdk_client_tenant_training_jobs_cancel :: SdkMethod where
  "sdk_client_tenant_training_jobs_cancel =
     \<lparr>sm_name = ''cancel'', sm_call = ''client.tenant.training_jobs.cancel'',
      sm_signature = ''client.tenant.training_jobs.cancel('' @ [CHR 0x0A] @ ''    job_id: Union[str, UUID],'' @ [CHR 0x0A] @ ''    *,'' @ [CHR 0x0A] @ ''    reason: Optional[str] = None,'' @ [CHR 0x0A] @ '') -> TrainingJob'',
      sm_doc = [],
      sm_params =
        [\<lparr>sq_name = ''job_id'', sq_type = ''Union[str, UUID]'', sq_default = None, sq_required = True, sq_kind = ''positional'', sq_description = None\<rparr>,
         \<lparr>sq_name = ''reason'', sq_type = ''Optional[str]'', sq_default = Some ''None'', sq_required = False, sq_kind = ''keyword'', sq_description = None\<rparr>],
      sm_returns = ''TrainingJob'',
      sm_routes =
        [\<lparr>sr_key = ''training_jobs.cancel'', sr_method = ''POST'', sr_path = ''/v1/training-jobs/{job_id}:cancel'', sr_auth = ''any'',
         sr_scopes = [''training:write''], sr_idempotent = True\<rparr>]\<rparr>"

definition sdk_client_tenant_training_jobs_find :: SdkMethod where
  "sdk_client_tenant_training_jobs_find =
     \<lparr>sm_name = ''find'', sm_call = ''client.tenant.training_jobs.find'',
      sm_signature = ''client.tenant.training_jobs.find(job_id: Union[str, UUID]) -> Optional[TrainingJob]'',
      sm_doc = ''Like `get`, but returns `None` instead of raising for an unknown job.'',
      sm_params =
        [\<lparr>sq_name = ''job_id'', sq_type = ''Union[str, UUID]'', sq_default = None, sq_required = True, sq_kind = ''positional'', sq_description = None\<rparr>],
      sm_returns = ''Optional[TrainingJob]'',
      sm_routes =
        [\<lparr>sr_key = ''training_jobs.get'', sr_method = ''GET'', sr_path = ''/v1/training-jobs/{job_id}'', sr_auth = ''any'',
         sr_scopes = [''training:read''], sr_idempotent = True\<rparr>]\<rparr>"

definition sdk_client_tenant_training_jobs_wait :: SdkMethod where
  "sdk_client_tenant_training_jobs_wait =
     \<lparr>sm_name = ''wait'', sm_call = ''client.tenant.training_jobs.wait'',
      sm_signature = ''client.tenant.training_jobs.wait('' @ [CHR 0x0A] @ ''    job_id: Union[str, UUID],'' @ [CHR 0x0A] @ ''    *,'' @ [CHR 0x0A] @ ''    timeout: float = 900.0,'' @ [CHR 0x0A] @ ''    poll_interval: float = 5.0,'' @ [CHR 0x0A] @ '') -> TrainingJob'',
      sm_doc = ''Poll until the job reaches `succeeded`, `failed` or `cancelled`.'' @ [CHR 0x0A, CHR 0x0A] @ ''Raises `WaitTimeoutError` after `timeout` seconds.'',
      sm_params =
        [\<lparr>sq_name = ''job_id'', sq_type = ''Union[str, UUID]'', sq_default = None, sq_required = True, sq_kind = ''positional'', sq_description = None\<rparr>,
         \<lparr>sq_name = ''timeout'', sq_type = ''float'', sq_default = Some ''900.0'', sq_required = False, sq_kind = ''keyword'', sq_description = None\<rparr>,
         \<lparr>sq_name = ''poll_interval'', sq_type = ''float'', sq_default = Some ''5.0'', sq_required = False, sq_kind = ''keyword'', sq_description = None\<rparr>],
      sm_returns = ''TrainingJob'',
      sm_routes =
        []\<rparr>"

definition sdk_resource_client_tenant_training_jobs :: SdkResource where
  "sdk_resource_client_tenant_training_jobs =
     \<lparr>sx_id = ''client-tenant-training_jobs'', sx_path = ''client.tenant.training_jobs'', sx_title = ''training_jobs'',
      sx_className = ''TrainingJobs'', sx_asyncClass = Some ''AsyncTrainingJobs'',
      sx_doc = ''DGSR training requests. Scopes: `training:write` / `training:read`.'',
      sx_ctor = None,
      sx_contextManager = None,
      sx_methods =
        [sdk_client_tenant_training_jobs_create, sdk_client_tenant_training_jobs_list,
         sdk_client_tenant_training_jobs_get, sdk_client_tenant_training_jobs_cancel,
         sdk_client_tenant_training_jobs_find, sdk_client_tenant_training_jobs_wait]\<rparr>"

definition sdk_client_tenant_retraining_policy_get :: SdkMethod where
  "sdk_client_tenant_retraining_policy_get =
     \<lparr>sm_name = ''get'', sm_call = ''client.tenant.retraining_policy.get'',
      sm_signature = ''client.tenant.retraining_policy.get() -> RetrainingPolicy'',
      sm_doc = ''Policy plus the evaluator'' @ [CHR 0x27] @ ''s last outcome.'' @ [CHR 0x0A, CHR 0x0A] @ ''`GET /v1/retraining-policy` - scope `training:read`.'',
      sm_params =
        [],
      sm_returns = ''RetrainingPolicy'',
      sm_routes =
        [\<lparr>sr_key = ''retraining_policy.get'', sr_method = ''GET'', sr_path = ''/v1/retraining-policy'', sr_auth = ''any'',
         sr_scopes = [''training:read''], sr_idempotent = True\<rparr>]\<rparr>"

definition sdk_client_tenant_retraining_policy_update :: SdkMethod where
  "sdk_client_tenant_retraining_policy_update =
     \<lparr>sm_name = ''update'', sm_call = ''client.tenant.retraining_policy.update'',
      sm_signature = ''client.tenant.retraining_policy.update('' @ [CHR 0x0A] @ ''    policy: Optional[RetrainingPolicyLike] = None,'' @ [CHR 0x0A] @ ''    *,'' @ [CHR 0x0A] @ ''    schedule_enabled: Optional[bool] = None,'' @ [CHR 0x0A] @ ''    interval_minutes: Optional[int] = None,'' @ [CHR 0x0A] @ ''    event_trigger_enabled: Optional[bool] = None,'' @ [CHR 0x0A] @ ''    event_threshold: Optional[int] = None,'' @ [CHR 0x0A] @ ''    epochs: Optional[int] = None,'' @ [CHR 0x0A] @ '') -> RetrainingPolicy'',
      sm_doc = ''Replace the retraining policy. `PUT /v1/retraining-policy` - scope `training:write`.'' @ [CHR 0x0A, CHR 0x0A] @ ''Full replacement: omitted fields take the server defaults, so pass the'' @ [CHR 0x0A] @ ''result of `get` as `policy` to change single fields. The server may'' @ [CHR 0x0A] @ ''refuse an interval below `minimum_interval_minutes` with a 422.'',
      sm_params =
        [\<lparr>sq_name = ''policy'', sq_type = ''Optional[RetrainingPolicyLike]'', sq_default = Some ''None'', sq_required = False, sq_kind = ''positional'', sq_description = None\<rparr>,
         \<lparr>sq_name = ''schedule_enabled'', sq_type = ''Optional[bool]'', sq_default = Some ''None'', sq_required = False, sq_kind = ''keyword'', sq_description = None\<rparr>,
         \<lparr>sq_name = ''interval_minutes'', sq_type = ''Optional[int]'', sq_default = Some ''None'', sq_required = False, sq_kind = ''keyword'', sq_description = None\<rparr>,
         \<lparr>sq_name = ''event_trigger_enabled'', sq_type = ''Optional[bool]'', sq_default = Some ''None'', sq_required = False, sq_kind = ''keyword'', sq_description = None\<rparr>,
         \<lparr>sq_name = ''event_threshold'', sq_type = ''Optional[int]'', sq_default = Some ''None'', sq_required = False, sq_kind = ''keyword'', sq_description = None\<rparr>,
         \<lparr>sq_name = ''epochs'', sq_type = ''Optional[int]'', sq_default = Some ''None'', sq_required = False, sq_kind = ''keyword'', sq_description = None\<rparr>],
      sm_returns = ''RetrainingPolicy'',
      sm_routes =
        [\<lparr>sr_key = ''retraining_policy.update'', sr_method = ''PUT'', sr_path = ''/v1/retraining-policy'', sr_auth = ''any'',
         sr_scopes = [''training:write''], sr_idempotent = True\<rparr>]\<rparr>"

definition sdk_resource_client_tenant_retraining_policy :: SdkResource where
  "sdk_resource_client_tenant_retraining_policy =
     \<lparr>sx_id = ''client-tenant-retraining_policy'', sx_path = ''client.tenant.retraining_policy'', sx_title = ''retraining_policy'',
      sx_className = ''RetrainingPolicyResource'', sx_asyncClass = Some ''AsyncRetrainingPolicyResource'',
      sx_doc = ''Scheduled and event-triggered retraining (`/v1/retraining-policy`).'',
      sx_ctor = None,
      sx_contextManager = None,
      sx_methods =
        [sdk_client_tenant_retraining_policy_get, sdk_client_tenant_retraining_policy_update]\<rparr>"

definition sdk_client_tenant_recommendation_policy_get :: SdkMethod where
  "sdk_client_tenant_recommendation_policy_get =
     \<lparr>sm_name = ''get'', sm_call = ''client.tenant.recommendation_policy.get'',
      sm_signature = ''client.tenant.recommendation_policy.get() -> RecommendationPolicy'',
      sm_doc = ''The tenant'' @ [CHR 0x27] @ ''s re-ranking rules.'' @ [CHR 0x0A, CHR 0x0A] @ ''`GET /v1/recommendation-policy` - scope `models:read`.'',
      sm_params =
        [],
      sm_returns = ''RecommendationPolicy'',
      sm_routes =
        [\<lparr>sr_key = ''recommendation_policy.get'', sr_method = ''GET'', sr_path = ''/v1/recommendation-policy'', sr_auth = ''any'',
         sr_scopes = [''models:read''], sr_idempotent = True\<rparr>]\<rparr>"

definition sdk_client_tenant_recommendation_policy_update :: SdkMethod where
  "sdk_client_tenant_recommendation_policy_update =
     \<lparr>sm_name = ''update'', sm_call = ''client.tenant.recommendation_policy.update'',
      sm_signature = ''client.tenant.recommendation_policy.update('' @ [CHR 0x0A] @ ''    policy: Optional[RecommendationPolicyLike] = None,'' @ [CHR 0x0A] @ ''    *,'' @ [CHR 0x0A] @ ''    diversity_enabled: Optional[bool] = None,'' @ [CHR 0x0A] @ ''    max_per_category: Optional[int] = None,'' @ [CHR 0x0A] @ ''    freshness_enabled: Optional[bool] = None,'' @ [CHR 0x0A] @ ''    freshness_weight: Optional[float] = None,'' @ [CHR 0x0A] @ ''    freshness_half_life_days: Optional[int] = None,'' @ [CHR 0x0A] @ '') -> RecommendationPolicy'',
      sm_doc = ''Replace the re-ranking rules.'' @ [CHR 0x0A, CHR 0x0A] @ ''`PUT /v1/recommendation-policy` - scope `models:deploy`.'' @ [CHR 0x0A, CHR 0x0A] @ ''This is a full replacement: fields you leave out take the server defaults,'' @ [CHR 0x0A] @ ''not their current values. Start from `get` to change one field::'' @ [CHR 0x0A, CHR 0x0A] @ ''    current = client.tenant.recommendation_policy.get()'' @ [CHR 0x0A] @ ''    client.tenant.recommendation_policy.update(current, max_per_category=2)'',
      sm_params =
        [\<lparr>sq_name = ''policy'', sq_type = ''Optional[RecommendationPolicyLike]'', sq_default = Some ''None'', sq_required = False, sq_kind = ''positional'', sq_description = None\<rparr>,
         \<lparr>sq_name = ''diversity_enabled'', sq_type = ''Optional[bool]'', sq_default = Some ''None'', sq_required = False, sq_kind = ''keyword'', sq_description = None\<rparr>,
         \<lparr>sq_name = ''max_per_category'', sq_type = ''Optional[int]'', sq_default = Some ''None'', sq_required = False, sq_kind = ''keyword'', sq_description = None\<rparr>,
         \<lparr>sq_name = ''freshness_enabled'', sq_type = ''Optional[bool]'', sq_default = Some ''None'', sq_required = False, sq_kind = ''keyword'', sq_description = None\<rparr>,
         \<lparr>sq_name = ''freshness_weight'', sq_type = ''Optional[float]'', sq_default = Some ''None'', sq_required = False, sq_kind = ''keyword'', sq_description = None\<rparr>,
         \<lparr>sq_name = ''freshness_half_life_days'', sq_type = ''Optional[int]'', sq_default = Some ''None'', sq_required = False, sq_kind = ''keyword'', sq_description = None\<rparr>],
      sm_returns = ''RecommendationPolicy'',
      sm_routes =
        [\<lparr>sr_key = ''recommendation_policy.update'', sr_method = ''PUT'', sr_path = ''/v1/recommendation-policy'', sr_auth = ''any'',
         sr_scopes = [''models:deploy''], sr_idempotent = True\<rparr>]\<rparr>"

definition sdk_resource_client_tenant_recommendation_policy :: SdkResource where
  "sdk_resource_client_tenant_recommendation_policy =
     \<lparr>sx_id = ''client-tenant-recommendation_policy'', sx_path = ''client.tenant.recommendation_policy'', sx_title = ''recommendation_policy'',
      sx_className = ''RecommendationPolicyResource'', sx_asyncClass = Some ''AsyncRecommendationPolicyResource'',
      sx_doc = ''Diversity and freshness re-ranking rules (`/v1/recommendation-policy`).'',
      sx_ctor = None,
      sx_contextManager = None,
      sx_methods =
        [sdk_client_tenant_recommendation_policy_get, sdk_client_tenant_recommendation_policy_update]\<rparr>"

definition sdk_client_tenant_deployment_get :: SdkMethod where
  "sdk_client_tenant_deployment_get =
     \<lparr>sm_name = ''get'', sm_call = ''client.tenant.deployment.get'',
      sm_signature = ''client.tenant.deployment.get() -> DeploymentStatus'',
      sm_doc = ''`GET /v1/deployment`.'',
      sm_params =
        [],
      sm_returns = ''DeploymentStatus'',
      sm_routes =
        [\<lparr>sr_key = ''deployment.get'', sr_method = ''GET'', sr_path = ''/v1/deployment'', sr_auth = ''any'',
         sr_scopes = [''deployments:read''], sr_idempotent = True\<rparr>]\<rparr>"

definition sdk_client_tenant_deployment_scaling :: SdkMethod where
  "sdk_client_tenant_deployment_scaling =
     \<lparr>sm_name = ''scaling'', sm_call = ''client.tenant.deployment.scaling'',
      sm_signature = ''client.tenant.deployment.scaling(*, limit: int = 20) -> ScalingStatus'',
      sm_doc = ''Capacity policy, live demand and the `limit` most recent scaling events.'' @ [CHR 0x0A, CHR 0x0A] @ ''`GET /v1/deployment/scaling` - scope `deployments:read`.'',
      sm_params =
        [\<lparr>sq_name = ''limit'', sq_type = ''int'', sq_default = Some ''20'', sq_required = False, sq_kind = ''keyword'', sq_description = None\<rparr>],
      sm_returns = ''ScalingStatus'',
      sm_routes =
        [\<lparr>sr_key = ''deployment.scaling'', sr_method = ''GET'', sr_path = ''/v1/deployment/scaling'', sr_auth = ''any'',
         sr_scopes = [''deployments:read''], sr_idempotent = True\<rparr>]\<rparr>"

definition sdk_resource_client_tenant_deployment :: SdkResource where
  "sdk_resource_client_tenant_deployment =
     \<lparr>sx_id = ''client-tenant-deployment'', sx_path = ''client.tenant.deployment'', sx_title = ''deployment'',
      sx_className = ''Deployment'', sx_asyncClass = Some ''AsyncDeployment'',
      sx_doc = ''Recommendation-serving status. Scope: `deployments:read`.'',
      sx_ctor = None,
      sx_contextManager = None,
      sx_methods =
        [sdk_client_tenant_deployment_get, sdk_client_tenant_deployment_scaling]\<rparr>"

definition sdk_client_tenant_metrics_summary :: SdkMethod where
  "sdk_client_tenant_metrics_summary =
     \<lparr>sm_name = ''summary'', sm_call = ''client.tenant.metrics.summary'',
      sm_signature = ''client.tenant.metrics.summary(*, window_minutes: Optional[int] = None) -> MetricsSummary'',
      sm_doc = ''Request rate, error and fallback rates, p95 latency and offline quality.'' @ [CHR 0x0A, CHR 0x0A] @ ''Measured over the last `window_minutes` (the API defaults to 60).'' @ [CHR 0x0A] @ ''`GET /v1/metrics/summary`.'',
      sm_params =
        [\<lparr>sq_name = ''window_minutes'', sq_type = ''Optional[int]'', sq_default = Some ''None'', sq_required = False, sq_kind = ''keyword'', sq_description = None\<rparr>],
      sm_returns = ''MetricsSummary'',
      sm_routes =
        [\<lparr>sr_key = ''metrics.summary'', sr_method = ''GET'', sr_path = ''/v1/metrics/summary'', sr_auth = ''any'',
         sr_scopes = [''metrics:read''], sr_idempotent = True\<rparr>]\<rparr>"

definition sdk_resource_client_tenant_metrics :: SdkResource where
  "sdk_resource_client_tenant_metrics =
     \<lparr>sx_id = ''client-tenant-metrics'', sx_path = ''client.tenant.metrics'', sx_title = ''metrics'',
      sx_className = ''Metrics'', sx_asyncClass = Some ''AsyncMetrics'',
      sx_doc = ''Measured serving metrics. Scope: `metrics:read`.'',
      sx_ctor = None,
      sx_contextManager = None,
      sx_methods =
        [sdk_client_tenant_metrics_summary]\<rparr>"

definition sdk_client_tenant_account_status :: SdkMethod where
  "sdk_client_tenant_account_status =
     \<lparr>sm_name = ''status'', sm_call = ''client.tenant.account.status'',
      sm_signature = ''client.tenant.account.status() -> TenantStatus'',
      sm_doc = ''The workspace'' @ [CHR 0x27] @ ''s status; the only call a suspended workspace'' @ [CHR 0x27] @ ''s members may make.'',
      sm_params =
        [],
      sm_returns = ''TenantStatus'',
      sm_routes =
        [\<lparr>sr_key = ''account.status'', sr_method = ''GET'', sr_path = ''/v1/tenant/status'', sr_auth = ''bearer'',
         sr_scopes = [], sr_idempotent = True\<rparr>]\<rparr>"

definition sdk_resource_client_tenant_account :: SdkResource where
  "sdk_resource_client_tenant_account =
     \<lparr>sx_id = ''client-tenant-account'', sx_path = ''client.tenant.account'', sx_title = ''account'',
      sx_className = ''Account'', sx_asyncClass = Some ''AsyncAccount'',
      sx_doc = [],
      sx_ctor = None,
      sx_contextManager = None,
      sx_methods =
        [sdk_client_tenant_account_status]\<rparr>"

definition sdk_client_tenant_audit_list :: SdkMethod where
  "sdk_client_tenant_audit_list =
     \<lparr>sm_name = ''list'', sm_call = ''client.tenant.audit.list'',
      sm_signature = ''client.tenant.audit.list('' @ [CHR 0x0A] @ ''    *,'' @ [CHR 0x0A] @ ''    action: Optional[str] = None,'' @ [CHR 0x0A] @ ''    outcome: Optional[str] = None,'' @ [CHR 0x0A] @ ''    since: Optional[datetime] = None,'' @ [CHR 0x0A] @ ''    until: Optional[datetime] = None,'' @ [CHR 0x0A] @ ''    before: Optional[datetime] = None,'' @ [CHR 0x0A] @ ''    limit: int = 50,'' @ [CHR 0x0A] @ '') -> TenantAuditList'',
      sm_doc = [],
      sm_params =
        [\<lparr>sq_name = ''action'', sq_type = ''Optional[str]'', sq_default = Some ''None'', sq_required = False, sq_kind = ''keyword'', sq_description = None\<rparr>,
         \<lparr>sq_name = ''outcome'', sq_type = ''Optional[str]'', sq_default = Some ''None'', sq_required = False, sq_kind = ''keyword'', sq_description = None\<rparr>,
         \<lparr>sq_name = ''since'', sq_type = ''Optional[datetime]'', sq_default = Some ''None'', sq_required = False, sq_kind = ''keyword'', sq_description = None\<rparr>,
         \<lparr>sq_name = ''until'', sq_type = ''Optional[datetime]'', sq_default = Some ''None'', sq_required = False, sq_kind = ''keyword'', sq_description = None\<rparr>,
         \<lparr>sq_name = ''before'', sq_type = ''Optional[datetime]'', sq_default = Some ''None'', sq_required = False, sq_kind = ''keyword'', sq_description = None\<rparr>,
         \<lparr>sq_name = ''limit'', sq_type = ''int'', sq_default = Some ''50'', sq_required = False, sq_kind = ''keyword'', sq_description = None\<rparr>],
      sm_returns = ''TenantAuditList'',
      sm_routes =
        [\<lparr>sr_key = ''audit.list'', sr_method = ''GET'', sr_path = ''/v1/audit'', sr_auth = ''bearer'',
         sr_scopes = [''audit:read''], sr_idempotent = True\<rparr>]\<rparr>"

definition sdk_resource_client_tenant_audit :: SdkResource where
  "sdk_resource_client_tenant_audit =
     \<lparr>sx_id = ''client-tenant-audit'', sx_path = ''client.tenant.audit'', sx_title = ''audit'',
      sx_className = ''TenantAudit'', sx_asyncClass = Some ''AsyncTenantAudit'',
      sx_doc = ''UC-31: this tenant'' @ [CHR 0x27] @ ''s own audit trail (`GET /v1/audit`, scope `audit:read`).'',
      sx_ctor = None,
      sx_contextManager = None,
      sx_methods =
        [sdk_client_tenant_audit_list]\<rparr>"

end
