(* ===== verification/SdkPlatform.thy ===== *)
theory SdkPlatform
  imports SdkTables
begin

text \<open>
  The rest of \<open>web/src/docs/sdkData.ts\<close>: what operators and shops use, the errors, enumerations and bundles of scopes,
  and the reference the page and the search of the documentation read.
\<close>

section \<open>Namespace platform\<close>

definition sdk_client_platform_status :: SdkMethod where
  "sdk_client_platform_status =
     \<lparr>sm_name = ''status'', sm_call = ''client.platform.status'',
      sm_signature = ''client.platform.status() -> PlatformStatus'',
      sm_doc = ''Shared service health (`GET /v1/platform/status`).'',
      sm_params =
        [],
      sm_returns = ''PlatformStatus'',
      sm_routes =
        [\<lparr>sr_key = ''platform.status'', sr_method = ''GET'', sr_path = ''/v1/platform/status'', sr_auth = ''bearer'',
         sr_scopes = [''platform:admin''], sr_idempotent = True\<rparr>]\<rparr>"

definition sdk_client_platform_list_usage :: SdkMethod where
  "sdk_client_platform_list_usage =
     \<lparr>sm_name = ''list_usage'', sm_call = ''client.platform.list_usage'',
      sm_signature = ''client.platform.list_usage() -> PlatformUsageList'',
      sm_doc = ''UC-29: every tenant'' @ [CHR 0x27] @ ''s usage against its limits (`GET /v1/platform/usage`).'',
      sm_params =
        [],
      sm_returns = ''PlatformUsageList'',
      sm_routes =
        [\<lparr>sr_key = ''platform.list_usage'', sr_method = ''GET'', sr_path = ''/v1/platform/usage'', sr_auth = ''bearer'',
         sr_scopes = [''platform:admin''], sr_idempotent = True\<rparr>]\<rparr>"

definition sdk_client_platform_list_failures :: SdkMethod where
  "sdk_client_platform_list_failures =
     \<lparr>sm_name = ''list_failures'', sm_call = ''client.platform.list_failures'',
      sm_signature = ''client.platform.list_failures() -> PlatformFailureList'',
      sm_doc = ''The 50 latest security/failure events (`GET /v1/platform/failures`).'',
      sm_params =
        [],
      sm_returns = ''PlatformFailureList'',
      sm_routes =
        [\<lparr>sr_key = ''platform.list_failures'', sr_method = ''GET'', sr_path = ''/v1/platform/failures'', sr_auth = ''bearer'',
         sr_scopes = [''platform:admin''], sr_idempotent = True\<rparr>]\<rparr>"

definition sdk_client_platform_list_audit_logs :: SdkMethod where
  "sdk_client_platform_list_audit_logs =
     \<lparr>sm_name = ''list_audit_logs'', sm_call = ''client.platform.list_audit_logs'',
      sm_signature = ''client.platform.list_audit_logs('' @ [CHR 0x0A] @ ''    *,'' @ [CHR 0x0A] @ ''    tenant_id: Optional[Id] = None,'' @ [CHR 0x0A] @ ''    action: Optional[str] = None,'' @ [CHR 0x0A] @ ''    outcome: Optional[str] = None,'' @ [CHR 0x0A] @ ''    since: Optional[datetime] = None,'' @ [CHR 0x0A] @ ''    until: Optional[datetime] = None,'' @ [CHR 0x0A] @ ''    before: Optional[datetime] = None,'' @ [CHR 0x0A] @ ''    limit: int = 50,'' @ [CHR 0x0A] @ '') -> AuditRecordList'',
      sm_doc = ''Audit records across tenants, newest first (`GET /v1/platform/audit`).'' @ [CHR 0x0A, CHR 0x0A] @ ''Filter by tenant, action, outcome or time range; page with `before=result.next_before`.'',
      sm_params =
        [\<lparr>sq_name = ''tenant_id'', sq_type = ''Optional[Id]'', sq_default = Some ''None'', sq_required = False, sq_kind = ''keyword'', sq_description = None\<rparr>,
         \<lparr>sq_name = ''action'', sq_type = ''Optional[str]'', sq_default = Some ''None'', sq_required = False, sq_kind = ''keyword'', sq_description = None\<rparr>,
         \<lparr>sq_name = ''outcome'', sq_type = ''Optional[str]'', sq_default = Some ''None'', sq_required = False, sq_kind = ''keyword'', sq_description = None\<rparr>,
         \<lparr>sq_name = ''since'', sq_type = ''Optional[datetime]'', sq_default = Some ''None'', sq_required = False, sq_kind = ''keyword'', sq_description = None\<rparr>,
         \<lparr>sq_name = ''until'', sq_type = ''Optional[datetime]'', sq_default = Some ''None'', sq_required = False, sq_kind = ''keyword'', sq_description = None\<rparr>,
         \<lparr>sq_name = ''before'', sq_type = ''Optional[datetime]'', sq_default = Some ''None'', sq_required = False, sq_kind = ''keyword'', sq_description = None\<rparr>,
         \<lparr>sq_name = ''limit'', sq_type = ''int'', sq_default = Some ''50'', sq_required = False, sq_kind = ''keyword'', sq_description = None\<rparr>],
      sm_returns = ''AuditRecordList'',
      sm_routes =
        [\<lparr>sr_key = ''platform.list_audit_logs'', sr_method = ''GET'', sr_path = ''/v1/platform/audit'', sr_auth = ''bearer'',
         sr_scopes = [''platform:admin''], sr_idempotent = True\<rparr>]\<rparr>"

definition sdk_resource_client_platform :: SdkResource where
  "sdk_resource_client_platform =
     \<lparr>sx_id = ''client-platform'', sx_path = ''client.platform'', sx_title = ''platform (operations)'',
      sx_className = ''PlatformOperations'', sx_asyncClass = Some ''AsyncPlatformOperations'',
      sx_doc = ''Cross-tenant operations: `tenants`, `plans`, `plan_requests` plus `status()`,'' @ [CHR 0x0A] @ ''`list_failures()` and `list_audit_logs()`.'',
      sx_ctor = None,
      sx_contextManager = None,
      sx_methods =
        [sdk_client_platform_status, sdk_client_platform_list_usage, sdk_client_platform_list_failures,
         sdk_client_platform_list_audit_logs]\<rparr>"

definition sdk_client_platform_tenants_list :: SdkMethod where
  "sdk_client_platform_tenants_list =
     \<lparr>sm_name = ''list'', sm_call = ''client.platform.tenants.list'',
      sm_signature = ''client.platform.tenants.list() -> PlatformTenantList'',
      sm_doc = ''Every tenant with its status. `GET /v1/platform/tenants`.'',
      sm_params =
        [],
      sm_returns = ''PlatformTenantList'',
      sm_routes =
        [\<lparr>sr_key = ''platform.list_tenants'', sr_method = ''GET'', sr_path = ''/v1/platform/tenants'', sr_auth = ''bearer'',
         sr_scopes = [''platform:admin''], sr_idempotent = True\<rparr>]\<rparr>"

definition sdk_client_platform_tenants_get :: SdkMethod where
  "sdk_client_platform_tenants_get =
     \<lparr>sm_name = ''get'', sm_call = ''client.platform.tenants.get'',
      sm_signature = ''client.platform.tenants.get(tenant_id: Id) -> PlatformTenant'',
      sm_doc = ''`GET /v1/platform/tenants/{tenant_id}`. Raises `NotFoundError`.'',
      sm_params =
        [\<lparr>sq_name = ''tenant_id'', sq_type = ''Id'', sq_default = None, sq_required = True, sq_kind = ''positional'', sq_description = None\<rparr>],
      sm_returns = ''PlatformTenant'',
      sm_routes =
        [\<lparr>sr_key = ''platform.get_tenant'', sr_method = ''GET'', sr_path = ''/v1/platform/tenants/{tenant_id}'', sr_auth = ''bearer'',
         sr_scopes = [''platform:admin''], sr_idempotent = True\<rparr>]\<rparr>"

definition sdk_client_platform_tenants_set_status :: SdkMethod where
  "sdk_client_platform_tenants_set_status =
     \<lparr>sm_name = ''set_status'', sm_call = ''client.platform.tenants.set_status'',
      sm_signature = ''client.platform.tenants.set_status('' @ [CHR 0x0A] @ ''    tenant_id: Id,'' @ [CHR 0x0A] @ ''    status: StatusLike,'' @ [CHR 0x0A] @ ''    *,'' @ [CHR 0x0A] @ ''    reason: str,'' @ [CHR 0x0A] @ '') -> PlatformTenant'',
      sm_doc = ''Change a tenant'' @ [CHR 0x27] @ ''s lifecycle status (see `TenantStatus`).'' @ [CHR 0x0A, CHR 0x0A] @ ''`POST /v1/platform/tenants/{tenant_id}/status`. The change is audited.'',
      sm_params =
        [\<lparr>sq_name = ''tenant_id'', sq_type = ''Id'', sq_default = None, sq_required = True, sq_kind = ''positional'', sq_description = None\<rparr>,
         \<lparr>sq_name = ''status'', sq_type = ''StatusLike'', sq_default = None, sq_required = True, sq_kind = ''positional'', sq_description = None\<rparr>,
         \<lparr>sq_name = ''reason'', sq_type = ''str'', sq_default = None, sq_required = True, sq_kind = ''keyword'', sq_description = None\<rparr>],
      sm_returns = ''PlatformTenant'',
      sm_routes =
        [\<lparr>sr_key = ''platform.set_tenant_status'', sr_method = ''POST'', sr_path = ''/v1/platform/tenants/{tenant_id}/status'', sr_auth = ''bearer'',
         sr_scopes = [''platform:admin''], sr_idempotent = True\<rparr>]\<rparr>"

definition sdk_client_platform_tenants_get_quota :: SdkMethod where
  "sdk_client_platform_tenants_get_quota =
     \<lparr>sm_name = ''get_quota'', sm_call = ''client.platform.tenants.get_quota'',
      sm_signature = ''client.platform.tenants.get_quota(tenant_id: Id) -> TenantQuota'',
      sm_doc = ''Plan, overrides and effective limits. `GET /v1/platform/tenants/{tenant_id}/quotas`.'',
      sm_params =
        [\<lparr>sq_name = ''tenant_id'', sq_type = ''Id'', sq_default = None, sq_required = True, sq_kind = ''positional'', sq_description = None\<rparr>],
      sm_returns = ''TenantQuota'',
      sm_routes =
        [\<lparr>sr_key = ''platform.get_tenant_quota'', sr_method = ''GET'', sr_path = ''/v1/platform/tenants/{tenant_id}/quotas'', sr_auth = ''bearer'',
         sr_scopes = [''platform:admin''], sr_idempotent = True\<rparr>]\<rparr>"

definition sdk_client_platform_tenants_set_quota_override :: SdkMethod where
  "sdk_client_platform_tenants_set_quota_override =
     \<lparr>sm_name = ''set_quota_override'', sm_call = ''client.platform.tenants.set_quota_override'',
      sm_signature = ''client.platform.tenants.set_quota_override('' @ [CHR 0x0A] @ ''    tenant_id: Id,'' @ [CHR 0x0A] @ ''    *,'' @ [CHR 0x0A] @ ''    overrides: Mapping[str, int],'' @ [CHR 0x0A] @ ''    acknowledge_below_usage: bool = False,'' @ [CHR 0x0A] @ ''    reason: Optional[str] = None,'' @ [CHR 0x0A] @ '') -> QuotaOverride'',
      sm_doc = ''Replace a tenant'' @ [CHR 0x27] @ ''s quota overrides; returns effective limits and stored overrides.'' @ [CHR 0x0A, CHR 0x0A] @ ''`POST /v1/platform/tenants/{tenant_id}/quotas`, e.g.'' @ [CHR 0x0A] @ ''`overrides={'' @ [CHR 0x22] @ ''accepted_events'' @ [CHR 0x22] @ '': 1_000_000}`. Lowering an inventory limit'' @ [CHR 0x0A] @ ''below what the tenant stores raises `LimitBelowUsageError`'' @ [CHR 0x0A] @ ''unless `acknowledge_below_usage=True`; the result'' @ [CHR 0x27] @ ''s `warnings` then'' @ [CHR 0x0A] @ ''lists the exceeded limits. The change is audited.'',
      sm_params =
        [\<lparr>sq_name = ''tenant_id'', sq_type = ''Id'', sq_default = None, sq_required = True, sq_kind = ''positional'', sq_description = None\<rparr>,
         \<lparr>sq_name = ''overrides'', sq_type = ''Mapping[str, int]'', sq_default = None, sq_required = True, sq_kind = ''keyword'', sq_description = None\<rparr>,
         \<lparr>sq_name = ''acknowledge_below_usage'', sq_type = ''bool'', sq_default = Some ''False'', sq_required = False, sq_kind = ''keyword'', sq_description = None\<rparr>,
         \<lparr>sq_name = ''reason'', sq_type = ''Optional[str]'', sq_default = Some ''None'', sq_required = False, sq_kind = ''keyword'', sq_description = None\<rparr>],
      sm_returns = ''QuotaOverride'',
      sm_routes =
        [\<lparr>sr_key = ''platform.set_quota_override'', sr_method = ''POST'', sr_path = ''/v1/platform/tenants/{tenant_id}/quotas'', sr_auth = ''bearer'',
         sr_scopes = [''platform:admin''], sr_idempotent = True\<rparr>]\<rparr>"

definition sdk_client_platform_tenants_assign_plan :: SdkMethod where
  "sdk_client_platform_tenants_assign_plan =
     \<lparr>sm_name = ''assign_plan'', sm_call = ''client.platform.tenants.assign_plan'',
      sm_signature = ''client.platform.tenants.assign_plan('' @ [CHR 0x0A] @ ''    tenant_id: Id,'' @ [CHR 0x0A] @ ''    plan_id: Id,'' @ [CHR 0x0A] @ ''    *,'' @ [CHR 0x0A] @ ''    acknowledge_below_usage: bool = False,'' @ [CHR 0x0A] @ ''    reason: Optional[str] = None,'' @ [CHR 0x0A] @ '') -> TenantQuota'',
      sm_doc = ''Move a tenant to another active plan. `POST /v1/platform/tenants/{tenant_id}/plan`.'' @ [CHR 0x0A, CHR 0x0A] @ ''Raises `LimitBelowUsageError` when the new plan is below'' @ [CHR 0x0A] @ ''the tenant'' @ [CHR 0x27] @ ''s stored inventory, unless `acknowledge_below_usage=True`.'',
      sm_params =
        [\<lparr>sq_name = ''tenant_id'', sq_type = ''Id'', sq_default = None, sq_required = True, sq_kind = ''positional'', sq_description = None\<rparr>,
         \<lparr>sq_name = ''plan_id'', sq_type = ''Id'', sq_default = None, sq_required = True, sq_kind = ''positional'', sq_description = None\<rparr>,
         \<lparr>sq_name = ''acknowledge_below_usage'', sq_type = ''bool'', sq_default = Some ''False'', sq_required = False, sq_kind = ''keyword'', sq_description = None\<rparr>,
         \<lparr>sq_name = ''reason'', sq_type = ''Optional[str]'', sq_default = Some ''None'', sq_required = False, sq_kind = ''keyword'', sq_description = None\<rparr>],
      sm_returns = ''TenantQuota'',
      sm_routes =
        [\<lparr>sr_key = ''platform.assign_tenant_plan'', sr_method = ''POST'', sr_path = ''/v1/platform/tenants/{tenant_id}/plan'', sr_auth = ''bearer'',
         sr_scopes = [''platform:admin''], sr_idempotent = False\<rparr>]\<rparr>"

definition sdk_client_platform_tenants_get_usage :: SdkMethod where
  "sdk_client_platform_tenants_get_usage =
     \<lparr>sm_name = ''get_usage'', sm_call = ''client.platform.tenants.get_usage'',
      sm_signature = ''client.platform.tenants.get_usage(tenant_id: Id) -> UsageSummary'',
      sm_doc = ''Month-to-date usage of one tenant. `GET /v1/platform/tenants/{tenant_id}/usage`.'',
      sm_params =
        [\<lparr>sq_name = ''tenant_id'', sq_type = ''Id'', sq_default = None, sq_required = True, sq_kind = ''positional'', sq_description = None\<rparr>],
      sm_returns = ''UsageSummary'',
      sm_routes =
        [\<lparr>sr_key = ''platform.get_tenant_usage'', sr_method = ''GET'', sr_path = ''/v1/platform/tenants/{tenant_id}/usage'', sr_auth = ''bearer'',
         sr_scopes = [''platform:admin''], sr_idempotent = True\<rparr>]\<rparr>"

definition sdk_client_platform_tenants_issue_recovery :: SdkMethod where
  "sdk_client_platform_tenants_issue_recovery =
     \<lparr>sm_name = ''issue_recovery'', sm_call = ''client.platform.tenants.issue_recovery'',
      sm_signature = ''client.platform.tenants.issue_recovery('' @ [CHR 0x0A] @ ''    tenant_id: Id,'' @ [CHR 0x0A] @ ''    *,'' @ [CHR 0x0A] @ ''    email: str,'' @ [CHR 0x0A] @ ''    reason: Optional[str] = None,'' @ [CHR 0x0A] @ '') -> RecoveryToken'',
      sm_doc = ''Issue a one-time account-recovery token for a user of an active tenant.'' @ [CHR 0x0A, CHR 0x0A] @ ''`POST /v1/platform/tenants/{tenant_id}/recovery`. Hand the token to the'' @ [CHR 0x0A] @ ''user, who redeems it with `client.tenant.auth.recover_password`.'',
      sm_params =
        [\<lparr>sq_name = ''tenant_id'', sq_type = ''Id'', sq_default = None, sq_required = True, sq_kind = ''positional'', sq_description = None\<rparr>,
         \<lparr>sq_name = ''email'', sq_type = ''str'', sq_default = None, sq_required = True, sq_kind = ''keyword'', sq_description = None\<rparr>,
         \<lparr>sq_name = ''reason'', sq_type = ''Optional[str]'', sq_default = Some ''None'', sq_required = False, sq_kind = ''keyword'', sq_description = None\<rparr>],
      sm_returns = ''RecoveryToken'',
      sm_routes =
        [\<lparr>sr_key = ''platform.issue_recovery'', sr_method = ''POST'', sr_path = ''/v1/platform/tenants/{tenant_id}/recovery'', sr_auth = ''bearer'',
         sr_scopes = [''platform:admin''], sr_idempotent = False\<rparr>]\<rparr>"

definition sdk_resource_client_platform_tenants :: SdkResource where
  "sdk_resource_client_platform_tenants =
     \<lparr>sx_id = ''client-platform-tenants'', sx_path = ''client.platform.tenants'', sx_title = ''tenants'',
      sx_className = ''PlatformTenants'', sx_asyncClass = Some ''AsyncPlatformTenants'',
      sx_doc = ''Tenant lifecycle, quotas and usage across the platform.'',
      sx_ctor = None,
      sx_contextManager = None,
      sx_methods =
        [sdk_client_platform_tenants_list, sdk_client_platform_tenants_get, sdk_client_platform_tenants_set_status,
         sdk_client_platform_tenants_get_quota, sdk_client_platform_tenants_set_quota_override,
         sdk_client_platform_tenants_assign_plan, sdk_client_platform_tenants_get_usage,
         sdk_client_platform_tenants_issue_recovery]\<rparr>"

definition sdk_client_platform_plans_list :: SdkMethod where
  "sdk_client_platform_plans_list =
     \<lparr>sm_name = ''list'', sm_call = ''client.platform.plans.list'',
      sm_signature = ''client.platform.plans.list() -> PricingPlanList'',
      sm_doc = ''Every plan, ordered by code. `GET /v1/platform/plans`.'',
      sm_params =
        [],
      sm_returns = ''PricingPlanList'',
      sm_routes =
        [\<lparr>sr_key = ''platform.list_plans'', sr_method = ''GET'', sr_path = ''/v1/platform/plans'', sr_auth = ''bearer'',
         sr_scopes = [''platform:admin''], sr_idempotent = True\<rparr>]\<rparr>"

definition sdk_client_platform_plans_update :: SdkMethod where
  "sdk_client_platform_plans_update =
     \<lparr>sm_name = ''update'', sm_call = ''client.platform.plans.update'',
      sm_signature = ''client.platform.plans.update('' @ [CHR 0x0A] @ ''    plan_id: Id,'' @ [CHR 0x0A] @ ''    *,'' @ [CHR 0x0A] @ ''    name: str,'' @ [CHR 0x0A] @ ''    limits: Mapping[str, int],'' @ [CHR 0x0A] @ ''    is_active: bool,'' @ [CHR 0x0A] @ ''    acknowledge_below_usage: bool = False,'' @ [CHR 0x0A] @ ''    reason: Optional[str] = None,'' @ [CHR 0x0A] @ '') -> PricingPlan'',
      sm_doc = ''Rename, re-limit or (de)activate a plan. `PUT /v1/platform/plans/{plan_id}`.'' @ [CHR 0x0A, CHR 0x0A] @ ''`limits` must name every limit the plan already has, exactly once.'' @ [CHR 0x0A] @ ''Raises `LimitBelowUsageError` when tenants on the plan'' @ [CHR 0x0A] @ ''store more than the new inventory limits, unless `acknowledge_below_usage=True`.'',
      sm_params =
        [\<lparr>sq_name = ''plan_id'', sq_type = ''Id'', sq_default = None, sq_required = True, sq_kind = ''positional'', sq_description = None\<rparr>,
         \<lparr>sq_name = ''name'', sq_type = ''str'', sq_default = None, sq_required = True, sq_kind = ''keyword'', sq_description = None\<rparr>,
         \<lparr>sq_name = ''limits'', sq_type = ''Mapping[str, int]'', sq_default = None, sq_required = True, sq_kind = ''keyword'', sq_description = None\<rparr>,
         \<lparr>sq_name = ''is_active'', sq_type = ''bool'', sq_default = None, sq_required = True, sq_kind = ''keyword'', sq_description = None\<rparr>,
         \<lparr>sq_name = ''acknowledge_below_usage'', sq_type = ''bool'', sq_default = Some ''False'', sq_required = False, sq_kind = ''keyword'', sq_description = None\<rparr>,
         \<lparr>sq_name = ''reason'', sq_type = ''Optional[str]'', sq_default = Some ''None'', sq_required = False, sq_kind = ''keyword'', sq_description = None\<rparr>],
      sm_returns = ''PricingPlan'',
      sm_routes =
        [\<lparr>sr_key = ''platform.update_plan'', sr_method = ''PUT'', sr_path = ''/v1/platform/plans/{plan_id}'', sr_auth = ''bearer'',
         sr_scopes = [''platform:admin''], sr_idempotent = True\<rparr>]\<rparr>"

definition sdk_resource_client_platform_plans :: SdkResource where
  "sdk_resource_client_platform_plans =
     \<lparr>sx_id = ''client-platform-plans'', sx_path = ''client.platform.plans'', sx_title = ''plans'',
      sx_className = ''PlatformPlans'', sx_asyncClass = Some ''AsyncPlatformPlans'',
      sx_doc = ''Pricing plans and their limits.'',
      sx_ctor = None,
      sx_contextManager = None,
      sx_methods =
        [sdk_client_platform_plans_list, sdk_client_platform_plans_update]\<rparr>"

definition sdk_client_platform_plan_requests_list :: SdkMethod where
  "sdk_client_platform_plan_requests_list =
     \<lparr>sm_name = ''list'', sm_call = ''client.platform.plan_requests.list'',
      sm_signature = ''client.platform.plan_requests.list(*, status: Optional[str] = None) -> PlatformPlanRequestList'',
      sm_doc = ''Pending requests first (oldest first), then decided ones. `GET /v1/platform/plan-requests`.'',
      sm_params =
        [\<lparr>sq_name = ''status'', sq_type = ''Optional[str]'', sq_default = Some ''None'', sq_required = False, sq_kind = ''keyword'', sq_description = None\<rparr>],
      sm_returns = ''PlatformPlanRequestList'',
      sm_routes =
        [\<lparr>sr_key = ''platform.list_plan_requests'', sr_method = ''GET'', sr_path = ''/v1/platform/plan-requests'', sr_auth = ''bearer'',
         sr_scopes = [''platform:admin''], sr_idempotent = True\<rparr>]\<rparr>"

definition sdk_client_platform_plan_requests_approve :: SdkMethod where
  "sdk_client_platform_plan_requests_approve =
     \<lparr>sm_name = ''approve'', sm_call = ''client.platform.plan_requests.approve'',
      sm_signature = ''client.platform.plan_requests.approve('' @ [CHR 0x0A] @ ''    request_id: Id,'' @ [CHR 0x0A] @ ''    *,'' @ [CHR 0x0A] @ ''    reason: str,'' @ [CHR 0x0A] @ ''    acknowledge_below_usage: bool = False,'' @ [CHR 0x0A] @ '') -> PlanRequestDecision'',
      sm_doc = ''Approve a pending request; the tenant moves to the requested plan at once.'' @ [CHR 0x0A, CHR 0x0A] @ ''`POST /v1/platform/plan-requests/{request_id}:approve`. Raises'' @ [CHR 0x0A] @ ''`LimitBelowUsageError` when the plan is below the tenant'' @ [CHR 0x27] @ ''s'' @ [CHR 0x0A] @ ''stored inventory, unless `acknowledge_below_usage=True`.'',
      sm_params =
        [\<lparr>sq_name = ''request_id'', sq_type = ''Id'', sq_default = None, sq_required = True, sq_kind = ''positional'', sq_description = None\<rparr>,
         \<lparr>sq_name = ''reason'', sq_type = ''str'', sq_default = None, sq_required = True, sq_kind = ''keyword'', sq_description = None\<rparr>,
         \<lparr>sq_name = ''acknowledge_below_usage'', sq_type = ''bool'', sq_default = Some ''False'', sq_required = False, sq_kind = ''keyword'', sq_description = None\<rparr>],
      sm_returns = ''PlanRequestDecision'',
      sm_routes =
        [\<lparr>sr_key = ''platform.approve_plan_request'', sr_method = ''POST'', sr_path = ''/v1/platform/plan-requests/{request_id}:approve'', sr_auth = ''bearer'',
         sr_scopes = [''platform:admin''], sr_idempotent = False\<rparr>]\<rparr>"

definition sdk_client_platform_plan_requests_reject :: SdkMethod where
  "sdk_client_platform_plan_requests_reject =
     \<lparr>sm_name = ''reject'', sm_call = ''client.platform.plan_requests.reject'',
      sm_signature = ''client.platform.plan_requests.reject('' @ [CHR 0x0A] @ ''    request_id: Id,'' @ [CHR 0x0A] @ ''    *,'' @ [CHR 0x0A] @ ''    reason: str,'' @ [CHR 0x0A] @ '') -> PlanRequestDecision'',
      sm_doc = ''Reject a pending request; the tenant keeps its plan and sees `reason`.'',
      sm_params =
        [\<lparr>sq_name = ''request_id'', sq_type = ''Id'', sq_default = None, sq_required = True, sq_kind = ''positional'', sq_description = None\<rparr>,
         \<lparr>sq_name = ''reason'', sq_type = ''str'', sq_default = None, sq_required = True, sq_kind = ''keyword'', sq_description = None\<rparr>],
      sm_returns = ''PlanRequestDecision'',
      sm_routes =
        [\<lparr>sr_key = ''platform.reject_plan_request'', sr_method = ''POST'', sr_path = ''/v1/platform/plan-requests/{request_id}:reject'', sr_auth = ''bearer'',
         sr_scopes = [''platform:admin''], sr_idempotent = False\<rparr>]\<rparr>"

definition sdk_resource_client_platform_plan_requests :: SdkResource where
  "sdk_resource_client_platform_plan_requests =
     \<lparr>sx_id = ''client-platform-plan_requests'', sx_path = ''client.platform.plan_requests'', sx_title = ''plan_requests'',
      sx_className = ''PlatformPlanRequests'', sx_asyncClass = Some ''AsyncPlatformPlanRequests'',
      sx_doc = ''Tenants'' @ [CHR 0x27] @ '' plan change requests. GraphRec takes no payments: plans change on approval.'',
      sx_ctor = None,
      sx_contextManager = None,
      sx_methods =
        [sdk_client_platform_plan_requests_list, sdk_client_platform_plan_requests_approve,
         sdk_client_platform_plan_requests_reject]\<rparr>"

definition sdk_client_platform_operators_login :: SdkMethod where
  "sdk_client_platform_operators_login =
     \<lparr>sm_name = ''login'', sm_call = ''client.platform.operators.login'',
      sm_signature = ''client.platform.operators.login('' @ [CHR 0x0A] @ ''    *,'' @ [CHR 0x0A] @ ''    email: str,'' @ [CHR 0x0A] @ ''    password: str,'' @ [CHR 0x0A] @ '') -> OperatorSession'',
      sm_doc = ''Sign in as an operator (`POST /v1/platform/auth/login`); use the returned'' @ [CHR 0x0A] @ ''`access_token` as the platform bearer token.'',
      sm_params =
        [\<lparr>sq_name = ''email'', sq_type = ''str'', sq_default = None, sq_required = True, sq_kind = ''keyword'', sq_description = None\<rparr>,
         \<lparr>sq_name = ''password'', sq_type = ''str'', sq_default = None, sq_required = True, sq_kind = ''keyword'', sq_description = None\<rparr>],
      sm_returns = ''OperatorSession'',
      sm_routes =
        [\<lparr>sr_key = ''operators.login'', sr_method = ''POST'', sr_path = ''/v1/platform/auth/login'', sr_auth = ''none'',
         sr_scopes = [], sr_idempotent = False\<rparr>]\<rparr>"

definition sdk_client_platform_operators_me :: SdkMethod where
  "sdk_client_platform_operators_me =
     \<lparr>sm_name = ''me'', sm_call = ''client.platform.operators.me'',
      sm_signature = ''client.platform.operators.me() -> OperatorMe'',
      sm_doc = ''The signed-in operator and roles (`GET /v1/platform/me`).'',
      sm_params =
        [],
      sm_returns = ''OperatorMe'',
      sm_routes =
        [\<lparr>sr_key = ''operators.me'', sr_method = ''GET'', sr_path = ''/v1/platform/me'', sr_auth = ''bearer'',
         sr_scopes = [''platform:admin''], sr_idempotent = True\<rparr>]\<rparr>"

definition sdk_client_platform_operators_list :: SdkMethod where
  "sdk_client_platform_operators_list =
     \<lparr>sm_name = ''list'', sm_call = ''client.platform.operators.list'',
      sm_signature = ''client.platform.operators.list() -> OperatorList'',
      sm_doc = [],
      sm_params =
        [],
      sm_returns = ''OperatorList'',
      sm_routes =
        [\<lparr>sr_key = ''operators.list'', sr_method = ''GET'', sr_path = ''/v1/platform/operators'', sr_auth = ''bearer'',
         sr_scopes = [''platform:admin''], sr_idempotent = True\<rparr>]\<rparr>"

definition sdk_client_platform_operators_create :: SdkMethod where
  "sdk_client_platform_operators_create =
     \<lparr>sm_name = ''create'', sm_call = ''client.platform.operators.create'',
      sm_signature = ''client.platform.operators.create('' @ [CHR 0x0A] @ ''    *,'' @ [CHR 0x0A] @ ''    email: str,'' @ [CHR 0x0A] @ ''    display_name: str,'' @ [CHR 0x0A] @ ''    password: str,'' @ [CHR 0x0A] @ ''    roles: List[str],'' @ [CHR 0x0A] @ '') -> Operator'',
      sm_doc = [],
      sm_params =
        [\<lparr>sq_name = ''email'', sq_type = ''str'', sq_default = None, sq_required = True, sq_kind = ''keyword'', sq_description = None\<rparr>,
         \<lparr>sq_name = ''display_name'', sq_type = ''str'', sq_default = None, sq_required = True, sq_kind = ''keyword'', sq_description = None\<rparr>,
         \<lparr>sq_name = ''password'', sq_type = ''str'', sq_default = None, sq_required = True, sq_kind = ''keyword'', sq_description = None\<rparr>,
         \<lparr>sq_name = ''roles'', sq_type = ''List[str]'', sq_default = None, sq_required = True, sq_kind = ''keyword'', sq_description = None\<rparr>],
      sm_returns = ''Operator'',
      sm_routes =
        [\<lparr>sr_key = ''operators.create'', sr_method = ''POST'', sr_path = ''/v1/platform/operators'', sr_auth = ''bearer'',
         sr_scopes = [''platform:admin''], sr_idempotent = False\<rparr>]\<rparr>"

definition sdk_client_platform_operators_update :: SdkMethod where
  "sdk_client_platform_operators_update =
     \<lparr>sm_name = ''update'', sm_call = ''client.platform.operators.update'',
      sm_signature = ''client.platform.operators.update('' @ [CHR 0x0A] @ ''    operator_id: Union[str, UUID],'' @ [CHR 0x0A] @ ''    *,'' @ [CHR 0x0A] @ ''    display_name: Optional[str] = None,'' @ [CHR 0x0A] @ ''    roles: Optional[List[str]] = None,'' @ [CHR 0x0A] @ ''    status: Optional[str] = None,'' @ [CHR 0x0A] @ ''    password: Optional[str] = None,'' @ [CHR 0x0A] @ '') -> Operator'',
      sm_doc = ''Change name, roles, status (`active`/`disabled`) or password; access changes end sessions.'',
      sm_params =
        [\<lparr>sq_name = ''operator_id'', sq_type = ''Union[str, UUID]'', sq_default = None, sq_required = True, sq_kind = ''positional'', sq_description = None\<rparr>,
         \<lparr>sq_name = ''display_name'', sq_type = ''Optional[str]'', sq_default = Some ''None'', sq_required = False, sq_kind = ''keyword'', sq_description = None\<rparr>,
         \<lparr>sq_name = ''roles'', sq_type = ''Optional[List[str]]'', sq_default = Some ''None'', sq_required = False, sq_kind = ''keyword'', sq_description = None\<rparr>,
         \<lparr>sq_name = ''status'', sq_type = ''Optional[str]'', sq_default = Some ''None'', sq_required = False, sq_kind = ''keyword'', sq_description = None\<rparr>,
         \<lparr>sq_name = ''password'', sq_type = ''Optional[str]'', sq_default = Some ''None'', sq_required = False, sq_kind = ''keyword'', sq_description = None\<rparr>],
      sm_returns = ''Operator'',
      sm_routes =
        [\<lparr>sr_key = ''operators.update'', sr_method = ''PATCH'', sr_path = ''/v1/platform/operators/{operator_id}'', sr_auth = ''bearer'',
         sr_scopes = [''platform:admin''], sr_idempotent = False\<rparr>]\<rparr>"

definition sdk_resource_client_platform_operators :: SdkResource where
  "sdk_resource_client_platform_operators =
     \<lparr>sx_id = ''client-platform-operators'', sx_path = ''client.platform.operators'', sx_title = ''operators'',
      sx_className = ''PlatformOperators'', sx_asyncClass = Some ''AsyncPlatformOperators'',
      sx_doc = ''Named operators with roles. Requires the `operator_admin` role.'',
      sx_ctor = None,
      sx_contextManager = None,
      sx_methods =
        [sdk_client_platform_operators_login, sdk_client_platform_operators_me, sdk_client_platform_operators_list,
         sdk_client_platform_operators_create, sdk_client_platform_operators_update]\<rparr>"

section \<open>Helpers\<close>

definition sdk_builder_build :: SdkMethod where
  "sdk_builder_build =
     \<lparr>sm_name = ''build'', sm_call = ''builder.build'',
      sm_signature = ''builder.build('' @ [CHR 0x0A] @ ''    event_type: Union[EventType, str],'' @ [CHR 0x0A] @ ''    *,'' @ [CHR 0x0A] @ ''    user_id: Optional[str] = None,'' @ [CHR 0x0A] @ ''    product_id: Optional[str] = None,'' @ [CHR 0x0A] @ ''    session_id: Optional[str] = None,'' @ [CHR 0x0A] @ ''    context: Optional[Mapping[str, Any]] = None,'' @ [CHR 0x0A] @ ''    occurred_at: Optional[datetime] = None,'' @ [CHR 0x0A] @ ''    event_id: Optional[str] = None,'' @ [CHR 0x0A] @ '') -> EventInput'',
      sm_doc = [],
      sm_params =
        [\<lparr>sq_name = ''event_type'', sq_type = ''Union[EventType, str]'', sq_default = None, sq_required = True, sq_kind = ''positional'', sq_description = None\<rparr>,
         \<lparr>sq_name = ''user_id'', sq_type = ''Optional[str]'', sq_default = Some ''None'', sq_required = False, sq_kind = ''keyword'', sq_description = None\<rparr>,
         \<lparr>sq_name = ''product_id'', sq_type = ''Optional[str]'', sq_default = Some ''None'', sq_required = False, sq_kind = ''keyword'', sq_description = None\<rparr>,
         \<lparr>sq_name = ''session_id'', sq_type = ''Optional[str]'', sq_default = Some ''None'', sq_required = False, sq_kind = ''keyword'', sq_description = None\<rparr>,
         \<lparr>sq_name = ''context'', sq_type = ''Optional[Mapping[str, Any]]'', sq_default = Some ''None'', sq_required = False, sq_kind = ''keyword'', sq_description = None\<rparr>,
         \<lparr>sq_name = ''occurred_at'', sq_type = ''Optional[datetime]'', sq_default = Some ''None'', sq_required = False, sq_kind = ''keyword'', sq_description = None\<rparr>,
         \<lparr>sq_name = ''event_id'', sq_type = ''Optional[str]'', sq_default = Some ''None'', sq_required = False, sq_kind = ''keyword'', sq_description = None\<rparr>],
      sm_returns = ''EventInput'',
      sm_routes =
        []\<rparr>"

definition sdk_builder_view :: SdkMethod where
  "sdk_builder_view =
     \<lparr>sm_name = ''view'', sm_call = ''builder.view'',
      sm_signature = ''builder.view('' @ [CHR 0x0A] @ ''    user_id: Optional[str],'' @ [CHR 0x0A] @ ''    product_id: str,'' @ [CHR 0x0A] @ ''    **options: Any,'' @ [CHR 0x0A] @ '') -> EventInput'',
      sm_doc = [],
      sm_params =
        [\<lparr>sq_name = ''user_id'', sq_type = ''Optional[str]'', sq_default = None, sq_required = True, sq_kind = ''positional'', sq_description = None\<rparr>,
         \<lparr>sq_name = ''product_id'', sq_type = ''str'', sq_default = None, sq_required = True, sq_kind = ''positional'', sq_description = None\<rparr>,
         \<lparr>sq_name = ''**options'', sq_type = ''Any'', sq_default = None, sq_required = False, sq_kind = ''kwargs'', sq_description = None\<rparr>],
      sm_returns = ''EventInput'',
      sm_routes =
        []\<rparr>"

definition sdk_builder_click :: SdkMethod where
  "sdk_builder_click =
     \<lparr>sm_name = ''click'', sm_call = ''builder.click'',
      sm_signature = ''builder.click('' @ [CHR 0x0A] @ ''    user_id: Optional[str],'' @ [CHR 0x0A] @ ''    product_id: str,'' @ [CHR 0x0A] @ ''    **options: Any,'' @ [CHR 0x0A] @ '') -> EventInput'',
      sm_doc = [],
      sm_params =
        [\<lparr>sq_name = ''user_id'', sq_type = ''Optional[str]'', sq_default = None, sq_required = True, sq_kind = ''positional'', sq_description = None\<rparr>,
         \<lparr>sq_name = ''product_id'', sq_type = ''str'', sq_default = None, sq_required = True, sq_kind = ''positional'', sq_description = None\<rparr>,
         \<lparr>sq_name = ''**options'', sq_type = ''Any'', sq_default = None, sq_required = False, sq_kind = ''kwargs'', sq_description = None\<rparr>],
      sm_returns = ''EventInput'',
      sm_routes =
        []\<rparr>"

definition sdk_builder_add_to_cart :: SdkMethod where
  "sdk_builder_add_to_cart =
     \<lparr>sm_name = ''add_to_cart'', sm_call = ''builder.add_to_cart'',
      sm_signature = ''builder.add_to_cart('' @ [CHR 0x0A] @ ''    user_id: Optional[str],'' @ [CHR 0x0A] @ ''    product_id: str,'' @ [CHR 0x0A] @ ''    *,'' @ [CHR 0x0A] @ ''    quantity: int = 1,'' @ [CHR 0x0A] @ ''    price: Optional[Number] = None,'' @ [CHR 0x0A] @ ''    **options: Any,'' @ [CHR 0x0A] @ '') -> EventInput'',
      sm_doc = [],
      sm_params =
        [\<lparr>sq_name = ''user_id'', sq_type = ''Optional[str]'', sq_default = None, sq_required = True, sq_kind = ''positional'', sq_description = None\<rparr>,
         \<lparr>sq_name = ''product_id'', sq_type = ''str'', sq_default = None, sq_required = True, sq_kind = ''positional'', sq_description = None\<rparr>,
         \<lparr>sq_name = ''quantity'', sq_type = ''int'', sq_default = Some ''1'', sq_required = False, sq_kind = ''keyword'', sq_description = None\<rparr>,
         \<lparr>sq_name = ''price'', sq_type = ''Optional[Number]'', sq_default = Some ''None'', sq_required = False, sq_kind = ''keyword'', sq_description = None\<rparr>,
         \<lparr>sq_name = ''**options'', sq_type = ''Any'', sq_default = None, sq_required = False, sq_kind = ''kwargs'', sq_description = None\<rparr>],
      sm_returns = ''EventInput'',
      sm_routes =
        []\<rparr>"

definition sdk_builder_remove_from_cart :: SdkMethod where
  "sdk_builder_remove_from_cart =
     \<lparr>sm_name = ''remove_from_cart'', sm_call = ''builder.remove_from_cart'',
      sm_signature = ''builder.remove_from_cart('' @ [CHR 0x0A] @ ''    user_id: Optional[str],'' @ [CHR 0x0A] @ ''    product_id: str,'' @ [CHR 0x0A] @ ''    *,'' @ [CHR 0x0A] @ ''    quantity: int = 1,'' @ [CHR 0x0A] @ ''    **options: Any,'' @ [CHR 0x0A] @ '') -> EventInput'',
      sm_doc = [],
      sm_params =
        [\<lparr>sq_name = ''user_id'', sq_type = ''Optional[str]'', sq_default = None, sq_required = True, sq_kind = ''positional'', sq_description = None\<rparr>,
         \<lparr>sq_name = ''product_id'', sq_type = ''str'', sq_default = None, sq_required = True, sq_kind = ''positional'', sq_description = None\<rparr>,
         \<lparr>sq_name = ''quantity'', sq_type = ''int'', sq_default = Some ''1'', sq_required = False, sq_kind = ''keyword'', sq_description = None\<rparr>,
         \<lparr>sq_name = ''**options'', sq_type = ''Any'', sq_default = None, sq_required = False, sq_kind = ''kwargs'', sq_description = None\<rparr>],
      sm_returns = ''EventInput'',
      sm_routes =
        []\<rparr>"

definition sdk_builder_purchase :: SdkMethod where
  "sdk_builder_purchase =
     \<lparr>sm_name = ''purchase'', sm_call = ''builder.purchase'',
      sm_signature = ''builder.purchase('' @ [CHR 0x0A] @ ''    user_id: Optional[str],'' @ [CHR 0x0A] @ ''    product_id: str,'' @ [CHR 0x0A] @ ''    *,'' @ [CHR 0x0A] @ ''    order_id: Optional[str] = None,'' @ [CHR 0x0A] @ ''    line: Optional[Union[int, str]] = None,'' @ [CHR 0x0A] @ ''    quantity: int = 1,'' @ [CHR 0x0A] @ ''    price: Optional[Number] = None,'' @ [CHR 0x0A] @ ''    currency: Optional[str] = None,'' @ [CHR 0x0A] @ ''    **options: Any,'' @ [CHR 0x0A] @ '') -> EventInput'',
      sm_doc = ''A purchased order line.'' @ [CHR 0x0A, CHR 0x0A] @ ''With `order_id` the event ID is derived from `(order_id, line or'' @ [CHR 0x0A] @ ''product_id)`, so replaying the same order webhook never double-counts.'',
      sm_params =
        [\<lparr>sq_name = ''user_id'', sq_type = ''Optional[str]'', sq_default = None, sq_required = True, sq_kind = ''positional'', sq_description = None\<rparr>,
         \<lparr>sq_name = ''product_id'', sq_type = ''str'', sq_default = None, sq_required = True, sq_kind = ''positional'', sq_description = None\<rparr>,
         \<lparr>sq_name = ''order_id'', sq_type = ''Optional[str]'', sq_default = Some ''None'', sq_required = False, sq_kind = ''keyword'', sq_description = None\<rparr>,
         \<lparr>sq_name = ''line'', sq_type = ''Optional[Union[int, str]]'', sq_default = Some ''None'', sq_required = False, sq_kind = ''keyword'', sq_description = None\<rparr>,
         \<lparr>sq_name = ''quantity'', sq_type = ''int'', sq_default = Some ''1'', sq_required = False, sq_kind = ''keyword'', sq_description = None\<rparr>,
         \<lparr>sq_name = ''price'', sq_type = ''Optional[Number]'', sq_default = Some ''None'', sq_required = False, sq_kind = ''keyword'', sq_description = None\<rparr>,
         \<lparr>sq_name = ''currency'', sq_type = ''Optional[str]'', sq_default = Some ''None'', sq_required = False, sq_kind = ''keyword'', sq_description = None\<rparr>,
         \<lparr>sq_name = ''**options'', sq_type = ''Any'', sq_default = None, sq_required = False, sq_kind = ''kwargs'', sq_description = None\<rparr>],
      sm_returns = ''EventInput'',
      sm_routes =
        []\<rparr>"

definition sdk_builder_rating :: SdkMethod where
  "sdk_builder_rating =
     \<lparr>sm_name = ''rating'', sm_call = ''builder.rating'',
      sm_signature = ''builder.rating('' @ [CHR 0x0A] @ ''    user_id: Optional[str],'' @ [CHR 0x0A] @ ''    product_id: str,'' @ [CHR 0x0A] @ ''    rating: Union[int, float],'' @ [CHR 0x0A] @ ''    *,'' @ [CHR 0x0A] @ ''    max_rating: Union[int, float] = 5,'' @ [CHR 0x0A] @ ''    **options: Any,'' @ [CHR 0x0A] @ '') -> EventInput'',
      sm_doc = [],
      sm_params =
        [\<lparr>sq_name = ''user_id'', sq_type = ''Optional[str]'', sq_default = None, sq_required = True, sq_kind = ''positional'', sq_description = None\<rparr>,
         \<lparr>sq_name = ''product_id'', sq_type = ''str'', sq_default = None, sq_required = True, sq_kind = ''positional'', sq_description = None\<rparr>,
         \<lparr>sq_name = ''rating'', sq_type = ''Union[int, float]'', sq_default = None, sq_required = True, sq_kind = ''positional'', sq_description = None\<rparr>,
         \<lparr>sq_name = ''max_rating'', sq_type = ''Union[int, float]'', sq_default = Some ''5'', sq_required = False, sq_kind = ''keyword'', sq_description = None\<rparr>,
         \<lparr>sq_name = ''**options'', sq_type = ''Any'', sq_default = None, sq_required = False, sq_kind = ''kwargs'', sq_description = None\<rparr>],
      sm_returns = ''EventInput'',
      sm_routes =
        []\<rparr>"

definition sdk_builder_search :: SdkMethod where
  "sdk_builder_search =
     \<lparr>sm_name = ''search'', sm_call = ''builder.search'',
      sm_signature = ''builder.search('' @ [CHR 0x0A] @ ''    user_id: Optional[str],'' @ [CHR 0x0A] @ ''    query: str,'' @ [CHR 0x0A] @ ''    **options: Any,'' @ [CHR 0x0A] @ '') -> EventInput'',
      sm_doc = [],
      sm_params =
        [\<lparr>sq_name = ''user_id'', sq_type = ''Optional[str]'', sq_default = None, sq_required = True, sq_kind = ''positional'', sq_description = None\<rparr>,
         \<lparr>sq_name = ''query'', sq_type = ''str'', sq_default = None, sq_required = True, sq_kind = ''positional'', sq_description = None\<rparr>,
         \<lparr>sq_name = ''**options'', sq_type = ''Any'', sq_default = None, sq_required = False, sq_kind = ''kwargs'', sq_description = None\<rparr>],
      sm_returns = ''EventInput'',
      sm_routes =
        []\<rparr>"

definition sdk_builder_add_to_wishlist :: SdkMethod where
  "sdk_builder_add_to_wishlist =
     \<lparr>sm_name = ''add_to_wishlist'', sm_call = ''builder.add_to_wishlist'',
      sm_signature = ''builder.add_to_wishlist('' @ [CHR 0x0A] @ ''    user_id: Optional[str],'' @ [CHR 0x0A] @ ''    product_id: str,'' @ [CHR 0x0A] @ ''    **options: Any,'' @ [CHR 0x0A] @ '') -> EventInput'',
      sm_doc = [],
      sm_params =
        [\<lparr>sq_name = ''user_id'', sq_type = ''Optional[str]'', sq_default = None, sq_required = True, sq_kind = ''positional'', sq_description = None\<rparr>,
         \<lparr>sq_name = ''product_id'', sq_type = ''str'', sq_default = None, sq_required = True, sq_kind = ''positional'', sq_description = None\<rparr>,
         \<lparr>sq_name = ''**options'', sq_type = ''Any'', sq_default = None, sq_required = False, sq_kind = ''kwargs'', sq_description = None\<rparr>],
      sm_returns = ''EventInput'',
      sm_routes =
        []\<rparr>"

definition sdk_resource_ecommerce_eventbuilder :: SdkResource where
  "sdk_resource_ecommerce_eventbuilder =
     \<lparr>sx_id = ''ecommerce-eventbuilder'', sx_path = ''graphrec_sdk.ecommerce.EventBuilder'', sx_title = ''EventBuilder'',
      sx_className = ''EventBuilder'', sx_asyncClass = None,
      sx_doc = ''Typed constructors for common e-commerce interactions.'',
      sx_ctor = Some ''EventBuilder(*, default_context: Optional[Mapping[str, Any]] = None) -> None'',
      sx_contextManager = Some False,
      sx_methods =
        [sdk_builder_build, sdk_builder_view, sdk_builder_click, sdk_builder_add_to_cart,
         sdk_builder_remove_from_cart, sdk_builder_purchase, sdk_builder_rating, sdk_builder_search,
         sdk_builder_add_to_wishlist]\<rparr>"

definition sdk_tracker_track :: SdkMethod where
  "sdk_tracker_track =
     \<lparr>sm_name = ''track'', sm_call = ''tracker.track'',
      sm_signature = ''tracker.track('' @ [CHR 0x0A] @ ''    event_type: Union[EventType, str],'' @ [CHR 0x0A] @ ''    *,'' @ [CHR 0x0A] @ ''    user_id: Optional[str] = None,'' @ [CHR 0x0A] @ ''    product_id: Optional[str] = None,'' @ [CHR 0x0A] @ ''    session_id: Optional[str] = None,'' @ [CHR 0x0A] @ ''    context: Optional[Mapping[str, Any]] = None,'' @ [CHR 0x0A] @ ''    occurred_at: Optional[datetime] = None,'' @ [CHR 0x0A] @ ''    event_id: Optional[str] = None,'' @ [CHR 0x0A] @ '') -> EventInput'',
      sm_doc = ''Queue any interaction type.'',
      sm_params =
        [\<lparr>sq_name = ''event_type'', sq_type = ''Union[EventType, str]'', sq_default = None, sq_required = True, sq_kind = ''positional'', sq_description = None\<rparr>,
         \<lparr>sq_name = ''user_id'', sq_type = ''Optional[str]'', sq_default = Some ''None'', sq_required = False, sq_kind = ''keyword'', sq_description = None\<rparr>,
         \<lparr>sq_name = ''product_id'', sq_type = ''Optional[str]'', sq_default = Some ''None'', sq_required = False, sq_kind = ''keyword'', sq_description = None\<rparr>,
         \<lparr>sq_name = ''session_id'', sq_type = ''Optional[str]'', sq_default = Some ''None'', sq_required = False, sq_kind = ''keyword'', sq_description = None\<rparr>,
         \<lparr>sq_name = ''context'', sq_type = ''Optional[Mapping[str, Any]]'', sq_default = Some ''None'', sq_required = False, sq_kind = ''keyword'', sq_description = None\<rparr>,
         \<lparr>sq_name = ''occurred_at'', sq_type = ''Optional[datetime]'', sq_default = Some ''None'', sq_required = False, sq_kind = ''keyword'', sq_description = None\<rparr>,
         \<lparr>sq_name = ''event_id'', sq_type = ''Optional[str]'', sq_default = Some ''None'', sq_required = False, sq_kind = ''keyword'', sq_description = None\<rparr>],
      sm_returns = ''EventInput'',
      sm_routes =
        []\<rparr>"

definition sdk_tracker_view :: SdkMethod where
  "sdk_tracker_view =
     \<lparr>sm_name = ''view'', sm_call = ''tracker.view'',
      sm_signature = ''tracker.view('' @ [CHR 0x0A] @ ''    user_id: Optional[str],'' @ [CHR 0x0A] @ ''    product_id: str,'' @ [CHR 0x0A] @ ''    **options: Any,'' @ [CHR 0x0A] @ '') -> EventInput'',
      sm_doc = ''Product page view. Options: session_id, context, occurred_at, event_id.'',
      sm_params =
        [\<lparr>sq_name = ''user_id'', sq_type = ''Optional[str]'', sq_default = None, sq_required = True, sq_kind = ''positional'', sq_description = None\<rparr>,
         \<lparr>sq_name = ''product_id'', sq_type = ''str'', sq_default = None, sq_required = True, sq_kind = ''positional'', sq_description = None\<rparr>,
         \<lparr>sq_name = ''**options'', sq_type = ''Any'', sq_default = None, sq_required = False, sq_kind = ''kwargs'', sq_description = None\<rparr>],
      sm_returns = ''EventInput'',
      sm_routes =
        []\<rparr>"

definition sdk_tracker_click :: SdkMethod where
  "sdk_tracker_click =
     \<lparr>sm_name = ''click'', sm_call = ''tracker.click'',
      sm_signature = ''tracker.click('' @ [CHR 0x0A] @ ''    user_id: Optional[str],'' @ [CHR 0x0A] @ ''    product_id: str,'' @ [CHR 0x0A] @ ''    **options: Any,'' @ [CHR 0x0A] @ '') -> EventInput'',
      sm_doc = [],
      sm_params =
        [\<lparr>sq_name = ''user_id'', sq_type = ''Optional[str]'', sq_default = None, sq_required = True, sq_kind = ''positional'', sq_description = None\<rparr>,
         \<lparr>sq_name = ''product_id'', sq_type = ''str'', sq_default = None, sq_required = True, sq_kind = ''positional'', sq_description = None\<rparr>,
         \<lparr>sq_name = ''**options'', sq_type = ''Any'', sq_default = None, sq_required = False, sq_kind = ''kwargs'', sq_description = None\<rparr>],
      sm_returns = ''EventInput'',
      sm_routes =
        []\<rparr>"

definition sdk_tracker_add_to_cart :: SdkMethod where
  "sdk_tracker_add_to_cart =
     \<lparr>sm_name = ''add_to_cart'', sm_call = ''tracker.add_to_cart'',
      sm_signature = ''tracker.add_to_cart('' @ [CHR 0x0A] @ ''    user_id: Optional[str],'' @ [CHR 0x0A] @ ''    product_id: str,'' @ [CHR 0x0A] @ ''    *,'' @ [CHR 0x0A] @ ''    quantity: int = 1,'' @ [CHR 0x0A] @ ''    price: Optional[Number] = None,'' @ [CHR 0x0A] @ ''    **options: Any,'' @ [CHR 0x0A] @ '') -> EventInput'',
      sm_doc = [],
      sm_params =
        [\<lparr>sq_name = ''user_id'', sq_type = ''Optional[str]'', sq_default = None, sq_required = True, sq_kind = ''positional'', sq_description = None\<rparr>,
         \<lparr>sq_name = ''product_id'', sq_type = ''str'', sq_default = None, sq_required = True, sq_kind = ''positional'', sq_description = None\<rparr>,
         \<lparr>sq_name = ''quantity'', sq_type = ''int'', sq_default = Some ''1'', sq_required = False, sq_kind = ''keyword'', sq_description = None\<rparr>,
         \<lparr>sq_name = ''price'', sq_type = ''Optional[Number]'', sq_default = Some ''None'', sq_required = False, sq_kind = ''keyword'', sq_description = None\<rparr>,
         \<lparr>sq_name = ''**options'', sq_type = ''Any'', sq_default = None, sq_required = False, sq_kind = ''kwargs'', sq_description = None\<rparr>],
      sm_returns = ''EventInput'',
      sm_routes =
        []\<rparr>"

definition sdk_tracker_remove_from_cart :: SdkMethod where
  "sdk_tracker_remove_from_cart =
     \<lparr>sm_name = ''remove_from_cart'', sm_call = ''tracker.remove_from_cart'',
      sm_signature = ''tracker.remove_from_cart('' @ [CHR 0x0A] @ ''    user_id: Optional[str],'' @ [CHR 0x0A] @ ''    product_id: str,'' @ [CHR 0x0A] @ ''    *,'' @ [CHR 0x0A] @ ''    quantity: int = 1,'' @ [CHR 0x0A] @ ''    **options: Any,'' @ [CHR 0x0A] @ '') -> EventInput'',
      sm_doc = [],
      sm_params =
        [\<lparr>sq_name = ''user_id'', sq_type = ''Optional[str]'', sq_default = None, sq_required = True, sq_kind = ''positional'', sq_description = None\<rparr>,
         \<lparr>sq_name = ''product_id'', sq_type = ''str'', sq_default = None, sq_required = True, sq_kind = ''positional'', sq_description = None\<rparr>,
         \<lparr>sq_name = ''quantity'', sq_type = ''int'', sq_default = Some ''1'', sq_required = False, sq_kind = ''keyword'', sq_description = None\<rparr>,
         \<lparr>sq_name = ''**options'', sq_type = ''Any'', sq_default = None, sq_required = False, sq_kind = ''kwargs'', sq_description = None\<rparr>],
      sm_returns = ''EventInput'',
      sm_routes =
        []\<rparr>"

definition sdk_tracker_purchase :: SdkMethod where
  "sdk_tracker_purchase =
     \<lparr>sm_name = ''purchase'', sm_call = ''tracker.purchase'',
      sm_signature = ''tracker.purchase('' @ [CHR 0x0A] @ ''    user_id: Optional[str],'' @ [CHR 0x0A] @ ''    product_id: str,'' @ [CHR 0x0A] @ ''    *,'' @ [CHR 0x0A] @ ''    order_id: Optional[str] = None,'' @ [CHR 0x0A] @ ''    line: Optional[Union[int, str]] = None,'' @ [CHR 0x0A] @ ''    quantity: int = 1,'' @ [CHR 0x0A] @ ''    price: Optional[Number] = None,'' @ [CHR 0x0A] @ ''    currency: Optional[str] = None,'' @ [CHR 0x0A] @ ''    **options: Any,'' @ [CHR 0x0A] @ '') -> EventInput'',
      sm_doc = ''One purchased order line; `order_id` makes it idempotent across webhook replays.'',
      sm_params =
        [\<lparr>sq_name = ''user_id'', sq_type = ''Optional[str]'', sq_default = None, sq_required = True, sq_kind = ''positional'', sq_description = None\<rparr>,
         \<lparr>sq_name = ''product_id'', sq_type = ''str'', sq_default = None, sq_required = True, sq_kind = ''positional'', sq_description = None\<rparr>,
         \<lparr>sq_name = ''order_id'', sq_type = ''Optional[str]'', sq_default = Some ''None'', sq_required = False, sq_kind = ''keyword'', sq_description = None\<rparr>,
         \<lparr>sq_name = ''line'', sq_type = ''Optional[Union[int, str]]'', sq_default = Some ''None'', sq_required = False, sq_kind = ''keyword'', sq_description = None\<rparr>,
         \<lparr>sq_name = ''quantity'', sq_type = ''int'', sq_default = Some ''1'', sq_required = False, sq_kind = ''keyword'', sq_description = None\<rparr>,
         \<lparr>sq_name = ''price'', sq_type = ''Optional[Number]'', sq_default = Some ''None'', sq_required = False, sq_kind = ''keyword'', sq_description = None\<rparr>,
         \<lparr>sq_name = ''currency'', sq_type = ''Optional[str]'', sq_default = Some ''None'', sq_required = False, sq_kind = ''keyword'', sq_description = None\<rparr>,
         \<lparr>sq_name = ''**options'', sq_type = ''Any'', sq_default = None, sq_required = False, sq_kind = ''kwargs'', sq_description = None\<rparr>],
      sm_returns = ''EventInput'',
      sm_routes =
        []\<rparr>"

definition sdk_tracker_rating :: SdkMethod where
  "sdk_tracker_rating =
     \<lparr>sm_name = ''rating'', sm_call = ''tracker.rating'',
      sm_signature = ''tracker.rating('' @ [CHR 0x0A] @ ''    user_id: Optional[str],'' @ [CHR 0x0A] @ ''    product_id: str,'' @ [CHR 0x0A] @ ''    rating: Union[int, float],'' @ [CHR 0x0A] @ ''    *,'' @ [CHR 0x0A] @ ''    max_rating: Union[int, float] = 5,'' @ [CHR 0x0A] @ ''    **options: Any,'' @ [CHR 0x0A] @ '') -> EventInput'',
      sm_doc = [],
      sm_params =
        [\<lparr>sq_name = ''user_id'', sq_type = ''Optional[str]'', sq_default = None, sq_required = True, sq_kind = ''positional'', sq_description = None\<rparr>,
         \<lparr>sq_name = ''product_id'', sq_type = ''str'', sq_default = None, sq_required = True, sq_kind = ''positional'', sq_description = None\<rparr>,
         \<lparr>sq_name = ''rating'', sq_type = ''Union[int, float]'', sq_default = None, sq_required = True, sq_kind = ''positional'', sq_description = None\<rparr>,
         \<lparr>sq_name = ''max_rating'', sq_type = ''Union[int, float]'', sq_default = Some ''5'', sq_required = False, sq_kind = ''keyword'', sq_description = None\<rparr>,
         \<lparr>sq_name = ''**options'', sq_type = ''Any'', sq_default = None, sq_required = False, sq_kind = ''kwargs'', sq_description = None\<rparr>],
      sm_returns = ''EventInput'',
      sm_routes =
        []\<rparr>"

definition sdk_tracker_search :: SdkMethod where
  "sdk_tracker_search =
     \<lparr>sm_name = ''search'', sm_call = ''tracker.search'',
      sm_signature = ''tracker.search('' @ [CHR 0x0A] @ ''    user_id: Optional[str],'' @ [CHR 0x0A] @ ''    query: str,'' @ [CHR 0x0A] @ ''    **options: Any,'' @ [CHR 0x0A] @ '') -> EventInput'',
      sm_doc = [],
      sm_params =
        [\<lparr>sq_name = ''user_id'', sq_type = ''Optional[str]'', sq_default = None, sq_required = True, sq_kind = ''positional'', sq_description = None\<rparr>,
         \<lparr>sq_name = ''query'', sq_type = ''str'', sq_default = None, sq_required = True, sq_kind = ''positional'', sq_description = None\<rparr>,
         \<lparr>sq_name = ''**options'', sq_type = ''Any'', sq_default = None, sq_required = False, sq_kind = ''kwargs'', sq_description = None\<rparr>],
      sm_returns = ''EventInput'',
      sm_routes =
        []\<rparr>"

definition sdk_tracker_add_to_wishlist :: SdkMethod where
  "sdk_tracker_add_to_wishlist =
     \<lparr>sm_name = ''add_to_wishlist'', sm_call = ''tracker.add_to_wishlist'',
      sm_signature = ''tracker.add_to_wishlist('' @ [CHR 0x0A] @ ''    user_id: Optional[str],'' @ [CHR 0x0A] @ ''    product_id: str,'' @ [CHR 0x0A] @ ''    **options: Any,'' @ [CHR 0x0A] @ '') -> EventInput'',
      sm_doc = [],
      sm_params =
        [\<lparr>sq_name = ''user_id'', sq_type = ''Optional[str]'', sq_default = None, sq_required = True, sq_kind = ''positional'', sq_description = None\<rparr>,
         \<lparr>sq_name = ''product_id'', sq_type = ''str'', sq_default = None, sq_required = True, sq_kind = ''positional'', sq_description = None\<rparr>,
         \<lparr>sq_name = ''**options'', sq_type = ''Any'', sq_default = None, sq_required = False, sq_kind = ''kwargs'', sq_description = None\<rparr>],
      sm_returns = ''EventInput'',
      sm_routes =
        []\<rparr>"

definition sdk_tracker_flush :: SdkMethod where
  "sdk_tracker_flush =
     \<lparr>sm_name = ''flush'', sm_call = ''tracker.flush'',
      sm_signature = ''tracker.flush() -> Optional[EventBatchResult]'',
      sm_doc = ''Send every queued event now. Returns `None` when nothing was queued.'',
      sm_params =
        [],
      sm_returns = ''Optional[EventBatchResult]'',
      sm_routes =
        []\<rparr>"

definition sdk_tracker_close :: SdkMethod where
  "sdk_tracker_close =
     \<lparr>sm_name = ''close'', sm_call = ''tracker.close'',
      sm_signature = ''tracker.close() -> None'',
      sm_doc = ''Stop the background thread (if any) and flush remaining events.'',
      sm_params =
        [],
      sm_returns = ''None'',
      sm_routes =
        []\<rparr>"

definition sdk_resource_ecommerce_eventtracker :: SdkResource where
  "sdk_resource_ecommerce_eventtracker =
     \<lparr>sx_id = ''ecommerce-eventtracker'', sx_path = ''graphrec_sdk.ecommerce.EventTracker'', sx_title = ''EventTracker'',
      sx_className = ''EventTracker'', sx_asyncClass = Some ''AsyncEventTracker'',
      sx_doc = ''Thread-safe buffered tracker for the synchronous `GraphRec` client.'' @ [CHR 0x0A, CHR 0x0A] @ '':param batch_size: flush automatically once this many events are queued.'' @ [CHR 0x0A] @ '':param flush_interval: seconds between background flushes (`None` = no thread).'' @ [CHR 0x0A] @ '':param max_queue_size: oldest events are dropped beyond this bound.'' @ [CHR 0x0A] @ '':param on_error: called with `(exception, events)` when a flush fails; the'' @ [CHR 0x0A] @ ''    events are then discarded. Without a handler, failed events are'' @ [CHR 0x0A] @ ''    re-queued and the exception propagates from `flush`.'' @ [CHR 0x0A] @ '':param default_context: merged into every event'' @ [CHR 0x27] @ ''s `context` (e.g. `{'' @ [CHR 0x22] @ ''channel'' @ [CHR 0x22] @ '': '' @ [CHR 0x22] @ ''web'' @ [CHR 0x22] @ ''}`).'',
      sx_ctor = Some (''EventTracker('' @ [CHR 0x0A] @ ''    client: GraphRec,'' @ [CHR 0x0A] @ ''    *,'' @ [CHR 0x0A] @ ''    batch_size: int = 100,'' @ [CHR 0x0A] @ ''    flush_interval: Optional[float] = None,'' @ [CHR 0x0A] @ ''    max_queue_size: int = 10000,'' @ [CHR 0x0A] @ ''    on_error: Optional[ErrorHandler] = None,'' @ [CHR 0x0A] @ ''    default_context: Optional[Mapping[str, Any]] = None,'' @ [CHR 0x0A] @ '') -> None''),
      sx_contextManager = Some True,
      sx_methods =
        [sdk_tracker_track, sdk_tracker_view, sdk_tracker_click, sdk_tracker_add_to_cart,
         sdk_tracker_remove_from_cart, sdk_tracker_purchase, sdk_tracker_rating, sdk_tracker_search,
         sdk_tracker_add_to_wishlist, sdk_tracker_flush, sdk_tracker_close]\<rparr>"

definition sdk_sync_run :: SdkMethod where
  "sdk_sync_run =
     \<lparr>sm_name = ''run'', sm_call = ''sync.run'',
      sm_signature = ''sync.run('' @ [CHR 0x0A] @ ''    products: Iterable[ProductLike],'' @ [CHR 0x0A] @ ''    *,'' @ [CHR 0x0A] @ ''    disable_missing: bool = False,'' @ [CHR 0x0A] @ ''    allow_empty: bool = False,'' @ [CHR 0x0A] @ ''    idempotency_key: Optional[str] = None,'' @ [CHR 0x0A] @ '') -> CatalogSyncReport'',
      sm_doc = [],
      sm_params =
        [\<lparr>sq_name = ''products'', sq_type = ''Iterable[ProductLike]'', sq_default = None, sq_required = True, sq_kind = ''positional'', sq_description = None\<rparr>,
         \<lparr>sq_name = ''disable_missing'', sq_type = ''bool'', sq_default = Some ''False'', sq_required = False, sq_kind = ''keyword'', sq_description = None\<rparr>,
         \<lparr>sq_name = ''allow_empty'', sq_type = ''bool'', sq_default = Some ''False'', sq_required = False, sq_kind = ''keyword'', sq_description = None\<rparr>,
         \<lparr>sq_name = ''idempotency_key'', sq_type = ''Optional[str]'', sq_default = Some ''None'', sq_required = False, sq_kind = ''keyword'', sq_description = None\<rparr>],
      sm_returns = ''CatalogSyncReport'',
      sm_routes =
        []\<rparr>"

definition sdk_resource_ecommerce_catalogsync :: SdkResource where
  "sdk_resource_ecommerce_catalogsync =
     \<lparr>sx_id = ''ecommerce-catalogsync'', sx_path = ''graphrec_sdk.ecommerce.CatalogSync'', sx_title = ''CatalogSync'',
      sx_className = ''CatalogSync'', sx_asyncClass = Some ''AsyncCatalogSync'',
      sx_doc = [],
      sx_ctor = Some ''CatalogSync(client: GraphRec) -> None'',
      sx_contextManager = Some False,
      sx_methods =
        [sdk_sync_run]\<rparr>"

definition sdk_session_recommend :: SdkMethod where
  "sdk_session_recommend =
     \<lparr>sm_name = ''recommend'', sm_call = ''session.recommend'',
      sm_signature = ''session.recommend('' @ [CHR 0x0A] @ ''    *,'' @ [CHR 0x0A] @ ''    user_id: Optional[str] = None,'' @ [CHR 0x0A] @ ''    session_id: Optional[str] = None,'' @ [CHR 0x0A] @ ''    recent_product_ids: Optional[Sequence[str]] = None,'' @ [CHR 0x0A] @ ''    top_n: int = 10,'' @ [CHR 0x0A] @ ''    context: Optional[Mapping[str, Any]] = None,'' @ [CHR 0x0A] @ ''    exclude_product_ids: Optional[Sequence[str]] = None,'' @ [CHR 0x0A] @ '') -> Recommendations'',
      sm_doc = ''Personalized results for `user_id`, or session-based when `session_id` is given.'',
      sm_params =
        [\<lparr>sq_name = ''user_id'', sq_type = ''Optional[str]'', sq_default = Some ''None'', sq_required = False, sq_kind = ''keyword'', sq_description = None\<rparr>,
         \<lparr>sq_name = ''session_id'', sq_type = ''Optional[str]'', sq_default = Some ''None'', sq_required = False, sq_kind = ''keyword'', sq_description = None\<rparr>,
         \<lparr>sq_name = ''recent_product_ids'', sq_type = ''Optional[Sequence[str]]'', sq_default = Some ''None'', sq_required = False, sq_kind = ''keyword'', sq_description = None\<rparr>,
         \<lparr>sq_name = ''top_n'', sq_type = ''int'', sq_default = Some ''10'', sq_required = False, sq_kind = ''keyword'', sq_description = None\<rparr>,
         \<lparr>sq_name = ''context'', sq_type = ''Optional[Mapping[str, Any]]'', sq_default = Some ''None'', sq_required = False, sq_kind = ''keyword'', sq_description = None\<rparr>,
         \<lparr>sq_name = ''exclude_product_ids'', sq_type = ''Optional[Sequence[str]]'', sq_default = Some ''None'', sq_required = False, sq_kind = ''keyword'', sq_description = None\<rparr>],
      sm_returns = ''Recommendations'',
      sm_routes =
        []\<rparr>"

definition sdk_session_impression :: SdkMethod where
  "sdk_session_impression =
     \<lparr>sm_name = ''impression'', sm_call = ''session.impression'',
      sm_signature = ''session.impression(recs: Recommendations, **options: Any) -> FeedbackReceipt'',
      sm_doc = [],
      sm_params =
        [\<lparr>sq_name = ''recs'', sq_type = ''Recommendations'', sq_default = None, sq_required = True, sq_kind = ''positional'', sq_description = None\<rparr>,
         \<lparr>sq_name = ''**options'', sq_type = ''Any'', sq_default = None, sq_required = False, sq_kind = ''kwargs'', sq_description = None\<rparr>],
      sm_returns = ''FeedbackReceipt'',
      sm_routes =
        []\<rparr>"

definition sdk_session_click :: SdkMethod where
  "sdk_session_click =
     \<lparr>sm_name = ''click'', sm_call = ''session.click'',
      sm_signature = ''session.click('' @ [CHR 0x0A] @ ''    recs: Recommendations,'' @ [CHR 0x0A] @ ''    product_id: str,'' @ [CHR 0x0A] @ ''    **options: Any,'' @ [CHR 0x0A] @ '') -> FeedbackReceipt'',
      sm_doc = [],
      sm_params =
        [\<lparr>sq_name = ''recs'', sq_type = ''Recommendations'', sq_default = None, sq_required = True, sq_kind = ''positional'', sq_description = None\<rparr>,
         \<lparr>sq_name = ''product_id'', sq_type = ''str'', sq_default = None, sq_required = True, sq_kind = ''positional'', sq_description = None\<rparr>,
         \<lparr>sq_name = ''**options'', sq_type = ''Any'', sq_default = None, sq_required = False, sq_kind = ''kwargs'', sq_description = None\<rparr>],
      sm_returns = ''FeedbackReceipt'',
      sm_routes =
        []\<rparr>"

definition sdk_session_convert :: SdkMethod where
  "sdk_session_convert =
     \<lparr>sm_name = ''convert'', sm_call = ''session.convert'',
      sm_signature = ''session.convert('' @ [CHR 0x0A] @ ''    recs: Recommendations,'' @ [CHR 0x0A] @ ''    product_id: str,'' @ [CHR 0x0A] @ ''    *,'' @ [CHR 0x0A] @ ''    value: Optional[Money] = None,'' @ [CHR 0x0A] @ ''    **options: Any,'' @ [CHR 0x0A] @ '') -> FeedbackReceipt'',
      sm_doc = [],
      sm_params =
        [\<lparr>sq_name = ''recs'', sq_type = ''Recommendations'', sq_default = None, sq_required = True, sq_kind = ''positional'', sq_description = None\<rparr>,
         \<lparr>sq_name = ''product_id'', sq_type = ''str'', sq_default = None, sq_required = True, sq_kind = ''positional'', sq_description = None\<rparr>,
         \<lparr>sq_name = ''value'', sq_type = ''Optional[Money]'', sq_default = Some ''None'', sq_required = False, sq_kind = ''keyword'', sq_description = None\<rparr>,
         \<lparr>sq_name = ''**options'', sq_type = ''Any'', sq_default = None, sq_required = False, sq_kind = ''kwargs'', sq_description = None\<rparr>],
      sm_returns = ''FeedbackReceipt'',
      sm_routes =
        []\<rparr>"

definition sdk_resource_ecommerce_recommendationsession :: SdkResource where
  "sdk_resource_ecommerce_recommendationsession =
     \<lparr>sx_id = ''ecommerce-recommendationsession'', sx_path = ''graphrec_sdk.ecommerce.RecommendationSession'', sx_title = ''RecommendationSession'',
      sx_className = ''RecommendationSession'', sx_asyncClass = Some ''AsyncRecommendationSession'',
      sx_doc = ''Fetch recommendations and send impression/click/conversion feedback consistently.'',
      sx_ctor = Some (''RecommendationSession('' @ [CHR 0x0A] @ ''    client: GraphRec,'' @ [CHR 0x0A] @ ''    *,'' @ [CHR 0x0A] @ ''    auto_impression: bool = True,'' @ [CHR 0x0A] @ ''    remember: int = 1000,'' @ [CHR 0x0A] @ '') -> None''),
      sx_contextManager = Some False,
      sx_methods =
        [sdk_session_recommend, sdk_session_impression, sdk_session_click, sdk_session_convert]\<rparr>"

section \<open>The reference\<close>

definition SDK_CLIENT_PARAMS :: "SdkParam list" where
  "SDK_CLIENT_PARAMS =
     [\<lparr>sq_name = ''base_url'', sq_type = ''Optional[str]'', sq_default = Some ''None'', sq_required = False, sq_kind = ''keyword'', sq_description = Some ''API origin. Falls back to $GRAPHREC_BASE_URL, then http://localhost:8010.''\<rparr>,
      \<lparr>sq_name = ''api_key'', sq_type = ''Optional[str]'', sq_default = Some ''None'', sq_required = False, sq_kind = ''keyword'', sq_description = Some (''Storefront or integration API key (gr_live_'' @ [CHR 0xE2, CHR 0x80, CHR 0xA6] @ ''). Falls back to $GRAPHREC_API_KEY.'')\<rparr>,
      \<lparr>sq_name = ''access_token'', sq_type = ''Optional[str]'', sq_default = Some ''None'', sq_required = False, sq_kind = ''keyword'', sq_description = Some ''Bearer token, e.g. a console access token or PLATFORM_ADMIN_TOKEN. Falls back to $GRAPHREC_ACCESS_TOKEN.''\<rparr>,
      \<lparr>sq_name = ''email'', sq_type = ''Optional[str]'', sq_default = Some ''None'', sq_required = False, sq_kind = ''keyword'', sq_description = Some ''Tenant user email. With password, the SDK logs in and renews the token before it expires.''\<rparr>,
      \<lparr>sq_name = ''password'', sq_type = ''Optional[str]'', sq_default = Some ''None'', sq_required = False, sq_kind = ''keyword'', sq_description = Some ''Tenant user password (used together with email).''\<rparr>,
      \<lparr>sq_name = ''auth'', sq_type = ''Optional[Auth]'', sq_default = Some ''None'', sq_required = False, sq_kind = ''keyword'', sq_description = Some ''A custom Auth object (ApiKeyAuth, BearerTokenAuth, PasswordAuth) instead of the shortcuts above.''\<rparr>,
      \<lparr>sq_name = ''timeout'', sq_type = ''TimeoutTypes'', sq_default = Some ''30 s (connect 5 s)'', sq_required = False, sq_kind = ''keyword'', sq_description = Some ''httpx timeout. Default: 30 s total, 5 s connect.''\<rparr>,
      \<lparr>sq_name = ''max_retries'', sq_type = ''int'', sq_default = Some ''2'', sq_required = False, sq_kind = ''keyword'', sq_description = Some ''Retries for transient failures (429, 5xx, timeouts) on idempotent requests, with exponential backoff that honours Retry-After.''\<rparr>,
      \<lparr>sq_name = ''retry_policy'', sq_type = ''Optional[RetryPolicy]'', sq_default = Some ''None'', sq_required = False, sq_kind = ''keyword'', sq_description = Some ''A RetryPolicy for full control over retries; overrides max_retries.''\<rparr>,
      \<lparr>sq_name = ''max_body_bytes'', sq_type = ''int'', sq_default = Some ''16384'', sq_required = False, sq_kind = ''keyword'', sq_description = Some (''Largest JSON body the bulk helpers send in one request (mirrors the server'' @ [CHR 0x27] @ ''s 16 KiB limit).'')\<rparr>,
      \<lparr>sq_name = ''max_batch_items'', sq_type = ''int'', sq_default = Some ''500'', sq_required = False, sq_kind = ''keyword'', sq_description = Some ''Most items the bulk helpers put in one request, independent of the byte budget.''\<rparr>,
      \<lparr>sq_name = ''default_headers'', sq_type = ''Optional[Mapping[str, str]]'', sq_default = Some ''None'', sq_required = False, sq_kind = ''keyword'', sq_description = Some ''Extra headers sent on every request.''\<rparr>,
      \<lparr>sq_name = ''http_client'', sq_type = ''Optional[httpx.Client]'', sq_default = Some ''None'', sq_required = False, sq_kind = ''keyword'', sq_description = Some ''Bring your own httpx client (proxies, mTLS, transport mocks). The SDK does not close it.''\<rparr>,
      \<lparr>sq_name = ''use_env'', sq_type = ''bool'', sq_default = Some ''True'', sq_required = False, sq_kind = ''keyword'', sq_description = Some ''Read GRAPHREC_* environment variables for omitted arguments.''\<rparr>]"

definition SDK_ERRORS :: "SdkError list" where
  "SDK_ERRORS =
     [\<lparr>xe_name = ''GraphRecError'', xe_base = ''Exception'',
        xe_doc = ''Base class for every error raised by the SDK.'',
        xe_statuses = [], xe_codes = []\<rparr>,
      \<lparr>xe_name = ''APIError'', xe_base = ''GraphRecError'',
        xe_doc = ''A request reached (or tried to reach) the GraphRec API and failed.'',
        xe_statuses = [], xe_codes = []\<rparr>,
      \<lparr>xe_name = ''ConfigurationError'', xe_base = ''GraphRecError'',
        xe_doc = ''The client is not configured for the requested call (e.g. missing credentials).'',
        xe_statuses = [], xe_codes = []\<rparr>,
      \<lparr>xe_name = ''APIConnectionError'', xe_base = ''APIError'',
        xe_doc = ''The API could not be reached (DNS, refused connection, TLS, reset...).'',
        xe_statuses = [], xe_codes = []\<rparr>,
      \<lparr>xe_name = ''APIResponseValidationError'', xe_base = ''APIError'',
        xe_doc = ''A success response did not match the schema the SDK expects.'',
        xe_statuses = [], xe_codes = []\<rparr>,
      \<lparr>xe_name = ''APIStatusError'', xe_base = ''APIError'',
        xe_doc = ''The API answered with a non-success HTTP status.'',
        xe_statuses = [], xe_codes = []\<rparr>,
      \<lparr>xe_name = ''InputValidationError'', xe_base = ''GraphRecError'',
        xe_doc = ''Arguments failed client-side validation before any request was sent.'',
        xe_statuses = [], xe_codes = []\<rparr>,
      \<lparr>xe_name = ''APITimeoutError'', xe_base = ''APIConnectionError'',
        xe_doc = ''The request timed out.'',
        xe_statuses = [], xe_codes = []\<rparr>,
      \<lparr>xe_name = ''AuthenticationError'', xe_base = ''APIStatusError'',
        xe_doc = ''HTTP 401 - the credential is missing, invalid, revoked or expired.'',
        xe_statuses = [401], xe_codes = [''authentication_failed'', ''invalid_recovery_token'', ''invalid_setup_token'']\<rparr>,
      \<lparr>xe_name = ''ConflictError'', xe_base = ''APIStatusError'',
        xe_doc = ''HTTP 409 - base class for conflicts.'',
        xe_statuses = [409], xe_codes = []\<rparr>,
      \<lparr>xe_name = ''InternalServerError'', xe_base = ''APIStatusError'',
        xe_doc = ''HTTP 5xx without a more specific code.'',
        xe_statuses = [], xe_codes = []\<rparr>,
      \<lparr>xe_name = ''MalformedRequestError'', xe_base = ''APIStatusError'',
        xe_doc = ''HTTP 400 `malformed_request` - headers or JSON body were rejected.'',
        xe_statuses = [400], xe_codes = [''malformed_request'']\<rparr>,
      \<lparr>xe_name = ''NotFoundError'', xe_base = ''APIStatusError'',
        xe_doc = ''HTTP 404 `resource_not_found`.'',
        xe_statuses = [404], xe_codes = [''artifact_not_found'', ''resource_not_found'']\<rparr>]"

definition SDK_HTTP_ERRORS :: "SdkError list" where
  "SDK_HTTP_ERRORS =
     [\<lparr>xe_name = ''PayloadTooLargeError'', xe_base = ''APIStatusError'',
        xe_doc = ''HTTP 413 `payload_too_large` - the body exceeded the server'' @ [CHR 0x27] @ ''s limit.'',
        xe_statuses = [413], xe_codes = [''payload_too_large'']\<rparr>,
      \<lparr>xe_name = ''PermissionDeniedError'', xe_base = ''APIStatusError'',
        xe_doc = ''HTTP 403 `insufficient_scope` - the credential lacks a required scope.'',
        xe_statuses = [403], xe_codes = [''insufficient_role'', ''insufficient_scope'']\<rparr>,
      \<lparr>xe_name = ''QuotaExceededError'', xe_base = ''APIStatusError'',
        xe_doc = ''HTTP 429 `quota_exceeded` - a plan or tenant quota is exhausted (not retryable).'',
        xe_statuses = [], xe_codes = [''quota_exceeded'']\<rparr>,
      \<lparr>xe_name = ''RateLimitError'', xe_base = ''APIStatusError'',
        xe_doc = ''HTTP 429 `rate_limit_exceeded` - retry after `retry_after_seconds`.'',
        xe_statuses = [429], xe_codes = [''rate_limit_exceeded'']\<rparr>,
      \<lparr>xe_name = ''RequestValidationError'', xe_base = ''APIStatusError'',
        xe_doc = ''HTTP 422 `validation_failed` - one or more fields are invalid.'',
        xe_statuses = [422], xe_codes = [''validation_failed'']\<rparr>,
      \<lparr>xe_name = ''WaitTimeoutError'', xe_base = ''GraphRecError'',
        xe_doc = ''A polling helper such as `training_jobs.wait()` gave up before completion.'',
        xe_statuses = [], xe_codes = []\<rparr>,
      \<lparr>xe_name = ''DuplicateResourceError'', xe_base = ''ConflictError'',
        xe_doc = ''HTTP 409 `duplicate_resource` - e.g. an API-key name or version tag is taken.'',
        xe_statuses = [], xe_codes = [''duplicate_resource'']\<rparr>,
      \<lparr>xe_name = ''IdempotencyConflictError'', xe_base = ''ConflictError'',
        xe_doc = ''HTTP 409 `idempotency_conflict` - an Idempotency-Key was reused with a new body.'',
        xe_statuses = [], xe_codes = [''idempotency_conflict'']\<rparr>,
      \<lparr>xe_name = ''LimitBelowUsageError'', xe_base = ''ConflictError'',
        xe_doc = ''HTTP 409 `limit_below_usage` - a platform limit change would leave tenants above an'' @ [CHR 0x0A] @ ''inventory limit. Nothing was changed; resend with `acknowledge_below_usage=True` to apply.'',
        xe_statuses = [], xe_codes = [''limit_below_usage'']\<rparr>,
      \<lparr>xe_name = ''ServiceUnavailableError'', xe_base = ''InternalServerError'',
        xe_doc = ''HTTP 503 `service_unavailable` - a dependency is temporarily unavailable.'',
        xe_statuses = [503], xe_codes = [''service_unavailable'']\<rparr>,
      \<lparr>xe_name = ''StateConflictError'', xe_base = ''ConflictError'',
        xe_doc = ''HTTP 409 `state_conflict` / `conflict` - the resource is in the wrong state.'',
        xe_statuses = [], xe_codes = [''conflict'', ''state_conflict'']\<rparr>,
      \<lparr>xe_name = ''TokenExpiredError'', xe_base = ''AuthenticationError'',
        xe_doc = ''HTTP 401 `token_expired` - the bearer access token has expired.'',
        xe_statuses = [], xe_codes = [''token_expired'']\<rparr>]"

definition SDK_ENUMS :: "(string \<times> string list) list" where
  "SDK_ENUMS =
     [(''ApiKeyStatus'', [''active'', ''expired'', ''revoked'']),
      (''AvailabilityStatus'', [''available'', ''unavailable'', ''out_of_stock'', ''discontinued'']),
      (''EventType'', [''view'', ''click'', ''add_to_cart'', ''remove_from_cart'', ''purchase'', ''rating'', ''search'',
         ''add_to_wishlist'']),
      (''FallbackTier'', [''none'', ''tenant_popular'']),
      (''FeedbackType'', [''impression'', ''click'', ''conversion'']),
      (''ModelStatus'', [''eligible'', ''active'', ''retired'', ''archived'']),
      (''PlanCode'', [''free'', ''basic'', ''pro'']),
      (''RecommendationStrategy'', [''personalized'', ''popular_fallback'']),
      (''TenantStatus'', [''active'', ''suspended'', ''deleting'', ''deleted'']),
      (''TrainingStatus'', [''queued'', ''preparing_data'', ''training'', ''succeeded'', ''failed'', ''cancelled'']),
      (''UsageType'', [''accepted_events'', ''recommendation_requests'', ''training_jobs'', ''training_cpu_seconds'',
         ''stored_products'', ''artifact_storage_bytes'', ''active_model_versions'', ''inference_replicas'',
         ''replica_runtime_minutes'']),
      (''UserRole'', [''tenant_administrator'', ''tenant_developer''])]"

definition SDK_SCOPE_SETS :: "(string \<times> (string list + (string \<times> string list) list)) list" where
  "SDK_SCOPE_SETS =
     [(''STOREFRONT_KEY_SCOPES'',
        Inl [''catalog:read'', ''catalog:write'', ''events:read'', ''events:write'', ''recommendations:read'']),
      (''CATALOG_SYNC_KEY_SCOPES'',
        Inl [''catalog:read'', ''catalog:write'']),
      (''API_KEY_SCOPES'',
        Inl [''billing:read'', ''catalog:read'', ''catalog:write'', ''deployments:read'', ''events:read'',
         ''events:write'', ''metrics:read'', ''models:deploy'', ''models:read'', ''models:write'',
         ''recommendations:read'', ''training:read'', ''training:write'', ''usage:read'']),
      (''DELEGATABLE_SCOPES'',
        Inr [(''tenant_administrator'', [''billing:read'', ''catalog:read'', ''catalog:write'', ''deployments:read'', ''events:read'',
          ''events:write'', ''metrics:read'', ''models:deploy'', ''models:read'', ''models:write'',
          ''recommendations:read'', ''training:read'', ''training:write'', ''usage:read'']),
         (''tenant_developer'', [''catalog:read'', ''catalog:write'', ''events:read'', ''events:write'', ''recommendations:read''])]),
      (''ROLE_SCOPES'',
        Inr [(''tenant_administrator'', [''audit:read'', ''billing:read'', ''billing:write'', ''catalog:read'', ''catalog:write'',
          ''deployments:read'', ''events:read'', ''events:write'', ''keys:write'', ''metrics:read'',
          ''models:deploy'', ''models:read'', ''models:write'', ''recommendations:read'', ''training:read'',
          ''training:write'', ''usage:read'', ''users:write'']),
         (''tenant_developer'', [''catalog:read'', ''catalog:write'', ''events:read'', ''events:write'', ''keys:write'', ''training:read''])])]"

definition SDK_REFERENCE :: SdkReference where
  "SDK_REFERENCE =
     \<lparr>sdk_version = ''1.2.0'', sdk_package = ''graphrec-sdk'', sdk_requiresPython = ''>=3.9'', sdk_dependencies = [''httpx>=0.25,<1'', ''pydantic>=2.5,<3''],
      sdk_constants =
        [(''DEFAULT_BASE_URL'', JStr ''http://localhost:8010''),
         (''DEFAULT_MAX_RETRIES'', JNum 2),
         (''DEFAULT_MAX_BODY_BYTES'', JNum 16384),
         (''DEFAULT_MAX_BATCH_ITEMS'', JNum 500),
         (''MAX_RETRY_AFTER_SECONDS'', JNum 60),
         (''TOKEN_EXPIRY_SKEW_SECONDS'', JNum 30),
         (''API_KEY_PREFIX'', JStr ''gr_live_''),
         (''ENV_BASE_URL'', JStr ''GRAPHREC_BASE_URL''),
         (''ENV_API_KEY'', JStr ''GRAPHREC_API_KEY''),
         (''ENV_ACCESS_TOKEN'', JStr ''GRAPHREC_ACCESS_TOKEN''),
         (''HEADER_CORRELATION_ID'', JStr ''X-Correlation-ID''),
         (''HEADER_IDEMPOTENCY_KEY'', JStr ''Idempotency-Key'')],
      sdk_clientDoc =
        ''Synchronous GraphRec client.'' @ [CHR 0x0A, CHR 0x0A] @ ''Resources are grouped by audience: `client.storefront` (events,'' @ [CHR 0x0A] @ ''recommendations, feedback), `client.tenant` (tenant administration) and'' @ [CHR 0x0A] @ ''`client.platform` (cross-tenant operations).'' @ [CHR 0x0A, CHR 0x0A] @ ''Storefront backend (API key)::'' @ [CHR 0x0A, CHR 0x0A] @ ''    from graphrec_sdk import GraphRec'' @ [CHR 0x0A, CHR 0x0A] @ ''    client = GraphRec(base_url='' @ [CHR 0x22] @ ''https://graphrec.example.com'' @ [CHR 0x22] @ '', api_key='' @ [CHR 0x22] @ ''gr_live_...'' @ [CHR 0x22] @ '')'' @ [CHR 0x0A] @ ''    recs = client.storefront.recommendations.get(user_id='' @ [CHR 0x22] @ ''customer-42'' @ [CHR 0x22] @ '', top_n=8)'' @ [CHR 0x0A, CHR 0x0A] @ ''Tenant administration (auto-login, token renewed before expiry)::'' @ [CHR 0x0A, CHR 0x0A] @ ''    admin = GraphRec(email='' @ [CHR 0x22] @ ''admin@shop.example'' @ [CHR 0x22] @ '', password='' @ [CHR 0x22] @ ''...'' @ [CHR 0x22] @ '')'' @ [CHR 0x0A] @ ''    key = admin.tenant.api_keys.create(name='' @ [CHR 0x22] @ ''storefront'' @ [CHR 0x22] @ '', scopes=STOREFRONT_KEY_SCOPES)'' @ [CHR 0x0A, CHR 0x0A] @ ''Platform operations (`PLATFORM_ADMIN_TOKEN`)::'' @ [CHR 0x0A, CHR 0x0A] @ ''    ops = GraphRec(access_token=os.environ['' @ [CHR 0x22] @ ''PLATFORM_ADMIN_TOKEN'' @ [CHR 0x22] @ ''])'' @ [CHR 0x0A] @ ''    for t in ops.platform.tenants.list():'' @ [CHR 0x0A] @ ''        print(t.slug, t.status)'' @ [CHR 0x0A, CHR 0x0A] @ ''Credentials fall back to `GRAPHREC_API_KEY` / `GRAPHREC_ACCESS_TOKEN` and the'' @ [CHR 0x0A] @ ''URL to `GRAPHREC_BASE_URL` (default `http://localhost:8010`).'',
      sdk_clientParams = SDK_CLIENT_PARAMS,
      sdk_clientMethods =
        [sdk_client_health, sdk_client_ready, sdk_client_meta, sdk_client_plans, sdk_client_with_credentials,
         sdk_client_close],
      sdk_namespaces =
        [\<lparr>ns_name = ''storefront'', ns_path = ''client.storefront'',
           ns_doc = ''Calls your shop'' @ [CHR 0x27] @ ''s site or backend makes with a storefront API key.'',
           ns_resources =
             [sdk_resource_client_storefront_events, sdk_resource_client_storefront_recommendations,
              sdk_resource_client_storefront_feedback]\<rparr>,
         \<lparr>ns_name = ''tenant'', ns_path = ''client.tenant'',
           ns_doc = ''Administration of one tenant, chosen by the credential (usually email + password).'',
           ns_resources =
             [sdk_resource_client_tenant_auth, sdk_resource_client_tenant_users, sdk_resource_client_tenant_api_keys,
              sdk_resource_client_tenant_subscription, sdk_resource_client_tenant_usage,
              sdk_resource_client_tenant_catalog, sdk_resource_client_tenant_datasets,
              sdk_resource_client_tenant_model_versions, sdk_resource_client_tenant_training_jobs,
              sdk_resource_client_tenant_retraining_policy, sdk_resource_client_tenant_recommendation_policy,
              sdk_resource_client_tenant_deployment, sdk_resource_client_tenant_metrics,
              sdk_resource_client_tenant_account, sdk_resource_client_tenant_audit]\<rparr>,
         \<lparr>ns_name = ''platform'', ns_path = ''client.platform'',
           ns_doc = ''Cross-tenant operations for the platform operator.'',
           ns_resources =
             [sdk_resource_client_platform, sdk_resource_client_platform_tenants, sdk_resource_client_platform_plans,
              sdk_resource_client_platform_plan_requests, sdk_resource_client_platform_operators]\<rparr>],
      sdk_helpers =
        [sdk_resource_ecommerce_eventbuilder, sdk_resource_ecommerce_eventtracker,
         sdk_resource_ecommerce_catalogsync, sdk_resource_ecommerce_recommendationsession],
      sdk_errors = SDK_ERRORS @ SDK_HTTP_ERRORS, sdk_enums = SDK_ENUMS, sdk_scopeSets = SDK_SCOPE_SETS,
      sdk_examples =
        [(''sdks/python/examples/catalog_sync_job.py'',
          ''Nightly catalog sync from a CSV export (e.g. Shopify/WooCommerce/ERP).''),
         (''sdks/python/examples/end_to_end_smoke.py'',
          ''End-to-end smoke test against a running GraphRec stack (docker compose up).''),
         (''sdks/python/examples/fastapi_storefront.py'',
          ''Async integration inside a FastAPI storefront backend.''),
         (''sdks/python/examples/order_webhook.py'',
          ''Turn an order webhook into purchase events that are safe to replay.''),
         (''sdks/python/examples/platform_admin.py'',
          ''Platform operations: tenants, plans, quota overrides, failures and audit.''),
         (''sdks/python/examples/storefront_quickstart.py'',
          ''Storefront integration in ~40 lines: catalog, events, recommendations, feedback.''),
         (''sdks/python/examples/tenant_onboarding.py'',
          ''Register a tenant, activate its administrator with the setup token and mint a storefront API key.''),
         (''sdks/python/examples/train_and_deploy.py'',
          ''Snapshot data, train a DGSR model, review it and put it into service.'')],
      sdk_stats = \<lparr>st_methods = 96, st_routes = 90, st_routesCovered = 90, st_uncoveredRoutes = []\<rparr>\<rparr>"

lemmas sdk_method_defs =
  sdk_client_health_def sdk_client_ready_def sdk_client_meta_def
  sdk_client_plans_def sdk_client_with_credentials_def sdk_client_close_def
  sdk_client_storefront_events_create_def sdk_client_storefront_events_create_batch_def sdk_client_storefront_events_list_def
  sdk_client_storefront_events_list_batches_def sdk_client_storefront_events_get_batch_def sdk_client_storefront_recommendations_get_def
  sdk_client_storefront_recommendations_for_session_def sdk_client_storefront_feedback_impression_def sdk_client_storefront_feedback_click_def
  sdk_client_storefront_feedback_conversion_def sdk_client_tenant_auth_register_def sdk_client_tenant_auth_login_def
  sdk_client_tenant_auth_setup_password_def sdk_client_tenant_auth_recover_password_def sdk_client_tenant_auth_refresh_def
  sdk_client_tenant_auth_logout_def sdk_client_tenant_users_list_def sdk_client_tenant_users_invite_def
  sdk_client_tenant_users_get_def sdk_client_tenant_users_update_def sdk_client_tenant_users_resend_invitation_def
  sdk_client_tenant_users_revoke_invitation_def sdk_client_tenant_api_keys_list_def sdk_client_tenant_api_keys_get_def
  sdk_client_tenant_api_keys_create_def sdk_client_tenant_api_keys_rotate_def sdk_client_tenant_api_keys_revoke_def
  sdk_client_tenant_subscription_get_def sdk_client_tenant_subscription_list_requests_def sdk_client_tenant_subscription_request_plan_def
  sdk_client_tenant_subscription_cancel_request_def sdk_client_tenant_usage_get_def sdk_client_tenant_usage_trends_def
  sdk_client_tenant_catalog_bulk_upsert_def sdk_client_tenant_catalog_list_syncs_def sdk_client_tenant_catalog_get_sync_def
  sdk_client_tenant_catalog_list_def sdk_client_tenant_catalog_iterate_def sdk_client_tenant_catalog_get_def
  sdk_client_tenant_catalog_upsert_def sdk_client_tenant_catalog_update_def sdk_client_tenant_catalog_disable_def
  sdk_client_tenant_datasets_upload_def sdk_client_tenant_datasets_create_snapshot_def sdk_client_tenant_datasets_list_snapshots_def
  sdk_client_tenant_datasets_get_snapshot_def sdk_client_tenant_model_versions_create_def sdk_client_tenant_model_versions_list_def
  sdk_client_tenant_model_versions_get_def sdk_client_tenant_model_versions_get_active_def sdk_client_tenant_model_versions_activate_def
  sdk_client_tenant_model_versions_archive_def sdk_client_tenant_model_versions_rollback_def sdk_client_tenant_training_jobs_create_def
  sdk_client_tenant_training_jobs_list_def sdk_client_tenant_training_jobs_get_def sdk_client_tenant_training_jobs_cancel_def
  sdk_client_tenant_training_jobs_find_def sdk_client_tenant_training_jobs_wait_def sdk_client_tenant_retraining_policy_get_def
  sdk_client_tenant_retraining_policy_update_def sdk_client_tenant_recommendation_policy_get_def sdk_client_tenant_recommendation_policy_update_def
  sdk_client_tenant_deployment_get_def sdk_client_tenant_deployment_scaling_def sdk_client_tenant_metrics_summary_def
  sdk_client_tenant_account_status_def sdk_client_tenant_audit_list_def sdk_client_platform_status_def
  sdk_client_platform_list_usage_def sdk_client_platform_list_failures_def sdk_client_platform_list_audit_logs_def
  sdk_client_platform_tenants_list_def sdk_client_platform_tenants_get_def sdk_client_platform_tenants_set_status_def
  sdk_client_platform_tenants_get_quota_def sdk_client_platform_tenants_set_quota_override_def sdk_client_platform_tenants_assign_plan_def
  sdk_client_platform_tenants_get_usage_def sdk_client_platform_tenants_issue_recovery_def sdk_client_platform_plans_list_def
  sdk_client_platform_plans_update_def sdk_client_platform_plan_requests_list_def sdk_client_platform_plan_requests_approve_def
  sdk_client_platform_plan_requests_reject_def sdk_client_platform_operators_login_def sdk_client_platform_operators_me_def
  sdk_client_platform_operators_list_def sdk_client_platform_operators_create_def sdk_client_platform_operators_update_def
  sdk_builder_build_def sdk_builder_view_def sdk_builder_click_def
  sdk_builder_add_to_cart_def sdk_builder_remove_from_cart_def sdk_builder_purchase_def
  sdk_builder_rating_def sdk_builder_search_def sdk_builder_add_to_wishlist_def
  sdk_tracker_track_def sdk_tracker_view_def sdk_tracker_click_def
  sdk_tracker_add_to_cart_def sdk_tracker_remove_from_cart_def sdk_tracker_purchase_def
  sdk_tracker_rating_def sdk_tracker_search_def sdk_tracker_add_to_wishlist_def
  sdk_tracker_flush_def sdk_tracker_close_def sdk_sync_run_def
  sdk_session_recommend_def sdk_session_impression_def sdk_session_click_def
  sdk_session_convert_def

lemmas sdk_resource_defs =
  sdk_resource_client_storefront_events_def sdk_resource_client_storefront_recommendations_def sdk_resource_client_storefront_feedback_def
  sdk_resource_client_tenant_auth_def sdk_resource_client_tenant_users_def sdk_resource_client_tenant_api_keys_def
  sdk_resource_client_tenant_subscription_def sdk_resource_client_tenant_usage_def sdk_resource_client_tenant_catalog_def
  sdk_resource_client_tenant_datasets_def sdk_resource_client_tenant_model_versions_def sdk_resource_client_tenant_training_jobs_def
  sdk_resource_client_tenant_retraining_policy_def sdk_resource_client_tenant_recommendation_policy_def sdk_resource_client_tenant_deployment_def
  sdk_resource_client_tenant_metrics_def sdk_resource_client_tenant_account_def sdk_resource_client_tenant_audit_def
  sdk_resource_client_platform_def sdk_resource_client_platform_tenants_def sdk_resource_client_platform_plans_def
  sdk_resource_client_platform_plan_requests_def sdk_resource_client_platform_operators_def sdk_resource_ecommerce_eventbuilder_def
  sdk_resource_ecommerce_eventtracker_def sdk_resource_ecommerce_catalogsync_def sdk_resource_ecommerce_recommendationsession_def


end
