(* ===== verification/SdkCalls.thy ===== *)
theory SdkCalls
  imports DocsCalls SdkPlatform ConsoleEvents ConsoleModels ConsoleTenants ConsoleCatalog
begin

text \<open>
  The reference of the SDK (\<open>SdkTables\<close>, \<open>SdkPlatform\<close>) against the rest of the site: the documented endpoints, the page that
  shows it, and the scopes and vocabularies of the console.
\<close>

section \<open>Endpoints\<close>

text \<open>The endpoint of every route of the reference, in the order of the methods, and the method each endpoint names.\<close>

definition ROUTE_ENDPOINTS :: "EndpointDoc list" where
  "ROUTE_ENDPOINTS =
     [ep_get_healthz, ep_get_readyz, ep_get_v1_meta, ep_get_v1_plans, ep_post_v1_events, ep_post_v1_events_batches,
      ep_get_v1_events, ep_get_v1_events_batches, ep_get_v1_events_batches_batch_id, ep_post_v1_recommendations,
      ep_post_v1_recommendations_session, ep_post_v1_feedback_impressions, ep_post_v1_feedback_clicks,
      ep_post_v1_feedback_conversions, ep_post_v1_tenants, ep_post_v1_auth_login, ep_post_v1_auth_setup_password,
      ep_post_v1_auth_recover_password, ep_post_v1_auth_refresh, ep_post_v1_auth_logout, ep_get_v1_tenant_users,
      ep_post_v1_tenant_users, ep_get_v1_tenant_users_user_id, ep_patch_v1_tenant_users_user_id,
      ep_post_v1_tenant_users_user_id_invitation_resend, ep_delete_v1_tenant_users_user_id_invitation, ep_get_v1_api_keys,
      ep_get_v1_api_keys_key_id, ep_post_v1_api_keys, ep_post_v1_api_keys_key_id_rotate, ep_delete_v1_api_keys_key_id,
      ep_get_v1_subscription, ep_get_v1_subscription_requests, ep_post_v1_subscription_requests,
      ep_post_v1_subscription_requests_request_id_cancel, ep_get_v1_usage, ep_get_v1_usage_trends,
      ep_post_v1_products_bulk_upsert, ep_get_v1_catalog_syncs, ep_get_v1_catalog_syncs_sync_id, ep_get_v1_products,
      ep_get_v1_products, ep_get_v1_products_external_id, ep_put_v1_products_external_id,
      ep_patch_v1_products_external_id, ep_get_v1_products_external_id, ep_post_v1_products_external_id_disable,
      ep_post_v1_datasets_upload, ep_post_v1_datasets_snapshots, ep_get_v1_datasets_snapshots,
      ep_get_v1_datasets_snapshots_snapshot_id, ep_post_v1_model_versions, ep_get_v1_model_versions,
      ep_get_v1_model_versions_version_id, ep_get_v1_model_versions, ep_post_v1_model_versions_version_id_activate,
      ep_post_v1_model_versions_version_id_archive, ep_post_v1_model_versions_version_id_rollback,
      ep_post_v1_training_jobs, ep_get_v1_training_jobs, ep_get_v1_training_jobs_job_id,
      ep_post_v1_training_jobs_job_id_cancel, ep_get_v1_training_jobs_job_id, ep_get_v1_retraining_policy,
      ep_put_v1_retraining_policy, ep_get_v1_recommendation_policy, ep_put_v1_recommendation_policy, ep_get_v1_deployment,
      ep_get_v1_deployment_scaling, ep_get_v1_metrics_summary, ep_get_v1_tenant_status, ep_get_v1_audit,
      ep_get_v1_platform_status, ep_get_v1_platform_usage, ep_get_v1_platform_failures, ep_get_v1_platform_audit,
      ep_get_v1_platform_tenants, ep_get_v1_platform_tenants_tenant_id, ep_post_v1_platform_tenants_tenant_id_status,
      ep_get_v1_platform_tenants_tenant_id_quotas, ep_post_v1_platform_tenants_tenant_id_quotas,
      ep_post_v1_platform_tenants_tenant_id_plan, ep_get_v1_platform_tenants_tenant_id_usage,
      ep_post_v1_platform_tenants_tenant_id_recovery, ep_get_v1_platform_plans, ep_put_v1_platform_plans_plan_id,
      ep_get_v1_platform_plan_requests, ep_post_v1_platform_plan_requests_request_id_approve,
      ep_post_v1_platform_plan_requests_request_id_reject, ep_post_v1_platform_auth_login, ep_get_v1_platform_me,
      ep_get_v1_platform_operators, ep_post_v1_platform_operators, ep_patch_v1_platform_operators_operator_id]"

definition LINKED :: "(EndpointDoc \<times> SdkMethod) list" where
  "LINKED =
     [(ep_get_v1_api_keys, sdk_client_tenant_api_keys_list), (ep_post_v1_api_keys, sdk_client_tenant_api_keys_create),
      (ep_delete_v1_api_keys_key_id, sdk_client_tenant_api_keys_revoke),
      (ep_get_v1_api_keys_key_id, sdk_client_tenant_api_keys_get),
      (ep_post_v1_api_keys_key_id_rotate, sdk_client_tenant_api_keys_rotate),
      (ep_get_v1_audit, sdk_client_tenant_audit_list), (ep_post_v1_auth_login, sdk_client_tenant_auth_login),
      (ep_post_v1_auth_logout, sdk_client_tenant_auth_logout),
      (ep_post_v1_auth_recover_password, sdk_client_tenant_auth_recover_password),
      (ep_post_v1_auth_refresh, sdk_client_tenant_auth_refresh),
      (ep_post_v1_auth_setup_password, sdk_client_tenant_auth_setup_password),
      (ep_get_v1_catalog_syncs, sdk_client_tenant_catalog_list_syncs),
      (ep_get_v1_catalog_syncs_sync_id, sdk_client_tenant_catalog_get_sync),
      (ep_get_v1_datasets_snapshots, sdk_client_tenant_datasets_list_snapshots),
      (ep_post_v1_datasets_snapshots, sdk_client_tenant_datasets_create_snapshot),
      (ep_get_v1_datasets_snapshots_snapshot_id, sdk_client_tenant_datasets_get_snapshot),
      (ep_post_v1_datasets_upload, sdk_client_tenant_datasets_upload),
      (ep_get_v1_deployment, sdk_client_tenant_deployment_get),
      (ep_get_v1_deployment_scaling, sdk_client_tenant_deployment_scaling),
      (ep_get_v1_events, sdk_client_storefront_events_list), (ep_post_v1_events, sdk_client_storefront_events_create),
      (ep_get_v1_events_batches, sdk_client_storefront_events_list_batches),
      (ep_post_v1_events_batches, sdk_client_storefront_events_create_batch),
      (ep_get_v1_events_batches_batch_id, sdk_client_storefront_events_get_batch),
      (ep_post_v1_feedback_clicks, sdk_client_storefront_feedback_click),
      (ep_post_v1_feedback_conversions, sdk_client_storefront_feedback_conversion),
      (ep_post_v1_feedback_impressions, sdk_client_storefront_feedback_impression), (ep_get_v1_meta, sdk_client_meta),
      (ep_get_v1_metrics_summary, sdk_client_tenant_metrics_summary),
      (ep_get_v1_model_versions, sdk_client_tenant_model_versions_list),
      (ep_post_v1_model_versions, sdk_client_tenant_model_versions_create),
      (ep_get_v1_model_versions_version_id, sdk_client_tenant_model_versions_get),
      (ep_post_v1_model_versions_version_id_activate, sdk_client_tenant_model_versions_activate),
      (ep_post_v1_model_versions_version_id_archive, sdk_client_tenant_model_versions_archive),
      (ep_post_v1_model_versions_version_id_rollback, sdk_client_tenant_model_versions_rollback),
      (ep_get_v1_plans, sdk_client_plans), (ep_get_v1_products, sdk_client_tenant_catalog_list),
      (ep_get_v1_products_external_id, sdk_client_tenant_catalog_get),
      (ep_patch_v1_products_external_id, sdk_client_tenant_catalog_update),
      (ep_put_v1_products_external_id, sdk_client_tenant_catalog_upsert),
      (ep_post_v1_products_external_id_disable, sdk_client_tenant_catalog_disable),
      (ep_post_v1_products_bulk_upsert, sdk_client_tenant_catalog_bulk_upsert),
      (ep_get_v1_recommendation_policy, sdk_client_tenant_recommendation_policy_get),
      (ep_put_v1_recommendation_policy, sdk_client_tenant_recommendation_policy_update),
      (ep_post_v1_recommendations, sdk_client_storefront_recommendations_get),
      (ep_post_v1_recommendations_session, sdk_client_storefront_recommendations_for_session),
      (ep_get_v1_retraining_policy, sdk_client_tenant_retraining_policy_get),
      (ep_put_v1_retraining_policy, sdk_client_tenant_retraining_policy_update),
      (ep_get_v1_subscription, sdk_client_tenant_subscription_get),
      (ep_get_v1_tenant_status, sdk_client_tenant_account_status), (ep_get_v1_tenant_users, sdk_client_tenant_users_list),
      (ep_post_v1_tenant_users, sdk_client_tenant_users_invite),
      (ep_get_v1_tenant_users_user_id, sdk_client_tenant_users_get),
      (ep_patch_v1_tenant_users_user_id, sdk_client_tenant_users_update),
      (ep_delete_v1_tenant_users_user_id_invitation, sdk_client_tenant_users_revoke_invitation),
      (ep_post_v1_tenant_users_user_id_invitation_resend, sdk_client_tenant_users_resend_invitation),
      (ep_post_v1_tenants, sdk_client_tenant_auth_register),
      (ep_get_v1_training_jobs, sdk_client_tenant_training_jobs_list),
      (ep_post_v1_training_jobs, sdk_client_tenant_training_jobs_create),
      (ep_get_v1_training_jobs_job_id, sdk_client_tenant_training_jobs_get),
      (ep_post_v1_training_jobs_job_id_cancel, sdk_client_tenant_training_jobs_cancel),
      (ep_get_v1_usage, sdk_client_tenant_usage_get), (ep_get_v1_usage_trends, sdk_client_tenant_usage_trends),
      (ep_get_healthz, sdk_client_health), (ep_get_readyz, sdk_client_ready)]"

definition sdk_routes :: "SdkReference \<Rightarrow> SdkRoute list" where
  "sdk_routes s = concat (map sm_routes (sdk_methods s))"

definition route_of :: "SdkRoute \<Rightarrow> EndpointDoc \<Rightarrow> bool" where
  "route_of r e = (sr_method r = ed_method e \<and> sr_path r = ed_path e)"

lemma routes_listed: "list_all2 route_of (sdk_routes SDK_REFERENCE) ROUTE_ENDPOINTS"
  by code_simp

lemma linked_listed:
  "list_all (\<lambda>(e, m). takeWhile (\<lambda>c. c \<noteq> CHR ''('') (the (ed_sdkMethod e)) = sm_call m \<and>
      list_ex (\<lambda>r. route_of r e) (sm_routes m)) LINKED"
  by code_simp

lemma routes_cover: "set ENDPOINTS = insert ep_post_v1_models_model_id_rollback (set ROUTE_ENDPOINTS)"
  unfolding ENDPOINTS_def ROUTE_ENDPOINTS_def by (simp only: list.set insert_commute) blast

lemma rollback_uncovered:
  "list_all (\<lambda>r. sr_path r \<noteq> ed_path ep_post_v1_models_model_id_rollback) (sdk_routes SDK_REFERENCE)"
  by code_simp

lemma stated_figures:
  "length (sdk_methods SDK_REFERENCE) = 121" "st_methods (sdk_stats SDK_REFERENCE) = 96"
  "st_routes (sdk_stats SDK_REFERENCE) = 90" "st_uncoveredRoutes (sdk_stats SDK_REFERENCE) = []"
  by code_simp+

section \<open>The page\<close>

text \<open>A lower-case letter by its bits.\<close>

fun lower_bits :: "char \<Rightarrow> bool" where
  "lower_bits (Char b0 b1 b2 b3 b4 b5 b6 b7) =
     (\<not> b7 \<and> b6 \<and> b5 \<and> (b0 \<or> b1 \<or> b2 \<or> b3 \<or> b4) \<and> \<not> (b4 \<and> b3 \<and> (b2 \<or> b1 \<and> b0)))"

lemma lower_bits_anchor: "lower_bits c \<Longrightarrow> anchor_char c \<and> c \<noteq> CHR ''.''"
  by (cases c; simp add: anchor_char_def is_lower_def of_char_def horner_sum_simps split: if_splits) auto

definition dot_dashed :: "string \<Rightarrow> string" where
  "dot_dashed s = map (\<lambda>c. if c = CHR ''.'' then CHR ''-'' else c) s"

definition call_char :: "char \<Rightarrow> bool" where
  "call_char c = (if lower_bits c then True else if c = CHR ''_'' then True else c = CHR ''.'')"

lemma anchor_call_char:
  assumes "call_char c"
  shows "(if anchor_char c then c else CHR ''-'') = (if c = CHR ''.'' then CHR ''-'' else c)"
proof -
  have special: "anchor_char CHR ''_''" "\<not> anchor_char CHR ''.''" by code_simp+
  have "lower_bits c \<or> c = CHR ''_'' \<or> c = CHR ''.''" using assms by (simp add: call_char_def split: if_splits)
  then show ?thesis using special by (elim disjE) (simp_all add: lower_bits_anchor)
qed

lemma anchor_call: "list_all call_char s \<Longrightarrow> anchor s = dot_dashed s"
  unfolding anchor_def dot_dashed_def by (intro map_cong refl anchor_call_char) (simp add: list_all_iff)

text \<open>The calls, in the order of the methods, and the other ids of the page.\<close>

definition SDK_CALLS :: "string list" where
  "SDK_CALLS =
     [''client.health'', ''client.ready'', ''client.meta'', ''client.plans'', ''client.with_credentials'',
      ''client.close'', ''client.storefront.events.create'', ''client.storefront.events.create_batch'',
      ''client.storefront.events.list'', ''client.storefront.events.list_batches'',
      ''client.storefront.events.get_batch'', ''client.storefront.recommendations.get'',
      ''client.storefront.recommendations.for_session'', ''client.storefront.feedback.impression'',
      ''client.storefront.feedback.click'', ''client.storefront.feedback.conversion'', ''client.tenant.auth.register'',
      ''client.tenant.auth.login'', ''client.tenant.auth.setup_password'', ''client.tenant.auth.recover_password'',
      ''client.tenant.auth.refresh'', ''client.tenant.auth.logout'', ''client.tenant.users.list'',
      ''client.tenant.users.invite'', ''client.tenant.users.get'', ''client.tenant.users.update'',
      ''client.tenant.users.resend_invitation'', ''client.tenant.users.revoke_invitation'',
      ''client.tenant.api_keys.list'', ''client.tenant.api_keys.get'', ''client.tenant.api_keys.create'',
      ''client.tenant.api_keys.rotate'', ''client.tenant.api_keys.revoke'', ''client.tenant.subscription.get'',
      ''client.tenant.subscription.list_requests'', ''client.tenant.subscription.request_plan'',
      ''client.tenant.subscription.cancel_request'', ''client.tenant.usage.get'', ''client.tenant.usage.trends'',
      ''client.tenant.catalog.bulk_upsert'', ''client.tenant.catalog.list_syncs'', ''client.tenant.catalog.get_sync'',
      ''client.tenant.catalog.list'', ''client.tenant.catalog.iterate'', ''client.tenant.catalog.get'',
      ''client.tenant.catalog.upsert'', ''client.tenant.catalog.update'', ''client.tenant.catalog.disable'',
      ''client.tenant.datasets.upload'', ''client.tenant.datasets.create_snapshot'',
      ''client.tenant.datasets.list_snapshots'', ''client.tenant.datasets.get_snapshot'',
      ''client.tenant.model_versions.create'', ''client.tenant.model_versions.list'',
      ''client.tenant.model_versions.get'', ''client.tenant.model_versions.get_active'',
      ''client.tenant.model_versions.activate'', ''client.tenant.model_versions.archive'',
      ''client.tenant.model_versions.rollback'', ''client.tenant.training_jobs.create'',
      ''client.tenant.training_jobs.list'', ''client.tenant.training_jobs.get'', ''client.tenant.training_jobs.cancel'',
      ''client.tenant.training_jobs.find'', ''client.tenant.training_jobs.wait'', ''client.tenant.retraining_policy.get'',
      ''client.tenant.retraining_policy.update'', ''client.tenant.recommendation_policy.get'',
      ''client.tenant.recommendation_policy.update'', ''client.tenant.deployment.get'',
      ''client.tenant.deployment.scaling'', ''client.tenant.metrics.summary'', ''client.tenant.account.status'',
      ''client.tenant.audit.list'', ''client.platform.status'', ''client.platform.list_usage'',
      ''client.platform.list_failures'', ''client.platform.list_audit_logs'', ''client.platform.tenants.list'',
      ''client.platform.tenants.get'', ''client.platform.tenants.set_status'', ''client.platform.tenants.get_quota'',
      ''client.platform.tenants.set_quota_override'', ''client.platform.tenants.assign_plan'',
      ''client.platform.tenants.get_usage'', ''client.platform.tenants.issue_recovery'', ''client.platform.plans.list'',
      ''client.platform.plans.update'', ''client.platform.plan_requests.list'', ''client.platform.plan_requests.approve'',
      ''client.platform.plan_requests.reject'', ''client.platform.operators.login'', ''client.platform.operators.me'',
      ''client.platform.operators.list'', ''client.platform.operators.create'', ''client.platform.operators.update'',
      ''builder.build'', ''builder.view'', ''builder.click'', ''builder.add_to_cart'', ''builder.remove_from_cart'',
      ''builder.purchase'', ''builder.rating'', ''builder.search'', ''builder.add_to_wishlist'', ''tracker.track'',
      ''tracker.view'', ''tracker.click'', ''tracker.add_to_cart'', ''tracker.remove_from_cart'', ''tracker.purchase'',
      ''tracker.rating'', ''tracker.search'', ''tracker.add_to_wishlist'', ''tracker.flush'', ''tracker.close'',
      ''sync.run'', ''session.recommend'', ''session.impression'', ''session.click'', ''session.convert'']"

lemma calls_listed_sdk: "map sm_call (sdk_methods SDK_REFERENCE) = SDK_CALLS"
  by (simp add: sdk_methods_def SDK_REFERENCE_def sdk_resource_defs sdk_method_defs SDK_CALLS_def)

lemma calls_known: "list_all (list_all call_char) SDK_CALLS"
  by code_simp

lemma card_ids: "map card_id (sdk_methods SDK_REFERENCE) = map dot_dashed SDK_CALLS"
proof -
  have "map card_id ms = map anchor (map sm_call ms)" for ms by (simp add: card_id_def)
  then have "map card_id (sdk_methods SDK_REFERENCE) = map anchor SDK_CALLS" by (simp only: calls_listed_sdk)
  also have "\<dots> = map dot_dashed SDK_CALLS" using calls_known by (intro map_cong refl anchor_call) (simp add: list_all_iff)
  finally show ?thesis .
qed

definition OTHER_IDS :: "string list" where
  "OTHER_IDS =
     [''installation'', ''quickstart'', ''configuration'', ''environment'', ''behaviour'', ''async'', ''reference'',
      ''ecommerce'', ''errors'', ''types'', ''enums'', ''scopes'', ''examples'', ''storefront'', ''tenant'', ''platform'',
      ''client-methods'', ''client-storefront-events'', ''client-storefront-recommendations'',
      ''client-storefront-feedback'', ''client-tenant-auth'', ''client-tenant-users'', ''client-tenant-api_keys'',
      ''client-tenant-subscription'', ''client-tenant-usage'', ''client-tenant-catalog'', ''client-tenant-datasets'',
      ''client-tenant-model_versions'', ''client-tenant-training_jobs'', ''client-tenant-retraining_policy'',
      ''client-tenant-recommendation_policy'', ''client-tenant-deployment'', ''client-tenant-metrics'',
      ''client-tenant-account'', ''client-tenant-audit'', ''client-platform'', ''client-platform-tenants'',
      ''client-platform-plans'', ''client-platform-plan_requests'', ''client-platform-operators'',
      ''ecommerce-eventbuilder'', ''ecommerce-eventtracker'', ''ecommerce-catalogsync'',
      ''ecommerce-recommendationsession'']"

definition ERROR_NAMES :: "string list" where
  "ERROR_NAMES =
     [''GraphRecError'', ''APIError'', ''ConfigurationError'', ''APIConnectionError'', ''APIResponseValidationError'',
      ''APIStatusError'', ''InputValidationError'', ''APITimeoutError'', ''AuthenticationError'', ''ConflictError'',
      ''InternalServerError'', ''MalformedRequestError'', ''NotFoundError'', ''PayloadTooLargeError'',
      ''PermissionDeniedError'', ''QuotaExceededError'', ''RateLimitError'', ''RequestValidationError'',
      ''WaitTimeoutError'', ''DuplicateResourceError'', ''IdempotencyConflictError'', ''LimitBelowUsageError'',
      ''ServiceUnavailableError'', ''StateConflictError'', ''TokenExpiredError'']"

definition ALL_IDS :: "string list" where
  "ALL_IDS = OTHER_IDS @ map dot_dashed SDK_CALLS @ map (\<lambda>e. ''error-'' @ e) ERROR_NAMES"

lemma other_ids_listed:
  "FIXED_HEADINGS @ map ns_name (sdk_namespaces SDK_REFERENCE) @
     map sx_id (clientResource SDK_REFERENCE # concat (map ns_resources (sdk_namespaces SDK_REFERENCE)) @ sdk_helpers SDK_REFERENCE) =
   OTHER_IDS"
  by (simp add: SDK_REFERENCE_def clientResource_def sdk_resource_defs FIXED_HEADINGS_def OTHER_IDS_def)

lemma errors_listed: "map xe_name (sdk_errors SDK_REFERENCE) = ERROR_NAMES"
  by (simp add: SDK_REFERENCE_def SDK_ERRORS_def SDK_HTTP_ERRORS_def ERROR_NAMES_def)

lemma page_ids_listed: "page_ids SDK_REFERENCE = ALL_IDS"
proof -
  have "page_ids s = (FIXED_HEADINGS @ map ns_name (sdk_namespaces s) @
      map sx_id (clientResource s # concat (map ns_resources (sdk_namespaces s)) @ sdk_helpers s)) @
      map card_id (sdk_methods s) @ map (\<lambda>e. ''error-'' @ e) (map xe_name (sdk_errors s))" for s
    by (simp add: page_ids_def)
  then show ?thesis by (simp only: other_ids_listed errors_listed card_ids ALL_IDS_def)
qed

lemma ids_end: "list_all (\<lambda>i. i \<noteq> [] \<and> last i \<noteq> CHR ''-'') ALL_IDS"
  by code_simp

lemma signatures:
  "list_all (\<lambda>m. prefix (sm_call m @ ''('') (sm_signature m)) (sdk_methods SDK_REFERENCE)"
  by code_simp

lemma params_distinct:
  "list_all (\<lambda>m. distinct (map sq_name (sm_params m))) (sdk_methods SDK_REFERENCE)"
  by code_simp

lemma resources_filled:
  "list_all (\<lambda>r. sx_methods r \<noteq> []) (concat (map ns_resources (sdk_namespaces SDK_REFERENCE)) @ sdk_helpers SDK_REFERENCE)"
  by code_simp

section \<open>Links into the reference\<close>

lemma one_filter: "distinct xs \<Longrightarrow> x \<in> set xs \<Longrightarrow> filter (\<lambda>y. y = x) xs = [x]"
  by (induction xs) (auto simp: filter_empty_conv)

lemma list_all2_partner:
  assumes "list_all2 P xs ys"
  shows "x \<in> set xs \<Longrightarrow> \<exists>y\<in>set ys. P x y" "y \<in> set ys \<Longrightarrow> \<exists>x\<in>set xs. P x y"
  using assms by (induction xs ys rule: list_all2_induct) auto

lemma routes_documented: "list_all (\<lambda>r. list_ex (route_of r) ENDPOINTS) (sdk_routes SDK_REFERENCE)"
proof -
  have "list_ex (route_of r) ENDPOINTS" if r: "r \<in> set (sdk_routes SDK_REFERENCE)" for r
  proof -
    obtain e where "e \<in> set ROUTE_ENDPOINTS" "route_of r e"
      using list_all2_partner(1) [OF routes_listed r] by blast
    then show ?thesis using routes_cover by (auto simp: list_ex_iff)
  qed
  then show ?thesis by (simp add: list_all_iff)
qed

lemma route_missing:
  "filter (\<lambda>e. \<not> list_ex (\<lambda>r. route_of r e) (sdk_routes SDK_REFERENCE)) ENDPOINTS = [ep_post_v1_models_model_id_rollback]"
proof -
  let ?rollback = ep_post_v1_models_model_id_rollback
  have covered: "list_ex (\<lambda>r. route_of r e) (sdk_routes SDK_REFERENCE)" if "e \<in> set ROUTE_ENDPOINTS" for e
    using list_all2_partner(2) [OF routes_listed] that by (auto simp: list_ex_iff)
  have missing: "\<not> list_ex (\<lambda>r. route_of r ?rollback) (sdk_routes SDK_REFERENCE)"
    using rollback_uncovered by (auto simp: list_ex_iff list_all_iff route_of_def)
  have "distinct ENDPOINTS" using endpoint_ids(1) unfolding distinct_map by (rule conjunct1)
  then have "filter (\<lambda>e. e = ?rollback) ENDPOINTS = [?rollback]" using routes_cover by (intro one_filter) simp_all
  moreover have "filter (\<lambda>e. \<not> list_ex (\<lambda>r. route_of r e) (sdk_routes SDK_REFERENCE)) ENDPOINTS =
      filter (\<lambda>e. e = ?rollback) ENDPOINTS"
    using covered missing routes_cover by (intro filter_cong refl) blast
  ultimately show ?thesis by simp
qed

definition sdk_linked :: "EndpointDoc \<Rightarrow> bool" where
  "sdk_linked e = (ed_sdkMethod e \<noteq> None)"

lemma endpoints_linked:
  "sdk_linked ep_get_v1_api_keys"
  "sdk_linked ep_post_v1_api_keys"
  "sdk_linked ep_delete_v1_api_keys_key_id"
  "sdk_linked ep_get_v1_api_keys_key_id"
  "sdk_linked ep_post_v1_api_keys_key_id_rotate"
  "sdk_linked ep_get_v1_audit"
  "sdk_linked ep_post_v1_auth_login"
  "sdk_linked ep_post_v1_auth_logout"
  "sdk_linked ep_post_v1_auth_recover_password"
  "sdk_linked ep_post_v1_auth_refresh"
  "sdk_linked ep_post_v1_auth_setup_password"
  "sdk_linked ep_get_v1_catalog_syncs"
  "sdk_linked ep_get_v1_catalog_syncs_sync_id"
  "sdk_linked ep_get_v1_datasets_snapshots"
  "sdk_linked ep_post_v1_datasets_snapshots"
  "sdk_linked ep_get_v1_datasets_snapshots_snapshot_id"
  "sdk_linked ep_post_v1_datasets_upload"
  "sdk_linked ep_get_v1_deployment"
  "sdk_linked ep_get_v1_deployment_scaling"
  "sdk_linked ep_get_v1_events"
  "sdk_linked ep_post_v1_events"
  "sdk_linked ep_get_v1_events_batches"
  "sdk_linked ep_post_v1_events_batches"
  "sdk_linked ep_get_v1_events_batches_batch_id"
  "sdk_linked ep_post_v1_feedback_clicks"
  "sdk_linked ep_post_v1_feedback_conversions"
  "sdk_linked ep_post_v1_feedback_impressions"
  "sdk_linked ep_get_v1_meta"
  "sdk_linked ep_get_v1_metrics_summary"
  "sdk_linked ep_get_v1_model_versions"
  "sdk_linked ep_post_v1_model_versions"
  "sdk_linked ep_get_v1_model_versions_version_id"
  "sdk_linked ep_post_v1_model_versions_version_id_activate"
  "sdk_linked ep_post_v1_model_versions_version_id_archive"
  "sdk_linked ep_post_v1_model_versions_version_id_rollback"
  "\<not> sdk_linked ep_post_v1_models_model_id_rollback"
  "sdk_linked ep_get_v1_plans"
  "\<not> sdk_linked ep_get_v1_platform_audit"
  "\<not> sdk_linked ep_post_v1_platform_auth_login"
  "\<not> sdk_linked ep_get_v1_platform_failures"
  "\<not> sdk_linked ep_get_v1_platform_me"
  "\<not> sdk_linked ep_get_v1_platform_operators"
  "\<not> sdk_linked ep_post_v1_platform_operators"
  "\<not> sdk_linked ep_patch_v1_platform_operators_operator_id"
  "\<not> sdk_linked ep_get_v1_platform_plan_requests"
  "\<not> sdk_linked ep_post_v1_platform_plan_requests_request_id_approve"
  "\<not> sdk_linked ep_post_v1_platform_plan_requests_request_id_reject"
  "\<not> sdk_linked ep_get_v1_platform_plans"
  "\<not> sdk_linked ep_put_v1_platform_plans_plan_id"
  "\<not> sdk_linked ep_get_v1_platform_status"
  "\<not> sdk_linked ep_get_v1_platform_tenants"
  "\<not> sdk_linked ep_get_v1_platform_tenants_tenant_id"
  "\<not> sdk_linked ep_post_v1_platform_tenants_tenant_id_plan"
  "\<not> sdk_linked ep_get_v1_platform_tenants_tenant_id_quotas"
  "\<not> sdk_linked ep_post_v1_platform_tenants_tenant_id_quotas"
  "\<not> sdk_linked ep_post_v1_platform_tenants_tenant_id_recovery"
  "\<not> sdk_linked ep_post_v1_platform_tenants_tenant_id_status"
  "\<not> sdk_linked ep_get_v1_platform_tenants_tenant_id_usage"
  "\<not> sdk_linked ep_get_v1_platform_usage"
  "sdk_linked ep_get_v1_products"
  "sdk_linked ep_get_v1_products_external_id"
  "sdk_linked ep_patch_v1_products_external_id"
  "sdk_linked ep_put_v1_products_external_id"
  "sdk_linked ep_post_v1_products_external_id_disable"
  "sdk_linked ep_post_v1_products_bulk_upsert"
  "sdk_linked ep_get_v1_recommendation_policy"
  "sdk_linked ep_put_v1_recommendation_policy"
  "sdk_linked ep_post_v1_recommendations"
  "sdk_linked ep_post_v1_recommendations_session"
  "sdk_linked ep_get_v1_retraining_policy"
  "sdk_linked ep_put_v1_retraining_policy"
  "sdk_linked ep_get_v1_subscription"
  "\<not> sdk_linked ep_get_v1_subscription_requests"
  "\<not> sdk_linked ep_post_v1_subscription_requests"
  "\<not> sdk_linked ep_post_v1_subscription_requests_request_id_cancel"
  "sdk_linked ep_get_v1_tenant_status"
  "sdk_linked ep_get_v1_tenant_users"
  "sdk_linked ep_post_v1_tenant_users"
  "sdk_linked ep_get_v1_tenant_users_user_id"
  "sdk_linked ep_patch_v1_tenant_users_user_id"
  "sdk_linked ep_delete_v1_tenant_users_user_id_invitation"
  "sdk_linked ep_post_v1_tenant_users_user_id_invitation_resend"
  "sdk_linked ep_post_v1_tenants"
  "sdk_linked ep_get_v1_training_jobs"
  "sdk_linked ep_post_v1_training_jobs"
  "sdk_linked ep_get_v1_training_jobs_job_id"
  "sdk_linked ep_post_v1_training_jobs_job_id_cancel"
  "sdk_linked ep_get_v1_usage"
  "sdk_linked ep_get_v1_usage_trends"
  "sdk_linked ep_get_healthz"
  "sdk_linked ep_get_readyz"
  by (simp_all add: sdk_linked_def endpoint_defs)

lemma filter_steps: "P x \<Longrightarrow> filter P (x # xs) = x # filter P xs" "\<not> P x \<Longrightarrow> filter P (x # xs) = filter P xs"
  by simp_all

lemma linked_endpoints: "map fst LINKED = filter sdk_linked ENDPOINTS"
  by (simp only: LINKED_def ENDPOINTS_def list.map fst_conv filter.simps(1) filter_steps endpoints_linked not_False_eq_True)

lemma links_end: "list_all (\<lambda>e. case ed_sdkMethod e of Some m \<Rightarrow> m \<noteq> [] \<and> last m = CHR '')'' | None \<Rightarrow> True) ENDPOINTS"
  using endpoints_ok by (auto simp: list_all_iff endpoint_ok_def split: option.splits)

lemma links_nowhere:
  assumes "e \<in> set ENDPOINTS" "sdk_link e = Some u" "i \<in> set (page_ids SDK_REFERENCE)"
  shows "u \<noteq> ''/docs/sdk#'' @ i"
proof -
  obtain m where m: "ed_sdkMethod e = Some m" "u = ''/docs/sdk#'' @ anchor m"
    using assms(2) by (cases "ed_sdkMethod e") (auto simp: sdk_link_def split: if_splits)
  then have "m \<noteq> []" "last m = CHR '')''" using links_end assms(1) by (auto simp: list_all_iff)
  moreover have "\<not> anchor_char CHR '')''" by code_simp
  ultimately have "last (anchor m) = CHR ''-''" by (simp add: anchor_def last_map)
  moreover have "last i \<noteq> CHR ''-''" using ids_end assms(3) unfolding page_ids_listed by (auto simp: list_all_iff)
  ultimately show ?thesis using m(2) by auto
qed

section \<open>Scopes and vocabularies\<close>

text \<open>The bundles of the reference against what the console offers, as sets: every scope of a key, and what each role may
  delegate. Each bundle for a purpose holds scopes of a key only.\<close>

definition key_bundle :: "string \<Rightarrow> string list" where
  "key_bundle n = or_else (map_of (scope_rows SDK_REFERENCE) n) []"

lemma scope_bundles:
  "key_bundle ''API_KEY_SCOPES'' = map scope_name
     [billing_read, catalog_read, catalog_write, deployments_read, events_read, events_write, metrics_read, models_deploy,
      models_read, models_write, recommendations_read, training_read, training_write, usage_read]"
  "key_bundle (''DELEGATABLE_SCOPES['' @ [CHR 0x22] @ ''tenant_administrator'' @ [CHR 0x22] @ '']'') = key_bundle ''API_KEY_SCOPES''"
  "key_bundle (''DELEGATABLE_SCOPES['' @ [CHR 0x22] @ ''tenant_developer'' @ [CHR 0x22] @ '']'') =
     map scope_name [catalog_read, catalog_write, events_read, events_write, recommendations_read]"
  by code_simp+

lemma bundles_agree:
  "set (key_bundle ''API_KEY_SCOPES'') = set (map (scope_name \<circ> fst) API_KEY_SCOPES)"
  "set (key_bundle (''DELEGATABLE_SCOPES['' @ [CHR 0x22] @ ''tenant_administrator'' @ [CHR 0x22] @ '']'')) =
     set (map scope_name (delegatableScopes tenant_administrator))"
  "set (key_bundle (''DELEGATABLE_SCOPES['' @ [CHR 0x22] @ ''tenant_developer'' @ [CHR 0x22] @ '']'')) =
     set (map scope_name (delegatableScopes tenant_developer))"
  unfolding scope_bundles by (auto simp: API_KEY_SCOPES_def delegatableScopes_def DEVELOPER_DELEGATED_def)

text \<open>The enumerations of the reference are the vocabularies of the console's forms and filters.\<close>

lemma vocabularies:
  "map_of SDK_ENUMS ''EventType'' = Some EVENT_TYPES"
  "map_of SDK_ENUMS ''ModelStatus'' = Some MODEL_STATUSES"
  "map_of SDK_ENUMS ''TenantStatus'' = Some TENANT_STATUSES"
  "map_of SDK_ENUMS ''UsageType'' = Some USAGE_TYPES"
  "map_of SDK_ENUMS ''AvailabilityStatus'' = Some AVAILABILITY"
  "map_of SDK_ENUMS ''PlanCode'' = Some (map plan_code_name [plan_free, plan_basic, plan_pro])"
  by code_simp+

text \<open>The method an endpoint names, taken from the reference itself.\<close>

lemma linked_methods: "snd ` set LINKED \<subseteq> set (sdk_methods SDK_REFERENCE)"
  by (simp add: LINKED_def sdk_methods_def SDK_REFERENCE_def sdk_resource_defs)

definition names_method :: "EndpointDoc \<Rightarrow> string \<Rightarrow> bool" where
  "names_method e t =
     list_ex (\<lambda>m. takeWhile (\<lambda>c. c \<noteq> CHR ''('') t = sm_call m \<and> list_ex (\<lambda>r. route_of r e) (sm_routes m))
       (sdk_methods SDK_REFERENCE)"

lemma linked_named:
  assumes "e \<in> set ENDPOINTS" "ed_sdkMethod e = Some t"
  shows "names_method e t"
proof -
  have "e \<in> set (map fst LINKED)" using assms by (simp add: linked_endpoints sdk_linked_def)
  then obtain m where m: "(e, m) \<in> set LINKED" by auto
  then have "m \<in> set (sdk_methods SDK_REFERENCE)" using linked_methods by force
  moreover have "takeWhile (\<lambda>c. c \<noteq> CHR ''('') t = sm_call m \<and> list_ex (\<lambda>r. route_of r e) (sm_routes m)"
    using linked_listed m assms(2) by (fastforce simp: list_all_iff)
  ultimately show ?thesis by (auto simp: names_method_def list_ex_iff)
qed

lemma linked_count: "length (filter (\<lambda>e. ed_sdkMethod e \<noteq> None) ENDPOINTS) = 65"
proof -
  have "filter (\<lambda>e. ed_sdkMethod e \<noteq> None) ENDPOINTS = map fst LINKED"
    unfolding linked_endpoints by (rule filter_cong) (simp_all add: sdk_linked_def)
  then show ?thesis by (simp add: LINKED_def)
qed

text \<open>C36: the reference of the SDK and the documented endpoints. Every route a method of the SDK uses is a documented
  endpoint, and every endpoint but the roll back of a named model version is used by a method, although the statistics
  of the reference name no route without one. Of the 91 endpoints 65 name a call of the SDK; each of them names a
  method of the reference that uses it, but the link made of the call, its arguments included, leads to no heading
  of the SDK page.\<close>

theorem sdk_reference:
  "list_all (\<lambda>r. list_ex (route_of r) ENDPOINTS) (sdk_routes SDK_REFERENCE) \<and>
   filter (\<lambda>e. \<not> list_ex (\<lambda>r. route_of r e) (sdk_routes SDK_REFERENCE)) ENDPOINTS = [ep_post_v1_models_model_id_rollback] \<and>
   st_uncoveredRoutes (sdk_stats SDK_REFERENCE) = [] \<and>
   length ENDPOINTS = 91 \<and> length (filter (\<lambda>e. ed_sdkMethod e \<noteq> None) ENDPOINTS) = 65 \<and>
   list_all (\<lambda>e. case ed_sdkMethod e of None \<Rightarrow> True | Some t \<Rightarrow> names_method e t) ENDPOINTS \<and>
   set (List.map_filter sdk_link ENDPOINTS) \<inter> (\<lambda>i. ''/docs/sdk#'' @ i) ` set (page_ids SDK_REFERENCE) = {}"
proof -
  have "set (List.map_filter sdk_link ENDPOINTS) \<inter> (\<lambda>i. ''/docs/sdk#'' @ i) ` set (page_ids SDK_REFERENCE) = {}"
    using links_nowhere by (force simp: List.map_filter_def)
  moreover have "list_all (\<lambda>e. case ed_sdkMethod e of None \<Rightarrow> True | Some t \<Rightarrow> names_method e t) ENDPOINTS"
    using linked_named by (auto simp: list_all_iff split: option.split)
  ultimately show ?thesis
    using routes_documented route_missing stated_figures(4) linked_count endpoint_ids(2) by simp
qed

end
