(* ===== verification/FacetTypes.thy ===== *)
theory FacetTypes
  imports Prelude
begin

text \<open>
  The wire types of the Facet demo shop
  (\<open>archive/demo-storefront/frontend/src/lib/types.ts\<close>). An optional or nullable member is an
  option; a number that counts is an integer.
\<close>

datatype ProofStatus = model_verified | serving_preview | catalog_fallback

datatype Surface = sf_catalog | sf_product_detail | sf_cart | sf_order | sf_compare

record Persona =
  per_key :: string
  per_name :: string
  per_blurb :: string
  per_color :: string
  per_userId :: "string option"

record DemoSession =
  ds_persona :: Persona
  ds_sessionId :: string
  ds_personas :: "Persona list"

record Product =
  fp_externalId :: string
  fp_title :: string
  fp_description :: "string option"
  fp_price :: string
  fp_category :: string
  fp_isActive :: bool
  fp_availabilityStatus :: string
  fp_available :: bool
  fp_brand :: "string option"
  fp_size :: "string option"
  fp_tags :: "string list"
  fp_accent :: "string option"

record RecommendedProduct = Product +
  fp_position :: int

record Provenance =
  pv_requestId :: string
  pv_modelVersionId :: "string option"
  pv_rawStrategy :: string
  pv_fallbackUsed :: bool
  pv_fallbackTier :: string
  pv_proofStatus :: ProofStatus
  pv_excludedCount :: int
  pv_omittedProductCount :: int
  pv_impressionEventId :: "string option"

record Recommendations =
  rec_items :: "RecommendedProduct list"
  rec_provenance :: Provenance

record RecommendationsUnavailable =
  un_reason :: string
  un_correlationId :: "string option"

record PurchaseLine =
  pul_productId :: string
  pul_title :: string
  pul_quantity :: int
  pul_unitPrice :: string
  pul_lineTotal :: string
  pul_eventId :: string

record Purchase =
  pu_orderId :: string
  pu_lines :: "PurchaseLine list"
  pu_total :: string
  pu_acceptedCount :: int
  pu_duplicateCount :: int
  pu_rejectedCount :: int

record CompareItem =
  ci_position :: int
  ci_externalId :: string
  ci_title :: string
  ci_category :: string
  ci_price :: string
  ci_accent :: "string option"
  ci_shared :: bool

record CompareColumn =
  cc_persona :: Persona
  cc_items :: "CompareItem list"
  cc_provenance :: "Provenance option"
  cc_repeatable :: "bool option"
  cc_error :: "string option"

record PairSimilarity =
  sim_a :: string
  sim_b :: string
  sim_overlap :: int
  sim_jaccard :: rat

record CompareSummary =
  sum_topN :: int
  sum_excludedProductIds :: "string list"
  sum_uniqueProducts :: int
  sum_slots :: int
  sum_distinctOrderings :: int
  sum_knownPersonasIdentical :: bool
  sum_allRepeatable :: "bool option"
  sum_anyModelVersion :: bool
  sum_gatePassed :: bool
  sum_gateReason :: string

record Compare =
  cmp_columns :: "CompareColumn list"
  cmp_pairs :: "PairSimilarity list"
  cmp_summary :: CompareSummary

record Health =
  he_graphrec :: string
  he_graphrecBaseUrl :: string
  he_proofConfigured :: bool
  he_proofVersionId :: "string option"
  he_catalogProducts :: "int option"
  he_correlationId :: "string option"

end
