(* ===== verification/FacetLib.thy ===== *)
theory FacetLib
  imports FacetTypes WireTypes JsNumber UrlCoding "HOL-Library.Word"
begin

text \<open>
  The pure parts of the Facet demo shop: the wording of a recommendation's provenance
  (\<open>lib/proof.ts\<close>), prices and the generated product art (\<open>lib/format.ts\<close>), and the lines of a cart
  (\<open>lib/cart.ts\<close>). Prices are decimal texts; sums are exact where JavaScript adds doubles.
\<close>

section \<open>Wording of provenance\<close>

datatype ProofTone = verified | preview | fallback

fun proofTone :: "ProofStatus \<Rightarrow> ProofTone" where
  "proofTone model_verified = verified"
| "proofTone catalog_fallback = fallback"
| "proofTone serving_preview = preview"

definition proofColor :: "ProofStatus \<Rightarrow> string" where
  "proofColor status =
     (case proofTone status of
        verified \<Rightarrow> ''var(--verified)'' | preview \<Rightarrow> ''var(--preview)'' | fallback \<Rightarrow> ''var(--ink-2)'')"

definition check_mark :: string where
  "check_mark = [CHR 0xE2, CHR 0x9C, CHR 0x93]"

definition diamond :: string where
  "diamond = [CHR 0xE2, CHR 0x97, CHR 0x87]"

definition proofIcon :: "ProofStatus \<Rightarrow> string" where
  "proofIcon status =
     (case proofTone status of verified \<Rightarrow> check_mark | preview \<Rightarrow> ''!'' | fallback \<Rightarrow> diamond)"

definition proofPillLabel :: "ProofStatus \<Rightarrow> string" where
  "proofPillLabel status =
     (case proofTone status of
        verified \<Rightarrow> ''Verified personalization''
      | preview \<Rightarrow> ''Serving preview '' @ mid_dot @ '' unverified''
      | fallback \<Rightarrow> ''Catalog fallback'')"

datatype Variant = v_home | v_related | v_continue

definition by_variant :: "Variant \<Rightarrow> string \<Rightarrow> string \<Rightarrow> string \<Rightarrow> string" where
  "by_variant variant h r c = (if variant = v_home then h else if variant = v_related then r else c)"

definition shelfHeading :: "ProofStatus option \<Rightarrow> string \<Rightarrow> Variant \<Rightarrow> string" where
  "shelfHeading status personaName variant =
     (if status = Some model_verified
      then by_variant variant (''For '' @ personaName) ''You may also like'' ''Continue exploring''
      else if status = Some catalog_fallback
      then by_variant variant ''From the catalog'' ''More from the catalog'' ''Continue exploring''
      else by_variant variant ''Recommended'' ''You may also like'' ''Continue exploring'')"

definition version_part :: "Provenance \<Rightarrow> string" where
  "version_part prov =
     (if truthy (pv_modelVersionId prov)
      then '' '' @ mid_dot @ '' version '' @ take 8 (the (pv_modelVersionId prov)) else [])"

definition provenanceLine :: "Provenance option \<Rightarrow> string \<Rightarrow> bool \<Rightarrow> string" where
  "provenanceLine prov personaName isGuest =
     (case prov of
        None \<Rightarrow> ''Waiting for GraphRec'' @ ellipsis
      | Some p \<Rightarrow>
          (case pv_proofStatus p of
             model_verified \<Rightarrow> ''Model-backed for '' @ personaName @ version_part p
           | catalog_fallback \<Rightarrow>
               (if isGuest then ''Catalog fallback '' @ mid_dot @ '' new visitor, no history''
                else ''Catalog fallback '' @ mid_dot @ '' showing as '' @ personaName)
           | serving_preview \<Rightarrow>
               ''GraphRec serving preview'' @ version_part p @ '' '' @ mid_dot @ '' showing as '' @ personaName))"

fun proofExplainer :: "ProofStatus \<Rightarrow> string" where
  "proofExplainer model_verified = ''Rankings are user-specific, repeat exactly, and this model version passed the verification script.''"
| "proofExplainer catalog_fallback = ''GraphRec answered from the catalog (newest active products), not from a model. Labelled as a fallback.''"
| "proofExplainer serving_preview = ''The serving path is live and returns a model version, but the query is not yet user-specific. Not presented as personalization.''"

fun proof_status_name :: "ProofStatus \<Rightarrow> string" where
  "proof_status_name model_verified = ''model_verified''"
| "proof_status_name serving_preview = ''serving_preview''"
| "proof_status_name catalog_fallback = ''catalog_fallback''"

definition bool_text :: "bool \<Rightarrow> string" where
  "bool_text b = (if b then ''true'' else ''false'')"

definition whyRows :: "Provenance \<Rightarrow> (string \<times> string) list" where
  "whyRows prov =
     [(''Request ID'', pv_requestId prov),
      (''Raw strategy (backend)'', pv_rawStrategy prov),
      (''Fallback'', bool_text (pv_fallbackUsed prov) @
         (if pv_fallbackUsed prov then '' ('' @ pv_fallbackTier prov @ '')'' else [])),
      (''Model version'', or_else (pv_modelVersionId prov) ''n/a''),
      (''Proof status'', proof_status_name (pv_proofStatus prov)),
      (''Excluded products'', show_int (pv_excludedCount prov)),
      (''Returned but not shown'', show_int (pv_omittedProductCount prov)),
      (''Impression event'', or_else (pv_impressionEventId prov) em_dash)]"

section \<open>Prices and product art\<close>

definition CATEGORY_LABEL :: "(string \<times> string) list" where
  "CATEGORY_LABEL = [(''skincare'', ''Skin''), (''haircare'', ''Hair''), (''makeup'', ''Makeup''), (''fragrance'', ''Fragrance'')]"

definition CATEGORIES :: "string list" where
  "CATEGORIES = [''skincare'', ''haircare'', ''makeup'', ''fragrance'']"

definition categoryLabel :: "string \<Rightarrow> string" where
  "categoryLabel category = or_else (map_of CATEGORY_LABEL category) category"

text \<open>\<open>str\<close> is \<open>String\<close> on a number that is not finite.\<close>

definition money :: "(number \<Rightarrow> string) \<Rightarrow> string + number \<Rightarrow> string" where
  "money str v =
     (case (case v of Inl s \<Rightarrow> js_Number s | Inr n \<Rightarrow> n) of
        Fin x \<Rightarrow> ''$'' @ to_fixed 2 x
      | n \<Rightarrow> (case v of Inl s \<Rightarrow> s | Inr m \<Rightarrow> str m))"

text \<open>The loop of \<open>hash\<close>: \<open>Math.imul\<close> and \<open>^=\<close> are the operations of 32-bit words.\<close>

fun hash_loop :: "32 word \<Rightarrow> string \<Rightarrow> 32 word" where
  "hash_loop x [] = x"
| "hash_loop x (c # cs) = hash_loop ((xor x (word_of_nat (of_char c))) * 16777619) cs"

definition hash :: "string \<Rightarrow> rat" where
  "hash str = of_nat (unat (hash_loop 2166136261 str)) / 4294967296"

definition RAMP :: "(string \<times> string \<times> string) list" where
  "RAMP =
     [(''skincare'', ''#E9EFE7'', ''#C9D8CD''), (''haircare'', ''#F2E8DD'', ''#DCC9B4''),
      (''makeup'', ''#F7E7E2'', ''#E8C4B8''), (''fragrance'', ''#F5EEDE'', ''#E4D4AF'')]"

definition TINT :: "(string \<times> string) list" where
  "TINT = [(''skincare'', ''#174A3A''), (''haircare'', ''#8C6239''), (''makeup'', ''#C0715F''), (''fragrance'', ''#9A6A20'')]"

definition tile_angle :: "string \<Rightarrow> int" where
  "tile_angle i = 120 + \<lfloor>hash i * 80\<rfloor>"

definition tileStyle :: "string \<Rightarrow> string \<Rightarrow> string option \<Rightarrow> string" where
  "tileStyle i category accent =
     (let ramp = or_else (map_of RAMP category) (''#EFEBE2'', or_else accent ''#D8D6CE'') in
      ''linear-gradient('' @ show_int (tile_angle i) @ ''deg, '' @ fst ramp @ '' 0%, '' @ snd ramp @ '' 100%)'')"

record BlobStyle =
  bs_left :: string
  bs_top :: string
  bs_width :: string
  bs_background :: string

definition blob_geometry :: "string \<Rightarrow> rat \<times> rat \<times> rat" where
  "blob_geometry i = (12 + hash (i @ ''x'') * 40, 16 + hash (i @ ''y'') * 34, 40 + hash (i @ ''s'') * 24)"

definition percent :: "rat \<Rightarrow> string" where
  "percent x = to_fixed 1 x @ ''%''"

definition blobStyle :: "string \<Rightarrow> string \<Rightarrow> BlobStyle" where
  "blobStyle i category =
     (case blob_geometry i of (x, y, s) \<Rightarrow>
        \<lparr>bs_left = percent x, bs_top = percent y, bs_width = percent s,
         bs_background = ''color-mix(in srgb, '' @ or_else (map_of TINT category) ''#647069'' @ '' 16%, transparent)''\<rparr>)"

definition swatchStyle :: "string \<Rightarrow> int \<Rightarrow> string option \<Rightarrow> int \<times> int \<times> string" where
  "swatchStyle category px accent =
     (px, px, or_else accent (case map_of RAMP category of Some r \<Rightarrow> snd r | None \<Rightarrow> ''#D8D6CE''))"

definition facet_shortId :: "string option \<Rightarrow> nat \<Rightarrow> string" where
  "facet_shortId i len =
     (if \<not> truthy i then em_dash
      else if length (the i) > len + 1 then take len (the i) @ ellipsis else the i)"

section \<open>The lines of a cart\<close>

record CartLine =
  cl_product :: Product
  cl_qty :: int

abbreviation line_id :: "CartLine \<Rightarrow> string" where
  "line_id l \<equiv> fp_externalId (cl_product l)"

definition cart_key :: "string \<Rightarrow> string" where
  "cart_key persona = ''facet:cart:'' @ persona"

text \<open>
  A stored entry: text that is no JSON or no array, or an array, of whose elements the code reads
  the product, which may be missing, and the quantity. \<open>works\<close> is false while the storage throws.
\<close>

datatype cart_cell = NotArray | Elements "(Product option \<times> int) list"

fun parse_line :: "Product option \<times> int \<Rightarrow> CartLine list" where
  "parse_line (Some p, q) = (if 0 < q then [\<lparr>cl_product = p, cl_qty = q\<rparr>] else [])"
| "parse_line (None, q) = []"

definition loadCart :: "bool \<Rightarrow> (string \<rightharpoonup> cart_cell) \<Rightarrow> string \<Rightarrow> CartLine list" where
  "loadCart works storage persona =
     (case (if works then storage (cart_key persona) else None) of
        Some (Elements ls) \<Rightarrow> concat (map parse_line ls)
      | _ \<Rightarrow> [])"

definition cell_of :: "CartLine list \<Rightarrow> cart_cell" where
  "cell_of lines = Elements (map (\<lambda>l. (Some (cl_product l), cl_qty l)) lines)"

definition saveCart ::
    "bool \<Rightarrow> string \<Rightarrow> CartLine list \<Rightarrow> (string \<rightharpoonup> cart_cell) \<Rightarrow> (string \<rightharpoonup> cart_cell)" where
  "saveCart works persona lines storage =
     (if works then storage(cart_key persona \<mapsto> cell_of lines) else storage)"

text \<open>\<open>lines.map\<close> replaces the line that \<open>find\<close> returned, the first one with the product's id.\<close>

fun raise_first :: "string \<Rightarrow> int \<Rightarrow> CartLine list \<Rightarrow> CartLine list" where
  "raise_first i qty [] = []"
| "raise_first i qty (l # ls) =
     (if line_id l = i then l\<lparr>cl_qty := min 99 (cl_qty l + qty)\<rparr> # ls else l # raise_first i qty ls)"

definition addLine :: "CartLine list \<Rightarrow> Product \<Rightarrow> int \<Rightarrow> CartLine list" where
  "addLine lines product qty =
     (if list_ex (\<lambda>l. line_id l = fp_externalId product) lines
      then raise_first (fp_externalId product) qty lines
      else lines @ [\<lparr>cl_product = product, cl_qty = min 99 (max 1 qty)\<rparr>])"

definition changeQty :: "CartLine list \<Rightarrow> string \<Rightarrow> int \<Rightarrow> CartLine list" where
  "changeQty lines productId delta =
     filter (\<lambda>l. 0 < cl_qty l)
       (map (\<lambda>l. if line_id l = productId then l\<lparr>cl_qty := cl_qty l + delta\<rparr> else l) lines)"

definition removeLine :: "CartLine list \<Rightarrow> string \<Rightarrow> CartLine list" where
  "removeLine lines productId = filter (\<lambda>l. line_id l \<noteq> productId) lines"

definition cartCount :: "CartLine list \<Rightarrow> int" where
  "cartCount lines = foldl (\<lambda>s l. s + cl_qty l) 0 lines"

text \<open>Addition and multiplication of numbers that may be infinite or not a number.\<close>

fun num_add :: "number \<Rightarrow> number \<Rightarrow> number" where
  "num_add (Fin a) (Fin b) = Fin (a + b)"
| "num_add (Infinite p) (Infinite q) = (if p = q then Infinite p else NaN)"
| "num_add (Infinite p) (Fin b) = Infinite p"
| "num_add (Fin a) (Infinite q) = Infinite q"
| "num_add _ _ = NaN"

fun num_times :: "number \<Rightarrow> int \<Rightarrow> number" where
  "num_times (Fin a) q = Fin (a * of_int q)"
| "num_times (Infinite p) q = (if q = 0 then NaN else Infinite (p = (0 < q)))"
| "num_times NaN q = NaN"

definition cartSubtotal :: "CartLine list \<Rightarrow> number" where
  "cartSubtotal lines =
     foldl (\<lambda>s l. num_add s (num_times (js_Number (fp_price (cl_product l))) (cl_qty l))) (Fin 0) lines"

definition cartProductIds :: "CartLine list \<Rightarrow> string list" where
  "cartProductIds lines = map line_id lines"

text \<open>\<open>bytes\<close> are the twelve random bytes.\<close>

definition hex_byte :: "nat \<Rightarrow> string" where
  "hex_byte b = (let h = (\<lambda>n. ''0123456789abcdef'' ! n) in [h (b div 16), h (b mod 16)])"

definition newOrderKey :: "nat list \<Rightarrow> string" where
  "newOrderKey bytes = concat (map hex_byte bytes)"

section \<open>Facts about carts\<close>

definition cart_ok :: "CartLine list \<Rightarrow> bool" where
  "cart_ok lines = (distinct (cartProductIds lines) \<and> list_all (\<lambda>l. 1 \<le> cl_qty l \<and> cl_qty l \<le> 99) lines)"

lemma cart_ok_Nil [simp]: "cart_ok []"
  by (simp add: cart_ok_def cartProductIds_def)

lemma ids_raise_first: "map line_id (raise_first i q lines) = map line_id lines"
  by (induction lines) auto

lemma qty_raise_first:
  "1 \<le> q \<Longrightarrow> list_all (\<lambda>l. 1 \<le> cl_qty l \<and> cl_qty l \<le> 99) lines \<Longrightarrow>
     list_all (\<lambda>l. 1 \<le> cl_qty l \<and> cl_qty l \<le> 99) (raise_first i q lines)"
  by (induction lines) auto

lemma addLine_ok: "cart_ok lines \<Longrightarrow> 1 \<le> q \<Longrightarrow> cart_ok (addLine lines p q)"
  by (auto simp: cart_ok_def addLine_def cartProductIds_def ids_raise_first qty_raise_first list_ex_iff)

lemma distinct_map_filter: "distinct (map f xs) \<Longrightarrow> distinct (map f (filter P xs))"
  by (induction xs) auto

lemma ids_map_qty:
  "map line_id (map (\<lambda>l. if line_id l = i then l\<lparr>cl_qty := f l\<rparr> else l) lines) = map line_id lines"
  by (induction lines) auto

lemma changeQty_ok:
  assumes "cart_ok lines" "\<forall>l \<in> set lines. line_id l = i \<longrightarrow> cl_qty l + d \<le> 99"
  shows "cart_ok (changeQty lines i d)"
proof -
  let ?m = "map (\<lambda>l. if line_id l = i then l\<lparr>cl_qty := cl_qty l + d\<rparr> else l) lines"
  have "distinct (map line_id (filter (\<lambda>l. 0 < cl_qty l) ?m))"
    using assms(1) by (intro distinct_map_filter) (simp only: ids_map_qty cart_ok_def cartProductIds_def)
  moreover have "list_all (\<lambda>l. 1 \<le> cl_qty l \<and> cl_qty l \<le> 99) (changeQty lines i d)"
    using assms by (auto simp: cart_ok_def changeQty_def list_all_iff)
  ultimately show ?thesis by (simp add: cart_ok_def cartProductIds_def changeQty_def)
qed

lemma removeLine_ok: "cart_ok lines \<Longrightarrow> cart_ok (removeLine lines i)"
  by (auto simp: cart_ok_def removeLine_def cartProductIds_def list_all_iff intro: distinct_map_filter)

lemma cart_key_inj [simp]: "cart_key p = cart_key q \<longleftrightarrow> p = q"
  by (simp add: cart_key_def)

lemma load_cell: "list_all (\<lambda>l. 0 < cl_qty l) lines \<Longrightarrow>
    concat (map parse_line (map (\<lambda>l. (Some (cl_product l), cl_qty l)) lines)) = lines"
  by (induction lines) auto

lemma load_save [simp]:
  "list_all (\<lambda>l. 0 < cl_qty l) lines \<Longrightarrow>
     loadCart works (saveCart works p lines storage) q =
       (if works \<and> p = q then lines else loadCart works storage q)"
  by (simp add: loadCart_def saveCart_def cell_of_def load_cell del: map_map)

lemma cart_ok_positive: "cart_ok lines \<Longrightarrow> list_all (\<lambda>l. 0 < cl_qty l) lines"
  by (auto simp: cart_ok_def list_all_iff)

end
