(* ===== verification/FacetStore.thy ===== *)
theory FacetStore
  imports FacetLib
begin

text \<open>
  The state of the Facet demo shop (\<open>lib/store.tsx\<close>, \<open>components/CartDrawer.tsx\<close>): the demo session,
  the cart of the current persona with its copy in \<open>localStorage\<close>, the chrome, and the simulated
  purchase. A state update and the effects React runs for it are one step; where an effect sets state,
  the render after it and the effects of that render belong to the step. \<open>fa_sent\<close> are the telemetry
  events the shop has posted and \<open>fa_orders\<close> the purchases it has asked for, the newest first.
\<close>

section \<open>State\<close>

datatype ToastKind = t_ok | t_warn | t_note

record Toast =
  to_message :: string
  to_kind :: ToastKind
  to_action :: "string option"

record DemoEvent =
  ev_action :: string
  ev_productId :: string
  ev_quantity :: "int option"
  ev_price :: "string option"
  ev_surface :: Surface

record OrderRequest =
  or_key :: string
  or_lines :: "(string \<times> int) list"

record facet =
  fa_session :: "DemoSession option"
  fa_sessionError :: "string option"
  fa_switching :: bool
  fa_cart :: "CartLine list"
  fa_drawerOpen :: bool
  fa_railOpen :: bool
  fa_toast :: "(Toast \<times> int) option"
  fa_live :: string
  fa_recent :: "string list"
  fa_lastProvenance :: "Provenance option"
  fa_health :: "Health option"
  fa_works :: bool
  fa_storage :: "string \<rightharpoonup> cart_cell"
  fa_sent :: "DemoEvent list"
  fa_busy :: bool
  fa_error :: "string option"
  fa_orderKey :: "string option"
  fa_orders :: "OrderRequest list"

definition facet_load :: "bool \<Rightarrow> (string \<rightharpoonup> cart_cell) \<Rightarrow> string list \<Rightarrow> facet" where
  "facet_load works storage recent =
     \<lparr>fa_session = None, fa_sessionError = None, fa_switching = False, fa_cart = [], fa_drawerOpen = False,
      fa_railOpen = False, fa_toast = None, fa_live = [], fa_recent = recent, fa_lastProvenance = None,
      fa_health = None, fa_works = works, fa_storage = storage, fa_sent = [], fa_busy = False,
      fa_error = None, fa_orderKey = None, fa_orders = []\<rparr>"

text \<open>\<open>session?.persona.key ?? null\<close>; the effects skip an empty key.\<close>

definition personaKey :: "facet \<Rightarrow> string option" where
  "personaKey st = map_option (per_key \<circ> ds_persona) (fa_session st)"

definition isGuest :: "facet \<Rightarrow> bool" where
  "isGuest st = (\<not> truthy (Option.bind (fa_session st) (per_userId \<circ> ds_persona)))"

section \<open>Effects\<close>

text \<open>The second effect: \<open>saveCart(personaKey, cart)\<close>.\<close>

definition save_effect :: "facet \<Rightarrow> facet" where
  "save_effect st =
     (if truthy (personaKey st)
      then st\<lparr>fa_storage := saveCart (fa_works st) (the (personaKey st)) (fa_cart st) (fa_storage st)\<rparr>
      else st)"

text \<open>A changed persona runs both effects: the first reads the new persona's cart, the second saves
  the cart of the render, still the old persona's, under the new key; the next render has the cart that was
  read, which the second effect saves.\<close>

definition persona_effects :: "facet \<Rightarrow> facet" where
  "persona_effects st =
     (if truthy (personaKey st)
      then let loaded = loadCart (fa_works st) (fa_storage st) (the (personaKey st))
           in save_effect ((save_effect st)\<lparr>fa_cart := loaded\<rparr>)
      else st)"

definition setSession :: "DemoSession \<Rightarrow> facet \<Rightarrow> facet" where
  "setSession s st =
     (let st' = st\<lparr>fa_session := Some s\<rparr>
      in if personaKey st' = personaKey st then st' else persona_effects st')"

definition setCart :: "CartLine list \<Rightarrow> facet \<Rightarrow> facet" where
  "setCart lines st = save_effect (st\<lparr>fa_cart := lines\<rparr>)"

section \<open>Operations\<close>

definition announce :: "string \<Rightarrow> facet \<Rightarrow> facet" where
  "announce message st = st\<lparr>fa_live := message\<rparr>"

text \<open>A toast with the moment its timer removes it; a new toast clears the older timer.\<close>

definition showToast :: "int \<Rightarrow> string \<Rightarrow> ToastKind \<Rightarrow> string option \<Rightarrow> facet \<Rightarrow> facet" where
  "showToast now0 message kind action st =
     st\<lparr>fa_toast := Some (\<lparr>to_message = message, to_kind = kind, to_action = action\<rparr>, now0 + 3600)\<rparr>"

definition toast_timer :: "int \<Rightarrow> facet \<Rightarrow> facet" where
  "toast_timer now0 st =
     (case fa_toast st of Some (t, due) \<Rightarrow> if due \<le> now0 then st\<lparr>fa_toast := None\<rparr> else st | None \<Rightarrow> st)"

definition dismissToast :: "facet \<Rightarrow> facet" where
  "dismissToast st = st\<lparr>fa_toast := None\<rparr>"

definition session_answer :: "string + DemoSession \<Rightarrow> facet \<Rightarrow> facet" where
  "session_answer r st =
     (case r of Inr s \<Rightarrow> (setSession s st)\<lparr>fa_sessionError := None\<rparr>
      | Inl message \<Rightarrow> st\<lparr>fa_sessionError := Some message\<rparr>)"

definition switchPersona_start :: "facet \<Rightarrow> facet" where
  "switchPersona_start st = st\<lparr>fa_switching := True\<rparr>"

definition switchPersona_answer :: "int \<Rightarrow> string + DemoSession \<Rightarrow> facet \<Rightarrow> facet" where
  "switchPersona_answer now0 r st =
     (case r of
        Inr s \<Rightarrow> announce (''Switched to '' @ per_name (ds_persona s) @ ''. Recommendations reloading.'')
                  ((setSession s st)\<lparr>fa_lastProvenance := None\<rparr>)
      | Inl message \<Rightarrow> showToast now0 (''Could not switch shopper: '' @ message) t_warn None st)
     \<lparr>fa_switching := False\<rparr>"

definition send :: "DemoEvent \<Rightarrow> facet \<Rightarrow> facet" where
  "send e st = st\<lparr>fa_sent := e # fa_sent st\<rparr>"

definition addToCart :: "int \<Rightarrow> Product \<Rightarrow> int \<Rightarrow> facet \<Rightarrow> facet" where
  "addToCart now0 product qty st =
     (case fa_session st of
        None \<Rightarrow> st
      | Some s \<Rightarrow>
          (let next0 = addLine (fa_cart st) product qty in
           showToast now0 (fp_title product @ '' added to '' @ per_name (ds_persona s) @ (CHR 0x27 # ''s cart''))
               t_ok (Some ''View cart'')
             (send \<lparr>ev_action = ''add_to_cart'', ev_productId = fp_externalId product, ev_quantity = Some qty,
                    ev_price = Some (fp_price product), ev_surface = sf_cart\<rparr>
               (announce (fp_title product @ '' added. Cart has '' @ show_int (cartCount next0) @ '' items.'')
                 (setCart next0 st)))))"

definition cart_event_answer :: "int \<Rightarrow> bool \<Rightarrow> facet \<Rightarrow> facet" where
  "cart_event_answer now0 ok0 st =
     (if ok0 then st
      else showToast now0 ''Could not record that cart event. Shopping is unaffected.'' t_warn None st)"

definition remove_event :: "string \<Rightarrow> int \<Rightarrow> DemoEvent" where
  "remove_event productId quantity =
     \<lparr>ev_action = ''remove_from_cart'', ev_productId = productId, ev_quantity = Some quantity,
      ev_price = None, ev_surface = sf_cart\<rparr>"

definition find_line :: "string \<Rightarrow> CartLine list \<Rightarrow> CartLine option" where
  "find_line productId lines = List.find (\<lambda>l. line_id l = productId) lines"

definition setQty :: "string \<Rightarrow> int \<Rightarrow> facet \<Rightarrow> facet" where
  "setQty productId delta st =
     (let st' = (case find_line productId (fa_cart st) of
            Some before \<Rightarrow>
              if delta < 0 \<and> cl_qty before + delta \<le> 0 then send (remove_event productId (cl_qty before)) st else st
          | None \<Rightarrow> st)
      in setCart (changeQty (fa_cart st) productId delta) st')"

definition removeFromCart :: "string \<Rightarrow> facet \<Rightarrow> facet" where
  "removeFromCart productId st =
     (let st' = (case find_line productId (fa_cart st) of
            Some before \<Rightarrow> send (remove_event productId (cl_qty before)) st
          | None \<Rightarrow> st)
      in setCart (removeLine (fa_cart st) productId) st')"

definition clearCart :: "facet \<Rightarrow> facet" where
  "clearCart st = setCart [] st"

definition noteViewed :: "string \<Rightarrow> facet \<Rightarrow> facet" where
  "noteViewed productId st =
     st\<lparr>fa_recent := take_last 10 (filter (\<lambda>i. i \<noteq> productId) (fa_recent st) @ [productId])\<rparr>"

definition refreshHealth_answer :: "Health option \<Rightarrow> facet \<Rightarrow> facet" where
  "refreshHealth_answer r st = st\<lparr>fa_health := r\<rparr>"

section \<open>The purchase\<close>

text \<open>The cart drawer's \<open>simulate\<close> up to its request; \<open>fresh\<close> is what \<open>newOrderKey\<close> would return.\<close>

definition order_lines :: "CartLine list \<Rightarrow> (string \<times> int) list" where
  "order_lines lines = map (\<lambda>l. (line_id l, cl_qty l)) lines"

definition simulate :: "string \<Rightarrow> facet \<Rightarrow> facet" where
  "simulate fresh st =
     (if fa_cart st = [] then st
      else let key = or_else (fa_orderKey st) fresh in
        st\<lparr>fa_busy := True, fa_error := None, fa_orderKey := Some key,
           fa_orders := \<lparr>or_key = key, or_lines = order_lines (fa_cart st)\<rparr> # fa_orders st\<rparr>)"

definition purchase_answer :: "string + Purchase \<Rightarrow> facet \<Rightarrow> facet" where
  "purchase_answer r st =
     (case r of
        Inr order \<Rightarrow>
          announce (''Purchase simulated. Order '' @ pu_orderId order @ ''.'')
            ((clearCart (st\<lparr>fa_orderKey := None\<rparr>))\<lparr>fa_drawerOpen := False\<rparr>)
      | Inl message \<Rightarrow> st\<lparr>fa_error := Some message\<rparr>)
     \<lparr>fa_busy := False\<rparr>"

text \<open>The button is enabled with lines in the cart and no purchase under way, in an open drawer.\<close>

definition can_simulate :: "facet \<Rightarrow> bool" where
  "can_simulate st = (fa_drawerOpen st \<and> fa_session st \<noteq> None \<and> fa_cart st \<noteq> [] \<and> \<not> fa_busy st)"

section \<open>Runs\<close>

datatype action =
    SessionAnswer "string + DemoSession"
  | SwitchStart
  | SwitchAnswer int "string + DemoSession"
  | Add int Product int
  | EventAnswer int bool
  | Decrease string
  | Increase string
  | Remove string
  | Drawer bool
  | Rail bool
  | ToastTimer int
  | Dismiss
  | Viewed string
  | HealthAnswer "Health option"
  | ShelfProvenance Provenance
  | Simulate string
  | PurchaseAnswer "string + Purchase"

fun facet_do :: "action \<Rightarrow> facet \<Rightarrow> facet" where
  "facet_do (SessionAnswer r) st = session_answer r st"
| "facet_do SwitchStart st = switchPersona_start st"
| "facet_do (SwitchAnswer now0 r) st = switchPersona_answer now0 r st"
| "facet_do (Add now0 product qty) st = addToCart now0 product qty st"
| "facet_do (EventAnswer now0 ok0) st = cart_event_answer now0 ok0 st"
| "facet_do (Decrease productId) st = setQty productId (- 1) st"
| "facet_do (Increase productId) st = setQty productId 1 st"
| "facet_do (Remove productId) st = removeFromCart productId st"
| "facet_do (Drawer open0) st = st\<lparr>fa_drawerOpen := open0\<rparr>"
| "facet_do (Rail open0) st = st\<lparr>fa_railOpen := open0\<rparr>"
| "facet_do (ToastTimer now0) st = toast_timer now0 st"
| "facet_do Dismiss st = dismissToast st"
| "facet_do (Viewed productId) st = noteViewed productId st"
| "facet_do (HealthAnswer r) st = refreshHealth_answer r st"
| "facet_do (ShelfProvenance p) st = st\<lparr>fa_lastProvenance := Some p\<rparr>"
| "facet_do (Simulate fresh) st = simulate fresh st"
| "facet_do (PurchaseAnswer r) st = purchase_answer r st"

text \<open>
  What the pages allow: a persona has a key; the product page adds one to nine, the cards one; the
  plus button is disabled from 99 on; a purchase is answered after it was asked for.
\<close>

fun session_named :: "string + DemoSession \<Rightarrow> bool" where
  "session_named (Inl m) = True"
| "session_named (Inr s) = (per_key (ds_persona s) \<noteq> [])"

fun enabled :: "action \<Rightarrow> facet \<Rightarrow> bool" where
  "enabled (SessionAnswer r) st = session_named r"
| "enabled (SwitchAnswer now0 r) st = (fa_switching st \<and> session_named r)"
| "enabled (Add now0 product qty) st = (1 \<le> qty \<and> qty \<le> 9)"
| "enabled (Decrease productId) st = (find_line productId (fa_cart st) \<noteq> None)"
| "enabled (Increase productId) st =
     (case find_line productId (fa_cart st) of Some l \<Rightarrow> cl_qty l < 99 | None \<Rightarrow> False)"
| "enabled (Simulate fresh) st = can_simulate st"
| "enabled (PurchaseAnswer r) st = fa_busy st"
| "enabled _ st = True"

text \<open>What an earlier visit has stored.\<close>

definition stored_ok :: "(string \<rightharpoonup> cart_cell) \<Rightarrow> bool" where
  "stored_ok storage = (\<forall>p. cart_ok (loadCart True storage p))"

inductive facet_reachable :: "facet \<Rightarrow> bool" where
  start: "stored_ok storage \<Longrightarrow> length recent \<le> 10 \<Longrightarrow> facet_reachable (facet_load works storage recent)"
| step: "facet_reachable st \<Longrightarrow> enabled a st \<Longrightarrow> facet_reachable (facet_do a st)"

end
