(* ===== verification/FacetProps.thy ===== *)
theory FacetProps
  imports FacetStore
begin

text \<open>
  What the Facet shop keeps: well-formed carts, one cart per persona (a refinement of the abstract
  \<open>shop\<close>), one key per purchase attempt.
\<close>

section \<open>Effects on the fields\<close>

named_theorems facet_simps \<open>field effects of the operations of the shop\<close>

lemma save_effect_fields [facet_simps]:
  "fa_session (save_effect st) = fa_session st" "fa_cart (save_effect st) = fa_cart st"
  "fa_works (save_effect st) = fa_works st" "fa_recent (save_effect st) = fa_recent st"
  "fa_orders (save_effect st) = fa_orders st" "fa_orderKey (save_effect st) = fa_orderKey st"
  "fa_busy (save_effect st) = fa_busy st" "personaKey (save_effect st) = personaKey st"
  by (simp_all add: save_effect_def personaKey_def)

lemma save_twice [simp]: "saveCart w p a (saveCart w p b m) = saveCart w p a m"
  by (simp add: saveCart_def)

lemma save_effect_load [facet_simps]:
  "list_all (\<lambda>l. 0 < cl_qty l) (fa_cart st) \<Longrightarrow>
     loadCart (fa_works st) (fa_storage (save_effect st)) q =
       (if fa_works st \<and> personaKey st = Some q \<and> q \<noteq> [] then fa_cart st
        else loadCart (fa_works st) (fa_storage st) q)"
  by (cases "personaKey st") (auto simp: save_effect_def)

lemma personaKey_more [simp]:
  "personaKey (st\<lparr>fa_cart := c\<rparr>) = personaKey st"
  "personaKey (st\<lparr>fa_storage := m\<rparr>) = personaKey st"
  "personaKey (st\<lparr>fa_session := Some s\<rparr>) = Some (per_key (ds_persona s))"
  "personaKey (st\<lparr>fa_session := Some s, fa_storage := m\<rparr>) = Some (per_key (ds_persona s))"
  by (simp_all add: personaKey_def)

section \<open>The invariant\<close>

definition facet_inv :: "facet \<Rightarrow> bool" where
  "facet_inv st =
     (personaKey st \<noteq> Some [] \<and> cart_ok (fa_cart st) \<and>
      (\<forall>p. cart_ok (loadCart (fa_works st) (fa_storage st) p)) \<and>
      (\<forall>p. fa_works st \<and> personaKey st = Some p \<longrightarrow> loadCart (fa_works st) (fa_storage st) p = fa_cart st))"

text \<open>Only these fields matter to it.\<close>

definition same_shop :: "facet \<Rightarrow> facet \<Rightarrow> bool" where
  "same_shop a b = (fa_session a = fa_session b \<and> fa_cart a = fa_cart b \<and> fa_works a = fa_works b \<and>
     fa_storage a = fa_storage b)"

lemma same_shop_inv: "same_shop a b \<Longrightarrow> facet_inv b \<Longrightarrow> facet_inv a"
  by (simp add: same_shop_def facet_inv_def personaKey_def)

lemma setCart_inv:
  assumes "facet_inv st" "cart_ok lines"
  shows "facet_inv (setCart lines st)"
proof -
  have "list_all (\<lambda>l. 0 < cl_qty l) lines" using assms(2) by (rule cart_ok_positive)
  then have "loadCart (fa_works st) (fa_storage (setCart lines st)) q =
      (if fa_works st \<and> personaKey st = Some q \<and> q \<noteq> [] then lines
       else loadCart (fa_works st) (fa_storage st) q)" for q
    using save_effect_load [of "st\<lparr>fa_cart := lines\<rparr>" q] by (simp add: setCart_def)
  with assms show ?thesis by (auto simp: facet_inv_def setCart_def facet_simps)
qed

lemma setSession_new:
  assumes "facet_inv st" "per_key (ds_persona s) = k" "k \<noteq> []" "personaKey st \<noteq> Some k"
  shows "fa_cart (setSession s st) = loadCart (fa_works st) (fa_storage st) k"
    and "loadCart (fa_works st) (fa_storage (setSession s st)) q = loadCart (fa_works st) (fa_storage st) q"
    and "fa_session (setSession s st) = Some s" "fa_works (setSession s st) = fa_works st"
    and "fa_recent (setSession s st) = fa_recent st"
proof -
  let ?l = "loadCart (fa_works st) (fa_storage st) k"
  have eff: "setSession s st = st\<lparr>fa_session := Some s, fa_cart := ?l,
      fa_storage := saveCart (fa_works st) k ?l (fa_storage st)\<rparr>"
    using assms by (simp add: setSession_def persona_effects_def save_effect_def Let_def)
  have "cart_ok ?l" using assms(1) by (simp add: facet_inv_def)
  then have "list_all (\<lambda>l. 0 < cl_qty l) ?l" by (rule cart_ok_positive)
  then show "loadCart (fa_works st) (fa_storage (setSession s st)) q = loadCart (fa_works st) (fa_storage st) q"
    by (simp add: eff)
  show "fa_cart (setSession s st) = ?l" "fa_session (setSession s st) = Some s"
    "fa_works (setSession s st) = fa_works st" "fa_recent (setSession s st) = fa_recent st"
    by (simp_all add: eff)
qed

lemma setSession_inv:
  assumes "facet_inv st" "per_key (ds_persona s) \<noteq> []"
  shows "facet_inv (setSession s st)"
proof (cases "personaKey st = Some (per_key (ds_persona s))")
  case True
  then have "setSession s st = st\<lparr>fa_session := Some s\<rparr>" by (simp add: setSession_def)
  with assms True show ?thesis by (simp add: facet_inv_def)
next
  case False
  note n = setSession_new [OF assms(1) refl assms(2) False]
  then have "personaKey (setSession s st) = Some (per_key (ds_persona s))" by (simp add: personaKey_def)
  with assms n show ?thesis by (cases "fa_works st") (simp_all add: facet_inv_def)
qed

lemma find_line_some: "find_line i lines = Some l \<Longrightarrow> l \<in> set lines \<and> line_id l = i"
  by (auto simp: find_line_def find_Some_iff)

lemma find_line_unique:
  "cart_ok lines \<Longrightarrow> find_line i lines = Some l \<Longrightarrow> l' \<in> set lines \<Longrightarrow> line_id l' = i \<Longrightarrow> l' = l"
  using find_line_some [of i lines l]
  by (auto simp: cart_ok_def cartProductIds_def distinct_map dest: inj_onD)

lemma cart_qty_le: "cart_ok lines \<Longrightarrow> l \<in> set lines \<Longrightarrow> cl_qty l \<le> 99"
  by (simp add: cart_ok_def list_all_iff)

text \<open>Every operation is a telemetry part, which leaves the shop alone, around one of three changes.\<close>

lemma setQty_shop: "same_shop (setQty i d st) (setCart (changeQty (fa_cart st) i d) st)"
  by (auto simp: setQty_def setCart_def save_effect_def personaKey_def send_def same_shop_def split: option.split)

lemma removeFromCart_shop: "same_shop (removeFromCart i st) (setCart (removeLine (fa_cart st) i) st)"
  by (auto simp: removeFromCart_def setCart_def save_effect_def personaKey_def send_def same_shop_def split: option.split)

lemma addToCart_shop:
  "fa_session st \<noteq> None \<Longrightarrow> same_shop (addToCart n p q st) (setCart (addLine (fa_cart st) p q) st)"
  by (auto simp: addToCart_def Let_def same_shop_def announce_def showToast_def send_def setCart_def
      facet_simps split: option.split)

lemma purchase_shop:
  "same_shop (purchase_answer (Inr order) st) (setCart [] st)"
  "same_shop (purchase_answer (Inl e) st) st"
  by (auto simp: purchase_answer_def clearCart_def setCart_def save_effect_def personaKey_def
      same_shop_def announce_def split: sum.split)

lemma switch_shop:
  "same_shop (switchPersona_answer n (Inr s) st) (setSession s st)"
  "same_shop (switchPersona_answer n (Inl e) st) st"
  by (simp_all add: switchPersona_answer_def announce_def showToast_def same_shop_def)

lemma session_shop:
  "same_shop (session_answer (Inr s) st) (setSession s st)"
  "same_shop (session_answer (Inl e) st) st"
  by (simp_all add: session_answer_def same_shop_def)

lemma telemetry_same:
  "same_shop (facet_do SwitchStart st) st" "same_shop (facet_do (EventAnswer n b) st) st"
  "same_shop (facet_do (Drawer b) st) st" "same_shop (facet_do (Rail b) st) st"
  "same_shop (facet_do (ToastTimer n) st) st" "same_shop (facet_do Dismiss st) st"
  "same_shop (facet_do (Viewed i) st) st" "same_shop (facet_do (HealthAnswer h) st) st"
  "same_shop (facet_do (ShelfProvenance pv) st) st" "same_shop (facet_do (Simulate f) st) st"
  by (simp_all add: switchPersona_start_def cart_event_answer_def refreshHealth_answer_def
      showToast_def same_shop_def toast_timer_def dismissToast_def noteViewed_def simulate_def Let_def
      split: option.split prod.split)

text \<open>The three changes, and nothing, for every action.\<close>

lemma facet_do_cases:
  assumes "enabled a st"
  obtains (same) "same_shop (facet_do a st) st"
  | (cart) c where "same_shop (facet_do a st) (setCart c st)" "cart_ok (fa_cart st) \<Longrightarrow> cart_ok c"
  | (session) s where "same_shop (facet_do a st) (setSession s st)" "per_key (ds_persona s) \<noteq> []"
proof (cases a)
  case (SessionAnswer r)
  show ?thesis
  proof (cases r)
    case (Inl e)
    with SessionAnswer show ?thesis by (intro same) (simp add: session_shop)
  next
    case (Inr s)
    with SessionAnswer assms show ?thesis by (intro session [of s]) (simp_all add: session_shop)
  qed
next
  case (SwitchAnswer n r)
  show ?thesis
  proof (cases r)
    case (Inl e)
    with SwitchAnswer show ?thesis by (intro same) (simp add: switch_shop)
  next
    case (Inr s)
    with SwitchAnswer assms show ?thesis by (intro session [of s]) (simp_all add: switch_shop)
  qed
next
  case (Add n p q)
  show ?thesis
  proof (cases "fa_session st")
    case None
    with Add show ?thesis by (intro same) (simp add: addToCart_def same_shop_def)
  next
    case (Some x)
    with Add assms show ?thesis
      by (intro cart [of "addLine (fa_cart st) p q"]) (simp_all add: addToCart_shop addLine_ok)
  qed
next
  case (Decrease i)
  then show ?thesis
    by (intro cart [of "changeQty (fa_cart st) i (- 1)"])
      (auto simp: setQty_shop intro!: changeQty_ok dest: cart_qty_le)
next
  case (Increase i)
  then obtain l where l: "find_line i (fa_cart st) = Some l" "cl_qty l < 99"
    using assms by (auto split: option.splits)
  have "cart_ok (changeQty (fa_cart st) i 1)" if "cart_ok (fa_cart st)"
    using find_line_unique [OF that l(1)] l(2) that by (intro changeQty_ok) auto
  with Increase show ?thesis
    by (intro cart [of "changeQty (fa_cart st) i 1"]) (simp_all add: setQty_shop)
next
  case (Remove i)
  then show ?thesis
    by (intro cart [of "removeLine (fa_cart st) i"]) (simp_all add: removeFromCart_shop removeLine_ok)
next
  case (PurchaseAnswer r)
  show ?thesis
  proof (cases r)
    case (Inl e)
    with PurchaseAnswer show ?thesis by (intro same) (simp add: purchase_shop)
  next
    case (Inr order)
    with PurchaseAnswer show ?thesis by (intro cart [of "[]"]) (simp_all add: purchase_shop)
  qed
qed (simp_all only: same telemetry_same)

lemma facet_step_inv: "facet_inv st \<Longrightarrow> enabled a st \<Longrightarrow> facet_inv (facet_do a st)"
proof (erule facet_do_cases [of a st])
  assume i: "facet_inv st"
  then have ok0: "cart_ok (fa_cart st)" by (simp add: facet_inv_def)
  show "same_shop (facet_do a st) st \<Longrightarrow> facet_inv (facet_do a st)"
    using i by (blast intro: same_shop_inv)
  show "facet_inv (facet_do a st)" if "same_shop (facet_do a st) (setCart c st)" "cart_ok (fa_cart st) \<Longrightarrow> cart_ok c" for c
    using that(1) setCart_inv [OF i that(2) [OF ok0]] by (rule same_shop_inv)
  show "facet_inv (facet_do a st)" if "same_shop (facet_do a st) (setSession s st)" "per_key (ds_persona s) \<noteq> []" for s
    using that(1) setSession_inv [OF i that(2)] by (rule same_shop_inv)
qed

lemma facet_load_inv: "stored_ok storage \<Longrightarrow> facet_inv (facet_load works storage recent)"
  by (cases works) (simp_all add: facet_inv_def facet_load_def personaKey_def stored_ok_def,
    simp_all add: loadCart_def)

lemma facet_reachable_inv: "facet_reachable st \<Longrightarrow> facet_inv st"
  by (induction rule: facet_reachable.induct) (simp_all add: facet_load_inv facet_step_inv)

section \<open>One cart per persona\<close>

text \<open>The abstract shop: who is shopping, and a cart for every persona.\<close>

record shop =
  current :: "string option"
  carts :: "string \<Rightarrow> CartLine list"

definition on_cart :: "(CartLine list \<Rightarrow> CartLine list) \<Rightarrow> shop \<Rightarrow> shop" where
  "on_cart f s = (case current s of None \<Rightarrow> s | Some p \<Rightarrow> s\<lparr>carts := (carts s)(p := f (carts s p))\<rparr>)"

fun shop_do :: "action \<Rightarrow> shop \<Rightarrow> shop" where
  "shop_do (SessionAnswer (Inr d)) s = s\<lparr>current := Some (per_key (ds_persona d))\<rparr>"
| "shop_do (SwitchAnswer n (Inr d)) s = s\<lparr>current := Some (per_key (ds_persona d))\<rparr>"
| "shop_do (Add n product qty) s = on_cart (\<lambda>ls. addLine ls product qty) s"
| "shop_do (Decrease i) s = on_cart (\<lambda>ls. changeQty ls i (- 1)) s"
| "shop_do (Increase i) s = on_cart (\<lambda>ls. changeQty ls i 1) s"
| "shop_do (Remove i) s = on_cart (\<lambda>ls. removeLine ls i) s"
| "shop_do (PurchaseAnswer (Inr order)) s = on_cart (\<lambda>ls. []) s"
| "shop_do _ s = s"

definition shop_of :: "facet \<Rightarrow> shop" where
  "shop_of st =
     \<lparr>current = personaKey st,
      carts = (\<lambda>p. if personaKey st = Some p then fa_cart st else loadCart (fa_works st) (fa_storage st) p)\<rparr>"

lemma shop_of_same: "same_shop a b \<Longrightarrow> shop_of a = shop_of b"
  unfolding same_shop_def shop_of_def personaKey_def by (simp cong: if_cong)

lemma shop_of_setCart:
  assumes "facet_inv st" "cart_ok c"
  shows "shop_of (setCart c st) = on_cart (\<lambda>ls. c) (shop_of st)"
proof -
  have "list_all (\<lambda>l. 0 < cl_qty l) c" using assms(2) by (rule cart_ok_positive)
  then have "loadCart (fa_works st) (fa_storage (setCart c st)) q =
      (if fa_works st \<and> personaKey st = Some q \<and> q \<noteq> [] then c else loadCart (fa_works st) (fa_storage st) q)" for q
    using save_effect_load [of "st\<lparr>fa_cart := c\<rparr>" q] by (simp add: setCart_def)
  then show ?thesis
    by (auto simp: shop_of_def on_cart_def setCart_def facet_simps fun_eq_iff split: option.split)
qed

lemma on_cart_shown: "on_cart (\<lambda>ls. f (fa_cart st)) (shop_of st) = on_cart f (shop_of st)"
  by (auto simp: on_cart_def shop_of_def split: option.split)

lemma shop_of_change:
  "facet_inv st \<Longrightarrow> cart_ok (f (fa_cart st)) \<Longrightarrow> same_shop st' (setCart (f (fa_cart st)) st) \<Longrightarrow>
     shop_of st' = on_cart f (shop_of st)"
  by (metis shop_of_same shop_of_setCart on_cart_shown)

lemma shop_of_setSession:
  assumes "facet_inv st" "fa_works st" "per_key (ds_persona s) \<noteq> []"
  shows "shop_of (setSession s st) = (shop_of st)\<lparr>current := Some (per_key (ds_persona s))\<rparr>"
proof (cases "personaKey st = Some (per_key (ds_persona s))")
  case True
  then have "setSession s st = st\<lparr>fa_session := Some s\<rparr>" by (simp add: setSession_def)
  with True show ?thesis by (simp add: shop_of_def fun_eq_iff)
next
  case False
  note n = setSession_new [OF assms(1) refl assms(3) False]
  then have "personaKey (setSession s st) = Some (per_key (ds_persona s))" by (simp add: personaKey_def)
  with n assms False show ?thesis by (auto simp: shop_of_def facet_inv_def fun_eq_iff)
qed

lemma increase_ok:
  assumes "cart_ok lines" "find_line i lines = Some l" "cl_qty l < 99"
  shows "cart_ok (changeQty lines i 1)"
  using find_line_unique [OF assms(1,2)] assms(1,3) by (intro changeQty_ok) auto

lemma shop_refines:
  assumes inv: "facet_inv st" and en: "enabled a st" and works: "fa_works st"
  shows "shop_of (facet_do a st) = shop_do a (shop_of st)"
proof -
  have ok0: "cart_ok (fa_cart st)" using inv by (simp add: facet_inv_def)
  note change = shop_of_change [OF inv]
  show ?thesis
  proof (cases a)
    case (SessionAnswer r)
    with en inv works show ?thesis
      by (cases r) (simp_all add: shop_of_same [OF session_shop(1)] shop_of_same [OF session_shop(2)]
          shop_of_setSession)
  next
    case (SwitchAnswer n r)
    with en inv works show ?thesis
      by (cases r) (simp_all add: shop_of_same [OF switch_shop(1)] shop_of_same [OF switch_shop(2)]
          shop_of_setSession)
  next
    case (Add n p q)
    show ?thesis
    proof (cases "fa_session st")
      case None
      with Add show ?thesis by (simp add: addToCart_def on_cart_def shop_of_def personaKey_def)
    next
      case (Some x)
      with Add en show ?thesis
        by (simp add: change [of "\<lambda>ls. addLine ls p q"] addToCart_shop addLine_ok ok0)
    qed
  next
    case (Decrease i)
    have "cart_ok (changeQty (fa_cart st) i (- 1))" using ok0 by (auto intro!: changeQty_ok dest: cart_qty_le)
    with Decrease show ?thesis
      by (simp add: change [of "\<lambda>ls. changeQty ls i (- 1)"] setQty_shop)
  next
    case (Increase i)
    then have "cart_ok (changeQty (fa_cart st) i 1)"
      using en ok0 by (auto split: option.splits intro: increase_ok)
    with Increase show ?thesis by (simp add: change [of "\<lambda>ls. changeQty ls i 1"] setQty_shop)
  next
    case (Remove i)
    with ok0 show ?thesis
      by (simp add: change [of "\<lambda>ls. removeLine ls i"] removeFromCart_shop removeLine_ok)
  next
    case (PurchaseAnswer r)
    then show ?thesis
      by (cases r) (simp_all add: change [of "\<lambda>ls. []"] purchase_shop shop_of_same [OF purchase_shop(2)])
  qed (simp_all only: telemetry_same [THEN shop_of_same] shop_do.simps)
qed

text \<open>Two shoppers and a product, for the witnesses.\<close>

definition shopper :: "string \<Rightarrow> DemoSession" where
  "shopper k = \<lparr>ds_persona = \<lparr>per_key = k, per_name = k, per_blurb = [], per_color = [], per_userId = Some k\<rparr>,
     ds_sessionId = ''s'', ds_personas = []\<rparr>"

definition item :: "string \<Rightarrow> Product" where
  "item i = \<lparr>fp_externalId = i, fp_title = i, fp_description = None, fp_price = ''10.00'', fp_category = ''skincare'',
     fp_isActive = True, fp_availabilityStatus = ''available'', fp_available = True, fp_brand = None,
     fp_size = None, fp_tags = [], fp_accent = None\<rparr>"

definition maya_bag :: facet where
  "maya_bag = facet_do (Add 0 (item ''cream'') 2)
     (facet_do (SessionAnswer (Inr (shopper ''maya''))) (facet_load True (\<lambda>_. None) []))"

lemma maya_bag_reachable: "facet_reachable maya_bag"
  unfolding maya_bag_def
  by (intro facet_reachable.intros) (simp_all add: shopper_def stored_ok_def loadCart_def)

text \<open>C18: a cart is always one that can be ordered. In every reachable state, also after a failed
  write, a switch of persona or a cart stored by an earlier visit, the cart that is shown and the cart stored for
  every persona have one line per product with a quantity from 1 to 99; and what is shown is what
  is stored for the current persona.\<close>

theorem cart_invariant:
  assumes "facet_reachable st"
  shows "distinct (cartProductIds (fa_cart st)) \<and>
    list_all (\<lambda>l. 1 \<le> cl_qty l \<and> cl_qty l \<le> 99) (fa_cart st) \<and>
    cart_ok (loadCart (fa_works st) (fa_storage st) p) \<and>
    (fa_works st \<and> personaKey st = Some p \<longrightarrow> loadCart True (fa_storage st) p = fa_cart st)"
  using facet_reachable_inv [OF assms] by (auto simp: facet_inv_def cart_ok_def)

theorem cart_invariant_witness: "loadCart True (fa_storage maya_bag) ''maya'' = fa_cart maya_bag"
proof -
  have "fa_works maya_bag \<and> personaKey maya_bag = Some ''maya''"
    by (simp add: maya_bag_def session_answer_def setSession_def persona_effects_def save_effect_def
        addToCart_def facet_load_def personaKey_def shopper_def Let_def announce_def send_def showToast_def
        setCart_def)
  with cart_invariant [OF maya_bag_reachable, of "''maya''"] show ?thesis by blast
qed

text \<open>C19: every persona has its own cart. While the storage works, each action on a reachable
  state does to the shop what the abstract shop says: signing in or switching persona changes no cart,
  though React saves the old cart under the new persona's key in between; adding, changing and
  removing lines change the current persona's cart only; an accepted purchase empties the
  cart of whoever is the current persona by then; nothing else changes a cart.\<close>

theorem carts_per_persona:
  assumes "facet_reachable st" "enabled a st" "fa_works st"
  shows "shop_of (facet_do a st) = shop_do a (shop_of st)"
  by (rule shop_refines [OF facet_reachable_inv [OF assms(1)] assms(2,3)])

theorem carts_per_persona_witness:
  "carts (shop_of (facet_do (SwitchAnswer 5 (Inr (shopper ''leo''))) (facet_do SwitchStart maya_bag))) ''maya'' =
     fa_cart maya_bag"
proof -
  have w: "fa_works maya_bag" "personaKey maya_bag = Some ''maya''"
    by (simp_all add: maya_bag_def session_answer_def setSession_def persona_effects_def save_effect_def
        addToCart_def facet_load_def personaKey_def shopper_def Let_def announce_def send_def showToast_def
        setCart_def)
  have r: "facet_reachable (facet_do SwitchStart maya_bag)"
    by (intro facet_reachable.step maya_bag_reachable) simp
  have e: "enabled (SwitchAnswer 5 (Inr (shopper ''leo''))) (facet_do SwitchStart maya_bag)"
    "fa_works (facet_do SwitchStart maya_bag)"
    using w by (simp_all add: switchPersona_start_def shopper_def)
  from carts_per_persona [OF r e] w show ?thesis
    by (simp add: shop_of_def switchPersona_start_def shopper_def personaKey_def)
qed

section \<open>Purchases\<close>

fun facet_run :: "action list \<Rightarrow> facet \<Rightarrow> facet" where
  "facet_run [] st = st"
| "facet_run (a # as) st = facet_run as (facet_do a st)"

fun accepted :: "action \<Rightarrow> bool" where
  "accepted (PurchaseAnswer (Inr order)) = True"
| "accepted a = False"

lemma orderKey_setSession: "fa_orderKey (setSession s st) = fa_orderKey st"
  by (simp add: setSession_def persona_effects_def Let_def facet_simps)

lemma orderKey_kept:
  "\<not> accepted a \<Longrightarrow> fa_orderKey st = Some k \<Longrightarrow> fa_orderKey (facet_do a st) = Some k"
proof (cases a)
  case (PurchaseAnswer r)
  then show "\<not> accepted a \<Longrightarrow> fa_orderKey st = Some k \<Longrightarrow> ?thesis"
    by (cases r) (simp_all add: purchase_answer_def)
qed (auto simp: session_answer_def switchPersona_start_def switchPersona_answer_def addToCart_def
    cart_event_answer_def setQty_def removeFromCart_def toast_timer_def dismissToast_def noteViewed_def
    refreshHealth_answer_def simulate_def setCart_def announce_def showToast_def send_def
    orderKey_setSession facet_simps Let_def split: sum.split option.split prod.split)

lemma orderKey_run:
  "list_all (\<lambda>a. \<not> accepted a) as \<Longrightarrow> fa_orderKey st = Some k \<Longrightarrow> fa_orderKey (facet_run as st) = Some k"
  by (induction as arbitrary: st) (simp_all add: orderKey_kept)

lemma can_simulate_order:
  "fa_cart st \<noteq> [] \<Longrightarrow> hd (fa_orders (simulate f st)) =
     \<lparr>or_key = or_else (fa_orderKey st) f, or_lines = order_lines (fa_cart st)\<rparr>"
  "fa_cart st \<noteq> [] \<Longrightarrow> fa_orderKey (simulate f st) = Some (or_else (fa_orderKey st) f)"
  by (simp_all add: simulate_def Let_def)

text \<open>A retried purchase carries the key of the attempt it retries. Whatever happens between two
  attempts (failures, closing the drawer, changes of the cart, a switch of persona), if no purchase
  was accepted between them the second is sent with the key of the first, together with the lines the cart has then;
  after an accepted purchase the next attempt has a fresh key.\<close>

lemma retry_same_order:
  assumes "can_simulate st" "list_all (\<lambda>a. \<not> accepted a) as"
    and "st' = facet_run as (facet_do (Simulate f) st)" "can_simulate st'"
  shows "hd (fa_orders (facet_do (Simulate g) st')) =
      \<lparr>or_key = or_key (hd (fa_orders (facet_do (Simulate f) st))), or_lines = order_lines (fa_cart st')\<rparr> \<and>
    fa_orderKey (facet_do (PurchaseAnswer (Inr order)) st') = None"
proof -
  have c: "fa_cart st \<noteq> []" "fa_cart st' \<noteq> []" using assms(1,4) by (simp_all add: can_simulate_def)
  have "fa_orderKey (facet_do (Simulate f) st) = Some (or_else (fa_orderKey st) f)"
    using c(1) by (simp add: can_simulate_order)
  then have "fa_orderKey st' = Some (or_else (fa_orderKey st) f)"
    using assms(2,3) by (simp add: orderKey_run)
  then show ?thesis
    using c by (simp add: can_simulate_order purchase_answer_def clearCart_def setCart_def announce_def facet_simps)
qed

lemmas facet_defs =
  maya_bag_def facet_load_def shopper_def item_def session_answer_def setSession_def persona_effects_def
  save_effect_def personaKey_def addToCart_def setCart_def announce_def send_def showToast_def
  switchPersona_start_def switchPersona_answer_def simulate_def purchase_answer_def clearCart_def
  setQty_def changeQty_def addLine_def find_line_def order_lines_def can_simulate_def cart_key_def
  loadCart_def saveCart_def cell_of_def

theorem retry_same_order_witness:
  "hd (fa_orders (facet_run [Drawer True, Simulate ''k1'', PurchaseAnswer (Inl ''timeout''), Increase ''cream'',
       Simulate ''k2''] maya_bag)) = \<lparr>or_key = ''k1'', or_lines = [(''cream'', 3)]\<rparr>"
proof -
  let ?st = "facet_do (Drawer True) maya_bag"
  let ?as = "[PurchaseAnswer (Inl ''timeout''), Increase ''cream'']"
  let ?st' = "facet_run ?as (facet_do (Simulate ''k1'') ?st)"
  have "can_simulate ?st" "can_simulate ?st'" "order_lines (fa_cart ?st') = [(''cream'', 3)]"
    "or_key (hd (fa_orders (facet_do (Simulate ''k1'') ?st))) = ''k1''"
    by (simp_all add: facet_defs Let_def)
  with retry_same_order [of ?st ?as ?st' "''k1''" "''k2''"] show ?thesis by simp
qed

definition receipt :: Purchase where
  "receipt = \<lparr>pu_orderId = ''ORD-1'', pu_lines = [], pu_total = ''20.00'', pu_acceptedCount = 1,
     pu_duplicateCount = 0, pu_rejectedCount = 0\<rparr>"

definition switched_run :: "action list" where
  "switched_run = [Drawer True, Simulate ''k1'', Drawer False, SwitchStart,
     SwitchAnswer 5 (Inr (shopper ''leo'')), Add 9 (item ''serum'') 1]"

fun run_enabled :: "action list \<Rightarrow> facet \<Rightarrow> bool" where
  "run_enabled [] st = True"
| "run_enabled (a # as) st = (enabled a st \<and> run_enabled as (facet_do a st))"

lemma run_reachable: "facet_reachable st \<Longrightarrow> run_enabled as st \<Longrightarrow> facet_reachable (facet_run as st)"
  by (induction as arbitrary: st) (simp_all add: facet_reachable.step)

text \<open>An accepted purchase empties the cart that is on screen, not the cart that was bought. In a
  reachable run Maya's purchase is under way when the shopper becomes Leo and puts a serum in his cart; the
  answer empties Leo's cart, on screen and in the storage, and leaves what Maya has bought in hers.\<close>

lemma purchase_empties_other_cart:
  "let before = facet_run switched_run maya_bag; after = facet_do (PurchaseAnswer (Inr receipt)) before in
     facet_reachable before \<and> enabled (PurchaseAnswer (Inr receipt)) before \<and>
     or_lines (hd (fa_orders before)) = [(''cream'', 2)] \<and>
     personaKey after = Some ''leo'' \<and> order_lines (fa_cart before) = [(''serum'', 1)] \<and>
     fa_cart after = [] \<and> loadCart True (fa_storage after) ''leo'' = [] \<and>
     order_lines (loadCart True (fa_storage after) ''maya'') = [(''cream'', 2)]"
proof -
  let ?b = "facet_run switched_run maya_bag"
  let ?a = "facet_do (PurchaseAnswer (Inr receipt)) ?b"
  have "run_enabled switched_run maya_bag" by (simp add: switched_run_def facet_defs Let_def)
  with maya_bag_reachable have "facet_reachable ?b" by (rule run_reachable)
  moreover have "enabled (PurchaseAnswer (Inr receipt)) ?b"
    "or_lines (hd (fa_orders ?b)) = [(''cream'', 2)]" "order_lines (fa_cart ?b) = [(''serum'', 1)]"
    by (simp_all add: switched_run_def facet_defs Let_def)
  moreover have "personaKey ?a = Some ''leo''" "fa_cart ?a = []"
    by (simp_all add: switched_run_def facet_defs receipt_def Let_def)
  moreover have "loadCart True (fa_storage ?a) ''leo'' = []"
    "order_lines (loadCart True (fa_storage ?a) ''maya'') = [(''cream'', 2)]"
    by (simp_all add: switched_run_def facet_defs receipt_def Let_def)
  ultimately show ?thesis by (simp add: Let_def)
qed

end
