(* ===== verification/FacetPages.thy ===== *)
theory FacetPages
  imports FacetLib Resource "HOL-Library.List_Lexorder" "HOL-Library.Char_ord"
begin

text \<open>
  The network calls of the Facet shop (\<open>lib/api.ts\<close>), the recommendation shelf
  (\<open>lib/useRecommendations.ts\<close>, an instance of \<open>latest_wins\<close>) and the compare page
  (\<open>pages/ComparePage.tsx\<close>).
\<close>

section \<open>The network\<close>

record ApiError =
  ae_status :: int
  ae_code :: string
  ae_message :: string
  ae_correlationId :: "string option"

text \<open>An answer is its status, and its body when that is JSON. A call throws an \<open>ApiError\<close>, or
  the TypeError of reading \<open>data\<close> of a null body.\<close>

datatype fetched = Unreachable | Answered int "json option"

datatype thrown = Api ApiError | Type_Error

definition ok_status :: "int \<Rightarrow> bool" where
  "ok_status s = (200 \<le> s \<and> s \<le> 299)"

definition call :: "fetched \<Rightarrow> ApiError + json" where
  "call f =
     (case f of
        Unreachable \<Rightarrow>
          Inl \<lparr>ae_status = 0, ae_code = ''network'',
               ae_message = ''The storefront server could not be reached.'', ae_correlationId = None\<rparr>
      | Answered status body0 \<Rightarrow>
          (let body = or_else body0 JNull in
           if ok_status status then Inr body
           else let err = or_else (json_get body ''error'') JNull in
             Inl \<lparr>ae_status = status,
                  ae_code = or_else (json_string (json_get err ''code'')) (''http_'' @ show_int status),
                  ae_message = or_else (json_string (json_get err ''message'')) (''HTTP '' @ show_int status),
                  ae_correlationId = json_string (json_get err ''correlationId'')\<rparr>))"

definition call_data :: "fetched \<Rightarrow> thrown + json option" where
  "call_data f =
     (case call f of
        Inl e \<Rightarrow> Inl (Api e)
      | Inr body \<Rightarrow> if body = JNull then Inl Type_Error else Inr (json_get body ''data''))"

text \<open>Telemetry tells whether it was recorded and never throws.\<close>

definition told :: "fetched \<Rightarrow> bool" where
  "told f = is_ok (call f)"

text \<open>A request is a path under \<open>/api/demo\<close> and, for a POST, its body.\<close>

type_synonym demo_request = "string \<times> json option"

definition post :: "string \<Rightarrow> json \<Rightarrow> demo_request" where
  "post path body = (''/api/demo'' @ path, Some body)"

definition get_path :: "string \<Rightarrow> demo_request" where
  "get_path path = (''/api/demo'' @ path, None)"

fun surface_name :: "Surface \<Rightarrow> string" where
  "surface_name sf_catalog = ''catalog''"
| "surface_name sf_product_detail = ''product_detail''"
| "surface_name sf_cart = ''cart''"
| "surface_name sf_order = ''order''"
| "surface_name sf_compare = ''compare''"

definition api_setPersona :: "string \<Rightarrow> demo_request" where
  "api_setPersona persona = post ''/session/persona'' (JObj [(''persona'', JStr persona)])"

definition api_products :: "string option \<Rightarrow> demo_request" where
  "api_products category =
     get_path (''/products'' @ (if truthy category then ''?category='' @ encodeURIComponent (the category) else []))"

definition api_product :: "string \<Rightarrow> demo_request" where
  "api_product i = get_path (''/products/'' @ encodeURIComponent i)"

definition json_strings :: "string list \<Rightarrow> json" where
  "json_strings xs = JArr (map JStr xs)"

definition api_recommendations :: "int \<Rightarrow> string list \<Rightarrow> string list option \<Rightarrow> Surface \<Rightarrow> demo_request" where
  "api_recommendations topN exclude recent surface =
     post ''/recommendations''
       (JObj ([(''topN'', JNum (of_int topN)), (''excludeProductIds'', json_strings exclude)] @
              (case recent of Some r \<Rightarrow> [(''recentProductIds'', json_strings r)] | None \<Rightarrow> []) @
              [(''surface'', JStr (surface_name surface))]))"

definition api_click :: "string \<Rightarrow> string \<Rightarrow> int \<Rightarrow> Surface \<Rightarrow> demo_request" where
  "api_click requestId productId position surface =
     post ''/feedback/click''
       (JObj [(''requestId'', JStr requestId), (''productId'', JStr productId),
              (''position'', JNum (of_int position)), (''surface'', JStr (surface_name surface))])"

definition api_purchase :: "(string \<times> int) list \<Rightarrow> string \<Rightarrow> demo_request" where
  "api_purchase lines key =
     post ''/purchase''
       (JObj [(''lines'', JArr (map (\<lambda>(i, q). JObj [(''productId'', JStr i), (''quantity'', JNum (of_int q))]) lines)),
              (''clientOrderKey'', JStr key), (''surface'', JStr ''cart'')])"

definition compare_params :: "int \<Rightarrow> string list \<Rightarrow> search_params" where
  "compare_params topN exclude = (''topN'', show_int topN) # map (\<lambda>i. (''exclude'', i)) exclude"

definition api_compare :: "int \<Rightarrow> string list \<Rightarrow> demo_request" where
  "api_compare topN exclude = get_path (''/compare?'' @ params_toString (compare_params topN exclude))"

section \<open>The shelf\<close>

datatype ShelfPhase = ph_loading | ph_ok | ph_empty | ph_error

record ShelfRequest =
  sr_topN :: int
  sr_exclude :: "string list"
  sr_recent :: "string list option"
  sr_surface :: Surface

text \<open>\<open>sh_provenance\<close> is the \<open>lastProvenance\<close> of the store, which the shelf sets; \<open>sh_asked\<close> are the
  requests sent, each with its ticket and persona, the newest first.\<close>

record shelf =
  sh_gen :: nat
  sh_phase :: ShelfPhase
  sh_data :: "Recommendations option"
  sh_error :: "(string \<times> string option) option"
  sh_provenance :: "Provenance option"
  sh_asked :: "(nat \<times> string \<times> ShelfRequest) list"

definition shelf_first :: shelf where
  "shelf_first = \<lparr>sh_gen = 0, sh_phase = ph_loading, sh_data = None, sh_error = None, sh_provenance = None, sh_asked = []\<rparr>"

definition excludeKey :: "string list \<Rightarrow> string" where
  "excludeKey exclude = js_join ''|'' (sort exclude)"

definition shelf_request :: "int \<Rightarrow> string \<Rightarrow> bool \<Rightarrow> string list \<Rightarrow> Surface \<Rightarrow> ShelfRequest" where
  "shelf_request topN key guest recent surface =
     \<lparr>sr_topN = topN, sr_exclude = (if key = [] then [] else js_split CHR ''|'' key),
      sr_recent = (if guest then Some recent else None), sr_surface = surface\<rparr>"

definition shelf_effect :: "string option \<Rightarrow> bool \<Rightarrow> ShelfRequest \<Rightarrow> shelf \<Rightarrow> shelf" where
  "shelf_effect personaKey0 enabled0 rq st =
     (if \<not> truthy personaKey0 \<or> \<not> enabled0 then st
      else let n = Suc (sh_gen st) in
        st\<lparr>sh_gen := n, sh_phase := ph_loading, sh_asked := (n, the personaKey0, rq) # sh_asked st\<rparr>)"

definition shelf_answer ::
    "nat \<Rightarrow> (string \<times> string option) + RecommendationsUnavailable + Recommendations \<Rightarrow> shelf \<Rightarrow> shelf" where
  "shelf_answer n r st =
     (if n \<noteq> sh_gen st then st
      else case r of
        Inl e \<Rightarrow> st\<lparr>sh_error := Some e, sh_data := None, sh_phase := ph_error\<rparr>
      | Inr (Inl u) \<Rightarrow>
          st\<lparr>sh_error := Some (un_reason u, un_correlationId u), sh_data := None, sh_phase := ph_error\<rparr>
      | Inr (Inr d) \<Rightarrow>
          st\<lparr>sh_data := Some d, sh_error := None, sh_provenance := Some (rec_provenance d),
             sh_phase := (if rec_items d = [] then ph_empty else ph_ok)\<rparr>)"

text \<open>What the shelf component shows (\<open>components/Shelf.tsx\<close>).\<close>

definition shelf_heading :: "shelf \<Rightarrow> string \<Rightarrow> Variant \<Rightarrow> string" where
  "shelf_heading st personaName variant =
     shelfHeading (map_option (pv_proofStatus \<circ> rec_provenance) (sh_data st)) personaName variant"

definition shelf_line :: "shelf \<Rightarrow> string \<Rightarrow> bool \<Rightarrow> string option" where
  "shelf_line st personaName guest =
     (if sh_data st \<noteq> None \<or> sh_phase st = ph_loading
      then Some (provenanceLine (map_option rec_provenance (sh_data st)) personaName guest) else None)"

text \<open>A shelf that is on for a persona provides the contract of the ticket counter: only the answer
  to the newest request changes the shelf or the last provenance.\<close>

interpretation facet_shelf: latest_wins sh_gen "shelf_effect (Some (c # key)) True rq" shelf_answer
    "\<lambda>st. (sh_phase st, sh_data st, sh_error st, sh_provenance st)"
  by unfold_locales
    (auto simp: shelf_effect_def shelf_answer_def Let_def split: sum.split)

lemma shelf_newest:
  "n < sh_gen st \<Longrightarrow> shelf_answer n r st = st"
  by (simp add: shelf_answer_def)

text \<open>The exclusions survive their way through the dependency key, unless an id has the separator.\<close>

lemma exclude_roundtrip:
  assumes "list_all (\<lambda>i. CHR ''|'' \<notin> set i) exclude" "[] \<notin> set exclude"
  shows "sr_exclude (shelf_request topN (excludeKey exclude) guest recent surface) = sort exclude"
proof (cases "exclude = []")
  case False
  have ne: "sort exclude \<noteq> []" using False by (metis set_sort set_empty)
  have "w \<noteq> []" if "w \<in> set (sort exclude)" for w using that assms(2) by auto
  with ne js_join_Nil_iff [of "''|''" "sort exclude"] have "excludeKey exclude \<noteq> []"
    unfolding excludeKey_def by blast
  moreover have "js_split CHR ''|'' (excludeKey exclude) = sort exclude"
    unfolding excludeKey_def using assms(1) by (intro js_split_join ne) (auto simp: list_all_iff)
  ultimately show ?thesis by (simp add: shelf_request_def)
qed (simp add: excludeKey_def shelf_request_def)

section \<open>The compare page\<close>

text \<open>
  The page holds the parameters, what it shows, and the signature of the last run in state. A run is an
  async function of one render: it sends the parameters of that render, and when it is answered it
  compares with the signature \<open>previous\<close> of that render. \<open>cp_runs\<close> are the runs under way.
\<close>

datatype 'd compare_phase = cp_loading | cp_ok 'd int "bool option" | cp_error string

record compare_run =
  run_number :: int
  run_topN :: int
  run_exclude :: "string list"
  run_previous :: "string option"

record compare_page =
  cp_topN :: int
  cp_excludeCart :: bool
  cp_state :: "Compare compare_phase"
  cp_previous :: "string option"
  cp_runs :: "compare_run list"

definition TOP_N_OPTIONS :: "int list" where
  "TOP_N_OPTIONS = [3, 5, 8, 10]"

definition signature :: "Compare \<Rightarrow> string" where
  "signature data =
     js_join ''|'' (map (\<lambda>c. js_join '','' (map ci_externalId (cc_items c))) (cmp_columns data))"

definition compare_first :: compare_page where
  "compare_first = \<lparr>cp_topN = 5, cp_excludeCart = False, cp_state = cp_loading, cp_previous = None, cp_runs = []\<rparr>"

text \<open>\<open>run\<close> as made by a render with the fields of \<open>seen\<close>, up to its request.\<close>

definition compare_start :: "string list \<Rightarrow> int \<Rightarrow> compare_page \<Rightarrow> compare_page \<Rightarrow> compare_page" where
  "compare_start cart_ids n seen st =
     st\<lparr>cp_state := (case cp_state st of cp_ok d m b \<Rightarrow> cp_state st | _ \<Rightarrow> cp_loading),
        cp_runs := cp_runs st @
          [\<lparr>run_number = n, run_topN = cp_topN seen,
            run_exclude = (if cp_excludeCart seen then cart_ids else []), run_previous = cp_previous seen\<rparr>]\<rparr>"

definition compare_answer :: "compare_run \<Rightarrow> string + Compare \<Rightarrow> compare_page \<Rightarrow> compare_page" where
  "compare_answer rn r st =
     (let st' = st\<lparr>cp_runs := remove1 rn (cp_runs st)\<rparr> in
      case r of
        Inr data \<Rightarrow>
          st'\<lparr>cp_state := cp_ok data (run_number rn) (map_option (\<lambda>p. p = signature data) (run_previous rn)),
              cp_previous := Some (signature data)\<rparr>
      | Inl message \<Rightarrow> st'\<lparr>cp_state := cp_error message\<rparr>)"

text \<open>The effect of a render whose parameters are new (also of the first): \<open>setPrevious(null)\<close> and a
  first run, made by the same render.\<close>

definition compare_params_effect :: "string list \<Rightarrow> compare_page \<Rightarrow> compare_page" where
  "compare_params_effect cart_ids st = compare_start cart_ids 1 st (st\<lparr>cp_previous := None\<rparr>)"

definition set_topN :: "string list \<Rightarrow> int \<Rightarrow> compare_page \<Rightarrow> compare_page" where
  "set_topN cart_ids n st =
     (if n = cp_topN st then st else compare_params_effect cart_ids (st\<lparr>cp_topN := n\<rparr>))"

definition set_excludeCart :: "string list \<Rightarrow> bool \<Rightarrow> compare_page \<Rightarrow> compare_page" where
  "set_excludeCart cart_ids b st =
     (if b = cp_excludeCart st then st else compare_params_effect cart_ids (st\<lparr>cp_excludeCart := b\<rparr>))"

text \<open>The buttons: re-run, disabled while loading, and retry after an error.\<close>

definition rerun :: "string list \<Rightarrow> compare_page \<Rightarrow> compare_page" where
  "rerun cart_ids st =
     (case cp_state st of
        cp_loading \<Rightarrow> st
      | cp_ok d n b \<Rightarrow> compare_start cart_ids (n + 1) st st
      | cp_error m \<Rightarrow> compare_start cart_ids 1 st st)"

definition repeat_banner :: "compare_page \<Rightarrow> string option" where
  "repeat_banner st =
     (case cp_state st of
        cp_ok d n (Some True) \<Rightarrow>
          Some ''Re-run produced identical rankings for every shopper. Ordering is repeatable.''
      | cp_ok d n (Some False) \<Rightarrow>
          Some (''Re-run produced different rankings from the previous run '' @ em_dash @ '' ordering is not stable.'')
      | _ \<Rightarrow> None)"

text \<open>The rows of the summary.\<close>

definition yes_no :: "bool \<Rightarrow> string" where
  "yes_no b = (if b then ''Yes'' else ''No'')"

definition summary_rows :: "Compare \<Rightarrow> (string \<times> string) list" where
  "summary_rows data =
     (let s = cmp_summary data in
      [(''Unique products across shoppers'', show_int (sum_uniqueProducts s) @ '' of '' @ show_int (sum_slots s) @ '' slots''),
       (''Distinct ranking orders'', show_int (sum_distinctOrderings s) @ '' of '' @ show_int (int (length (cmp_columns data)))),
       (''Shoppers with history identical'', yes_no (sum_knownPersonasIdentical s)),
       (''Ordering repeatable'', (case sum_allRepeatable s of None \<Rightarrow> em_dash | Some b \<Rightarrow> yes_no b)),
       (''Model version returned'', yes_no (sum_anyModelVersion s))])"

end
