(* ===== verification/FacetClaims.thy ===== *)
theory FacetClaims
  imports FacetPages
begin

text \<open>What the Facet shop claims about a ranking, and when the claim is about something else.\<close>

section \<open>Wording\<close>

text \<open>Personalization is claimed exactly for the verified status. Whatever the answer says about its
  strategy, its fallback or its model, the heading names the shopper, the line says model-backed,
  the pill says verified and the tone is verified if and only if the proof status is
  \<open>model_verified\<close>; the raw strategy and the fallback flags change none of these texts, and are named as raw
  in the disclosure only.\<close>

lemma honest_wording:
  "(shelfHeading (Some (pv_proofStatus p)) name v_home = ''For '' @ name \<longleftrightarrow> pv_proofStatus p = model_verified) \<and>
   (starts_with (provenanceLine (Some p) name guest) ''Model-backed'' \<longleftrightarrow> pv_proofStatus p = model_verified) \<and>
   (starts_with (proofPillLabel (pv_proofStatus p)) ''Verified'' \<longleftrightarrow> pv_proofStatus p = model_verified) \<and>
   (proofTone (pv_proofStatus p) = verified \<longleftrightarrow> pv_proofStatus p = model_verified) \<and>
   provenanceLine (Some (p\<lparr>pv_rawStrategy := r, pv_fallbackUsed := b, pv_fallbackTier := t\<rparr>)) name guest =
     provenanceLine (Some p) name guest \<and>
   map_of (whyRows p) ''Raw strategy (backend)'' = Some (pv_rawStrategy p) \<and>
   map_of (whyRows p) ''Proof status'' = Some (proof_status_name (pv_proofStatus p))"
  by (cases "pv_proofStatus p")
    (simp_all add: shelfHeading_def by_variant_def provenanceLine_def starts_with_def proofPillLabel_def
      version_part_def whyRows_def)

text \<open>A shelf that is loading claims another shopper's ranking for the new one. When the persona
  changes while a verified list is on screen, the effect starts a request and keeps the old list's provenance;
  until the answer comes, heading and line read \<open>For\<close> and \<open>Model-backed for\<close> with the new
  shopper's name, although the only verified ranking is the one asked for by the old persona.\<close>

lemma stale_personal_claim:
  assumes "sh_data st = Some d" "pv_proofStatus (rec_provenance d) = model_verified"
    and "key \<noteq> []" "st' = shelf_effect (Some key) True rq st"
  shows "sh_phase st' = ph_loading \<and> fst (hd (sh_asked st')) = sh_gen st' \<and> fst (snd (hd (sh_asked st'))) = key \<and>
    shelf_heading st' name v_home = ''For '' @ name \<and>
    shelf_line st' name guest = Some (''Model-backed for '' @ name @ version_part (rec_provenance d)) \<and>
    shelf_answer (sh_gen st) r st' = st'"
  using assms
  by (simp add: shelf_effect_def shelf_heading_def shelfHeading_def by_variant_def shelf_line_def
      provenanceLine_def shelf_answer_def Let_def)

definition verified_list :: Recommendations where
  "verified_list = \<lparr>rec_items = [], rec_provenance =
     \<lparr>pv_requestId = ''rec_1'', pv_modelVersionId = None, pv_rawStrategy = ''personalized'', pv_fallbackUsed = False,
      pv_fallbackTier = ''none'', pv_proofStatus = model_verified, pv_excludedCount = 0,
      pv_omittedProductCount = 0, pv_impressionEventId = None\<rparr>\<rparr>"

theorem stale_personal_claim_witness:
  "shelf_line (shelf_effect (Some ''leo'') True (shelf_request 5 [] False [] sf_catalog)
      (shelf_answer 1 (Inr (Inr verified_list))
        (shelf_effect (Some ''maya'') True (shelf_request 5 [] False [] sf_catalog) shelf_first))) ''Leo'' False =
     Some ''Model-backed for Leo''"
proof -
  let ?rq = "shelf_request 5 [] False [] sf_catalog"
  let ?st = "shelf_answer 1 (Inr (Inr verified_list)) (shelf_effect (Some ''maya'') True ?rq shelf_first)"
  have "sh_data ?st = Some verified_list"
    by (simp add: shelf_effect_def shelf_first_def shelf_answer_def Let_def)
  from stale_personal_claim [OF this _ _ refl, of "''leo''" ?rq "''Leo''" False "Inl ([], None)"] show ?thesis
    by (simp add: verified_list_def version_part_def)
qed

section \<open>Repeatability\<close>

text \<open>Pressing re-run with unchanged parameters compares with the run before it.\<close>

lemma rerun_compares:
  assumes "cp_state st = cp_ok d n b" "cp_previous st = Some (signature d)"
  shows "repeat_banner (compare_answer (last (cp_runs (rerun ids st))) (Inr data) (rerun ids st)) =
    Some (if signature d = signature data
          then ''Re-run produced identical rankings for every shopper. Ordering is repeatable.''
          else ''Re-run produced different rankings from the previous run '' @ em_dash @ '' ordering is not stable.'')"
  using assms by (simp add: rerun_def compare_start_def compare_answer_def repeat_banner_def Let_def)

text \<open>A change of Top-N is reported as an unstable ordering. The first run of new parameters is made by
  the render that still has the signature of the old ones: though \<open>setPrevious(null)\<close> has reset it in
  the state, the answer is compared with the old signature, so a run numbered one is
  presented as a re-run, and with other rankings, as a longer list always is, the page says that
  the ordering is not stable.\<close>

lemma first_run_called_rerun:
  assumes "n \<noteq> cp_topN st" "cp_previous st = Some old"
    and "st' = set_topN ids n st" "rn = last (cp_runs st')"
  shows "run_number rn = 1 \<and> run_topN rn = n \<and> cp_previous st' = None \<and>
    repeat_banner (compare_answer rn (Inr data) st') =
      Some (if old = signature data
            then ''Re-run produced identical rankings for every shopper. Ordering is repeatable.''
            else ''Re-run produced different rankings from the previous run '' @ em_dash @ '' ordering is not stable.'')"
  using assms
  by (simp add: set_topN_def compare_params_effect_def compare_start_def compare_answer_def repeat_banner_def Let_def)

definition ranked :: "string list \<Rightarrow> Compare" where
  "ranked ids =
     \<lparr>cmp_columns = [\<lparr>cc_persona = \<lparr>per_key = ''maya'', per_name = ''Maya'', per_blurb = [], per_color = [], per_userId = None\<rparr>,
        cc_items = map (\<lambda>i. \<lparr>ci_position = 1, ci_externalId = i, ci_title = i, ci_category = [], ci_price = [],
          ci_accent = None, ci_shared = False\<rparr>) ids,
        cc_provenance = None, cc_repeatable = Some True, cc_error = None\<rparr>],
      cmp_pairs = [], cmp_summary = \<lparr>sum_topN = 2, sum_excludedProductIds = [], sum_uniqueProducts = 2, sum_slots = 2,
        sum_distinctOrderings = 1, sum_knownPersonasIdentical = True, sum_allRepeatable = Some True,
        sum_anyModelVersion = True, sum_gatePassed = True, sum_gateReason = []\<rparr>\<rparr>"

theorem first_run_called_rerun_witness:
  "let st = compare_params_effect [] compare_first;
       st1 = compare_answer (last (cp_runs st)) (Inr (ranked [''a'', ''b''])) st;
       st2 = set_topN [] 3 st1
   in repeat_banner (compare_answer (last (cp_runs st2)) (Inr (ranked [''a'', ''b'', ''c''])) st2) =
        Some (''Re-run produced different rankings from the previous run '' @ em_dash @ '' ordering is not stable.'')"
proof -
  let ?st = "compare_params_effect [] compare_first"
  let ?st1 = "compare_answer (last (cp_runs ?st)) (Inr (ranked [''a'', ''b''])) ?st"
  have p: "cp_previous ?st1 = Some (signature (ranked [''a'', ''b'']))" "3 \<noteq> cp_topN ?st1"
    by (simp_all add: compare_answer_def compare_params_effect_def compare_start_def compare_first_def Let_def)
  have "signature (ranked [''a'', ''b'']) \<noteq> signature (ranked [''a'', ''b'', ''c''])"
    by (simp add: signature_def ranked_def)
  with first_run_called_rerun [OF p(2,1) refl refl, of "[]" "ranked [''a'', ''b'', ''c'']"] show ?thesis
    by (simp add: Let_def)
qed

end
