(* ===== verification/FacetMore.thy ===== *)
theory FacetMore
  imports FacetStore FacetPages Hooks
begin

text \<open>
  The pages of the Facet shop: the catalogue, the product page, the order page and the product
  card, with the header, the demo rail, the toast and the footer (\<open>pages/\<close>, \<open>components/\<close> and
  \<open>App.tsx\<close>). Of the markup the theory keeps the texts and the conditions under which a control is
  shown or disabled.
\<close>

definition times_sign :: string where
  "times_sign = [CHR 0xC3, CHR 0x97]"

text \<open>A page that loads one thing: \<open>loading\<close>, \<open>ok\<close> with it, or \<open>error\<close> with what was thrown.\<close>

datatype 'p page_state = pg_loading | pg_ok 'p | pg_error thrown

section \<open>The catalogue\<close>

record catalog =
  ca_effect :: nat
  ca_state :: "Product list page_state"
  ca_attempt :: nat

definition catalog_first :: catalog where
  "catalog_first = \<lparr>ca_effect = 0, ca_state = pg_loading, ca_attempt = 0\<rparr>"

definition catalog_effect :: "catalog \<Rightarrow> catalog" where
  "catalog_effect c = c\<lparr>ca_effect := Suc (ca_effect c), ca_state := pg_loading\<rparr>"

definition catalog_answer :: "nat \<Rightarrow> thrown + Product list \<Rightarrow> catalog \<Rightarrow> catalog" where
  "catalog_answer n r c =
     (if n \<noteq> ca_effect c then c
      else c\<lparr>ca_state := (case r of Inr items \<Rightarrow> pg_ok items | Inl e \<Rightarrow> pg_error e)\<rparr>)"

definition catalog_retry :: "catalog \<Rightarrow> catalog" where
  "catalog_retry c = c\<lparr>ca_attempt := Suc (ca_attempt c)\<rparr>"

text \<open>A change of \<open>attempt\<close> runs the effect again.\<close>

definition retry_and_load :: "catalog \<Rightarrow> catalog" where
  "retry_and_load c = catalog_effect (catalog_retry c)"

interpretation catalog_load: latest_wins ca_effect retry_and_load catalog_answer ca_state
  by unfold_locales (auto simp: retry_and_load_def catalog_retry_def catalog_effect_def catalog_answer_def)

definition page_category :: "search_params \<Rightarrow> string" where
  "page_category params = or_else (params_get ''category'' params) []"

definition choose_category :: "string \<Rightarrow> search_params" where
  "choose_category c = (if c \<noteq> [] then [(''category'', c)] else [])"

definition visible :: "string \<Rightarrow> Product list page_state \<Rightarrow> Product list" where
  "visible category s =
     (case s of pg_ok items \<Rightarrow> filter (\<lambda>p. category = [] \<or> fp_category p = category) items | _ \<Rightarrow> [])"

definition category_choices :: "string \<Rightarrow> (bool \<times> string) list" where
  "category_choices category =
     map (\<lambda>c. (category = c, if c \<noteq> [] then categoryLabel c else ''All'')) ([] # CATEGORIES)"

section \<open>The product page\<close>

record product_page =
  pp_effect :: nat
  pp_state :: "Product page_state"
  pp_qty :: int

definition product_first :: product_page where
  "product_first = \<lparr>pp_effect = 0, pp_state = pg_loading, pp_qty = 1\<rparr>"

definition product_effect :: "product_page \<Rightarrow> product_page" where
  "product_effect w = w\<lparr>pp_effect := Suc (pp_effect w), pp_state := pg_loading, pp_qty := 1\<rparr>"

text \<open>The answer changes the page and, when the product came, announces it in the store.\<close>

definition product_answer :: "nat \<Rightarrow> thrown + Product \<Rightarrow> product_page \<times> facet \<Rightarrow> product_page \<times> facet" where
  "product_answer n r =
     (\<lambda>(w, st).
       if n \<noteq> pp_effect w then (w, st)
       else case r of
         Inr product \<Rightarrow> (w\<lparr>pp_state := pg_ok product\<rparr>, announce ''Product loaded. View tracked.'' st)
       | Inl e \<Rightarrow> (w\<lparr>pp_state := pg_error e\<rparr>, st))"

text \<open>The second effect, run when the state of the page or the persona changes.\<close>

definition view_effect :: "product_page \<Rightarrow> facet \<Rightarrow> facet" where
  "view_effect w st =
     (case pp_state w of
        pg_ok product \<Rightarrow>
          if \<not> truthy (personaKey st) then st
          else send \<lparr>ev_action = ''view'', ev_productId = fp_externalId product, ev_quantity = None,
                    ev_price = None, ev_surface = sf_product_detail\<rparr>
                 (noteViewed (fp_externalId product) st)
      | _ \<Rightarrow> st)"

definition view_event_answer :: "int \<Rightarrow> bool \<Rightarrow> facet \<Rightarrow> facet" where
  "view_event_answer now0 ok0 st =
     (if ok0 then st
      else showToast now0 ''Could not record that view event. Browsing is unaffected.'' t_warn None st)"

definition product_exclude :: "CartLine list \<Rightarrow> string \<Rightarrow> string list" where
  "product_exclude cart i = rev (remdups (rev (cartProductIds cart @ [i])))"

definition product_error_title :: "thrown \<Rightarrow> string" where
  "product_error_title e =
     (case e of Api a \<Rightarrow> if ae_status a = 404 then ''This product is not in the store''
                         else ''The product could not be loaded''
      | Type_Error \<Rightarrow> ''The product could not be loaded'')"

definition product_eyebrow :: "Product \<Rightarrow> string" where
  "product_eyebrow p =
     categoryLabel (fp_category p) @ (if truthy (fp_brand p) then '' '' @ mid_dot @ '' '' @ the (fp_brand p) else [])"

definition product_avail :: "Product \<Rightarrow> string" where
  "product_avail p =
     (if fp_available p then ''Available '' @ mid_dot @ '' fictional stock''
      else ''Unavailable '' @ em_dash @ '' not orderable in this demo'')"

text \<open>The stepper and the add button, both disabled for a product that is not available.\<close>

definition qty_less :: "product_page \<Rightarrow> product_page" where
  "qty_less w =
     (case pp_state w of
        pg_ok p \<Rightarrow> if fp_available p then w\<lparr>pp_qty := max 1 (pp_qty w - 1)\<rparr> else w
      | _ \<Rightarrow> w)"

definition qty_more :: "product_page \<Rightarrow> product_page" where
  "qty_more w =
     (case pp_state w of
        pg_ok p \<Rightarrow> if fp_available p then w\<lparr>pp_qty := min 9 (pp_qty w + 1)\<rparr> else w
      | _ \<Rightarrow> w)"

definition press_add :: "int \<Rightarrow> product_page \<Rightarrow> facet \<Rightarrow> facet" where
  "press_add now0 w st =
     (case pp_state w of
        pg_ok p \<Rightarrow> if fp_available p then addToCart now0 p (pp_qty w) st else st
      | _ \<Rightarrow> st)"

section \<open>The card and the order page\<close>

record CardView =
  cv_link :: string
  cv_label :: string
  cv_badges :: "string list"
  cv_meta :: string
  cv_button :: "(string \<times> bool) option"

text \<open>\<open>cv_button\<close> is the label of the add button and whether it is disabled.\<close>

definition ProductCard :: "(number \<Rightarrow> string) \<Rightarrow> Product \<Rightarrow> int option \<Rightarrow> bool \<Rightarrow> bool \<Rightarrow> CardView" where
  "ProductCard str product rank0 withMeta noAdd =
     (let soldOut = \<not> fp_available product in
      \<lparr>cv_link = ''/products/'' @ encodeURIComponent (fp_externalId product),
       cv_label = fp_title product @ '', '' @ money str (Inl (fp_price product)),
       cv_badges = (case rank0 of Some n \<Rightarrow> [''#'' @ show_int n] | None \<Rightarrow> []) @ (if soldOut then [''Unavailable''] else []),
       cv_meta = (if withMeta \<and> truthy (fp_size product) \<and> \<not> soldOut
                  then money str (Inl (fp_price product)) @ '' '' @ mid_dot @ '' '' @ the (fp_size product)
                  else if soldOut then ''Currently unavailable'' else money str (Inl (fp_price product))),
       cv_button = (if noAdd then None else Some (if soldOut then ''Unavailable'' else ''Add'', soldOut))\<rparr>)"

definition order_exclude :: "Purchase option \<Rightarrow> string list" where
  "order_exclude order = (case order of Some u \<Rightarrow> map pul_productId (pu_lines u) | None \<Rightarrow> [])"

definition order_greeting :: "Persona option \<Rightarrow> string option \<Rightarrow> string" where
  "order_greeting persona0 personaName =
     ''Thank you'' @ (case persona0 of Some p \<Rightarrow> '', '' @ or_else personaName (per_name p) | None \<Rightarrow> []) @ ''.''"

definition order_events :: "Purchase option \<Rightarrow> string" where
  "order_events order =
     (case order of
        Some u \<Rightarrow> ''purchase events: '' @ show_int (int (length (pu_lines u))) @ '' sent '' @ mid_dot @ '' '' @
          show_int (pu_acceptedCount u) @ '' accepted '' @ mid_dot @ '' '' @ show_int (pu_duplicateCount u) @
          '' duplicate '' @ mid_dot @ '' '' @ show_int (pu_rejectedCount u) @ '' rejected''
      | None \<Rightarrow> ''The receipt for this order is no longer in this tab. The purchase events were recorded when it was placed.'')"

definition order_rows :: "(number \<Rightarrow> string) \<Rightarrow> Purchase \<Rightarrow> (string \<times> string) list \<times> string" where
  "order_rows str u =
     (map (\<lambda>l. (pul_title l @ '' '' @ times_sign @ '' '' @ show_int (pul_quantity l), money str (Inl (pul_lineTotal l)))) (pu_lines u),
      money str (Inl (pu_total u)))"

section \<open>Header, rail, toast and footer\<close>

text \<open>Picking a shopper closes the menu; another one than the current is switched to.\<close>

definition pick :: "DemoSession \<Rightarrow> string \<Rightarrow> facet \<Rightarrow> facet" where
  "pick s key st = (if key \<noteq> per_key (ds_persona s) then switchPersona_start st else st)"

definition persona_options :: "DemoSession \<Rightarrow> (string \<times> bool) list" where
  "persona_options s = map (\<lambda>p. (per_name p, per_key p = per_key (ds_persona s))) (ds_personas s)"

definition cart_button :: "facet \<Rightarrow> string" where
  "cart_button st = ''Cart, '' @ show_int (cartCount (fa_cart st)) @ '' items''"

definition rail_rows :: "facet \<Rightarrow> (string \<times> string) list" where
  "rail_rows st =
     (let session = fa_session st; prov = fa_lastProvenance st; health = fa_health st
      in [(''persona cookie'', ''facet_demo_user='' @ (case session of Some s \<Rightarrow> per_key (ds_persona s) | None \<Rightarrow> ellipsis)),
          (''graphrec user'', or_else (case session of Some s \<Rightarrow> per_userId (ds_persona s) | None \<Rightarrow> None) ''none (session-based)''),
          (''session'', case session of Some s \<Rightarrow> ds_sessionId s | None \<Rightarrow> ellipsis),
          (''request'', case prov of Some p \<Rightarrow> pv_requestId p | None \<Rightarrow> em_dash),
          (''model'', case prov of Some p \<Rightarrow> or_else (pv_modelVersionId p) ''n/a (fallback)'' | None \<Rightarrow> em_dash),
          (''raw strategy'', case prov of Some p \<Rightarrow> pv_rawStrategy p | None \<Rightarrow> em_dash),
          (''health'', case health of
             Some h \<Rightarrow> he_graphrec h @ (case he_catalogProducts h of
                 Some n \<Rightarrow> '' '' @ mid_dot @ '' '' @ show_int n @ '' products'' | None \<Rightarrow> [])
           | None \<Rightarrow> ''checking'' @ ellipsis),
          (''proof config'', case health of
             Some h \<Rightarrow> if he_proofConfigured h then ''verified for '' @ or_else (he_proofVersionId h) ''null''
                       else ''MODEL_PROOF_VERIFIED=false''
           | None \<Rightarrow> ellipsis)])"

definition rail_notes :: "facet \<Rightarrow> string list" where
  "rail_notes st =
     (case fa_lastProvenance st of
        Some p \<Rightarrow> [''Current: '' @ proofExplainer (pv_proofStatus p)]
      | None \<Rightarrow> if isGuest st then [''New visitor: expect a catalog fallback.''] else [])"

definition toast_dot :: "Toast \<Rightarrow> string" where
  "toast_dot t =
     (case to_kind t of t_warn \<Rightarrow> ''var(--preview)'' | t_ok \<Rightarrow> ''var(--verified)'' | t_note \<Rightarrow> ''var(--ink-2)'')"

definition toast_button :: "Toast \<Rightarrow> string" where
  "toast_button t = or_else (to_action t) ''Dismiss''"

definition footer_line :: "facet \<Rightarrow> string" where
  "footer_line st =
     (case fa_lastProvenance st of
        Some p \<Rightarrow> pv_rawStrategy p @ '' '' @ mid_dot @ '' '' @ or_else (pv_modelVersionId p) ''no model'' @ '' '' @ mid_dot @
          '' '' @ proof_status_name (pv_proofStatus p)
      | None \<Rightarrow> ''no recommendation requested yet'')"

section \<open>Facts\<close>

lemma set_product_exclude: "set (product_exclude cart i) = insert i (set (cartProductIds cart))"
  and distinct_product_exclude: "distinct (product_exclude cart i)"
  by (auto simp: product_exclude_def)

text \<open>Pages of one product keep the quantity between 1 and 9, whatever is pressed or answered.\<close>

inductive product_reachable :: "product_page \<Rightarrow> bool" where
  start: "product_reachable (product_effect product_first)"
| reload: "product_reachable w \<Longrightarrow> product_reachable (product_effect w)"
| answer: "product_reachable w \<Longrightarrow> product_reachable (fst (product_answer n r (w, st)))"
| less: "product_reachable w \<Longrightarrow> product_reachable (qty_less w)"
| greater: "product_reachable w \<Longrightarrow> product_reachable (qty_more w)"

lemma product_qty: "product_reachable w \<Longrightarrow> 1 \<le> pp_qty w \<and> pp_qty w \<le> 9"
  by (induction rule: product_reachable.induct)
    (auto simp: product_effect_def product_first_def product_answer_def qty_less_def qty_more_def
      split: page_state.split sum.split)

end
