(* ===== verification/ReelTypes.thy ===== *)
theory ReelTypes
  imports Prelude
begin

text \<open>
  The wire types of the Reel film shop (\<open>apps/reel-storefront/frontend/src/types.ts\<close>). An optional or
  nullable member is an option; measurements are rationals.
\<close>

record Film =
  fi_id :: string
  fi_title :: string
  fi_year :: "int option"
  fi_genres :: "string list"
  fi_tags :: "string list"
  fi_popularity :: rat
  fi_popularityRank :: int
  fi_tmdbId :: "string option"
  fi_imdbId :: "string option"
  fi_posterUrl :: "string option"

record FilmPage =
  fpg_items :: "Film list"
  fpg_total :: int
  fpg_offset :: int
  fpg_limit :: int

record Genre =
  ge_name :: string
  ge_films :: int

record Tag =
  tag_name :: string
  tag_films :: int

datatype SortKey = sort_popular | sort_newest | sort_oldest | sort_title

record ReelPersona =
  rpe_key :: string
  rpe_name :: string
  rpe_blurb :: string
  rpe_color :: string
  rpe_userId :: "string option"
  rpe_historyLength :: int

record ReelSession =
  rse_persona :: ReelPersona
  rse_sessionId :: string
  rse_personas :: "ReelPersona list"

record Receipt =
  rcp_eventId :: string
  rcp_eventType :: string
  rcp_filmId :: string
  rcp_accepted :: bool
  rcp_duplicate :: bool
  rcp_latencyMs :: rat
  rcp_feedback :: "string option"

datatype Change = ch_new | ch_up | ch_down | ch_same

record Ranked = Film +
  ra_position :: int
  ra_change :: Change
  ra_previousPosition :: "int option"
  ra_reason :: "string option"
  ra_reasonText :: "string option"
  ra_sources :: "string list option"
  ra_score :: "rat option"

record ExplainStage =
  es_name :: string
  es_ms :: rat
  es_count :: int

record ExplainSource =
  eso_status :: string
  eso_count :: int
  eso_ms :: rat
  eso_anchors :: "string list option"
  eso_categories :: "string list option"

record ExplainCandidate =
  ec_external_product_id :: string
  ec_sources :: "string list"
  ec_reason :: string
  ec_anchor_product_id :: "string option"
  ec_category :: "string option"
  ec_model_score :: "rat option"
  ec_model_norm :: "rat option"
  ec_popularity :: "rat option"
  ec_popularity_norm :: "rat option"
  ec_agreement :: "rat option"
  ec_final :: "rat option"
  ec_rank_before_rerank :: "int option"
  ec_title :: "string option"
  ec_anchor_title :: "string option"

record Explain =
  ex_pipeline :: string
  ex_total_ms :: rat
  ex_stages :: "ExplainStage list"
  ex_sources :: "(string \<times> ExplainSource) list"
  ex_weights :: "(string \<times> rat) list"
  ex_diversity :: rat
  ex_candidates :: "ExplainCandidate list"

record TraceRequest =
  tq_endpoint :: string
  tq_userId :: "string option"
  tq_topN :: int
  tq_recentProductIds :: "string list"
  tq_excludeCount :: int

record Trace =
  tr_request :: TraceRequest
  tr_requestId :: string
  tr_modelVersionId :: "string option"
  tr_strategy :: string
  tr_fallbackUsed :: bool
  tr_fallbackTier :: string
  tr_appliedRules :: "string list"
  tr_latencyMs :: rat
  tr_pipeline :: "string option"
  tr_diversity :: "rat option"
  tr_explain :: "Explain option"

record Diff =
  di_hasPrevious :: bool
  di_entered :: "string list"
  di_left :: "Film list"
  di_changed :: int
  di_summary :: string

datatype ShelfKind = shelf_home | shelf_more_like

record Recs =
  rc_shelf :: ShelfKind
  rc_title :: string
  rc_items :: "Ranked list"
  rc_trace :: Trace
  rc_diff :: Diff
  rc_omitted :: int
  rc_impression :: "string option"

record Unavailable =
  uv_reason :: string
  uv_correlationId :: "string option"

datatype Origin = or_training | or_live

record SequenceItem =
  sq_film :: Film
  sq_time :: int
  sq_origin :: Origin
  sq_eventType :: string
  sq_eventId :: "string option"
  sq_inWindow :: bool
  sq_evicted :: bool

record ReelSequence =
  rsq_shopper :: string
  rsq_total :: int
  rsq_window :: int
  rsq_items :: "SequenceItem list"
  rsq_liveCount :: int
  rsq_sessionOnly :: bool

record Metric =
  me_protocol :: string
  me_source :: string
  me_hit10 :: "rat option"
  me_ndcg10 :: "rat option"
  me_recall10 :: "rat option"
  me_mrr :: "rat option"
  me_note :: string

record ModelCard =
  mc_dataset :: string
  mc_checkpointSha256 :: string
  mc_users :: int
  mc_films :: int
  mc_interactions :: int
  mc_embeddingDim :: int
  mc_layers :: int
  mc_recentItems :: int
  mc_itemNeighborLimit :: int
  mc_metrics :: "Metric list"

record ReelStatus =
  rst_tenant :: string
  rst_graphrec :: string
  rst_modelVersionId :: "string option"
  rst_modelVersionTag :: "string option"
  rst_liveEvents :: int
  rst_modelSource :: string
  rst_modelCard :: "ModelCard option"
  rst_feedbackHealth :: "(string \<times> int \<times> int) list option"
  rst_readiness :: "(string \<times> string) list option"

record ProofCheckResult =
  pc_id :: string
  pc_name :: string
  pc_passed :: bool
  pc_duration_ms :: rat
  pc_evidence :: "(string \<times> json) list"
  pc_detail :: "string option"

record ProofBatterySummary =
  pb_run_id :: string
  pb_profile :: string
  pb_started_at :: string
  pb_completed_at :: string
  pb_total_checks :: int
  pb_passed_checks :: int
  pb_failed_checks :: int
  pb_success_rate :: rat
  pb_total_duration_ms :: rat

record ProofReport =
  pr_summary :: ProofBatterySummary
  pr_checks :: "ProofCheckResult list"

end
