(* ===== verification/ReelStore.thy ===== *)
theory ReelStore
  imports ReelTypes JsNumber Resource
begin

text \<open>
  The state of the Reel film shop (\<open>demo.tsx\<close>): session, the home shelf and its request counter, receipts,
  history, and the serving preference. An async function is two steps, before and after its
  request; what the request was sent with is kept under its ticket. Diversity is an exact number.
\<close>

section \<open>Preferences\<close>

definition left_quote :: string where
  "left_quote = [CHR 0xE2, CHR 0x80, CHR 0x9C]"

definition right_quote :: string where
  "right_quote = [CHR 0xE2, CHR 0x80, CHR 0x9D]"

text \<open>\<open>localStorage\<close> as a map, and whether it can be used.\<close>

type_synonym prefs = "bool \<times> (string \<rightharpoonup> string)"

definition readText :: "prefs \<Rightarrow> string \<Rightarrow> string option" where
  "readText p key = (if fst p then snd p (''reel.'' @ key) else None)"

definition writeText :: "string \<Rightarrow> string \<Rightarrow> prefs \<Rightarrow> prefs" where
  "writeText key v p = (if fst p then (True, (snd p)(''reel.'' @ key \<mapsto> v)) else p)"

definition readPref :: "prefs \<Rightarrow> string \<Rightarrow> bool \<Rightarrow> bool" where
  "readPref p key default0 = (case readText p key of None \<Rightarrow> default0 | Some v \<Rightarrow> v = ''1'')"

definition writePref :: "string \<Rightarrow> bool \<Rightarrow> prefs \<Rightarrow> prefs" where
  "writePref key v p = writeText key (if v then ''1'' else ''0'') p"

definition DEFAULT_DIVERSITY :: rat where
  "DEFAULT_DIVERSITY = 1 / 4"

definition readServing :: "prefs \<Rightarrow> rat" where
  "readServing p =
     (case readText p ''diversity'' of
        None \<Rightarrow> DEFAULT_DIVERSITY
      | Some t \<Rightarrow>
          (case js_Number t of
             Fin d \<Rightarrow> if 0 \<le> d \<and> d \<le> 4 / 5 then d else DEFAULT_DIVERSITY
           | _ \<Rightarrow> DEFAULT_DIVERSITY))"

section \<open>State\<close>

datatype Tab = tab_sequence | tab_changes | tab_pipeline | tab_trace | tab_status | tab_proof

record reel =
  re_session :: "ReelSession option"
  re_home :: "(Unavailable + Recs) option"
  re_homeLoading :: bool
  re_receipts :: "Receipt list"
  re_insightOpen :: bool
  re_tab :: Tab
  re_autoRefresh :: bool
  re_history :: "Film list"
  re_pending :: int
  re_version :: nat
  re_toast :: "string option"
  re_lastTrace :: "Recs option"
  re_serving :: rat
  re_servingRef :: rat
  re_applied :: rat
  re_homeRequest :: nat
  re_asked :: "(nat \<times> rat) list"
  re_historyRequest :: nat
  re_prefs :: prefs

definition reel_load :: "prefs \<Rightarrow> reel" where
  "reel_load p =
     \<lparr>re_session = None, re_home = None, re_homeLoading = False, re_receipts = [],
      re_insightOpen = readPref p ''insight'' False, re_tab = tab_sequence,
      re_autoRefresh = readPref p ''autoUpdateOptIn'' False, re_history = [], re_pending = 0, re_version = 0,
      re_toast = None, re_lastTrace = None, re_serving = readServing p, re_servingRef = readServing p,
      re_applied = readServing p, re_homeRequest = 0, re_asked = [], re_historyRequest = 0, re_prefs = p\<rparr>"

definition notify :: "string \<Rightarrow> reel \<Rightarrow> reel" where
  "notify message st = st\<lparr>re_toast := Some message\<rparr>"

definition toast_expires :: "string \<Rightarrow> reel \<Rightarrow> reel" where
  "toast_expires message st = (if re_toast st = Some message then st\<lparr>re_toast := None\<rparr> else st)"

section \<open>The home shelf\<close>

definition refreshHome :: "reel \<Rightarrow> reel" where
  "refreshHome st =
     (let mine = Suc (re_homeRequest st) in
      st\<lparr>re_homeRequest := mine, re_homeLoading := True, re_asked := (mine, re_servingRef st) # re_asked st\<rparr>)"

definition refreshHome_answer :: "nat \<Rightarrow> string + Unavailable + Recs \<Rightarrow> reel \<Rightarrow> reel" where
  "refreshHome_answer mine r st =
     (case map_of (re_asked st) mine of
        None \<Rightarrow> st
      | Some asked \<Rightarrow>
          (let st0 = st\<lparr>re_asked := al_delete mine (re_asked st)\<rparr> in
           if mine \<noteq> re_homeRequest st then st0
           else case r of
             Inl message \<Rightarrow>
               st0\<lparr>re_home := Some (Inl \<lparr>uv_reason = message, uv_correlationId = None\<rparr>), re_homeLoading := False\<rparr>
           | Inr v \<Rightarrow>
               st0\<lparr>re_home := Some v, re_applied := asked,
                  re_lastTrace := (case v of Inr recs \<Rightarrow> Some recs | Inl u \<Rightarrow> re_lastTrace st),
                  re_pending := 0, re_homeLoading := False\<rparr>))"

section \<open>Session and history\<close>

text \<open>The history effect runs again when the session or the version changes, and then ignores the
  answers of the earlier runs.\<close>

definition history_effect :: "reel \<Rightarrow> reel" where
  "history_effect st =
     (if re_session st = None then st else st\<lparr>re_historyRequest := Suc (re_historyRequest st)\<rparr>)"

definition history_answer :: "nat \<Rightarrow> Film list option \<Rightarrow> reel \<Rightarrow> reel" where
  "history_answer n r st =
     (if n = re_historyRequest st then st\<lparr>re_history := or_else r []\<rparr> else st)"

definition watchedIds :: "reel \<Rightarrow> string set" where
  "watchedIds st = fi_id ` set (re_history st)"

definition reel_setSession :: "ReelSession \<Rightarrow> reel \<Rightarrow> reel" where
  "reel_setSession s st = history_effect (st\<lparr>re_session := Some s\<rparr>)"

definition first_session :: "string + ReelSession \<Rightarrow> reel \<Rightarrow> reel" where
  "first_session r st =
     (case r of Inr s \<Rightarrow> refreshHome (reel_setSession s st) | Inl message \<Rightarrow> notify message st)"

definition resetGuest_answer :: "ReelSession \<Rightarrow> reel \<Rightarrow> reel" where
  "resetGuest_answer s st =
     refreshHome (history_effect
       (st\<lparr>re_session := Some s, re_receipts := [], re_pending := 0, re_lastTrace := None, re_history := [],
          re_version := Suc (re_version st)\<rparr>))"

definition reset_done :: "reel \<Rightarrow> reel" where
  "reset_done st = notify (''Started over as a new guest: no history, so picks begin from what'' @ CHR 0x27 # ''s popular.'') st"

text \<open>The newest twelve receipts.\<close>

definition put_receipts :: "Receipt list \<Rightarrow> reel \<Rightarrow> reel" where
  "put_receipts rs st = st\<lparr>re_receipts := take 12 (rs @ re_receipts st)\<rparr>"

definition switchPersona_reel :: "ReelSession \<Rightarrow> Receipt list \<Rightarrow> reel \<Rightarrow> reel" where
  "switchPersona_reel s carried st =
     (let st1 = st\<lparr>re_session := Some s\<rparr>;
          st2 = (if carried = [] then st1
                 else notify (''Signed in as '' @ rpe_name (rse_persona s) @ ''; '' @
                        show_int (int (length carried)) @ '' session film(s) recorded to their history.'')
                      (put_receipts (rev carried) st1))
      in refreshHome (history_effect (st2\<lparr>re_version := Suc (re_version st2)\<rparr>)))"

section \<open>Watching\<close>

text \<open>\<open>watch\<close> after its request, with the setting of auto-update that the call captured; with it the notice follows
  the refreshed shelf.\<close>

definition watch_answer :: "bool \<Rightarrow> Receipt \<Rightarrow> reel \<Rightarrow> reel" where
  "watch_answer autoRefresh receipt st =
     (let st1 = history_effect ((put_receipts [receipt] st)
                  \<lparr>re_version := Suc (re_version st), re_pending := re_pending st + 1\<rparr>)
      in if autoRefresh then refreshHome st1
         else notify (''Added to your history. Press '' @ left_quote @ ''Update picks'' @ right_quote @
           '' on Home to see new recommendations.'') st1)"

definition watch_done :: "Receipt \<Rightarrow> reel \<Rightarrow> reel" where
  "watch_done receipt st =
     notify (if rcp_duplicate receipt then ''Already in your history.''
             else ''Added to your history. Your picks have been updated.'') st"

definition replay_answer :: "string + Receipt \<Rightarrow> reel \<Rightarrow> reel" where
  "replay_answer r st =
     (case r of
        Inl message \<Rightarrow> notify message st
      | Inr receipt \<Rightarrow>
          notify (if rcp_duplicate receipt
                  then ''Same event id sent again: GraphRec answered duplicate, nothing changed.''
                  else ''Replay was accepted.'') (put_receipts [receipt] st))"

section \<open>Controls\<close>

text \<open>\<open>num_text\<close> is \<open>String\<close> on a number.\<close>

definition setServing :: "(rat \<Rightarrow> string) \<Rightarrow> rat \<Rightarrow> reel \<Rightarrow> reel" where
  "setServing num_text diversity st =
     st\<lparr>re_servingRef := diversity, re_serving := diversity,
        re_prefs := writeText ''diversity'' (num_text diversity) (re_prefs st)\<rparr>"

definition setAutoRefresh :: "bool \<Rightarrow> reel \<Rightarrow> reel" where
  "setAutoRefresh on st = st\<lparr>re_autoRefresh := on, re_prefs := writePref ''autoUpdateOptIn'' on (re_prefs st)\<rparr>"

definition setInsight :: "bool \<Rightarrow> Tab option \<Rightarrow> reel \<Rightarrow> reel" where
  "setInsight open0 t st =
     st\<lparr>re_insightOpen := open0, re_prefs := writePref ''insight'' open0 (re_prefs st), re_tab := or_else t (re_tab st)\<rparr>"

definition strategyLabel :: "string \<Rightarrow> string" where
  "strategyLabel s =
     (if s = ''personalized'' then ''Picked for you''
      else if s = ''session'' then ''Based on what you just watched''
      else if js_includes s ''fallback'' then ''Popular picks'' else s)"

definition strategyDetail :: "string \<Rightarrow> string" where
  "strategyDetail s =
     (if s = ''personalized'' then ''Personalized: DGSR scored this shopper'' @ CHR 0x27 # ''s own interaction graph''
      else if s = ''session'' then ''Session approximation: DGSR scored the films from this visit''
      else if js_includes s ''fallback''
      then ''Fallback: popular films, because GraphRec knows nothing about this visitor yet'' else s)"

end
