(* ===== verification/ReelProps.thy ===== *)
theory ReelProps
  imports ReelStore
begin

text \<open>
  Runs of the Reel shop. \<open>built d recs\<close> says that \<open>recs\<close> answers a request that asked for diversity \<open>d\<close>;
  the home requests provide the contract \<open>latest_wins\<close>.
\<close>

section \<open>Runs\<close>

inductive reel_step :: "(rat \<Rightarrow> Recs \<Rightarrow> bool) \<Rightarrow> reel \<Rightarrow> reel \<Rightarrow> bool" for built where
  session: "reel_step built st (first_session r st)"
| press: "reel_step built st (refreshHome st)"
| answer: "map_of (re_asked st) n = Some d \<Longrightarrow> (\<And>recs. r = Inr (Inr recs) \<Longrightarrow> built d recs) \<Longrightarrow>
    reel_step built st (refreshHome_answer n r st)"
| history: "reel_step built st (history_answer n films st)"
| reset: "reel_step built st (resetGuest_answer s st)"
| reset_end: "reel_step built st (reset_done st)"
| switch: "reel_step built st (switchPersona_reel s carried st)"
| watch: "reel_step built st (watch_answer auto receipt st)"
| watch_end: "reel_step built st (watch_done receipt st)"
| replay: "reel_step built st (replay_answer q st)"
| serving: "reel_step built st (setServing num_text d st)"
| auto: "reel_step built st (setAutoRefresh b st)"
| insight: "reel_step built st (setInsight b t st)"
| notice: "reel_step built st (notify m st)"
| expire: "reel_step built st (toast_expires m st)"
| trace: "reel_step built st (st\<lparr>re_lastTrace := Some recs\<rparr>)"

inductive reel_reachable :: "(rat \<Rightarrow> Recs \<Rightarrow> bool) \<Rightarrow> reel \<Rightarrow> bool" for built where
  load: "reel_reachable built (reel_load p)"
| step: "reel_reachable built st \<Longrightarrow> reel_step built st st' \<Longrightarrow> reel_reachable built st'"

section \<open>The invariant\<close>

text \<open>What depends on the home shelf, and the rest.\<close>

definition home_ok :: "(rat \<Rightarrow> Recs \<Rightarrow> bool) \<Rightarrow> reel \<Rightarrow> bool" where
  "home_ok built st =
     ((\<forall>recs. re_home st = Some (Inr recs) \<longrightarrow> built (re_applied st) recs) \<and>
      (\<forall>(n, d) \<in> set (re_asked st). n \<le> re_homeRequest st) \<and> distinct (map fst (re_asked st)) \<and>
      (re_homeLoading st \<longleftrightarrow> re_homeRequest st \<in> fst ` set (re_asked st)) \<and>
      re_serving st = re_servingRef st)"

definition reel_inv :: "(rat \<Rightarrow> Recs \<Rightarrow> bool) \<Rightarrow> reel \<Rightarrow> bool" where
  "reel_inv built st = (home_ok built st \<and> length (re_receipts st) \<le> 12 \<and> 0 \<le> re_pending st)"

lemma home_ok_more [simp]:
  "home_ok built (st\<lparr>re_toast := x1\<rparr>) = home_ok built st"
  "home_ok built (st\<lparr>re_session := x2\<rparr>) = home_ok built st"
  "home_ok built (st\<lparr>re_historyRequest := x3\<rparr>) = home_ok built st"
  "home_ok built (st\<lparr>re_receipts := x4\<rparr>) = home_ok built st"
  "home_ok built (st\<lparr>re_version := x5\<rparr>) = home_ok built st"
  "home_ok built (st\<lparr>re_pending := x6\<rparr>) = home_ok built st"
  "home_ok built (st\<lparr>re_history := x7\<rparr>) = home_ok built st"
  "home_ok built (st\<lparr>re_lastTrace := x8\<rparr>) = home_ok built st"
  "home_ok built (st\<lparr>re_prefs := x9\<rparr>) = home_ok built st"
  "home_ok built (st\<lparr>re_insightOpen := x10\<rparr>) = home_ok built st"
  "home_ok built (st\<lparr>re_tab := x11\<rparr>) = home_ok built st"
  "home_ok built (st\<lparr>re_autoRefresh := x12\<rparr>) = home_ok built st"
  by (simp_all add: home_ok_def)

named_theorems reel_simps \<open>the operations of the Reel shop\<close>

lemmas [reel_simps] = notify_def toast_expires_def history_effect_def history_answer_def reel_setSession_def
  put_receipts_def reset_done_def watch_done_def replay_answer_def setAutoRefresh_def setInsight_def

lemma refreshHome_ok:
  "home_ok built st \<Longrightarrow> home_ok built (refreshHome st)"
  by (force simp: home_ok_def refreshHome_def Let_def)

lemma refreshHome_fields [simp]:
  "re_receipts (refreshHome st) = re_receipts st" "re_pending (refreshHome st) = re_pending st"
  by (simp_all add: refreshHome_def Let_def)

lemma reel_inv_refresh: "reel_inv built st \<Longrightarrow> reel_inv built (refreshHome st)"
  by (simp add: reel_inv_def refreshHome_ok)

lemma refreshHome_answer_inv:
  assumes inv: "reel_inv built st" and asked: "map_of (re_asked st) n = Some d"
    and good: "\<And>recs. r = Inr (Inr recs) \<Longrightarrow> built d recs"
  shows "reel_inv built (refreshHome_answer n r st)"
proof -
  have keys: "fst ` set (al_delete n (re_asked st)) = fst ` set (re_asked st) - {n}"
    by (auto simp: image_iff)
  have d0: "distinct (map fst (al_delete n (re_asked st)))"
    using inv by (simp add: reel_inv_def home_ok_def distinct_al_delete)
  show ?thesis
  proof (cases "n = re_homeRequest st")
    case False
    with inv asked keys d0 show ?thesis
      by (auto simp: refreshHome_answer_def Let_def reel_inv_def home_ok_def)
  next
    case True
    with inv asked keys d0 good show ?thesis
      by (cases r) (auto simp: refreshHome_answer_def Let_def reel_inv_def home_ok_def split: sum.split)
  qed
qed

lemma reel_step_inv: "reel_step built st st' \<Longrightarrow> reel_inv built st \<Longrightarrow> reel_inv built st'"
proof (induction rule: reel_step.induct)
  case (answer st n d r)
  then show ?case by (blast intro: refreshHome_answer_inv)
next
  case (serving st num_text d)
  then show ?case by (simp add: setServing_def reel_inv_def home_ok_def)
qed (auto simp: reel_simps first_session_def resetGuest_answer_def switchPersona_reel_def watch_answer_def
    reel_inv_def refreshHome_ok Let_def split: sum.split)

lemma reel_reachable_inv: "reel_reachable built st \<Longrightarrow> reel_inv built st"
proof (induction rule: reel_reachable.induct)
  case (load p)
  then show ?case by (simp add: reel_inv_def home_ok_def reel_load_def)
qed (blast intro: reel_step_inv)

section \<open>Properties\<close>

definition home_shown :: "reel \<Rightarrow> (Unavailable + Recs) option \<times> rat \<times> Recs option \<times> int \<times> bool" where
  "home_shown st = (re_home st, re_applied st, re_lastTrace st, re_pending st, re_homeLoading st)"

interpretation home_race: latest_wins re_homeRequest refreshHome refreshHome_answer home_shown
  by unfold_locales
    (auto simp: refreshHome_def refreshHome_answer_def home_shown_def Let_def split: option.split sum.split)

text \<open>C20: the home shelf is the answer to the newest request, and says with which setting it was made. In
  every reachable state a list on screen was asked for with the setting shown as applied, however the
  setting changed and in whatever order the answers came; the shelf is loading exactly while its newest
  request is in flight; an answer to an older request changes nothing that is shown; at
  most twelve receipts are kept.\<close>

theorem home_shelf_newest:
  assumes "reel_reachable built st"
  shows "(re_home st = Some (Inr recs) \<longrightarrow> built (re_applied st) recs) \<and>
    (re_homeLoading st \<longleftrightarrow> re_homeRequest st \<in> fst ` set (re_asked st)) \<and>
    home_shown (refreshHome_answer (Suc (re_homeRequest st)) r (refreshHome (refreshHome st))) =
      home_shown (refreshHome (refreshHome st)) \<and>
    length (re_receipts st) \<le> 12"
  using reel_reachable_inv [OF assms] home_race.older_ignored(1) [of st r]
  by (simp add: reel_inv_def home_ok_def)

definition a_list :: "rat \<Rightarrow> Recs" where
  "a_list d = \<lparr>rc_shelf = shelf_home, rc_title = ''Picks'', rc_items = [], rc_trace =
     \<lparr>tr_request = \<lparr>tq_endpoint = [], tq_userId = None, tq_topN = 10, tq_recentProductIds = [], tq_excludeCount = 0\<rparr>,
      tr_requestId = ''r'', tr_modelVersionId = None, tr_strategy = ''session'', tr_fallbackUsed = False,
      tr_fallbackTier = [], tr_appliedRules = [], tr_latencyMs = 1, tr_pipeline = None, tr_diversity = Some d,
      tr_explain = None\<rparr>, rc_diff = \<lparr>di_hasPrevious = False, di_entered = [], di_left = [], di_changed = 0,
      di_summary = []\<rparr>, rc_omitted = 0, rc_impression = None\<rparr>"

definition made_with :: "rat \<Rightarrow> Recs \<Rightarrow> bool" where
  "made_with d recs = (tr_diversity (rc_trace recs) = Some d)"

definition asked_twice :: reel where
  "asked_twice = refreshHome (setServing (\<lambda>_. ''0'') 0 (refreshHome (reel_load (False, \<lambda>_. None))))"

lemma asked_twice_fields:
  "re_asked asked_twice = [(2, 0), (1, 1 / 4)]" "re_homeRequest asked_twice = 2" "re_applied asked_twice = 1 / 4"
  by (simp_all add: asked_twice_def refreshHome_def setServing_def reel_load_def readServing_def readText_def
      DEFAULT_DIVERSITY_def Let_def)

definition two_settings :: reel where
  "two_settings = refreshHome_answer 1 (Inr (Inr (a_list (1 / 4)))) (refreshHome_answer 2 (Inr (Inr (a_list 0))) asked_twice)"

lemma two_settings_reachable: "reel_reachable made_with two_settings"
proof -
  have "reel_reachable made_with asked_twice"
    unfolding asked_twice_def by (blast intro: reel_reachable.intros reel_step.press reel_step.serving)
  moreover have "reel_step made_with asked_twice (refreshHome_answer 2 (Inr (Inr (a_list 0))) asked_twice)"
    by (rule reel_step.answer [where d = 0]) (simp_all add: asked_twice_fields made_with_def a_list_def)
  moreover have "reel_step made_with (refreshHome_answer 2 (Inr (Inr (a_list 0))) asked_twice) two_settings"
    unfolding two_settings_def
    by (rule reel_step.answer [where d = "1 / 4"])
      (simp_all add: asked_twice_fields made_with_def a_list_def refreshHome_answer_def al_delete_def Let_def)
  ultimately show ?thesis by (blast intro: reel_reachable.step)
qed

theorem home_shelf_newest_witness: "made_with (re_applied two_settings) (a_list 0)"
proof -
  have "re_home two_settings = Some (Inr (a_list 0))"
    by (simp add: two_settings_def refreshHome_answer_def asked_twice_fields al_delete_def Let_def)
  with home_shelf_newest [OF two_settings_reachable, of "a_list 0" "Inl []"] show ?thesis by simp
qed

text \<open>A film watched while the picks are being updated is forgotten by the counter. The request
  was sent before the film was watched, so the list cannot reflect it; its answer still sets the number of
  events since the last update to zero, and with the setting unchanged the button no longer asks for an update.\<close>

lemma watch_during_update_lost:
  assumes "reel_reachable built st" "re_homeLoading st"
    and "st' = refreshHome_answer (re_homeRequest st) (Inr v) (watch_answer False receipt st)"
  shows "re_pending (watch_answer False receipt st) = re_pending st + 1 \<and> 1 \<le> re_pending (watch_answer False receipt st) \<and>
    re_home st' = Some v \<and> hd (re_receipts st') = receipt \<and> re_pending st' = 0 \<and> \<not> re_homeLoading st'"
proof -
  have inv: "home_ok built st" "0 \<le> re_pending st"
    using reel_reachable_inv [OF assms(1)] by (simp_all add: reel_inv_def)
  then have "re_homeRequest st \<in> fst ` set (re_asked st)" using assms(2) by (simp add: home_ok_def)
  then obtain d where "map_of (re_asked st) (re_homeRequest st) = Some d"
    by (metis map_of_eq_None_iff not_None_eq)
  then show ?thesis
    using assms(3) inv(2)
    by (simp add: watch_answer_def refreshHome_answer_def reel_simps Let_def take_Cons')
qed

theorem watch_during_update_lost_witness:
  "re_pending (refreshHome_answer 1 (Inr (Inr (a_list (1 / 4))))
     (watch_answer False \<lparr>rcp_eventId = ''e'', rcp_eventType = ''watch'', rcp_filmId = ''f'', rcp_accepted = True,
        rcp_duplicate = False, rcp_latencyMs = 3, rcp_feedback = None\<rparr>
       (refreshHome (reel_load (False, \<lambda>_. None))))) = 0"
proof -
  let ?st = "refreshHome (reel_load (False, \<lambda>_. None))"
  have r: "reel_reachable made_with ?st" by (intro reel_reachable.step [OF _ reel_step.press] reel_reachable.load)
  have "re_homeLoading ?st" "re_homeRequest ?st = 1"
    by (simp_all add: refreshHome_def reel_load_def readPref_def readText_def Let_def)
  with watch_during_update_lost [OF r _ refl] show ?thesis by simp
qed

end
