(* ===== verification/ReelPages.thy ===== *)
theory ReelPages
  imports ReelStore Hooks
begin

text \<open>
  The components of the Reel shop: tiles, the shelf with its diversity control, the header, browsing
  with its query string, the film page and the insight drawer. Markup is left out: a definition gives
  the texts, links and switches a component shows. \<open>nf\<close> prints an integer in the browser's locale.
\<close>

section \<open>Tiles\<close>

definition HUES :: "(string \<times> int) list" where
  "HUES =
     [(''Animation'', 28), (''Children'', 45), (''Comedy'', 52), (''Romance'', 345), (''Drama'', 215), (''Action'', 8),
      (''Adventure'', 160), (''Sci-Fi'', 195), (''Thriller'', 260), (''Crime'', 280), (''Horror'', 0), (''Fantasy'', 300),
      (''Musical'', 320), (''War'', 90), (''Mystery'', 240), (''Documentary'', 120), (''Western'', 35),
      (''Film-Noir'', 230), (''IMAX'', 180)]"

definition ARTICLES :: "string list" where
  "ARTICLES = [''The'', ''A'', ''An'', ''Les'', ''La'', ''Le'', ''L'' @ [CHR 0x27], ''Il'', ''Das'', ''Der'', ''Die'', ''El'']"

text \<open>A title that ends with a comma and an article (a title has no line break).\<close>

definition displayTitle :: "string \<Rightarrow> string" where
  "displayTitle title =
     (case List.find (\<lambda>a. ends_with title ('', '' @ a)) ARTICLES of
        None \<Rightarrow> title
      | Some a \<Rightarrow>
          a @ (if ends_with a [CHR 0x27] then [] else '' '') @ take (length title - length a - 2) title)"

datatype PosterView = Cover string | Placeholder int string "int option"

definition Poster :: "string option \<Rightarrow> Film \<Rightarrow> PosterView" where
  "Poster broken film =
     (if truthy (fi_posterUrl film) \<and> broken \<noteq> fi_posterUrl film then Cover (the (fi_posterUrl film))
      else Placeholder (or_else (map_of HUES (case fi_genres film of [] \<Rightarrow> [] | g # gs \<Rightarrow> g)) 210)
             (displayTitle (fi_title film)) (fi_year film))"

datatype Badge = badge_new | badge_up int | badge_down int

definition ChangeBadge :: "Ranked \<Rightarrow> Badge option" where
  "ChangeBadge r =
     (case ra_change r of
        ch_new \<Rightarrow> Some badge_new
      | ch_up \<Rightarrow> Some (badge_up (or_else (ra_previousPosition r) 0 - ra_position r))
      | ch_down \<Rightarrow> Some (badge_down (ra_position r - or_else (ra_previousPosition r) 0))
      | ch_same \<Rightarrow> None)"

definition tile_subtitle :: "Film \<Rightarrow> string" where
  "tile_subtitle film =
     js_join ('' '' @ mid_dot @ '' '')
       (filter (\<lambda>t. t \<noteq> [])
          [case fi_year film of Some y \<Rightarrow> if y = 0 then [] else show_int y | None \<Rightarrow> [],
           js_join ('' '' @ mid_dot @ '' '') (take 2 (fi_genres film))])"

record TileView =
  tv_to :: string
  tv_title :: string
  tv_rank :: "int option"
  tv_badge :: "Badge option"
  tv_watched :: bool
  tv_sub :: string
  tv_tags :: "string list"
  tv_state :: "(string \<times> int) option"

definition FilmTile :: "Film \<Rightarrow> Ranked option \<Rightarrow> string option \<Rightarrow> bool \<Rightarrow> TileView" where
  "FilmTile film ranked requestId watched =
     \<lparr>tv_to = ''/film/'' @ fi_id film, tv_title = displayTitle (fi_title film),
      tv_rank = map_option ra_position ranked, tv_badge = Option.bind ranked ChangeBadge,
      tv_watched = watched, tv_sub = tile_subtitle film, tv_tags = take 3 (fi_tags film),
      tv_state = (case ranked of
          Some r \<Rightarrow> if truthy requestId then Some (the requestId, ra_position r) else None
        | None \<Rightarrow> None)\<rparr>"

section \<open>The shelf\<close>

definition MAX_DIVERSITY :: rat where
  "MAX_DIVERSITY = 4 / 5"

definition differs :: "rat \<Rightarrow> rat \<Rightarrow> bool" where
  "differs a b = (\<bar>a - b\<bar> > 1 / 10 ^ 9)"

text \<open>The draft of the slider and the timer that commits it: its due time and the value.\<close>

record controls =
  co_draft :: rat
  co_timer :: "(int \<times> rat) option"

text \<open>The effects of a render with this draft and this setting: the draft follows a changed setting; a
  differing draft arms the timer anew.\<close>

definition draft_effect :: "int \<Rightarrow> rat \<Rightarrow> controls \<Rightarrow> controls" where
  "draft_effect now0 diversity c =
     c\<lparr>co_timer := (if differs (co_draft c) diversity then Some (now0 + 350, co_draft c) else None)\<rparr>"

definition serving_effect :: "int \<Rightarrow> rat \<Rightarrow> controls \<Rightarrow> controls" where
  "serving_effect now0 diversity c = draft_effect now0 diversity (c\<lparr>co_draft := diversity\<rparr>)"

definition slide :: "int \<Rightarrow> rat \<Rightarrow> rat \<Rightarrow> controls \<Rightarrow> controls" where
  "slide now0 diversity v c = draft_effect now0 diversity (c\<lparr>co_draft := of_int (js_round (v * 100)) / 100\<rparr>)"

definition timer_due :: "int \<Rightarrow> controls \<Rightarrow> rat option" where
  "timer_due now0 c =
     (case co_timer c of Some (due, v) \<Rightarrow> if due \<le> now0 then Some v else None | None \<Rightarrow> None)"

datatype ServingNote = note_press | note_not_applied

definition serving_notes :: "bool \<Rightarrow> rat \<Rightarrow> rat \<Rightarrow> ServingNote list" where
  "serving_notes applied draft appliedDiversity =
     (if applied \<and> differs draft appliedDiversity then [note_press] else []) @
     (if \<not> applied then [note_not_applied] else [])"

datatype ShelfView =
    ShelfBusy
  | ShelfFailed string bool
  | ShelfList string string bool bool "int option" "TileView list" "string option"

definition shelf_pill :: "Recs \<Rightarrow> string" where
  "shelf_pill recs =
     (let s = tr_strategy (rc_trace recs) in
      if rc_shelf recs = shelf_more_like \<and> s \<noteq> ''personalized'' \<and> \<not> js_includes s ''fallback''
      then ''Similar films'' else strategyLabel s)"

definition ShelfComponent ::
    "(Unavailable + Recs) option \<Rightarrow> bool \<Rightarrow> bool \<Rightarrow> int \<Rightarrow> string option \<Rightarrow> reel \<Rightarrow> ShelfView" where
  "ShelfComponent recs loading canUpdate pending0 emptyHint st =
     (case recs of
        None \<Rightarrow> ShelfBusy
      | Some (Inl u) \<Rightarrow>
          ShelfFailed (uv_reason u @
            (if truthy (uv_correlationId u) then '' '' @ mid_dot @ '' ref '' @ the (uv_correlationId u) else [])) canUpdate
      | Some (Inr r) \<Rightarrow>
          ShelfList (rc_title r) (shelf_pill r) loading
            (canUpdate \<and> (pending0 \<noteq> 0 \<or> differs (re_serving st) (re_applied st)))
            (if canUpdate \<and> pending0 \<noteq> 0 then Some pending0 else None)
            (map (\<lambda>i. FilmTile (Film.truncate i) (Some i) (Some (tr_requestId (rc_trace r)))
                         (fi_id i \<in> watchedIds st)) (rc_items r))
            (if rc_items r = [] then Some (or_else emptyHint ''Nothing to suggest yet.'') else None))"

section \<open>The header\<close>

text \<open>\<open>/\s*\(.*\)\s*$/\<close> at a position: blanks, an opening parenthesis, and a closing one at the end but
  for blanks.\<close>

definition tail_parenthesis :: "string \<Rightarrow> bool" where
  "tail_parenthesis s =
     (case dropWhile js_space s of
        [] \<Rightarrow> False
      | c # r \<Rightarrow> c = CHR ''('' \<and> (case dropWhile js_space (rev r) of [] \<Rightarrow> False | d # q \<Rightarrow> d = CHR '')''))"

fun cut_parenthesis :: "string \<Rightarrow> string" where
  "cut_parenthesis [] = []"
| "cut_parenthesis (c # cs) = (if tail_parenthesis (c # cs) then [] else c # cut_parenthesis cs)"

definition taste :: "ReelPersona \<Rightarrow> string" where
  "taste p = cut_parenthesis (rpe_blurb p)"

definition persona_label :: "ReelPersona \<Rightarrow> string" where
  "persona_label p =
     (if truthy (rpe_userId p) then rpe_name p @ '' '' @ em_dash @ '' '' @ taste p else ''Guest (no history)'')"

text \<open>The box follows the query of the browse page; a submitted search is a link.\<close>

definition search_box :: "string \<Rightarrow> search_params \<Rightarrow> string" where
  "search_box pathname params =
     (if starts_with pathname ''/browse'' then or_else (params_get ''q'' params) [] else [])"

definition search_target :: "string \<Rightarrow> string" where
  "search_target q =
     (if js_trim q \<noteq> [] then ''/browse?q='' @ encodeURIComponent (js_trim q) else ''/browse'')"

text \<open>The chosen key and whether the guest's films are carried along; none when nothing is asked.\<close>

definition choose_persona :: "ReelPersona option \<Rightarrow> string \<Rightarrow> (string \<times> bool) option" where
  "choose_persona current0 key =
     (case current0 of
        None \<Rightarrow> None
      | Some p \<Rightarrow> if key = rpe_key p then None else Some (key, rpe_userId p = None \<and> key \<noteq> ''anon''))"

end
