(* ===== verification/ReelApi.thy ===== *)
theory ReelApi
  imports ReelTypes UrlCoding WireTypes
begin

text \<open>
  The HTTP client of the Reel shop (\<open>api.ts\<close>): how an answer becomes data or an error, and the
  path and body of every call.
\<close>

section \<open>Answers\<close>

record ReelError =
  re_code :: string
  re_message :: string
  re_correlationId :: "string option"

text \<open>Besides the errors of the API, \<open>fetch\<close> rejects without an answer, and reading a member of a
  null body throws.\<close>

datatype reel_thrown = Reel_Error ReelError | Reel_Type_Error | Reel_Unreachable

datatype reel_fetched = No_Answer | Reel_Answer int "json option"

definition reel_error :: "int \<Rightarrow> json option \<Rightarrow> ReelError" where
  "reel_error status e =
     (let e0 = or_else e JNull in
      \<lparr>re_code = or_else (json_string (json_get e0 ''code'')) ''http_error'',
       re_message = or_else (json_string (json_get e0 ''message'')) (''Request failed ('' @ show_int status @ '')''),
       re_correlationId = json_string (json_get e0 ''correlationId'')\<rparr>)"

definition reel_call :: "reel_fetched \<Rightarrow> reel_thrown + json" where
  "reel_call f =
     (case f of
        No_Answer \<Rightarrow> Inl Reel_Unreachable
      | Reel_Answer status body0 \<Rightarrow>
          (let body = or_else body0 (JObj []) in
           if 200 \<le> status \<and> status \<le> 299 then Inr body
           else if body = JNull then Inl Reel_Type_Error
           else Inl (Reel_Error (reel_error status (json_get body ''error'')))))"

definition reel_data :: "reel_fetched \<Rightarrow> reel_thrown + json option" where
  "reel_data f =
     (case reel_call f of
        Inl e \<Rightarrow> Inl e
      | Inr body \<Rightarrow> if body = JNull then Inl Reel_Type_Error else Inr (json_get body ''data''))"

definition not_found :: "reel_thrown \<Rightarrow> bool" where
  "not_found e = (case e of Reel_Error x \<Rightarrow> re_code x = ''not_found'' | _ \<Rightarrow> False)"

section \<open>Calls\<close>

text \<open>The path, and the body of a POST.\<close>

type_synonym reel_request = "string \<times> json option"

definition reel_get :: "string \<Rightarrow> reel_request" where
  "reel_get path = (''/api/reel'' @ path, None)"

definition reel_post :: "string \<Rightarrow> (string \<times> json) list \<Rightarrow> reel_request" where
  "reel_post path members = (''/api/reel'' @ path, Some (JObj members))"

definition reel_setPersona :: "string \<Rightarrow> bool \<Rightarrow> reel_request" where
  "reel_setPersona persona carrySession =
     reel_post ''/session/persona'' [(''persona'', JStr persona), (''carrySession'', JBool carrySession)]"

definition reel_tags :: "int \<Rightarrow> reel_request" where
  "reel_tags limit = reel_get (''/tags?limit='' @ show_int limit)"

text \<open>The members of \<open>p\<close> as strings, in the order they are written; those that are undefined or
  empty are left out.\<close>

definition film_query :: "(string \<times> string option) list \<Rightarrow> search_params" where
  "film_query p = [(k, the v). (k, v) \<leftarrow> p, truthy v]"

definition reel_films :: "(string \<times> string option) list \<Rightarrow> reel_request" where
  "reel_films p = reel_get (''/films?'' @ params_toString (film_query p))"

definition reel_film :: "string \<Rightarrow> reel_request" where
  "reel_film i = reel_get (''/films/'' @ encodeURIComponent i)"

definition reel_watch :: "string \<Rightarrow> (string \<times> int) option \<Rightarrow> reel_request" where
  "reel_watch filmId from0 =
     reel_post ''/watch''
       ((''filmId'', JStr filmId) #
        (case from0 of
           Some (requestId, position) \<Rightarrow> [(''requestId'', JStr requestId), (''position'', JNum (of_int position))]
         | None \<Rightarrow> []))"

definition shelf_name :: "ShelfKind \<Rightarrow> string" where
  "shelf_name k = (case k of shelf_home \<Rightarrow> ''home'' | shelf_more_like \<Rightarrow> ''more_like'')"

definition reel_recommend :: "ShelfKind \<Rightarrow> string option \<Rightarrow> rat option \<Rightarrow> reel_request" where
  "reel_recommend k filmId diversity =
     reel_post ''/recommendations''
       ((''shelf'', JStr (shelf_name k)) #
        (case filmId of Some i \<Rightarrow> [(''filmId'', JStr i)] | None \<Rightarrow> []) @
        (case diversity of Some d \<Rightarrow> [(''diversity'', JNum d)] | None \<Rightarrow> []))"

definition reel_click :: "string \<Rightarrow> string \<Rightarrow> int \<Rightarrow> reel_request" where
  "reel_click requestId filmId position =
     reel_post ''/feedback/click''
       [(''requestId'', JStr requestId), (''filmId'', JStr filmId), (''position'', JNum (of_int position))]"

definition reel_proofRun :: "string \<Rightarrow> reel_request" where
  "reel_proofRun profile = reel_post ''/proof/run'' [(''profile'', JStr profile)]"

text \<open>The calls without arguments.\<close>

definition REEL_PLAIN :: "(string \<times> reel_request) list" where
  "REEL_PLAIN =
     [(''session'', reel_get ''/session''), (''resetGuest'', reel_post ''/session/reset'' []),
      (''genres'', reel_get ''/genres''), (''replay'', reel_post ''/watch/replay'' []),
      (''history'', reel_get ''/insight/history''), (''sequence'', reel_get ''/insight/sequence''),
      (''status'', reel_get ''/insight/status''), (''proofLatest'', reel_get ''/proof/latest'')]"

section \<open>Facts\<close>

lemma film_query_keys: "(k, v) \<in> set (film_query p) \<longleftrightarrow> (k, Some v) \<in> set p \<and> v \<noteq> []"
  by (force simp: film_query_def truthy_iff)

text \<open>A call gives data exactly when it was answered with a 2xx status and a body that is not null.\<close>

lemma reel_data_iff:
  "reel_data f = Inr d \<longleftrightarrow>
     (\<exists>status body. f = Reel_Answer status body \<and> 200 \<le> status \<and> status \<le> 299 \<and> body \<noteq> Some JNull \<and>
        d = json_get (or_else body (JObj [])) ''data'')"
proof (cases f)
  case (Reel_Answer s b)
  then show ?thesis by (cases b) (auto simp: reel_data_def reel_call_def Let_def)
qed (simp add: reel_data_def reel_call_def)

end
