(* ===== verification/ReelBrowse.thy ===== *)
theory ReelBrowse
  imports ReelPages ReelApi Paging
begin

text \<open>
  Browsing (\<open>pages/Browse.tsx\<close>), the film page (\<open>pages/FilmPage.tsx\<close>) and the home page
  (\<open>pages/Home.tsx\<close>) of the Reel shop.
\<close>

section \<open>Browsing\<close>

definition LIMIT :: int where
  "LIMIT = 30"

definition SORTS :: "(string \<times> string) list" where
  "SORTS = [(''popular'', ''Most watched''), (''newest'', ''Newest''), (''oldest'', ''Oldest''),
     (''title'', ''Title A'' @ en_dash @ ''Z'')]"

text \<open>\<open>Math.max(1, Number(page ?? "1") || 1)\<close>: also a fraction or infinity.\<close>

definition page_number :: "search_params \<Rightarrow> number" where
  "page_number params =
     (case js_Number (or_else (params_get ''page'' params) ''1'') of
        NaN \<Rightarrow> Fin 1
      | Infinite negative \<Rightarrow> if negative then Fin 1 else Infinite negative
      | Fin x \<Rightarrow> Fin (if x = 0 then 1 else max 1 x))"

definition page_offset :: "rat \<Rightarrow> rat" where
  "page_offset pageNo = (pageNo - 1) * of_int LIMIT"

text \<open>The offset and the request of the list, with \<open>str\<close> for \<open>String\<close> on a number; the sort is
  the raw parameter.\<close>

definition list_offset :: "search_params \<Rightarrow> number" where
  "list_offset params = (case page_number params of Fin x \<Rightarrow> Fin (page_offset x) | n \<Rightarrow> n)"

definition browse_request :: "(number \<Rightarrow> string) \<Rightarrow> string option \<Rightarrow> search_params \<Rightarrow> reel_request" where
  "browse_request str genre params =
     reel_films
       [(''genre'', genre), (''tag'', params_get ''tag'' params), (''q'', params_get ''q'' params),
        (''sort'', Some (or_else (params_get ''sort'' params) ''popular'')), (''offset'', Some (str (list_offset params))),
        (''limit'', Some (show_int LIMIT))]"

text \<open>\<open>update\<close>: a patch of the query; a filter change goes back to the first page.\<close>

definition patch_query :: "(string \<times> string option) list \<Rightarrow> search_params \<Rightarrow> search_params" where
  "patch_query patch params =
     foldl (\<lambda>q (k, v). if truthy v then params_set k (the v) q else al_delete k q) params patch"

definition browse_update :: "(string \<times> string option) list \<Rightarrow> bool \<Rightarrow> search_params \<Rightarrow> search_params" where
  "browse_update patch keepPage params =
     (let next0 = patch_query patch params in if keepPage then next0 else al_delete ''page'' next0)"

definition goPage :: "int \<Rightarrow> search_params \<Rightarrow> search_params" where
  "goPage n params = browse_update [(''page'', if n > 1 then Some (show_int n) else None)] True params"

definition keep_filters :: "string \<Rightarrow> search_params \<Rightarrow> string" where
  "keep_filters to params =
     (let s = params_toString (al_delete ''page'' params) in if s = [] then to else to @ ''?'' @ s)"

definition browse_heading :: "string \<Rightarrow> string \<Rightarrow> string option \<Rightarrow> string" where
  "browse_heading q tag genre =
     (if q \<noteq> [] then ''Results for '' @ left_quote @ q @ right_quote
      else if tag \<noteq> [] then ''Tagged '' @ left_quote @ tag @ right_quote
      else or_else genre ''All films'')"

definition browse_pages :: "FilmPage option \<Rightarrow> int" where
  "browse_pages page =
     (case page of None \<Rightarrow> 1 | Some p \<Rightarrow> max 1 \<lceil>of_int (fpg_total p) / (of_int LIMIT :: rat)\<rceil>)"

text \<open>A page of films with a total, for the page count, which looks at nothing else.\<close>

definition films_of :: "int \<Rightarrow> FilmPage" where
  "films_of n_rows = \<lparr>fpg_items = [], fpg_total = n_rows, fpg_offset = 0, fpg_limit = LIMIT\<rparr>"

interpretation film_paging: paging LIMIT "\<lambda>n_rows. browse_pages (Some (films_of n_rows))"
  by unfold_locales (simp_all add: LIMIT_def browse_pages_def films_of_def)

text \<open>The list effect: the answer of the newest parameters only, 120 ms after they settled.\<close>

record browse =
  br_effect :: nat
  br_due :: "int option"
  br_page :: "FilmPage option"
  br_error :: "string option"
  br_loading :: bool

definition browse_first :: browse where
  "browse_first = \<lparr>br_effect = 0, br_due = None, br_page = None, br_error = None, br_loading = True\<rparr>"

definition browse_effect :: "int \<Rightarrow> browse \<Rightarrow> browse" where
  "browse_effect now0 b = b\<lparr>br_effect := Suc (br_effect b), br_due := Some (now0 + 120), br_loading := True\<rparr>"

definition browse_answer :: "nat \<Rightarrow> string + FilmPage \<Rightarrow> browse \<Rightarrow> browse" where
  "browse_answer n r b =
     (if n \<noteq> br_effect b then b
      else case r of
        Inr p \<Rightarrow> b\<lparr>br_page := Some p, br_error := None, br_loading := False\<rparr>
      | Inl e \<Rightarrow> b\<lparr>br_page := None, br_error := Some e, br_loading := False\<rparr>)"

interpretation browse_race: latest_wins br_effect "browse_effect now0" browse_answer
    "\<lambda>b. (br_page b, br_error b, br_loading b)"
  by unfold_locales (auto simp: browse_effect_def browse_answer_def split: sum.split)

text \<open>The pager: whether the buttons are disabled, and the range of films on the page.\<close>

definition pager :: "rat \<Rightarrow> FilmPage \<Rightarrow> bool \<times> bool \<times> rat \<times> rat" where
  "pager pageNo p =
     (pageNo \<le> 1, pageNo \<ge> of_int (browse_pages (Some p)), page_offset pageNo + 1,
      min (page_offset pageNo + of_int LIMIT) (of_int (fpg_total p)))"

section \<open>The film page\<close>

definition popularityLine :: "(int \<Rightarrow> string) \<Rightarrow> Film \<Rightarrow> string" where
  "popularityLine nf f =
     (if fi_popularityRank f \<le> 100
      then ''One of the 100 most-watched films here (#'' @ show_int (fi_popularityRank f) @ '')''
      else if fi_popularityRank f \<le> 1000
      then ''Popular '' @ mid_dot @ '' #'' @ nf (fi_popularityRank f) @ '' of 7,951''
      else ''#'' @ nf (fi_popularityRank f) @ '' of 7,951 by how often it was watched'')"

record film_page =
  fp_effect :: nat
  fp_film :: "Film option"
  fp_missing :: bool
  fp_more :: "(Unavailable + Recs) option"
  fp_receipt :: "Receipt option"
  fp_busy :: bool
  fp_notice :: "string option"
  fp_trace :: "Recs option"

definition film_effect :: "film_page \<Rightarrow> film_page" where
  "film_effect w =
     w\<lparr>fp_effect := Suc (fp_effect w), fp_film := None, fp_more := None, fp_receipt := None, fp_missing := False\<rparr>"

text \<open>An exception is an API error with its code, or another error; \<open>notice\<close> is its message.\<close>

definition film_failed :: "string option \<Rightarrow> string \<Rightarrow> film_page \<Rightarrow> film_page" where
  "film_failed code message w =
     (if code = Some ''not_found'' then w\<lparr>fp_missing := True\<rparr> else w\<lparr>fp_notice := Some message\<rparr>)"

definition film_answer :: "nat \<Rightarrow> (string option \<times> string) + Film \<Rightarrow> film_page \<Rightarrow> film_page" where
  "film_answer n r w =
     (if n \<noteq> fp_effect w then w
      else case r of Inr f \<Rightarrow> w\<lparr>fp_film := Some f\<rparr> | Inl (code, message) \<Rightarrow> film_failed code message w)"

definition more_answer :: "nat \<Rightarrow> (string option \<times> string) + Unavailable + Recs \<Rightarrow> film_page \<Rightarrow> film_page" where
  "more_answer n r w =
     (if n \<noteq> fp_effect w then w
      else case r of
        Inr (Inr recs) \<Rightarrow> w\<lparr>fp_more := Some (Inr recs), fp_trace := Some recs\<rparr>
      | Inr (Inl u) \<Rightarrow> w\<lparr>fp_more := Some (Inl u)\<rparr>
      | Inl (code, message) \<Rightarrow> film_failed code message w)"

definition already_watched :: "string set \<Rightarrow> Film \<Rightarrow> film_page \<Rightarrow> bool" where
  "already_watched watched f w =
     (fi_id f \<in> watched \<or> (case fp_receipt w of Some r \<Rightarrow> \<not> rcp_duplicate r | None \<Rightarrow> False))"

definition watch_pressed :: "film_page \<Rightarrow> film_page" where
  "watch_pressed w = w\<lparr>fp_busy := True\<rparr>"

definition watch_finished :: "string + Receipt \<Rightarrow> film_page \<Rightarrow> film_page" where
  "watch_finished r w =
     (case r of Inr receipt \<Rightarrow> w\<lparr>fp_receipt := Some receipt\<rparr> | Inl m \<Rightarrow> w\<lparr>fp_notice := Some m\<rparr>)\<lparr>fp_busy := False\<rparr>"

text \<open>The genre of the breadcrumb: its link and its label.\<close>

definition film_crumb :: "Film \<Rightarrow> string \<times> string" where
  "film_crumb f =
     (case fi_genres f of
        g # _ \<Rightarrow> (''/browse/'' @ encodeURIComponent g, g)
      | [] \<Rightarrow> (''/browse/'', ''Films''))"

definition receipt_line :: "Receipt \<Rightarrow> string" where
  "receipt_line r =
     (if rcp_duplicate r then ''This was already in your history.''
      else ''Saved to your history. See your updated picks '' @ [CHR 0xE2, CHR 0x86, CHR 0x92])"

section \<open>The home page\<close>

definition home_title :: "ReelPersona option \<Rightarrow> string" where
  "home_title p =
     (case p of
        Some x \<Rightarrow> if truthy (rpe_userId x) then ''Welcome back, '' @ rpe_name x else ''Find your next film''
      | None \<Rightarrow> ''Find your next film'')"

definition home_text :: "(int \<Rightarrow> string) \<Rightarrow> ReelPersona option \<Rightarrow> Film list \<Rightarrow> string" where
  "home_text nf p history =
     (let guest = ''Open any film and press '' @ left_quote @ ''I'' @ CHR 0x27 # ''ve watched this'' @ right_quote @ '' '' @ em_dash @
            '' your picks will start following your taste.'' in
      case p of
        Some x \<Rightarrow>
          if truthy (rpe_userId x)
          then ''Your picks are built from the '' @
            nf (if history = [] then rpe_historyLength x else int (length history)) @
            '' films in your history. Mark more films as watched and they'' @ CHR 0x27 # ''ll adapt.''
          else guest
      | None \<Rightarrow> guest)"

definition home_pending :: "reel \<Rightarrow> int" where
  "home_pending st = (if re_autoRefresh st then 0 else re_pending st)"

definition home_recent :: "reel \<Rightarrow> Film list" where
  "home_recent st = take 12 (re_history st)"

section \<open>Facts\<close>

lemma browse_update_first_page: "params_get ''page'' (browse_update patch False params) = None"
  by (simp add: browse_update_def params_get_def Let_def)

lemma patch_query_others:
  "k \<notin> fst ` set patch \<Longrightarrow> params_get k (patch_query patch params) = params_get k params"
proof (induction patch arbitrary: params)
  case (Cons p patch)
  then show ?case
    by (cases p) (auto simp: patch_query_def params_get_set, auto simp: params_get_def)
qed (simp add: patch_query_def)

text \<open>An answer to a press on one film marks another film as watched. The press is made on a page,
  another film is opened and loaded, and then the receipt for the first film comes: the page shows the
  other film as in the history, though it is not among the watched and the receipt is not for it;
  without that receipt it was not shown so.\<close>

lemma watched_of_another_film:
  assumes "\<not> rcp_duplicate r" "rcp_filmId r \<noteq> fi_id f" "fi_id f \<notin> watched"
  shows "let opened = film_answer (Suc (fp_effect w)) (Inr f) (film_effect (watch_pressed w));
             late = watch_finished (Inr r) opened
         in fp_film opened = Some f \<and> \<not> already_watched watched f opened \<and> fp_film late = Some f \<and>
            already_watched watched f late"
  using assms
  by (simp add: already_watched_def watch_finished_def film_answer_def film_effect_def watch_pressed_def)

text \<open>Heat was marked; Alien is on screen when the receipt comes.\<close>

definition a_film :: "string \<Rightarrow> Film" where
  "a_film i = \<lparr>fi_id = i, fi_title = i, fi_year = None, fi_genres = [], fi_tags = [], fi_popularity = 1,
     fi_popularityRank = 5, fi_tmdbId = None, fi_imdbId = None, fi_posterUrl = None\<rparr>"

definition heat_receipt :: Receipt where
  "heat_receipt = \<lparr>rcp_eventId = ''e1'', rcp_eventType = ''view'', rcp_filmId = ''heat'', rcp_accepted = True,
     rcp_duplicate = False, rcp_latencyMs = 8, rcp_feedback = None\<rparr>"

definition heat_page :: film_page where
  "heat_page = \<lparr>fp_effect = 1, fp_film = Some (a_film ''heat''), fp_missing = False, fp_more = None,
     fp_receipt = None, fp_busy = False, fp_notice = None, fp_trace = None\<rparr>"

theorem watched_of_another_film_witness:
  "already_watched {} (a_film ''alien'')
     (watch_finished (Inr heat_receipt) (film_answer 2 (Inr (a_film ''alien'')) (film_effect (watch_pressed heat_page))))"
  using watched_of_another_film [of heat_receipt "a_film ''alien''" "{}" heat_page]
  by (simp add: heat_receipt_def a_film_def heat_page_def numeral_2_eq_2 Let_def)

end
