(* ===== verification/ReelInsight.thy ===== *)
theory ReelInsight
  imports ReelBrowse WireTypes
begin

text \<open>
  The insight drawer of the Reel shop (\<open>components/Insight.tsx\<close>): the rows and lines of its six
  tabs, and the proof battery.
\<close>

definition arrow :: string where
  "arrow = [CHR 0xE2, CHR 0x86, CHR 0x92]"

definition left_arrow :: string where
  "left_arrow = [CHR 0xE2, CHR 0x86, CHR 0x90]"

definition times_mark :: string where
  "times_mark = [CHR 0xC3, CHR 0x97]"

section \<open>The insight drawer\<close>

definition TABS :: "(Tab \<times> string) list" where
  "TABS = [(tab_sequence, ''Sequence''), (tab_changes, ''Changes''), (tab_pipeline, ''Pipeline''),
     (tab_trace, ''Trace''), (tab_status, ''Status''), (tab_proof, ''Proof'')]"

text \<open>The sequence tab: its explanation, the items with their classes and hover texts, the receipts.
  \<open>locale_date\<close> is the date of a number of seconds in the locale; \<open>str\<close> is \<open>String\<close> on a number.\<close>

definition sequence_explain :: "ReelSequence option \<Rightarrow> string" where
  "sequence_explain q =
     (if (case q of Some s \<Rightarrow> rsq_sessionOnly s | None \<Rightarrow> False)
      then ''Anonymous: this session'' @ CHR 0x27 # ''s films are sent with each request as recent_product_ids.''
      else ''DGSR builds this shopper'' @ CHR 0x27 # ''s subgraph from their last 20 interactions. Each new event enters on the right and pushes the oldest out.'')"

definition sequence_rows :: "(int \<Rightarrow> string) \<Rightarrow> ReelSequence \<Rightarrow> (string \<times> string \<times> string) list" where
  "sequence_rows locale_date q =
     map (\<lambda>i. ((case sq_origin i of or_live \<Rightarrow> ''live'' | or_training \<Rightarrow> ''training'') @ '' '' @ (if sq_evicted i then ''evicted'' else []),
               fi_title (sq_film i) @ '' '' @ mid_dot @ '' '' @ locale_date (sq_time i) @ '' '' @ mid_dot @ '' '' @
                 (case sq_origin i of or_live \<Rightarrow> ''live demo event'' | or_training \<Rightarrow> ''training history''),
               fi_title (sq_film i))) (rsq_items q)"

definition receipt_rows :: "(rat \<Rightarrow> string) \<Rightarrow> Receipt list \<Rightarrow> string list" where
  "receipt_rows str receipts =
     map (\<lambda>r. (if rcp_duplicate r then ''duplicate'' else ''accepted'') @ '' '' @ rcp_eventType r @ '' '' @ mid_dot @
               '' film '' @ rcp_filmId r @ '' '' @ mid_dot @ '' '' @ rcp_eventId r @ '' '' @ mid_dot @ '' '' @
               str (rcp_latencyMs r) @ '' ms'') (take 6 receipts)"

definition in_window :: "ReelSequence \<Rightarrow> nat" where
  "in_window q = length (filter sq_inWindow (rsq_items q))"

definition changes_summary :: "Recs \<Rightarrow> string" where
  "changes_summary home =
     (if di_hasPrevious (rc_diff home) then di_summary (rc_diff home)
      else ''First list for this shopper. Watch a film, then press Update recommendations.'')"

definition change_rows :: "Recs \<Rightarrow> (int \<times> string \<times> string \<times> string) list" where
  "change_rows home =
     map (\<lambda>i. (ra_position i, fi_title i, js_join ('' '' @ mid_dot @ '' '') (take 3 (fi_genres i)),
               if ra_change i = ch_new then ''new''
               else case ra_previousPosition i of Some p \<Rightarrow> show_int p | None \<Rightarrow> en_dash)) (rc_items home)"

definition STAGE_LABEL :: "(string \<times> string) list" where
  "STAGE_LABEL = [(''query'', ''Query''), (''retrieval'', ''Retrieval''), (''eligibility'', ''Eligibility''),
     (''scoring'', ''Scoring''), (''rerank'', ''Re-rank''), (''guarantee'', ''Guarantee'')]"

definition SOURCE_LABEL :: "(string \<times> string) list" where
  "SOURCE_LABEL = [(''dgsr_personalized'', ''DGSR personalized''), (''session_neighbors'', ''Session neighbors''),
     (''popular_in_category'', ''Popular in category''), (''trending'', ''Trending''), (''last_good'', ''Last good list'')]"

definition SOURCE_ORDER :: "string list" where
  "SOURCE_ORDER = [''dgsr_personalized'', ''session_neighbors'', ''popular_in_category'', ''trending'']"

definition fmt_score :: "rat option \<Rightarrow> nat \<Rightarrow> string" where
  "fmt_score v d = (case v of None \<Rightarrow> em_dash | Some x \<Rightarrow> to_fixed d x)"

definition counted_stages :: "Explain \<Rightarrow> ExplainStage list" where
  "counted_stages x = filter (\<lambda>s. es_name s \<noteq> ''query'') (ex_stages x)"

definition widest :: "Explain \<Rightarrow> int" where
  "widest x = fold max (map es_count (counted_stages x)) 1"

definition funnel_rows :: "Explain \<Rightarrow> (string \<times> rat \<times> int \<times> string) list" where
  "funnel_rows x =
     map (\<lambda>s. (or_else (map_of STAGE_LABEL (es_name s)) (es_name s),
               max 4 (of_int (es_count s) / of_int (widest x) * 100), es_count s, fmt_score (Some (es_ms s)) 1 @ '' ms''))
       (counted_stages x)"

definition source_rank :: "string \<Rightarrow> rat" where
  "source_rank name = of_int (find_index (\<lambda>n. n = name) SOURCE_ORDER)"

definition source_warns :: "string \<Rightarrow> bool" where
  "source_warns status =
     (js_includes status ''error'' \<or> js_includes status ''timeout'' \<or> js_includes status ''unavailable'')"

text \<open>\<open>s.replace("->", " \<rightarrow> ")\<close>: the first arrow only.\<close>

fun status_text :: "string \<Rightarrow> string" where
  "status_text [] = []"
| "status_text (c # cs) = (if starts_with (c # cs) ''->'' then '' '' @ arrow @ '' '' @ drop 1 cs else c # status_text cs)"

definition source_rows :: "Explain \<Rightarrow> (string \<times> bool \<times> string \<times> int \<times> string) list" where
  "source_rows x =
     map (\<lambda>(name, s). (or_else (map_of SOURCE_LABEL name) name, source_warns (eso_status s), status_text (eso_status s), eso_count s,
                         fmt_score (Some (eso_ms s)) 1))
       (js_sort (\<lambda>a b. source_rank (fst a) - source_rank (fst b)) (ex_sources x))"

definition scoring_line :: "Explain \<Rightarrow> string" where
  "scoring_line x =
     (let w = map_of (ex_weights x) in
      ''final = '' @ fmt_score (w ''model'') 2 @ '' '' @ times_mark @ '' DGSR percentile + '' @ fmt_score (w ''popularity'') 2 @
      '' '' @ times_mark @ '' popularity percentile + '' @ fmt_score (w ''agreement'') 2 @ '' '' @ times_mark @
      '' source agreement '' @ mid_dot @
      '' MMR diversity '' @ fmt_score (Some (ex_diversity x)) 2)"

text \<open>The short name of a source: the first letters of its words.\<close>

definition source_short :: "string \<Rightarrow> string" where
  "source_short x = concat (map (take 1) (js_split CHR '' '' (or_else (map_of SOURCE_LABEL x) x)))"

text \<open>The row of a candidate: its place before re-ranking, name, anchor and sources, the scores, and
  the place shown.\<close>

record CandidateRow =
  cr_rank :: "int option"
  cr_name :: string
  cr_anchor :: string
  cr_sources :: "string list"
  cr_scores :: "string list"
  cr_picked :: bool
  cr_shown :: string

definition shown_positions :: "Recs \<Rightarrow> string \<rightharpoonup> int" where
  "shown_positions recs = map_of (rev (map (\<lambda>i. (fi_id i, ra_position i)) (rc_items recs)))"

definition candidate_row :: "Recs \<Rightarrow> ExplainCandidate \<Rightarrow> CandidateRow" where
  "candidate_row recs c =
     (let pos = or_else (shown_positions recs (ec_external_product_id c)) 0 in
      \<lparr>cr_rank = ec_rank_before_rerank c,
       cr_name = or_else (ec_title c) (ec_external_product_id c),
       cr_anchor = (if truthy (ec_anchor_title c) then '' '' @ left_arrow @ '' '' @ the (ec_anchor_title c) else []),
       cr_sources = map source_short (ec_sources c),
       cr_scores = [fmt_score (ec_model_norm c) 2, fmt_score (ec_popularity_norm c) 2, fmt_score (ec_agreement c) 2,
         fmt_score (ec_final c) 3],
       cr_picked = (pos \<noteq> 0),
       cr_shown = (if pos \<noteq> 0 then ''#'' @ show_int pos else [])\<rparr>)"

definition candidate_rows :: "Recs \<Rightarrow> Explain \<Rightarrow> CandidateRow list" where
  "candidate_rows recs x = map (candidate_row recs) (ex_candidates x)"

text \<open>What the pipeline tab shows: nothing yet, no trace, or the funnel with its total, and the sources
  and scores when a source ran.\<close>

datatype PipelineView =
    No_Request
  | No_Trace
  | Funnel string "(string \<times> rat \<times> int \<times> string) list" "((string \<times> bool \<times> string \<times> int \<times> string) list \<times> string \<times> CandidateRow list) option"

definition PipelineTab :: "Recs option \<Rightarrow> PipelineView" where
  "PipelineTab lastTrace =
     (case lastTrace of
        None \<Rightarrow> No_Request
      | Some recs \<Rightarrow>
          (case tr_explain (rc_trace recs) of
             None \<Rightarrow> No_Trace
           | Some x \<Rightarrow> Funnel (fmt_score (Some (ex_total_ms x)) 1) (funnel_rows x)
               (if ex_sources x = [] then None else Some (source_rows x, scoring_line x, candidate_rows recs x))))"

text \<open>The trace tab: request and answer as the JSON shown. An optional member that is absent prints
  like one that is null.\<close>

definition json_opt :: "string option \<Rightarrow> json" where
  "json_opt x = (case x of Some s \<Rightarrow> JStr s | None \<Rightarrow> JNull)"

definition trace_request :: "Trace \<Rightarrow> json" where
  "trace_request t =
     (let q = tr_request t in
      JObj [(''endpoint'', JStr (tq_endpoint q)), (''user_id'', json_opt (tq_userId q)), (''top_n'', JNum (of_int (tq_topN q))),
        (''context.recent_product_ids'', JArr (map JStr (tq_recentProductIds q))),
        (''exclude_product_ids'', JNum (of_int (tq_excludeCount q)))])"

definition trace_item :: "Ranked \<Rightarrow> json" where
  "trace_item i =
     JObj ([(''position'', JNum (of_int (ra_position i))), (''external_product_id'', JStr (fi_id i)), (''title'', JStr (fi_title i))] @
       (if truthy (ra_reason i)
        then [(''reason'', json_opt (ra_reason i))] @
          (case ra_sources i of Some xs \<Rightarrow> [(''sources'', JArr (map JStr xs))] | None \<Rightarrow> []) @
          (case ra_score i of Some x \<Rightarrow> [(''score'', JNum x)] | None \<Rightarrow> [])
        else []))"

definition trace_response :: "Recs \<Rightarrow> json" where
  "trace_response recs =
     (let t = rc_trace recs in
      JObj [(''request_id'', JStr (tr_requestId t)), (''pipeline'', json_opt (tr_pipeline t)),
        (''diversity'', case tr_diversity t of Some d \<Rightarrow> JNum d | None \<Rightarrow> JNull),
        (''model_version_id'', json_opt (tr_modelVersionId t)), (''strategy'', JStr (tr_strategy t)),
        (''fallback_used'', JBool (tr_fallbackUsed t)), (''fallback_tier'', JStr (tr_fallbackTier t)),
        (''applied_rules'', JArr (map JStr (tr_appliedRules t))), (''items'', JArr (map trace_item (rc_items recs)))])"

definition servedBy :: "Recs option \<Rightarrow> ReelStatus \<Rightarrow> string" where
  "servedBy lastTrace s =
     (case lastTrace of
        None \<Rightarrow> ''no list yet''
      | Some r \<Rightarrow>
          (let v = tr_modelVersionId (rc_trace r) in
           if truthy v
           then (if v = rst_modelVersionId s \<and> truthy (rst_modelVersionTag s) then the (rst_modelVersionTag s)
                 else take 8 (the v) @ ellipsis)
           else ''popular fallback (no model)''))"

text \<open>The remaining lines of the status tab; \<open>nf\<close> prints a count in the locale.\<close>

definition set_up_with :: "ReelStatus \<Rightarrow> string" where
  "set_up_with s =
     (if truthy (rst_modelVersionTag s) then the (rst_modelVersionTag s)
      else if truthy (rst_modelVersionId s) then the (rst_modelVersionId s) else ''unknown'')"

definition model_rows :: "(int \<Rightarrow> string) \<Rightarrow> ReelStatus \<Rightarrow> (string \<times> string) list" where
  "model_rows nf s =
     (case rst_modelCard s of
        Some c \<Rightarrow>
          [(''Model'', ''DGSR '' @ mid_dot @ '' imported offline checkpoint''),
           (''Checkpoint'', take 12 (mc_checkpointSha256 c) @ ellipsis),
           (''Trained on'', mc_dataset c @ '' cohort '' @ mid_dot @ '' '' @ nf (mc_users c) @ '' users '' @ mid_dot @ '' '' @
              nf (mc_films c) @ '' films '' @ mid_dot @ '' '' @ nf (mc_interactions c) @ '' ratings''),
           (''Config'', ''dim '' @ show_int (mc_embeddingDim c) @ '' '' @ mid_dot @ '' '' @ show_int (mc_layers c) @ '' layers '' @
              mid_dot @ '' window '' @ show_int (mc_recentItems c) @ '' '' @ mid_dot @ '' '' @
              show_int (mc_itemNeighborLimit c) @ '' raters per film'')]
      | None \<Rightarrow> [(''Model'', ''DGSR '' @ mid_dot @ '' trained by GraphRec on this store'' @ CHR 0x27 # ''s own events'')])"

definition readiness_rows :: "ReelStatus \<Rightarrow> (bool \<times> string) list" where
  "readiness_rows s = map (\<lambda>(k, v). (v = ''ok'', k @ '': '' @ v)) (or_else (rst_readiness s) [])"

text \<open>Per kind of feedback the successes and, when there are any, the failures.\<close>

definition feedback_rows :: "ReelStatus \<Rightarrow> (string \<times> string \<times> string option) list" where
  "feedback_rows s =
     map (\<lambda>(kind, success, failure).
            (kind, show_int success @ '' ok'', if failure > 0 then Some (show_int failure @ '' fail'') else None))
       (or_else (rst_feedbackHealth s) [])"

definition metric_line :: "(rat option \<Rightarrow> string) \<Rightarrow> Metric \<Rightarrow> string" where
  "metric_line str m =
     (case me_recall10 m of
        Some r \<Rightarrow> ''Recall@10 '' @ to_fixed 2 (r * 100) @ ''%''
      | None \<Rightarrow> ''Hit@10 '' @ str (me_hit10 m) @ '' '' @ mid_dot @ '' NDCG@10 '' @ str (me_ndcg10 m))"

text \<open>The proof battery.\<close>

record proof_tab =
  pt_report :: "ProofReport option"
  pt_loading :: bool
  pt_expanded :: "string set"

definition proof_first :: proof_tab where
  "proof_first = \<lparr>pt_report = None, pt_loading = False, pt_expanded = {}\<rparr>"

definition proof_latest :: "ProofReport option option \<Rightarrow> proof_tab \<Rightarrow> proof_tab" where
  "proof_latest r t = t\<lparr>pt_report := (case r of Some report \<Rightarrow> report | None \<Rightarrow> None)\<rparr>"

definition runBattery :: "proof_tab \<Rightarrow> proof_tab" where
  "runBattery t = t\<lparr>pt_loading := True\<rparr>"

definition battery_answer :: "ProofReport option \<Rightarrow> proof_tab \<Rightarrow> proof_tab" where
  "battery_answer r t =
     (case r of Some report \<Rightarrow> t\<lparr>pt_report := Some report\<rparr> | None \<Rightarrow> t)\<lparr>pt_loading := False\<rparr>"

definition toggleExpand :: "string \<Rightarrow> proof_tab \<Rightarrow> proof_tab" where
  "toggleExpand i t =
     t\<lparr>pt_expanded := (if i \<in> pt_expanded t then pt_expanded t - {i} else insert i (pt_expanded t))\<rparr>"

definition proof_badge :: "ProofBatterySummary \<Rightarrow> string" where
  "proof_badge s =
     (if pb_failed_checks s = 0 then ''19/19 Verified''
      else show_int (pb_passed_checks s) @ ''/'' @ show_int (pb_total_checks s) @ '' Degraded'')"

definition battery_rows :: "ProofBatterySummary \<Rightarrow> (string \<times> string) list" where
  "battery_rows s =
     [(''Run ID'', pb_run_id s), (''Profile'', pb_profile s),
      (''Total Latency'', to_fixed 1 (pb_total_duration_ms s) @ '' ms''),
      (''Success Rate'', to_fixed 1 (pb_success_rate s * 100) @ ''%'')]"

text \<open>A check of the report: its id, name, detail, verdict and time, and its evidence when it is open.\<close>

definition check_rows :: "proof_tab \<Rightarrow> (string \<times> string \<times> string option \<times> string \<times> string \<times> json option) list" where
  "check_rows t =
     (case pt_report t of
        None \<Rightarrow> []
      | Some report \<Rightarrow>
          map (\<lambda>c. (pc_id c, pc_name c, if truthy (pc_detail c) then pc_detail c else None,
                     if pc_passed c then ''PASS'' else ''FAIL'', to_fixed 1 (pc_duration_ms c),
                     if pc_id c \<in> pt_expanded t then Some (JObj (pc_evidence c)) else None)) (pr_checks report))"

definition never_run :: "proof_tab \<Rightarrow> bool" where
  "never_run t = (pt_report t = None \<and> \<not> pt_loading t)"

section \<open>Facts\<close>

lemma widest_bound: "s \<in> set (counted_stages x) \<Longrightarrow> es_count s \<le> widest x"
  and widest_pos: "1 \<le> widest x"
  by (auto simp: widest_def Max.set_eq_fold [symmetric] simp flip: Max_insert)


text \<open>The bars of the funnel fit.\<close>

lemma funnel_width: "row \<in> set (funnel_rows x) \<Longrightarrow> 4 \<le> fst (snd row) \<and> fst (snd row) \<le> 100"
  using widest_pos [of x]
  by (auto simp: funnel_rows_def field_simps dest!: widest_bound)

lemma toggle_twice: "toggleExpand i (toggleExpand i t) = t"
  by (cases t) (auto simp: toggleExpand_def)

end
