(* ===== verification/Spec2Isabelle.thy ===== *)
theory Spec2Isabelle
  imports ApiEndpoints Scopes Plans Resource Hooks RouteProps ConsoleRules ConsoleAccess ConsoleSignIn ConsoleEvents
    ConsoleTeam ConsoleUsage ConsoleModels ConsoleOperators ConsoleAudit ConsoleHome ConsoleService ConsoleKit
    ConsoleShell ConsoleDetail Marketing SdkCalls
    FacetProps FacetClaims FacetMore ReelProps ReelInsight
begin

text \<open>
  A model of the browser side of GraphRec, a recommendation service for shops: the console
  (\<open>web/src/\<close>), which tenants and platform operators use, and the two demonstration shops
  (\<open>archive/demo-storefront/frontend/src/\<close>, called Facet, and \<open>apps/reel-storefront/frontend/src/\<close>, called Reel),
  which show its recommendations. All are single-page React programs in TypeScript that talk JSON over HTTP
  to a server written in another language.

  \<^bold>\<open>How the parts interact.\<close> Every page of the console asks for its data by \<open>useResource\<close> (\<open>Resource\<close>) with
  a call of the endpoint table (\<open>ApiEndpoints\<close>); the call goes through the HTTP client (\<open>HttpClient\<close>), which
  adds the token of the realm's session (\<open>Session\<close>), shares reads in flight, refreshes an expired token once
  for all who wait, and ends the session on an answer that says so. The router and its guards (\<open>Routes\<close>)
  decide by the session which page is shown, the menus and the command palette (\<open>Navigation\<close>) what is
  offered. Forms and dialogs (\<open>ConsoleForms\<close>, \<open>ConsoleAccess\<close>) run one handler at a time; what they send is
  an \<open>ApiCall\<close>, the value the endpoint table makes. The shops keep one store each (\<open>FacetStore\<close>, \<open>ReelStore\<close>)
  whose effects reload shelves when persona or settings change.

  \<^bold>\<open>Theories and sources.\<close>
  \<^item> \<open>Prelude\<close>, \<open>JsNumber\<close>, \<open>JsSort\<close>, \<open>UrlCoding\<close>, \<open>Paging\<close>: the parts of the language and its library the programs
    use (strings, arrays, stable sort, JSON values, \<open>Number\<close>, \<open>toFixed\<close>, \<open>encodeURIComponent\<close>, \<open>URLSearchParams\<close>).
  \<^item> \<open>WireAuth\<close>, \<open>WireTypes\<close>, \<open>WireOps\<close>: \<open>api/types.ts\<close>, a record or datatype for each type.
  \<^item> \<open>Session\<close>: \<open>auth/session.ts\<close>. \<open>HttpClient\<close>: \<open>api/client.ts\<close>, one handler per stretch of code between two awaits;
    \<open>ClientRuns\<close> its runs and their invariant, \<open>ClientProps\<close> and \<open>ClientAuth\<close> its properties. \<open>ApiEndpoints\<close>: \<open>api/index.ts\<close>.
  \<^item> \<open>Quota\<close>, \<open>Scopes\<close>, \<open>Format\<close>, \<open>Labels\<close>: \<open>lib/\<close>. \<open>Resource\<close>, \<open>Hooks\<close>: \<open>hooks/\<close>. \<open>Plans\<close>: \<open>marketing/\<close>.
  \<^item> \<open>Navigation\<close>, \<open>Routes\<close>, \<open>RouteProps\<close>: \<open>App.tsx\<close>, \<open>layouts/\<close>, \<open>ui/CommandPalette.tsx\<close>.
  \<^item> The pages of tenants: \<open>ConsoleForms\<close>, \<open>ConsoleRules\<close>, \<open>ConsoleCatalog\<close>, \<open>ConsoleEvents\<close>, \<open>ConsoleAccess\<close>, \<open>ConsoleSignIn\<close>,
    \<open>ConsoleTraining\<close>, \<open>ConsoleModels\<close>, \<open>ConsoleTeam\<close>, \<open>ConsoleUsage\<close>, \<open>ConsoleAudit\<close>, \<open>ConsoleHome\<close>, \<open>ConsoleService\<close>. Of operators: \<open>ConsoleLimits\<close>,
    \<open>ConsoleTenants\<close>, \<open>ConsoleOperators\<close>, \<open>ConsoleAudit\<close>. Each names its files.
  \<^item> \<open>ConsoleShell\<close>: the frame of the console in \<open>layouts/Layouts.tsx\<close>, and the workspace's id in the token.
  \<^item> \<open>ConsoleDetail\<close>: the rows and notices of \<open>tenant/ModelsPages.tsx\<close>, the pages of a version and of a tenant.
  \<^item> \<open>ConsoleKit\<close>: the building blocks of pages in \<open>ui/\<close>. \<open>Marketing\<close>: the public site in \<open>pages/marketing/\<close>, \<open>MarketingLayout.tsx\<close>,
    and the error pages. \<open>DocsSite\<close>, \<open>DocsSdk\<close>, \<open>DocsTables\<close>: the documentation in \<open>docs/\<close> and \<open>pages/docs/\<close>; \<open>DocsCalls\<close> holds the
    calls of the console against it. \<open>SdkTables\<close>, \<open>SdkPlatform\<close>: the reference of the SDK; \<open>SdkCalls\<close> holds it against the
    documented endpoints and the vocabularies of the console. \<open>JsObject\<close>: inherited members and the remainder of whole numbers.
  \<^item> Facet: \<open>FacetTypes\<close>, \<open>FacetLib\<close>, \<open>FacetStore\<close>, \<open>FacetPages\<close>, \<open>FacetMore\<close>, properties in \<open>FacetProps\<close>, \<open>FacetClaims\<close>.
    Reel: \<open>ReelTypes\<close>, \<open>ReelStore\<close>, \<open>ReelApi\<close>, \<open>ReelPages\<close>, \<open>ReelBrowse\<close>, \<open>ReelInsight\<close>, properties in \<open>ReelProps\<close>, \<open>ReelBrowse\<close>.

  \<^bold>\<open>Conventions.\<close> A component is a record of its React state and one definition per handler or effect, from
  its guard to its last assignment; a handler that awaits an answer is two definitions, up to the request
  and from the answer on, so that anything may happen in between. What is thrown or returned as a message is
  the left side of a sum. A request is the value the endpoint table makes of it. Markup is left out: a
  definition gives the texts, links, switches and rows a page shows. Numbers are \<open>int\<close>, or \<open>rat\<close> where the code
  divides or reads a number, exact where the program has doubles; texts are the bytes of their UTF-8 form, and lengths that a form checks
  count UTF-16 units (\<open>js_length\<close>); what is parsed or printed in the browser's locale, clocks, random identifiers, JSON parsing
  of free text and \<open>localeCompare\<close> are parameters, with what the code relies on as hypotheses.

  \<^bold>\<open>Interfaces.\<close> \<open>realm_store\<close> (a store of sessions), \<open>percent_code\<close> (an encoding decodes), \<open>latest_wins\<close> (only the
  newest request is shown; resource, two shops' shelves, browse page), \<open>paging\<close>, \<open>one_at_a_time\<close> (forms, dialogs),
  \<open>acknowledged_limits\<close> (the four dialogs that change limits), \<open>total_comparator\<close>. Each is interpreted
  on the definitions of the model that provide it.

  \<^bold>\<open>What the theorems show.\<close> The client: one refresh at a time, every call settles, no answer reaches another
  identity, a 401 ends only its own session. Routing: no page without its session and scope, no redirect
  loop; the menus of tenants offer what opens, the operators' guards know no roles. Resources: what is shown answers the newest
  question. Endpoints: an identifier brings no delimiter into a path and two never share one (the segments \<open>.\<close> and \<open>..\<close> are left as
  they are, and a browser resolves them), queries decode to what was asked. Shops: one cart per persona, a refinement of an abstract
  shop; the shelf answers the newest request. Console pages: what is sent is what was typed and
  allowed, secrets and one-time links, limits below use only after a warning of them,
  the protected rollback target. Audit pages come in order and each record once, under conditions that the theorem names; records of
  the very time of the last one of a page are passed over by the server's cursor (\<open>same_time_lost\<close>). Overview and service status: every issue found is listed, and what a
  green or red head means. Public site and documentation: their links lead to pages the visitor may open, tables
  without missing cells, searches whose selection is always one of the results shown; every call of the console is a documented one, but for
  the sign-in of operators, which is documented as needing a token and is sent without one; every route of the SDK is documented.
  Several theorems state a flaw as the
  code has it: a renewal of the token that fails a pending read, a refresh that overrides a newer
  session or stores a broken one, older audit records of another filter, an endless reload of the plan, a renewal that loses a
  new secret, a purchase that empties another shopper's cart, links of the
  documentation that lead to no heading.

  \<^bold>\<open>Bounds and fuel.\<close> Loops are structural recursion or have a measure; the fuel of the redirect chain is shown to
  suffice by \<open>navigation_settles\<close>, and that four answers settle a call by \<open>request_settles\<close>.

  \<^bold>\<open>Not modelled.\<close> Markup, styles and animation, icons; the articles and example texts of
  the documentation, and the declarations generated
  from the API schema; test code; the design prototypes' vendored runtime; the server and the
  SDK, which are in Python, but for the page of the audit trail (\<open>server_page\<close>). The manifest lists them.
\<close>

section \<open>Properties that span components\<close>

text \<open>C34: every row of a paged list is on exactly one page, for the console's products and for the films
  of the Reel shop. On a page that exists, the console's pager names the first and last row of the
  page, which are rows of the list; \<open>Previous\<close> is off exactly on the first and \<open>Next\<close> exactly on the
  page that ends with the list; on a page past the end, which a URL can name, it names a first row
  after the last.\<close>

theorem pager_rows:
  assumes "0 \<le> k" "k < rows"
  shows "(\<exists>!n. 1 \<le> n \<and> n \<le> products_pages rows \<and> products_offset n \<le> k \<and> k < products_offset n + PAGE_SIZE) \<and>
    (\<exists>!n. 1 \<le> n \<and> n \<le> browse_pages (Some (films_of rows)) \<and> page_offset (of_int n) \<le> of_int k \<and>
       of_int k < page_offset (of_int n) + of_int LIMIT) \<and>
    (\<forall>n. 1 \<le> n \<longrightarrow>
       (let (first, last, pages, prev_off, next_off) = products_pager n rows False in
        first = products_offset n + 1 \<and> (n \<le> pages \<longrightarrow> first \<le> last \<and> last \<le> rows \<and> (next_off = (last = rows))) \<and>
        (prev_off = (n = 1)) \<and> (pages < n \<longrightarrow> last < first)))"
proof (intro conjI allI impI)
  show "\<exists>!n. 1 \<le> n \<and> n \<le> products_pages rows \<and> products_offset n \<le> k \<and> k < products_offset n + PAGE_SIZE"
    using product_paging.row_page [OF assms] by (simp add: products_offset_def distrib_right left_diff_distrib)
  have "page_offset (of_int n) \<le> of_int k \<and> (of_int k :: rat) < page_offset (of_int n) + of_int LIMIT \<longleftrightarrow>
      (n - 1) * LIMIT \<le> k \<and> k < n * LIMIT" for n
  proof -
    have "page_offset (of_int n) = of_int ((n - 1) * LIMIT)" by (simp add: page_offset_def)
    moreover have "of_int ((n - 1) * LIMIT) + of_int LIMIT = (of_int (n * LIMIT) :: rat)" by (simp add: algebra_simps)
    ultimately show ?thesis by (simp only: of_int_le_iff of_int_less_iff)
  qed
  then show "\<exists>!n. 1 \<le> n \<and> n \<le> browse_pages (Some (films_of rows)) \<and> page_offset (of_int n) \<le> of_int k \<and>
       of_int k < page_offset (of_int n) + of_int LIMIT"
    using film_paging.row_page [OF assms] by simp
  fix n :: int
  assume n: "1 \<le> n"
  have pos: "0 < rows" using assms by simp
  show "let (first, last, pages, prev_off, next_off) = products_pager n rows False in
        first = products_offset n + 1 \<and> (n \<le> pages \<longrightarrow> first \<le> last \<and> last \<le> rows \<and> (next_off = (last = rows))) \<and>
        (prev_off = (n = 1)) \<and> (pages < n \<longrightarrow> last < first)"
    using product_paging.page_rows [OF pos n] product_paging.page_exists [of n rows] pos n
    by (auto simp: products_pager_def products_offset_def PAGE_SIZE_def Let_def)
qed

theorem pager_rows_witness:
  "\<exists>!n. 1 \<le> n \<and> n \<le> products_pages 120 \<and> products_offset n \<le> 100 \<and> 100 < products_offset n + PAGE_SIZE"
  using pager_rows [of 100 120] by simp

text \<open>C35: links carry their token, and signing in leads back. The link of a registration and that of an
  invitation, opened in a browser, fill the setup page with exactly the token they were made for, which is
  then taken out of the address. A visitor whom a guard sends to sign in is afterwards led to the page they
  asked for, or to the first page when they had signed out themselves or that page is not one of the
  console; whatever is asked for, the way leads to a path of this site.\<close>

theorem setup_and_sign_in:
  "(CHR ''#'' \<notin> set origin \<longrightarrow>
      su_token (setup_first (dropWhile (\<lambda>c. c \<noteq> CHR ''#'') (setupLink origin t)) email) = t \<and>
      (us_invitation w = Some i \<longrightarrow>
         su_token (setup_first (dropWhile (\<lambda>c. c \<noteq> CHR ''#'') (invitation_link origin w)) email) = tui_setup_token i)) \<and>
   snd (forget_token (c # cs) (path0, hash0)) = [] \<and>
   (fst (RequireTenant_guard v) = Some (Redirects to from0) \<longrightarrow>
      to = ''/login'' \<and>
      (let p = v_pathname v @ v_search v in
       snd (snd (login_answer n (safeReturn from0) (Inr pair) (f, b))) =
         Some (if v_signed_out v \<or> \<not> starts_with p ''/'' \<or> starts_with p ''//'' \<or> starts_with p ''/admin'' then ''/home'' else p))) \<and>
   (snd (snd (login_answer n (safeReturn from1) r (f, b))) = Some target \<longrightarrow>
      (\<exists>rest. target = CHR ''/'' # rest \<and> \<not> starts_with rest ''/'' \<and> \<not> starts_with target ''/admin''))"
proof (intro conjI impI)
  assume o: "CHR ''#'' \<notin> set origin"
  have cut: "dropWhile (\<lambda>c. c \<noteq> CHR ''#'') (origin @ ''/setup#'' @ r) = CHR ''#'' # r"
    "dropWhile (\<lambda>c. c \<noteq> CHR ''#'') (origin @ ''/invite/accept#'' @ r) = CHR ''#'' # r" for r
    using o by (subst dropWhile_append2, auto)+
  show "su_token (setup_first (dropWhile (\<lambda>c. c \<noteq> CHR ''#'') (setupLink origin t)) email) = t"
    using cut(1) [of "''token='' @ encodeURIComponent t"] token_of_link [of t] by (simp add: setupLink_def setup_first_def)
  assume "us_invitation w = Some i"
  then show "su_token (setup_first (dropWhile (\<lambda>c. c \<noteq> CHR ''#'') (invitation_link origin w)) email) = tui_setup_token i"
    using cut(2) [of "''token='' @ encodeURIComponent (tui_setup_token i)"] token_of_link [of "tui_setup_token i"]
    by (simp add: invitation_link_def setup_first_def)
next
  show "snd (forget_token (c # cs) (path0, hash0)) = []" by (simp add: forget_token_def)
next
  assume g: "fst (RequireTenant_guard v) = Some (Redirects to from0)"
  then have from0: "to = ''/login''" "from0 = (if v_signed_out v then None else Some (v_pathname v @ v_search v))"
    by (auto simp: RequireTenant_guard_def split: option.splits if_splits)
  then show "to = ''/login''" by simp
  show "let p = v_pathname v @ v_search v in
       snd (snd (login_answer n (safeReturn from0) (Inr pair) (f, b))) =
         Some (if v_signed_out v \<or> \<not> starts_with p ''/'' \<or> starts_with p ''//'' \<or> starts_with p ''/admin'' then ''/home'' else p)"
    by (simp add: login_answer_def from0(2) safeReturn_def Let_def)
next
  assume "snd (snd (login_answer n (safeReturn from1) r (f, b))) = Some target"
  then have "target = safeReturn from1" by (simp add: login_answer_def split: sum.splits)
  with safeReturn_local [of from1] show "\<exists>rest. target = CHR ''/'' # rest \<and> \<not> starts_with rest ''/'' \<and> \<not> starts_with target ''/admin''"
    by simp
qed

theorem setup_and_sign_in_witness:
  "su_token (setup_first (dropWhile (\<lambda>c. c \<noteq> CHR ''#'') (setupLink ''https://c'' ''a&b=#1'')) None) = ''a&b=#1''"
proof -
  have "CHR ''#'' \<notin> set ''https://c''" by simp
  with setup_and_sign_in [of "''https://c''" "''a&b=#1''" None] show ?thesis by blast
qed

end
